(* ===== verification/Prelude.thy ===== *)
theory Prelude
  imports Main "HOL-Library.AList"
begin

text \<open>
  Shared vocabulary of the development. Python control flow that may raise is a value of
  the sum type \<open>'e + 'a\<close> (\<open>Inl\<close> the exception); \<open>bindE\<close> sequences two such computations,
  \<open>ensure\<close> is a guard that raises, \<open>forE\<close> and \<open>mapE\<close> are the loops that stop at the first
  exception. A Python dict is an association list in insertion order: \<open>map_of\<close> reads it,
  \<open>AList.update\<close> stores (keeping the position of a key that is already there, as Python
  does) and \<open>AList.delete\<close> removes. The collections below gather the rewriting rules that
  the component theories use.
\<close>

named_theorems exn_simps \<open>rules for computations that may raise\<close>
named_theorems dict_simps \<open>rules for dictionaries in insertion order\<close>

type_synonym ('k, 'v) dict = "('k \<times> 'v) list"

section \<open>Computations that may raise\<close>

definition bindE :: "'e + 'a \<Rightarrow> ('a \<Rightarrow> 'e + 'b) \<Rightarrow> 'e + 'b" where
  "bindE m f = (case m of Inl e \<Rightarrow> Inl e | Inr x \<Rightarrow> f x)"

definition ensure :: "bool \<Rightarrow> 'e \<Rightarrow> 'e + unit" where
  "ensure b e = (if b then Inr () else Inl e)"

definition mapErr :: "('e \<Rightarrow> 'f) \<Rightarrow> 'e + 'a \<Rightarrow> 'f + 'a" where
  "mapErr h m = (case m of Inl e \<Rightarrow> Inl (h e) | Inr x \<Rightarrow> Inr x)"

fun forE :: "('a \<Rightarrow> 'e + unit) \<Rightarrow> 'a list \<Rightarrow> 'e + unit" where
  "forE f [] = Inr ()"
| "forE f (x # xs) = bindE (f x) (\<lambda>_. forE f xs)"

fun mapE :: "('a \<Rightarrow> 'e + 'b) \<Rightarrow> 'a list \<Rightarrow> 'e + 'b list" where
  "mapE f [] = Inr []"
| "mapE f (x # xs) = bindE (f x) (\<lambda>y. bindE (mapE f xs) (\<lambda>ys. Inr (y # ys)))"

lemma bindE_simps [simp, exn_simps]:
  "bindE (Inl e) f = Inl e"
  "bindE (Inr x) f = f x"
  by (simp_all add: bindE_def)

lemma bindE_eq_Inr [exn_simps]:
  "bindE m f = Inr y \<longleftrightarrow> (\<exists>x. m = Inr x \<and> f x = Inr y)"
  by (cases m) simp_all

lemma bindE_eq_Inl [exn_simps]:
  "bindE m f = Inl e \<longleftrightarrow> m = Inl e \<or> (\<exists>x. m = Inr x \<and> f x = Inl e)"
  by (cases m) simp_all

lemma ensure_eq_Inr [simp, exn_simps]: "ensure b e = Inr u \<longleftrightarrow> b"
  by (simp add: ensure_def)

lemma ensure_eq_Inl [simp, exn_simps]: "ensure b e = Inl e' \<longleftrightarrow> \<not> b \<and> e' = e"
  by (auto simp add: ensure_def)

lemma ensure_simps [simp]:
  "ensure True e = Inr ()"
  "ensure False e = Inl e"
  by (simp_all add: ensure_def)

lemma mapErr_simps [simp, exn_simps]:
  "mapErr h (Inl e) = Inl (h e)"
  "mapErr h (Inr x) = Inr x"
  "mapErr h m = Inr y \<longleftrightarrow> m = Inr y"
  "mapErr h m = Inl e' \<longleftrightarrow> (\<exists>e. m = Inl e \<and> e' = h e)"
  by (cases m; auto simp: mapErr_def)+

lemma bindE_cong [fundef_cong]:
  "m = m' \<Longrightarrow> (\<And>x. m' = Inr x \<Longrightarrow> f x = f' x) \<Longrightarrow> bindE m f = bindE m' f'"
  by (cases m') simp_all

lemma forE_cong [fundef_cong]:
  "xs = ys \<Longrightarrow> (\<And>x. x \<in> set ys \<Longrightarrow> f x = g x) \<Longrightarrow> forE f xs = forE g ys"
proof (induction xs arbitrary: ys)
  case (Cons x xs)
  then show ?case by (cases ys) auto
qed simp

lemma mapE_cong [fundef_cong]:
  "xs = ys \<Longrightarrow> (\<And>x. x \<in> set ys \<Longrightarrow> f x = g x) \<Longrightarrow> mapE f xs = mapE g ys"
proof (induction xs arbitrary: ys)
  case (Cons x xs)
  then show ?case by (cases ys) auto
qed simp

lemma forE_eq_Inr [exn_simps]: "forE f xs = Inr u \<longleftrightarrow> (\<forall>x\<in>set xs. f x = Inr ())"
  by (induction xs) (auto simp: bindE_eq_Inr)

lemma forE_eq_InlD: "forE f xs = Inl e \<Longrightarrow> \<exists>x\<in>set xs. f x = Inl e"
  by (induction xs) (auto simp: bindE_eq_Inl)

lemma forE_same_error:
  assumes "\<And>x e'. x \<in> set xs \<Longrightarrow> f x = Inl e' \<Longrightarrow> e' = e"
  shows "forE f xs = (if \<forall>x\<in>set xs. f x = Inr () then Inr () else Inl e)"
proof (cases "forE f xs")
  case (Inl e')
  then obtain x where "x \<in> set xs" "f x = Inl e'" using forE_eq_InlD by metis
  with assms have "e' = e" and "f x \<noteq> Inr ()" by auto
  with Inl \<open>x \<in> set xs\<close> show ?thesis by auto
next
  case (Inr u)
  then show ?thesis by (simp add: forE_eq_Inr)
qed

lemma mapE_eq_Inr_iff: "mapE f xs = Inr ys \<longleftrightarrow> list_all2 (\<lambda>x y. f x = Inr y) xs ys"
proof (induction xs arbitrary: ys)
  case Nil
  then show ?case by auto
next
  case (Cons x xs)
  then show ?case by (cases ys) (auto simp: bindE_eq_Inr)
qed

lemma mapE_total: "(\<And>x. x \<in> set xs \<Longrightarrow> f x = Inr (g x)) \<Longrightarrow> mapE f xs = Inr (map g xs)"
  by (induction xs) auto

section \<open>Dictionaries\<close>

declare map_of_eq_Some_iff [simp del] Some_eq_map_of_iff [simp del]

lemma map_of_update [simp, dict_simps]:
  "map_of (AList.update k v d) = (map_of d)(k \<mapsto> v)"
  by (rule update_conv')

lemma map_of_delete [simp, dict_simps]:
  "map_of (AList.delete k d) = (map_of d)(k := None)"
  by (rule delete_conv')

lemma distinct_keys_update [simp, dict_simps]:
  "distinct (map fst d) \<Longrightarrow> distinct (map fst (AList.update k v d))"
  by (rule distinct_update)

lemma distinct_keys_delete [simp, dict_simps]:
  "distinct (map fst d) \<Longrightarrow> distinct (map fst (AList.delete k d))"
  by (simp add: distinct_delete)

lemma update_fresh: "map_of d k = None \<Longrightarrow> AList.update k v d = d @ [(k, v)]"
  by (induction d) (auto split: if_splits)

lemma keys_update_known:
  "map_of d k \<noteq> None \<Longrightarrow> map fst (AList.update k v d) = map fst d"
  by (induction d) (auto split: if_splits)

lemma filter_update_known_length:
  assumes "map_of d k = Some w" and "distinct (map fst d)"
  shows "length (filter P (AList.update k v d)) + (if P (k, w) then 1 else 0)
       = length (filter P d) + (if P (k, v) then 1 else 0)"
  using assms
proof (induction d)
  case (Cons a d)
  obtain k' v' where a: "a = (k', v')" by (cases a)
  show ?case
  proof (cases "k' = k")
    case True
    with Cons a have "w = v'" by simp
    with True a show ?thesis by auto
  next
    case False
    with Cons a show ?thesis by auto
  qed
qed simp

section \<open>Text\<close>

definition digit_char :: "nat \<Rightarrow> char" where
  "digit_char d = char_of (48 + d)"

text \<open>Python's \<open>str(n)\<close> of a non-negative integer and of an integer.\<close>

fun nat_text :: "nat \<Rightarrow> string" where
  "nat_text n = (if n < 10 then [digit_char n] else nat_text (n div 10) @ [digit_char (n mod 10)])"

declare nat_text.simps [simp del]

definition int_text :: "int \<Rightarrow> string" where
  "int_text i = (if i < 0 then CHR ''-'' # nat_text (nat (- i)) else nat_text (nat i))"

definition is_digit :: "char \<Rightarrow> bool" where
  "is_digit c \<longleftrightarrow> 48 \<le> (of_char c :: nat) \<and> (of_char c :: nat) \<le> 57"

definition is_lower_hex :: "char \<Rightarrow> bool" where
  "is_lower_hex c \<longleftrightarrow> is_digit c \<or> (97 \<le> (of_char c :: nat) \<and> (of_char c :: nat) \<le> 102)"

text \<open>The regular expressions \<open>[0-9a-f]{n}\<close> under \<open>fullmatch\<close>.\<close>

definition fullmatch_hex :: "nat \<Rightarrow> string \<Rightarrow> bool" where
  "fullmatch_hex n s \<longleftrightarrow> length s = n \<and> list_all is_lower_hex s"

fun digits_value :: "nat \<Rightarrow> string \<Rightarrow> nat" where
  "digits_value acc [] = acc"
| "digits_value acc (c # cs) = digits_value (10 * acc + (of_char c - 48)) cs"

definition text_nat :: "string \<Rightarrow> nat" where
  "text_nat = digits_value 0"

fun join :: "string \<Rightarrow> string list \<Rightarrow> string" where
  "join sep [] = []"
| "join sep [x] = x"
| "join sep (x # y # xs) = x @ sep @ join sep (y # xs)"

definition startswith :: "string \<Rightarrow> string \<Rightarrow> bool" where
  "startswith s p \<longleftrightarrow> take (length p) s = p"

lemma digits_value_append: "digits_value acc (s @ t) = digits_value (digits_value acc s) t"
  by (induction s arbitrary: acc) auto

lemma of_char_digit_char: "d < 10 \<Longrightarrow> of_char (digit_char d) = 48 + d"
  by (simp add: digit_char_def of_char_of)

lemma text_nat_nat_text: "text_nat (nat_text n) = n"
proof (induction n rule: nat_text.induct)
  case (1 n)
  show ?case
  proof (cases "n < 10")
    case True
    then show ?thesis by (simp add: nat_text.simps [of n] text_nat_def of_char_digit_char)
  next
    case False
    with 1 have "text_nat (nat_text (n div 10)) = n div 10" by simp
    with False show ?thesis
      by (simp add: nat_text.simps [of n] text_nat_def digits_value_append of_char_digit_char)
  qed
qed

lemma nat_text_inj: "nat_text m = nat_text n \<Longrightarrow> m = n"
  by (metis text_nat_nat_text)

lemma nat_text_digits: "list_all is_digit (nat_text n)"
proof (induction n rule: nat_text.induct)
  case (1 n)
  have "is_digit (digit_char d)" if "d < 10" for d
    using that by (simp add: is_digit_def of_char_digit_char)
  with 1 show ?case by (subst nat_text.simps) simp
qed

lemma nat_text_nonempty: "nat_text n \<noteq> []"
  by (subst nat_text.simps) simp

end
