(* ===== verification/Errors.thy ===== *)
theory Errors
  imports Prelude
begin

text \<open>
  The exceptions of the controller and of the live worker. A controller exception is
  the base class \<open>ControllerError\<close> of \<open>deltacontroller/errors.py\<close> with its code, category
  and retry flag; each subclass of that file is a definition below. A worker exception is
  \<open>WorkerAdapterError\<close> of \<open>deltatorrent/live_execution/errors.py\<close>, with the subclass that
  raised it, because callers select on it. The free-form \<open>message\<close> and \<open>details\<close> of an
  exception are diagnostics: no branch of the code reads them, and they are left out; where
  the text of a message is stored in a durable document, the operation that stores it takes
  the text as an argument. The builtin exceptions the code raises or catches by class are
  the remaining constructors (\<open>ConnectionLost\<close> is \<open>BrokenPipeError\<close> or \<open>ConnectionResetError\<close>).
\<close>

datatype worker_error_kind = AdapterKind | PreflightKind | DispatchKind | TimeoutKind | CancelledKind

datatype exn =
    ControllerError (error_code: string) (error_category: string) (error_retryable: bool)
  | WorkerAdapterError worker_error_kind string string bool
  | WorkerProcessProtocolError
  | WorkerProcessCancelled
  | WorkerProcessTimedOut
  | ValueError
  | TypeError
  | KeyError
  | AttributeError
  | RuntimeError
  | AssertionError
  | BuiltinTimeoutError
  | OSError
  | ConnectionLost
  | OtherException

type_synonym 'a result = "exn + 'a"

section \<open>Controller error taxonomy\<close>

definition SchemaVersionUnsupportedError :: exn where
  "SchemaVersionUnsupportedError = ControllerError ''ERR_SCHEMA_VERSION_UNSUPPORTED'' ''SCHEMA'' False"

definition SchemaValidationError :: exn where
  "SchemaValidationError = ControllerError ''ERR_SCHEMA_VALIDATION_FAILED'' ''SCHEMA'' False"

definition JcsCanonicalizationError :: exn where
  "JcsCanonicalizationError =
     ControllerError ''ERR_JCS_CANONICALIZATION_FAILED'' ''CANONICALIZATION'' False"

definition IntentDigestMismatchError :: exn where
  "IntentDigestMismatchError = ControllerError ''ERR_INTENT_DIGEST_MISMATCH'' ''DIGEST'' False"

definition AdmissionDigestMismatchError :: exn where
  "AdmissionDigestMismatchError = ControllerError ''ERR_ADMISSION_DIGEST_MISMATCH'' ''DIGEST'' False"

definition IntentExpiredError :: exn where
  "IntentExpiredError = ControllerError ''ERR_INTENT_EXPIRED'' ''AUTHZ'' False"

definition AdmissionExpiredError :: exn where
  "AdmissionExpiredError = ControllerError ''ERR_ADMISSION_EXPIRED'' ''AUTHZ'' False"

definition AuthenticationRequiredError :: exn where
  "AuthenticationRequiredError = ControllerError ''ERR_AUTHENTICATION_REQUIRED'' ''AUTHN'' True"

definition AuthenticationFailedError :: exn where
  "AuthenticationFailedError = ControllerError ''ERR_AUTHENTICATION_FAILED'' ''AUTHN'' False"

definition UnauthorizedCallerError :: exn where
  "UnauthorizedCallerError = ControllerError ''ERR_UNAUTHORIZED_CALLER'' ''AUTHZ'' False"

definition PolicyDeniedError :: exn where
  "PolicyDeniedError = ControllerError ''ERR_POLICY_DENIED'' ''POLICY'' False"

definition RoleForbiddenError :: exn where
  "RoleForbiddenError = ControllerError ''ERR_ROLE_FORBIDDEN'' ''POLICY'' False"

definition CatalogRefMismatchError :: exn where
  "CatalogRefMismatchError = ControllerError ''ERR_CATALOG_REF_MISMATCH'' ''CATALOG'' False"

definition UnknownPluginIdError :: exn where
  "UnknownPluginIdError = ControllerError ''ERR_UNKNOWN_PLUGIN_ID'' ''CATALOG'' False"

definition UnknownDatasetIdError :: exn where
  "UnknownDatasetIdError = ControllerError ''ERR_UNKNOWN_DATASET_ID'' ''CATALOG'' False"

definition OperationScopeUnsupportedError :: exn where
  "OperationScopeUnsupportedError =
     ControllerError ''ERR_OPERATION_SCOPE_UNSUPPORTED'' ''CATALOG'' False"

definition IntentIdDigestConflictError :: exn where
  "IntentIdDigestConflictError =
     ControllerError ''ERR_INTENT_ID_DIGEST_CONFLICT'' ''IDEMPOTENCY'' False"

definition IntentCollisionDetectedError :: exn where
  "IntentCollisionDetectedError =
     ControllerError ''ERR_INTENT_COLLISION_DETECTED'' ''IDEMPOTENCY'' False"

definition QuotaExceededError :: exn where
  "QuotaExceededError = ControllerError ''ERR_QUOTA_EXCEEDED'' ''RESOURCE'' True"

definition WorkerDispatchFailedError :: exn where
  "WorkerDispatchFailedError = ControllerError ''ERR_WORKER_DISPATCH_FAILED'' ''DISPATCH'' True"

definition AdmissionSignatureInvalidError :: exn where
  "AdmissionSignatureInvalidError =
     ControllerError ''ERR_ADMISSION_SIGNATURE_INVALID'' ''WORKER'' False"

definition AuthorizedExecutionParityMismatchError :: exn where
  "AuthorizedExecutionParityMismatchError =
     ControllerError ''ERR_AUTHORIZED_EXECUTION_PARITY_MISMATCH'' ''LINEAGE'' False"

definition ReceiptLineageMismatchError :: exn where
  "ReceiptLineageMismatchError = ControllerError ''ERR_RECEIPT_LINEAGE_MISMATCH'' ''LINEAGE'' False"

definition ControllerTimeoutError :: exn where
  "ControllerTimeoutError = ControllerError ''ERR_TIMEOUT'' ''WORKER'' True"

definition CancelledError :: exn where
  "CancelledError = ControllerError ''ERR_CANCELLED'' ''WORKER'' True"

definition StageCForbiddenError :: exn where
  "StageCForbiddenError = ControllerError ''ERR_STAGE_C_FORBIDDEN'' ''CONSENSUS_BOUNDARY'' False"

section \<open>Worker adapter errors\<close>

definition WorkerPreflightError :: "string \<Rightarrow> exn" where
  "WorkerPreflightError code = WorkerAdapterError PreflightKind code ''WORKER'' False"

definition WorkerDispatchError :: "string \<Rightarrow> exn" where
  "WorkerDispatchError code = WorkerAdapterError DispatchKind code ''WORKER'' False"

definition WorkerTimeoutError :: exn where
  "WorkerTimeoutError = WorkerAdapterError TimeoutKind ''ERR_TIMEOUT'' ''WORKER'' True"

definition WorkerCancelledError :: exn where
  "WorkerCancelledError = WorkerAdapterError CancelledKind ''ERR_CANCELLED'' ''WORKER'' False"

end
