(* ===== verification/Json.thy ===== *)
theory Json
  imports Errors
begin

text \<open>
  The documents the program exchanges: the values Python's \<open>json\<close> module reads and writes.
  Text is UTF-8: a \<open>string\<close> is the list of the bytes that encode a Python \<open>str\<close>, so every
  character of a \<open>str\<close> is one to four \<open>char\<close>s. A float is carried by its \<open>repr\<close>, the text
  Python prints for it (\<open>repr\<close> is injective on finite floats). A JSON object keeps the
  insertion order of its keys; \<open>json_wf\<close> says that no key occurs twice, which holds of every
  Python dict. \<open>py_eq\<close> is Python's \<open>==\<close> on such values: dicts compare without regard to
  order and \<open>True\<close>, \<open>1\<close> and \<open>1.0\<close> are equal.
\<close>

datatype json =
    JNull
  | JBool bool
  | JInt int
  | JFloat string
  | JStr string
  | JArr "json list"
  | JObj "(string \<times> json) list"

section \<open>Floats as text\<close>

definition non_finite_texts :: "string list" where
  "non_finite_texts = [''nan'', ''inf'', ''-inf'']"

definition float_finite :: "string \<Rightarrow> bool" where
  "float_finite t \<longleftrightarrow> t \<notin> set non_finite_texts"

definition float_zero :: "string \<Rightarrow> bool" where
  "float_zero t \<longleftrightarrow> t = ''0.0'' \<or> t = ''-0.0''"

text \<open>
  \<open>partition_at c s\<close> is \<open>s.partition(c)\<close> without the separator: the text before the first
  \<open>c\<close>, whether there is one, and the text after it.
\<close>

fun partition_at :: "char \<Rightarrow> string \<Rightarrow> string \<times> bool \<times> string" where
  "partition_at c [] = ([], False, [])"
| "partition_at c (x # xs) =
     (if x = c then ([], True, xs)
      else (let (a, found, b) = partition_at c xs in (x # a, found, b)))"

definition text_int :: "string \<Rightarrow> int" where
  "text_int s =
     (case s of
        [] \<Rightarrow> 0
      | c # cs \<Rightarrow> if c = CHR ''-'' then - int (text_nat cs)
                 else if c = CHR ''+'' then int (text_nat cs)
                 else int (text_nat s))"

text \<open>
  The sign, the significand digits without the point, and the decimal exponent of a float's
  \<open>repr\<close>: the value is \<open>digits * 10 ^ exponent\<close>.
\<close>

definition float_parts :: "string \<Rightarrow> bool \<times> string \<times> int" where
  "float_parts t =
     (let neg = startswith t ''-'';
          u = (if neg then drop 1 t else t);
          (sig, _, e) = partition_at (CHR ''e'') u;
          (ip, _, fp) = partition_at (CHR ''.'') sig
      in (neg, ip @ fp, text_int e - int (length fp)))"

definition float_int :: "string \<Rightarrow> int option" where
  "float_int t =
     (if \<not> float_finite t then None
      else (let (neg, ds, e) = float_parts t; m = int (text_nat ds); s = (if neg then - 1 else 1)
            in if 0 \<le> e then Some (s * m * 10 ^ nat e)
               else if 10 ^ nat (- e) dvd m then Some (s * (m div 10 ^ nat (- e)))
               else None))"

section \<open>Truth value, equality\<close>

fun truthy :: "json \<Rightarrow> bool" where
  "truthy JNull = False"
| "truthy (JBool b) = b"
| "truthy (JInt i) = (i \<noteq> 0)"
| "truthy (JFloat t) = (\<not> float_zero t)"
| "truthy (JStr s) = (s \<noteq> [])"
| "truthy (JArr xs) = (xs \<noteq> [])"
| "truthy (JObj kvs) = (kvs \<noteq> [])"

fun num_value :: "json \<Rightarrow> int option" where
  "num_value (JBool b) = Some (if b then 1 else 0)"
| "num_value (JInt i) = Some i"
| "num_value (JFloat t) = float_int t"
| "num_value _ = None"

definition scalar_eq :: "json \<Rightarrow> json \<Rightarrow> bool" where
  "scalar_eq v w \<longleftrightarrow> v = w \<or> (num_value v \<noteq> None \<and> num_value v = num_value w)"

lemma scalar_eq_text [simp]:
  "scalar_eq (JStr s) w \<longleftrightarrow> w = JStr s"
  "scalar_eq w (JStr s) \<longleftrightarrow> w = JStr s"
  "scalar_eq JNull w \<longleftrightarrow> w = JNull"
  "scalar_eq w JNull \<longleftrightarrow> w = JNull"
  by (auto simp: scalar_eq_def)

lemma json_size_arr [termination_simp]: "v \<in> set xs \<Longrightarrow> size v < Suc (size_list size xs)"
  by (induction xs) auto

lemma json_size_zip [termination_simp]:
  "(x, y) \<in> set (zip xs ys) \<Longrightarrow> size x < Suc (size_list size xs)"
  by (auto dest!: set_zip_leftD intro: json_size_arr)

fun py_eq :: "json \<Rightarrow> json \<Rightarrow> bool" where
  "py_eq (JArr xs) (JArr ys) =
     (xs = ys \<or> (length xs = length ys \<and> list_all (\<lambda>(x, y). py_eq x y) (zip xs ys)))"
| "py_eq (JObj a) (JObj b) =
     (a = b \<or>
      (length a = length b \<and>
       list_all (\<lambda>(k, v). case map_of b k of None \<Rightarrow> False | Some w \<Rightarrow> py_eq v w) a))"
| "py_eq v w = scalar_eq v w"

lemma py_eq_refl [simp]: "py_eq v v"
  by (cases v) (simp_all add: scalar_eq_def)

lemma py_eq_JStr [simp]:
  "py_eq (JStr s) w \<longleftrightarrow> w = JStr s"
  "py_eq w (JStr s) \<longleftrightarrow> w = JStr s"
  by (cases w; auto simp: scalar_eq_def)+

lemma py_eq_JNull [simp]:
  "py_eq JNull w \<longleftrightarrow> w = JNull"
  "py_eq w JNull \<longleftrightarrow> w = JNull"
  by (cases w; auto simp: scalar_eq_def)+

section \<open>Access\<close>

text \<open>
  \<open>obj_get kvs k\<close> is \<open>d.get(k)\<close>: \<open>None\<close> for a missing key, and \<open>None\<close> is the value
  \<open>JNull\<close>. \<open>dict_get\<close> is the same on a value that must be a dict first (another value has
  no \<open>get\<close>), \<open>getitem\<close> is \<open>d[k]\<close>, \<open>as_str\<close> asserts the annotated type \<open>str\<close>.
\<close>

definition obj_get :: "(string \<times> json) list \<Rightarrow> string \<Rightarrow> json" where
  "obj_get kvs k = (case map_of kvs k of None \<Rightarrow> JNull | Some v \<Rightarrow> v)"

definition obj_get_default :: "(string \<times> json) list \<Rightarrow> string \<Rightarrow> json \<Rightarrow> json" where
  "obj_get_default kvs k d = (case map_of kvs k of None \<Rightarrow> d | Some v \<Rightarrow> v)"

fun is_obj :: "json \<Rightarrow> bool" where
  "is_obj (JObj _) = True"
| "is_obj _ = False"

fun is_str :: "json \<Rightarrow> bool" where
  "is_str (JStr _) = True"
| "is_str _ = False"

fun is_bool :: "json \<Rightarrow> bool" where
  "is_bool (JBool _) = True"
| "is_bool _ = False"

fun dict_get :: "json \<Rightarrow> string \<Rightarrow> json result" where
  "dict_get (JObj kvs) k = Inr (obj_get kvs k)"
| "dict_get _ k = Inl AttributeError"

fun getitem :: "json \<Rightarrow> string \<Rightarrow> json result" where
  "getitem (JObj kvs) k = (case map_of kvs k of None \<Rightarrow> Inl KeyError | Some v \<Rightarrow> Inr v)"
| "getitem _ k = Inl TypeError"

fun as_str :: "json \<Rightarrow> string result" where
  "as_str (JStr s) = Inr s"
| "as_str _ = Inl TypeError"

fun str_opt :: "json \<Rightarrow> string option" where
  "str_opt (JStr s) = Some s"
| "str_opt _ = None"

fun obj_opt :: "json \<Rightarrow> (string \<times> json) list option" where
  "obj_opt (JObj kvs) = Some kvs"
| "obj_opt _ = None"

lemma str_opt_Some [simp]: "str_opt v = Some s \<longleftrightarrow> v = JStr s"
  by (cases v) auto

lemma obj_opt_Some [simp]: "obj_opt v = Some kvs \<longleftrightarrow> v = JObj kvs"
  by (cases v) auto

fun obj_fields :: "json \<Rightarrow> (string \<times> json) list" where
  "obj_fields (JObj kvs) = kvs"
| "obj_fields _ = []"

lemma is_obj_iff: "is_obj v \<longleftrightarrow> (\<exists>kvs. v = JObj kvs)"
  by (cases v) auto

lemma is_str_iff: "is_str v \<longleftrightarrow> (\<exists>s. v = JStr s)"
  by (cases v) auto

lemma dict_get_eq_Inr [exn_simps]:
  "dict_get v k = Inr w \<longleftrightarrow> (\<exists>kvs. v = JObj kvs \<and> w = obj_get kvs k)"
  by (cases v) auto

lemma getitem_eq_Inr [exn_simps]:
  "getitem v k = Inr w \<longleftrightarrow> (\<exists>kvs. v = JObj kvs \<and> map_of kvs k = Some w)"
  by (cases v) (auto split: option.splits)

lemma as_str_eq_Inr [exn_simps]: "as_str v = Inr s \<longleftrightarrow> v = JStr s"
  by (cases v) auto

lemma getitem_dict_get: "getitem v k = Inr w \<Longrightarrow> dict_get v k = Inr w"
  by (cases v) (auto simp: obj_get_def split: option.splits)

section \<open>Well-formedness, finiteness, nesting\<close>

fun json_wf :: "json \<Rightarrow> bool" where
  "json_wf (JArr xs) = list_all json_wf xs"
| "json_wf (JObj kvs) = (distinct (map fst kvs) \<and> list_all (\<lambda>(k, v). json_wf v) kvs)"
| "json_wf _ = True"

fun json_finite :: "json \<Rightarrow> bool" where
  "json_finite (JArr xs) = list_all json_finite xs"
| "json_finite (JObj kvs) = list_all (\<lambda>(k, v). json_finite v) kvs"
| "json_finite (JFloat t) = float_finite t"
| "json_finite _ = True"

fun float_free :: "json \<Rightarrow> bool" where
  "float_free (JArr xs) = list_all float_free xs"
| "float_free (JObj kvs) = list_all (\<lambda>(k, v). float_free v) kvs"
| "float_free (JFloat t) = False"
| "float_free _ = True"

fun json_depth :: "json \<Rightarrow> nat" where
  "json_depth (JArr xs) = Suc (fold max (map json_depth xs) 0)"
| "json_depth (JObj kvs) = Suc (fold max (map (\<lambda>(k, v). json_depth v) kvs) 0)"
| "json_depth _ = 1"

lemma fold_max_le_iff: "fold max ns (a :: nat) \<le> b \<longleftrightarrow> a \<le> b \<and> (\<forall>n\<in>set ns. n \<le> b)"
  by (induction ns arbitrary: a) auto

lemma float_free_finite: "float_free v \<Longrightarrow> json_finite v"
  by (induction v rule: json_finite.induct) (auto simp: list_all_iff)

end
