(* ===== verification/Canonical.thy ===== *)
theory Canonical
  imports Json "HOL-Library.List_Lexorder" "HOL-Library.Multiset"
begin

text \<open>
  Canonical JSON, digests and signing payloads of the controller
  (\<open>deltacontroller/canonical.py\<close>). \<open>json_text\<close> is \<open>json.dumps(..., ensure_ascii=False,
  separators=(",", ":"))\<close> of the standard library and \<open>order_keys\<close> the recursive key sort by
  UTF-16 code units. The hash and the signature primitives are arguments: \<open>sha\<close> maps bytes to
  the hexadecimal text of their SHA-256 digest, \<open>sign\<close> a key and bytes to the hexadecimal text
  of the signature. The theory shows that the canonical bytes are unambiguous: two documents
  without floats that canonicalise to the same bytes are the same document up to the order of
  keys.
\<close>

section \<open>The text of a JSON value\<close>

definition hex_char :: "nat \<Rightarrow> char" where
  "hex_char d = (if d < 10 then char_of (48 + d) else char_of (87 + d))"

definition hex2 :: "nat \<Rightarrow> string" where
  "hex2 n = [hex_char (n div 16), hex_char (n mod 16)]"

definition escape_char :: "char \<Rightarrow> string" where
  "escape_char c =
     (let n = (of_char c :: nat) in
      if n = 34 then [CHR 0x5C, CHR 0x22]
      else if n = 92 then [CHR 0x5C, CHR 0x5C]
      else if n = 8 then CHR 0x5C # ''b''
      else if n = 9 then CHR 0x5C # ''t''
      else if n = 10 then CHR 0x5C # ''n''
      else if n = 12 then CHR 0x5C # ''f''
      else if n = 13 then CHR 0x5C # ''r''
      else if n < 32 then CHR 0x5C # ''u00'' @ hex2 n
      else [c])"

definition string_text :: "string \<Rightarrow> string" where
  "string_text s = CHR 0x22 # concat (map escape_char s) @ [CHR 0x22]"

fun json_text :: "json \<Rightarrow> string" where
  "json_text JNull = ''null''"
| "json_text (JBool b) = (if b then ''true'' else ''false'')"
| "json_text (JInt i) = int_text i"
| "json_text (JFloat t) = t"
| "json_text (JStr s) = string_text s"
| "json_text (JArr xs) = ''['' @ join '','' (map json_text xs) @ '']''"
| "json_text (JObj kvs) =
     ''{'' @ join '','' (map (\<lambda>(k, v). string_text k @ '':'' @ json_text v) kvs) @ ''}''"

text \<open>\<open>allow_nan=False\<close> makes the encoder raise on a float that is not finite.\<close>

definition json_dumps :: "json \<Rightarrow> string result" where
  "json_dumps v = (if json_finite v then Inr (json_text v) else Inl ValueError)"

section \<open>Key order\<close>

fun utf8_points :: "nat list \<Rightarrow> nat list" where
  "utf8_points [] = []"
| "utf8_points (b # bs) =
     (if b < 192 then b # utf8_points bs
      else if b < 224 then
        (case bs of b1 # r \<Rightarrow> ((b - 192) * 64 + (b1 - 128)) # utf8_points r | _ \<Rightarrow> [b])
      else if b < 240 then
        (case bs of b1 # b2 # r \<Rightarrow>
            ((b - 224) * 4096 + (b1 - 128) * 64 + (b2 - 128)) # utf8_points r | _ \<Rightarrow> [b])
      else
        (case bs of b1 # b2 # b3 # r \<Rightarrow>
            ((b - 240) * 262144 + (b1 - 128) * 4096 + (b2 - 128) * 64 + (b3 - 128))
              # utf8_points r | _ \<Rightarrow> [b]))"

text \<open>The code points \<open>str.isspace\<close> accepts.\<close>

definition is_space_point :: "nat \<Rightarrow> bool" where
  "is_space_point n \<longleftrightarrow>
     (9 \<le> n \<and> n \<le> 13) \<or> (28 \<le> n \<and> n \<le> 32) \<or> n \<in> {133, 160, 5760, 8232, 8233, 8239, 8287, 12288} \<or>
     (8192 \<le> n \<and> n \<le> 8202)"

definition utf16_point :: "nat \<Rightarrow> nat list" where
  "utf16_point p =
     (if p < 65536 then [p div 256, p mod 256]
      else (let q = p - 65536; hi = 55296 + q div 1024; lo = 56320 + q mod 1024
            in [hi div 256, hi mod 256, lo div 256, lo mod 256]))"

text \<open>\<open>item.encode("utf-16-be")\<close> of a text given by its UTF-8 bytes.\<close>

definition utf16_be :: "string \<Rightarrow> nat list" where
  "utf16_be s = concat (map utf16_point (utf8_points (map of_char s)))"

definition sorted_items :: "(string \<times> 'v) list \<Rightarrow> (string \<times> 'v) list" where
  "sorted_items kvs = sort_key (\<lambda>kv. utf16_be (fst kv)) kvs"

lemma set_sorted_items [simp]: "set (sorted_items kvs) = set kvs"
  by (simp add: sorted_items_def)

lemma json_size_sorted [termination_simp]:
  assumes "(k, v) \<in> set kvs"
  shows "size v < Suc (size_list (\<lambda>x. Suc (size (snd x))) kvs)"
  using assms by (induction kvs) auto

fun order_keys :: "json \<Rightarrow> json" where
  "order_keys (JObj kvs) = JObj (map (\<lambda>(k, v). (k, order_keys v)) (sorted_items kvs))"
| "order_keys (JArr xs) = JArr (map order_keys xs)"
| "order_keys v = v"

section \<open>Digests and signing payloads\<close>

definition canonicalize_jcs :: "json \<Rightarrow> string result" where
  "canonicalize_jcs v = mapErr (\<lambda>_. JcsCanonicalizationError) (json_dumps (order_keys v))"

definition sha256_digest :: "(string \<Rightarrow> string) \<Rightarrow> string \<Rightarrow> string" where
  "sha256_digest sha bytes = ''sha256:'' @ sha bytes"

definition compute_intent_digest ::
  "(string \<Rightarrow> string) \<Rightarrow> (string \<times> json) list \<Rightarrow> string result" where
  "compute_intent_digest sha doc =
     bindE (canonicalize_jcs (JObj (AList.delete ''intent_digest'' doc)))
       (\<lambda>b. Inr (sha256_digest sha b))"

definition verify_intent_digest ::
  "(string \<Rightarrow> string) \<Rightarrow> (string \<times> json) list \<Rightarrow> bool result" where
  "verify_intent_digest sha doc =
     (let declared = obj_get doc ''intent_digest'' in
      if \<not> truthy declared then Inr False
      else bindE (compute_intent_digest sha doc) (\<lambda>expected. Inr (py_eq declared (JStr expected))))"

definition compute_admission_digest ::
  "(string \<Rightarrow> string) \<Rightarrow> (string \<times> json) list \<Rightarrow> string result" where
  "compute_admission_digest sha doc =
     bindE (canonicalize_jcs
         (JObj (AList.delete ''authenticator'' (AList.delete ''admission_digest'' doc))))
       (\<lambda>b. Inr (sha256_digest sha b))"

definition get_admission_signing_payload :: "(string \<times> json) list \<Rightarrow> string result" where
  "get_admission_signing_payload doc =
     canonicalize_jcs (JObj
       (case obj_get doc ''authenticator'' of
          JObj auth \<Rightarrow> AList.update ''authenticator'' (JObj (AList.delete ''signature'' auth)) doc
        | _ \<Rightarrow> doc))"

definition sign_admission ::
  "(string \<Rightarrow> string) \<Rightarrow> (string \<times> json) list \<Rightarrow> string result" where
  "sign_admission sign doc = bindE (get_admission_signing_payload doc) (\<lambda>p. Inr (sign p))"

text \<open>
  \<open>verify\<close> stands for the third-party key object: it takes the signature's hexadecimal text
  and the payload, and fails on text that is not hexadecimal.
\<close>

definition verify_admission_signature ::
  "(string \<Rightarrow> string \<Rightarrow> bool) \<Rightarrow> (string \<times> json) list \<Rightarrow> bool result" where
  "verify_admission_signature verify doc =
     (case obj_get doc ''authenticator'' of
        JObj auth \<Rightarrow>
          (case obj_get auth ''signature'' of
             JStr sig_hex \<Rightarrow>
               bindE (get_admission_signing_payload doc) (\<lambda>payload. Inr (verify sig_hex payload))
           | _ \<Rightarrow> Inr False)
      | _ \<Rightarrow> Inr False)"

section \<open>The text of a value is unambiguous\<close>

text \<open>
  A continuation that does not extend a number: the printed form of a value is read off the
  front of a text that goes on with a delimiter.
\<close>

definition delim :: "string \<Rightarrow> bool" where
  "delim r \<longleftrightarrow> r = [] \<or> \<not> is_digit (hd r)"

text \<open>One character of an escaped text and the rest: a left inverse of \<open>escape_char\<close>.\<close>

definition hex_value :: "char \<Rightarrow> nat" where
  "hex_value c = (if of_char c < (58 :: nat) then of_char c - 48 else of_char c - 87)"

fun unescape :: "string \<Rightarrow> char \<times> string" where
  "unescape (a # b # s) =
     (if a \<noteq> CHR 0x5C then (a, b # s)
      else if b = CHR ''b'' then (char_of (8 :: nat), s)
      else if b = CHR ''t'' then (char_of (9 :: nat), s)
      else if b = CHR ''n'' then (char_of (10 :: nat), s)
      else if b = CHR ''f'' then (char_of (12 :: nat), s)
      else if b = CHR ''r'' then (char_of (13 :: nat), s)
      else if b = CHR ''u'' then
        (char_of (16 * hex_value (s ! 2) + hex_value (s ! 3)), drop 4 s)
      else (b, s))"
| "unescape [a] = (a, [])"
| "unescape [] = (CHR 0x22, [])"

lemma hex_value_hex_char: "d < 16 \<Longrightarrow> hex_value (hex_char d) = d"
  by (auto simp: hex_value_def hex_char_def of_char_of take_bit_eq_mod)

lemma char_of_code: "of_char c = (n :: nat) \<Longrightarrow> char_of n = c"
  by auto

lemma char_of_quotes: "char_of (34 :: nat) = CHR 0x22" "char_of (92 :: nat) = CHR 0x5C"
  by (rule char_of_code, simp)+

lemma unescape_escape: "unescape (escape_char c @ x) = (c, x)"
proof -
  consider "of_char c \<in> {34, 92, 8, 9, 10, 12, 13 :: nat}"
    | "of_char c < (32 :: nat)" "of_char c \<notin> {8, 9, 10, 12, 13 :: nat}"
    | "\<not> of_char c < (32 :: nat)" "of_char c \<notin> {34, 92 :: nat}"
    by auto
  then show ?thesis
  proof cases
    case 1
    then show ?thesis
      by (auto simp: escape_char_def Let_def char_of_code char_of_quotes dest!: char_of_code)
  next
    case 2
    then have "of_char c \<noteq> (34 :: nat)" "of_char c \<noteq> (92 :: nat)" by auto
    with 2 have e: "escape_char c = CHR 0x5C # ''u00'' @ hex2 (of_char c)"
      by (simp add: escape_char_def Let_def)
    have "16 * (of_char c div 16) + of_char c mod 16 = (of_char c :: nat)"
      by (rule mult_div_mod_eq)
    with 2 e show ?thesis
      by (simp add: hex2_def hex_value_hex_char)
  next
    case 3
    then have e: "escape_char c = [c]" and "c \<noteq> CHR 0x5C"
      by (auto simp: escape_char_def Let_def)
    then show ?thesis by (cases x) simp_all
  qed
qed

lemma escape_char_prefix:
  "escape_char c @ x = escape_char d @ y \<Longrightarrow> c = d \<and> x = y"
  by (metis unescape_escape prod.inject)

lemma escape_char_head: "escape_char c @ x \<noteq> CHR 0x22 # y"
proof -
  have "escape_char c \<noteq> []" "hd (escape_char c) \<noteq> CHR 0x22"
    by (auto simp: escape_char_def Let_def)
  then show ?thesis by (cases "escape_char c") auto
qed

lemma string_text_prefix: "string_text s @ r = string_text t @ r' \<Longrightarrow> s = t \<and> r = r'"
proof (induction s arbitrary: t)
  case Nil
  then show ?case
    using escape_char_head [symmetric] by (cases t) (auto simp: string_text_def)
next
  case (Cons c s)
  show ?case
  proof (cases t)
    case Nil
    with Cons.prems show ?thesis using escape_char_head by (auto simp: string_text_def)
  next
    case (Cons d t')
    with Cons.prems have "escape_char c @ (concat (map escape_char s) @ CHR 0x22 # r)
        = escape_char d @ (concat (map escape_char t') @ CHR 0x22 # r')"
      by (simp add: string_text_def)
    then have "c = d" and "string_text s @ r = string_text t' @ r'"
      using escape_char_prefix by (auto simp: string_text_def)
    with Cons.IH Cons show ?thesis by blast
  qed
qed

lemma nat_text_prefix:
  assumes "nat_text m @ r = nat_text n @ r'" and "delim r" and "delim r'"
  shows "m = n \<and> r = r'"
proof -
  have split: "takeWhile is_digit (nat_text k @ q) = nat_text k \<and> dropWhile is_digit (nat_text k @ q) = q"
    if "delim q" for k q
  proof -
    have "\<forall>c\<in>set (nat_text k). is_digit c" using nat_text_digits by (simp add: list_all_iff)
    with that show ?thesis
      by (cases q) (auto simp: delim_def takeWhile_append dropWhile_append)
  qed
  from split [OF assms(2), of m] split [OF assms(3), of n] assms(1)
  have "nat_text m = nat_text n" "r = r'" by metis+
  then show ?thesis using nat_text_inj by blast
qed

lemma hd_nat_text_digit: "is_digit (hd (nat_text n @ r))"
  using nat_text_digits [of n] nat_text_nonempty [of n] by (cases "nat_text n") auto

lemma int_text_prefix:
  assumes "int_text i @ r = int_text j @ r'" and "delim r" and "delim r'"
  shows "i = j \<and> r = r'"
proof -
  have minus: "\<not> is_digit (CHR ''-'')" by (simp add: is_digit_def)
  show ?thesis
  proof (cases "i < 0"; cases "j < 0")
    assume "i < 0" "j < 0"
    with assms nat_text_prefix [of "nat (- i)" r "nat (- j)" r'] show ?thesis
      by (auto simp: int_text_def)
  next
    assume "i < 0" "\<not> j < 0"
    with assms hd_nat_text_digit [of "nat j" r'] minus show ?thesis
      by (auto simp: int_text_def dest!: arg_cong [where f = hd])
  next
    assume "\<not> i < 0" "j < 0"
    with assms hd_nat_text_digit [of "nat i" r] minus show ?thesis
      by (auto simp: int_text_def dest!: arg_cong [where f = hd])
  next
    assume "\<not> i < 0" "\<not> j < 0"
    with assms nat_text_prefix [of "nat i" r "nat j" r'] show ?thesis
      by (auto simp: int_text_def)
  qed
qed

text \<open>
  A sequence of printed elements between commas and a closing bracket: if the printer of the
  elements is unambiguous before a comma or the bracket, so is the sequence.
\<close>

lemma join_prefix:
  assumes "\<And>x y q q'. x \<in> set xs \<Longrightarrow> y \<in> set ys \<Longrightarrow> p x @ q = p y @ q' \<Longrightarrow>
      hd q \<in> {CHR '','', close} \<Longrightarrow> hd q' \<in> {CHR '','', close} \<Longrightarrow>
      q \<noteq> [] \<Longrightarrow> q' \<noteq> [] \<Longrightarrow> x = y \<and> q = q'"
    and "\<And>x. x \<in> set xs \<union> set ys \<Longrightarrow> p x \<noteq> [] \<and> hd (p x) \<noteq> close"
    and "join '','' (map p xs) @ close # r = join '','' (map p ys) @ close # r'"
    and "close \<noteq> CHR '',''"
  shows "xs = ys \<and> r = r'"
  using assms
proof (induction xs arbitrary: ys)
  case Nil
  show ?case
  proof (cases ys)
    case (Cons y ys')
    with Nil.prems(2) [of y] Nil.prems(3) show ?thesis
      by (cases ys') (auto simp: neq_Nil_conv)
  qed (use Nil.prems in simp)
next
  case (Cons x xs)
  have "ys \<noteq> []"
  proof
    assume "ys = []"
    with Cons.prems(2) [of x] Cons.prems(3) show False
      by (cases xs) (auto simp: neq_Nil_conv)
  qed
  then obtain y ys' where ys: "ys = y # ys'" by (cases ys) auto
  define q where "q = (if xs = [] then [] else CHR '','' # join '','' (map p xs)) @ close # r"
  define q' where "q' = (if ys' = [] then [] else CHR '','' # join '','' (map p ys')) @ close # r'"
  have "p x @ q = p y @ q'"
    using Cons.prems(3) by (cases xs; cases ys') (simp_all add: ys q_def q'_def)
  then have "x = y" and qq: "q = q'"
    using Cons.prems(1) [of x y q q'] ys by (auto simp: q_def q'_def)
  moreover have "xs = ys' \<and> r = r'"
  proof (cases "xs = []"; cases "ys' = []")
    assume "xs \<noteq> []" "ys' \<noteq> []"
    with qq have "join '','' (map p xs) @ close # r = join '','' (map p ys') @ close # r'"
      by (simp add: q_def q'_def)
    then show ?thesis
      using Cons.IH [of ys'] Cons.prems(1,2,4) by (auto simp: ys)
  qed (use qq Cons.prems(4) in \<open>auto simp: q_def q'_def\<close>)
  ultimately show ?case by (simp add: ys)
qed

lemma json_text_nonempty:
  assumes "float_free v"
  shows "json_text v \<noteq> [] \<and> hd (json_text v) \<notin> {CHR '']'', CHR ''}'', CHR '',''}"
proof (cases v)
  case (JInt i)
  have "hd (nat_text n) \<notin> {CHR '']'', CHR ''}'', CHR '',''}" for n
    using hd_nat_text_digit [of n "[]"] by (auto simp: is_digit_def)
  with JInt show ?thesis by (auto simp: int_text_def nat_text_nonempty)
qed (use assms in \<open>auto simp: string_text_def\<close>)

fun json_kind :: "json \<Rightarrow> nat" where
  "json_kind JNull = 0"
| "json_kind (JBool True) = 1"
| "json_kind (JBool False) = 2"
| "json_kind (JInt _) = 3"
| "json_kind (JFloat _) = 4"
| "json_kind (JStr _) = 5"
| "json_kind (JArr _) = 6"
| "json_kind (JObj _) = 7"

text \<open>The first character of a printed value tells its kind.\<close>

definition head_kind :: "char \<Rightarrow> nat" where
  "head_kind c =
     (if c = CHR ''n'' then 0 else if c = CHR ''t'' then 1 else if c = CHR ''f'' then 2
      else if c = CHR 0x22 then 5 else if c = CHR ''['' then 6 else if c = CHR ''{'' then 7 else 3)"

lemma head_kind_digit: "is_digit c \<Longrightarrow> head_kind c = 3"
  by (auto simp: head_kind_def is_digit_def)

lemma head_kind_json_text: "float_free v \<Longrightarrow> head_kind (hd (json_text v @ r)) = json_kind v"
proof (cases v)
  case (JBool b)
  then show ?thesis by (cases b) (simp_all add: head_kind_def)
next
  case (JInt i)
  have "head_kind (CHR ''-'') = 3" by (simp add: head_kind_def)
  with JInt show ?thesis by (simp add: int_text_def head_kind_digit [OF hd_nat_text_digit])
qed (auto simp: head_kind_def string_text_def)

lemma json_text_kind:
  "float_free v \<Longrightarrow> float_free w \<Longrightarrow> json_text v @ r = json_text w @ r' \<Longrightarrow> json_kind w = json_kind v"
  by (metis head_kind_json_text)

lemma json_kind_cases:
  "json_kind w = 0 \<Longrightarrow> w = JNull"
  "json_kind w = 1 \<Longrightarrow> w = JBool True"
  "json_kind w = Suc 0 \<Longrightarrow> w = JBool True"
  "json_kind w = 2 \<Longrightarrow> w = JBool False"
  "json_kind w = 3 \<Longrightarrow> \<exists>i. w = JInt i"
  "json_kind w = 5 \<Longrightarrow> \<exists>s. w = JStr s"
  "json_kind w = 6 \<Longrightarrow> \<exists>xs. w = JArr xs"
  "json_kind w = 7 \<Longrightarrow> \<exists>kvs. w = JObj kvs"
  by (cases w rule: json_kind.cases; simp)+

lemma json_text_prefix:
  assumes "float_free v" and "float_free w" and "json_text v @ r = json_text w @ r'"
    and "delim r" and "delim r'"
  shows "v = w \<and> r = r'"
  using assms
proof (induction v arbitrary: w r r' rule: json_text.induct)
  case 1
  then have "w = JNull" using json_text_kind json_kind_cases(1) json_kind.simps(1) by metis
  with 1 show ?case by simp
next
  case (2 b)
  then have "json_kind w = json_kind (JBool b)" using json_text_kind by blast
  then have "w = JBool b" by (cases b) (auto dest: json_kind_cases)
  with 2 show ?case by simp
next
  case (3 i)
  then have "json_kind w = 3" using json_text_kind [of "JInt i" w r r'] by simp
  then obtain j where "w = JInt j" using json_kind_cases by blast
  with 3 show ?case using int_text_prefix [of i r j r'] by simp
next
  case (4 t)
  then show ?case by simp
next
  case (5 s)
  then have "json_kind w = 5" using json_text_kind [of "JStr s" w r r'] by simp
  then obtain t where "w = JStr t" using json_kind_cases by blast
  with 5 show ?case using string_text_prefix [of s r t r'] by simp
next
  case (6 xs)
  then have "json_kind w = 6" using json_text_kind [of "JArr xs" w r r'] by simp
  then obtain ys where w: "w = JArr ys" using json_kind_cases by blast
  have "xs = ys \<and> r = r'"
  proof (rule join_prefix [where p = json_text and close = "CHR '']''"])
    fix x y q q'
    assume *: "x \<in> set xs" "y \<in> set ys" "json_text x @ q = json_text y @ q'"
      "hd q \<in> {CHR '','', CHR '']''}" "hd q' \<in> {CHR '','', CHR '']''}" "q \<noteq> []" "q' \<noteq> []"
    then have "delim q" "delim q'" by (auto simp: delim_def is_digit_def)
    with * 6 w show "x = y \<and> q = q'" by (auto simp: list_all_iff)
  next
    fix x
    assume "x \<in> set xs \<union> set ys"
    with 6 w have "float_free x" by (auto simp: list_all_iff)
    then show "json_text x \<noteq> [] \<and> hd (json_text x) \<noteq> CHR '']''"
      using json_text_nonempty [of x] by auto
  qed (use 6 w in auto)
  with w show ?case by simp
next
  case (7 kvs)
  then have "json_kind w = 7" using json_text_kind [of "JObj kvs" w r r'] by simp
  then obtain lws where w: "w = JObj lws" using json_kind_cases by blast
  let ?p = "\<lambda>(k, v). string_text k @ '':'' @ json_text v"
  have "kvs = lws \<and> r = r'"
  proof (rule join_prefix [where p = ?p and close = "CHR ''}''"])
    fix x y q q'
    assume *: "x \<in> set kvs" "y \<in> set lws" "?p x @ q = ?p y @ q'"
      "hd q \<in> {CHR '','', CHR ''}''}" "hd q' \<in> {CHR '','', CHR ''}''}" "q \<noteq> []" "q' \<noteq> []"
    obtain k v l u where xy: "x = (k, v)" "y = (l, u)" by (cases x; cases y) auto
    with * have "string_text k @ ('':'' @ json_text v @ q) = string_text l @ ('':'' @ json_text u @ q')"
      by simp
    then have kl: "k = l" and "'':'' @ json_text v @ q = '':'' @ json_text u @ q'"
      using string_text_prefix by blast+
    then have texts: "json_text v @ q = json_text u @ q'" by simp
    from * have "delim q" "delim q'" by (auto simp: delim_def is_digit_def)
    moreover from 7(2,3) w * xy have "float_free v" "float_free u" by (auto simp: list_all_iff)
    ultimately have "v = u \<and> q = q'"
      using 7(1) [of "(k, v)" k v u q q'] *(1) xy texts by simp
    with kl xy show "x = y \<and> q = q'" by simp
  next
    fix x
    show "?p x \<noteq> [] \<and> hd (?p x) \<noteq> CHR ''}''"
      by (cases x) (simp add: string_text_def)
  qed (use 7 w in auto)
  with w show ?case by simp
qed

section \<open>Canonical bytes identify a document\<close>

lemma list_all_sorted_items [simp]: "list_all P (sorted_items kvs) = list_all P kvs"
  by (simp add: list_all_iff)

lemma float_free_order_keys [simp]: "float_free (order_keys v) = float_free v"
proof (induction v rule: order_keys.induct)
  case (1 kvs)
  then show ?case by (auto simp: list_all_iff split: prod.splits)
next
  case (2 xs)
  then show ?case by (auto simp: list_all_iff)
qed auto

lemma json_finite_order_keys [simp]: "json_finite (order_keys v) = json_finite v"
proof (induction v rule: order_keys.induct)
  case (1 kvs)
  then show ?case by (auto simp: list_all_iff split: prod.splits)
next
  case (2 xs)
  then show ?case by (auto simp: list_all_iff)
qed auto

lemma canonicalize_jcs_eq:
  "canonicalize_jcs v =
     (if json_finite v then Inr (json_text (order_keys v)) else Inl JcsCanonicalizationError)"
  by (simp add: canonicalize_jcs_def json_dumps_def)

lemma canonicalize_jcs_same_document:
  assumes "float_free v" and "float_free w" and "canonicalize_jcs v = canonicalize_jcs w"
  shows "order_keys v = order_keys w"
proof -
  from assms have "json_text (order_keys v) @ [] = json_text (order_keys w) @ []"
    by (simp add: canonicalize_jcs_eq float_free_finite)
  then show ?thesis
    using json_text_prefix [of "order_keys v" "order_keys w" "[]" "[]"] assms
    by (simp add: delim_def)
qed

section \<open>Canonical bytes do not depend on key order\<close>

definition ascii_text :: "string \<Rightarrow> bool" where
  "ascii_text s \<longleftrightarrow> list_all (\<lambda>c. of_char c < (128 :: nat)) s"

lemma utf16_be_ascii: "ascii_text s \<Longrightarrow> utf16_be s = concat (map (\<lambda>c. [0, of_char c]) s)"
proof -
  assume "ascii_text s"
  then have points: "utf8_points (map of_char s) = map of_char s"
    by (induction s) (auto simp: ascii_text_def)
  have "utf16_point (of_char c) = [0, of_char c]" if "c \<in> set s" for c
  proof -
    from that \<open>ascii_text s\<close> have "of_char c < (128 :: nat)"
      by (simp add: ascii_text_def list_all_iff)
    then show ?thesis by (simp add: utf16_point_def)
  qed
  then have "map utf16_point (map of_char s) = map (\<lambda>c. [0, of_char c]) s" by simp
  with points show ?thesis unfolding utf16_be_def by metis
qed

lemma code_pairs_inj: "concat (map (\<lambda>c. [0 :: nat, of_char c]) s) = concat (map (\<lambda>c. [0, of_char c]) t)
    \<Longrightarrow> s = t"
proof (induction s arbitrary: t)
  case Nil
  then show ?case by (cases t) simp_all
next
  case (Cons c s)
  then show ?case by (cases t) simp_all
qed

lemma utf16_be_inj: "ascii_text s \<Longrightarrow> ascii_text t \<Longrightarrow> utf16_be s = utf16_be t \<Longrightarrow> s = t"
  using code_pairs_inj [of s t] by (simp add: utf16_be_ascii)

lemma sorted_items_perm:
  assumes "mset kvs = mset lws" and "distinct (map fst kvs)" and "\<forall>k\<in>set (map fst kvs). ascii_text k"
  shows "sorted_items kvs = sorted_items lws"
  unfolding sorted_items_def
proof (rule sort_key_inj_key_eq)
  show "mset kvs = mset (sort_key (\<lambda>kv. utf16_be (fst kv)) lws)" using assms(1) by simp
  show "inj_on (\<lambda>kv. utf16_be (fst kv)) (set kvs)"
  proof (rule inj_onI)
    fix x y
    assume "x \<in> set kvs" "y \<in> set kvs" "utf16_be (fst x) = utf16_be (fst y)"
    with assms(3) have "fst x = fst y" using utf16_be_inj by simp
    with assms(2) \<open>x \<in> set kvs\<close> \<open>y \<in> set kvs\<close> show "x = y"
      by (metis eq_key_imp_eq_value prod.collapse)
  qed
qed simp

lemma canonicalize_jcs_key_order:
  assumes "mset kvs = mset lws" and "distinct (map fst kvs)" and "\<forall>k\<in>set (map fst kvs). ascii_text k"
  shows "canonicalize_jcs (JObj kvs) = canonicalize_jcs (JObj lws)"
proof -
  have "set kvs = set lws" using assms(1) by (metis mset_eq_setD)
  with sorted_items_perm [OF assms] show ?thesis
    by (simp add: canonicalize_jcs_eq list_all_iff)
qed

end
