(* ===== verification/Schema.thy ===== *)
theory Schema
  imports Canonical
begin

text \<open>
  The services the controller calls that are not its own code, as one record: the SHA-256
  hexadecimal digest; the Draft 2020-12 validator of the third-party package \<open>jsonschema\<close>,
  given as the predicate "no error is reported for the document under the schema with this
  alias"; \<open>json.loads\<close> (\<open>None\<close> when it raises); \<open>datetime.fromisoformat\<close> (\<open>None\<close> when it
  raises) and \<open>datetime.isoformat\<close>. An \<open>instant\<close> is a Python \<open>datetime\<close>: an aware one is its
  UTC time in microseconds with its offset, a naive one has no offset and cannot be compared
  with an aware one. \<open>SCHEMA_FILES\<close> and \<open>validate\<close> are those of
  \<open>deltacontroller/schema.py\<close>.
\<close>

datatype instant = Aware int int | Naive int

record services =
  svc_sha :: "string \<Rightarrow> string"
  svc_schema :: "string \<Rightarrow> json \<Rightarrow> bool"
  svc_loads :: "string \<Rightarrow> json option"
  svc_fromiso :: "string \<Rightarrow> instant option"
  svc_isoformat :: "instant \<Rightarrow> string"

text \<open>Comparison \<open>a <= b\<close> and \<open>a < b\<close> of datetimes, and \<open>now + timedelta(seconds=n)\<close>.\<close>

fun instant_le :: "instant \<Rightarrow> instant \<Rightarrow> bool result" where
  "instant_le (Aware a _) (Aware b _) = Inr (a \<le> b)"
| "instant_le (Naive a) (Naive b) = Inr (a \<le> b)"
| "instant_le _ _ = Inl TypeError"

fun instant_less :: "instant \<Rightarrow> instant \<Rightarrow> bool result" where
  "instant_less (Aware a _) (Aware b _) = Inr (a < b)"
| "instant_less (Naive a) (Naive b) = Inr (a < b)"
| "instant_less _ _ = Inl TypeError"

fun plus_seconds :: "instant \<Rightarrow> int \<Rightarrow> instant" where
  "plus_seconds (Aware a z) n = Aware (a + 1000000 * n) z"
| "plus_seconds (Naive a) n = Naive (a + 1000000 * n)"

text \<open>\<open>text.replace("Z", "+00:00")\<close>.\<close>

definition replace_z :: "string \<Rightarrow> string" where
  "replace_z s = concat (map (\<lambda>c. if c = CHR ''Z'' then ''+00:00'' else [c]) s)"

lemma instant_le_Aware [exn_simps]:
  "instant_le x (Aware b z) = Inr v \<longleftrightarrow> (\<exists>a y. x = Aware a y \<and> v = (a \<le> b))"
  by (cases x) auto

definition SCHEMA_FILES :: "(string \<times> string) list" where
  "SCHEMA_FILES =
     [(''execution-intent'', ''execution-intent.schema.json''),
      (''admission-record'', ''admission-record.schema.json''),
      (''authorized-execution'', ''authorized-execution.schema.json''),
      (''execution-status'', ''execution-status.schema.json''),
      (''preflight-error'', ''preflight-error.schema.json''),
      (''receipt-lineage'', ''execution-receipt-lineage-extension.schema.json'')]"

definition schema_validate :: "services \<Rightarrow> string \<Rightarrow> json \<Rightarrow> unit result" where
  "schema_validate svc schema_alias document =
     (if map_of SCHEMA_FILES schema_alias = None then Inl KeyError
      else if svc_schema svc schema_alias document then Inr ()
      else Inl SchemaValidationError)"

lemma schema_validate_known:
  "map_of SCHEMA_FILES a \<noteq> None \<Longrightarrow>
     schema_validate svc a d = (if svc_schema svc a d then Inr () else Inl SchemaValidationError)"
  by (auto simp: schema_validate_def)

lemma schema_aliases [simp]:
  "map_of SCHEMA_FILES ''execution-intent'' \<noteq> None"
  "map_of SCHEMA_FILES ''admission-record'' \<noteq> None"
  "map_of SCHEMA_FILES ''authorized-execution'' \<noteq> None"
  "map_of SCHEMA_FILES ''execution-status'' \<noteq> None"
  "map_of SCHEMA_FILES ''preflight-error'' \<noteq> None"
  "map_of SCHEMA_FILES ''receipt-lineage'' \<noteq> None"
  by (simp_all add: SCHEMA_FILES_def)

lemma schema_validate_Inr [exn_simps]:
  "schema_validate svc a d = Inr u \<longleftrightarrow> map_of SCHEMA_FILES a \<noteq> None \<and> svc_schema svc a d"
  by (auto simp: schema_validate_def)

end
