(* ===== verification/Ledger.thy ===== *)
theory Ledger
  imports Schema
begin

text \<open>
  The durable idempotency ledger, \<open>deltacontroller/idempotency.py\<close>. A \<open>ledger_record\<close> is the
  dataclass \<open>LedgerRecord\<close>; the fields annotated \<open>str\<close> are strings, the optional and dict
  fields are JSON values with \<open>JNull\<close> for \<open>None\<close>. A \<open>ledger\<close> is the object
  \<open>IdempotencyLedger\<close>: the three indexes, the in-flight reservations, the poison reason and
  the lines of the append-only file. Each method is one critical section under the ledger's
  lock and is one definition that returns its result and the new ledger. The wall clock, the
  outcome of an append to the file and, for the waiting loop of \<open>acquire_or_check\<close>, what the
  other threads do while the lock is released are arguments.
\<close>

section \<open>Statuses and snapshots\<close>

definition NONTERMINAL_STATUSES :: "string list" where
  "NONTERMINAL_STATUSES = [''ADMITTED'', ''QUEUED'', ''RUNNING'']"

definition TERMINAL_STATUSES :: "string list" where
  "TERMINAL_STATUSES = [''COMPLETED'', ''FAILED'', ''TIMED_OUT'', ''CANCELLED'']"

definition KNOWN_STATUSES :: "string list" where
  "KNOWN_STATUSES = NONTERMINAL_STATUSES @ TERMINAL_STATUSES"

definition LEDGER_FIELDS :: "string list" where
  "LEDGER_FIELDS =
     [''intent_id'', ''intent_digest'', ''authenticated_subject_id'', ''execution_id'', ''status'',
      ''created_at'', ''updated_at'', ''admission_record'', ''receipt_digest'',
      ''terminal_receipt'', ''error'', ''retry_of_intent_id'', ''operation'', ''intent'']"

definition REQUIRED_LEDGER_FIELDS :: "string list" where
  "REQUIRED_LEDGER_FIELDS = filter (\<lambda>f. f \<noteq> ''intent'') LEDGER_FIELDS"

definition LEGAL_TRANSITIONS :: "(string \<times> string list) list" where
  "LEGAL_TRANSITIONS =
     [(''ADMITTED'',
         [''QUEUED'', ''RUNNING'', ''COMPLETED'', ''FAILED'', ''TIMED_OUT'', ''CANCELLED'']),
      (''QUEUED'', [''RUNNING'', ''FAILED'', ''TIMED_OUT'', ''CANCELLED'']),
      (''RUNNING'', TERMINAL_STATUSES)]"

definition legal_next :: "string \<Rightarrow> string list" where
  "legal_next s = (case map_of LEGAL_TRANSITIONS s of None \<Rightarrow> [] | Some ss \<Rightarrow> ss)"

definition require_nonempty_string :: "json \<Rightarrow> string result" where
  "require_nonempty_string v = (case v of JStr s \<Rightarrow> if s = [] then Inl ValueError else Inr s | _ \<Rightarrow> Inl ValueError)"

definition linked_field_ok :: "(string \<times> json) list \<Rightarrow> string \<Rightarrow> json \<Rightarrow> bool" where
  "linked_field_ok doc field expected \<longleftrightarrow>
     (case map_of doc field of None \<Rightarrow> True | Some v \<Rightarrow> py_eq v expected)"

text \<open>The part of the check that reads the fields, given \<open>get\<close>, the lookup \<open>data.get\<close>.\<close>

definition snapshot_fields_check :: "(string \<Rightarrow> json) \<Rightarrow> unit result" where
  "snapshot_fields_check get =
     bindE (forE (\<lambda>f. bindE (require_nonempty_string (get f)) (\<lambda>_. Inr ()))
        [''intent_id'', ''intent_digest'', ''authenticated_subject_id'', ''execution_id'',
         ''created_at'', ''updated_at'']) (\<lambda>_.
     bindE (require_nonempty_string (get ''status'')) (\<lambda>status.
     bindE (ensure (status \<in> set KNOWN_STATUSES) ValueError) (\<lambda>_.
     (case get ''admission_record'' of
        JObj admission \<Rightarrow>
          bindE (forE (\<lambda>f. if get f = JNull then Inr ()
                            else bindE (require_nonempty_string (get f)) (\<lambda>_. Inr ()))
             [''receipt_digest'', ''retry_of_intent_id'', ''operation'']) (\<lambda>_.
          bindE (forE (\<lambda>f. ensure (get f = JNull \<or> is_obj (get f)) ValueError)
             [''terminal_receipt'', ''error'', ''intent'']) (\<lambda>_.
          bindE (forE (\<lambda>f. ensure (linked_field_ok admission f (get f)) ValueError)
             [''intent_id'', ''intent_digest'', ''execution_id'']) (\<lambda>_.
          bindE (case obj_get admission ''authenticated_subject'' of
                   JNull \<Rightarrow> Inr ()
                 | JObj subject \<Rightarrow>
                     ensure (linked_field_ok subject ''subject_id''
                               (get ''authenticated_subject_id'')) ValueError
                 | _ \<Rightarrow> Inl ValueError) (\<lambda>_.
          (case get ''intent'' of
             JObj intent \<Rightarrow>
               forE (\<lambda>f. ensure (linked_field_ok intent f (get f)) ValueError)
                 [''intent_id'', ''intent_digest'', ''operation'']
           | _ \<Rightarrow> Inr ())))))
      | _ \<Rightarrow> Inl ValueError))))"

definition validate_snapshot_schema :: "json \<Rightarrow> (string \<times> json) list result" where
  "validate_snapshot_schema document =
     (case document of
        JObj data \<Rightarrow>
          bindE (ensure (set (map fst data) \<subseteq> set LEDGER_FIELDS \<and>
                         set REQUIRED_LEDGER_FIELDS \<subseteq> set (map fst data)) ValueError) (\<lambda>_.
          bindE (snapshot_fields_check (obj_get data)) (\<lambda>_. Inr data))
      | _ \<Rightarrow> Inl ValueError)"

record ledger_record =
  rec_intent_id :: string
  rec_intent_digest :: string
  rec_authenticated_subject_id :: string
  rec_execution_id :: string
  rec_status :: string
  rec_created_at :: string
  rec_updated_at :: string
  rec_admission_record :: json
  rec_receipt_digest :: json
  rec_terminal_receipt :: json
  rec_error :: json
  rec_retry_of_intent_id :: json
  rec_operation :: json
  rec_intent :: json

definition to_dict :: "ledger_record \<Rightarrow> json" where
  "to_dict r = JObj
     [(''intent_id'', JStr (rec_intent_id r)),
      (''intent_digest'', JStr (rec_intent_digest r)),
      (''authenticated_subject_id'', JStr (rec_authenticated_subject_id r)),
      (''execution_id'', JStr (rec_execution_id r)),
      (''status'', JStr (rec_status r)),
      (''created_at'', JStr (rec_created_at r)),
      (''updated_at'', JStr (rec_updated_at r)),
      (''admission_record'', rec_admission_record r),
      (''receipt_digest'', rec_receipt_digest r),
      (''terminal_receipt'', rec_terminal_receipt r),
      (''error'', rec_error r),
      (''retry_of_intent_id'', rec_retry_of_intent_id r),
      (''operation'', rec_operation r),
      (''intent'', rec_intent r)]"

definition from_dict :: "json \<Rightarrow> ledger_record result" where
  "from_dict document =
     bindE (validate_snapshot_schema document) (\<lambda>data.
     bindE (as_str (obj_get data ''intent_id'')) (\<lambda>intent_id.
     bindE (as_str (obj_get data ''intent_digest'')) (\<lambda>intent_digest.
     bindE (as_str (obj_get data ''authenticated_subject_id'')) (\<lambda>subject_id.
     bindE (as_str (obj_get data ''execution_id'')) (\<lambda>execution_id.
     bindE (as_str (obj_get data ''status'')) (\<lambda>status.
     bindE (as_str (obj_get data ''created_at'')) (\<lambda>created_at.
     bindE (as_str (obj_get data ''updated_at'')) (\<lambda>updated_at.
     Inr \<lparr>rec_intent_id = intent_id, rec_intent_digest = intent_digest,
          rec_authenticated_subject_id = subject_id, rec_execution_id = execution_id,
          rec_status = status, rec_created_at = created_at, rec_updated_at = updated_at,
          rec_admission_record = obj_get data ''admission_record'',
          rec_receipt_digest = obj_get data ''receipt_digest'',
          rec_terminal_receipt = obj_get data ''terminal_receipt'',
          rec_error = obj_get data ''error'',
          rec_retry_of_intent_id = obj_get data ''retry_of_intent_id'',
          rec_operation = obj_get data ''operation'',
          rec_intent = obj_get data ''intent''\<rparr>))))))))"

section \<open>Record invariants\<close>

text \<open>
  The lineage checks of a completed record: a list of expected values, each of which must be a
  string and equal to what the receipt holds.
\<close>

definition lineage_check :: "json \<Rightarrow> string \<Rightarrow> json \<Rightarrow> unit result" where
  "lineage_check doc field expected =
     (if \<not> is_str expected then Inl ValueError
      else bindE (dict_get doc field) (\<lambda>v. ensure (py_eq v expected) ValueError))"

definition expected_lineage ::
  "ledger_record \<Rightarrow> (string \<times> json) list \<Rightarrow> string option \<Rightarrow> (string \<times> json) list" where
  "expected_lineage r admission expected_producer_commit =
     [(''intent_id'', JStr (rec_intent_id r)),
      (''intent_digest'', JStr (rec_intent_digest r)),
      (''execution_id'', JStr (rec_execution_id r)),
      (''admission_id'', obj_get admission ''admission_id''),
      (''admission_digest'', obj_get admission ''admission_digest'')] @
     (case obj_get admission ''policy_context'' of
        JObj ctx \<Rightarrow> [(''controller_commit'', obj_get ctx ''controller_commit'')]
      | _ \<Rightarrow> []) @
     (case expected_producer_commit of
        Some c \<Rightarrow> [(''producer_commit'', JStr c)] | None \<Rightarrow> [])"

definition workload_check :: "json \<Rightarrow> json \<Rightarrow> (string \<times> json) list \<Rightarrow> unit result" where
  "workload_check receipt provenance workload =
     bindE (lineage_check provenance ''catalog_backend_ref'' (obj_get workload ''catalog_backend_ref'')) (\<lambda>_.
     bindE (lineage_check provenance ''backend_commit'' (obj_get workload ''catalog_backend_ref'')) (\<lambda>_.
     forE (\<lambda>(field, expected).
         if \<not> is_str expected then Inl ValueError
         else bindE (getitem receipt ''workload'') (\<lambda>rw. lineage_check rw field expected))
       [(''model_plugin_id'', obj_get workload ''model_plugin_id''),
        (''dataset_id'', obj_get workload ''dataset_id''),
        (''executed_scope'', obj_get workload ''requested_scope'')]))"

definition validate_completed_receipt ::
  "services \<Rightarrow> ledger_record \<Rightarrow> string option \<Rightarrow> unit result" where
  "validate_completed_receipt svc r expected_producer_commit =
     bindE (canonicalize_jcs (rec_terminal_receipt r)) (\<lambda>bytes.
     bindE (ensure (py_eq (rec_receipt_digest r) (JStr (sha256_digest (svc_sha svc) bytes))) ValueError) (\<lambda>_.
     bindE (mapErr (\<lambda>_. ValueError)
              (schema_validate svc ''receipt-lineage'' (rec_terminal_receipt r))) (\<lambda>_.
     bindE (getitem (rec_terminal_receipt r) ''provenance'') (\<lambda>provenance.
     (case rec_admission_record r of
        JNull \<Rightarrow> Inl AssertionError
      | JObj admission \<Rightarrow>
          bindE (forE (\<lambda>(f, e). lineage_check provenance f e)
                   (expected_lineage r admission expected_producer_commit)) (\<lambda>_.
          (case rec_intent r of
             JNull \<Rightarrow> Inr ()
           | JObj intent \<Rightarrow>
               (case obj_get intent ''workload'' of
                  JObj workload \<Rightarrow> workload_check (rec_terminal_receipt r) provenance workload
                | _ \<Rightarrow> Inl ValueError)
           | _ \<Rightarrow> Inl AttributeError))
      | _ \<Rightarrow> Inl AttributeError)))))"

definition validate_terminal_invariants ::
  "services \<Rightarrow> ledger_record \<Rightarrow> string option \<Rightarrow> unit result" where
  "validate_terminal_invariants svc r expected_producer_commit =
     (if rec_status r \<in> set NONTERMINAL_STATUSES then
        ensure (rec_receipt_digest r = JNull \<and> rec_terminal_receipt r = JNull \<and>
                rec_error r = JNull) ValueError
      else if rec_status r = ''COMPLETED'' then
        (if rec_error r \<noteq> JNull then Inl ValueError
         else if py_eq (rec_operation r) (JStr ''MATERIALIZE_DATASET'') then
           ensure (rec_receipt_digest r = JNull \<and> rec_terminal_receipt r = JNull) ValueError
         else if rec_receipt_digest r = JNull \<or> rec_terminal_receipt r = JNull then Inl ValueError
         else validate_completed_receipt svc r expected_producer_commit)
      else if rec_status r \<in> {''FAILED'', ''TIMED_OUT'', ''CANCELLED''} then
        (if rec_receipt_digest r \<noteq> JNull \<or> rec_terminal_receipt r \<noteq> JNull then Inl ValueError
         else ensure (truthy (rec_error r)) ValueError)
      else Inl ValueError)"

text \<open>Equality of two records: Python's dataclass equality, field by field.\<close>

definition record_eq :: "ledger_record \<Rightarrow> ledger_record \<Rightarrow> bool" where
  "record_eq a b \<longleftrightarrow>
     rec_intent_id a = rec_intent_id b \<and> rec_intent_digest a = rec_intent_digest b \<and>
     rec_authenticated_subject_id a = rec_authenticated_subject_id b \<and>
     rec_execution_id a = rec_execution_id b \<and> rec_status a = rec_status b \<and>
     rec_created_at a = rec_created_at b \<and> rec_updated_at a = rec_updated_at b \<and>
     py_eq (rec_admission_record a) (rec_admission_record b) \<and>
     py_eq (rec_receipt_digest a) (rec_receipt_digest b) \<and>
     py_eq (rec_terminal_receipt a) (rec_terminal_receipt b) \<and>
     py_eq (rec_error a) (rec_error b) \<and>
     py_eq (rec_retry_of_intent_id a) (rec_retry_of_intent_id b) \<and>
     py_eq (rec_operation a) (rec_operation b) \<and> py_eq (rec_intent a) (rec_intent b)"

definition immutable_fields_eq :: "ledger_record \<Rightarrow> ledger_record \<Rightarrow> bool" where
  "immutable_fields_eq a b \<longleftrightarrow>
     rec_intent_digest a = rec_intent_digest b \<and>
     rec_authenticated_subject_id a = rec_authenticated_subject_id b \<and>
     rec_execution_id a = rec_execution_id b \<and> rec_created_at a = rec_created_at b \<and>
     py_eq (rec_admission_record a) (rec_admission_record b) \<and>
     py_eq (rec_retry_of_intent_id a) (rec_retry_of_intent_id b) \<and>
     py_eq (rec_operation a) (rec_operation b) \<and> py_eq (rec_intent a) (rec_intent b)"

definition validate_history_transition :: "ledger_record \<Rightarrow> ledger_record \<Rightarrow> unit result" where
  "validate_history_transition previous current =
     (if \<not> immutable_fields_eq previous current then Inl ValueError
      else if rec_status previous \<in> set TERMINAL_STATUSES then
        ensure (record_eq previous current) ValueError
      else if rec_status previous = rec_status current then
        ensure (record_eq previous current) ValueError
      else (case map_of LEGAL_TRANSITIONS (rec_status previous) of
              None \<Rightarrow> Inl KeyError
            | Some ss \<Rightarrow> ensure (rec_status current \<in> set ss) ValueError))"

end
