(* ===== verification/Ledger_Ops.thy ===== *)
theory Ledger_Ops
  imports Ledger
begin

text \<open>
  The operations of \<open>IdempotencyLedger\<close>. The file behind \<open>persistence_path\<close> is the list
  \<open>lg_log\<close> of its lines: a \<open>Snapshot\<close> is a line that holds one JSON document (what
  \<open>json.loads\<close> returns for the line written by \<open>json.dumps\<close>), \<open>Torn\<close> a line that is not
  JSON (an interrupted write) and \<open>Blank\<close> an empty line. An append either becomes durable or
  fails with an exception after an arbitrary part of the line has reached the file.
\<close>

section \<open>State\<close>

record reservation =
  res_intent_id :: string
  res_intent_digest :: string
  res_caller_subject_id :: string
  res_created_at :: string
  res_failed :: bool

datatype log_line = Snapshot json | Torn | Blank

datatype append_outcome = Appended | AppendFailed string "log_line list"

record ledger =
  lg_persistence_path :: "string option"
  lg_expected_producer_commit :: "string option"
  lg_by_intent_id :: "(string, ledger_record) dict"
  lg_by_digest :: "(string, string) dict"
  lg_by_execution_id :: "(string, string) dict"
  lg_reservations :: "(string, reservation) dict"
  lg_poisoned_reason :: "string option"
  lg_log :: "log_line list"

type_synonym 'a ledger_op = "ledger \<Rightarrow> 'a result \<times> ledger"

section \<open>Construction and recovery from the file\<close>

definition empty_ledger :: "string option \<Rightarrow> string option \<Rightarrow> log_line list \<Rightarrow> ledger" where
  "empty_ledger path producer file =
     \<lparr>lg_persistence_path = path, lg_expected_producer_commit = producer, lg_by_intent_id = [],
      lg_by_digest = [], lg_by_execution_id = [], lg_reservations = [],
      lg_poisoned_reason = None, lg_log = file\<rparr>"

text \<open>The exceptions the loader turns into one \<open>ValueError\<close> that names the line.\<close>

definition loader_error :: "exn \<Rightarrow> exn" where
  "loader_error e = (if e \<in> {KeyError, TypeError, ValueError} then ValueError else e)"

definition parse_line :: "services \<Rightarrow> string option \<Rightarrow> json \<Rightarrow> ledger_record result" where
  "parse_line svc producer data =
     mapErr loader_error
       (if \<not> json_finite data then Inl ValueError
        else bindE (validate_snapshot_schema data) (\<lambda>d.
             bindE (from_dict (JObj d)) (\<lambda>rec.
             bindE (validate_terminal_invariants svc rec producer) (\<lambda>_. Inr rec))))"

definition load_record :: "ledger_record \<Rightarrow> ledger \<Rightarrow> ledger result" where
  "load_record rec l =
     bindE (case map_of (lg_by_intent_id l) (rec_intent_id rec) of
              None \<Rightarrow> ensure (rec_status rec = ''ADMITTED'') ValueError
            | Some previous \<Rightarrow> validate_history_transition previous rec) (\<lambda>_.
     bindE (case map_of (lg_by_digest l) (rec_intent_digest rec) of
              None \<Rightarrow> Inr ()
            | Some owner \<Rightarrow> ensure (owner = rec_intent_id rec) ValueError) (\<lambda>_.
     bindE (case map_of (lg_by_execution_id l) (rec_execution_id rec) of
              None \<Rightarrow> Inr ()
            | Some owner \<Rightarrow> ensure (owner = rec_intent_id rec) ValueError) (\<lambda>_.
     Inr (l\<lparr>lg_by_intent_id := AList.update (rec_intent_id rec) rec (lg_by_intent_id l),
            lg_by_digest := AList.update (rec_intent_digest rec) (rec_intent_id rec) (lg_by_digest l),
            lg_by_execution_id :=
              AList.update (rec_execution_id rec) (rec_intent_id rec) (lg_by_execution_id l)\<rparr>))))"

definition load_line :: "services \<Rightarrow> log_line \<Rightarrow> ledger \<Rightarrow> ledger result" where
  "load_line svc line l =
     (case line of
        Blank \<Rightarrow> Inr l
      | Torn \<Rightarrow> Inl ValueError
      | Snapshot data \<Rightarrow>
          bindE (parse_line svc (lg_expected_producer_commit l) data) (\<lambda>rec. load_record rec l))"

fun load_lines :: "services \<Rightarrow> log_line list \<Rightarrow> ledger \<Rightarrow> ledger result" where
  "load_lines svc [] l = Inr l"
| "load_lines svc (line # rest) l = bindE (load_line svc line l) (load_lines svc rest)"

text \<open>
  The constructor: \<open>file\<close> is the content of the file at \<open>path\<close>, \<open>None\<close> when it does not
  exist. An empty path counts as no path.
\<close>

definition init_ledger ::
  "services \<Rightarrow> string option \<Rightarrow> string option \<Rightarrow> log_line list option \<Rightarrow> ledger result" where
  "init_ledger svc persistence_path expected_producer_commit file =
     bindE (case expected_producer_commit of
              None \<Rightarrow> Inr ()
            | Some c \<Rightarrow> ensure (fullmatch_hex 40 c) ValueError) (\<lambda>_.
     (let path = (case persistence_path of None \<Rightarrow> None | Some p \<Rightarrow> if p = [] then None else Some p)
      in case (path, file) of
           (Some p, Some lines) \<Rightarrow>
             load_lines svc lines (empty_ledger path expected_producer_commit lines)
         | _ \<Rightarrow> Inr (empty_ledger path expected_producer_commit [])))"

section \<open>Durable append\<close>

definition mark_failed ::
  "string option \<Rightarrow> (string, reservation) dict \<Rightarrow> (string, reservation) dict" where
  "mark_failed reservation_intent_id reservations =
     (case reservation_intent_id of
        None \<Rightarrow> reservations
      | Some i \<Rightarrow>
          (case map_of reservations i of
             None \<Rightarrow> reservations
           | Some r \<Rightarrow> AList.update i (r\<lparr>res_failed := True\<rparr>) reservations))"

definition persist_or_poison ::
  "ledger_record \<Rightarrow> string option \<Rightarrow> append_outcome \<Rightarrow> unit ledger_op" where
  "persist_or_poison rec reservation_intent_id outcome l =
     (if lg_persistence_path l = None then (Inr (), l)
      else (case outcome of
              Appended \<Rightarrow> (Inr (), l\<lparr>lg_log := lg_log l @ [Snapshot (to_dict rec)]\<rparr>)
            | AppendFailed reason written \<Rightarrow>
                (Inl OSError,
                 l\<lparr>lg_log := lg_log l @ written,
                   lg_poisoned_reason := Some reason,
                   lg_reservations := mark_failed reservation_intent_id (lg_reservations l)\<rparr>)))"

definition raise_if_poisoned :: "ledger \<Rightarrow> unit result" where
  "raise_if_poisoned l = ensure (lg_poisoned_reason l = None) RuntimeError"

section \<open>Reservation\<close>

datatype acquire_outcome = Committed ledger_record | Reserved | MustWait

text \<open>
  One pass of the loop of \<open>acquire_or_check\<close>, with the lock held. \<open>expired\<close> tells whether the
  deadline has passed, \<open>now\<close> is the timestamp a new reservation gets.
\<close>

definition acquire_pass ::
  "string \<Rightarrow> string \<Rightarrow> string \<Rightarrow> string \<Rightarrow> bool \<Rightarrow> acquire_outcome ledger_op" where
  "acquire_pass intent_id intent_digest caller_subject_id now expired l =
     (case raise_if_poisoned l of Inl e \<Rightarrow> (Inl e, l) | Inr _ \<Rightarrow>
     (case map_of (lg_by_intent_id l) intent_id of
        Some existing \<Rightarrow>
          (if rec_authenticated_subject_id existing \<noteq> caller_subject_id
           then (Inl UnauthorizedCallerError, l)
           else if rec_intent_digest existing \<noteq> intent_digest
           then (Inl IntentIdDigestConflictError, l)
           else (Inr (Committed existing), l))
      | None \<Rightarrow>
     if (case map_of (lg_by_digest l) intent_digest of
           Some prior \<Rightarrow> prior \<noteq> intent_id | None \<Rightarrow> False)
     then (Inl IntentCollisionDetectedError, l)
     else
     (case map_of (lg_reservations l) intent_id of
        Some res \<Rightarrow>
          (if res_caller_subject_id res \<noteq> caller_subject_id
           then (Inl UnauthorizedCallerError, l)
           else if res_intent_digest res \<noteq> intent_digest
           then (Inl IntentIdDigestConflictError, l)
           else if expired then (Inl BuiltinTimeoutError, l)
           else (Inr MustWait, l))
      | None \<Rightarrow>
          (if \<exists>(i, r)\<in>set (lg_reservations l).
                res_intent_digest r = intent_digest \<and> res_intent_id r \<noteq> intent_id
           then (Inl IntentCollisionDetectedError, l)
           else (Inr Reserved,
                 l\<lparr>lg_reservations :=
                     AList.update intent_id
                       \<lparr>res_intent_id = intent_id, res_intent_digest = intent_digest,
                        res_caller_subject_id = caller_subject_id, res_created_at = now,
                        res_failed = False\<rparr> (lg_reservations l)\<rparr>)))))"

text \<open>
  The whole call. Each element of \<open>schedule\<close> is one wait on the condition variable: what the
  other threads did to the ledger while the lock was released, and whether the deadline had
  passed at the check before that wait. The result is \<open>None\<close> only when the schedule ends
  while the call still waits.
\<close>

fun acquire_or_check ::
  "string \<Rightarrow> string \<Rightarrow> string \<Rightarrow> string \<Rightarrow> (bool \<times> (ledger \<Rightarrow> ledger)) list \<Rightarrow> ledger \<Rightarrow>
   ((ledger_record option) result \<times> ledger) option" where
  "acquire_or_check i d c now [] l =
     (case acquire_pass i d c now False l of
        (Inl e, l') \<Rightarrow> Some (Inl e, l')
      | (Inr (Committed rec), l') \<Rightarrow> Some (Inr (Some rec), l')
      | (Inr Reserved, l') \<Rightarrow> Some (Inr None, l')
      | (Inr MustWait, l') \<Rightarrow> None)"
| "acquire_or_check i d c now ((expired, others) # schedule) l =
     (case acquire_pass i d c now expired l of
        (Inl e, l') \<Rightarrow> Some (Inl e, l')
      | (Inr (Committed rec), l') \<Rightarrow> Some (Inr (Some rec), l')
      | (Inr Reserved, l') \<Rightarrow> Some (Inr None, l')
      | (Inr MustWait, l') \<Rightarrow> acquire_or_check i d c now schedule (others l'))"

definition release_reservation :: "string \<Rightarrow> ledger \<Rightarrow> ledger" where
  "release_reservation intent_id l =
     (if lg_poisoned_reason l \<noteq> None then l
      else l\<lparr>lg_reservations := AList.delete intent_id (lg_reservations l)\<rparr>)"

section \<open>Admission\<close>

record admission_request =
  adm_intent_id :: string
  adm_intent_digest :: string
  adm_caller_subject_id :: string
  adm_execution_id :: string
  adm_admission_record :: json
  adm_intent :: json
  adm_retry_of_intent_id :: json
  adm_operation :: json
  adm_status :: string

definition admitted_record :: "admission_request \<Rightarrow> string \<Rightarrow> ledger_record" where
  "admitted_record a now =
     \<lparr>rec_intent_id = adm_intent_id a, rec_intent_digest = adm_intent_digest a,
      rec_authenticated_subject_id = adm_caller_subject_id a,
      rec_execution_id = adm_execution_id a, rec_status = adm_status a,
      rec_created_at = now, rec_updated_at = now,
      rec_admission_record = adm_admission_record a, rec_receipt_digest = JNull,
      rec_terminal_receipt = JNull, rec_error = JNull,
      rec_retry_of_intent_id = adm_retry_of_intent_id a, rec_operation = adm_operation a,
      rec_intent = adm_intent a\<rparr>"

text \<open>The checks of \<open>commit_admission\<close> before it writes; the record it is going to write.\<close>

definition commit_checks ::
  "services \<Rightarrow> admission_request \<Rightarrow> string \<Rightarrow> ledger \<Rightarrow> ledger_record result" where
  "commit_checks svc a now l =
     bindE (ensure (adm_status a = ''ADMITTED'') ValueError) (\<lambda>_.
     bindE (raise_if_poisoned l) (\<lambda>_.
     (case map_of (lg_reservations l) (adm_intent_id a) of
        None \<Rightarrow> Inl RuntimeError
      | Some reservation \<Rightarrow>
          bindE (ensure (res_intent_digest reservation = adm_intent_digest a \<and>
                         res_caller_subject_id reservation = adm_caller_subject_id a) RuntimeError) (\<lambda>_.
          bindE (ensure (map_of (lg_by_intent_id l) (adm_intent_id a) = None) RuntimeError) (\<lambda>_.
          (let rec = admitted_record a now in
           bindE (validate_snapshot_schema (to_dict rec)) (\<lambda>_.
           bindE (validate_terminal_invariants svc rec None) (\<lambda>_. Inr rec))))))))"

definition commit_admission ::
  "services \<Rightarrow> admission_request \<Rightarrow> string \<Rightarrow> append_outcome \<Rightarrow> ledger_record ledger_op" where
  "commit_admission svc a now outcome l =
     (case commit_checks svc a now l of
        Inl e \<Rightarrow> (Inl e, l)
      | Inr rec \<Rightarrow>
          (case persist_or_poison rec (Some (adm_intent_id a)) outcome l of
             (Inl e, l') \<Rightarrow> (Inl e, l')
           | (Inr _, l') \<Rightarrow>
               (Inr rec,
                l'\<lparr>lg_by_intent_id := AList.update (adm_intent_id a) rec (lg_by_intent_id l'),
                   lg_by_digest :=
                     AList.update (adm_intent_digest a) (adm_intent_id a) (lg_by_digest l'),
                   lg_by_execution_id :=
                     AList.update (adm_execution_id a) (adm_intent_id a) (lg_by_execution_id l'),
                   lg_reservations := AList.delete (adm_intent_id a) (lg_reservations l')\<rparr>)))"

definition check_intent ::
  "string \<Rightarrow> string \<Rightarrow> string \<Rightarrow> ledger \<Rightarrow> (ledger_record option) result" where
  "check_intent intent_id intent_digest caller_subject_id l =
     bindE (raise_if_poisoned l) (\<lambda>_.
     (case map_of (lg_by_intent_id l) intent_id of
        Some existing \<Rightarrow>
          (if rec_authenticated_subject_id existing \<noteq> caller_subject_id
           then Inl UnauthorizedCallerError
           else if rec_intent_digest existing \<noteq> intent_digest
           then Inl IntentIdDigestConflictError
           else Inr (Some existing))
      | None \<Rightarrow>
          (if (case map_of (lg_by_digest l) intent_digest of
                 Some prior \<Rightarrow> prior \<noteq> intent_id | None \<Rightarrow> False)
           then Inl IntentCollisionDetectedError
           else Inr None)))"

text \<open>The compatibility helper: acquire, commit, and release when the commit raises.\<close>

definition record_admission ::
  "services \<Rightarrow> admission_request \<Rightarrow> string \<Rightarrow> append_outcome \<Rightarrow>
   (bool \<times> (ledger \<Rightarrow> ledger)) list \<Rightarrow> ledger \<Rightarrow> (ledger_record result \<times> ledger) option" where
  "record_admission svc a now outcome schedule l =
     (case acquire_or_check (adm_intent_id a) (adm_intent_digest a) (adm_caller_subject_id a)
             now schedule l of
        None \<Rightarrow> None
      | Some (Inl e, l') \<Rightarrow> Some (Inl e, l')
      | Some (Inr (Some existing), l') \<Rightarrow> Some (Inr existing, l')
      | Some (Inr None, l') \<Rightarrow>
          (case commit_admission svc (a\<lparr>adm_status := ''ADMITTED''\<rparr>) now outcome l' of
             (Inl e, l'') \<Rightarrow> Some (Inl e, release_reservation (adm_intent_id a) l'')
           | (Inr rec, l'') \<Rightarrow> Some (Inr rec, l'')))"

section \<open>Transition\<close>

record transition_request =
  tr_execution_id :: string
  tr_expected_statuses :: "string list"
  tr_status :: string
  tr_receipt_digest :: json
  tr_terminal_receipt :: json
  tr_error :: json

definition no_artifacts :: "transition_request \<Rightarrow> bool" where
  "no_artifacts t \<longleftrightarrow>
     tr_receipt_digest t = JNull \<and> tr_terminal_receipt t = JNull \<and> tr_error t = JNull"

text \<open>
  What a transition decides before it writes: \<open>Inr None\<close> is the failed comparison,
  \<open>Inr (Some (False, r))\<close> the idempotent read of the current record \<open>r\<close>, and
  \<open>Inr (Some (True, r))\<close> the new record \<open>r\<close> that is to be appended.
\<close>

definition next_artifacts :: "transition_request \<Rightarrow> (json \<times> json \<times> json) result" where
  "next_artifacts t =
     (if tr_status t = ''COMPLETED'' then Inr (tr_receipt_digest t, tr_terminal_receipt t, JNull)
      else if tr_status t \<in> {''FAILED'', ''TIMED_OUT'', ''CANCELLED''} then
        (if tr_error t = JNull then Inl ValueError else Inr (JNull, JNull, tr_error t))
      else if \<not> no_artifacts t then Inl ValueError
      else Inr (JNull, JNull, JNull))"

definition transition_record ::
  "services \<Rightarrow> transition_request \<Rightarrow> string \<Rightarrow> ledger \<Rightarrow> ledger_record \<Rightarrow> ledger_record result" where
  "transition_record svc t now l rec =
     bindE (ensure (tr_status t \<in> set (legal_next (rec_status rec))) ValueError) (\<lambda>_.
     bindE (next_artifacts t) (\<lambda>(digest, receipt, error).
     (let next_record = rec\<lparr>rec_status := tr_status t, rec_updated_at := now,
                            rec_receipt_digest := digest, rec_terminal_receipt := receipt,
                            rec_error := error\<rparr> in
      bindE (validate_snapshot_schema (to_dict next_record)) (\<lambda>_.
      bindE (validate_terminal_invariants svc next_record (lg_expected_producer_commit l)) (\<lambda>_.
      bindE (validate_history_transition rec next_record) (\<lambda>_. Inr next_record))))))"

definition transition_decision ::
  "services \<Rightarrow> transition_request \<Rightarrow> string \<Rightarrow> ledger \<Rightarrow> ((bool \<times> ledger_record) option) result" where
  "transition_decision svc t now l =
     bindE (ensure (tr_status t \<in> set KNOWN_STATUSES) ValueError) (\<lambda>_.
     bindE (ensure (tr_expected_statuses t \<noteq> [] \<and>
                    set (tr_expected_statuses t) \<subseteq> set KNOWN_STATUSES) ValueError) (\<lambda>_.
     bindE (raise_if_poisoned l) (\<lambda>_.
     (case map_of (lg_by_execution_id l) (tr_execution_id t) of
        None \<Rightarrow> Inl KeyError
      | Some intent_id \<Rightarrow>
     if intent_id = [] then Inl KeyError else
     (case map_of (lg_by_intent_id l) intent_id of
        None \<Rightarrow> Inl KeyError
      | Some rec \<Rightarrow>
          (if rec_status rec \<notin> set (tr_expected_statuses t) then Inr None
           else if rec_status rec \<in> set TERMINAL_STATUSES then
             (if rec_status rec = tr_status t \<and> no_artifacts t then Inr (Some (False, rec))
              else Inr None)
           else if rec_status rec = tr_status t \<and> no_artifacts t then Inr (Some (False, rec))
           else bindE (transition_record svc t now l rec) (\<lambda>r. Inr (Some (True, r)))))))))"

definition owner_of_execution :: "string \<Rightarrow> ledger \<Rightarrow> string" where
  "owner_of_execution execution_id l =
     (case map_of (lg_by_execution_id l) execution_id of None \<Rightarrow> [] | Some i \<Rightarrow> i)"

definition transition_execution ::
  "services \<Rightarrow> transition_request \<Rightarrow> string \<Rightarrow> append_outcome \<Rightarrow> (ledger_record option) ledger_op" where
  "transition_execution svc t now outcome l =
     (case transition_decision svc t now l of
        Inl e \<Rightarrow> (Inl e, l)
      | Inr None \<Rightarrow> (Inr None, l)
      | Inr (Some (False, rec)) \<Rightarrow> (Inr (Some rec), l)
      | Inr (Some (True, rec)) \<Rightarrow>
          (case persist_or_poison rec None outcome l of
             (Inl e, l') \<Rightarrow> (Inl e, l')
           | (Inr _, l') \<Rightarrow>
               (Inr (Some rec),
                l'\<lparr>lg_by_intent_id :=
                     AList.update (owner_of_execution (tr_execution_id t) l) rec
                       (lg_by_intent_id l')\<rparr>)))"

section \<open>Reads\<close>

definition get_by_execution_id :: "string \<Rightarrow> ledger \<Rightarrow> ledger_record option" where
  "get_by_execution_id execution_id l =
     (case map_of (lg_by_execution_id l) execution_id of
        None \<Rightarrow> None
      | Some intent_id \<Rightarrow> if intent_id = [] then None else map_of (lg_by_intent_id l) intent_id)"

definition get_by_intent_id :: "string \<Rightarrow> ledger \<Rightarrow> ledger_record option" where
  "get_by_intent_id intent_id l = map_of (lg_by_intent_id l) intent_id"

definition update_execution ::
  "services \<Rightarrow> transition_request \<Rightarrow> string \<Rightarrow> append_outcome \<Rightarrow> ledger_record ledger_op" where
  "update_execution svc t now outcome l =
     (case transition_execution svc
             (t\<lparr>tr_expected_statuses := NONTERMINAL_STATUSES @ [tr_status t]\<rparr>) now outcome l of
        (Inl e, l') \<Rightarrow> (Inl e, l')
      | (Inr (Some rec), l') \<Rightarrow> (Inr rec, l')
      | (Inr None, l') \<Rightarrow>
          (case get_by_execution_id (tr_execution_id t) l' of
             None \<Rightarrow> (Inl KeyError, l')
           | Some existing \<Rightarrow> (Inr existing, l')))"

definition get_receipt_for_subject :: "string \<Rightarrow> string \<Rightarrow> ledger \<Rightarrow> json result" where
  "get_receipt_for_subject execution_id authenticated_subject_id l =
     (case get_by_execution_id execution_id l of
        None \<Rightarrow> Inr JNull
      | Some rec \<Rightarrow>
          (if rec_authenticated_subject_id rec \<noteq> authenticated_subject_id
           then Inl UnauthorizedCallerError
           else Inr (rec_terminal_receipt rec)))"

definition list_records :: "ledger \<Rightarrow> ledger_record list result" where
  "list_records l = bindE (raise_if_poisoned l) (\<lambda>_. Inr (map snd (lg_by_intent_id l)))"

definition is_nonterminal :: "ledger_record \<Rightarrow> bool" where
  "is_nonterminal r \<longleftrightarrow> rec_status r \<in> set NONTERMINAL_STATUSES"

definition list_nonterminal_records :: "ledger \<Rightarrow> ledger_record list result" where
  "list_nonterminal_records l = bindE (list_records l) (\<lambda>rs. Inr (filter is_nonterminal rs))"

definition nonterminal_count :: "ledger \<Rightarrow> nat" where
  "nonterminal_count l = length (filter (\<lambda>(i, r). is_nonterminal r) (lg_by_intent_id l))"

fun position :: "string \<Rightarrow> (string \<times> 'v) list \<Rightarrow> nat option" where
  "position k [] = None"
| "position k ((k', v) # rest) =
     (if k' = k then Some 0 else map_option Suc (position k rest))"

definition active_count :: "string option \<Rightarrow> ledger \<Rightarrow> nat result" where
  "active_count reservation_intent_id l =
     bindE (raise_if_poisoned l) (\<lambda>_.
     (case reservation_intent_id of
        None \<Rightarrow> Inr (nonterminal_count l + length (lg_reservations l))
      | Some i \<Rightarrow>
          (case position i (lg_reservations l) of
             None \<Rightarrow> Inl KeyError
           | Some n \<Rightarrow> Inr (nonterminal_count l + n))))"

end
