(* ===== verification/Transition_System.thy ===== *)
theory Transition_System
  imports Prelude
begin

text \<open>
  The interface every stateful component offers to its clients: a start condition, a step
  relation and an invariant. \<open>invariant_system\<close> is the contract "the start establishes and
  every step keeps the invariant"; \<open>growing_system\<close> adds an observation of the state by key
  that a step only extends along a preorder, from which it follows that a value nothing lies
  above is kept for ever; \<open>replayed_system\<close> says that the durable part of a state is what
  one gets by replaying its log from the start. The components interpret the locales with their own definitions.
\<close>

inductive reachable :: "('s \<Rightarrow> bool) \<Rightarrow> ('s \<Rightarrow> 's \<Rightarrow> bool) \<Rightarrow> 's \<Rightarrow> bool"
  for init :: "'s \<Rightarrow> bool" and step :: "'s \<Rightarrow> 's \<Rightarrow> bool" where
  start: "init s \<Longrightarrow> reachable init step s"
| step: "reachable init step s \<Longrightarrow> step s t \<Longrightarrow> reachable init step t"

lemma reachable_steps: "reachable init step s \<Longrightarrow> step\<^sup>*\<^sup>* s t \<Longrightarrow> reachable init step t"
  by (rotate_tac 1, induction rule: rtranclp_induct) (auto intro: reachable.step)

locale invariant_system =
  fixes init :: "'s \<Rightarrow> bool"
    and step :: "'s \<Rightarrow> 's \<Rightarrow> bool"
    and inv :: "'s \<Rightarrow> bool"
  assumes inv_init: "init s \<Longrightarrow> inv s"
    and inv_step: "inv s \<Longrightarrow> step s t \<Longrightarrow> inv t"
begin

lemma reachable_inv: "reachable init step s \<Longrightarrow> inv s"
  by (induction rule: reachable.induct) (auto intro: inv_init inv_step)

lemma steps_inv: "step\<^sup>*\<^sup>* s t \<Longrightarrow> inv s \<Longrightarrow> inv t"
  by (induction rule: rtranclp_induct) (auto intro: inv_step)

end

locale growing_system = invariant_system +
  fixes obs :: "'s \<Rightarrow> 'k \<Rightarrow> 'v option"
    and le :: "'v \<Rightarrow> 'v \<Rightarrow> bool"
  assumes le_refl: "le v v"
    and le_trans: "le u v \<Longrightarrow> le v w \<Longrightarrow> le u w"
    and obs_step: "inv s \<Longrightarrow> step s t \<Longrightarrow> obs s k = Some v \<Longrightarrow> \<exists>w. obs t k = Some w \<and> le v w"
begin

lemma obs_grows:
  "step\<^sup>*\<^sup>* s t \<Longrightarrow> inv s \<Longrightarrow> obs s k = Some v \<Longrightarrow> \<exists>w. obs t k = Some w \<and> le v w"
proof (induction rule: rtranclp_induct)
  case base
  then show ?case by (auto intro: le_refl)
next
  case (step t u)
  then obtain w where w: "obs t k = Some w" "le v w" by auto
  from step have "inv t" by (auto intro: steps_inv)
  with step w obtain x where "obs u k = Some x" "le w x" using obs_step by metis
  with w show ?case by (auto intro: le_trans)
qed

lemma maximal_kept:
  assumes "step\<^sup>*\<^sup>* s t" and "inv s" and "obs s k = Some v" and "\<And>w. le v w \<Longrightarrow> w = v"
  shows "obs t k = Some v"
  using obs_grows [OF assms(1-3)] assms(4) by auto

end

fun replay :: "('l \<Rightarrow> 'c \<Rightarrow> 'e + 'c) \<Rightarrow> 'l list \<Rightarrow> 'c \<Rightarrow> 'e + 'c" where
  "replay play [] c = Inr c"
| "replay play (x # xs) c = bindE (play x c) (replay play xs)"

lemma replay_append: "replay play (xs @ ys) c = bindE (replay play xs c) (replay play ys)"
proof (induction xs arbitrary: c)
  case (Cons x xs)
  then show ?case by (cases "play x c") simp_all
qed simp

locale replayed_system = invariant_system +
  fixes core :: "'s \<Rightarrow> 'c"
    and start_core :: "'s \<Rightarrow> 'c"
    and log :: "'s \<Rightarrow> 'l list"
    and durable :: "'s \<Rightarrow> bool"
    and play :: "'l \<Rightarrow> 'c \<Rightarrow> 'e + 'c"
  assumes replay_init: "init s \<Longrightarrow> durable s \<Longrightarrow> replay play (log s) (start_core s) = Inr (core s)"
    and durable_step: "step s t \<Longrightarrow> durable t \<Longrightarrow> durable s \<and> start_core t = start_core s"
    and log_step: "inv s \<Longrightarrow> step s t \<Longrightarrow> durable t \<Longrightarrow>
      (log t = log s \<and> core t = core s) \<or>
      (\<exists>x. log t = log s @ [x] \<and> play x (core s) = Inr (core t))"
begin

lemma replay_log: "reachable init step s \<Longrightarrow> durable s \<Longrightarrow>
    replay play (log s) (start_core s) = Inr (core s)"
proof (induction rule: reachable.induct)
  case (start s)
  then show ?case by (rule replay_init)
next
  case (step s t)
  from step.hyps step.prems durable_step [OF step.hyps(2)] step.IH
  have "replay play (log s) (start_core t) = Inr (core s)" by simp
  with log_step [OF reachable_inv [OF step.hyps(1)] step.hyps(2) step.prems]
  show ?case by (auto simp: replay_append)
qed

end

end
