(* ===== verification/Ledger_Inv.thy ===== *)
theory Ledger_Inv
  imports Ledger_Ops Transition_System
begin

text \<open>
  The ledger as a transition system. \<open>ledger_step\<close> is one critical section of any thread:
  a pass of \<open>acquire_or_check\<close>, a commit, a release or a status transition, whatever the
  outcome of the append. \<open>ledger_inv\<close> ties the indexes to the records: they describe the
  same set of executions, no digest and no execution identity has two owners, a reservation
  never overlaps a committed record, and every record is one the loader accepts.
\<close>

section \<open>Invariant\<close>

definition record_ok :: "services \<Rightarrow> string option \<Rightarrow> ledger_record \<Rightarrow> bool" where
  "record_ok svc producer r \<longleftrightarrow>
     (\<exists>d. validate_snapshot_schema (to_dict r) = Inr d) \<and>
     validate_terminal_invariants svc r producer = Inr () \<and> json_finite (to_dict r)"

definition indexes_agree :: "ledger \<Rightarrow> bool" where
  "indexes_agree l \<longleftrightarrow>
     (\<forall>i r. map_of (lg_by_intent_id l) i = Some r \<longrightarrow>
        rec_intent_id r = i \<and>
        map_of (lg_by_digest l) (rec_intent_digest r) = Some i \<and>
        map_of (lg_by_execution_id l) (rec_execution_id r) = Some i) \<and>
     (\<forall>d i. map_of (lg_by_digest l) d = Some i \<longrightarrow>
        (\<exists>r. map_of (lg_by_intent_id l) i = Some r \<and> rec_intent_digest r = d)) \<and>
     (\<forall>e i. map_of (lg_by_execution_id l) e = Some i \<longrightarrow>
        (\<exists>r. map_of (lg_by_intent_id l) i = Some r \<and> rec_execution_id r = e))"

definition reservations_disjoint :: "ledger \<Rightarrow> bool" where
  "reservations_disjoint l \<longleftrightarrow>
     (\<forall>i s. map_of (lg_reservations l) i = Some s \<longrightarrow>
        res_intent_id s = i \<and> map_of (lg_by_intent_id l) i = None \<and>
        map_of (lg_by_digest l) (res_intent_digest s) = None) \<and>
     (\<forall>i s j t. map_of (lg_reservations l) i = Some s \<longrightarrow> map_of (lg_reservations l) j = Some t \<longrightarrow>
        res_intent_digest s = res_intent_digest t \<longrightarrow> i = j)"

definition distinct_keys :: "ledger \<Rightarrow> bool" where
  "distinct_keys l \<longleftrightarrow>
     distinct (map fst (lg_by_intent_id l)) \<and> distinct (map fst (lg_by_digest l)) \<and>
     distinct (map fst (lg_by_execution_id l)) \<and> distinct (map fst (lg_reservations l))"

definition records_ok :: "services \<Rightarrow> ledger \<Rightarrow> bool" where
  "records_ok svc l \<longleftrightarrow>
     (\<forall>i r. map_of (lg_by_intent_id l) i = Some r \<longrightarrow> record_ok svc (lg_expected_producer_commit l) r)"

definition ledger_inv :: "services \<Rightarrow> ledger \<Rightarrow> bool" where
  "ledger_inv svc l \<longleftrightarrow>
     distinct_keys l \<and> indexes_agree l \<and> reservations_disjoint l \<and> records_ok svc l"

section \<open>What the validators accept\<close>

lemma require_nonempty_string_Inr [exn_simps]:
  "require_nonempty_string v = Inr s \<longleftrightarrow> v = JStr s \<and> s \<noteq> []"
  by (cases v) (auto simp: require_nonempty_string_def)

lemma to_dict_get:
  "obj_get (obj_fields (to_dict r)) ''intent_id'' = JStr (rec_intent_id r)"
  "obj_get (obj_fields (to_dict r)) ''intent_digest'' = JStr (rec_intent_digest r)"
  "obj_get (obj_fields (to_dict r)) ''authenticated_subject_id'' = JStr (rec_authenticated_subject_id r)"
  "obj_get (obj_fields (to_dict r)) ''execution_id'' = JStr (rec_execution_id r)"
  "obj_get (obj_fields (to_dict r)) ''status'' = JStr (rec_status r)"
  "obj_get (obj_fields (to_dict r)) ''created_at'' = JStr (rec_created_at r)"
  "obj_get (obj_fields (to_dict r)) ''updated_at'' = JStr (rec_updated_at r)"
  "obj_get (obj_fields (to_dict r)) ''admission_record'' = rec_admission_record r"
  "obj_get (obj_fields (to_dict r)) ''receipt_digest'' = rec_receipt_digest r"
  "obj_get (obj_fields (to_dict r)) ''terminal_receipt'' = rec_terminal_receipt r"
  "obj_get (obj_fields (to_dict r)) ''error'' = rec_error r"
  "obj_get (obj_fields (to_dict r)) ''retry_of_intent_id'' = rec_retry_of_intent_id r"
  "obj_get (obj_fields (to_dict r)) ''operation'' = rec_operation r"
  "obj_get (obj_fields (to_dict r)) ''intent'' = rec_intent r"
  by (simp_all add: to_dict_def obj_get_def)

lemma to_dict_JObj: "to_dict r = JObj (obj_fields (to_dict r))"
  by (simp add: to_dict_def)

lemma validate_snapshot_schema_fields:
  assumes "validate_snapshot_schema document = Inr data"
  shows "document = JObj data"
  using assms
  by (cases document)
     (auto simp: validate_snapshot_schema_def bindE_eq_Inr split: json.splits)

text \<open>What a record must satisfy for its snapshot to be accepted.\<close>

lemma snapshot_facts:
  assumes "validate_snapshot_schema (to_dict r) = Inr data"
  shows "data = obj_fields (to_dict r)"
    and "rec_intent_id r \<noteq> []" and "rec_execution_id r \<noteq> []" and "rec_status r \<in> set KNOWN_STATUSES"
    and "is_obj (rec_admission_record r)"
    and "rec_receipt_digest r = JNull \<or> is_str (rec_receipt_digest r)"
    and "rec_retry_of_intent_id r = JNull \<or> is_str (rec_retry_of_intent_id r)"
    and "rec_operation r = JNull \<or> is_str (rec_operation r)"
proof -
  have "to_dict r = JObj data" using validate_snapshot_schema_fields [OF assms] .
  then show data: "data = obj_fields (to_dict r)" by simp
  have "validate_snapshot_schema (JObj (obj_fields (to_dict r))) = Inr data"
    using assms to_dict_JObj by metis
  then show "rec_intent_id r \<noteq> []" "rec_execution_id r \<noteq> []" "rec_status r \<in> set KNOWN_STATUSES"
    "is_obj (rec_admission_record r)"
    "rec_receipt_digest r = JNull \<or> is_str (rec_receipt_digest r)"
    "rec_retry_of_intent_id r = JNull \<or> is_str (rec_retry_of_intent_id r)"
    "rec_operation r = JNull \<or> is_str (rec_operation r)"
    by (auto simp: validate_snapshot_schema_def snapshot_fields_check_def exn_simps to_dict_get
        is_obj_iff is_str_iff simp del: set_map split: json.splits if_splits)
qed

theorem from_dict_to_dict:
  assumes "validate_snapshot_schema (to_dict r) = Inr data"
  shows "from_dict (to_dict r) = Inr r"
  using snapshot_facts(1) [OF assms] assms
  by (simp add: from_dict_def to_dict_get)


section \<open>Steps\<close>

text \<open>
  One critical section of some thread. The execution identity of a commit is a fresh
  \<open>uuid4\<close>, and the documents of a request come from \<open>json.loads\<close> without the non-finite
  constants; both are conditions on the environment and are stated here.
\<close>

inductive ledger_step :: "services \<Rightarrow> ledger \<Rightarrow> ledger \<Rightarrow> bool" for svc where
  acquire: "acquire_pass i d c now expired l = (res, l') \<Longrightarrow> ledger_step svc l l'"
| release: "ledger_step svc l (release_reservation i l)"
| commit:
    "commit_admission svc a now outcome l = (res, l') \<Longrightarrow>
     map_of (lg_by_execution_id l) (adm_execution_id a) = None \<Longrightarrow>
     json_finite (adm_admission_record a) \<Longrightarrow> json_finite (adm_intent a) \<Longrightarrow> ledger_step svc l l'"
| transition:
    "transition_execution svc t now outcome l = (res', l') \<Longrightarrow> json_finite (tr_error t) \<Longrightarrow>
     ledger_step svc l l'"

lemma inv_parts_log [simp]:
  "distinct_keys (l\<lparr>lg_log := x\<rparr>) = distinct_keys l"
  "indexes_agree (l\<lparr>lg_log := x\<rparr>) = indexes_agree l"
  "reservations_disjoint (l\<lparr>lg_log := x\<rparr>) = reservations_disjoint l"
  "records_ok svc (l\<lparr>lg_log := x\<rparr>) = records_ok svc l"
  by (simp_all add: distinct_keys_def indexes_agree_def reservations_disjoint_def records_ok_def)

lemma inv_parts_poisoned [simp]:
  "distinct_keys (l\<lparr>lg_poisoned_reason := p\<rparr>) = distinct_keys l"
  "indexes_agree (l\<lparr>lg_poisoned_reason := p\<rparr>) = indexes_agree l"
  "reservations_disjoint (l\<lparr>lg_poisoned_reason := p\<rparr>) = reservations_disjoint l"
  "records_ok svc (l\<lparr>lg_poisoned_reason := p\<rparr>) = records_ok svc l"
  by (simp_all add: distinct_keys_def indexes_agree_def reservations_disjoint_def records_ok_def)

lemma inv_parts_reservations [simp]:
  "indexes_agree (l\<lparr>lg_reservations := rs\<rparr>) = indexes_agree l"
  "records_ok svc (l\<lparr>lg_reservations := rs\<rparr>) = records_ok svc l"
  by (simp_all add: indexes_agree_def records_ok_def)

lemma ledger_inv_log [simp]:
  "ledger_inv svc (l\<lparr>lg_log := x\<rparr>) = ledger_inv svc l"
  "ledger_inv svc (l\<lparr>lg_poisoned_reason := p\<rparr>) = ledger_inv svc l"
  by (simp_all add: ledger_inv_def)

lemma ledger_inv_reservations:
  "ledger_inv svc l \<Longrightarrow> distinct (map fst rs) \<Longrightarrow> reservations_disjoint (l\<lparr>lg_reservations := rs\<rparr>) \<Longrightarrow>
     ledger_inv svc (l\<lparr>lg_reservations := rs\<rparr>)"
  by (simp add: ledger_inv_def) (simp add: distinct_keys_def)

lemma ledger_inv_distinct_reservations:
  "ledger_inv svc l \<Longrightarrow> distinct (map fst (lg_reservations l))"
  "ledger_inv svc l \<Longrightarrow> reservations_disjoint l"
  "ledger_inv svc l \<Longrightarrow> indexes_agree l"
  "ledger_inv svc l \<Longrightarrow> distinct (map fst (lg_by_intent_id l))"
  by (auto simp: ledger_inv_def distinct_keys_def)

lemma reservations_disjoint_delete:
  "reservations_disjoint l \<Longrightarrow>
     reservations_disjoint (l\<lparr>lg_reservations := AList.delete i (lg_reservations l)\<rparr>)"
  unfolding reservations_disjoint_def by (auto split: if_splits)

lemma reservations_disjoint_failed:
  "reservations_disjoint l \<Longrightarrow> map_of (lg_reservations l) i = Some r \<Longrightarrow>
     reservations_disjoint
       (l\<lparr>lg_reservations := AList.update i (r\<lparr>res_failed := True\<rparr>) (lg_reservations l)\<rparr>)"
  unfolding reservations_disjoint_def by (auto split: if_splits)

lemma release_inv: "ledger_inv svc l \<Longrightarrow> ledger_inv svc (release_reservation i l)"
  by (simp add: release_reservation_def ledger_inv_reservations ledger_inv_distinct_reservations
      reservations_disjoint_delete)

lemma acquire_pass_reserved:
  assumes "acquire_pass i d c now expired l = (Inr Reserved, l')"
  shows "lg_poisoned_reason l = None" and "map_of (lg_by_intent_id l) i = None"
    and "map_of (lg_by_digest l) d = None \<or> map_of (lg_by_digest l) d = Some i"
    and "map_of (lg_reservations l) i = None"
    and "\<forall>(j, r)\<in>set (lg_reservations l). res_intent_digest r = d \<longrightarrow> res_intent_id r = i"
    and "l' = l\<lparr>lg_reservations := lg_reservations l @
       [(i, \<lparr>res_intent_id = i, res_intent_digest = d, res_caller_subject_id = c,
             res_created_at = now, res_failed = False\<rparr>)]\<rparr>"
  using assms
  by (auto simp: acquire_pass_def raise_if_poisoned_def ensure_def update_fresh
      split: if_splits option.splits)

lemma acquire_pass_same:
  assumes "acquire_pass i d c now expired l = (res, l')" and "res \<noteq> Inr Reserved"
  shows "l' = l"
  using assms
  by (auto simp: acquire_pass_def raise_if_poisoned_def ensure_def split: if_splits option.splits)

lemma acquire_inv:
  assumes "ledger_inv svc l" and "acquire_pass i d c now expired l = (res, l')"
  shows "ledger_inv svc l'"
proof (cases "res = Inr Reserved")
  case True
  note r = acquire_pass_reserved [OF assms(2) [unfolded True]]
  from assms(1) have agree: "indexes_agree l" and disj: "reservations_disjoint l"
    and "distinct (map fst (lg_reservations l))"
    by (auto simp: ledger_inv_def distinct_keys_def)
  from r(2,3) agree have nodig: "map_of (lg_by_digest l) d = None"
    unfolding indexes_agree_def by fastforce
  have nores: "i \<notin> fst ` set (lg_reservations l)"
    using r(4) by (simp add: map_of_eq_None_iff)
  have own: "map_of (lg_reservations l) j = Some s \<Longrightarrow> res_intent_digest s = d \<Longrightarrow> j = i" for j s
    using r(5) disj unfolding reservations_disjoint_def by (fastforce dest: map_of_SomeD)
  have "reservations_disjoint l'"
    unfolding r(6) reservations_disjoint_def
    using disj r(2,4) nodig own
    unfolding reservations_disjoint_def
    by (auto simp: map_add_def split: option.splits if_splits)
  moreover have "distinct (map fst (lg_reservations l'))"
    using nores \<open>distinct _\<close> by (simp add: r(6))
  ultimately show ?thesis
    using assms(1) by (simp add: r(6) ledger_inv_reservations)
next
  case False
  with acquire_pass_same assms show ?thesis by blast
qed


section \<open>Storing a record\<close>

text \<open>
  The store that the loader, a commit and a transition have in common: the three indexes get
  the record and its reservation, if there is one, goes away.
\<close>

definition put_record :: "ledger_record \<Rightarrow> ledger \<Rightarrow> ledger" where
  "put_record r l =
     l\<lparr>lg_by_intent_id := AList.update (rec_intent_id r) r (lg_by_intent_id l),
       lg_by_digest := AList.update (rec_intent_digest r) (rec_intent_id r) (lg_by_digest l),
       lg_by_execution_id :=
         AList.update (rec_execution_id r) (rec_intent_id r) (lg_by_execution_id l),
       lg_reservations := AList.delete (rec_intent_id r) (lg_reservations l)\<rparr>"

definition may_put :: "services \<Rightarrow> ledger_record \<Rightarrow> ledger \<Rightarrow> bool" where
  "may_put svc r l \<longleftrightarrow>
     record_ok svc (lg_expected_producer_commit l) r \<and>
     map_of (lg_by_digest l) (rec_intent_digest r) \<in> {None, Some (rec_intent_id r)} \<and>
     map_of (lg_by_execution_id l) (rec_execution_id r) \<in> {None, Some (rec_intent_id r)} \<and>
     (\<forall>p. map_of (lg_by_intent_id l) (rec_intent_id r) = Some p \<longrightarrow>
        rec_intent_digest p = rec_intent_digest r \<and> rec_execution_id p = rec_execution_id r) \<and>
     (\<forall>j s. map_of (lg_reservations l) j = Some s \<longrightarrow> j \<noteq> rec_intent_id r \<longrightarrow>
        res_intent_digest s \<noteq> rec_intent_digest r)"

lemma indexes_agreeD:
  assumes "indexes_agree l"
  shows "map_of (lg_by_intent_id l) i = Some r \<Longrightarrow> rec_intent_id r = i"
    and "map_of (lg_by_intent_id l) i = Some r \<Longrightarrow> map_of (lg_by_digest l) (rec_intent_digest r) = Some i"
    and "map_of (lg_by_intent_id l) i = Some r \<Longrightarrow>
      map_of (lg_by_execution_id l) (rec_execution_id r) = Some i"
    and "map_of (lg_by_digest l) d = Some i \<Longrightarrow>
      \<exists>r. map_of (lg_by_intent_id l) i = Some r \<and> rec_intent_digest r = d"
    and "map_of (lg_by_execution_id l) e = Some i \<Longrightarrow>
      \<exists>r. map_of (lg_by_intent_id l) i = Some r \<and> rec_execution_id r = e"
  using assms unfolding indexes_agree_def by blast+

lemma reservations_disjointD:
  assumes "reservations_disjoint l" and "map_of (lg_reservations l) i = Some s"
  shows "res_intent_id s = i" and "map_of (lg_by_intent_id l) i = None"
    and "map_of (lg_by_digest l) (res_intent_digest s) = None"
    and "map_of (lg_reservations l) j = Some t \<Longrightarrow> res_intent_digest s = res_intent_digest t \<Longrightarrow> i = j"
  using assms unfolding reservations_disjoint_def by blast+

lemma put_record_agree:
  assumes "indexes_agree l" and "may_put svc r l"
  shows "indexes_agree (put_record r l)"
proof -
  let ?l = "put_record r l"
  have "map_of (lg_by_intent_id ?l) i = Some q \<Longrightarrow>
      rec_intent_id q = i \<and> map_of (lg_by_digest ?l) (rec_intent_digest q) = Some i \<and>
      map_of (lg_by_execution_id ?l) (rec_execution_id q) = Some i" for i q
    using assms(2) unfolding may_put_def put_record_def
    by (auto dest: indexes_agreeD [OF assms(1)] split: if_splits)
  moreover have "map_of (lg_by_digest ?l) d = Some i \<Longrightarrow>
      \<exists>q. map_of (lg_by_intent_id ?l) i = Some q \<and> rec_intent_digest q = d" for d i
    using assms(2) unfolding may_put_def put_record_def
    by (auto dest: indexes_agreeD [OF assms(1)] split: if_splits)
  moreover have "map_of (lg_by_execution_id ?l) e = Some i \<Longrightarrow>
      \<exists>q. map_of (lg_by_intent_id ?l) i = Some q \<and> rec_execution_id q = e" for e i
    using assms(2) unfolding may_put_def put_record_def
    by (auto dest: indexes_agreeD [OF assms(1)] split: if_splits)
  ultimately show ?thesis unfolding indexes_agree_def by blast
qed

lemma put_record_disjoint:
  assumes "reservations_disjoint l" and "may_put svc r l"
  shows "reservations_disjoint (put_record r l)"
  using assms unfolding reservations_disjoint_def may_put_def put_record_def
  by (auto split: if_splits)

lemma put_record_inv:
  assumes "ledger_inv svc l" and "may_put svc r l"
  shows "ledger_inv svc (put_record r l)"
  using assms put_record_agree put_record_disjoint
  by (auto simp: ledger_inv_def distinct_keys_def put_record_def may_put_def records_ok_def
      split: if_splits)

lemma persist_outcome:
  assumes "persist_or_poison r ri outcome l = (res, l')"
  obtains (volatile) "lg_persistence_path l = None" "res = Inr ()" "l' = l"
  | (appended) "lg_persistence_path l \<noteq> None" "outcome = Appended" "res = Inr ()"
      "l' = l\<lparr>lg_log := lg_log l @ [Snapshot (to_dict r)]\<rparr>"
  | (failed) reason written where "lg_persistence_path l \<noteq> None"
      "outcome = AppendFailed reason written" "res = Inl OSError"
      "l' = l\<lparr>lg_log := lg_log l @ written, lg_poisoned_reason := Some reason,
              lg_reservations := mark_failed ri (lg_reservations l)\<rparr>"
  using assms by (auto simp: persist_or_poison_def split: if_splits append_outcome.splits)

lemma mark_failed_inv:
  assumes "ledger_inv svc l"
  shows "ledger_inv svc (l\<lparr>lg_reservations := mark_failed ri (lg_reservations l)\<rparr>)"
  using assms
  by (auto simp: mark_failed_def ledger_inv_reservations ledger_inv_distinct_reservations
      reservations_disjoint_failed split: option.splits)

lemma ledger_update_order:
  "l\<lparr>lg_log := x, lg_poisoned_reason := p, lg_reservations := rs\<rparr>
     = l\<lparr>lg_reservations := rs\<rparr>\<lparr>lg_log := x\<rparr>\<lparr>lg_poisoned_reason := p\<rparr>"
  by simp

lemma persist_inv:
  assumes "ledger_inv svc l" and "persist_or_poison r ri outcome l = (res, l')"
  shows "ledger_inv svc l'"
  using assms(2)
proof (cases rule: persist_outcome)
  case (failed reason written)
  then show ?thesis
    unfolding ledger_update_order using mark_failed_inv [OF assms(1)] ledger_inv_log by metis
qed (use assms(1) in auto)

end
