(* ===== verification/Ledger_Steps.thy ===== *)
theory Ledger_Steps
  imports Ledger_Inv
begin

text \<open>
  Every step of the ledger keeps the invariant, and along every run the identity of an
  execution is fixed, its status only moves along \<open>LEGAL_TRANSITIONS\<close> and a terminal record
  never changes. Loading a file establishes the invariant, so it holds after a restart too.
\<close>

section \<open>Commit\<close>

lemma commit_checks_facts:
  assumes "commit_checks svc a now l = Inr r"
  obtains s d where "r = admitted_record a now" and "adm_status a = ''ADMITTED''"
    and "lg_poisoned_reason l = None"
    and "map_of (lg_reservations l) (adm_intent_id a) = Some s"
    and "res_intent_digest s = adm_intent_digest a"
    and "res_caller_subject_id s = adm_caller_subject_id a"
    and "map_of (lg_by_intent_id l) (adm_intent_id a) = None"
    and "validate_snapshot_schema (to_dict r) = Inr d"
    and "validate_terminal_invariants svc r None = Inr ()"
  using assms
  by (auto simp: commit_checks_def raise_if_poisoned_def exn_simps Let_def split: option.splits)

lemma commit_admission_outcome:
  assumes "commit_admission svc a now outcome l = (res, l')"
  obtains (rejected) e where "commit_checks svc a now l = Inl e" "res = Inl e" "l' = l"
  | (failed) r where "commit_checks svc a now l = Inr r" "res = Inl OSError"
      "persist_or_poison r (Some (adm_intent_id a)) outcome l = (Inl OSError, l')"
  | (committed) r lp where "commit_checks svc a now l = Inr r" "res = Inr r"
      "persist_or_poison r (Some (adm_intent_id a)) outcome l = (Inr (), lp)"
      "l' = put_record r lp"
proof (cases "commit_checks svc a now l")
  case (Inl e)
  with assms have "res = Inl e" "l' = l" by (auto simp: commit_admission_def)
  with Inl show ?thesis by (rule rejected)
next
  case (Inr r)
  then have r: "r = admitted_record a now" using commit_checks_facts by blast
  obtain pres lp where p: "persist_or_poison r (Some (adm_intent_id a)) outcome l = (pres, lp)"
    by (cases "persist_or_poison r (Some (adm_intent_id a)) outcome l")
  show ?thesis
  proof (cases pres)
    case err: (Inl e)
    from p [unfolded err] have "e = OSError" by (cases rule: persist_outcome) simp_all
    moreover from assms Inr p err have "res = Inl e" "l' = lp" by (auto simp: commit_admission_def)
    ultimately show ?thesis using failed [OF Inr] p err by simp
  next
    case ok: (Inr u)
    with assms Inr p r have "res = Inr r" "l' = put_record r lp"
      by (auto simp: commit_admission_def put_record_def admitted_record_def)
    with p ok show ?thesis using committed [OF Inr] by simp
  qed
qed

lemma nonterminal_producer:
  "rec_status r \<in> set NONTERMINAL_STATUSES \<Longrightarrow>
     validate_terminal_invariants svc r p = validate_terminal_invariants svc r q"
  by (simp add: validate_terminal_invariants_def)

lemma admitted_nonterminal: "''ADMITTED'' \<in> set NONTERMINAL_STATUSES"
  by (simp add: NONTERMINAL_STATUSES_def)

lemma str_or_null_finite: "v = JNull \<or> is_str v \<Longrightarrow> json_finite v"
  by (auto simp: is_str_iff)

lemma record_finite:
  assumes "validate_snapshot_schema (to_dict r) = Inr d"
    and "json_finite (rec_admission_record r)" "json_finite (rec_intent r)"
    and "json_finite (rec_error r)" "json_finite (rec_terminal_receipt r)"
  shows "json_finite (to_dict r)"
proof -
  note f = snapshot_facts(6,7,8) [OF assms(1), THEN str_or_null_finite]
  show ?thesis unfolding to_dict_def using f assms(2-5) by simp
qed

lemma commit_may_put:
  assumes inv: "ledger_inv svc l" and c: "commit_checks svc a now l = Inr r"
    and fresh: "map_of (lg_by_execution_id l) (adm_execution_id a) = None"
    and fin: "json_finite (adm_admission_record a)" "json_finite (adm_intent a)"
  shows "may_put svc r l"
proof -
  obtain s d where f: "r = admitted_record a now" "adm_status a = ''ADMITTED''"
      "map_of (lg_reservations l) (adm_intent_id a) = Some s"
      "res_intent_digest s = adm_intent_digest a"
      "map_of (lg_by_intent_id l) (adm_intent_id a) = None"
      "validate_snapshot_schema (to_dict r) = Inr d" "validate_terminal_invariants svc r None = Inr ()"
    using c by (rule commit_checks_facts)
  have "rec_status r \<in> set NONTERMINAL_STATUSES"
    using f(1,2) admitted_nonterminal by (simp add: admitted_record_def)
  then have "validate_terminal_invariants svc r (lg_expected_producer_commit l) = Inr ()"
    using nonterminal_producer f(7) by metis
  moreover have "json_finite (to_dict r)"
    using record_finite [OF f(6)] fin f(1) by (simp add: admitted_record_def)
  ultimately have "record_ok svc (lg_expected_producer_commit l) r"
    using f(6) by (auto simp: record_ok_def)
  moreover note disj = reservations_disjointD [OF ledger_inv_distinct_reservations(2) [OF inv] f(3)]
  have "map_of (lg_by_digest l) (adm_intent_digest a) = None" using disj(3) f(4) by simp
  moreover have "res_intent_digest t \<noteq> adm_intent_digest a"
    if "map_of (lg_reservations l) j = Some t" "j \<noteq> adm_intent_id a" for j t
    using disj(4) [OF that(1)] that(2) f(4) by auto
  ultimately show ?thesis
    using fresh f(1,5) by (auto simp: may_put_def admitted_record_def)
qed

lemma may_put_persist:
  assumes "persist_or_poison r ri outcome l = (Inr (), lp)"
  shows "may_put svc q lp = may_put svc q l"
  using assms by (cases rule: persist_outcome) (auto simp: may_put_def)

lemma commit_inv:
  assumes "ledger_inv svc l" and "commit_admission svc a now outcome l = (res, l')"
    and "map_of (lg_by_execution_id l) (adm_execution_id a) = None"
    and "json_finite (adm_admission_record a)" "json_finite (adm_intent a)"
  shows "ledger_inv svc l'"
  using assms(2)
proof (cases rule: commit_admission_outcome)
  case (rejected e)
  with assms(1) show ?thesis by simp
next
  case (failed r)
  with persist_inv assms(1) show ?thesis by blast
next
  case (committed r lp)
  have "may_put svc r lp"
    using commit_may_put [OF assms(1) committed(1) assms(3-5)] may_put_persist [OF committed(3)]
    by simp
  with committed(3,4) persist_inv [OF assms(1)] put_record_inv show ?thesis by blast
qed


section \<open>Transition\<close>

definition moves_to :: "ledger_record \<Rightarrow> ledger_record \<Rightarrow> bool" where
  "moves_to r q \<longleftrightarrow>
     rec_status q \<in> set (legal_next (rec_status r)) \<and>
     (\<exists>now digest receipt error.
        q = r\<lparr>rec_status := rec_status q, rec_updated_at := now, rec_receipt_digest := digest,
              rec_terminal_receipt := receipt, rec_error := error\<rparr>)"

lemma moves_to_same:
  assumes "moves_to r q"
  shows "rec_intent_id q = rec_intent_id r" "rec_intent_digest q = rec_intent_digest r"
    "rec_execution_id q = rec_execution_id r" "rec_created_at q = rec_created_at r"
    "rec_authenticated_subject_id q = rec_authenticated_subject_id r"
    "rec_admission_record q = rec_admission_record r" "rec_intent q = rec_intent r"
    "rec_operation q = rec_operation r" "rec_retry_of_intent_id q = rec_retry_of_intent_id r"
    "rec_status q \<in> set (legal_next (rec_status r))"
proof -
  from assms obtain now digest receipt error where
    q: "q = r\<lparr>rec_status := rec_status q, rec_updated_at := now, rec_receipt_digest := digest,
              rec_terminal_receipt := receipt, rec_error := error\<rparr>"
    and "rec_status q \<in> set (legal_next (rec_status r))"
    by (auto simp: moves_to_def)
  then show "rec_status q \<in> set (legal_next (rec_status r))" by simp
  show "rec_intent_id q = rec_intent_id r" "rec_intent_digest q = rec_intent_digest r"
    "rec_execution_id q = rec_execution_id r" "rec_created_at q = rec_created_at r"
    "rec_authenticated_subject_id q = rec_authenticated_subject_id r"
    "rec_admission_record q = rec_admission_record r" "rec_intent q = rec_intent r"
    "rec_operation q = rec_operation r" "rec_retry_of_intent_id q = rec_retry_of_intent_id r"
    by (subst q, simp)+
qed

lemma next_artifacts_Inr:
  assumes "next_artifacts t = Inr (digest, receipt, error)"
  shows "(tr_status t = ''COMPLETED'' \<and> digest = tr_receipt_digest t \<and>
            receipt = tr_terminal_receipt t \<and> error = JNull) \<or>
         (digest = JNull \<and> receipt = JNull \<and> (error = JNull \<or> error = tr_error t))"
  using assms by (auto simp: next_artifacts_def split: if_splits)

lemma transition_record_facts:
  assumes "transition_record svc t now l r = Inr q"
  obtains d where "moves_to r q" "rec_status q = tr_status t"
    and "validate_snapshot_schema (to_dict q) = Inr d"
    and "validate_terminal_invariants svc q (lg_expected_producer_commit l) = Inr ()"
    and "rec_error q = JNull \<or> rec_error q = tr_error t" and "rec_updated_at q = now"
    and "validate_history_transition r q = Inr ()"
proof -
  from assms obtain digest receipt error d where
    legal: "tr_status t \<in> set (legal_next (rec_status r))"
    and art: "next_artifacts t = Inr (digest, receipt, error)"
    and q: "q = r\<lparr>rec_status := tr_status t, rec_updated_at := now, rec_receipt_digest := digest,
                  rec_terminal_receipt := receipt, rec_error := error\<rparr>"
    and v: "validate_snapshot_schema (to_dict q) = Inr d"
      "validate_terminal_invariants svc q (lg_expected_producer_commit l) = Inr ()"
      "validate_history_transition r q = Inr ()"
    by (auto simp: transition_record_def exn_simps Let_def split: prod.splits)
  have "moves_to r q" using legal unfolding moves_to_def q by auto
  moreover have "rec_status q = tr_status t" "rec_updated_at q = now" "rec_error q = error"
    by (simp_all add: q)
  moreover have "error = JNull \<or> error = tr_error t" using next_artifacts_Inr [OF art] by blast
  ultimately show ?thesis using that v by metis
qed

lemma transition_outcome:
  assumes "transition_execution svc t now outcome l = (res, l')"
  obtains (rejected) e where "transition_decision svc t now l = Inl e" "res = Inl e" "l' = l"
  | (unexpected) "transition_decision svc t now l = Inr None" "res = Inr None" "l' = l"
  | (repeated) r where "transition_decision svc t now l = Inr (Some (False, r))"
      "res = Inr (Some r)" "l' = l"
  | (failed) q where "transition_decision svc t now l = Inr (Some (True, q))" "res = Inl OSError"
      "persist_or_poison q None outcome l = (Inl OSError, l')"
  | (moved) q lp where "transition_decision svc t now l = Inr (Some (True, q))" "res = Inr (Some q)"
      "persist_or_poison q None outcome l = (Inr (), lp)"
      "l' = lp\<lparr>lg_by_intent_id :=
              AList.update (owner_of_execution (tr_execution_id t) l) q (lg_by_intent_id lp)\<rparr>"
proof (cases "transition_decision svc t now l")
  case (Inl e)
  with assms have "res = Inl e" "l' = l" by (auto simp: transition_execution_def)
  with Inl show ?thesis by (rule rejected)
next
  case d: (Inr x)
  consider "x = None" | r where "x = Some (False, r)" | q where "x = Some (True, q)"
    by (metis (full_types) option.exhaust surj_pair)
  then show ?thesis
  proof cases
    case 1
    with assms d have "res = Inr None" "l' = l" by (auto simp: transition_execution_def)
    with d 1 show ?thesis by (intro unexpected) simp_all
  next
    case (2 r)
    with assms d have "res = Inr (Some r)" "l' = l" by (auto simp: transition_execution_def)
    with d 2 show ?thesis by (intro repeated) simp_all
  next
    case (3 q)
    obtain pres lp where p: "persist_or_poison q None outcome l = (pres, lp)"
      by (cases "persist_or_poison q None outcome l")
    show ?thesis
    proof (cases pres)
      case err: (Inl e)
      from p [unfolded err] have "e = OSError" by (cases rule: persist_outcome) simp_all
      moreover from assms d 3 p err have "res = Inl e" "l' = lp"
        by (auto simp: transition_execution_def)
      ultimately show ?thesis using d 3 p err by (intro failed) simp_all
    next
      case ok: (Inr u)
      with assms d 3 p have "res = Inr (Some q)"
        "l' = lp\<lparr>lg_by_intent_id :=
              AList.update (owner_of_execution (tr_execution_id t) l) q (lg_by_intent_id lp)\<rparr>"
        by (auto simp: transition_execution_def)
      with d 3 p ok show ?thesis by (intro moved) simp_all
    qed
  qed
qed

lemma transition_decision_facts:
  assumes "transition_decision svc t now l = Inr (Some (b, q))"
  obtains i r where "lg_poisoned_reason l = None"
    and "map_of (lg_by_execution_id l) (tr_execution_id t) = Some i"
    and "map_of (lg_by_intent_id l) i = Some r" and "rec_status r \<in> set (tr_expected_statuses t)"
    and "tr_status t \<in> set KNOWN_STATUSES"
    and "b \<Longrightarrow> rec_status r \<notin> set TERMINAL_STATUSES \<and> transition_record svc t now l r = Inr q"
    and "\<not> b \<Longrightarrow> q = r \<and> rec_status r = tr_status t \<and> no_artifacts t"
  using assms
  by (auto simp: transition_decision_def raise_if_poisoned_def exn_simps
      split: option.splits if_splits)


lemma terminal_receipt_finite:
  assumes "validate_terminal_invariants svc r p = Inr ()"
  shows "json_finite (rec_terminal_receipt r)"
proof (cases "json_finite (rec_terminal_receipt r)")
  case False
  then have "rec_terminal_receipt r \<noteq> JNull" by auto
  moreover from False have "validate_completed_receipt svc r p \<noteq> Inr ()"
    by (simp add: validate_completed_receipt_def canonicalize_jcs_eq)
  ultimately show ?thesis
    using assms by (auto simp: validate_terminal_invariants_def split: if_splits)
qed simp

lemma update_same: "map_of d k = Some v \<Longrightarrow> AList.update k v d = d"
  by (induction d) (auto split: if_splits)

lemma delete_absent: "map_of d k = None \<Longrightarrow> AList.delete k d = d"
  by (simp add: map_of_eq_None_iff delete_idem)

lemma put_known_record:
  assumes "indexes_agree l" "reservations_disjoint l"
    and "map_of (lg_by_intent_id l) i = Some r" "moves_to r q"
  shows "put_record q l = l\<lparr>lg_by_intent_id := AList.update i q (lg_by_intent_id l)\<rparr>"
proof -
  note a = indexes_agreeD(1-3) [OF assms(1,3)] and m = moves_to_same [OF assms(4)]
  have "map_of (lg_reservations l) i = None"
    using reservations_disjointD(2) [OF assms(2), of i] assms(3) by fastforce
  then show ?thesis
    using a m by (simp add: put_record_def update_same delete_absent)
qed

lemma transition_moves:
  assumes inv: "ledger_inv svc l" and d: "transition_decision svc t now l = Inr (Some (True, q))"
    and fin: "json_finite (tr_error t)"
  obtains i r where "map_of (lg_by_execution_id l) (tr_execution_id t) = Some i"
    and "map_of (lg_by_intent_id l) i = Some r" and "moves_to r q" and "may_put svc q l"
    and "rec_status r \<in> set (tr_expected_statuses t)" and "rec_status r \<notin> set TERMINAL_STATUSES"
    and "rec_status q = tr_status t" and "validate_history_transition r q = Inr ()"
proof -
  obtain i r where f: "map_of (lg_by_execution_id l) (tr_execution_id t) = Some i"
      "map_of (lg_by_intent_id l) i = Some r" "rec_status r \<in> set (tr_expected_statuses t)"
      "rec_status r \<notin> set TERMINAL_STATUSES" "transition_record svc t now l r = Inr q"
    using d by (rule transition_decision_facts) simp
  obtain e where g: "moves_to r q" "rec_status q = tr_status t"
      "validate_snapshot_schema (to_dict q) = Inr e"
      "validate_terminal_invariants svc q (lg_expected_producer_commit l) = Inr ()"
      "rec_error q = JNull \<or> rec_error q = tr_error t" "validate_history_transition r q = Inr ()"
    using f(5) by (rule transition_record_facts)
  note agree = ledger_inv_distinct_reservations(3) [OF inv]
    and disj = ledger_inv_distinct_reservations(2) [OF inv]
  note a = indexes_agreeD(1-3) [OF agree f(2)] and m = moves_to_same [OF g(1)]
  from inv f(2) have old: "record_ok svc (lg_expected_producer_commit l) r"
    by (auto simp: ledger_inv_def records_ok_def)
  then have "json_finite (rec_admission_record r)" "json_finite (rec_intent r)"
    by (auto simp: record_ok_def to_dict_def)
  then have "json_finite (to_dict q)"
    using record_finite [OF g(3)] terminal_receipt_finite [OF g(4)] g(5) fin m by auto
  with g(3,4) have "record_ok svc (lg_expected_producer_commit l) q" by (simp add: record_ok_def)
  moreover have "res_intent_digest s \<noteq> rec_intent_digest q"
    if "map_of (lg_reservations l) j = Some s" for j s
    using reservations_disjointD(3) [OF disj that] a m by auto
  ultimately have "may_put svc q l" using a m f(2) by (auto simp: may_put_def)
  with f g that show ?thesis by blast
qed

lemma transition_moved_put:
  assumes inv: "ledger_inv svc l" and d: "transition_decision svc t now l = Inr (Some (True, q))"
    and fin: "json_finite (tr_error t)" and p: "persist_or_poison q None outcome l = (Inr (), lp)"
  shows "lp\<lparr>lg_by_intent_id :=
            AList.update (owner_of_execution (tr_execution_id t) l) q (lg_by_intent_id lp)\<rparr>
       = put_record q lp"
proof -
  obtain i r where f: "map_of (lg_by_execution_id l) (tr_execution_id t) = Some i"
      "map_of (lg_by_intent_id l) i = Some r" "moves_to r q"
    using transition_moves [OF inv d fin] by metis
  have "owner_of_execution (tr_execution_id t) l = i" using f(1) by (simp add: owner_of_execution_def)
  moreover have "map_of (lg_by_intent_id lp) i = Some r"
    using p f(2) by (cases rule: persist_outcome) auto
  ultimately show ?thesis
    using put_known_record [of lp i r q] f(3) persist_inv [OF inv p]
    by (simp add: ledger_inv_distinct_reservations)
qed

lemma transition_inv:
  assumes "ledger_inv svc l" and "transition_execution svc t now outcome l = (res, l')"
    and "json_finite (tr_error t)"
  shows "ledger_inv svc l'"
  using assms(2)
proof (cases rule: transition_outcome)
  case (failed q)
  with persist_inv assms(1) show ?thesis by blast
next
  case (moved q lp)
  have "may_put svc q lp"
    using transition_moves [OF assms(1) moved(1) assms(3)] may_put_persist [OF moved(3)] by metis
  with put_record_inv persist_inv [OF assms(1) moved(3)] show ?thesis
    using transition_moved_put [OF assms(1) moved(1) assms(3) moved(3)] moved(4) by metis
qed (use assms(1) in auto)

lemma ledger_step_inv: "ledger_inv svc l \<Longrightarrow> ledger_step svc l l' \<Longrightarrow> ledger_inv svc l'"
  by (auto elim!: ledger_step.cases intro: acquire_inv release_inv commit_inv transition_inv)


section \<open>Loading\<close>

lemma from_dict_fields:
  assumes "from_dict (JObj data) = Inr r"
  shows "f \<in> set LEDGER_FIELDS \<Longrightarrow> obj_get (obj_fields (to_dict r)) f = obj_get data f"
proof -
  from assms have
    "obj_get data ''intent_id'' = JStr (rec_intent_id r)"
    "obj_get data ''intent_digest'' = JStr (rec_intent_digest r)"
    "obj_get data ''authenticated_subject_id'' = JStr (rec_authenticated_subject_id r)"
    "obj_get data ''execution_id'' = JStr (rec_execution_id r)"
    "obj_get data ''status'' = JStr (rec_status r)"
    "obj_get data ''created_at'' = JStr (rec_created_at r)"
    "obj_get data ''updated_at'' = JStr (rec_updated_at r)"
    "obj_get data ''admission_record'' = rec_admission_record r"
    "obj_get data ''receipt_digest'' = rec_receipt_digest r"
    "obj_get data ''terminal_receipt'' = rec_terminal_receipt r"
    "obj_get data ''error'' = rec_error r"
    "obj_get data ''retry_of_intent_id'' = rec_retry_of_intent_id r"
    "obj_get data ''operation'' = rec_operation r" "obj_get data ''intent'' = rec_intent r"
    using validate_snapshot_schema_fields [of "JObj data"]
    by (auto simp: from_dict_def exn_simps)
  then show "f \<in> set LEDGER_FIELDS \<Longrightarrow> obj_get (obj_fields (to_dict r)) f = obj_get data f"
    by (auto simp: LEDGER_FIELDS_def to_dict_get)
qed

text \<open>The schema check reads the document only through \<open>get\<close> on the ledger's fields.\<close>

lemma validate_snapshot_schema_cong:
  assumes "validate_snapshot_schema (JObj data) = Inr data"
    and "\<And>f. f \<in> set LEDGER_FIELDS \<Longrightarrow> obj_get other f = obj_get data f"
    and "map fst other = LEDGER_FIELDS"
  shows "validate_snapshot_schema (JObj other) = Inr other"
proof -
  have keys: "set (map fst other) \<subseteq> set LEDGER_FIELDS \<and>
      set REQUIRED_LEDGER_FIELDS \<subseteq> set (map fst other)"
    using assms(3) by (auto simp: REQUIRED_LEDGER_FIELDS_def)
  have "snapshot_fields_check (obj_get other) = snapshot_fields_check (obj_get data)"
    unfolding snapshot_fields_check_def
    by (simp add: assms(2) LEDGER_FIELDS_def cong: json.case_cong)
  with assms(1) keys show ?thesis
    by (auto simp: validate_snapshot_schema_def exn_simps simp del: set_map)
qed

lemma parse_line_record_ok:
  assumes "parse_line svc producer data = Inr r"
  shows "record_ok svc producer r"
proof -
  from assms obtain d where fin: "json_finite data" and v: "validate_snapshot_schema data = Inr d"
    and r: "from_dict (JObj d) = Inr r" and t: "validate_terminal_invariants svc r producer = Inr ()"
    by (auto simp: parse_line_def exn_simps split: if_splits)
  have data: "data = JObj d" using validate_snapshot_schema_fields [OF v] .
  note get = from_dict_fields [OF r]
  have keys: "map fst (obj_fields (to_dict r)) = LEDGER_FIELDS"
    by (simp add: to_dict_def LEDGER_FIELDS_def)
  have ok: "validate_snapshot_schema (to_dict r) = Inr (obj_fields (to_dict r))"
    using validate_snapshot_schema_cong [OF v [unfolded data] get keys] to_dict_JObj by metis
  have "json_finite (obj_get d f)" for f
    using fin data by (auto simp: obj_get_def list_all_iff dest: map_of_SomeD split: option.splits)
  then have "f \<in> set LEDGER_FIELDS \<Longrightarrow> json_finite (obj_get (obj_fields (to_dict r)) f)" for f
    using get by simp
  from this [of "''admission_record''"] this [of "''intent''"] this [of "''error''"]
    this [of "''terminal_receipt''"]
  have "json_finite (to_dict r)"
    by (intro record_finite [OF ok]) (simp_all add: LEDGER_FIELDS_def to_dict_get)
  with ok t show ?thesis by (auto simp: record_ok_def)
qed

lemma load_record_may_put:
  assumes "load_record r l = Inr l'" and "record_ok svc (lg_expected_producer_commit l) r"
    and "lg_reservations l = []"
  shows "may_put svc r l" and "l' = put_record r l"
proof -
  from assms(1) have own: "map_of (lg_by_digest l) (rec_intent_digest r) \<in> {None, Some (rec_intent_id r)}"
    "map_of (lg_by_execution_id l) (rec_execution_id r) \<in> {None, Some (rec_intent_id r)}"
    by (auto simp: load_record_def exn_simps split: option.splits)
  from assms(1) have "rec_intent_digest p = rec_intent_digest r \<and> rec_execution_id p = rec_execution_id r"
    if "map_of (lg_by_intent_id l) (rec_intent_id r) = Some p" for p
    using that
    by (auto simp: load_record_def validate_history_transition_def immutable_fields_eq_def exn_simps
        split: if_splits)
  with assms own show "may_put svc r l" by (auto simp: may_put_def)
  from assms show "l' = put_record r l"
    by (auto simp: load_record_def put_record_def exn_simps)
qed

lemma load_line_inv:
  assumes "ledger_inv svc l" and "lg_reservations l = []" and "load_line svc line l = Inr l'"
  shows "ledger_inv svc l' \<and> lg_reservations l' = [] \<and> lg_log l' = lg_log l \<and>
    lg_expected_producer_commit l' = lg_expected_producer_commit l \<and>
    lg_persistence_path l' = lg_persistence_path l \<and> lg_poisoned_reason l' = lg_poisoned_reason l"
proof (cases line)
  case (Snapshot data)
  with assms obtain r where r: "parse_line svc (lg_expected_producer_commit l) data = Inr r"
    "load_record r l = Inr l'" by (auto simp: load_line_def exn_simps)
  note p = load_record_may_put [OF r(2) parse_line_record_ok [OF r(1)] assms(2)]
  from put_record_inv [OF assms(1) p(1)] p(2) assms(2) show ?thesis
    by (simp add: put_record_def)
qed (use assms in \<open>auto simp: load_line_def\<close>)

lemma load_lines_inv:
  assumes "ledger_inv svc l" and "lg_reservations l = []" and "load_lines svc lines l = Inr l'"
  shows "ledger_inv svc l' \<and> lg_reservations l' = [] \<and> lg_log l' = lg_log l \<and>
    lg_expected_producer_commit l' = lg_expected_producer_commit l \<and>
    lg_persistence_path l' = lg_persistence_path l \<and> lg_poisoned_reason l' = lg_poisoned_reason l"
  using assms
proof (induction lines arbitrary: l)
  case (Cons line lines)
  then obtain m where "load_line svc line l = Inr m" "load_lines svc lines m = Inr l'"
    by (auto simp: exn_simps)
  with Cons.IH [of m] Cons.prems load_line_inv [of svc l line m] show ?case by simp
qed simp

lemma empty_ledger_inv: "ledger_inv svc (empty_ledger path producer file)"
  by (simp add: empty_ledger_def ledger_inv_def distinct_keys_def indexes_agree_def
      reservations_disjoint_def records_ok_def)

lemma init_ledger_inv:
  assumes "init_ledger svc path producer file = Inr l"
  shows "ledger_inv svc l \<and> lg_reservations l = [] \<and> lg_poisoned_reason l = None"
proof -
  have *: "lg_reservations (empty_ledger p c x) = []" "lg_poisoned_reason (empty_ledger p c x) = None"
    for p c x by (simp_all add: empty_ledger_def)
  from assms show ?thesis
    by (auto simp: init_ledger_def exn_simps Let_def * empty_ledger_inv
        dest!: load_lines_inv [OF empty_ledger_inv *(1)] split: option.splits if_splits)
qed


section \<open>Histories\<close>

definition ledger_start :: "services \<Rightarrow> ledger \<Rightarrow> bool" where
  "ledger_start svc l \<longleftrightarrow> (\<exists>path producer file. init_ledger svc path producer file = Inr l)"

lemma persist_keeps:
  assumes "persist_or_poison r ri outcome l = (res, l')"
  shows "lg_by_intent_id l' = lg_by_intent_id l"
  using assms by (cases rule: persist_outcome) auto

lemma acquire_keeps:
  assumes "acquire_pass i d c now expired l = (res, l')"
  shows "lg_by_intent_id l' = lg_by_intent_id l"
  using acquire_pass_same [OF assms] acquire_pass_reserved(6) [of i d c now expired l l'] assms
  by (cases "res = Inr Reserved") auto

lemma release_keeps: "lg_by_intent_id (release_reservation i l) = lg_by_intent_id l"
  by (simp add: release_reservation_def)

lemma commit_history:
  assumes "commit_admission svc a now outcome l = (res, l')"
    and "map_of (lg_by_intent_id l) i = Some r"
  shows "map_of (lg_by_intent_id l') i = Some r"
  using assms(1)
proof (cases rule: commit_admission_outcome)
  case (committed q lp)
  from committed(1) have "map_of (lg_by_intent_id l) (rec_intent_id q) = None"
    by (rule commit_checks_facts) (simp add: admitted_record_def)
  with assms(2) committed(4) persist_keeps [OF committed(3)] show ?thesis
    by (auto simp: put_record_def)
qed (use assms(2) persist_keeps in auto)

lemma transition_history:
  assumes "ledger_inv svc l" and "transition_execution svc t now outcome l = (res, l')"
    and "json_finite (tr_error t)" and "map_of (lg_by_intent_id l) i = Some r"
  shows "\<exists>q. map_of (lg_by_intent_id l') i = Some q \<and> moves_to\<^sup>*\<^sup>* r q"
  using assms(2)
proof (cases rule: transition_outcome)
  case (moved q lp)
  obtain j p where f: "map_of (lg_by_execution_id l) (tr_execution_id t) = Some j"
      "map_of (lg_by_intent_id l) j = Some p" "moves_to p q"
    using transition_moves [OF assms(1) moved(1) assms(3)] by metis
  then have "map_of (lg_by_intent_id l') = (map_of (lg_by_intent_id l))(j \<mapsto> q)"
    using moved(4) persist_keeps [OF moved(3)] by (simp add: owner_of_execution_def)
  with f assms(4) show ?thesis by auto
qed (use assms(4) persist_keeps in auto)

lemma ledger_step_history:
  assumes "ledger_inv svc l" and "ledger_step svc l l'" and "map_of (lg_by_intent_id l) i = Some r"
  shows "\<exists>q. map_of (lg_by_intent_id l') i = Some q \<and> moves_to\<^sup>*\<^sup>* r q"
  using assms(2)
proof cases
  case (acquire i d c now expired res)
  with assms(3) acquire_keeps show ?thesis by fastforce
next
  case (release i)
  with assms(3) release_keeps show ?thesis by fastforce
next
  case (commit a now outcome res)
  with assms(3) commit_history show ?thesis by blast
next
  case (transition t now outcome res)
  with assms(1,3) transition_history show ?thesis by blast
qed

interpretation ledger_history:
  growing_system "ledger_start svc" "ledger_step svc" "ledger_inv svc"
    "\<lambda>l. map_of (lg_by_intent_id l)" "moves_to\<^sup>*\<^sup>*" for svc
proof
  fix l :: ledger
  assume "ledger_start svc l"
  then show "ledger_inv svc l" using init_ledger_inv by (auto simp: ledger_start_def)
qed (auto intro: ledger_step_inv ledger_step_history)

lemma moves_same:
  assumes "moves_to\<^sup>*\<^sup>* r q"
  shows "rec_intent_id q = rec_intent_id r \<and> rec_intent_digest q = rec_intent_digest r \<and>
    rec_execution_id q = rec_execution_id r \<and> rec_created_at q = rec_created_at r \<and>
    rec_authenticated_subject_id q = rec_authenticated_subject_id r \<and>
    rec_admission_record q = rec_admission_record r \<and> rec_intent q = rec_intent r \<and>
    rec_operation q = rec_operation r \<and> rec_retry_of_intent_id q = rec_retry_of_intent_id r \<and>
    (\<lambda>s t. t \<in> set (legal_next s))\<^sup>*\<^sup>* (rec_status r) (rec_status q)"
  using assms
proof (induction rule: rtranclp_induct)
  case (step q w)
  from step.IH show ?case
    using moves_to_same [OF step.hyps(2)]
    by (auto intro: rtranclp.rtrancl_into_rtrancl)
qed simp

lemma terminal_no_next: "s \<in> set TERMINAL_STATUSES \<Longrightarrow> legal_next s = []"
  by (auto simp: TERMINAL_STATUSES_def legal_next_def LEGAL_TRANSITIONS_def)

lemma terminal_maximal:
  assumes "rec_status r \<in> set TERMINAL_STATUSES" and "moves_to\<^sup>*\<^sup>* r q"
  shows "q = r"
  using assms(2) assms(1)
proof (cases rule: converse_rtranclpE)
  case (step x)
  then show ?thesis using moves_to_same(10) [of r x] terminal_no_next assms(1) by simp
qed simp

end
