(* ===== verification/Ledger_Replay.thy ===== *)
theory Ledger_Replay
  imports Ledger_Steps
begin

text \<open>
  Durability: the committed part of a ledger that is backed by a file and is not poisoned is
  exactly what a restart reads back from the file.
\<close>

definition durable :: "ledger \<Rightarrow> bool" where
  "durable l \<longleftrightarrow> lg_persistence_path l \<noteq> None \<and> lg_poisoned_reason l = None"

definition durable_core :: "ledger \<Rightarrow> ledger" where
  "durable_core l = l\<lparr>lg_reservations := [], lg_log := []\<rparr>"

definition start_core :: "ledger \<Rightarrow> ledger" where
  "start_core l = empty_ledger (lg_persistence_path l) (lg_expected_producer_commit l) []"

lemma load_lines_replay: "load_lines svc lines = replay (load_line svc) lines"
proof (rule ext)
  show "load_lines svc lines l = replay (load_line svc) lines l" for l
    by (induction lines arbitrary: l) (simp_all add: bindE_def split: sum.splits)
qed

section \<open>The log is not read back by the loader\<close>

definition with_log :: "log_line list \<Rightarrow> ledger result \<Rightarrow> ledger result" where
  "with_log x m = bindE m (\<lambda>l. Inr (l\<lparr>lg_log := x\<rparr>))"

lemma load_record_log: "load_record r (l\<lparr>lg_log := x\<rparr>) = with_log x (load_record r l)"
  by (auto simp: load_record_def with_log_def bindE_def split: sum.splits option.splits)

lemma load_line_log: "load_line svc line (l\<lparr>lg_log := x\<rparr>) = with_log x (load_line svc line l)"
  by (auto simp: load_line_def with_log_def load_record_log bindE_def
      split: log_line.splits sum.splits)

lemma load_lines_log: "load_lines svc lines (l\<lparr>lg_log := x\<rparr>) = with_log x (load_lines svc lines l)"
proof (induction lines arbitrary: l)
  case (Cons line lines)
  show ?case
    by (cases "load_line svc line l") (simp_all add: load_line_log Cons.IH, simp_all add: with_log_def Cons.IH)
qed (simp add: with_log_def)

section \<open>A stored record is read back\<close>

lemma parse_line_to_dict:
  assumes "record_ok svc producer r"
  shows "parse_line svc producer (to_dict r) = Inr r"
proof -
  from assms obtain d where d: "validate_snapshot_schema (to_dict r) = Inr d" and
    ok: "validate_terminal_invariants svc r producer = Inr ()" "json_finite (to_dict r)"
    by (auto simp: record_ok_def)
  have "JObj d = to_dict r" using validate_snapshot_schema_fields [OF d] by simp
  with d ok from_dict_to_dict [OF d] show ?thesis by (simp add: parse_line_def)
qed

definition follows :: "ledger_record \<Rightarrow> ledger \<Rightarrow> bool" where
  "follows r l \<longleftrightarrow>
     (case map_of (lg_by_intent_id l) (rec_intent_id r) of
        None \<Rightarrow> rec_status r = ''ADMITTED''
      | Some p \<Rightarrow> validate_history_transition p r = Inr ())"

lemma load_put_record:
  assumes "may_put svc r l" and "follows r l"
  shows "load_line svc (Snapshot (to_dict r)) (durable_core l) = Inr (durable_core (put_record r l))"
proof -
  from assms(1) have "parse_line svc (lg_expected_producer_commit l) (to_dict r) = Inr r"
    by (simp add: may_put_def parse_line_to_dict)
  moreover have "load_record r (durable_core l) = Inr (durable_core (put_record r l))"
    using assms
    by (auto simp: load_record_def durable_core_def put_record_def may_put_def follows_def
        split: option.splits)
  ultimately show ?thesis by (simp add: load_line_def durable_core_def)
qed


section \<open>What a step writes\<close>

definition log_effect :: "services \<Rightarrow> ledger \<Rightarrow> ledger \<Rightarrow> bool" where
  "log_effect svc l l' \<longleftrightarrow>
     (lg_log l' = lg_log l \<and> durable_core l' = durable_core l) \<or>
     (\<exists>x. lg_log l' = lg_log l @ [x] \<and> load_line svc x (durable_core l) = Inr (durable_core l'))"

lemma put_effect:
  assumes p: "persist_or_poison r ri outcome l = (Inr (), lp)" and "durable l"
    and "may_put svc r l" "follows r l"
  shows "log_effect svc l (put_record r lp)"
  using p
proof (cases rule: persist_outcome)
  case appended
  then have "durable_core (put_record r lp) = durable_core (put_record r l)"
    and "lg_log (put_record r lp) = lg_log l @ [Snapshot (to_dict r)]"
    by (simp_all add: durable_core_def put_record_def)
  with load_put_record [OF assms(3,4)] show ?thesis by (auto simp: log_effect_def)
qed (use assms(2) in \<open>auto simp: durable_def\<close>)

lemma persist_constants:
  assumes "persist_or_poison r ri outcome l = (res, l')"
  shows "lg_persistence_path l' = lg_persistence_path l"
    "lg_expected_producer_commit l' = lg_expected_producer_commit l"
    "res = Inr () \<Longrightarrow> lg_poisoned_reason l' = lg_poisoned_reason l"
  using assms by (cases rule: persist_outcome; auto)+

lemma persist_failed:
  assumes "persist_or_poison r ri outcome l = (Inl e, l')"
  shows "lg_poisoned_reason l' \<noteq> None"
  using assms by (cases rule: persist_outcome) auto

lemma commit_follows:
  assumes "commit_checks svc a now l = Inr r"
  shows "follows r l"
proof -
  obtain s d where "r = admitted_record a now" "adm_status a = ''ADMITTED''"
    "map_of (lg_by_intent_id l) (adm_intent_id a) = None"
    using assms by (rule commit_checks_facts)
  then show ?thesis by (simp add: follows_def admitted_record_def)
qed

lemma transition_follows:
  assumes inv: "ledger_inv svc l" and "transition_decision svc t now l = Inr (Some (True, q))"
    and "json_finite (tr_error t)"
  shows "may_put svc q l" and "follows q l"
proof -
  obtain i r where f: "map_of (lg_by_intent_id l) i = Some r" "moves_to r q" "may_put svc q l"
      "validate_history_transition r q = Inr ()"
    using transition_moves [OF assms] by metis
  then show "may_put svc q l" by simp
  have "rec_intent_id q = i"
    using moves_to_same(1) [OF f(2)] indexes_agreeD(1) f(1) inv ledger_inv_distinct_reservations(3)
    by metis
  with f show "follows q l" by (simp add: follows_def)
qed

lemma ledger_step_constants:
  assumes "ledger_step svc l l'"
  shows "lg_persistence_path l' = lg_persistence_path l"
    "lg_expected_producer_commit l' = lg_expected_producer_commit l"
    "lg_poisoned_reason l \<noteq> None \<Longrightarrow> lg_poisoned_reason l' \<noteq> None"
proof -
  have "lg_persistence_path l' = lg_persistence_path l \<and>
    lg_expected_producer_commit l' = lg_expected_producer_commit l \<and>
    (lg_poisoned_reason l \<noteq> None \<longrightarrow> lg_poisoned_reason l' \<noteq> None)"
    using assms
  proof cases
    case (acquire i d c now expired res)
    then show ?thesis
      using acquire_pass_same acquire_pass_reserved(6) by (cases "res = Inr Reserved") fastforce+
  next
    case (release i)
    then show ?thesis by (simp add: release_reservation_def)
  next
    case (commit a now outcome res)
    then show ?thesis
      by (auto elim!: commit_admission_outcome dest: persist_constants persist_failed simp: put_record_def)
  next
    case (transition t now outcome res)
    then show ?thesis by (auto elim!: transition_outcome dest: persist_constants persist_failed)
  qed
  then show "lg_persistence_path l' = lg_persistence_path l"
    "lg_expected_producer_commit l' = lg_expected_producer_commit l"
    "lg_poisoned_reason l \<noteq> None \<Longrightarrow> lg_poisoned_reason l' \<noteq> None" by simp_all
qed

lemma ledger_step_effect:
  assumes inv: "ledger_inv svc l" and "ledger_step svc l l'" and d: "durable l'"
  shows "log_effect svc l l'"
proof -
  have dl: "durable l" using d ledger_step_constants [OF assms(2)]
    by (cases "lg_poisoned_reason l") (auto simp: durable_def)
  show ?thesis
    using assms(2)
  proof cases
    case (acquire i d c now expired res)
    then show ?thesis
      using acquire_pass_same [of i d c now expired l res l']
        acquire_pass_reserved(6) [of i d c now expired l l']
      by (cases "res = Inr Reserved") (auto simp: log_effect_def durable_core_def)
  next
    case (release i)
    then show ?thesis by (simp add: release_reservation_def log_effect_def durable_core_def)
  next
    case (commit a now outcome res)
    from commit(1) show ?thesis
    proof (cases rule: commit_admission_outcome)
      case (rejected e)
      then show ?thesis by (simp add: log_effect_def)
    next
      case (failed r)
      with persist_failed [OF failed(3)] d show ?thesis by (simp add: durable_def)
    next
      case (committed r lp)
      with put_effect [OF committed(3) dl] commit_may_put [OF inv committed(1) commit(2-4)]
        commit_follows show ?thesis by metis
    qed
  next
    case (transition t now outcome res)
    from transition(1) show ?thesis
    proof (cases rule: transition_outcome)
      case (failed q)
      with persist_failed [OF failed(3)] d show ?thesis by (simp add: durable_def)
    next
      case (moved q lp)
      with put_effect [OF moved(3) dl] transition_follows [OF inv moved(1) transition(2)]
        transition_moved_put [OF inv moved(1) transition(2) moved(3)]
      show ?thesis by metis
    qed (simp_all add: log_effect_def)
  qed
qed


section \<open>Restart\<close>

definition restartable :: "ledger \<Rightarrow> bool" where
  "restartable l \<longleftrightarrow>
     lg_persistence_path l \<noteq> Some [] \<and>
     (case lg_expected_producer_commit l of None \<Rightarrow> True | Some c \<Rightarrow> fullmatch_hex 40 c)"

lemma init_ledger_cases:
  assumes "init_ledger svc path producer file = Inr l"
  obtains (loaded) p lines where "path = Some p" "p \<noteq> []" "file = Some lines"
      "load_lines svc lines (empty_ledger (Some p) producer lines) = Inr l"
      "case producer of None \<Rightarrow> True | Some c \<Rightarrow> fullmatch_hex 40 c"
  | (fresh) p where "l = empty_ledger p producer []" "p \<noteq> Some []"
      "case producer of None \<Rightarrow> True | Some c \<Rightarrow> fullmatch_hex 40 c"
  using assms
  by (auto simp: init_ledger_def exn_simps Let_def split: option.splits if_splits)

lemma empty_ledger_fields [simp]:
  "lg_reservations (empty_ledger p c x) = []" "lg_poisoned_reason (empty_ledger p c x) = None"
  "lg_log (empty_ledger p c x) = x" "lg_persistence_path (empty_ledger p c x) = p"
  "lg_expected_producer_commit (empty_ledger p c x) = c"
  "(empty_ledger p c x)\<lparr>lg_log := y\<rparr> = empty_ledger p c y"
  by (simp_all add: empty_ledger_def)

lemma load_lines_from_empty:
  assumes "load_lines svc lines (empty_ledger p c x) = Inr l"
  shows "lg_reservations l = [] \<and> lg_log l = x \<and> lg_persistence_path l = p \<and>
    lg_expected_producer_commit l = c \<and> lg_poisoned_reason l = None"
  using load_lines_inv [OF empty_ledger_inv _ assms] by simp

lemma start_restartable: "ledger_start svc l \<Longrightarrow> restartable l"
  unfolding ledger_start_def
  by (auto elim!: init_ledger_cases dest!: load_lines_from_empty simp: restartable_def)

lemma start_replay:
  assumes "ledger_start svc l"
  shows "replay (load_line svc) (lg_log l) (start_core l) = Inr (durable_core l)"
proof -
  from assms obtain path producer content where "init_ledger svc path producer content = Inr l"
    by (auto simp: ledger_start_def)
  then show ?thesis
  proof (cases rule: init_ledger_cases)
    case (loaded p lines)
    note l = load_lines_from_empty [OF loaded(4)]
    have "load_lines svc lines (empty_ledger (Some p) producer []) = with_log [] (Inr l)"
      using load_lines_log [of svc lines "[]" "empty_ledger (Some p) producer lines"] loaded(4) by simp
    with l show ?thesis
      by (simp add: load_lines_replay start_core_def durable_core_def with_log_def)
  next
    case (fresh p)
    then show ?thesis by (simp add: start_core_def durable_core_def empty_ledger_def)
  qed
qed

interpretation ledger_replay:
  replayed_system "ledger_start svc" "ledger_step svc" "\<lambda>l. ledger_inv svc l \<and> restartable l"
    durable_core start_core lg_log durable "load_line svc" for svc
proof
  show "ledger_inv svc l \<and> restartable l" if "ledger_start svc l" for l
    using that start_restartable ledger_history.inv_init by blast
  show "ledger_inv svc l' \<and> restartable l'"
    if "ledger_inv svc l \<and> restartable l" "ledger_step svc l l'" for l l'
    using that ledger_step_inv ledger_step_constants by (metis restartable_def)
  show "durable l \<and> start_core l' = start_core l" if "ledger_step svc l l'" "durable l'" for l l'
    using that(2) ledger_step_constants [OF that(1)]
    by (cases "lg_poisoned_reason l") (auto simp: durable_def start_core_def)
qed (use start_replay ledger_step_effect in \<open>auto simp: log_effect_def\<close>)

text \<open>What a restart reads from a file that holds \<open>lines\<close> in place of the ledger's own log.\<close>

lemma restart_lines:
  assumes "restartable l" and "lg_persistence_path l \<noteq> None"
  shows "init_ledger svc (lg_persistence_path l) (lg_expected_producer_commit l) (Some lines)
       = with_log lines (replay (load_line svc) lines (start_core l))"
proof -
  obtain p where p: "lg_persistence_path l = Some p" "p \<noteq> []"
    using assms by (cases "lg_persistence_path l") (auto simp: restartable_def)
  have "init_ledger svc (lg_persistence_path l) (lg_expected_producer_commit l) (Some lines)
      = load_lines svc lines (empty_ledger (Some p) (lg_expected_producer_commit l) lines)"
    using assms(1) p by (simp add: init_ledger_def restartable_def Let_def split: option.splits)
  also have "\<dots> = with_log lines (load_lines svc lines (start_core l))"
    using load_lines_log [of svc lines lines "start_core l"] p by (simp add: start_core_def)
  finally show ?thesis by (simp add: load_lines_replay)
qed

lemma restart_reachable:
  assumes "reachable (ledger_start svc) (ledger_step svc) l" and "durable l"
  shows "init_ledger svc (lg_persistence_path l) (lg_expected_producer_commit l) (Some (lg_log l))
       = Inr (l\<lparr>lg_reservations := []\<rparr>)"
proof -
  have "restartable l" using ledger_replay.reachable_inv assms(1) by blast
  with assms restart_lines ledger_replay.replay_log show ?thesis
    by (simp add: durable_def with_log_def durable_core_def)
qed

text \<open>
  A crash in the middle of an append: the line is missing, torn or complete. A restart from
  \<open>lines\<close> is the constructor called with the ledger's own path and producer.
\<close>

definition restart :: "services \<Rightarrow> ledger \<Rightarrow> log_line list \<Rightarrow> ledger result" where
  "restart svc l lines =
     init_ledger svc (lg_persistence_path l) (lg_expected_producer_commit l) (Some lines)"

lemma restart_torn:
  assumes "reachable (ledger_start svc) (ledger_step svc) l" and "durable l"
  shows "restart svc l (lg_log l @ [Torn]) = Inl ValueError"
proof -
  have "restartable l" using ledger_replay.reachable_inv assms(1) by blast
  with restart_lines [of l svc "lg_log l @ [Torn]"] ledger_replay.replay_log [OF assms] assms(2)
  show ?thesis by (simp add: restart_def durable_def replay_append with_log_def load_line_def)
qed

lemma restart_appended:
  assumes "reachable (ledger_start svc) (ledger_step svc) l" and "durable l"
    and "may_put svc r l" and "follows r l"
  shows "restart svc l (lg_log l @ [Snapshot (to_dict r)])
    = Inr ((put_record r (l\<lparr>lg_log := lg_log l @ [Snapshot (to_dict r)]\<rparr>))\<lparr>lg_reservations := []\<rparr>)"
proof -
  have "restartable l" using ledger_replay.reachable_inv assms(1) by blast
  with restart_lines [of l svc "lg_log l @ [Snapshot (to_dict r)]"]
    ledger_replay.replay_log [OF assms(1,2)] assms(2) load_put_record [OF assms(3,4)]
  show ?thesis
    by (simp add: restart_def durable_def replay_append with_log_def durable_core_def put_record_def)
qed

end
