(* ===== verification/Ledger_Quota.thy ===== *)
theory Ledger_Quota
  imports Ledger_Steps
begin

text \<open>
  The concurrency limit. The gate compares \<open>active_count\<close> of its own reservation with the
  limit between \<open>acquire_or_check\<close> and \<open>commit_admission\<close>, without holding the ledger's lock
  over the three calls. \<open>gated_step\<close> is any interleaving of such threads: the ledger together
  with the set of reservations that have passed the comparison.
\<close>

section \<open>Position of a reservation\<close>

lemma position_None: "position k d = None \<longleftrightarrow> map_of d k = None"
  by (induction d) auto

lemma position_keys: "map fst d = map fst e \<Longrightarrow> position k d = position k e"
proof (induction d arbitrary: e)
  case (Cons a d)
  then obtain b e' where e: "e = b # e'" "map fst d = map fst e'" "fst a = fst b" by (cases e) auto
  with Cons.IH [of e'] show ?case by (cases a; cases b) simp
qed simp

lemma position_append: "position k d = Some n \<Longrightarrow> position k (d @ e) = Some n"
  by (induction d arbitrary: n) (auto split: if_splits)

lemma position_delete:
  assumes "distinct (map fst d)" and "k \<noteq> j" and "position k d = Some n"
  shows "position k (AList.delete j d) =
    Some (case position j d of None \<Rightarrow> n | Some q \<Rightarrow> if q < n then n - 1 else n)"
  using assms
proof (induction d arbitrary: n)
  case (Cons a d)
  obtain i v where a: "a = (i, v)" by (cases a)
  show ?case
  proof (cases "i = j")
    case True
    with Cons.prems a obtain m where m: "position k d = Some m" "n = Suc m" by auto
    moreover from Cons.prems a True have "AList.delete j d = d"
      by (intro delete_absent) (auto simp: map_of_eq_None_iff)
    ultimately show ?thesis using True a by simp
  next
    case False
    show ?thesis
    proof (cases "i = k")
      case True
      with False Cons.prems a show ?thesis by (auto split: option.splits)
    next
      case k: False
      with Cons.prems a obtain m where m: "position k d = Some m" "n = Suc m" by auto
      with Cons.IH [of m] Cons.prems a k False show ?thesis
        by (auto split: option.splits)
    qed
  qed
qed simp

lemma position_inj: "position i d = Some n \<Longrightarrow> position j d = Some n \<Longrightarrow> i = j"
  by (induction d arbitrary: n) (auto split: if_splits)

lemma mark_failed_keys: "map fst (mark_failed ri d) = map fst d"
  by (auto simp: mark_failed_def keys_update_known split: option.splits)

section \<open>Nonterminal records\<close>

lemma nonterminal_count_cong:
  "lg_by_intent_id l' = lg_by_intent_id l \<Longrightarrow> nonterminal_count l' = nonterminal_count l"
  by (simp add: nonterminal_count_def)

lemma nonterminal_count_put_new:
  assumes "map_of (lg_by_intent_id l) (rec_intent_id r) = None"
  shows "nonterminal_count (put_record r l) \<le> Suc (nonterminal_count l)"
  using assms by (simp add: nonterminal_count_def put_record_def update_fresh)

lemma nonterminal_count_put_known:
  assumes "distinct (map fst (lg_by_intent_id l))"
    and "map_of (lg_by_intent_id l) (rec_intent_id q) = Some r" and "is_nonterminal r"
  shows "nonterminal_count (put_record q l) \<le> nonterminal_count l"
  using filter_update_known_length [OF assms(2,1), of "\<lambda>(i, r). is_nonterminal r" q] assms(3)
  by (simp add: nonterminal_count_def put_record_def split: if_splits)

lemma known_not_terminal:
  "record_ok svc p r \<Longrightarrow> rec_status r \<notin> set TERMINAL_STATUSES \<Longrightarrow> is_nonterminal r"
  by (auto simp: record_ok_def is_nonterminal_def KNOWN_STATUSES_def dest: snapshot_facts(4))

section \<open>Interleavings of gates\<close>

inductive gated_step ::
  "services \<Rightarrow> nat \<Rightarrow> ledger \<times> string set \<Rightarrow> ledger \<times> string set \<Rightarrow> bool" for svc limit where
  acquire: "acquire_pass i d c now expired l = (res, l') \<Longrightarrow> gated_step svc limit (l, G) (l', G)"
| grant: "active_count (Some i) l = Inr n \<Longrightarrow> n < limit \<Longrightarrow> gated_step svc limit (l, G) (l, insert i G)"
| release: "gated_step svc limit (l, G)
     (release_reservation i l, if lg_poisoned_reason l = None then G - {i} else G)"
| commit:
    "adm_intent_id a \<in> G \<Longrightarrow> commit_admission svc a now outcome l = (res, l') \<Longrightarrow>
     map_of (lg_by_execution_id l) (adm_execution_id a) = None \<Longrightarrow>
     json_finite (adm_admission_record a) \<Longrightarrow> json_finite (adm_intent a) \<Longrightarrow>
     gated_step svc limit (l, G) (l', case res of Inr r \<Rightarrow> G - {adm_intent_id a} | Inl e \<Rightarrow> G)"
| transition:
    "transition_execution svc t now outcome l = (res', l') \<Longrightarrow> json_finite (tr_error t) \<Longrightarrow>
     gated_step svc limit (l, G) (l', G)"

definition gated_inv :: "services \<Rightarrow> nat \<Rightarrow> ledger \<times> string set \<Rightarrow> bool" where
  "gated_inv svc limit = (\<lambda>(l, G).
     ledger_inv svc l \<and> nonterminal_count l \<le> limit \<and>
     (\<forall>i\<in>G. \<exists>n. position i (lg_reservations l) = Some n \<and> nonterminal_count l + n < limit))"

lemma gated_acquire:
  assumes "gated_inv svc limit (l, G)" and "acquire_pass i d c now expired l = (res, l')"
  shows "gated_inv svc limit (l', G)"
proof -
  have inv: "ledger_inv svc l'" using assms acquire_inv by (auto simp: gated_inv_def)
  have "position j (lg_reservations l') = Some n" if "position j (lg_reservations l) = Some n" for j n
    using acquire_pass_same [OF assms(2)] acquire_pass_reserved(6) [of i d c now expired l l'] assms(2)
      that
    by (cases "res = Inr Reserved") (auto simp: position_append)
  with assms(1) inv nonterminal_count_cong [OF acquire_keeps [OF assms(2)]] show ?thesis
    unfolding gated_inv_def by fastforce
qed

lemma gated_release:
  assumes "gated_inv svc limit (l, G)" and "lg_poisoned_reason l = None"
  shows "gated_inv svc limit (release_reservation i l, G - {i})"
proof -
  have inv: "ledger_inv svc l" "ledger_inv svc (release_reservation i l)"
    using assms release_inv by (auto simp: gated_inv_def)
  have same: "nonterminal_count (release_reservation i l) = nonterminal_count l"
    by (rule nonterminal_count_cong) (rule release_keeps)
  have "\<exists>m. position j (lg_reservations (release_reservation i l)) = Some m \<and>
      nonterminal_count l + m < limit" if "j \<in> G - {i}" for j
  proof -
    from that assms(1) obtain n where "position j (lg_reservations l) = Some n"
      "nonterminal_count l + n < limit" by (auto simp: gated_inv_def)
    with position_delete [of "lg_reservations l" j i n] that assms(2)
      ledger_inv_distinct_reservations(1) [OF inv(1)]
    show ?thesis by (auto simp: release_reservation_def split: option.splits)
  qed
  with assms(1) inv same show ?thesis by (simp add: gated_inv_def)
qed

lemma gated_persist:
  assumes "gated_inv svc limit (l, G)" and "persist_or_poison r ri outcome l = (res, l')"
  shows "gated_inv svc limit (l', G)"
proof -
  have "position j (lg_reservations l') = position j (lg_reservations l)" for j
    using assms(2) by (cases rule: persist_outcome) (auto intro: position_keys simp: mark_failed_keys)
  with assms(1) persist_inv [OF _ assms(2), of svc]
    nonterminal_count_cong [OF persist_keeps [OF assms(2)]]
  show ?thesis by (auto simp: gated_inv_def)
qed

lemma gated_put_new:
  assumes "gated_inv svc limit (l, G)" and "may_put svc r l" and "rec_intent_id r \<in> G"
    and "map_of (lg_by_intent_id l) (rec_intent_id r) = None"
  shows "gated_inv svc limit (put_record r l, G - {rec_intent_id r})"
proof -
  let ?i = "rec_intent_id r"
  have inv: "ledger_inv svc l" using assms(1) by (simp add: gated_inv_def)
  obtain q where q: "position ?i (lg_reservations l) = Some q" "nonterminal_count l + q < limit"
    using assms(1,3) by (auto simp: gated_inv_def)
  note count = nonterminal_count_put_new [OF assms(4)]
  have "\<exists>m. position j (lg_reservations (put_record r l)) = Some m \<and>
      nonterminal_count (put_record r l) + m < limit" if j: "j \<in> G - {?i}" for j
  proof -
    from j assms(1) obtain n where n: "position j (lg_reservations l) = Some n"
      "nonterminal_count l + n < limit" by (auto simp: gated_inv_def)
    have "n \<noteq> q" using position_inj n(1) q(1) j by blast
    with n q count j position_delete [OF ledger_inv_distinct_reservations(1) [OF inv], of j ?i n]
    show ?thesis by (auto simp: put_record_def split: if_splits)
  qed
  with put_record_inv [OF inv assms(2)] q count show ?thesis by (simp add: gated_inv_def)
qed

lemma gated_put_known:
  assumes "gated_inv svc limit (l, G)" and "may_put svc q l"
    and "map_of (lg_by_intent_id l) (rec_intent_id q) = Some r" and "is_nonterminal r"
  shows "gated_inv svc limit (put_record q l, G)"
proof -
  have inv: "ledger_inv svc l" using assms(1) by (simp add: gated_inv_def)
  have "map_of (lg_reservations l) (rec_intent_id q) = None"
    using reservations_disjointD(2) [OF ledger_inv_distinct_reservations(2) [OF inv]] assms(3)
    by (cases "map_of (lg_reservations l) (rec_intent_id q)") auto
  then have "lg_reservations (put_record q l) = lg_reservations l"
    by (simp add: put_record_def delete_absent)
  with assms(1) put_record_inv [OF inv assms(2)]
    nonterminal_count_put_known [OF ledger_inv_distinct_reservations(4) [OF inv] assms(3,4)]
  show ?thesis by (fastforce simp: gated_inv_def)
qed


lemma gated_commit:
  assumes g: "gated_inv svc limit (l, G)" and "adm_intent_id a \<in> G"
    and c: "commit_admission svc a now outcome l = (res, l')"
    and env: "map_of (lg_by_execution_id l) (adm_execution_id a) = None"
      "json_finite (adm_admission_record a)" "json_finite (adm_intent a)"
  shows "gated_inv svc limit (l', case res of Inr r \<Rightarrow> G - {adm_intent_id a} | Inl e \<Rightarrow> G)"
  using c
proof (cases rule: commit_admission_outcome)
  case (failed r)
  with gated_persist [OF g] show ?thesis by simp
next
  case (committed r lp)
  have inv: "ledger_inv svc l" using g by (simp add: gated_inv_def)
  obtain s d where r: "r = admitted_record a now" "map_of (lg_by_intent_id l) (adm_intent_id a) = None"
    using committed(1) by (rule commit_checks_facts)
  have "may_put svc r lp"
    using commit_may_put [OF inv committed(1) env] may_put_persist [OF committed(3)] by simp
  moreover have "rec_intent_id r = adm_intent_id a" using r(1) by (simp add: admitted_record_def)
  ultimately show ?thesis
    using gated_put_new [OF gated_persist [OF g committed(3)], of r] assms(2) r(2) committed
      persist_keeps [OF committed(3)] by simp
qed (use g in simp)

lemma gated_transition:
  assumes g: "gated_inv svc limit (l, G)" and t: "transition_execution svc t now outcome l = (res, l')"
    and fin: "json_finite (tr_error t)"
  shows "gated_inv svc limit (l', G)"
  using t
proof (cases rule: transition_outcome)
  case (failed q)
  with gated_persist [OF g] show ?thesis by simp
next
  case (moved q lp)
  have inv: "ledger_inv svc l" using g by (simp add: gated_inv_def)
  obtain i r where f: "map_of (lg_by_intent_id l) i = Some r" "moves_to r q" "may_put svc q l"
      "rec_status r \<notin> set TERMINAL_STATUSES"
    using transition_moves [OF inv moved(1) fin] by metis
  have "rec_intent_id q = i"
    using moves_to_same(1) [OF f(2)] indexes_agreeD(1) [OF _ f(1)] inv
      ledger_inv_distinct_reservations(3) by metis
  moreover have "is_nonterminal r"
    using inv f(1,4) known_not_terminal unfolding ledger_inv_def records_ok_def by blast
  ultimately have "gated_inv svc limit (put_record q lp, G)"
    using gated_put_known [OF gated_persist [OF g moved(3)]] f may_put_persist [OF moved(3)]
      persist_keeps [OF moved(3)] by simp
  with transition_moved_put [OF inv moved(1) fin moved(3)] moved(4) show ?thesis by simp
qed (use g in simp_all)

lemma gated_grant:
  assumes "gated_inv svc limit (l, G)" and "active_count (Some i) l = Inr n" and "n < limit"
  shows "gated_inv svc limit (l, insert i G)"
  using assms
  by (auto simp: gated_inv_def active_count_def exn_simps split: option.splits)

definition gated_start :: "services \<Rightarrow> nat \<Rightarrow> ledger \<times> string set \<Rightarrow> bool" where
  "gated_start svc limit = (\<lambda>(l, G).
     ledger_start svc l \<and> nonterminal_count l \<le> limit \<and> G = {})"

interpretation gated:
  invariant_system "gated_start svc limit" "gated_step svc limit" "gated_inv svc limit" for svc limit
proof
  fix s :: "ledger \<times> string set"
  assume "gated_start svc limit s"
  then show "gated_inv svc limit s"
    using ledger_history.inv_init by (auto simp: gated_start_def gated_inv_def)
next
  fix s t :: "ledger \<times> string set"
  assume inv: "gated_inv svc limit s" and "gated_step svc limit s t"
  from this(2) show "gated_inv svc limit t"
  proof cases
    case (acquire i d c now expired l res l' G)
    with inv gated_acquire show ?thesis by metis
  next
    case (grant i l n G)
    with inv gated_grant show ?thesis by metis
  next
    case (release l G i)
    with inv gated_release [of svc limit l G i] show ?thesis
      by (cases "lg_poisoned_reason l") (simp_all add: release_reservation_def)
  next
    case (commit a G now outcome l res l')
    with inv gated_commit [of svc limit l G a now outcome res l'] show ?thesis by simp
  next
    case (transition t now outcome l res l' G)
    with inv gated_transition show ?thesis by metis
  qed
qed

end
