(* ===== verification/Samples.thy ===== *)
theory Samples
  imports Ledger_Replay Ledger_Quota
begin

text \<open>
  A small concrete run of the ledger: one intent is reserved, admitted, started and
  cancelled. The theorems about the ledger are applied to it.
\<close>

definition sample_services :: services where
  "sample_services = \<lparr>svc_sha = (\<lambda>s. replicate 64 (CHR ''0'')), svc_schema = (\<lambda>a d. True),
      svc_loads = (\<lambda>s. None), svc_fromiso = (\<lambda>s. None), svc_isoformat = (\<lambda>t. [])\<rparr>"

definition sample_admission :: admission_request where
  "sample_admission =
     \<lparr>adm_intent_id = ''i-1'', adm_intent_digest = ''d-1'', adm_caller_subject_id = ''alice'',
      adm_execution_id = ''e-1'',
      adm_admission_record =
        JObj [(''admission_id'', JStr ''a-1''), (''admission_digest'', JStr ''ad-1'')],
      adm_intent = JNull,
      adm_retry_of_intent_id = JNull, adm_operation = JStr ''TRAIN_TICKET'',
      adm_status = ''ADMITTED''\<rparr>"

definition sample_move :: "string \<Rightarrow> json \<Rightarrow> transition_request" where
  "sample_move status error =
     \<lparr>tr_execution_id = ''e-1'', tr_expected_statuses = NONTERMINAL_STATUSES, tr_status = status,
      tr_receipt_digest = JNull, tr_terminal_receipt = JNull, tr_error = error\<rparr>"

definition sample_start :: ledger where
  "sample_start = empty_ledger (Some ''ledger.jsonl'') None []"

definition sample_reserved :: ledger where
  "sample_reserved = snd (acquire_pass ''i-1'' ''d-1'' ''alice'' ''t0'' False sample_start)"

definition sample_admitted :: ledger where
  "sample_admitted =
     snd (commit_admission sample_services sample_admission ''t1'' Appended sample_reserved)"

definition sample_cancelled :: ledger where
  "sample_cancelled =
     snd (transition_execution sample_services
            (sample_move ''CANCELLED'' (JObj [(''code'', JStr ''ERR_CANCELLED'')])) ''t2'' Appended
            sample_admitted)"

lemma sample_start_init:
  "init_ledger sample_services (Some ''ledger.jsonl'') None None = Inr sample_start"
  by (simp add: init_ledger_def sample_start_def)

lemma sample_start_reachable: "reachable (ledger_start svc) (ledger_step svc) sample_start"
proof (rule reachable.start)
  have "init_ledger svc (Some ''ledger.jsonl'') None None = Inr sample_start"
    by (simp add: init_ledger_def sample_start_def)
  then show "ledger_start svc sample_start" unfolding ledger_start_def by blast
qed

lemma sample_reserve_step:
  "ledger_step svc sample_start sample_reserved"
  unfolding sample_reserved_def by (rule ledger_step.acquire, rule prod.collapse [symmetric])

lemma sample_reserved_value:
  "sample_reserved = sample_start\<lparr>lg_reservations :=
     [(''i-1'', \<lparr>res_intent_id = ''i-1'', res_intent_digest = ''d-1'',
        res_caller_subject_id = ''alice'', res_created_at = ''t0'', res_failed = False\<rparr>)]\<rparr>"
  by code_simp

lemma sample_commit_checks:
  "commit_checks sample_services sample_admission ''t1'' sample_reserved
     = Inr (admitted_record sample_admission ''t1'')"
  by code_simp

lemma sample_admitted_value:
  "lg_by_intent_id sample_admitted = [(''i-1'', admitted_record sample_admission ''t1'')]"
  "lg_poisoned_reason sample_admitted = None"
  "lg_persistence_path sample_admitted = Some ''ledger.jsonl''"
  by code_simp+

lemma sample_admit_step: "ledger_step sample_services sample_reserved sample_admitted"
  unfolding sample_admitted_def
proof (rule ledger_step.commit, rule prod.collapse [symmetric])
  show "map_of (lg_by_execution_id sample_reserved) (adm_execution_id sample_admission) = None"
    by code_simp
  show "json_finite (adm_admission_record sample_admission)" "json_finite (adm_intent sample_admission)"
    by code_simp+
qed

lemma sample_cancel_step: "ledger_step sample_services sample_admitted sample_cancelled"
  unfolding sample_cancelled_def
proof (rule ledger_step.transition, rule prod.collapse [symmetric])
  show "json_finite (tr_error (sample_move ''CANCELLED'' (JObj [(''code'', JStr ''ERR_CANCELLED'')])))"
    by code_simp
qed

lemma sample_reachable:
  "reachable (ledger_start sample_services) (ledger_step sample_services) sample_reserved"
  "reachable (ledger_start sample_services) (ledger_step sample_services) sample_admitted"
  "reachable (ledger_start sample_services) (ledger_step sample_services) sample_cancelled"
  using sample_start_reachable sample_reserve_step sample_admit_step sample_cancel_step
  by (blast intro: reachable.step)+

lemma sample_cancelled_value:
  "map_option rec_status (map_of (lg_by_intent_id sample_cancelled) ''i-1'') = Some ''CANCELLED''"
  "lg_poisoned_reason sample_cancelled = None"
  "lg_persistence_path sample_cancelled = Some ''ledger.jsonl''"
  by code_simp+


definition sample_receipt :: json where
  "sample_receipt = JObj [(''provenance'', JObj
     [(''intent_id'', JStr ''i-1''), (''intent_digest'', JStr ''d-1''),
      (''execution_id'', JStr ''e-1''), (''admission_id'', JStr ''a-1''),
      (''admission_digest'', JStr ''ad-1'')])]"

definition sample_finish :: transition_request where
  "sample_finish =
     \<lparr>tr_execution_id = ''e-1'', tr_expected_statuses = NONTERMINAL_STATUSES,
      tr_status = ''COMPLETED'',
      tr_receipt_digest = JStr (''sha256:'' @ replicate 64 (CHR ''0'')),
      tr_terminal_receipt = sample_receipt, tr_error = JNull\<rparr>"

definition sample_completed :: ledger where
  "sample_completed =
     snd (transition_execution sample_services sample_finish ''t2'' Appended sample_admitted)"

lemma sample_completed_reachable:
  "reachable (ledger_start sample_services) (ledger_step sample_services) sample_completed"
proof (rule reachable.step [OF sample_reachable(2)])
  have "json_finite (tr_error sample_finish)" by code_simp
  then show "ledger_step sample_services sample_admitted sample_completed"
    unfolding sample_completed_def by (intro ledger_step.transition [OF prod.collapse [symmetric]])
qed

definition sample_completed_record :: ledger_record where
  "sample_completed_record =
     (admitted_record sample_admission ''t1'')\<lparr>rec_status := ''COMPLETED'', rec_updated_at := ''t2'',
        rec_receipt_digest := tr_receipt_digest sample_finish,
        rec_terminal_receipt := sample_receipt, rec_error := JNull\<rparr>"

lemma sample_receipt_accepted:
  "validate_terminal_invariants sample_services sample_completed_record None = Inr ()"
  by (simp add: validate_terminal_invariants_def sample_completed_record_def
      validate_completed_receipt_def canonicalize_jcs_eq sha256_digest_def sample_services_def
      sample_finish_def sample_receipt_def admitted_record_def sample_admission_def
      expected_lineage_def lineage_check_def obj_get_def NONTERMINAL_STATUSES_def
      schema_validate_def SCHEMA_FILES_def)

lemma sample_completed_snapshot:
  "validate_snapshot_schema (to_dict sample_completed_record)
     = Inr (obj_fields (to_dict sample_completed_record))"
  "validate_history_transition (admitted_record sample_admission ''t1'') sample_completed_record = Inr ()"
  by code_simp+

lemma sample_completed_decision:
  "transition_decision sample_services sample_finish ''t2'' sample_admitted
     = Inr (Some (True, sample_completed_record))"
proof -
  have index: "map_of (lg_by_execution_id sample_admitted) ''e-1'' = Some ''i-1''"
    "lg_expected_producer_commit sample_admitted = None" by code_simp+
  have "transition_record sample_services sample_finish ''t2'' sample_admitted
      (admitted_record sample_admission ''t1'') = Inr sample_completed_record"
    using sample_receipt_accepted sample_completed_snapshot index(2)
    by (simp add: transition_record_def next_artifacts_def sample_finish_def legal_next_def
        LEGAL_TRANSITIONS_def admitted_record_def sample_admission_def Let_def
        sample_completed_record_def)
  then show ?thesis
    using index(1)
    by (simp add: transition_decision_def sample_finish_def raise_if_poisoned_def
        sample_admitted_value KNOWN_STATUSES_def NONTERMINAL_STATUSES_def TERMINAL_STATUSES_def
        admitted_record_def sample_admission_def)
qed

lemma sample_completed_value:
  "map_of (lg_by_intent_id sample_completed) ''i-1'' = Some sample_completed_record"
proof -
  have "owner_of_execution (tr_execution_id sample_finish) sample_admitted = ''i-1''" by code_simp
  then show ?thesis
    by (simp add: sample_completed_def transition_execution_def sample_completed_decision
        persist_or_poison_def sample_admitted_value)
qed

end
