(* ===== verification/Ledger_Theorems.thy ===== *)
theory Ledger_Theorems
  imports Samples
begin

text \<open>
  What the durable idempotency ledger guarantees. Each theorem is stated over the model of
  \<open>idempotency.py\<close> and is followed by an application to the sample run.
\<close>

section \<open>Invariant and histories\<close>

text \<open>
  C32: In every ledger that the constructor and any interleaving of acquisitions, commits,
  releases and transitions can produce, the three indexes describe the same executions, no
  digest and no execution identity has two owners, no reservation overlaps a committed
  record, and every record is one the loader would accept.
\<close>

theorem ledger_invariant_reachable:
  "reachable (ledger_start svc) (ledger_step svc) l \<Longrightarrow> ledger_inv svc l"
  by (rule ledger_history.reachable_inv)

theorem ledger_invariant_reachable_witness:
  "ledger_inv sample_services sample_cancelled"
  using ledger_invariant_reachable [OF sample_reachable(3)] .

text \<open>
  C2: Once an execution has reached a terminal status, no later operation, by any thread and
  with any outcome of the append, changes its record.
\<close>

theorem terminal_record_immutable:
  assumes "reachable (ledger_start svc) (ledger_step svc) l" and "(ledger_step svc)\<^sup>*\<^sup>* l l'"
    and "map_of (lg_by_intent_id l) i = Some r" and "rec_status r \<in> set TERMINAL_STATUSES"
  shows "map_of (lg_by_intent_id l') i = Some r"
  using ledger_history.maximal_kept [OF assms(2) ledger_history.reachable_inv [OF assms(1)] assms(3)]
    terminal_maximal [OF assms(4)] by blast

theorem terminal_record_immutable_witness:
  "map_option rec_status (map_of (lg_by_intent_id (release_reservation ''i-1'' sample_cancelled)) ''i-1'')
     = Some ''CANCELLED''"
proof -
  obtain r where r: "map_of (lg_by_intent_id sample_cancelled) ''i-1'' = Some r"
    "rec_status r = ''CANCELLED''"
    using sample_cancelled_value(1) by (auto simp: map_option_case split: option.splits)
  have "rec_status r \<in> set TERMINAL_STATUSES" using r(2) by (simp add: TERMINAL_STATUSES_def)
  moreover have "(ledger_step sample_services)\<^sup>*\<^sup>* sample_cancelled
      (release_reservation ''i-1'' sample_cancelled)"
    by (rule r_into_rtranclp) (rule ledger_step.release)
  ultimately show ?thesis
    using terminal_record_immutable [OF sample_reachable(3) _ r(1)] r(2) by simp
qed

text \<open>
  Along every run an admitted execution keeps its identity (intent, digest, owner,
  execution identity, admission record, operation, creation time), it is never lost, and its
  status only moves along the edges of the legal transition table.
\<close>

theorem execution_identity_fixed:
  assumes "reachable (ledger_start svc) (ledger_step svc) l" and "(ledger_step svc)\<^sup>*\<^sup>* l l'"
    and "map_of (lg_by_intent_id l) i = Some r"
  shows "\<exists>q. map_of (lg_by_intent_id l') i = Some q \<and>
    rec_intent_id q = rec_intent_id r \<and> rec_intent_digest q = rec_intent_digest r \<and>
    rec_execution_id q = rec_execution_id r \<and> rec_created_at q = rec_created_at r \<and>
    rec_authenticated_subject_id q = rec_authenticated_subject_id r \<and>
    rec_admission_record q = rec_admission_record r \<and> rec_intent q = rec_intent r \<and>
    rec_operation q = rec_operation r \<and> rec_retry_of_intent_id q = rec_retry_of_intent_id r \<and>
    (\<lambda>s t. t \<in> set (legal_next s))\<^sup>*\<^sup>* (rec_status r) (rec_status q)"
  using ledger_history.obs_grows [OF assms(2) ledger_history.reachable_inv [OF assms(1)] assms(3)]
    moves_same by blast

theorem execution_identity_fixed_witness:
  "\<exists>q. map_of (lg_by_intent_id sample_cancelled) ''i-1'' = Some q \<and> rec_execution_id q = ''e-1''"
proof -
  have "map_of (lg_by_intent_id sample_admitted) ''i-1'' = Some (admitted_record sample_admission ''t1'')"
    by (simp add: sample_admitted_value)
  moreover have "(ledger_step sample_services)\<^sup>*\<^sup>* sample_admitted sample_cancelled"
    by (rule r_into_rtranclp) (rule sample_cancel_step)
  ultimately have "\<exists>q. map_of (lg_by_intent_id sample_cancelled) ''i-1'' = Some q \<and>
      rec_execution_id q = rec_execution_id (admitted_record sample_admission ''t1'')"
    using execution_identity_fixed [OF sample_reachable(2)] by blast
  then show ?thesis by (simp add: admitted_record_def sample_admission_def)
qed

section \<open>Durability\<close>




text \<open>
  C22: A commit whose append fails is atomic across a restart. The caller gets the error and the
  ledger is poisoned; if nothing of the line reached the file the restart sees the ledger
  before the commit, if a torn line did the loader refuses the file, and if the whole line
  did the restart sees exactly the ledger after a successful commit.
\<close>

theorem commit_crash_atomic:
  assumes "reachable (ledger_start svc) (ledger_step svc) l" and "durable l"
    and "commit_checks svc a now l = Inr r"
    and "map_of (lg_by_execution_id l) (adm_execution_id a) = None"
    and "json_finite (adm_admission_record a)" and "json_finite (adm_intent a)"
  shows "(\<exists>l'. commit_admission svc a now (AppendFailed reason written) l = (Inl OSError, l') \<and>
            lg_poisoned_reason l' = Some reason \<and> lg_log l' = lg_log l @ written) \<and>
         restart svc l (lg_log l) = Inr (l\<lparr>lg_reservations := []\<rparr>) \<and>
         restart svc l (lg_log l @ [Torn]) = Inl ValueError \<and>
         restart svc l (lg_log l @ [Snapshot (to_dict r)])
           = Inr ((snd (commit_admission svc a now Appended l))\<lparr>lg_reservations := []\<rparr>)"
proof -
  have inv: "ledger_inv svc l" using ledger_history.reachable_inv assms(1) .
  note put = commit_may_put [OF inv assms(3-6)] commit_follows [OF assms(3)]
  have "r = admitted_record a now" using assms(3) by (rule commit_checks_facts)
  with assms(2,3) have new: "snd (commit_admission svc a now Appended l)
      = put_record r (l\<lparr>lg_log := lg_log l @ [Snapshot (to_dict r)]\<rparr>)"
    by (simp add: commit_admission_def persist_or_poison_def durable_def put_record_def
        admitted_record_def)
  have "\<exists>l'. commit_admission svc a now (AppendFailed reason written) l = (Inl OSError, l') \<and>
      lg_poisoned_reason l' = Some reason \<and> lg_log l' = lg_log l @ written"
    using assms(2,3) by (simp add: commit_admission_def persist_or_poison_def durable_def)
  moreover have "restart svc l (lg_log l) = Inr (l\<lparr>lg_reservations := []\<rparr>)"
    using restart_reachable [OF assms(1,2)] by (simp add: restart_def)
  ultimately show ?thesis
    using restart_torn [OF assms(1,2)] restart_appended [OF assms(1,2) put] new by simp
qed

theorem commit_crash_atomic_witness:
  "restart sample_services sample_reserved (lg_log sample_reserved @ [Torn]) = Inl ValueError"
proof -
  have "durable sample_reserved" "map_of (lg_by_execution_id sample_reserved)
      (adm_execution_id sample_admission) = None"
    "json_finite (adm_admission_record sample_admission)" "json_finite (adm_intent sample_admission)"
    by code_simp+
  then show ?thesis
    using commit_crash_atomic [OF sample_reachable(1) _ sample_commit_checks] by blast
qed

text \<open>
  A poisoned ledger is fail-closed: no operation reads or changes its state any more, each
  raises, and it stays poisoned whatever is called.
\<close>

theorem poisoned_ledger_fails_closed:
  assumes "lg_poisoned_reason l = Some reason"
  shows "acquire_pass i d c now expired l = (Inl RuntimeError, l) \<and>
    check_intent i d c l = Inl RuntimeError \<and>
    commit_admission svc (a\<lparr>adm_status := ''ADMITTED''\<rparr>) now outcome l = (Inl RuntimeError, l) \<and>
    (\<exists>e. transition_execution svc t now outcome l = (Inl e, l)) \<and>
    release_reservation i l = l \<and> list_records l = Inl RuntimeError \<and>
    active_count j l = Inl RuntimeError"
  using assms
  by (auto simp: acquire_pass_def check_intent_def commit_admission_def commit_checks_def
      transition_execution_def transition_decision_def release_reservation_def list_records_def
      active_count_def raise_if_poisoned_def ensure_def)

theorem poisoned_ledger_fails_closed_witness:
  "list_records (sample_admitted\<lparr>lg_poisoned_reason := Some ''OSError: disk full''\<rparr>) = Inl RuntimeError"
  using poisoned_ledger_fails_closed
    [of "sample_admitted\<lparr>lg_poisoned_reason := Some ''OSError: disk full''\<rparr>" "''OSError: disk full''"]
  by simp

section \<open>Exactly one owner\<close>

text \<open>
  A reservation is granted exactly when the ledger is not poisoned and neither a committed
  record nor another reservation holds the intent identity or the digest; so a payload can be
  admitted under at most one identity, and a granted reservation is the only one.
\<close>

theorem reservation_exclusive:
  assumes "reachable (ledger_start svc) (ledger_step svc) l"
  shows "fst (acquire_pass i d c now expired l) = Inr Reserved \<longleftrightarrow>
    lg_poisoned_reason l = None \<and>
    map_of (lg_by_intent_id l) i = None \<and> map_of (lg_reservations l) i = None \<and>
    (\<forall>j r. map_of (lg_by_intent_id l) j = Some r \<longrightarrow> rec_intent_digest r \<noteq> d) \<and>
    (\<forall>j s. map_of (lg_reservations l) j = Some s \<longrightarrow> res_intent_digest s \<noteq> d)"
proof -
  have inv: "ledger_inv svc l" using ledger_history.reachable_inv assms .
  note agree = ledger_inv_distinct_reservations(3) [OF inv]
    and disj = ledger_inv_distinct_reservations(2) [OF inv]
    and dist = ledger_inv_distinct_reservations(1) [OF inv]
  have digest: "(\<forall>j r. map_of (lg_by_intent_id l) j = Some r \<longrightarrow> rec_intent_digest r \<noteq> d)
      \<longleftrightarrow> map_of (lg_by_digest l) d = None"
    using indexes_agreeD(2,4) [OF agree] by (metis not_None_eq option.distinct(1))
  have reserved: "(j, s) \<in> set (lg_reservations l) \<longleftrightarrow> map_of (lg_reservations l) j = Some s" for j s
    using dist by (simp add: map_of_eq_Some_iff)
  have own: "map_of (lg_by_intent_id l) i = None \<Longrightarrow> map_of (lg_by_digest l) d \<noteq> Some i"
    using indexes_agreeD(4) [OF agree] by fastforce
  show ?thesis
    unfolding digest
    using own reserved reservations_disjointD(1) [OF disj]
    by (fastforce simp: acquire_pass_def raise_if_poisoned_def ensure_def split: option.splits if_splits)
qed

theorem reservation_exclusive_witness:
  "fst (acquire_pass ''i-2'' ''d-1'' ''bob'' ''t3'' False sample_admitted) \<noteq> Inr Reserved"
proof -
  have "map_of (lg_by_intent_id sample_admitted) ''i-1'' = Some (admitted_record sample_admission ''t1'')"
    "rec_intent_digest (admitted_record sample_admission ''t1'') = ''d-1''"
    by (simp add: sample_admitted_value, simp add: admitted_record_def sample_admission_def)
  then show ?thesis
    using reservation_exclusive [OF sample_reachable(2), of "''i-2''" "''d-1''" "''bob''" "''t3''" False]
    by blast
qed

text \<open>
  C39: Waiting for an identical in-flight submission ends: as soon as one of the waits finds the
  deadline passed, \<open>acquire_or_check\<close> has returned a record, a reservation or an error, whatever
  the other threads do to the ledger in between.
\<close>

theorem acquire_returns_by_deadline:
  assumes "(True, others) \<in> set schedule"
  shows "\<exists>res l'. acquire_or_check i d c now schedule l = Some (res, l')"
  using assms
proof (induction schedule arbitrary: l)
  case (Cons w schedule)
  obtain expired step where w: "w = (expired, step)" by (cases w)
  obtain res l' where p: "acquire_pass i d c now expired l = (res, l')"
    by (cases "acquire_pass i d c now expired l")
  show ?case
  proof (cases "res = Inr MustWait")
    case True
    with p have "\<not> expired"
      by (auto simp: acquire_pass_def split: sum.splits option.splits if_splits)
    with Cons w have "(True, others) \<in> set schedule" by auto
    with Cons.IH w p True show ?thesis by simp
  next
    case False
    with w p show ?thesis by (auto split: sum.splits acquire_outcome.splits)
  qed
qed simp

theorem acquire_returns_by_deadline_witness:
  "\<exists>res l'. acquire_or_check ''i-1'' ''d-1'' ''alice'' ''t3'' [(False, id), (True, id)] sample_reserved
     = Some (res, l')"
  by (rule acquire_returns_by_deadline [where others = id]) simp

text \<open>
  C36: A result that arrives after an execution is terminal is ignored: \<open>update_execution\<close> returns
  the terminal record unchanged, writes nothing and leaves the ledger as it is, even when the
  late result carries a receipt or an error.
\<close>

theorem late_result_ignored:
  assumes "lg_poisoned_reason l = None" and "get_by_execution_id (tr_execution_id t) l = Some r"
    and "rec_status r \<in> set TERMINAL_STATUSES" and "tr_status t \<in> set KNOWN_STATUSES"
  shows "update_execution svc t now outcome l = (Inr r, l)"
proof -
  let ?t = "t\<lparr>tr_expected_statuses := NONTERMINAL_STATUSES @ [tr_status t]\<rparr>"
  have "set (NONTERMINAL_STATUSES @ [tr_status t]) \<subseteq> set KNOWN_STATUSES"
    using assms(4) by (auto simp: KNOWN_STATUSES_def)
  then have "transition_decision svc ?t now l = Inr None \<or>
      transition_decision svc ?t now l = Inr (Some (False, r))"
    using assms
    by (auto simp: transition_decision_def raise_if_poisoned_def get_by_execution_id_def
        no_artifacts_def split: option.splits if_splits)
  then show ?thesis
    using assms(2) by (auto simp: update_execution_def transition_execution_def)
qed

theorem late_result_ignored_witness:
  "update_execution sample_services sample_finish ''t3'' Appended sample_cancelled
     = (Inr (the (get_by_execution_id ''e-1'' sample_cancelled)), sample_cancelled)"
proof -
  have "lg_poisoned_reason sample_cancelled = None"
    "get_by_execution_id (tr_execution_id sample_finish) sample_cancelled
       = Some (the (get_by_execution_id ''e-1'' sample_cancelled))"
    "rec_status (the (get_by_execution_id ''e-1'' sample_cancelled)) \<in> set TERMINAL_STATUSES"
    "tr_status sample_finish \<in> set KNOWN_STATUSES"
    by code_simp+
  then show ?thesis by (rule late_result_ignored)
qed

text \<open>
  C3: The concurrency limit holds under every interleaving of gates. If the executions that are
  nonterminal at start do not exceed the limit and every commit is preceded by a comparison of
  its own reservation's \<open>active_count\<close> with the limit, then there are never more nonterminal
  executions than the limit, although the comparison and the commit are two critical sections.
\<close>

theorem concurrency_limit_respected:
  assumes "reachable (gated_start svc limit) (gated_step svc limit) (l, G)"
  shows "nonterminal_count l \<le> limit"
  using gated.reachable_inv [OF assms] by (simp add: gated_inv_def)

theorem concurrency_limit_respected_witness: "nonterminal_count sample_admitted \<le> 1"
proof -
  have start: "reachable (gated_start sample_services 1) (gated_step sample_services 1) (sample_start, {})"
  proof (rule reachable.start)
    have "nonterminal_count sample_start = 0" by code_simp
    then show "gated_start sample_services 1 (sample_start, {})"
      using sample_start_init by (auto simp: gated_start_def ledger_start_def)
  qed
  have "gated_step sample_services 1 (sample_start, {}) (sample_reserved, {})"
    unfolding sample_reserved_def by (rule gated_step.acquire, rule prod.collapse [symmetric])
  with start have r: "reachable (gated_start sample_services 1) (gated_step sample_services 1)
      (sample_reserved, {})" by (rule reachable.step)
  have "active_count (Some ''i-1'') sample_reserved = Inr 0" by code_simp
  then have "gated_step sample_services 1 (sample_reserved, {}) (sample_reserved, {''i-1''})"
    by (rule gated_step.grant) simp
  with r have g: "reachable (gated_start sample_services 1) (gated_step sample_services 1)
      (sample_reserved, {''i-1''})" by (rule reachable.step)
  have facts: "adm_intent_id sample_admission = ''i-1''"
    "map_of (lg_by_execution_id sample_reserved) (adm_execution_id sample_admission) = None"
    "json_finite (adm_admission_record sample_admission)" "json_finite (adm_intent sample_admission)"
    by code_simp+
  let ?c = "commit_admission sample_services sample_admission ''t1'' Appended sample_reserved"
  have "gated_step sample_services 1 (sample_reserved, {''i-1''}) (sample_admitted,
      case fst ?c of Inr r \<Rightarrow> {''i-1''} - {adm_intent_id sample_admission} | Inl e \<Rightarrow> {''i-1''})"
    unfolding sample_admitted_def
    by (rule gated_step.commit [OF _ prod.collapse [symmetric] facts(2-4)]) (simp add: facts(1))
  with g show ?thesis by (rule concurrency_limit_respected [OF reachable.step])
qed

section \<open>Records\<close>

text \<open>
  A record survives serialisation: reading the JSON form of any record that the snapshot
  schema accepts gives the record back, field for field.
\<close>

theorem ledger_record_round_trip:
  assumes "validate_snapshot_schema (to_dict r) = Inr data"
  shows "from_dict (to_dict r) = Inr r"
  using assms by (rule from_dict_to_dict)

theorem ledger_record_round_trip_witness:
  "from_dict (to_dict sample_completed_record) = Inr sample_completed_record"
  using ledger_record_round_trip [OF sample_completed_snapshot(1)] .

text \<open>
  C23: In every reachable ledger a completed execution that is not a dataset materialisation has a
  receipt that the lineage schema accepts, whose recorded digest is the digest of its canonical
  bytes and whose provenance names this intent, this digest and this execution; it has no error.
\<close>

theorem completed_receipt_bound:
  assumes "reachable (ledger_start svc) (ledger_step svc) l"
    and "map_of (lg_by_intent_id l) i = Some r" and "rec_status r = ''COMPLETED''"
    and "rec_operation r \<noteq> JStr ''MATERIALIZE_DATASET''"
  shows "\<exists>bytes provenance.
    canonicalize_jcs (rec_terminal_receipt r) = Inr bytes \<and>
    rec_receipt_digest r = JStr (sha256_digest (svc_sha svc) bytes) \<and>
    svc_schema svc ''receipt-lineage'' (rec_terminal_receipt r) \<and>
    getitem (rec_terminal_receipt r) ''provenance'' = Inr (JObj provenance) \<and>
    obj_get provenance ''intent_id'' = JStr i \<and>
    obj_get provenance ''intent_digest'' = JStr (rec_intent_digest r) \<and>
    obj_get provenance ''execution_id'' = JStr (rec_execution_id r) \<and> rec_error r = JNull"
proof -
  have inv: "ledger_inv svc l" using ledger_history.reachable_inv assms(1) .
  have i: "rec_intent_id r = i"
    using indexes_agreeD(1) [OF ledger_inv_distinct_reservations(3) [OF inv] assms(2)] .
  let ?p = "lg_expected_producer_commit l"
  from inv assms(2) have ok: "record_ok svc ?p r"
    unfolding ledger_inv_def records_ok_def by blast
  then obtain admission where "rec_admission_record r = JObj admission"
    by (auto simp: record_ok_def is_obj_iff dest!: snapshot_facts(5))
  moreover from ok have "validate_terminal_invariants svc r ?p = Inr ()" by (simp add: record_ok_def)
  with assms(3,4) have "rec_error r = JNull" "validate_completed_receipt svc r ?p = Inr ()"
    by (auto simp: validate_terminal_invariants_def NONTERMINAL_STATUSES_def split: if_splits)
  ultimately show ?thesis
    by (auto simp: validate_completed_receipt_def exn_simps expected_lineage_def lineage_check_def i)
qed

theorem completed_receipt_bound_witness:
  "rec_receipt_digest sample_completed_record
     = JStr (sha256_digest (svc_sha sample_services) (json_text (order_keys sample_receipt)))"
proof -
  have "rec_status sample_completed_record = ''COMPLETED''"
    "rec_operation sample_completed_record \<noteq> JStr ''MATERIALIZE_DATASET''"
    "rec_terminal_receipt sample_completed_record = sample_receipt"
    by (simp_all add: sample_completed_record_def admitted_record_def sample_admission_def)
  then show ?thesis
    using completed_receipt_bound [OF sample_completed_reachable sample_completed_value]
    by (auto simp: canonicalize_jcs_eq split: if_splits)
qed

end
