(* ===== verification/Auth.thy ===== *)
theory Auth
  imports Schema
begin

text \<open>
  Caller authentication and role policy, \<open>deltacontroller/auth.py\<close>, and the token
  authenticator of \<open>deltacontroller/runtime_config.py\<close>. Credentials are a JSON value, \<open>JNull\<close>
  for \<open>None\<close>. The locale \<open>authentication_port\<close> is the contract of the protocol class
  \<open>AuthenticationPort\<close>: an accepted caller is one of the configured subjects, and what a
  caller claims about itself besides the lookup key has no influence.
\<close>

record subject =
  subject_id :: string
  authenticated_via :: string
  effective_roles :: "string list"

definition subject_to_dict :: "subject \<Rightarrow> json" where
  "subject_to_dict s =
     JObj [(''subject_id'', JStr (subject_id s)),
           (''authenticated_via'', JStr (authenticated_via s)),
           (''effective_roles'', JArr (map JStr (effective_roles s)))]"

text \<open>
  \<open>d.get(v)\<close> of a dict with string keys for an arbitrary value \<open>v\<close>: a list or a dict is not
  hashable, any other value that is not a string is not a key.
\<close>

fun hash_get :: "(string, 'v) dict \<Rightarrow> json \<Rightarrow> 'v option result" where
  "hash_get d (JStr s) = Inr (map_of d s)"
| "hash_get d (JArr _) = Inl TypeError"
| "hash_get d (JObj _) = Inl TypeError"
| "hash_get d _ = Inr None"

fun hash_in :: "string list \<Rightarrow> json \<Rightarrow> bool result" where
  "hash_in xs (JStr s) = Inr (s \<in> set xs)"
| "hash_in xs (JArr _) = Inl TypeError"
| "hash_in xs (JObj _) = Inl TypeError"
| "hash_in xs _ = Inr False"

lemma hash_get_Some [exn_simps]: "hash_get d v = Inr (Some x) \<longleftrightarrow> (\<exists>s. v = JStr s \<and> map_of d s = Some x)"
  by (cases v) auto

lemma hash_in_True [exn_simps]: "hash_in xs v = Inr True \<longleftrightarrow> (\<exists>s. v = JStr s \<and> s \<in> set xs)"
  by (cases v) auto

section \<open>StaticAuthenticationPort\<close>

record static_port =
  token_map :: "(string, subject) dict"
  allow_local_peer :: bool
  peer_subjects :: "(string, subject) dict"

definition require_via :: "string \<Rightarrow> subject option \<Rightarrow> subject result" where
  "require_via via found =
     (case found of
        None \<Rightarrow> Inl AuthenticationFailedError
      | Some s \<Rightarrow>
          (if authenticated_via s \<noteq> via then Inl AuthenticationFailedError else Inr s))"

definition static_authenticate :: "static_port \<Rightarrow> json \<Rightarrow> subject result" where
  "static_authenticate port credentials =
     (if \<not> truthy credentials then Inl AuthenticationRequiredError
      else bindE (dict_get credentials ''type'') (\<lambda>auth_type.
        if auth_type = JStr ''TOKEN'' then
          bindE (dict_get credentials ''token'') (\<lambda>token.
            if \<not> truthy token then Inl AuthenticationFailedError
            else bindE (hash_get (token_map port) token) (\<lambda>found.
              case found of None \<Rightarrow> Inl AuthenticationFailedError | Some s \<Rightarrow> Inr s))
        else if auth_type = JStr ''LOCAL_PEER_CREDENTIAL'' then
          (if \<not> allow_local_peer port then Inl AuthenticationFailedError
           else bindE (dict_get credentials ''subject_id'') (\<lambda>peer_id.
             require_via ''LOCAL_PEER_CREDENTIAL''
               (case str_opt peer_id of Some p \<Rightarrow> map_of (peer_subjects port) p | None \<Rightarrow> None)))
        else if auth_type = JStr ''MTLS'' then
          bindE (dict_get credentials ''client_cn'') (\<lambda>cert_cn.
            if \<not> truthy cert_cn then Inl AuthenticationFailedError
            else bindE (hash_get (peer_subjects port) cert_cn) (require_via ''MTLS''))
        else Inl AuthenticationFailedError))"

section \<open>HashedTokenAuthenticationPort\<close>

definition init_hashed_port :: "(string, subject) dict \<Rightarrow> (string, subject) dict result" where
  "init_hashed_port subjects =
     bindE (ensure (subjects \<noteq> []) ValueError) (\<lambda>_.
     bindE (forE (\<lambda>(fingerprint, _). ensure (fullmatch_hex 64 fingerprint) ValueError) subjects) (\<lambda>_.
     Inr subjects))"

fun str_list :: "json list \<Rightarrow> string list option" where
  "str_list [] = Some []"
| "str_list (JStr s # vs) = map_option (Cons s) (str_list vs)"
| "str_list (_ # vs) = None"

definition token_entry :: "json \<Rightarrow> (string \<times> subject) result" where
  "token_entry entry =
     (case entry of
        JObj kvs \<Rightarrow>
          (if set (map fst kvs) \<noteq> {''token_sha256'', ''subject_id'', ''effective_roles''}
           then Inl ValueError
           else (case (obj_get kvs ''token_sha256'', obj_get kvs ''subject_id'',
                       obj_get kvs ''effective_roles'') of
                   (JStr fingerprint, JStr sid, JArr roles) \<Rightarrow>
                     (if sid = [] \<or> roles = [] then Inl ValueError
                      else (case str_list roles of
                              None \<Rightarrow> Inl ValueError
                            | Some rs \<Rightarrow>
                                Inr (fingerprint, \<lparr>subject_id = sid, authenticated_via = ''TOKEN'',
                                                  effective_roles = rs\<rparr>)))
                 | _ \<Rightarrow> Inl ValueError))
      | _ \<Rightarrow> Inl ValueError)"

fun token_entries :: "json list \<Rightarrow> (string, subject) dict \<Rightarrow> (string, subject) dict result" where
  "token_entries [] subjects = Inr subjects"
| "token_entries (entry # entries) subjects =
     bindE (token_entry entry) (\<lambda>(fingerprint, s).
     if map_of subjects fingerprint \<noteq> None then Inl ValueError
     else token_entries entries (AList.update fingerprint s subjects))"

text \<open>\<open>from_file\<close>, given what \<open>json.loads\<close> returns for the content of the file.\<close>

definition hashed_port_from_document :: "json \<Rightarrow> (string, subject) dict result" where
  "hashed_port_from_document document =
     (case document of
        JObj kvs \<Rightarrow>
          (if set (map fst kvs) \<noteq> {''schema_version'', ''token_subjects''} then Inl ValueError
           else if obj_get kvs ''schema_version'' \<noteq> JStr ''1.0.0'' then Inl ValueError
           else (case obj_get kvs ''token_subjects'' of
                   JArr entries \<Rightarrow>
                     (if entries = [] then Inl ValueError
                      else bindE (token_entries entries []) init_hashed_port)
                 | _ \<Rightarrow> Inl ValueError))
      | _ \<Rightarrow> Inl ValueError)"

definition hashed_authenticate ::
  "(string \<Rightarrow> string) \<Rightarrow> (string, subject) dict \<Rightarrow> json \<Rightarrow> subject result" where
  "hashed_authenticate sha subjects credentials =
     (if \<not> truthy credentials then Inl AuthenticationRequiredError
      else bindE (dict_get credentials ''type'') (\<lambda>t.
        if t \<noteq> JStr ''TOKEN'' then Inl AuthenticationFailedError
        else bindE (dict_get credentials ''token'') (\<lambda>token.
          case str_opt token of
            Some tok \<Rightarrow>
              (if tok = [] then Inl AuthenticationFailedError
               else (case map_of subjects (sha tok) of
                       None \<Rightarrow> Inl AuthenticationFailedError | Some s \<Rightarrow> Inr s))
          | None \<Rightarrow> Inl AuthenticationFailedError)))"

section \<open>PolicyEngine\<close>

definition REQUIRED_ROLES_BY_OPERATION :: "(string \<times> string list) list" where
  "REQUIRED_ROLES_BY_OPERATION =
     [(''TRAIN_TICKET'', [''OPERATOR'']),
      (''EVALUATE_CHECKPOINT'', [''OPERATOR'', ''RESEARCHER'']),
      (''MATERIALIZE_DATASET'', [''OPERATOR'', ''RESEARCHER''])]"

text \<open>\<open>str(operation)\<close> of a value that is not a string is never the name of an operation.\<close>

definition evaluate_admission :: "subject \<Rightarrow> (string \<times> json) list \<Rightarrow> unit result" where
  "evaluate_admission s intent =
     (case (case str_opt (obj_get intent ''operation'') of
              Some operation \<Rightarrow> map_of REQUIRED_ROLES_BY_OPERATION operation | None \<Rightarrow> None) of
        None \<Rightarrow> Inl PolicyDeniedError
      | Some required \<Rightarrow>
          ensure (set (effective_roles s) \<inter> set required \<noteq> {}) RoleForbiddenError)"

section \<open>The contract of an authentication port\<close>

locale authentication_port =
  fixes authenticate :: "json \<Rightarrow> subject result"
    and trusted :: "subject set"
  assumes accepted_trusted: "authenticate c = Inr s \<Longrightarrow> s \<in> trusted"
    and nothing_rejected: "\<not> truthy c \<Longrightarrow> authenticate c = Inl AuthenticationRequiredError"
    and only_key_read:
      "(\<And>k. k \<in> {''type'', ''token'', ''subject_id'', ''client_cn''} \<Longrightarrow> obj_get a k = obj_get b k) \<Longrightarrow>
       a \<noteq> [] \<Longrightarrow> b \<noteq> [] \<Longrightarrow> authenticate (JObj a) = authenticate (JObj b)"
begin

text \<open>A caller cannot add a role: an extra field named like one changes nothing.\<close>

lemma claimed_roles_ignored:
  "k \<notin> {''type'', ''token'', ''subject_id'', ''client_cn''} \<Longrightarrow> a \<noteq> [] \<Longrightarrow>
     authenticate (JObj (a @ [(k, v)])) = authenticate (JObj a)"
  by (rule only_key_read) (auto simp: obj_get_def map_add_def split: option.splits)

lemma admitted_has_configured_role:
  assumes "authenticate c = Inr s" and "evaluate_admission s intent = Inr ()"
  shows "\<exists>t\<in>trusted. \<exists>operation required. obj_get intent ''operation'' = JStr operation \<and>
    map_of REQUIRED_ROLES_BY_OPERATION operation = Some required \<and>
    set (effective_roles t) \<inter> set required \<noteq> {} \<and> subject_id t = subject_id s"
  using accepted_trusted [OF assms(1)] assms(2)
  by (auto simp: evaluate_admission_def split: option.splits)

end

lemma require_via_Inr [exn_simps]:
  "require_via via found = Inr s \<longleftrightarrow> found = Some s \<and> authenticated_via s = via"
  by (auto simp: require_via_def split: option.splits)

lemma static_authenticate_trusted:
  "static_authenticate port c = Inr s \<Longrightarrow>
     s \<in> ran (map_of (token_map port)) \<union> ran (map_of (peer_subjects port))"
  by (auto simp: static_authenticate_def exn_simps ran_def split: if_splits option.splits)

lemma hashed_authenticate_trusted:
  "hashed_authenticate sha subjects c = Inr s \<Longrightarrow> s \<in> ran (map_of subjects)"
  by (auto simp: hashed_authenticate_def exn_simps ran_def split: if_splits option.splits)

interpretation static: authentication_port "static_authenticate port"
  "ran (map_of (token_map port)) \<union> ran (map_of (peer_subjects port))" for port
proof
  fix a b :: "(string \<times> json) list"
  assume "\<And>k. k \<in> {''type'', ''token'', ''subject_id'', ''client_cn''} \<Longrightarrow> obj_get a k = obj_get b k"
    and "a \<noteq> []" and "b \<noteq> []"
  then show "static_authenticate port (JObj a) = static_authenticate port (JObj b)"
    by (simp add: static_authenticate_def)
qed (use static_authenticate_trusted in \<open>auto simp: static_authenticate_def\<close>)

interpretation hashed: authentication_port "hashed_authenticate sha subjects" "ran (map_of subjects)"
  for sha subjects
proof
  fix a b :: "(string \<times> json) list"
  assume "\<And>k. k \<in> {''type'', ''token'', ''subject_id'', ''client_cn''} \<Longrightarrow> obj_get a k = obj_get b k"
    and "a \<noteq> []" and "b \<noteq> []"
  then show "hashed_authenticate sha subjects (JObj a) = hashed_authenticate sha subjects (JObj b)"
    by (simp add: hashed_authenticate_def)
qed (use hashed_authenticate_trusted in \<open>auto simp: hashed_authenticate_def\<close>)

end
