(* ===== verification/Catalog_Quota.thy ===== *)
theory Catalog_Quota
  imports Auth
begin

text \<open>
  The frozen catalog and capability matrix (\<open>deltacontroller/catalog.py\<close>) and the resource
  grants (\<open>deltacontroller/quota.py\<close>).
\<close>

section \<open>CatalogValidator\<close>

definition FROZEN_CATALOG_REF :: string where
  "FROZEN_CATALOG_REF = ''670b58f6458fe84620f4f9f46401f855d04ae05d''"

definition DEFAULT_KNOWN_PLUGINS :: "string list" where
  "DEFAULT_KNOWN_PLUGINS = [''tabular-10gene-phenotype-v1'']"

definition DEFAULT_KNOWN_DATASETS :: "string list" where
  "DEFAULT_KNOWN_DATASETS = [''synthetic-10gene-cohort-v1'']"

definition ALLOWED_CAPABILITY_MATRIX :: "(string \<times> string list) list" where
  "ALLOWED_CAPABILITY_MATRIX =
     [(''TRAIN_TICKET'', [''PLUGIN_BOUNDARY'']),
      (''EVALUATE_CHECKPOINT'', [''PLUGIN_BOUNDARY'', ''MODEL_DATASET_BINDING_ONLY'']),
      (''MATERIALIZE_DATASET'', [''PLUGIN_BOUNDARY'', ''MODEL_DATASET_BINDING_ONLY''])]"

record catalog_validator =
  catalog_backend_ref :: string
  known_plugins :: "string list"
  known_datasets :: "string list"
  capability_matrix :: "(string \<times> string list) list"

definition init_catalog ::
  "string \<Rightarrow> string list option \<Rightarrow> string list option \<Rightarrow> (string \<times> string list) list option \<Rightarrow>
   catalog_validator" where
  "init_catalog ref plugins datasets matrix =
     \<lparr>catalog_backend_ref = ref,
      known_plugins = (case plugins of Some p \<Rightarrow> p | None \<Rightarrow> DEFAULT_KNOWN_PLUGINS),
      known_datasets = (case datasets of Some d \<Rightarrow> d | None \<Rightarrow> DEFAULT_KNOWN_DATASETS),
      capability_matrix =
        (case matrix of
           Some m \<Rightarrow> if m = [] then ALLOWED_CAPABILITY_MATRIX else m
         | None \<Rightarrow> ALLOWED_CAPABILITY_MATRIX)\<rparr>"

definition catalog_validate :: "catalog_validator \<Rightarrow> json \<Rightarrow> json \<Rightarrow> unit result" where
  "catalog_validate c workload operation =
     bindE (dict_get workload ''catalog_backend_ref'') (\<lambda>declared_ref.
     bindE (ensure (py_eq declared_ref (JStr (catalog_backend_ref c))) CatalogRefMismatchError) (\<lambda>_.
     bindE (dict_get workload ''model_plugin_id'') (\<lambda>plugin.
     bindE (hash_in (known_plugins c) plugin) (\<lambda>known_plugin.
     bindE (ensure known_plugin UnknownPluginIdError) (\<lambda>_.
     bindE (dict_get workload ''dataset_id'') (\<lambda>dataset.
     bindE (hash_in (known_datasets c) dataset) (\<lambda>known_dataset.
     bindE (ensure known_dataset UnknownDatasetIdError) (\<lambda>_.
     bindE (hash_get (capability_matrix c) operation) (\<lambda>scopes.
     (case scopes of
        None \<Rightarrow> Inl OperationScopeUnsupportedError
      | Some allowed \<Rightarrow>
          bindE (dict_get workload ''requested_scope'') (\<lambda>scope.
          bindE (hash_in allowed scope) (\<lambda>ok. ensure ok OperationScopeUnsupportedError))))))))))))"

text \<open>Exactly the workloads of the catalog pass.\<close>

lemma catalog_validate_iff:
  "catalog_validate c workload operation = Inr () \<longleftrightarrow>
     (\<exists>w plugin dataset op scope allowed.
        workload = JObj w \<and> obj_get w ''catalog_backend_ref'' = JStr (catalog_backend_ref c) \<and>
        obj_get w ''model_plugin_id'' = JStr plugin \<and> plugin \<in> set (known_plugins c) \<and>
        obj_get w ''dataset_id'' = JStr dataset \<and> dataset \<in> set (known_datasets c) \<and>
        operation = JStr op \<and> map_of (capability_matrix c) op = Some allowed \<and>
        obj_get w ''requested_scope'' = JStr scope \<and> scope \<in> set allowed)"
  by (fastforce simp: catalog_validate_def exn_simps split: option.splits)

section \<open>QuotaManager\<close>

definition CEILING_MAX_MEMORY_BYTES :: int where
  "CEILING_MAX_MEMORY_BYTES = 8 * 1024 * 1024 * 1024"

record resource_grants =
  max_memory_bytes :: int
  timeout_seconds :: json
  allow_downloads :: bool

definition grants_to_dict :: "resource_grants \<Rightarrow> json" where
  "grants_to_dict g =
     JObj [(''max_memory_bytes'', JInt (max_memory_bytes g)),
           (''timeout_seconds'', timeout_seconds g),
           (''allow_downloads'', JBool (allow_downloads g))]"

record quota_manager =
  max_concurrency :: int
  default_memory_bytes :: int
  ceiling_memory_bytes :: int
  default_timeout_seconds :: int
  max_timeout_seconds :: int
  policy_allow_downloads :: bool

definition default_quota_manager :: quota_manager where
  "default_quota_manager =
     \<lparr>max_concurrency = 4, default_memory_bytes = 2 * 1024 * 1024 * 1024,
      ceiling_memory_bytes = CEILING_MAX_MEMORY_BYTES, default_timeout_seconds = 900,
      max_timeout_seconds = 3600, policy_allow_downloads = False\<rparr>"

text \<open>
  The comparison \<open>v > n\<close> of a JSON value with an integer: a boolean counts as 0 or 1, a float
  is compared through the decimal value of its \<open>repr\<close>, another value has no order.
\<close>

fun exceeds :: "json \<Rightarrow> int \<Rightarrow> bool result" where
  "exceeds (JInt i) n = Inr (i > n)"
| "exceeds (JBool b) n = Inr ((if b then 1 else 0) > n)"
| "exceeds (JFloat t) n = Inr
     (if t = ''inf'' then True else if \<not> float_finite t then False
      else (let (neg, ds, e) = float_parts t; m = (if neg then - 1 else 1) * int (text_nat ds)
            in if 0 \<le> e then m * 10 ^ nat e > n else m > n * 10 ^ nat (- e)))"
| "exceeds _ n = Inl TypeError"

definition evaluate_grants ::
  "quota_manager \<Rightarrow> (string \<times> json) list \<Rightarrow> nat \<Rightarrow> resource_grants result" where
  "evaluate_grants q intent current_active_count =
     bindE (ensure (\<not> (default_memory_bytes q < 1 \<or>
                       default_memory_bytes q > ceiling_memory_bytes q \<or>
                       ceiling_memory_bytes q > CEILING_MAX_MEMORY_BYTES)) QuotaExceededError) (\<lambda>_.
     bindE (ensure (\<not> (int current_active_count \<ge> max_concurrency q)) QuotaExceededError) (\<lambda>_.
     bindE (dict_get (obj_get_default intent ''execution_constraints'' (JObj [])) ''timeout_seconds'')
       (\<lambda>requested.
     bindE (if requested = JNull then Inr (JInt (default_timeout_seconds q))
            else bindE (exceeds requested (max_timeout_seconds q)) (\<lambda>too_long.
                 bindE (ensure (\<not> too_long) QuotaExceededError) (\<lambda>_. Inr requested))) (\<lambda>timeout.
     Inr \<lparr>max_memory_bytes = default_memory_bytes q, timeout_seconds = timeout,
          allow_downloads = policy_allow_downloads q\<rparr>))))"

lemma evaluate_grants_bounds:
  assumes "evaluate_grants q intent n = Inr g"
  shows "1 \<le> max_memory_bytes g" and "max_memory_bytes g \<le> CEILING_MAX_MEMORY_BYTES"
    and "int n < max_concurrency q" and "allow_downloads g = policy_allow_downloads q"
    and "timeout_seconds g = JInt (default_timeout_seconds q) \<or>
         exceeds (timeout_seconds g) (max_timeout_seconds q) = Inr False"
  using assms by (auto simp: evaluate_grants_def exn_simps split: if_splits)

end
