(* ===== verification/Ingress.thy ===== *)
theory Ingress
  imports Catalog_Quota
begin

text \<open>
  Bounded ingress parsing, \<open>deltacontroller/ingress.py\<close>, and the status read model,
  \<open>deltacontroller/status.py\<close>. A request body is bytes, text, a dict that is already parsed,
  or something else; text is the list of its UTF-8 bytes.
\<close>

definition MAX_INGRESS_BYTES :: nat where
  "MAX_INGRESS_BYTES = 10 * 1024 * 1024"

definition MAX_JSON_DEPTH :: nat where
  "MAX_JSON_DEPTH = 32"

function check_depth :: "json \<Rightarrow> nat \<Rightarrow> unit result" where
  "check_depth v depth =
     (if depth > MAX_JSON_DEPTH then Inl SchemaValidationError
      else (case v of
              JObj kvs \<Rightarrow> forE (\<lambda>(k, item). check_depth item (depth + 1)) kvs
            | JArr xs \<Rightarrow> forE (\<lambda>item. check_depth item (depth + 1)) xs
            | _ \<Rightarrow> Inr ()))"
  by pat_completeness auto
termination
  by (relation "measure (\<lambda>(v, depth). Suc MAX_JSON_DEPTH - depth)") auto

declare check_depth.simps [simp del]

text \<open>
  The UTF-8 decoder's check (RFC 3629): no overlong form, no surrogate, nothing above
  U+10FFFF. Which bytes may follow a lead byte is given by \<open>continuation\<close>.
\<close>

definition continuation :: "nat \<Rightarrow> (nat \<times> nat) list option" where
  "continuation b =
     (if b < 128 then Some []
      else if 194 \<le> b \<and> b \<le> 223 then Some [(128, 191)]
      else if b = 224 then Some [(160, 191), (128, 191)]
      else if b = 237 then Some [(128, 159), (128, 191)]
      else if 225 \<le> b \<and> b \<le> 239 then Some [(128, 191), (128, 191)]
      else if b = 240 then Some [(144, 191), (128, 191), (128, 191)]
      else if 241 \<le> b \<and> b \<le> 243 then Some [(128, 191), (128, 191), (128, 191)]
      else if b = 244 then Some [(128, 143), (128, 191), (128, 191)]
      else None)"

fun follow :: "(nat \<times> nat) list \<Rightarrow> nat list \<Rightarrow> nat list option" where
  "follow [] bs = Some bs"
| "follow ((lo, hi) # rest) [] = None"
| "follow ((lo, hi) # rest) (b # bs) = (if lo \<le> b \<and> b \<le> hi then follow rest bs else None)"

lemma follow_length: "follow ranges bs = Some cs \<Longrightarrow> length cs \<le> length bs"
  by (induction ranges bs rule: follow.induct) (auto split: if_splits)

function utf8_valid :: "nat list \<Rightarrow> bool" where
  "utf8_valid [] = True"
| "utf8_valid (b # bs) =
     (case continuation b of
        None \<Rightarrow> False
      | Some ranges \<Rightarrow> (case follow ranges bs of None \<Rightarrow> False | Some cs \<Rightarrow> utf8_valid cs))"
  by pat_completeness auto
termination
  by (relation "measure length") (auto dest: follow_length simp: less_Suc_eq_le)

datatype raw_input = RawBytes string | RawStr string | RawDict "(string \<times> json) list" | RawOther

definition load_json :: "services \<Rightarrow> string \<Rightarrow> json result" where
  "load_json svc text =
     (case svc_loads svc text of None \<Rightarrow> Inl SchemaValidationError | Some v \<Rightarrow> Inr v)"

definition decode_input :: "services \<Rightarrow> nat \<Rightarrow> raw_input \<Rightarrow> json result" where
  "decode_input svc max_bytes raw =
     (case raw of
        RawBytes bytes \<Rightarrow>
          bindE (ensure (length bytes \<le> max_bytes) SchemaValidationError) (\<lambda>_.
          bindE (ensure (utf8_valid (map of_char bytes)) SchemaValidationError) (\<lambda>_.
          load_json svc bytes))
      | RawStr text \<Rightarrow>
          bindE (ensure (length text \<le> max_bytes) SchemaValidationError) (\<lambda>_.
          load_json svc text)
      | RawDict kvs \<Rightarrow> Inr (JObj kvs)
      | RawOther \<Rightarrow> Inl SchemaValidationError)"

definition check_expiry :: "services \<Rightarrow> json \<Rightarrow> instant \<Rightarrow> unit result" where
  "check_expiry svc expires_at now =
     (if \<not> truthy expires_at then Inr ()
      else (case expires_at of
              JStr text \<Rightarrow>
                (case svc_fromiso svc (replace_z text) of
                   None \<Rightarrow> Inl SchemaValidationError
                 | Some t \<Rightarrow>
                     bindE (instant_le t now) (\<lambda>expired. ensure (\<not> expired) IntentExpiredError))
            | _ \<Rightarrow> Inl SchemaValidationError))"

definition parse_intent ::
  "services \<Rightarrow> nat \<Rightarrow> raw_input \<Rightarrow> instant \<Rightarrow> (string \<times> json) list result" where
  "parse_intent svc max_bytes raw now =
     bindE (decode_input svc max_bytes raw) (\<lambda>value.
     (case value of
        JObj data \<Rightarrow>
          bindE (check_depth (JObj data) 1) (\<lambda>_.
          bindE (schema_validate svc ''execution-intent'' (JObj data)) (\<lambda>_.
          bindE (compute_intent_digest (svc_sha svc) data) (\<lambda>recomputed.
          bindE (ensure (py_eq (JStr recomputed) (obj_get data ''intent_digest''))
                   IntentDigestMismatchError) (\<lambda>_.
          bindE (check_expiry svc (obj_get data ''expires_at'') now) (\<lambda>_.
          Inr data)))))
      | _ \<Rightarrow> Inl SchemaValidationError))"

section \<open>The depth check measures the depth\<close>

lemma check_depth_iff:
  "check_depth v depth = Inr () \<longleftrightarrow> depth + json_depth v \<le> Suc MAX_JSON_DEPTH"
proof (induction v depth rule: check_depth.induct)
  case (1 v depth)
  show ?case
  proof (cases "depth > MAX_JSON_DEPTH")
    case True
    moreover have "json_depth v \<ge> 1" by (cases v) auto
    ultimately show ?thesis by (simp add: check_depth.simps [of v])
  next
    case False
    then have bound: "depth + n \<le> MAX_JSON_DEPTH \<longleftrightarrow> n \<le> MAX_JSON_DEPTH - depth" for n
      by auto
    show ?thesis
    proof (cases v)
      case (JArr xs)
      have "check_depth x (Suc depth) = Inr () \<longleftrightarrow> json_depth x \<le> MAX_JSON_DEPTH - depth"
        if "x \<in> set xs" for x
        using 1(1) [OF False JArr that] bound [of "json_depth x"] by simp
      with False JArr show ?thesis
        by (subst check_depth.simps) (auto simp: forE_eq_Inr fold_max_le_iff bound)
    next
      case (JObj kvs)
      have "check_depth x (Suc depth) = Inr () \<longleftrightarrow> json_depth x \<le> MAX_JSON_DEPTH - depth"
        if "(k, x) \<in> set kvs" for k x
        using 1(2) [OF False JObj that refl] bound [of "json_depth x"] by simp
      with False JObj show ?thesis
        by (subst check_depth.simps) (fastforce simp: forE_eq_Inr fold_max_le_iff bound)
    qed (use False in \<open>(subst check_depth.simps, simp)+\<close>)
  qed
qed

section \<open>What passes the ingress\<close>

lemma parse_intent_facts:
  assumes "parse_intent svc max_bytes raw now = Inr data"
  shows "json_depth (JObj data) \<le> MAX_JSON_DEPTH" and "svc_schema svc ''execution-intent'' (JObj data)"
    and "compute_intent_digest (svc_sha svc) data = Inr d \<Longrightarrow> obj_get data ''intent_digest'' = JStr d"
    and "\<exists>d. obj_get data ''intent_digest'' = JStr d \<and> compute_intent_digest (svc_sha svc) data = Inr d"
    and "check_expiry svc (obj_get data ''expires_at'') now = Inr ()"
    and "decode_input svc max_bytes raw = Inr (JObj data)"
proof -
  from assms obtain v where "decode_input svc max_bytes raw = Inr v" and
    f: "(case v of JObj data \<Rightarrow>
          bindE (check_depth (JObj data) 1) (\<lambda>_.
          bindE (schema_validate svc ''execution-intent'' (JObj data)) (\<lambda>_.
          bindE (compute_intent_digest (svc_sha svc) data) (\<lambda>recomputed.
          bindE (ensure (py_eq (JStr recomputed) (obj_get data ''intent_digest''))
                   IntentDigestMismatchError) (\<lambda>_.
          bindE (check_expiry svc (obj_get data ''expires_at'') now) (\<lambda>_.
          Inr data)))))
      | _ \<Rightarrow> Inl SchemaValidationError) = Inr data"
    by (auto simp: parse_intent_def bindE_eq_Inr)
  moreover from f have v: "v = JObj data" by (cases v) (auto simp: exn_simps)
  ultimately show "decode_input svc max_bytes raw = Inr (JObj data)" by simp
  from f v have g: "check_depth (JObj data) 1 = Inr ()" "svc_schema svc ''execution-intent'' (JObj data)"
    "\<exists>d. obj_get data ''intent_digest'' = JStr d \<and> compute_intent_digest (svc_sha svc) data = Inr d"
    "check_expiry svc (obj_get data ''expires_at'') now = Inr ()"
    by (auto simp: exn_simps)
  from g(1) show "json_depth (JObj data) \<le> MAX_JSON_DEPTH"
    unfolding check_depth_iff by (simp del: json_depth.simps)
  from g show "svc_schema svc ''execution-intent'' (JObj data)"
    "\<exists>d. obj_get data ''intent_digest'' = JStr d \<and> compute_intent_digest (svc_sha svc) data = Inr d"
    "compute_intent_digest (svc_sha svc) data = Inr d \<Longrightarrow> obj_get data ''intent_digest'' = JStr d"
    "check_expiry svc (obj_get data ''expires_at'') now = Inr ()" by auto
qed

section \<open>Status read model\<close>

definition VALID_STATES :: "string list" where
  "VALID_STATES =
     [''ADMITTED'', ''QUEUED'', ''RUNNING'', ''COMPLETED'', ''FAILED'', ''TIMED_OUT'', ''CANCELLED'',
      ''STALE_UNAVAILABLE'']"

definition TERMINAL_STATES :: "string list" where
  "TERMINAL_STATES = [''COMPLETED'', ''FAILED'', ''TIMED_OUT'', ''CANCELLED'']"

record status_request =
  st_execution_id :: json
  st_intent_id :: json
  st_intent_digest :: json
  st_admission_id :: json
  st_admission_digest :: json
  st_state :: string
  st_operation :: json
  st_receipt_digest :: json
  st_error :: json
  st_updated_at :: string

definition status_receipt :: "status_request \<Rightarrow> (string \<times> json) list result" where
  "status_receipt q =
     (if st_state q \<noteq> ''COMPLETED'' then Inr []
      else if py_eq (st_operation q) (JStr ''MATERIALIZE_DATASET'') then
        Inr (if truthy (st_receipt_digest q) then [(''receipt_digest'', st_receipt_digest q)] else [])
      else if \<not> truthy (st_receipt_digest q) then Inl ValueError
      else Inr [(''receipt_digest'', st_receipt_digest q)])"

definition status_error :: "status_request \<Rightarrow> (string \<times> json) list result" where
  "status_error q =
     (if st_state q \<notin> {''FAILED'', ''TIMED_OUT'', ''CANCELLED''} then Inr []
      else if \<not> truthy (st_error q) then Inl ValueError
      else Inr [(''error'', st_error q)])"

definition build_execution_status ::
  "services \<Rightarrow> bool \<Rightarrow> status_request \<Rightarrow> string \<Rightarrow> json result" where
  "build_execution_status svc validate q now =
     bindE (ensure (st_state q \<in> set VALID_STATES) ValueError) (\<lambda>_.
     bindE (status_receipt q) (\<lambda>receipt.
     bindE (status_error q) (\<lambda>err.
     (let doc = JObj
        ([(''schema_version'', JStr ''1.0.0''), (''execution_id'', st_execution_id q),
          (''intent_id'', st_intent_id q), (''intent_digest'', st_intent_digest q),
          (''admission_id'', st_admission_id q), (''admission_digest'', st_admission_digest q),
          (''operation'', st_operation q), (''state'', JStr (st_state q)),
          (''updated_at'', JStr (if st_updated_at q = [] then now else st_updated_at q)),
          (''terminal'', JBool (st_state q \<in> set TERMINAL_STATES))] @ receipt @ err)
      in bindE (if validate then schema_validate svc ''execution-status'' doc else Inr ()) (\<lambda>_.
         Inr doc)))))"

end
