(* ===== verification/Audit_Log.thy ===== *)
theory Audit_Log
  imports Ingress
begin

text \<open>
  Audit events and their redaction, \<open>deltacontroller/audit.py\<close>. The substitution of secret
  substrings inside text (three patterns run by Python's \<open>re\<close>) is the argument
  \<open>redact_text\<close>; everything else is translated. A key is compared after case folding and
  after every character other than \<open>[a-z0-9]\<close> is dropped; \<open>FOLDS\<close> lists the code points
  outside ASCII whose case folding contains such a character.
\<close>

definition SENSITIVE_KEYS :: "string list" where
  "SENSITIVE_KEYS =
     [''password'', ''secret'', ''token'', ''private_key'', ''access_token'', ''bearer_token'',
      ''client_secret'', ''authorization'', ''credentials'', ''api_key'', ''private_bytes'',
      ''refresh_token'']"

definition REDACTED_PLACEHOLDER :: string where
  "REDACTED_PLACEHOLDER = ''[REDACTED]''"

definition FOLDS :: "(nat \<times> string) list" where
  "FOLDS =
     [(223, ''ss''), (304, ''i''), (329, ''n''), (383, ''s''), (496, ''j''), (7830, ''h''),
      (7831, ''t''), (7832, ''w''), (7833, ''y''), (7834, ''a''), (7838, ''ss''), (8490, ''k''),
      (64256, ''ff''), (64257, ''fi''), (64258, ''fl''), (64259, ''ffi''), (64260, ''ffl''),
      (64261, ''st''), (64262, ''st'')]"

text \<open>The characters \<open>[a-z0-9]\<close> in the case folding of one code point.\<close>

definition fold_point :: "nat \<Rightarrow> string" where
  "fold_point n =
     (if 65 \<le> n \<and> n \<le> 90 then [char_of (n + 32)]
      else if 97 \<le> n \<and> n \<le> 122 \<or> 48 \<le> n \<and> n \<le> 57 then [char_of n]
      else if n < 128 then []
      else (case map_of FOLDS n of None \<Rightarrow> [] | Some s \<Rightarrow> s))"

definition normalize_key :: "string \<Rightarrow> string" where
  "normalize_key key = concat (map fold_point (utf8_points (map of_char key)))"

definition is_sensitive_key :: "string \<Rightarrow> bool" where
  "is_sensitive_key key \<longleftrightarrow> normalize_key key \<in> set (map normalize_key SENSITIVE_KEYS)"

fun redact_sensitive_data :: "(string \<Rightarrow> string) \<Rightarrow> json \<Rightarrow> json" where
  "redact_sensitive_data redact_text (JObj kvs) =
     JObj (map (\<lambda>(k, v). (k, if is_sensitive_key k then JStr REDACTED_PLACEHOLDER
                              else redact_sensitive_data redact_text v)) kvs)"
| "redact_sensitive_data redact_text (JArr xs) = JArr (map (redact_sensitive_data redact_text) xs)"
| "redact_sensitive_data redact_text (JStr s) = JStr (redact_text s)"
| "redact_sensitive_data redact_text v = v"

definition log_event ::
  "(string \<Rightarrow> string) \<Rightarrow> string \<Rightarrow> string \<Rightarrow> string \<Rightarrow> json \<Rightarrow> json \<Rightarrow> json \<Rightarrow> json" where
  "log_event redact_text now event_type subject details intent_id execution_id =
     JObj [(''timestamp'', JStr now), (''event_type'', JStr event_type),
           (''subject_id'', JStr (if subject = [] then ''ANONYMOUS'' else subject)),
           (''intent_id'', intent_id), (''execution_id'', execution_id),
           (''details'', redact_sensitive_data redact_text details)]"

section \<open>What redaction guarantees\<close>

text \<open>\<open>hidden v\<close>: under every sensitive key at every depth there is only the placeholder.\<close>

fun hidden :: "json \<Rightarrow> bool" where
  "hidden (JObj kvs) =
     list_all (\<lambda>(k, v). if is_sensitive_key k then v = JStr REDACTED_PLACEHOLDER else hidden v) kvs"
| "hidden (JArr xs) = list_all hidden xs"
| "hidden _ = True"

text \<open>Two documents that differ at most in what is below sensitive keys.\<close>

fun masked :: "json \<Rightarrow> json" where
  "masked (JObj kvs) = JObj (map (\<lambda>(k, v). (k, if is_sensitive_key k then JNull else masked v)) kvs)"
| "masked (JArr xs) = JArr (map masked xs)"
| "masked v = v"

lemma redact_hidden: "hidden (redact_sensitive_data redact_text v)"
  by (induction v rule: hidden.induct) (auto simp: list_all_iff)

lemma redact_through_mask: "redact_sensitive_data rt (masked v) = redact_sensitive_data rt v"
proof (induction v rule: masked.induct)
  case (1 kvs)
  then show ?case by (auto simp: case_prod_beta)
next
  case (2 xs)
  then show ?case by auto
qed simp_all

lemma redact_masked: "masked v = masked w \<Longrightarrow> redact_sensitive_data rt v = redact_sensitive_data rt w"
  by (metis redact_through_mask)

end
