(* ===== verification/Gate.thy ===== *)
theory Gate
  imports Audit_Log Ledger_Ops
begin

text \<open>
  The authorization gate, \<open>deltacontroller/gate.py\<close>. A \<open>world\<close> is what the gate's threads
  share: the ledger, the state of the dispatch port and the audit log. A \<open>dispatch_port\<close> is the
  protocol class \<open>WorkerDispatchPort\<close> as a record of its three operations. One call of
  \<open>admit_and_dispatch\<close> is a sequence of critical sections; \<open>ge_others n\<close> is what the other
  threads do to the world before the \<open>n\<close>-th of them. Clock readings, fresh identifiers, the
  outcomes of the appends and the text of an error message are fields of the environment
  \<open>gate_env\<close>.
\<close>

section \<open>Configuration\<close>

text \<open>\<open>not text.strip()\<close>: only white space (the code points \<open>str.isspace\<close> accepts).\<close>

definition is_blank :: "string \<Rightarrow> bool" where
  "is_blank s \<longleftrightarrow> list_all is_space_point (utf8_points (map of_char s))"

record signing_identity =
  si_sign :: "string \<Rightarrow> string"
  si_key_id :: string
  si_issuer_id :: string

definition FROZEN_TEST_FIXTURE_ISSUER_ID :: string where
  "FROZEN_TEST_FIXTURE_ISSUER_ID = ''step5c-fixture-controller''"

definition FROZEN_TEST_FIXTURE_KEY_ID :: string where
  "FROZEN_TEST_FIXTURE_KEY_ID = ''step5c-fixture-ed25519''"

definition init_signing_identity ::
  "(string \<Rightarrow> string) option \<Rightarrow> string \<Rightarrow> string \<Rightarrow> signing_identity result" where
  "init_signing_identity private_key key_id issuer_id =
     (case private_key of
        None \<Rightarrow> Inl TypeError
      | Some sign \<Rightarrow>
          bindE (ensure (\<not> is_blank key_id) ValueError) (\<lambda>_.
          bindE (ensure (\<not> is_blank issuer_id) ValueError) (\<lambda>_.
          bindE (ensure (\<not> (key_id = FROZEN_TEST_FIXTURE_KEY_ID \<or>
                            issuer_id = FROZEN_TEST_FIXTURE_ISSUER_ID)) ValueError) (\<lambda>_.
          Inr \<lparr>si_sign = sign, si_key_id = key_id, si_issuer_id = issuer_id\<rparr>))))"

record 'p world =
  w_ledger :: ledger
  w_port :: 'p
  w_audit :: "json list"

record 'p dispatch_port =
  dp_reserve_capacity :: "string \<Rightarrow> 'p \<Rightarrow> unit result \<times> 'p"
  dp_release_capacity :: "string \<Rightarrow> 'p \<Rightarrow> 'p"
  dp_dispatch :: "json \<Rightarrow> 'p world \<Rightarrow> json result \<times> 'p world"

record gate =
  g_max_bytes :: nat
  g_authenticate :: "json \<Rightarrow> subject result"
  g_catalog :: catalog_validator
  g_quota :: quota_manager
  g_identity :: signing_identity
  g_controller_commit :: string
  g_policy_version :: string
  g_admission_ttl_seconds :: int
  g_redact_text :: "string \<Rightarrow> string"

text \<open>The checks of the constructor; the remaining collaborators have defaults.\<close>

definition init_gate_checks ::
  "'a option \<Rightarrow> signing_identity option \<Rightarrow> ledger option \<Rightarrow> string option \<Rightarrow> unit result" where
  "init_gate_checks auth_port identity led commit =
     bindE (ensure (auth_port \<noteq> None) ValueError) (\<lambda>_.
     bindE (ensure (identity \<noteq> None) ValueError) (\<lambda>_.
     bindE (ensure (case led of None \<Rightarrow> False | Some l \<Rightarrow> lg_persistence_path l \<noteq> None) ValueError) (\<lambda>_.
     ensure (case commit of None \<Rightarrow> False | Some c \<Rightarrow> fullmatch_hex 40 c) ValueError)))"

section \<open>Worker results\<close>

record expectation =
  x_intent_id :: string
  x_execution_id :: string
  x_admission_id :: string
  x_intent_digest :: string
  x_admission_digest :: string
  x_operation :: json
  x_controller_commit :: string
  x_catalog_backend_ref :: json
  x_model_plugin_id :: json
  x_dataset_id :: json
  x_requested_scope :: json

definition must_equal :: "json \<Rightarrow> string \<Rightarrow> json \<Rightarrow> unit result" where
  "must_equal doc field expected =
     bindE (dict_get doc field) (\<lambda>v. ensure (py_eq v expected) WorkerDispatchFailedError)"

definition validate_dispatch_receipt ::
  "services \<Rightarrow> expectation \<Rightarrow> json \<Rightarrow> json \<Rightarrow> unit result" where
  "validate_dispatch_receipt svc x receipt receipt_digest =
     (case receipt of
        JObj r \<Rightarrow>
          bindE (schema_validate svc ''receipt-lineage'' receipt) (\<lambda>_.
          bindE (forE (\<lambda>(k, v). must_equal (obj_get_default r ''provenance'' (JObj [])) k v)
             [(''intent_id'', JStr (x_intent_id x)), (''intent_digest'', JStr (x_intent_digest x)),
              (''admission_id'', JStr (x_admission_id x)),
              (''admission_digest'', JStr (x_admission_digest x)),
              (''execution_id'', JStr (x_execution_id x)),
              (''controller_commit'', JStr (x_controller_commit x)),
              (''catalog_backend_ref'', x_catalog_backend_ref x),
              (''backend_commit'', x_catalog_backend_ref x)]) (\<lambda>_.
          bindE (forE (\<lambda>(k, v). must_equal (obj_get_default r ''workload'' (JObj [])) k v)
             [(''model_plugin_id'', x_model_plugin_id x), (''dataset_id'', x_dataset_id x),
              (''executed_scope'', x_requested_scope x)]) (\<lambda>_.
          bindE (forE (\<lambda>(k, v). must_equal (obj_get_default r ''execution'' (JObj [])) k v)
             [(''verdict'', JStr ''SUCCESS''), (''terminal_status'', JStr ''COMPLETED'')]) (\<lambda>_.
          bindE (canonicalize_jcs receipt) (\<lambda>bytes.
          ensure (py_eq receipt_digest (JStr (sha256_digest (svc_sha svc) bytes)))
            WorkerDispatchFailedError)))))
      | _ \<Rightarrow> Inl WorkerDispatchFailedError)"

definition validate_dispatch_artifacts ::
  "services \<Rightarrow> json \<Rightarrow> string \<Rightarrow> json \<Rightarrow> json \<Rightarrow> json \<Rightarrow> json \<Rightarrow> unit result" where
  "validate_dispatch_artifacts svc operation state dispatched receipt receipt_digest err =
     (if state = ''COMPLETED'' then
        bindE (ensure (dispatched = JBool True) WorkerDispatchFailedError) (\<lambda>_.
        bindE (ensure (err = JNull) WorkerDispatchFailedError) (\<lambda>_.
        if py_eq operation (JStr ''MATERIALIZE_DATASET'')
        then ensure (receipt = JNull \<and> receipt_digest = JNull) WorkerDispatchFailedError
        else ensure (receipt \<noteq> JNull \<and> receipt_digest \<noteq> JNull) WorkerDispatchFailedError))
      else if state \<in> {''FAILED'', ''TIMED_OUT'', ''CANCELLED''} then
        bindE (ensure (receipt = JNull \<and> receipt_digest = JNull) WorkerDispatchFailedError) (\<lambda>_.
        bindE (ensure (is_obj err) WorkerDispatchFailedError) (\<lambda>_.
        bindE (schema_validate svc ''preflight-error'' err) (\<lambda>_.
        ensure (state = ''FAILED'' \<or> dispatched = JBool True) WorkerDispatchFailedError)))
      else ensure (receipt = JNull \<and> receipt_digest = JNull \<and> err = JNull) WorkerDispatchFailedError)"

definition validate_dispatch_result ::
  "services \<Rightarrow> expectation \<Rightarrow> json \<Rightarrow> (string \<times> json) list result" where
  "validate_dispatch_result svc x result =
     (case result of
        JObj r \<Rightarrow>
          bindE (must_equal result ''intent_id'' (JStr (x_intent_id x))) (\<lambda>_.
          bindE (must_equal result ''execution_id'' (JStr (x_execution_id x))) (\<lambda>_.
          bindE (ensure (is_bool (obj_get r ''dispatched'')) WorkerDispatchFailedError) (\<lambda>_.
          bindE (hash_in [''QUEUED'', ''RUNNING'', ''COMPLETED'', ''FAILED'', ''TIMED_OUT'', ''CANCELLED'']
                   (obj_get r ''status'')) (\<lambda>allowed.
          bindE (ensure allowed WorkerDispatchFailedError) (\<lambda>_.
          bindE (as_str (obj_get r ''status'')) (\<lambda>state.
          bindE (if obj_get r ''receipt'' = JNull then Inr ()
                 else validate_dispatch_receipt svc x (obj_get r ''receipt'')
                        (obj_get r ''receipt_digest'')) (\<lambda>_.
          bindE (validate_dispatch_artifacts svc (x_operation x) state (obj_get r ''dispatched'')
                   (obj_get r ''receipt'') (obj_get r ''receipt_digest'') (obj_get r ''error'')) (\<lambda>_.
          Inr r))))))))
      | _ \<Rightarrow> Inl WorkerDispatchFailedError)"


section \<open>Preflight\<close>

record 'p gate_env =
  ge_now :: instant
  ge_schedule :: "(bool \<times> (ledger \<Rightarrow> ledger)) list"
  ge_admission_id :: string
  ge_execution_id :: string
  ge_clock :: "nat \<Rightarrow> string"
  ge_append :: "nat \<Rightarrow> append_outcome"
  ge_message :: string
  ge_others :: "nat \<Rightarrow> 'p world \<Rightarrow> 'p world"

record preflight =
  pf_intent :: "(string \<times> json) list"
  pf_intent_id :: string
  pf_intent_digest :: string
  pf_subject :: subject
  pf_workload :: json
  pf_operation :: json

text \<open>Steps 1 to 4: parse, authenticate, policy, catalog. They read no shared state.\<close>

definition admit_preflight ::
  "services \<Rightarrow> gate \<Rightarrow> raw_input \<Rightarrow> json \<Rightarrow> instant \<Rightarrow> preflight result" where
  "admit_preflight svc g raw credentials now =
     bindE (parse_intent svc (g_max_bytes g) raw now) (\<lambda>intent.
     bindE (bindE (getitem (JObj intent) ''intent_id'') as_str) (\<lambda>intent_id.
     bindE (bindE (getitem (JObj intent) ''intent_digest'') as_str) (\<lambda>intent_digest.
     bindE (g_authenticate g credentials) (\<lambda>s.
     bindE (evaluate_admission s intent) (\<lambda>_.
     bindE (getitem (JObj intent) ''workload'') (\<lambda>workload.
     bindE (getitem (JObj intent) ''operation'') (\<lambda>operation.
     bindE (catalog_validate (g_catalog g) workload operation) (\<lambda>_.
     Inr \<lparr>pf_intent = intent, pf_intent_id = intent_id, pf_intent_digest = intent_digest,
          pf_subject = s, pf_workload = workload, pf_operation = operation\<rparr>))))))))"

section \<open>The admission record\<close>

definition admission_expiry ::
  "services \<Rightarrow> gate \<Rightarrow> (string \<times> json) list \<Rightarrow> instant \<Rightarrow> instant result" where
  "admission_expiry svc g intent now =
     bindE (getitem (JObj intent) ''expires_at'') (\<lambda>v.
     (case v of
        JStr text \<Rightarrow>
          (case svc_fromiso svc (replace_z text) of
             None \<Rightarrow> Inl ValueError
           | Some intent_expires_at \<Rightarrow>
               (let dispatch_deadline = plus_seconds now (g_admission_ttl_seconds g) in
                bindE (instant_less dispatch_deadline intent_expires_at) (\<lambda>earlier.
                Inr (if earlier then dispatch_deadline else intent_expires_at))))
      | _ \<Rightarrow> Inl AttributeError))"

definition admission_skeleton ::
  "services \<Rightarrow> gate \<Rightarrow> preflight \<Rightarrow> resource_grants \<Rightarrow> 'p gate_env \<Rightarrow> instant \<Rightarrow> (string \<times> json) list" where
  "admission_skeleton svc g pf grants env expires =
     [(''schema_version'', JStr ''1.0.0''), (''admission_id'', JStr (ge_admission_id env)),
      (''intent_id'', JStr (pf_intent_id pf)), (''intent_digest'', JStr (pf_intent_digest pf)),
      (''execution_id'', JStr (ge_execution_id env)),
      (''authenticated_subject'', subject_to_dict (pf_subject pf)),
      (''policy_context'', JObj
         [(''policy_version'', JStr (g_policy_version g)),
          (''controller_commit'', JStr (g_controller_commit g)), (''verdict'', JStr ''ADMITTED'')]),
      (''resource_grants'', grants_to_dict grants),
      (''admitted_at'', JStr (svc_isoformat svc (ge_now env))),
      (''admission_expires_at'', JStr (svc_isoformat svc expires))]"

definition authenticator :: "gate \<Rightarrow> (string \<times> json) list" where
  "authenticator g =
     [(''algorithm'', JStr ''ED25519''), (''issuer_id'', JStr (si_issuer_id (g_identity g))),
      (''key_id'', JStr (si_key_id (g_identity g)))]"

record admission =
  ad_document :: "(string \<times> json) list"
  ad_digest :: string
  ad_bundle :: json
  ad_retry_of :: json

text \<open>Steps 7 to 9: the digest, the signature, the two schema checks and the bundle.\<close>

definition prepare_admission ::
  "services \<Rightarrow> gate \<Rightarrow> preflight \<Rightarrow> resource_grants \<Rightarrow> 'p gate_env \<Rightarrow> admission result" where
  "prepare_admission svc g pf grants env =
     bindE (admission_expiry svc g (pf_intent pf) (ge_now env)) (\<lambda>expires.
     (let skeleton = admission_skeleton svc g pf grants env expires in
      bindE (compute_admission_digest (svc_sha svc) skeleton) (\<lambda>digest.
      (let unsigned = skeleton @ [(''admission_digest'', JStr digest),
                                  (''authenticator'', JObj (authenticator g))] in
       bindE (sign_admission (si_sign (g_identity g)) unsigned) (\<lambda>signature.
       (let doc = skeleton @ [(''admission_digest'', JStr digest),
                              (''authenticator'',
                                 JObj (authenticator g @ [(''signature'', JStr signature)]))];
            bundle = JObj [(''schema_version'', JStr ''1.0.0''), (''intent'', JObj (pf_intent pf)),
                           (''admission'', JObj doc)] in
        bindE (schema_validate svc ''admission-record'' (JObj doc)) (\<lambda>_.
        bindE (schema_validate svc ''authorized-execution'' bundle) (\<lambda>_.
        bindE (dict_get (obj_get_default (pf_intent pf) ''execution_constraints'' (JObj []))
                 ''retry_of_intent_id'') (\<lambda>retry_of.
        Inr \<lparr>ad_document = doc, ad_digest = digest, ad_bundle = bundle,
             ad_retry_of = retry_of\<rparr>)))))))))"

section \<open>Reservation, quota, capacity, commit\<close>

text \<open>The handler of the first \<open>try\<close>: give back what has been reserved so far.\<close>

definition abandon ::
  "'p dispatch_port \<Rightarrow> 'p gate_env \<Rightarrow> string \<Rightarrow> bool \<Rightarrow> 'p world \<Rightarrow> 'p world" where
  "abandon port env intent_id capacity_reserved w =
     (let w' = (if capacity_reserved
                then ge_others env 4 (w\<lparr>w_port := dp_release_capacity port intent_id (w_port w)\<rparr>)
                else w)
      in w'\<lparr>w_ledger := release_reservation intent_id (w_ledger w')\<rparr>)"

definition commit_request :: "preflight \<Rightarrow> 'p gate_env \<Rightarrow> admission \<Rightarrow> admission_request" where
  "commit_request pf env ad =
     \<lparr>adm_intent_id = pf_intent_id pf, adm_intent_digest = pf_intent_digest pf,
      adm_caller_subject_id = subject_id (pf_subject pf), adm_execution_id = ge_execution_id env,
      adm_admission_record = JObj (ad_document ad), adm_intent = JObj (pf_intent pf),
      adm_retry_of_intent_id = ad_retry_of ad, adm_operation = pf_operation pf,
      adm_status = ''ADMITTED''\<rparr>"

definition reserve_and_commit ::
  "services \<Rightarrow> gate \<Rightarrow> 'p dispatch_port \<Rightarrow> 'p gate_env \<Rightarrow> preflight \<Rightarrow> 'p world \<Rightarrow>
   admission result \<times> 'p world" where
  "reserve_and_commit svc g port env pf w =
     (let i = pf_intent_id pf; w1 = ge_others env 1 w in
      case bindE (active_count (Some i) (w_ledger w1)) (evaluate_grants (g_quota g) (pf_intent pf)) of
        Inl e \<Rightarrow> (Inl e, abandon port env i False w1)
      | Inr grants \<Rightarrow>
          (let w2 = ge_others env 2 w1 in
           case dp_reserve_capacity port i (w_port w2) of
             (Inl e, p) \<Rightarrow> (Inl e, abandon port env i False (w2\<lparr>w_port := p\<rparr>))
           | (Inr _, p) \<Rightarrow>
               (let w3 = ge_others env 3 (w2\<lparr>w_port := p\<rparr>) in
                case prepare_admission svc g pf grants env of
                  Inl e \<Rightarrow> (Inl e, abandon port env i True w3)
                | Inr ad \<Rightarrow>
                    (case commit_admission svc (commit_request pf env ad) (ge_clock env 1)
                            (ge_append env 1) (w_ledger w3) of
                       (Inl e, l) \<Rightarrow> (Inl e, abandon port env i True (w3\<lparr>w_ledger := l\<rparr>))
                     | (Inr rec, l) \<Rightarrow> (Inr ad, w3\<lparr>w_ledger := l\<rparr>)))))"

section \<open>Dispatch\<close>

definition gate_expectation ::
  "gate \<Rightarrow> 'p gate_env \<Rightarrow> preflight \<Rightarrow> admission \<Rightarrow> expectation result" where
  "gate_expectation g env pf ad =
     bindE (getitem (pf_workload pf) ''catalog_backend_ref'') (\<lambda>ref.
     bindE (getitem (pf_workload pf) ''model_plugin_id'') (\<lambda>plugin.
     bindE (getitem (pf_workload pf) ''dataset_id'') (\<lambda>dataset.
     bindE (getitem (pf_workload pf) ''requested_scope'') (\<lambda>scope.
     Inr \<lparr>x_intent_id = pf_intent_id pf, x_execution_id = ge_execution_id env,
          x_admission_id = ge_admission_id env, x_intent_digest = pf_intent_digest pf,
          x_admission_digest = ad_digest ad, x_operation = pf_operation pf,
          x_controller_commit = g_controller_commit g, x_catalog_backend_ref = ref,
          x_model_plugin_id = plugin, x_dataset_id = dataset, x_requested_scope = scope\<rparr>))))"

text \<open>The error document the gate stores; \<open>message\<close> is the first 512 characters of its text.\<close>

definition stored_error :: "exn \<Rightarrow> string \<Rightarrow> json" where
  "stored_error e message =
     (let (code, category, retryable) =
        (case e of
           ControllerError c k r \<Rightarrow> (c, k, r)
         | _ \<Rightarrow> (error_code WorkerDispatchFailedError, error_category WorkerDispatchFailedError,
                 error_retryable WorkerDispatchFailedError))
      in JObj [(''schema_version'', JStr ''1.0.0''), (''error_code'', JStr code),
               (''category'', JStr category), (''retryable'', JBool retryable),
               (''message'', JStr message)])"

definition add_audit :: "gate \<Rightarrow> 'p gate_env \<Rightarrow> string \<Rightarrow> subject \<Rightarrow> json \<Rightarrow> string \<Rightarrow> json \<Rightarrow>
   'p world \<Rightarrow> 'p world" where
  "add_audit g env event s details intent_id execution_id w =
     w\<lparr>w_audit := w_audit w @
         [log_event (g_redact_text g) (ge_clock env 0) event (subject_id s) details
            (JStr intent_id) execution_id]\<rparr>"

definition release_capacity ::
  "'p dispatch_port \<Rightarrow> 'p gate_env \<Rightarrow> string \<Rightarrow> 'p world \<Rightarrow> 'p world" where
  "release_capacity port env intent_id w =
     (let w' = ge_others env 7 w in w'\<lparr>w_port := dp_release_capacity port intent_id (w_port w')\<rparr>)"

definition dispatch_failed ::
  "services \<Rightarrow> gate \<Rightarrow> 'p gate_env \<Rightarrow> preflight \<Rightarrow> exn \<Rightarrow> 'p world \<Rightarrow> exn \<times> 'p world" where
  "dispatch_failed svc g env pf e w =
     (let w1 = ge_others env 6 w in
      case transition_execution svc
             \<lparr>tr_execution_id = ge_execution_id env, tr_expected_statuses = NONTERMINAL_STATUSES,
              tr_status = ''FAILED'', tr_receipt_digest = JNull, tr_terminal_receipt = JNull,
              tr_error = stored_error e (ge_message env)\<rparr>
             (ge_clock env 2) (ge_append env 2) (w_ledger w1) of
        (Inl e', l) \<Rightarrow> (e', w1\<lparr>w_ledger := l\<rparr>)
      | (Inr _, l) \<Rightarrow>
          (e, add_audit g env ''EXECUTION_DISPATCH_FAILED'' (pf_subject pf)
                (JObj [(''intent_id'', JStr (pf_intent_id pf)),
                       (''execution_id'', JStr (ge_execution_id env)),
                       (''error_code'', obj_get (obj_fields (stored_error e (ge_message env))) ''error_code'')])
                (pf_intent_id pf) (JStr (ge_execution_id env)) (w1\<lparr>w_ledger := l\<rparr>)))"

definition dispatch_admitted ::
  "services \<Rightarrow> gate \<Rightarrow> 'p dispatch_port \<Rightarrow> 'p gate_env \<Rightarrow> preflight \<Rightarrow> admission \<Rightarrow> 'p world \<Rightarrow>
   (string \<times> json) list result \<times> 'p world" where
  "dispatch_admitted svc g port env pf ad w =
     (let (r, w1) = dp_dispatch port (ad_bundle ad) (ge_others env 5 w) in
      case bindE r (\<lambda>result. bindE (gate_expectation g env pf ad) (\<lambda>x.
             validate_dispatch_result svc x result)) of
        Inr result \<Rightarrow> (Inr result, release_capacity port env (pf_intent_id pf) w1)
      | Inl e \<Rightarrow>
          (let (e', w2) = dispatch_failed svc g env pf e w1
           in (Inl e', release_capacity port env (pf_intent_id pf) w2)))"

text \<open>The status the caller sees is the one in the ledger, never the losing worker's.\<close>

definition settle ::
  "services \<Rightarrow> 'p gate_env \<Rightarrow> (string \<times> json) list \<Rightarrow> ledger \<Rightarrow> ledger_record result \<times> ledger" where
  "settle svc env result l =
     (case obj_get result ''status'' of
        JStr worker_state \<Rightarrow>
          (let t = \<lparr>tr_execution_id = ge_execution_id env, tr_expected_statuses = [''ADMITTED''],
                    tr_status = ''QUEUED'', tr_receipt_digest = JNull, tr_terminal_receipt = JNull,
                    tr_error = JNull\<rparr>;
               (updated, l') =
                 (if worker_state = ''QUEUED'' then
                    (case get_by_execution_id (ge_execution_id env) l of
                       Some rec \<Rightarrow>
                         (if rec_status rec = ''ADMITTED''
                          then transition_execution svc t (ge_clock env 3) (ge_append env 3) l
                          else (Inr (Some rec), l))
                     | None \<Rightarrow> (Inr None, l))
                  else transition_execution svc
                         (t\<lparr>tr_expected_statuses := NONTERMINAL_STATUSES @ [worker_state],
                            tr_status := worker_state,
                            tr_receipt_digest := obj_get result ''receipt_digest'',
                            tr_terminal_receipt := obj_get result ''receipt'',
                            tr_error := obj_get result ''error''\<rparr>)
                         (ge_clock env 3) (ge_append env 3) l)
           in case updated of
                Inl e \<Rightarrow> (Inl e, l')
              | Inr (Some rec) \<Rightarrow> (Inr rec, l')
              | Inr None \<Rightarrow>
                  (case get_by_execution_id (ge_execution_id env) l' of
                     None \<Rightarrow> (Inl RuntimeError, l') | Some rec \<Rightarrow> (Inr rec, l')))
      | _ \<Rightarrow> (Inl TypeError, l))"

section \<open>The whole call\<close>

definition record_status ::
  "services \<Rightarrow> string \<Rightarrow> ledger_record \<Rightarrow> json result" where
  "record_status svc now rec =
     (if rec_admission_record rec = JNull \<or> rec_operation rec = JNull then Inl RuntimeError
      else bindE (getitem (rec_admission_record rec) ''admission_id'') (\<lambda>admission_id.
           bindE (getitem (rec_admission_record rec) ''admission_digest'') (\<lambda>admission_digest.
           build_execution_status svc True
             \<lparr>st_execution_id = JStr (rec_execution_id rec), st_intent_id = JStr (rec_intent_id rec),
              st_intent_digest = JStr (rec_intent_digest rec), st_admission_id = admission_id,
              st_admission_digest = admission_digest, st_state = rec_status rec,
              st_operation = rec_operation rec, st_receipt_digest = rec_receipt_digest rec,
              st_error = rec_error rec, st_updated_at = rec_updated_at rec\<rparr> now)))"

definition response :: "string \<Rightarrow> json \<Rightarrow> json \<Rightarrow> json \<Rightarrow> json" where
  "response action adm status receipt =
     JObj [(''action'', JStr action), (''admission'', adm), (''status'', status), (''receipt'', receipt)]"

definition already_admitted ::
  "services \<Rightarrow> gate \<Rightarrow> 'p gate_env \<Rightarrow> preflight \<Rightarrow> ledger_record \<Rightarrow> 'p world \<Rightarrow> json result \<times> 'p world" where
  "already_admitted svc g env pf existing w =
     (if rec_admission_record existing = JNull \<or> rec_operation existing = JNull
      then (Inl RuntimeError, w)
      else (bindE (record_status svc (ge_clock env 0) existing) (\<lambda>status.
              Inr (response ''ALREADY_ADMITTED'' (rec_admission_record existing) status
                     (rec_terminal_receipt existing))),
            add_audit g env ''IDEMPOTENT_RESUBMISSION'' (pf_subject pf)
              (JObj [(''intent_id'', JStr (pf_intent_id pf)), (''status'', JStr (rec_status existing))])
              (pf_intent_id pf) (JStr (rec_execution_id existing)) w))"

definition finish_admission ::
  "services \<Rightarrow> gate \<Rightarrow> 'p gate_env \<Rightarrow> preflight \<Rightarrow> admission \<Rightarrow> (string \<times> json) list \<Rightarrow> 'p world \<Rightarrow>
   json result \<times> 'p world" where
  "finish_admission svc g env pf ad result w =
     (let w1 = ge_others env 8 w in
      case settle svc env result (w_ledger w1) of
        (Inl e, l) \<Rightarrow> (Inl e, w1\<lparr>w_ledger := l\<rparr>)
      | (Inr rec, l) \<Rightarrow>
          (bindE (build_execution_status svc True
              \<lparr>st_execution_id = JStr (ge_execution_id env), st_intent_id = JStr (pf_intent_id pf),
               st_intent_digest = JStr (pf_intent_digest pf),
               st_admission_id = JStr (ge_admission_id env), st_admission_digest = JStr (ad_digest ad),
               st_state = rec_status rec, st_operation = pf_operation pf,
               st_receipt_digest = rec_receipt_digest rec, st_error = rec_error rec,
               st_updated_at = rec_updated_at rec\<rparr> (ge_clock env 0)) (\<lambda>status.
             Inr (response ''ADMITTED'' (JObj (ad_document ad)) status (rec_terminal_receipt rec))),
           add_audit g env ''EXECUTION_ADMITTED'' (pf_subject pf)
             (JObj [(''intent_id'', JStr (pf_intent_id pf)),
                    (''execution_id'', JStr (ge_execution_id env)),
                    (''operation'', pf_operation pf), (''worker_state'', obj_get result ''status'')])
             (pf_intent_id pf) (JStr (ge_execution_id env)) (w1\<lparr>w_ledger := l\<rparr>)))"

text \<open>\<open>None\<close> is the call that still waits for an identical submission when its schedule ends.\<close>

definition admit_and_dispatch ::
  "services \<Rightarrow> gate \<Rightarrow> 'p dispatch_port \<Rightarrow> 'p gate_env \<Rightarrow> raw_input \<Rightarrow> json \<Rightarrow> 'p world \<Rightarrow>
   (json result \<times> 'p world) option" where
  "admit_and_dispatch svc g port env raw credentials w =
     (case admit_preflight svc g raw credentials (ge_now env) of
        Inl e \<Rightarrow> Some (Inl e, w)
      | Inr pf \<Rightarrow>
          (let w0 = ge_others env 0 w in
           case acquire_or_check (pf_intent_id pf) (pf_intent_digest pf) (subject_id (pf_subject pf))
                  (ge_clock env 0) (ge_schedule env) (w_ledger w0) of
             None \<Rightarrow> None
           | Some (Inl e, l) \<Rightarrow> Some (Inl e, w0\<lparr>w_ledger := l\<rparr>)
           | Some (Inr (Some existing), l) \<Rightarrow>
               Some (already_admitted svc g env pf existing (w0\<lparr>w_ledger := l\<rparr>))
           | Some (Inr None, l) \<Rightarrow>
               Some (case reserve_and_commit svc g port env pf (w0\<lparr>w_ledger := l\<rparr>) of
                       (Inl e, w1) \<Rightarrow> (Inl e, w1)
                     | (Inr ad, w1) \<Rightarrow>
                         (case dispatch_admitted svc g port env pf ad w1 of
                            (Inl e, w2) \<Rightarrow> (Inl e, w2)
                          | (Inr result, w2) \<Rightarrow> finish_admission svc g env pf ad result w2))))"

section \<open>Reads\<close>

definition get_owned_record ::
  "gate \<Rightarrow> string \<Rightarrow> json \<Rightarrow> ledger \<Rightarrow> ledger_record option result" where
  "get_owned_record g execution_id credentials l =
     bindE (g_authenticate g credentials) (\<lambda>s.
     (case get_by_execution_id execution_id l of
        None \<Rightarrow> Inr None
      | Some rec \<Rightarrow>
          (if rec_authenticated_subject_id rec \<noteq> subject_id s then Inl UnauthorizedCallerError
           else Inr (Some rec))))"

definition get_status ::
  "services \<Rightarrow> gate \<Rightarrow> string \<Rightarrow> string \<Rightarrow> json \<Rightarrow> ledger \<Rightarrow> json option result" where
  "get_status svc g now execution_id credentials l =
     bindE (get_owned_record g execution_id credentials l) (\<lambda>found.
     (case found of
        None \<Rightarrow> Inr None
      | Some rec \<Rightarrow> bindE (record_status svc now rec) (\<lambda>doc. Inr (Some doc))))"

definition get_receipt :: "gate \<Rightarrow> string \<Rightarrow> json \<Rightarrow> ledger \<Rightarrow> json option result" where
  "get_receipt g execution_id credentials l =
     bindE (get_owned_record g execution_id credentials l) (\<lambda>found.
     Inr (case found of None \<Rightarrow> None | Some rec \<Rightarrow> Some (rec_terminal_receipt rec)))"

end
