(* ===== verification/Dispatch_Queue.thy ===== *)
theory Dispatch_Queue
  imports Gate
begin

text \<open>
  The bounded worker queue of \<open>deltacontroller/dispatch.py\<close>: the fixed-argv process runner, the
  class \<open>SubprocessWorkerDispatchPort\<close> and the mock port. The queue's state is a \<open>queue\<close>; a
  job object is identified by \<open>jb_ident\<close>, because the code compares jobs by identity. What the
  thread pool and the processes do is an argument: whether \<open>submit\<close> succeeds, what the process
  returns, what each poll of a running process observes.
\<close>

section \<open>MockWorkerDispatchPort\<close>

definition mock_dispatch ::
  "services \<Rightarrow> bool \<Rightarrow> json \<Rightarrow> json list world \<Rightarrow> json result \<times> json list world" where
  "mock_dispatch svc auto_complete bundle w =
     (case schema_validate svc ''authorized-execution'' bundle of
        Inl e \<Rightarrow> (Inl WorkerDispatchFailedError, w)
      | Inr _ \<Rightarrow>
          (bindE (bindE (getitem bundle ''admission'') (\<lambda>a. getitem a ''execution_id'')) (\<lambda>execution_id.
           bindE (bindE (getitem bundle ''intent'') (\<lambda>i. getitem i ''intent_id'')) (\<lambda>intent_id.
           Inr (JObj [(''dispatched'', JBool True), (''execution_id'', execution_id),
                      (''intent_id'', intent_id),
                      (''status'', JStr (if \<not> auto_complete then ''RUNNING'' else ''COMPLETED''))]))),
           w\<lparr>w_port := w_port w @ [bundle]\<rparr>))"

definition mock_port :: "services \<Rightarrow> bool \<Rightarrow> json list dispatch_port" where
  "mock_port svc auto_complete =
     \<lparr>dp_reserve_capacity = (\<lambda>i p. (Inr (), p)), dp_release_capacity = (\<lambda>i p. p),
      dp_dispatch = mock_dispatch svc auto_complete\<rparr>"

section \<open>JsonSubprocessWorkerRunner\<close>

definition ALLOWED_ENVIRONMENT :: "string list" where
  "ALLOWED_ENVIRONMENT =
     [''PATH'', ''SYSTEMROOT'', ''WINDIR'', ''TEMP'', ''TMP'', ''TMPDIR'', ''LANG'', ''LC_ALL'']"

definition sanitized_environment :: "(string, string) dict \<Rightarrow> (string, string) dict" where
  "sanitized_environment environ =
     fold (\<lambda>(k, v). AList.update k v)
       [(''PYTHONIOENCODING'', ''utf-8''), (''PYTHONNOUSERSITE'', ''1''), (''PYTHONUTF8'', ''1'')]
       (concat (map (\<lambda>name. case map_of environ name of
                               None \<Rightarrow> [] | Some v \<Rightarrow> if v = [] then [] else [(name, v)])
                  ALLOWED_ENVIRONMENT))"

definition init_runner :: "string list \<Rightarrow> int \<Rightarrow> unit result" where
  "init_runner command max_output_bytes =
     bindE (ensure (command \<noteq> [] \<and> list_all (\<lambda>part. part \<noteq> []) command) ValueError) (\<lambda>_.
     ensure (1 \<le> max_output_bytes) ValueError)"

definition execution_timeout :: "json \<Rightarrow> int result" where
  "execution_timeout bundle =
     bindE (dict_get bundle ''admission'') (\<lambda>adm.
     (let grants = (case obj_opt adm of Some a \<Rightarrow> obj_get a ''resource_grants'' | None \<Rightarrow> JNull);
          timeout = (case obj_opt grants of Some g \<Rightarrow> obj_get g ''timeout_seconds'' | None \<Rightarrow> JNull)
      in case timeout of
           JInt n \<Rightarrow> (if 1 \<le> n \<and> n \<le> 3600 then Inr n else Inl WorkerDispatchFailedError)
         | _ \<Rightarrow> Inl WorkerDispatchFailedError))"

text \<open>
  What one turn of the polling loop observes: whether cancellation was requested, the sizes of
  the two output files, the time left (any unit), and whether the process ended during the wait.
\<close>

record poll =
  po_cancelled :: bool
  po_stdout_size :: nat
  po_stderr_size :: nat
  po_remaining :: int
  po_exited :: bool

text \<open>\<open>None\<close>: the process still runs when the observations end.\<close>

fun poll_process :: "nat \<Rightarrow> poll list \<Rightarrow> unit result option" where
  "poll_process limit [] = None"
| "poll_process limit (p # ps) =
     (if po_cancelled p then Some (Inl WorkerProcessCancelled)
      else if po_stdout_size p > limit \<or> po_stderr_size p > limit
      then Some (Inl WorkerDispatchFailedError)
      else if po_remaining p \<le> 0 then Some (Inl WorkerProcessTimedOut)
      else if po_exited p then Some (Inr ())
      else poll_process limit ps)"

record process_end =
  pe_stdout :: string
  pe_stderr_size :: nat
  pe_returncode :: int

definition collect_output :: "services \<Rightarrow> nat \<Rightarrow> process_end \<Rightarrow> json result" where
  "collect_output svc limit out =
     bindE (ensure (\<not> (length (pe_stdout out) > limit \<or> pe_stderr_size out > limit))
              WorkerDispatchFailedError) (\<lambda>_.
     bindE (ensure (pe_returncode out = 0) WorkerDispatchFailedError) (\<lambda>_.
     bindE (ensure (utf8_valid (map of_char (pe_stdout out))) WorkerDispatchFailedError) (\<lambda>_.
     (case svc_loads svc (pe_stdout out) of
        None \<Rightarrow> Inl WorkerDispatchFailedError
      | Some result \<Rightarrow> bindE (ensure (is_obj result) WorkerDispatchFailedError) (\<lambda>_. Inr result)))))"

definition run_process ::
  "services \<Rightarrow> nat \<Rightarrow> json \<Rightarrow> poll list \<Rightarrow> process_end \<Rightarrow> json result option" where
  "run_process svc limit bundle polls out =
     (case canonicalize_jcs bundle of
        Inl e \<Rightarrow> Some (Inl e)
      | Inr payload \<Rightarrow>
          (case execution_timeout bundle of
             Inl e \<Rightarrow> Some (Inl e)
           | Inr timeout \<Rightarrow>
               (case poll_process limit polls of
                  None \<Rightarrow> None
                | Some (Inl e) \<Rightarrow> Some (Inl e)
                | Some (Inr _) \<Rightarrow> Some (collect_output svc limit out))))"

section \<open>The queue\<close>

record job =
  jb_ident :: nat
  jb_execution_id :: string
  jb_bundle :: json
  jb_cancellation_requested :: bool

record queue =
  q_producer_commit :: string
  q_total :: nat
  q_capacity :: nat
  q_jobs :: "(string, job) dict"
  q_reservations :: "string list"
  q_accepting :: bool
  q_next_ident :: nat

definition init_queue ::
  "string \<Rightarrow> 'c option \<Rightarrow> 'r option \<Rightarrow> int \<Rightarrow> int \<Rightarrow> queue result" where
  "init_queue producer_commit worker_command runner max_workers max_queue =
     bindE (ensure (fullmatch_hex 40 producer_commit) ValueError) (\<lambda>_.
     bindE (ensure (\<not> (max_workers < 1 \<or> max_queue < 0)) ValueError) (\<lambda>_.
     bindE (ensure (\<not> (runner \<noteq> None \<and> worker_command \<noteq> None)) ValueError) (\<lambda>_.
     bindE (ensure (runner \<noteq> None \<or> worker_command \<noteq> None) ValueError) (\<lambda>_.
     Inr \<lparr>q_producer_commit = producer_commit, q_total = nat (max_workers + max_queue),
          q_capacity = nat (max_workers + max_queue), q_jobs = [], q_reservations = [],
          q_accepting = True, q_next_ident = 0\<rparr>))))"

definition queue_error :: "string \<Rightarrow> string \<Rightarrow> bool \<Rightarrow> string \<Rightarrow> json" where
  "queue_error code category retryable message =
     JObj [(''schema_version'', JStr ''1.0.0''), (''error_code'', JStr code),
           (''category'', JStr category), (''retryable'', JBool retryable),
           (''message'', JStr (take 512 message))]"

text \<open>Leaving the slot: \<open>BoundedSemaphore.release\<close> raises above the initial value.\<close>

definition release_slot :: "queue \<Rightarrow> queue result" where
  "release_slot q =
     (if q_capacity q < q_total q then Inr (q\<lparr>q_capacity := q_capacity q + 1\<rparr>) else Inl ValueError)"

definition reserve_capacity :: "string \<Rightarrow> queue \<Rightarrow> unit result \<times> queue" where
  "reserve_capacity intent_id q =
     (if \<not> q_accepting q then (Inl WorkerDispatchFailedError, q)
      else if intent_id \<in> set (q_reservations q) then (Inl WorkerDispatchFailedError, q)
      else if q_capacity q = 0 then (Inl QuotaExceededError, q)
      else (Inr (), q\<lparr>q_capacity := q_capacity q - 1, q_reservations := q_reservations q @ [intent_id]\<rparr>))"

definition release_capacity_reservation :: "string \<Rightarrow> queue \<Rightarrow> queue" where
  "release_capacity_reservation intent_id q =
     (if intent_id \<notin> set (q_reservations q) then q
      else (let q' = q\<lparr>q_reservations := remove1 intent_id (q_reservations q)\<rparr>
            in case release_slot q' of Inl e \<Rightarrow> q' | Inr q'' \<Rightarrow> q''))"

text \<open>The first part of \<open>dispatch\<close>: a reserved slot is consumed, otherwise one is acquired.\<close>

definition take_slot :: "string \<Rightarrow> queue \<Rightarrow> queue result" where
  "take_slot intent_id q =
     (if intent_id \<in> set (q_reservations q)
      then Inr (q\<lparr>q_reservations := remove1 intent_id (q_reservations q)\<rparr>)
      else if \<not> q_accepting q then Inl WorkerDispatchFailedError
      else if q_capacity q = 0 then Inl QuotaExceededError
      else Inr (q\<lparr>q_capacity := q_capacity q - 1\<rparr>))"

definition drop_slot :: "queue \<Rightarrow> queue" where
  "drop_slot q = (case release_slot q of Inl e \<Rightarrow> q | Inr q' \<Rightarrow> q')"

record queue_env =
  qe_submit_ok :: bool
  qe_clock :: "nat \<Rightarrow> string"
  qe_append :: "nat \<Rightarrow> append_outcome"
  qe_others :: "nat \<Rightarrow> queue world \<Rightarrow> queue world"

definition move ::
  "string \<Rightarrow> string list \<Rightarrow> string \<Rightarrow> json \<Rightarrow> transition_request" where
  "move execution_id expected status err =
     \<lparr>tr_execution_id = execution_id, tr_expected_statuses = expected, tr_status = status,
      tr_receipt_digest = JNull, tr_terminal_receipt = JNull, tr_error = err\<rparr>"

definition publish_job :: "string \<Rightarrow> json \<Rightarrow> queue \<Rightarrow> queue" where
  "publish_job execution_id bundle q =
     q\<lparr>q_jobs := AList.update execution_id
          \<lparr>jb_ident = q_next_ident q, jb_execution_id = execution_id, jb_bundle = bundle,
           jb_cancellation_requested = False\<rparr> (q_jobs q),
       q_next_ident := Suc (q_next_ident q)\<rparr>"

text \<open>
  The critical section of \<open>dispatch\<close>. \<open>NoSlot\<close>: it raised before it owned a slot. \<open>Held\<close>: it
  raised while it owned a slot that no job has yet. \<open>Unsubmitted\<close>: the job with this identity
  is published and durably queued, but the thread pool refused it.
\<close>

datatype attempt = NoSlot exn | Held exn | Unsubmitted nat | Published

definition enqueue_attempt ::
  "services \<Rightarrow> queue_env \<Rightarrow> string \<Rightarrow> string \<Rightarrow> json \<Rightarrow> queue world \<Rightarrow> attempt \<times> queue world" where
  "enqueue_attempt svc env execution_id intent_id bundle w =
     (case take_slot intent_id (w_port w) of
        Inl e \<Rightarrow> (NoSlot e, w)
      | Inr q \<Rightarrow>
          (case transition_execution svc (move execution_id [''ADMITTED''] ''QUEUED'' JNull)
                  (qe_clock env 1) (qe_append env 1) (w_ledger w) of
             (Inl e, l) \<Rightarrow> (Held e, w\<lparr>w_ledger := l, w_port := q\<rparr>)
           | (Inr None, l) \<Rightarrow> (Held WorkerDispatchFailedError, w\<lparr>w_ledger := l, w_port := q\<rparr>)
           | (Inr (Some rec), l) \<Rightarrow>
               (if qe_submit_ok env then Published else Unsubmitted (q_next_ident q),
                w\<lparr>w_ledger := l, w_port := publish_job execution_id bundle q\<rparr>)))"

text \<open>The handler: forget the job if it is still this one, give the slot back.\<close>

definition withdraw_job :: "string \<Rightarrow> nat \<Rightarrow> queue \<Rightarrow> queue" where
  "withdraw_job execution_id ident q =
     (case map_of (q_jobs q) execution_id of
        Some other \<Rightarrow>
          (if jb_ident other = ident
           then q\<lparr>q_jobs := AList.delete execution_id (q_jobs q)\<rparr> else q)
      | None \<Rightarrow> q)"

definition enqueue ::
  "services \<Rightarrow> queue_env \<Rightarrow> string \<Rightarrow> string \<Rightarrow> json \<Rightarrow> queue world \<Rightarrow> json result \<times> queue world" where
  "enqueue svc env execution_id intent_id bundle w =
     (case enqueue_attempt svc env execution_id intent_id bundle w of
        (Published, w1) \<Rightarrow>
          (Inr (JObj [(''dispatched'', JBool True), (''execution_id'', JStr execution_id),
                      (''intent_id'', JStr intent_id), (''status'', JStr ''QUEUED'')]), w1)
      | (NoSlot e, w1) \<Rightarrow> (Inl e, w1)
      | (Held e, w1) \<Rightarrow>
          (let w2 = qe_others env 1 w1 in (Inl e, w2\<lparr>w_port := drop_slot (w_port w2)\<rparr>))
      | (Unsubmitted ident, w1) \<Rightarrow>
          (let w2 = qe_others env 1 w1;
               w3 = qe_others env 2
                      (w2\<lparr>w_port := drop_slot (withdraw_job execution_id ident (w_port w2))\<rparr>) in
           case transition_execution svc
                  (move execution_id [''QUEUED''] ''FAILED''
                     (queue_error ''ERR_WORKER_DISPATCH_FAILED'' ''DISPATCH'' True
                        ''Worker queue submission failed''))
                  (qe_clock env 2) (qe_append env 2) (w_ledger w3) of
             (Inl e, l) \<Rightarrow> (Inl e, w3\<lparr>w_ledger := l\<rparr>)
           | (Inr _, l) \<Rightarrow> (Inl RuntimeError, w3\<lparr>w_ledger := l\<rparr>)))"

definition queue_dispatch ::
  "services \<Rightarrow> queue_env \<Rightarrow> json \<Rightarrow> queue world \<Rightarrow> json result \<times> queue world" where
  "queue_dispatch svc env bundle w =
     (case bindE (schema_validate svc ''authorized-execution'' bundle) (\<lambda>_.
           bindE (bindE (bindE (getitem bundle ''admission'') (\<lambda>a. getitem a ''execution_id'')) as_str)
             (\<lambda>execution_id.
           bindE (bindE (bindE (getitem bundle ''intent'') (\<lambda>i. getitem i ''intent_id'')) as_str)
             (\<lambda>intent_id. Inr (execution_id, intent_id)))) of
        Inl e \<Rightarrow> (Inl e, w)
      | Inr (execution_id, intent_id) \<Rightarrow> enqueue svc env execution_id intent_id bundle w)"

definition queue_port :: "services \<Rightarrow> queue_env \<Rightarrow> queue dispatch_port" where
  "queue_port svc env =
     \<lparr>dp_reserve_capacity = reserve_capacity, dp_release_capacity = release_capacity_reservation,
      dp_dispatch = queue_dispatch svc env\<rparr>"

text \<open>The done callback of a job's future.\<close>

definition finish_job :: "job \<Rightarrow> queue \<Rightarrow> queue" where
  "finish_job jb q =
     (case map_of (q_jobs q) (jb_execution_id jb) of
        Some other \<Rightarrow>
          (if jb_ident other = jb_ident jb
           then drop_slot (q\<lparr>q_jobs := AList.delete (jb_execution_id jb) (q_jobs q)\<rparr>) else q)
      | None \<Rightarrow> q)"


section \<open>Validation of a terminal result\<close>

definition sub_item :: "json \<Rightarrow> string \<Rightarrow> string \<Rightarrow> json result" where
  "sub_item bundle part field = bindE (getitem bundle part) (\<lambda>d. getitem d field)"

definition terminal_receipt_check ::
  "services \<Rightarrow> string \<Rightarrow> json \<Rightarrow> json \<Rightarrow> json \<Rightarrow> json \<Rightarrow> json \<Rightarrow> unit result" where
  "terminal_receipt_check svc producer_commit bundle execution_id intent_id receipt receipt_digest =
     (case receipt of
        JObj r \<Rightarrow>
          bindE (schema_validate svc ''receipt-lineage'' receipt) (\<lambda>_.
          bindE (sub_item bundle ''intent'' ''intent_digest'') (\<lambda>intent_digest.
          bindE (sub_item bundle ''admission'' ''admission_id'') (\<lambda>admission_id.
          bindE (sub_item bundle ''admission'' ''admission_digest'') (\<lambda>admission_digest.
          bindE (bindE (sub_item bundle ''admission'' ''policy_context'')
                   (\<lambda>ctx. getitem ctx ''controller_commit'')) (\<lambda>controller_commit.
          bindE (sub_item bundle ''intent'' ''workload'') (\<lambda>workload.
          bindE (getitem workload ''catalog_backend_ref'') (\<lambda>ref.
          bindE (forE (\<lambda>(k, v). must_equal (obj_get_default r ''provenance'' (JObj [])) k v)
             [(''intent_id'', intent_id), (''intent_digest'', intent_digest),
              (''admission_id'', admission_id), (''admission_digest'', admission_digest),
              (''execution_id'', execution_id), (''controller_commit'', controller_commit),
              (''catalog_backend_ref'', ref), (''backend_commit'', ref),
              (''producer_commit'', JStr producer_commit)]) (\<lambda>_.
          bindE (getitem workload ''model_plugin_id'') (\<lambda>plugin.
          bindE (getitem workload ''dataset_id'') (\<lambda>dataset.
          bindE (getitem workload ''requested_scope'') (\<lambda>scope.
          bindE (forE (\<lambda>(k, v). must_equal (obj_get_default r ''workload'' (JObj [])) k v)
             [(''model_plugin_id'', plugin), (''dataset_id'', dataset), (''executed_scope'', scope)]) (\<lambda>_.
          bindE (canonicalize_jcs receipt) (\<lambda>bytes.
          ensure (py_eq receipt_digest (JStr (sha256_digest (svc_sha svc) bytes)))
            WorkerDispatchFailedError)))))))))))))
      | _ \<Rightarrow> Inl WorkerDispatchFailedError)"

definition validate_terminal_result ::
  "services \<Rightarrow> string \<Rightarrow> json \<Rightarrow> json \<Rightarrow> (string \<times> json) list result" where
  "validate_terminal_result svc producer_commit bundle result =
     (case result of
        JObj r \<Rightarrow>
          bindE (sub_item bundle ''admission'' ''execution_id'') (\<lambda>execution_id.
          bindE (sub_item bundle ''intent'' ''intent_id'') (\<lambda>intent_id.
          bindE (sub_item bundle ''intent'' ''operation'') (\<lambda>operation.
          bindE (must_equal result ''execution_id'' execution_id) (\<lambda>_.
          bindE (must_equal result ''intent_id'' intent_id) (\<lambda>_.
          bindE (must_equal result ''operation'' operation) (\<lambda>_.
          bindE (ensure (is_bool (obj_get r ''dispatched'')) WorkerDispatchFailedError) (\<lambda>_.
          bindE (hash_in TERMINAL_STATUSES (obj_get r ''status'')) (\<lambda>is_terminal.
          bindE (ensure is_terminal WorkerDispatchFailedError) (\<lambda>_.
          bindE (if obj_get r ''status'' = JStr ''COMPLETED'' then
                   bindE (ensure (obj_get r ''dispatched'' = JBool True \<and> obj_get r ''error'' = JNull)
                            WorkerDispatchFailedError) (\<lambda>_.
                   if py_eq operation (JStr ''MATERIALIZE_DATASET'')
                   then ensure (obj_get r ''receipt'' = JNull \<and> obj_get r ''receipt_digest'' = JNull)
                          WorkerDispatchFailedError
                   else terminal_receipt_check svc producer_commit bundle execution_id intent_id
                          (obj_get r ''receipt'') (obj_get r ''receipt_digest''))
                 else
                   bindE (ensure (obj_get r ''receipt'' = JNull \<and> obj_get r ''receipt_digest'' = JNull)
                            WorkerDispatchFailedError) (\<lambda>_.
                   bindE (ensure (is_obj (obj_get r ''error'')) WorkerDispatchFailedError) (\<lambda>_.
                   bindE (schema_validate svc ''preflight-error'' (obj_get r ''error'')) (\<lambda>_.
                   ensure (obj_get r ''status'' = JStr ''FAILED'' \<or> obj_get r ''dispatched'' = JBool True)
                     WorkerDispatchFailedError)))) (\<lambda>_.
          Inr r))))))))))
      | _ \<Rightarrow> Inl WorkerDispatchFailedError)"

section \<open>Running, cancelling, recovering\<close>

record run_env =
  re_raw :: "json result"
  re_clock :: "nat \<Rightarrow> string"
  re_append :: "nat \<Rightarrow> append_outcome"
  re_others :: "nat \<Rightarrow> ledger \<Rightarrow> ledger"

text \<open>
  \<open>_run_job\<close> on a pool thread. \<open>re_raw\<close> is what the runner returns or raises. The result says
  whether the thread ends normally; the future keeps an exception and runs the callback either
  way. \<open>type_name\<close> is the class name that goes into the message of an unexpected failure.
\<close>

definition run_failure :: "exn \<Rightarrow> string \<Rightarrow> string \<times> json" where
  "run_failure e type_name =
     (if e = WorkerProcessCancelled then
        (''CANCELLED'', queue_error ''ERR_CANCELLED'' ''WORKER'' True ''Worker process was cancelled'')
      else if e = WorkerProcessTimedOut then
        (''TIMED_OUT'', queue_error ''ERR_TIMEOUT'' ''WORKER'' True ''Worker process exceeded its deadline'')
      else
        (''FAILED'', queue_error ''ERR_WORKER_DISPATCH_FAILED'' ''DISPATCH'' True
                       (''Worker process failed ('' @ type_name @ '')'')))"

definition run_try ::
  "services \<Rightarrow> string \<Rightarrow> job \<Rightarrow> run_env \<Rightarrow> ledger \<Rightarrow> unit result \<times> ledger" where
  "run_try svc producer_commit jb env l =
     (case bindE (re_raw env) (validate_terminal_result svc producer_commit (jb_bundle jb)) of
        Inl e \<Rightarrow> (Inl e, l)
      | Inr result \<Rightarrow>
          (case obj_get result ''status'' of
             JStr status \<Rightarrow>
               (case transition_execution svc
                       \<lparr>tr_execution_id = jb_execution_id jb, tr_expected_statuses = [''RUNNING''],
                        tr_status = status, tr_receipt_digest = obj_get result ''receipt_digest'',
                        tr_terminal_receipt = obj_get result ''receipt'',
                        tr_error = obj_get result ''error''\<rparr>
                       (re_clock env 2) (re_append env 2) l of
                  (Inl e, l') \<Rightarrow> (Inl e, l') | (Inr _, l') \<Rightarrow> (Inr (), l'))
           | _ \<Rightarrow> (Inl TypeError, l)))"

definition run_job ::
  "services \<Rightarrow> string \<Rightarrow> job \<Rightarrow> string \<Rightarrow> run_env \<Rightarrow> ledger \<Rightarrow> unit result \<times> ledger" where
  "run_job svc producer_commit jb type_name env l =
     (if jb_cancellation_requested jb then (Inr (), l)
      else
        (case transition_execution svc (move (jb_execution_id jb) [''QUEUED''] ''RUNNING'' JNull)
                (re_clock env 1) (re_append env 1) l of
           (Inl e, l1) \<Rightarrow> (Inl e, l1)
         | (Inr None, l1) \<Rightarrow> (Inr (), l1)
         | (Inr (Some rec), l1) \<Rightarrow>
             (case run_try svc producer_commit jb env (re_others env 1 l1) of
                (Inr _, l2) \<Rightarrow> (Inr (), l2)
              | (Inl e, l2) \<Rightarrow>
                  (let (status, err) = run_failure e type_name in
                   case transition_execution svc
                          (move (jb_execution_id jb) [''RUNNING''] status err)
                          (re_clock env 3) (re_append env 3) (re_others env 2 l2) of
                     (Inl e', l3) \<Rightarrow> (Inl e', l3) | (Inr _, l3) \<Rightarrow> (Inr (), l3)))))"

text \<open>The signal part of \<open>cancel\<close>, under the queue's lock.\<close>

definition signal_cancel :: "string \<Rightarrow> queue \<Rightarrow> queue" where
  "signal_cancel execution_id q =
     (case map_of (q_jobs q) execution_id of
        None \<Rightarrow> q
      | Some jb \<Rightarrow>
          q\<lparr>q_jobs := AList.update execution_id (jb\<lparr>jb_cancellation_requested := True\<rparr>) (q_jobs q)\<rparr>)"

definition cancel ::
  "services \<Rightarrow> queue_env \<Rightarrow> string \<Rightarrow> queue world \<Rightarrow> ledger_record option result \<times> queue world" where
  "cancel svc env execution_id w =
     (case get_by_execution_id execution_id (w_ledger w) of
        None \<Rightarrow> (Inl KeyError, w)
      | Some current \<Rightarrow>
          (if rec_status current \<in> set TERMINAL_STATUSES then (Inr None, w)
           else
             (let w1 = qe_others env 1 w in
              case transition_execution svc
                     (move execution_id NONTERMINAL_STATUSES ''CANCELLED''
                        (queue_error ''ERR_CANCELLED'' ''WORKER'' True ''Execution was cancelled''))
                     (qe_clock env 1) (qe_append env 1) (w_ledger w1) of
                (Inl e, l) \<Rightarrow> (Inl e, w1\<lparr>w_ledger := l\<rparr>)
              | (Inr None, l) \<Rightarrow>
                  (if get_by_execution_id execution_id l = None
                   then (Inl KeyError, w1\<lparr>w_ledger := l\<rparr>) else (Inr None, w1\<lparr>w_ledger := l\<rparr>))
              | (Inr (Some cancelled), l) \<Rightarrow>
                  (let w2 = qe_others env 2 (w1\<lparr>w_ledger := l\<rparr>)
                   in (Inr (Some cancelled),
                       w2\<lparr>w_port := signal_cancel execution_id (w_port w2)\<rparr>)))))"

text \<open>
  \<open>recover_orphans\<close>: the active identities are read once, then every nonterminal record that
  no job of this process owns is failed. Each element of \<open>envs\<close> is the clock, the append and the
  interference of one transition.
\<close>

definition orphan_error :: json where
  "orphan_error =
     queue_error ''ERR_WORKER_DISPATCH_FAILED'' ''DISPATCH'' True
       ''Controller restarted with an orphaned nonterminal execution''"

fun recover_records ::
  "services \<Rightarrow> string list \<Rightarrow> ledger_record list \<Rightarrow> (nat \<Rightarrow> string \<times> append_outcome) \<Rightarrow> nat \<Rightarrow>
   ledger \<Rightarrow> nat result \<times> ledger" where
  "recover_records svc active [] env n l = (Inr 0, l)"
| "recover_records svc active (rec # recs) env n l =
     (if rec_execution_id rec \<in> set active then recover_records svc active recs env n l
      else
        (case transition_execution svc
                (move (rec_execution_id rec) [rec_status rec] ''FAILED'' orphan_error)
                (fst (env n)) (snd (env n)) l of
           (Inl e, l') \<Rightarrow> (Inl e, l')
         | (Inr moved, l') \<Rightarrow>
             (case recover_records svc active recs env (Suc n) l' of
                (Inl e, l'') \<Rightarrow> (Inl e, l'')
              | (Inr k, l'') \<Rightarrow> (Inr (if moved = None then k else Suc k), l''))))"

definition recover_orphans ::
  "services \<Rightarrow> (nat \<Rightarrow> string \<times> append_outcome) \<Rightarrow> queue world \<Rightarrow> nat result \<times> queue world" where
  "recover_orphans svc env w =
     (case list_nonterminal_records (w_ledger w) of
        Inl e \<Rightarrow> (Inl e, w)
      | Inr recs \<Rightarrow>
          (case recover_records svc (map fst (q_jobs (w_port w))) recs env 0 (w_ledger w) of
             (r, l) \<Rightarrow> (r, w\<lparr>w_ledger := l\<rparr>)))"


text \<open>
  \<open>shutdown\<close>. The first wait lets the other threads run (\<open>se_drain\<close>) until no capacity
  reservation is left; the call is still waiting (\<open>None\<close>) while there is one. \<open>se_late\<close> tells
  whether the deadline passed meanwhile, \<open>se_pending\<close> which jobs had not finished at the
  deadline, \<open>se_stuck\<close> whether some outlived the cancellation grace. A job whose durable
  cancellation fails is signalled all the same.
\<close>

record shutdown_env =
  se_timeout_seconds :: int
  se_drain :: "queue world \<Rightarrow> queue world"
  se_late :: bool
  se_pending :: "string list"
  se_stuck :: bool
  se_cancel :: "string \<Rightarrow> queue_env"

definition cancel_pending :: "services \<Rightarrow> shutdown_env \<Rightarrow> string \<Rightarrow> queue world \<Rightarrow> queue world" where
  "cancel_pending svc env execution_id w =
     (case cancel svc (se_cancel env execution_id) execution_id w of
        (Inr _, w') \<Rightarrow> w'
      | (Inl e, w') \<Rightarrow> w'\<lparr>w_port := signal_cancel execution_id (w_port w')\<rparr>)"

definition shutdown ::
  "services \<Rightarrow> shutdown_env \<Rightarrow> queue world \<Rightarrow> (unit result \<times> queue world) option" where
  "shutdown svc env w =
     (if se_timeout_seconds env < 0 then Some (Inl ValueError, w)
      else
        (let w1 = se_drain env (w\<lparr>w_port := (w_port w)\<lparr>q_accepting := False\<rparr>\<rparr>) in
         if q_reservations (w_port w1) \<noteq> [] then None
         else
           (let remaining = filter (\<lambda>e. e \<in> set (se_pending env)) (map fst (q_jobs (w_port w1)));
                w2 = fold (cancel_pending svc env) remaining w1
            in Some (if se_late env \<or> (remaining \<noteq> [] \<and> se_stuck env) then Inl RuntimeError else Inr (),
                     w2))))"

end
