(* ===== verification/Queue_Inv.thy ===== *)
theory Queue_Inv
  imports Dispatch_Queue Ledger_Steps
begin

text \<open>
  The queue never loses a slot and never frees one twice. \<open>queue_step\<close> interleaves the critical
  sections of all threads (gates, pool threads, cancellation, any ledger operation);
  \<open>gh_held\<close> counts the threads between a failed \<open>dispatch\<close> and its handler that own a slot, and
  \<open>gh_unsubmitted\<close> the published jobs the pool refused, which no callback will ever finish.
\<close>

record ghost =
  gh_held :: nat
  gh_unsubmitted :: "nat set"

fun after_attempt :: "attempt \<Rightarrow> ghost \<Rightarrow> ghost" where
  "after_attempt (Held e) g = g\<lparr>gh_held := Suc (gh_held g)\<rparr>"
| "after_attempt (Unsubmitted n) g = g\<lparr>gh_unsubmitted := insert n (gh_unsubmitted g)\<rparr>"
| "after_attempt _ g = g"

inductive queue_step ::
  "services \<Rightarrow> queue world \<times> ghost \<Rightarrow> queue world \<times> ghost \<Rightarrow> bool" for svc where
  ledger: "ledger_step svc (w_ledger w) l \<Longrightarrow> queue_step svc (w, g) (w\<lparr>w_ledger := l\<rparr>, g)"
| audit: "queue_step svc (w, g) (w\<lparr>w_audit := a\<rparr>, g)"
| reserve: "reserve_capacity i (w_port w) = (r, q) \<Longrightarrow> queue_step svc (w, g) (w\<lparr>w_port := q\<rparr>, g)"
| release: "queue_step svc (w, g) (w\<lparr>w_port := release_capacity_reservation i (w_port w)\<rparr>, g)"
| attempt: "enqueue_attempt svc env e i b w = (out, w') \<Longrightarrow>
     queue_step svc (w, g) (w', after_attempt out g)"
| give_back: "gh_held g = Suc n \<Longrightarrow>
     queue_step svc (w, g) (w\<lparr>w_port := drop_slot (w_port w)\<rparr>, g\<lparr>gh_held := n\<rparr>)"
| withdraw: "n \<in> gh_unsubmitted g \<Longrightarrow> map_of (q_jobs (w_port w)) e = Some jb \<Longrightarrow> jb_ident jb = n \<Longrightarrow>
     queue_step svc (w, g) (w\<lparr>w_port := drop_slot (withdraw_job e n (w_port w))\<rparr>,
                            g\<lparr>gh_unsubmitted := gh_unsubmitted g - {n}\<rparr>)"
| finish: "jb_ident jb \<notin> gh_unsubmitted g \<Longrightarrow>
     queue_step svc (w, g) (w\<lparr>w_port := finish_job jb (w_port w)\<rparr>, g)"
| signal: "queue_step svc (w, g) (w\<lparr>w_port := signal_cancel e (w_port w)\<rparr>, g)"
| stop: "queue_step svc (w, g) (w\<lparr>w_port := (w_port w)\<lparr>q_accepting := False\<rparr>\<rparr>, g)"

definition slots_ok :: "queue \<Rightarrow> nat \<Rightarrow> bool" where
  "slots_ok q held \<longleftrightarrow>
     q_capacity q + length (q_reservations q) + length (q_jobs q) + held = q_total q"

definition jobs_ok :: "queue \<Rightarrow> nat set \<Rightarrow> bool" where
  "jobs_ok q unsubmitted \<longleftrightarrow>
     distinct (map fst (q_jobs q)) \<and>
     (\<forall>e jb. map_of (q_jobs q) e = Some jb \<longrightarrow> jb_execution_id jb = e \<and> jb_ident jb < q_next_ident q) \<and>
     (\<forall>e jb e' jb'. map_of (q_jobs q) e = Some jb \<longrightarrow> map_of (q_jobs q) e' = Some jb' \<longrightarrow>
        jb_ident jb = jb_ident jb' \<longrightarrow> e = e') \<and>
     (\<forall>n\<in>unsubmitted. \<exists>e jb. map_of (q_jobs q) e = Some jb \<and> jb_ident jb = n)"

text \<open>Every job's execution has left the status ADMITTED, for ever.\<close>

definition job_started :: "ledger \<Rightarrow> string \<Rightarrow> bool" where
  "job_started l e \<longleftrightarrow> (\<exists>r. get_by_execution_id e l = Some r \<and> rec_status r \<noteq> ''ADMITTED'')"

definition queue_inv :: "services \<Rightarrow> queue world \<times> ghost \<Rightarrow> bool" where
  "queue_inv svc = (\<lambda>(w, g).
     ledger_inv svc (w_ledger w) \<and> slots_ok (w_port w) (gh_held g) \<and>
     jobs_ok (w_port w) (gh_unsubmitted g) \<and>
     (\<forall>e. e \<in> fst ` set (q_jobs (w_port w)) \<longrightarrow> job_started (w_ledger w) e))"

section \<open>The ledger side\<close>

lemma get_by_execution_id_iff:
  assumes "ledger_inv svc l"
  shows "get_by_execution_id e l = Some r \<longleftrightarrow>
    (\<exists>i. map_of (lg_by_intent_id l) i = Some r \<and> rec_execution_id r = e)"
proof -
  note agree = ledger_inv_distinct_reservations(3) [OF assms]
  have "rec_intent_id r \<noteq> []" if "map_of (lg_by_intent_id l) i = Some r" for i r
  proof -
    from assms that have "record_ok svc (lg_expected_producer_commit l) r"
      unfolding ledger_inv_def records_ok_def by blast
    then show ?thesis by (auto simp: record_ok_def dest: snapshot_facts(2))
  qed
  then have "i \<noteq> []" if "map_of (lg_by_intent_id l) i = Some r" for i r
    using indexes_agreeD(1) [OF agree that] that by blast
  then show ?thesis
    using indexes_agreeD(3,5) [OF agree]
    by (fastforce simp: get_by_execution_id_def split: option.splits)
qed

lemma admitted_not_next: "''ADMITTED'' \<notin> set (legal_next s)"
  by (auto simp: legal_next_def LEGAL_TRANSITIONS_def TERMINAL_STATUSES_def split: option.splits if_splits)

lemma moves_not_admitted:
  assumes "moves_to\<^sup>*\<^sup>* r q" and "rec_status r \<noteq> ''ADMITTED''"
  shows "rec_status q \<noteq> ''ADMITTED''"
  using assms
proof (induction rule: rtranclp_induct)
  case (step q w)
  then show ?case using moves_to_same(10) [OF step.hyps(2)] admitted_not_next by metis
qed simp

lemma job_started_step:
  assumes "ledger_inv svc l" and "ledger_step svc l l'" and "job_started l e"
  shows "job_started l' e"
proof -
  obtain i r where r: "map_of (lg_by_intent_id l) i = Some r" "rec_execution_id r = e"
    "rec_status r \<noteq> ''ADMITTED''"
    using assms(1,3) by (auto simp: job_started_def get_by_execution_id_iff)
  obtain q where q: "map_of (lg_by_intent_id l') i = Some q" "moves_to\<^sup>*\<^sup>* r q"
    using ledger_step_history [OF assms(1,2) r(1)] by blast
  have "rec_execution_id q = e" "rec_status q \<noteq> ''ADMITTED''"
    using moves_same [OF q(2)] moves_not_admitted [OF q(2) r(3)] r(2) by simp_all
  with q(1) ledger_step_inv [OF assms(1,2)] show ?thesis
    by (auto simp: job_started_def get_by_execution_id_iff)
qed

text \<open>A successful move out of ADMITTED: before it the execution was admitted, after it not.\<close>

lemma queued_transition:
  assumes inv: "ledger_inv svc l"
    and t: "transition_execution svc (move e [''ADMITTED''] ''QUEUED'' JNull) now outcome l
            = (Inr (Some r), l')"
  shows "\<not> job_started l e" and "job_started l' e" and "ledger_step svc l l'"
proof -
  let ?t = "move e [''ADMITTED''] ''QUEUED'' JNull"
  show "ledger_step svc l l'" using t by (rule ledger_step.transition) (simp add: move_def)
  from t have "ledger_inv svc l'" using transition_inv inv by (simp add: move_def)
  note agree = ledger_inv_distinct_reservations(3) [OF inv]
  have no_repeat: "transition_decision svc ?t now l \<noteq> Inr (Some (False, p))" for p
  proof
    assume "transition_decision svc ?t now l = Inr (Some (False, p))"
    then show False
      by (rule transition_decision_facts) (auto simp: move_def)
  qed
  from t show "\<not> job_started l e"
  proof (cases rule: transition_outcome)
    case (moved q lp)
    obtain i p where f: "map_of (lg_by_execution_id l) e = Some i" "map_of (lg_by_intent_id l) i = Some p"
        "rec_status p \<in> {''ADMITTED''}"
      by (rule transition_moves [OF inv moved(1)]) (auto simp: move_def)
    have "rec_execution_id p = e" using indexes_agreeD(5) [OF agree f(1)] f(2) by auto
    with f inv have "get_by_execution_id e l = Some p" by (auto simp: get_by_execution_id_iff)
    with f(3) show ?thesis by (auto simp: job_started_def)
  qed (use no_repeat in auto)
  from t show "job_started l' e"
  proof (cases rule: transition_outcome)
    case (moved q lp)
    obtain i p where f: "map_of (lg_by_execution_id l) e = Some i" "map_of (lg_by_intent_id l) i = Some p"
        "moves_to p q" "rec_status q = ''QUEUED''"
      by (rule transition_moves [OF inv moved(1)]) (auto simp: move_def)
    have "rec_execution_id q = e"
      using indexes_agreeD(5) [OF agree f(1)] f(2) moves_to_same(3) [OF f(3)] by auto
    moreover have "map_of (lg_by_intent_id l') i = Some q"
      using moved(4) f(1) by (simp add: owner_of_execution_def move_def)
    ultimately show ?thesis
      using \<open>ledger_inv svc l'\<close> f(4) by (auto simp: job_started_def get_by_execution_id_iff)
  qed (use no_repeat in auto)
qed


section \<open>The queue side\<close>

lemma jobs_okD:
  assumes "jobs_ok q u" and "map_of (q_jobs q) e = Some jb"
  shows "jb_execution_id jb = e" and "jb_ident jb < q_next_ident q"
    and "map_of (q_jobs q) e' = Some jb' \<Longrightarrow> jb_ident jb = jb_ident jb' \<Longrightarrow> e = e'"
  using assms unfolding jobs_ok_def by blast+

lemma jobs_ok_unsubmitted:
  assumes "jobs_ok q u" and "n \<in> u"
  shows "\<exists>e jb. map_of (q_jobs q) e = Some jb \<and> jb_ident jb = n"
proof -
  from assms(1) have "\<forall>n\<in>u. \<exists>e jb. map_of (q_jobs q) e = Some jb \<and> jb_ident jb = n"
    unfolding jobs_ok_def by (elim conjE)
  with assms(2) show ?thesis by (rule bspec [rotated])
qed

lemma jobs_ok_same:
  assumes "jobs_ok q u" and "q_jobs q' = q_jobs q" and "q_next_ident q' = q_next_ident q"
  shows "jobs_ok q' u"
  using assms(1) unfolding jobs_ok_def assms(2,3) .

lemma drop_slot_ok:
  assumes "slots_ok q (Suc n)"
  shows "slots_ok (drop_slot q) n" and "release_slot q = Inr (drop_slot q)"
  using assms by (auto simp: slots_ok_def drop_slot_def release_slot_def)

lemma drop_slot_fields [simp]:
  "q_jobs (drop_slot q) = q_jobs q" "q_reservations (drop_slot q) = q_reservations q"
  "q_next_ident (drop_slot q) = q_next_ident q" "q_total (drop_slot q) = q_total q"
  by (auto simp: drop_slot_def release_slot_def split: if_splits)

lemma length_delete:
  "distinct (map fst d) \<Longrightarrow> map_of d k = Some v \<Longrightarrow> Suc (length (AList.delete k d)) = length d"
proof (induction d)
  case (Cons a d)
  obtain i x where a: "a = (i, x)" by (cases a)
  show ?case
  proof (cases "i = k")
    case True
    with Cons.prems a have "map_of d k = None" by (auto simp: map_of_eq_None_iff)
    with True a show ?thesis by (simp add: delete_absent)
  next
    case False
    with Cons a show ?thesis by simp
  qed
qed simp

lemma length_update_fresh: "map_of d k = None \<Longrightarrow> length (AList.update k v d) = Suc (length d)"
  by (simp add: update_fresh)

lemma remove_job:
  assumes "slots_ok q h" and "jobs_ok q u" and "map_of (q_jobs q) e = Some jb"
    and "jb_ident jb \<notin> u'" and "u' \<subseteq> u"
  defines "q' \<equiv> drop_slot (q\<lparr>q_jobs := AList.delete e (q_jobs q)\<rparr>)"
  shows "slots_ok q' h" and "jobs_ok q' u'"
    and "fst ` set (q_jobs q') \<subseteq> fst ` set (q_jobs q)"
proof -
  have d: "distinct (map fst (q_jobs q))" using assms(2) by (simp add: jobs_ok_def)
  have "slots_ok (q\<lparr>q_jobs := AList.delete e (q_jobs q)\<rparr>) (Suc h)"
    using assms(1) length_delete [OF d assms(3)] by (simp add: slots_ok_def)
  then show "slots_ok q' h" unfolding q'_def by (rule drop_slot_ok(1))
  have "\<exists>f kb. map_of (q_jobs q') f = Some kb \<and> jb_ident kb = n" if n: "n \<in> u'" for n
  proof -
    obtain f kb where f: "map_of (q_jobs q) f = Some kb" "jb_ident kb = n"
      using assms(2,5) n unfolding jobs_ok_def by blast
    with assms(3,4) n have "f \<noteq> e" by auto
    with f show ?thesis by (auto simp: q'_def)
  qed
  moreover have old: "map_of (q_jobs q') f = Some kb \<Longrightarrow> map_of (q_jobs q) f = Some kb" for f kb
    by (simp add: q'_def split: if_splits)
  moreover have "q_next_ident q' = q_next_ident q" "distinct (map fst (q_jobs q'))"
    using d by (simp_all add: q'_def)
  moreover have "map_of (q_jobs q') f = Some kb \<Longrightarrow>
      jb_execution_id kb = f \<and> jb_ident kb < q_next_ident q" for f kb
    using old jobs_okD(1,2) [OF assms(2)] by blast
  moreover have "map_of (q_jobs q') f = Some kb \<Longrightarrow> map_of (q_jobs q') f' = Some kb' \<Longrightarrow>
      jb_ident kb = jb_ident kb' \<Longrightarrow> f = f'" for f kb f' kb'
    using old jobs_okD(3) [OF assms(2)] by blast
  ultimately show "jobs_ok q' u'" unfolding jobs_ok_def by simp
  show "fst ` set (q_jobs q') \<subseteq> fst ` set (q_jobs q)"
    by (auto simp: q'_def AList.delete_eq)
qed

lemma publish_job_ok:
  assumes "slots_ok q (Suc h)" and "jobs_ok q u" and "e \<notin> fst ` set (q_jobs q)"
  shows "slots_ok (publish_job e b q) h" and "jobs_ok (publish_job e b q) u"
    and "jobs_ok (publish_job e b q) (insert (q_next_ident q) u)"
    and "fst ` set (q_jobs (publish_job e b q)) = insert e (fst ` set (q_jobs q))"
proof -
  have fresh: "map_of (q_jobs q) e = None" using assms(3) by (simp add: map_of_eq_None_iff)
  show "slots_ok (publish_job e b q) h"
    using assms(1) by (simp add: slots_ok_def publish_job_def length_update_fresh [OF fresh])
  let ?q = "publish_job e b q"
  have d: "distinct (map fst (q_jobs ?q))"
    using assms(2) by (simp add: jobs_ok_def publish_job_def)
  have new: "map_of (q_jobs ?q) f = Some kb \<Longrightarrow>
      (f = e \<and> jb_execution_id kb = e \<and> jb_ident kb = q_next_ident q) \<or>
      (f \<noteq> e \<and> map_of (q_jobs q) f = Some kb \<and> jb_execution_id kb = f \<and> jb_ident kb < q_next_ident q)"
    for f kb
    using assms(2) unfolding jobs_ok_def by (auto simp: publish_job_def split: if_splits)
  have known: "map_of (q_jobs q) f = Some kb \<Longrightarrow> map_of (q_jobs ?q) f = Some kb" for f kb
    using fresh by (auto simp: publish_job_def)
  have own: "\<exists>kb. map_of (q_jobs ?q) e = Some kb \<and> jb_ident kb = q_next_ident q"
    by (simp add: publish_job_def)
  have inj: "map_of (q_jobs ?q) f = Some kb \<Longrightarrow> map_of (q_jobs ?q) f' = Some kb' \<Longrightarrow>
      jb_ident kb = jb_ident kb' \<Longrightarrow> f = f'" for f kb f' kb'
    using new [of f kb] new [of f' kb'] jobs_okD(3) [OF assms(2), of f kb f' kb'] by auto
  have next_ident: "q_next_ident ?q = Suc (q_next_ident q)" by (simp add: publish_job_def)
  have base: "map_of (q_jobs ?q) f = Some kb \<Longrightarrow> jb_execution_id kb = f \<and> jb_ident kb < q_next_ident ?q"
    for f kb using new [of f kb] next_ident by auto
  have old: "\<exists>f kb. map_of (q_jobs ?q) f = Some kb \<and> jb_ident kb = n" if "n \<in> u" for n
    using assms(2) that known unfolding jobs_ok_def by blast
  show "jobs_ok ?q u" unfolding jobs_ok_def using d base inj old by blast
  show "jobs_ok ?q (insert (q_next_ident q) u)" unfolding jobs_ok_def using d base inj old own by blast
  show "fst ` set (q_jobs ?q) = insert e (fst ` set (q_jobs q))"
    by (auto simp: publish_job_def update_fresh [OF fresh])
qed

lemma take_slot_ok:
  assumes "slots_ok q h" and "take_slot i q = Inr q'"
  shows "slots_ok q' (Suc h)" and "q_jobs q' = q_jobs q" and "q_next_ident q' = q_next_ident q"
proof -
  have "Suc (length (remove1 i (q_reservations q))) = length (q_reservations q)"
    if "i \<in> set (q_reservations q)"
    using that length_pos_if_in_set [OF that] by (simp add: length_remove1)
  with assms show "slots_ok q' (Suc h)" "q_jobs q' = q_jobs q" "q_next_ident q' = q_next_ident q"
    by (auto simp: take_slot_def slots_ok_def split: if_splits)
qed


section \<open>Every step keeps the queue invariant\<close>

lemma queue_inv_port:
  assumes "queue_inv svc (w, g)" and "slots_ok q (gh_held g')" and "jobs_ok q (gh_unsubmitted g')"
    and "fst ` set (q_jobs q) \<subseteq> fst ` set (q_jobs (w_port w))"
  shows "queue_inv svc (w\<lparr>w_port := q\<rparr>, g')"
  using assms by (auto simp: queue_inv_def)

lemma queue_inv_ledger:
  assumes "queue_inv svc (w, g)" and "ledger_step svc (w_ledger w) l"
  shows "queue_inv svc (w\<lparr>w_ledger := l\<rparr>, g)"
  using assms ledger_step_inv job_started_step unfolding queue_inv_def by fastforce

lemma reserve_keeps:
  assumes "slots_ok q h" and "reserve_capacity i q = (r, q')"
  shows "slots_ok q' h" and "q_jobs q' = q_jobs q" and "q_next_ident q' = q_next_ident q"
  using assms by (auto simp: reserve_capacity_def slots_ok_def split: if_splits)

lemma release_keeps_slots:
  assumes "slots_ok q h"
  shows "slots_ok (release_capacity_reservation i q) h"
    and "q_jobs (release_capacity_reservation i q) = q_jobs q"
    and "q_next_ident (release_capacity_reservation i q) = q_next_ident q"
proof -
  have "Suc (length (remove1 i (q_reservations q))) = length (q_reservations q)"
    if "i \<in> set (q_reservations q)"
    using that length_pos_if_in_set [OF that] by (simp add: length_remove1)
  with assms show "slots_ok (release_capacity_reservation i q) h"
    "q_jobs (release_capacity_reservation i q) = q_jobs q"
    "q_next_ident (release_capacity_reservation i q) = q_next_ident q"
    by (auto simp: release_capacity_reservation_def release_slot_def slots_ok_def Let_def)
qed

lemma signal_cancel_keeps:
  assumes "slots_ok q h" and "jobs_ok q u"
  shows "slots_ok (signal_cancel e q) h" and "jobs_ok (signal_cancel e q) u"
    and "map fst (q_jobs (signal_cancel e q)) = map fst (q_jobs q)"
proof -
  show keys: "map fst (q_jobs (signal_cancel e q)) = map fst (q_jobs q)"
    by (auto simp: signal_cancel_def keys_update_known split: option.splits)
  then have "length (q_jobs (signal_cancel e q)) = length (q_jobs q)" using map_eq_imp_length_eq by blast
  with assms(1) show "slots_ok (signal_cancel e q) h"
    by (auto simp: slots_ok_def signal_cancel_def split: option.splits)
  have same: "map_of (q_jobs (signal_cancel e q)) f = Some kb \<Longrightarrow>
      \<exists>jb. map_of (q_jobs q) f = Some jb \<and> jb_execution_id jb = jb_execution_id kb \<and>
        jb_ident jb = jb_ident kb" for f kb
    by (auto simp: signal_cancel_def split: option.splits if_splits)
  have converse: "map_of (q_jobs q) f = Some jb \<Longrightarrow>
      \<exists>kb. map_of (q_jobs (signal_cancel e q)) f = Some kb \<and> jb_ident jb = jb_ident kb" for f jb
    by (auto simp: signal_cancel_def split: option.splits)
  have "distinct (map fst (q_jobs (signal_cancel e q)))" using keys assms(2) by (simp add: jobs_ok_def)
  moreover have "map_of (q_jobs (signal_cancel e q)) f = Some kb \<Longrightarrow>
      jb_execution_id kb = f \<and> jb_ident kb < q_next_ident q" for f kb
    using same [of f kb] jobs_okD(1,2) [OF assms(2)] by fastforce
  moreover have "map_of (q_jobs (signal_cancel e q)) f = Some kb \<Longrightarrow>
      map_of (q_jobs (signal_cancel e q)) f' = Some kb' \<Longrightarrow> jb_ident kb = jb_ident kb' \<Longrightarrow> f = f'"
    for f kb f' kb'
    using same [of f kb] same [of f' kb'] jobs_okD(3) [OF assms(2)] by fastforce
  moreover have "\<exists>f kb. map_of (q_jobs (signal_cancel e q)) f = Some kb \<and> jb_ident kb = n"
    if n: "n \<in> u" for n
  proof -
    obtain f jb where "map_of (q_jobs q) f = Some jb" "jb_ident jb = n"
      using jobs_ok_unsubmitted [OF assms(2) n] by blast
    with converse [of f jb] show ?thesis by metis
  qed
  moreover have "q_next_ident (signal_cancel e q) = q_next_ident q"
    by (auto simp: signal_cancel_def split: option.splits)
  ultimately show "jobs_ok (signal_cancel e q) u" unfolding jobs_ok_def by simp
qed

lemma attempt_keeps:
  assumes inv: "queue_inv svc (w, g)" and a: "enqueue_attempt svc env e i b w = (out, w')"
  shows "queue_inv svc (w', after_attempt out g)"
proof (cases "take_slot i (w_port w)")
  case (Inl x)
  with a inv show ?thesis by (auto simp: enqueue_attempt_def)
next
  case slot: (Inr q)
  from inv have li: "ledger_inv svc (w_ledger w)" and so: "slots_ok (w_port w) (gh_held g)"
    and jo: "jobs_ok (w_port w) (gh_unsubmitted g)"
    and started: "\<forall>f. f \<in> fst ` set (q_jobs (w_port w)) \<longrightarrow> job_started (w_ledger w) f"
    by (auto simp: queue_inv_def)
  note q = take_slot_ok [OF so slot]
  have jq: "jobs_ok q (gh_unsubmitted g)" using jobs_ok_same [OF jo q(2,3)] .
  obtain res l where t: "transition_execution svc (move e [''ADMITTED''] ''QUEUED'' JNull)
      (qe_clock env 1) (qe_append env 1) (w_ledger w) = (res, l)"
    by (cases "transition_execution svc (move e [''ADMITTED''] ''QUEUED'' JNull)
      (qe_clock env 1) (qe_append env 1) (w_ledger w)")
  have "ledger_step svc (w_ledger w) l" using t by (rule ledger_step.transition) (simp add: move_def)
  note moved = queue_inv_ledger [OF inv this]
  show ?thesis
  proof (cases "\<exists>r. res = Inr (Some r)")
    case False
    then obtain x where "out = Held x" "w' = w\<lparr>w_ledger := l, w_port := q\<rparr>"
      using a slot t by (cases res) (auto simp: enqueue_attempt_def split: option.splits)
    then show ?thesis
      using queue_inv_port [OF moved, of q "g\<lparr>gh_held := Suc (gh_held g)\<rparr>"] q jq by simp
  next
    case True
    then obtain r where r: "res = Inr (Some r)" by blast
    note s = queued_transition [OF li t [unfolded r]]
    have fresh: "e \<notin> fst ` set (q_jobs q)" using started s(1) q(2) by auto
    note p = publish_job_ok [OF q(1) jq fresh, of b]
    have out: "out = (if qe_submit_ok env then Published else Unsubmitted (q_next_ident q))"
      "w' = w\<lparr>w_ledger := l, w_port := publish_job e b q\<rparr>"
      using a slot t r by (auto simp: enqueue_attempt_def)
    have "\<forall>f. f \<in> fst ` set (q_jobs (publish_job e b q)) \<longrightarrow> job_started l f"
      using moved s(2) unfolding p(4) q(2) by (simp add: queue_inv_def)
    with out p moved show ?thesis by (auto simp: queue_inv_def)
  qed
qed

lemma queue_step_inv:
  assumes inv: "queue_inv svc s" and "queue_step svc s t"
  shows "queue_inv svc t"
  using assms(2)
proof cases
  case (ledger w l g)
  with inv queue_inv_ledger show ?thesis by blast
next
  case (audit w g a)
  with inv show ?thesis by (simp add: queue_inv_def)
next
  case (reserve i w r q g)
  with inv have ok: "slots_ok (w_port w) (gh_held g)" "jobs_ok (w_port w) (gh_unsubmitted g)"
    by (auto simp: queue_inv_def)
  note k = reserve_keeps [OF ok(1) reserve(3)]
  from queue_inv_port [OF inv [unfolded reserve(1)] k(1) jobs_ok_same [OF ok(2) k(2,3)]] k(2) reserve(2)
  show ?thesis by simp
next
  case (release w g i)
  with inv have ok: "slots_ok (w_port w) (gh_held g)" "jobs_ok (w_port w) (gh_unsubmitted g)"
    by (auto simp: queue_inv_def)
  note k = release_keeps_slots [OF ok(1), of i]
  from queue_inv_port [OF inv [unfolded release(1)] k(1) jobs_ok_same [OF ok(2) k(2,3)]] k(2) release(2)
  show ?thesis by simp
next
  case (attempt env e i b w out w' g)
  with inv attempt_keeps show ?thesis by blast
next
  case (give_back g n w)
  with inv have ok: "slots_ok (w_port w) (Suc n)" "jobs_ok (w_port w) (gh_unsubmitted g)"
    by (auto simp: queue_inv_def)
  have "jobs_ok (drop_slot (w_port w)) (gh_unsubmitted g)" by (rule jobs_ok_same [OF ok(2)]) simp_all
  with queue_inv_port [OF inv [unfolded give_back(1)], of "drop_slot (w_port w)" "g\<lparr>gh_held := n\<rparr>"]
    drop_slot_ok(1) [OF ok(1)] give_back(2)
  show ?thesis by simp
next
  case (withdraw n g w e jb)
  with inv have ok: "slots_ok (w_port w) (gh_held g)" "jobs_ok (w_port w) (gh_unsubmitted g)"
    by (auto simp: queue_inv_def)
  have q: "withdraw_job e n (w_port w) = (w_port w)\<lparr>q_jobs := AList.delete e (q_jobs (w_port w))\<rparr>"
    using withdraw by (simp add: withdraw_job_def)
  have "jb_ident jb \<notin> gh_unsubmitted g - {n}" using withdraw by simp
  note k = remove_job [OF ok withdraw(4) this, unfolded q [symmetric]]
  from queue_inv_port [OF inv [unfolded withdraw(1)], of _ "g\<lparr>gh_unsubmitted := gh_unsubmitted g - {n}\<rparr>"]
    k withdraw(2) show ?thesis by auto
next
  case (finish jb g w)
  with inv have ok: "slots_ok (w_port w) (gh_held g)" "jobs_ok (w_port w) (gh_unsubmitted g)"
    by (auto simp: queue_inv_def)
  show ?thesis
  proof (cases "\<exists>kb. map_of (q_jobs (w_port w)) (jb_execution_id jb) = Some kb \<and> jb_ident kb = jb_ident jb")
    case True
    then obtain kb where kb: "map_of (q_jobs (w_port w)) (jb_execution_id jb) = Some kb"
      "jb_ident kb = jb_ident jb" by blast
    then have q: "finish_job jb (w_port w)
        = drop_slot ((w_port w)\<lparr>q_jobs := AList.delete (jb_execution_id jb) (q_jobs (w_port w))\<rparr>)"
      by (simp add: finish_job_def)
    have "jb_ident kb \<notin> gh_unsubmitted g" using kb(2) finish(3) by simp
    note k = remove_job [OF ok kb(1) this subset_refl]
    from queue_inv_port [OF inv [unfolded finish(1)], of _ g] k finish(2) q show ?thesis by simp
  next
    case False
    then have "finish_job jb (w_port w) = w_port w"
      by (auto simp: finish_job_def split: option.splits)
    with inv finish show ?thesis by simp
  qed
next
  case (signal w g e)
  with inv have ok: "slots_ok (w_port w) (gh_held g)" "jobs_ok (w_port w) (gh_unsubmitted g)"
    by (auto simp: queue_inv_def)
  note k = signal_cancel_keeps [OF ok, of e]
  have "fst ` set (q_jobs (signal_cancel e (w_port w))) = fst ` set (q_jobs (w_port w))"
    using k(3) by (metis list.set_map)
  with queue_inv_port [OF inv [unfolded signal(1)] k(1,2)] signal(2) show ?thesis by simp
next
  case (stop w g)
  with inv have ok: "slots_ok (w_port w) (gh_held g)" "jobs_ok (w_port w) (gh_unsubmitted g)"
    by (auto simp: queue_inv_def)
  let ?q = "(w_port w)\<lparr>q_accepting := False\<rparr>"
  have "slots_ok ?q (gh_held g)" using ok(1) by (simp add: slots_ok_def)
  moreover have "jobs_ok ?q (gh_unsubmitted g)" by (rule jobs_ok_same [OF ok(2)]) simp_all
  ultimately show ?thesis
    using queue_inv_port [OF inv [unfolded stop(1)], of ?q g] stop(2) by simp
qed

definition queue_start :: "services \<Rightarrow> queue world \<times> ghost \<Rightarrow> bool" where
  "queue_start svc = (\<lambda>(w, g).
     ledger_start svc (w_ledger w) \<and> g = \<lparr>gh_held = 0, gh_unsubmitted = {}\<rparr> \<and>
     (\<exists>producer command runner workers waiting.
        init_queue producer (command :: unit option) (runner :: unit option) workers waiting
          = Inr (w_port w)))"

lemma init_queue_ok:
  assumes "init_queue producer command runner workers waiting = Inr q"
  shows "q_jobs q = []" and "slots_ok q 0" and "jobs_ok q {}"
  using assms by (auto simp: init_queue_def exn_simps slots_ok_def jobs_ok_def)

interpretation worker_queue:
  invariant_system "queue_start svc" "queue_step svc" "queue_inv svc" for svc
proof
  fix s :: "queue world \<times> ghost"
  assume "queue_start svc s"
  then show "queue_inv svc s"
    using ledger_history.inv_init by (auto simp: queue_start_def queue_inv_def init_queue_ok)
qed (rule queue_step_inv)

end
