(* ===== verification/Queue_Progress.thy ===== *)
theory Queue_Progress
  imports Queue_Inv
begin

text \<open>
  Progress of the durable state machine: on a ledger that is not poisoned and whose appends
  succeed, a legal transition of a nonterminal record cannot be refused. From this follow that a
  job leaves its execution in a terminal status whatever the worker answers, and that the recovery
  at start leaves no nonterminal execution without an owner.
\<close>

definition moved_record :: "ledger_record \<Rightarrow> string \<Rightarrow> string \<Rightarrow> json \<Rightarrow> ledger_record" where
  "moved_record r status now err =
     r\<lparr>rec_status := status, rec_updated_at := now, rec_receipt_digest := JNull,
       rec_terminal_receipt := JNull, rec_error := err\<rparr>"

definition failure_statuses :: "string list" where
  "failure_statuses = [''FAILED'', ''TIMED_OUT'', ''CANCELLED'']"

text \<open>A status with the error document that belongs to it.\<close>

definition status_with_error :: "string \<Rightarrow> json \<Rightarrow> bool" where
  "status_with_error status err \<longleftrightarrow>
     (status \<in> set NONTERMINAL_STATUSES \<and> err = JNull) \<or>
     (status \<in> set failure_statuses \<and> is_obj err \<and> truthy err \<and> json_finite err)"

lemmas status_lists = NONTERMINAL_STATUSES_def TERMINAL_STATUSES_def KNOWN_STATUSES_def
  failure_statuses_def

lemma moved_snapshot:
  assumes "validate_snapshot_schema (to_dict r) = Inr d" and "status_with_error status err" and "now \<noteq> []"
  shows "\<exists>d'. validate_snapshot_schema (to_dict (moved_record r status now err)) = Inr d'"
proof -
  let ?q = "moved_record r status now err"
  have check: "snapshot_fields_check (obj_get (obj_fields (to_dict r))) = Inr ()"
    using assms(1) to_dict_JObj [of r]
    by (auto simp: validate_snapshot_schema_def exn_simps split: json.splits)
  have known: "status \<in> set KNOWN_STATUSES" "status \<noteq> []" "err = JNull \<or> is_obj err"
    using assms(2) by (auto simp: status_with_error_def status_lists)
  from check obtain admission where adm: "rec_admission_record r = JObj admission"
    by (auto simp: snapshot_fields_check_def exn_simps to_dict_get split: json.splits)
  have "snapshot_fields_check (obj_get (obj_fields (to_dict ?q))) = Inr ()"
    using check known assms(3) adm
    by (cases "rec_intent r"; cases "obj_get admission ''authenticated_subject''")
       (auto simp: snapshot_fields_check_def exn_simps to_dict_get moved_record_def split: if_splits)
  moreover have "set (map fst (obj_fields (to_dict ?q))) \<subseteq> set LEDGER_FIELDS \<and>
      set REQUIRED_LEDGER_FIELDS \<subseteq> set (map fst (obj_fields (to_dict ?q)))"
    by (simp add: to_dict_def LEDGER_FIELDS_def REQUIRED_LEDGER_FIELDS_def)
  ultimately show ?thesis
    by (subst to_dict_JObj) (simp add: validate_snapshot_schema_def exn_simps)
qed

lemma moved_terminal_invariants:
  "status_with_error status err \<Longrightarrow>
     validate_terminal_invariants svc (moved_record r status now err) producer = Inr ()"
  by (auto simp: validate_terminal_invariants_def status_with_error_def status_lists moved_record_def)

lemma moved_history:
  assumes "status \<in> set (legal_next (rec_status r))"
  shows "validate_history_transition r (moved_record r status now err) = Inr ()"
proof -
  from assms obtain ss where ss: "map_of LEGAL_TRANSITIONS (rec_status r) = Some ss" "status \<in> set ss"
    by (cases "map_of LEGAL_TRANSITIONS (rec_status r)") (auto simp: legal_next_def)
  then have "rec_status r \<notin> set TERMINAL_STATUSES" "rec_status r \<noteq> status"
    by (auto simp: LEGAL_TRANSITIONS_def status_lists split: if_splits)
  with ss show ?thesis
    by (simp add: validate_history_transition_def immutable_fields_eq_def moved_record_def)
qed

lemma moved_decision:
  assumes inv: "ledger_inv svc l" and "lg_poisoned_reason l = None"
    and r: "get_by_execution_id e l = Some r" and "rec_status r \<in> set expected"
    and "set expected \<subseteq> set KNOWN_STATUSES"
    and legal: "status \<in> set (legal_next (rec_status r))" and err: "status_with_error status err"
    and "now \<noteq> []"
  shows "transition_decision svc (move e expected status err) now l =
    Inr (Some (True, moved_record r status now err))"
proof -
  obtain i where i: "map_of (lg_by_execution_id l) e = Some i" "i \<noteq> []" "map_of (lg_by_intent_id l) i = Some r"
    using r by (auto simp: get_by_execution_id_def split: option.splits if_splits)
  from inv i have "record_ok svc (lg_expected_producer_commit l) r"
    by (auto simp: ledger_inv_def records_ok_def)
  then obtain d where "validate_snapshot_schema (to_dict r) = Inr d" by (auto simp: record_ok_def)
  from moved_snapshot [OF this err \<open>now \<noteq> []\<close>] obtain d' where
    d': "validate_snapshot_schema (to_dict (moved_record r status now err)) = Inr d'" by blast
  have art: "next_artifacts (move e expected status err) = Inr (JNull, JNull, err)"
    using err by (auto simp: next_artifacts_def status_with_error_def status_lists move_def no_artifacts_def)
  have "transition_record svc (move e expected status err) now l r = Inr (moved_record r status now err)"
    using legal art d' moved_terminal_invariants [OF err] moved_history [OF legal]
    by (simp add: transition_record_def moved_record_def [symmetric] move_def Let_def)
  moreover have "rec_status r \<notin> set TERMINAL_STATUSES" "rec_status r \<noteq> status" "status \<in> set KNOWN_STATUSES"
    using legal by (auto simp: legal_next_def LEGAL_TRANSITIONS_def status_lists split: option.splits if_splits)
  moreover have "expected \<noteq> []" using assms(4) by auto
  ultimately show ?thesis
    using assms(2,4,5) i by (auto simp: transition_decision_def raise_if_poisoned_def move_def)
qed

text \<open>The effect of such a transition.\<close>

lemma moved_transition:
  assumes inv: "ledger_inv svc l" and clean: "lg_poisoned_reason l = None"
    and r: "get_by_execution_id e l = Some r" and "rec_status r \<in> set expected"
    and "set expected \<subseteq> set KNOWN_STATUSES"
    and legal: "status \<in> set (legal_next (rec_status r))" and err: "status_with_error status err"
    and "now \<noteq> []"
  obtains l' where "transition_execution svc (move e expected status err) now Appended l
      = (Inr (Some (moved_record r status now err)), l')"
    and "ledger_inv svc l'" and "lg_poisoned_reason l' = None"
    and "\<And>x. get_by_execution_id x l' =
           (if x = e then Some (moved_record r status now err) else get_by_execution_id x l)"
proof -
  let ?t = "move e expected status err" and ?q = "moved_record r status now err"
  note d = moved_decision [OF assms]
  obtain i where i: "map_of (lg_by_execution_id l) e = Some i" "i \<noteq> []" "map_of (lg_by_intent_id l) i = Some r"
    using r by (auto simp: get_by_execution_id_def split: option.splits if_splits)
  obtain res l' where t: "transition_execution svc ?t now Appended l = (res, l')"
    by (cases "transition_execution svc ?t now Appended l")
  have fin: "json_finite (tr_error ?t)" using err by (auto simp: status_with_error_def move_def)
  from t have "res = Inr (Some ?q) \<and> lg_poisoned_reason l' = None \<and>
      lg_by_execution_id l' = lg_by_execution_id l \<and>
      lg_by_intent_id l' = AList.update i ?q (lg_by_intent_id l)"
  proof (cases rule: transition_outcome)
    case (failed q)
    from failed(3) show ?thesis by (cases rule: persist_outcome) auto
  next
    case (moved q lp)
    from moved(3) have "lg_poisoned_reason lp = None" "lg_by_execution_id lp = lg_by_execution_id l"
        "lg_by_intent_id lp = lg_by_intent_id l"
      using clean by (cases rule: persist_outcome; auto)+
    with moved d i show ?thesis by (simp add: owner_of_execution_def move_def)
  qed (use d in auto)
  moreover have "ledger_inv svc l'" using transition_inv inv t fin by blast
  moreover have "get_by_execution_id x l' = (if x = e then Some ?q else get_by_execution_id x l)"
    if "lg_by_execution_id l' = lg_by_execution_id l" "lg_by_intent_id l' = AList.update i ?q (lg_by_intent_id l)"
    for x
  proof (cases "x = e")
    case True
    with that i show ?thesis by (simp add: get_by_execution_id_def)
  next
    case False
    note owner = indexes_agreeD(5) [OF ledger_inv_distinct_reservations(3) [OF inv], of _ i]
    have "map_of (lg_by_execution_id l) x \<noteq> Some i"
      using owner [of x] owner [of e] i False by auto
    with False that show ?thesis by (auto simp: get_by_execution_id_def split: option.splits)
  qed
  ultimately show thesis using t that by metis
qed

section \<open>A job ends\<close>

lemma terminal_result_status:
  assumes "validate_terminal_result svc pc bundle v = Inr result"
  obtains status where "obj_get result ''status'' = JStr status" and "status \<in> set TERMINAL_STATUSES"
    and "v = JObj result"
  using assms
  by (cases v) (auto simp: validate_terminal_result_def exn_simps hash_in_True)

lemma run_try_outcome:
  assumes r: "get_by_execution_id (jb_execution_id jb) l = Some r" and run: "rec_status r = ''RUNNING''"
    and ok: "\<And>n. re_append env n = Appended"
    and t: "run_try svc pc jb env l = (res, l')"
  shows "(\<exists>e. res = Inl e \<and> l' = l) \<or>
    (res = Inr () \<and> (\<exists>q. get_by_execution_id (jb_execution_id jb) l' = Some q \<and>
       rec_status q \<in> set TERMINAL_STATUSES))"
proof (cases "bindE (re_raw env) (validate_terminal_result svc pc (jb_bundle jb))")
  case (Inl e)
  with t show ?thesis by (auto simp: run_try_def)
next
  case (Inr result)
  then obtain v where "validate_terminal_result svc pc (jb_bundle jb) v = Inr result"
    by (auto simp: bindE_eq_Inr)
  then obtain status where status: "obj_get result ''status'' = JStr status"
      "status \<in> set TERMINAL_STATUSES"
    by (rule terminal_result_status)
  let ?t = "\<lparr>tr_execution_id = jb_execution_id jb, tr_expected_statuses = [''RUNNING''],
      tr_status = status, tr_receipt_digest = obj_get result ''receipt_digest'',
      tr_terminal_receipt = obj_get result ''receipt'', tr_error = obj_get result ''error''\<rparr>"
  obtain i where i: "map_of (lg_by_execution_id l) (jb_execution_id jb) = Some i" "i \<noteq> []"
      "map_of (lg_by_intent_id l) i = Some r"
    using r by (auto simp: get_by_execution_id_def split: option.splits if_splits)
  have new: "status \<noteq> ''RUNNING''" using status(2) by (auto simp: TERMINAL_STATUSES_def)
  obtain tr l2 where tr: "transition_execution svc ?t (re_clock env 2) (re_append env 2) l = (tr, l2)"
    by (cases "transition_execution svc ?t (re_clock env 2) (re_append env 2) l")
  then have res: "l' = l2" "(\<exists>e. tr = Inl e \<and> res = Inl e) \<or> (\<exists>x. tr = Inr x \<and> res = Inr ())"
    using t Inr status(1) by (auto simp: run_try_def split: sum.splits)
  from tr show ?thesis
  proof (cases rule: transition_outcome)
    case unexpected
    with i run new show ?thesis
      by (auto simp: transition_decision_def raise_if_poisoned_def exn_simps TERMINAL_STATUSES_def
          split: if_splits)
  next
    case (repeated q)
    from repeated(1) show ?thesis
    proof (rule transition_decision_facts)
      fix j p assume "map_of (lg_by_execution_id l) (tr_execution_id ?t) = Some j"
        "map_of (lg_by_intent_id l) j = Some p"
        "\<not> False \<Longrightarrow> q = p \<and> rec_status p = tr_status ?t \<and> no_artifacts ?t"
      with i run new show ?thesis by simp
    qed
  next
    case (failed q)
    from failed(3) ok show ?thesis by (cases rule: persist_outcome) auto
  next
    case (moved q lp)
    have "rec_status q = status"
    proof (rule transition_decision_facts [OF moved(1)])
      fix p assume "True \<Longrightarrow> rec_status p \<notin> set TERMINAL_STATUSES \<and>
        transition_record svc ?t (re_clock env 2) l p = Inr q"
      then have "transition_record svc ?t (re_clock env 2) l p = Inr q" by simp
      then show ?thesis by (rule transition_record_facts) simp
    qed
    moreover from moved(3) have "lg_by_execution_id lp = lg_by_execution_id l"
      by (cases rule: persist_outcome) auto
    then have "get_by_execution_id (jb_execution_id jb) l2 = Some q"
      using moved(4) i by (simp add: get_by_execution_id_def owner_of_execution_def)
    ultimately show ?thesis using res moved(2) status(2) by auto
  qed (use res in auto)
qed

lemma run_failure_status:
  obtains status err where "run_failure e type_name = (status, err)"
    and "status_with_error status err" and "status \<in> set (legal_next ''RUNNING'')"
    and "status \<in> set TERMINAL_STATUSES"
  by (rule that [OF prod.collapse [symmetric]])
     (auto simp: run_failure_def status_with_error_def status_lists queue_error_def legal_next_def
       LEGAL_TRANSITIONS_def)

lemma run_job_ends:
  assumes inv: "ledger_inv svc l" and clean: "lg_poisoned_reason l = None"
    and r: "get_by_execution_id (jb_execution_id jb) l = Some r" and queued: "rec_status r = ''QUEUED''"
    and "\<not> jb_cancellation_requested jb" and ok: "\<And>n. re_append env n = Appended"
    and clock: "\<And>n. re_clock env n \<noteq> []" and quiet: "re_others env = (\<lambda>_ x. x)"
  shows "\<exists>l' q. run_job svc pc jb type_name env l = (Inr (), l') \<and>
    get_by_execution_id (jb_execution_id jb) l' = Some q \<and> rec_status q \<in> set TERMINAL_STATUSES"
proof -
  let ?e = "jb_execution_id jb"
  obtain l1 where l1: "transition_execution svc (move ?e [''QUEUED''] ''RUNNING'' JNull) (re_clock env 1)
        Appended l = (Inr (Some (moved_record r ''RUNNING'' (re_clock env 1) JNull)), l1)"
      "ledger_inv svc l1" "lg_poisoned_reason l1 = None"
      "get_by_execution_id ?e l1 = Some (moved_record r ''RUNNING'' (re_clock env 1) JNull)"
    by (rule moved_transition [OF inv clean r, of "[''QUEUED'']" "''RUNNING''" JNull "re_clock env 1"])
       (simp_all add: queued clock status_with_error_def legal_next_def LEGAL_TRANSITIONS_def status_lists)
  obtain res l2 where try_: "run_try svc pc jb env l1 = (res, l2)"
    by (cases "run_try svc pc jb env l1")
  have "(\<exists>e. res = Inl e \<and> l2 = l1) \<or> (res = Inr () \<and> (\<exists>q. get_by_execution_id ?e l2 = Some q \<and>
       rec_status q \<in> set TERMINAL_STATUSES))"
    by (rule run_try_outcome [OF l1(4) _ ok try_]) (simp add: moved_record_def)
  then show ?thesis
  proof (elim disjE exE conjE)
    fix q assume "res = Inr ()" "get_by_execution_id ?e l2 = Some q" "rec_status q \<in> set TERMINAL_STATUSES"
    then show ?thesis using l1(1) try_ assms(5) by (simp add: run_job_def quiet ok)
  next
    fix x assume x: "res = Inl x" "l2 = l1"
    obtain status err where f: "run_failure x type_name = (status, err)" "status_with_error status err"
        "status \<in> set (legal_next ''RUNNING'')" "status \<in> set TERMINAL_STATUSES"
      by (rule run_failure_status)
    let ?q = "moved_record (moved_record r ''RUNNING'' (re_clock env 1) JNull) status (re_clock env 3) err"
    obtain l3 where l3: "transition_execution svc (move ?e [''RUNNING''] status err) (re_clock env 3)
          Appended l1 = (Inr (Some ?q), l3)" "get_by_execution_id ?e l3 = Some ?q"
      by (rule moved_transition [OF l1(2,3,4), of "[''RUNNING'']" status err "re_clock env 3"])
         (use f clock in \<open>simp_all add: moved_record_def status_lists\<close>)
    then show ?thesis
      using l1(1) try_ x f assms(5) by (simp add: run_job_def quiet ok) (simp add: moved_record_def)
  qed
qed

section \<open>Recovery\<close>

lemma recover_records_complete:
  assumes "ledger_inv svc l" and "lg_poisoned_reason l = None"
    and "\<And>n. snd (env n) = Appended \<and> fst (env n) \<noteq> []"
    and "distinct (map rec_execution_id recs)"
    and "\<And>r. r \<in> set recs \<Longrightarrow> get_by_execution_id (rec_execution_id r) l = Some r \<and> is_nonterminal r"
    and "\<And>e r. get_by_execution_id e l = Some r \<Longrightarrow> is_nonterminal r \<Longrightarrow> e \<in> set active \<or> r \<in> set recs"
  shows "\<exists>l'. recover_records svc active recs env n l =
      (Inr (length (filter (\<lambda>r. rec_execution_id r \<notin> set active) recs)), l') \<and>
    (\<forall>e r. get_by_execution_id e l' = Some r \<longrightarrow> is_nonterminal r \<longrightarrow> e \<in> set active)"
  using assms
proof (induction recs arbitrary: n l)
  case Nil
  then show ?case by auto
next
  case (Cons r recs)
  let ?e = "rec_execution_id r"
  note r = Cons.prems(5) [of r, simplified]
  show ?case
  proof (cases "?e \<in> set active")
    case True
    have "\<exists>l'. recover_records svc active recs env n l =
      (Inr (length (filter (\<lambda>r. rec_execution_id r \<notin> set active) recs)), l') \<and>
      (\<forall>e r. get_by_execution_id e l' = Some r \<longrightarrow> is_nonterminal r \<longrightarrow> e \<in> set active)"
    proof (rule Cons.IH [OF Cons.prems(1-3)])
      show "e \<in> set active \<or> q \<in> set recs"
        if "get_by_execution_id e l = Some q" "is_nonterminal q" for e q
        using Cons.prems(6) [OF that] True get_by_execution_id_iff [OF Cons.prems(1)] that by auto
    qed (use Cons.prems in auto)
    with True show ?thesis by simp
  next
    case False
    let ?q = "moved_record r ''FAILED'' (fst (env n)) orphan_error"
    obtain l1 where l1: "transition_execution svc (move ?e [rec_status r] ''FAILED'' orphan_error)
          (fst (env n)) Appended l = (Inr (Some ?q), l1)"
        "ledger_inv svc l1" "lg_poisoned_reason l1 = None"
        "\<And>x. get_by_execution_id x l1 = (if x = ?e then Some ?q else get_by_execution_id x l)"
      by (rule moved_transition [OF Cons.prems(1,2), of ?e r "[rec_status r]" "''FAILED''" orphan_error
            "fst (env n)"])
         (use r Cons.prems(3) [of n] in \<open>auto simp: is_nonterminal_def status_lists legal_next_def
            LEGAL_TRANSITIONS_def status_with_error_def orphan_error_def queue_error_def\<close>)
    have done_: "\<not> is_nonterminal ?q" by (simp add: is_nonterminal_def moved_record_def status_lists)
    have "\<exists>l'. recover_records svc active recs env (Suc n) l1 =
      (Inr (length (filter (\<lambda>r. rec_execution_id r \<notin> set active) recs)), l') \<and>
      (\<forall>e r. get_by_execution_id e l' = Some r \<longrightarrow> is_nonterminal r \<longrightarrow> e \<in> set active)"
    proof (rule Cons.IH [OF l1(2,3) Cons.prems(3)])
      show "get_by_execution_id (rec_execution_id p) l1 = Some p \<and> is_nonterminal p" if "p \<in> set recs" for p
      proof -
        have "rec_execution_id p \<in> rec_execution_id ` set recs" using that by (rule imageI)
        then have "rec_execution_id p \<noteq> ?e" using Cons.prems(4) by auto
        with Cons.prems(5) [of p] that show ?thesis by (simp add: l1(4))
      qed
      show "e \<in> set active \<or> p \<in> set recs"
        if "get_by_execution_id e l1 = Some p" "is_nonterminal p" for e p
        using that Cons.prems(6) [of e p] l1(4) [of e] done_ get_by_execution_id_iff [OF Cons.prems(1)]
        by (auto split: if_splits)
    qed (use Cons.prems(4) in auto)
    with False l1(1) Cons.prems(3) [of n] show ?thesis by auto
  qed
qed

lemma recover_orphans_complete:
  assumes inv: "ledger_inv svc (w_ledger w)" and clean: "lg_poisoned_reason (w_ledger w) = None"
    and env: "\<And>n. snd (env n) = Appended \<and> fst (env n) \<noteq> []"
  shows "\<exists>k l'. recover_orphans svc env w = (Inr k, w\<lparr>w_ledger := l'\<rparr>) \<and>
    (\<forall>e r. get_by_execution_id e l' = Some r \<longrightarrow> is_nonterminal r \<longrightarrow> e \<in> fst ` set (q_jobs (w_port w)))"
proof -
  let ?l = "w_ledger w"
  let ?recs = "filter is_nonterminal (map snd (lg_by_intent_id ?l))"
  have dist: "distinct (map fst (lg_by_intent_id ?l))"
    using inv by (simp add: ledger_inv_def distinct_keys_def)
  have mem: "r \<in> set (map snd (lg_by_intent_id ?l)) \<longleftrightarrow> (\<exists>i. map_of (lg_by_intent_id ?l) i = Some r)" for r
    using map_of_eq_Some_iff [OF dist] by force
  note agree = ledger_inv_distinct_reservations(3) [OF inv]
  have "distinct (map rec_execution_id (map snd (lg_by_intent_id ?l)))"
  proof (rule distinct_map [THEN iffD2], rule conjI)
    show "distinct (map snd (lg_by_intent_id ?l))"
      using dist indexes_agreeD(1) [OF agree] map_of_is_SomeI [OF dist]
      by (auto simp: distinct_map inj_on_def) (metis prod.collapse)
    show "inj_on rec_execution_id (set (map snd (lg_by_intent_id ?l)))"
    proof (rule inj_onI)
      fix a b assume "a \<in> set (map snd (lg_by_intent_id ?l))" "b \<in> set (map snd (lg_by_intent_id ?l))"
        and same: "rec_execution_id a = rec_execution_id b"
      then obtain i j where ij: "map_of (lg_by_intent_id ?l) i = Some a" "map_of (lg_by_intent_id ?l) j = Some b"
        using mem by blast
      then have "i = j"
        using indexes_agreeD(3) [OF agree ij(1)] indexes_agreeD(3) [OF agree ij(2)] same by simp
      with ij show "a = b" by simp
    qed
  qed
  then have "distinct (map rec_execution_id ?recs)" by (simp add: distinct_map_filter)
  moreover have "get_by_execution_id (rec_execution_id r) ?l = Some r \<and> is_nonterminal r"
    if "r \<in> set ?recs" for r
    using that mem get_by_execution_id_iff [OF inv] by auto
  moreover have "e \<in> set (map fst (q_jobs (w_port w))) \<or> r \<in> set ?recs"
    if "get_by_execution_id e ?l = Some r" "is_nonterminal r" for e r
    using that mem get_by_execution_id_iff [OF inv] by auto
  ultimately obtain l' where "recover_records svc (map fst (q_jobs (w_port w))) ?recs env 0 ?l =
      (Inr (length (filter (\<lambda>r. rec_execution_id r \<notin> set (map fst (q_jobs (w_port w)))) ?recs)), l')"
    "\<forall>e r. get_by_execution_id e l' = Some r \<longrightarrow> is_nonterminal r \<longrightarrow> e \<in> set (map fst (q_jobs (w_port w)))"
    using recover_records_complete [where env = env and recs = ?recs and n = 0 and
        active = "map fst (q_jobs (w_port w))", OF inv clean env] by blast
  then show ?thesis
    by (intro exI [of _ "length _"] exI [of _ l'])
       (simp add: recover_orphans_def list_nonterminal_records_def list_records_def
        raise_if_poisoned_def clean)
qed

end
