(* ===== verification/Queue_Theorems.thy ===== *)
theory Queue_Theorems
  imports Queue_Progress Samples
begin

text \<open>
  The theorems about the worker queue of \<open>deltacontroller/dispatch.py\<close>, each with an application
  to a concrete state.
\<close>

section \<open>Sample states\<close>

definition sample_commit :: string where
  "sample_commit = replicate 40 (CHR ''a'')"

definition sample_queue :: queue where
  "sample_queue =
     \<lparr>q_producer_commit = sample_commit, q_total = 3, q_capacity = 3, q_jobs = [],
      q_reservations = [], q_accepting = True, q_next_ident = 0\<rparr>"

definition sample_queue_world :: "ledger \<Rightarrow> queue world" where
  "sample_queue_world l = \<lparr>w_ledger = l, w_port = sample_queue, w_audit = []\<rparr>"

lemma sample_queue_init:
  "init_queue sample_commit (Some ()) (None :: unit option) 1 2 = Inr sample_queue"
proof -
  have "fullmatch_hex 40 sample_commit" by code_simp
  then show ?thesis by (simp add: init_queue_def sample_queue_def)
qed

lemma sample_queue_start:
  "queue_start svc (sample_queue_world sample_start, \<lparr>gh_held = 0, gh_unsubmitted = {}\<rparr>)"
proof -
  have "ledger_start svc sample_start"
    unfolding ledger_start_def
    by (rule exI [of _ "Some ''ledger.jsonl''"], rule exI [of _ None], rule exI [of _ None])
       (simp add: init_ledger_def sample_start_def)
  moreover have "\<exists>producer command runner workers waiting.
      init_queue producer (command :: unit option) (runner :: unit option) workers waiting = Inr sample_queue"
    by (intro exI) (rule sample_queue_init)
  ultimately show ?thesis by (simp add: queue_start_def sample_queue_world_def)
qed

definition sample_job :: "json \<Rightarrow> job" where
  "sample_job doc =
     \<lparr>jb_ident = 0, jb_execution_id = ''e-1'', jb_bundle = doc, jb_cancellation_requested = False\<rparr>"

definition sample_queued :: ledger where
  "sample_queued =
     snd (transition_execution sample_services (move ''e-1'' [''ADMITTED''] ''QUEUED'' JNull) ''t2''
            Appended sample_admitted)"

definition sample_run :: "json result \<Rightarrow> run_env" where
  "sample_run raw = \<lparr>re_raw = raw, re_clock = (\<lambda>_. ''t3''), re_append = (\<lambda>_. Appended),
     re_others = (\<lambda>_ l. l)\<rparr>"

lemma sample_queued_value:
  "get_by_execution_id ''e-1'' sample_queued =
     Some (moved_record (admitted_record sample_admission ''t1'') ''QUEUED'' ''t2'' JNull)"
  "lg_poisoned_reason sample_queued = None" "lg_poisoned_reason sample_admitted = None"
  by code_simp+

lemma sample_queued_inv: "ledger_inv sample_services sample_admitted" "ledger_inv sample_services sample_queued"
proof -
  show inv: "ledger_inv sample_services sample_admitted"
    using ledger_history.reachable_inv sample_reachable(2) by blast
  show "ledger_inv sample_services sample_queued"
    unfolding sample_queued_def
    by (rule transition_inv [OF inv prod.collapse [symmetric]]) (simp add: move_def)
qed

section \<open>Theorems\<close>

text \<open>
  C7: In every state that the threads of the gate, the pool and the shutdown can reach, under any
  interleaving, free slots, reservations, jobs and slots in the hands of a failing dispatch add up
  to the configured total. So the queue is bounded, no slot is lost, and a thread that gives one
  back never makes the bounded semaphore raise. Every job's execution is durable and has left
  ADMITTED.
\<close>

theorem queue_slots_conserved:
  assumes "reachable (queue_start svc) (queue_step svc) (w, g)"
  shows "q_capacity (w_port w) + length (q_reservations (w_port w)) + length (q_jobs (w_port w))
           + gh_held g = q_total (w_port w) \<and>
    (q_reservations (w_port w) \<noteq> [] \<or> q_jobs (w_port w) \<noteq> [] \<or> gh_held g \<noteq> 0 \<longrightarrow>
       release_slot (w_port w) = Inr (drop_slot (w_port w))) \<and>
    (\<forall>e\<in>fst ` set (q_jobs (w_port w)). \<exists>r. get_by_execution_id e (w_ledger w) = Some r \<and>
       rec_status r \<noteq> ''ADMITTED'')"
proof -
  have inv: "queue_inv svc (w, g)" using assms by (rule worker_queue.reachable_inv)
  then have slots: "slots_ok (w_port w) (gh_held g)" by (simp add: queue_inv_def)
  moreover have "release_slot (w_port w) = Inr (drop_slot (w_port w))"
    if "q_reservations (w_port w) \<noteq> [] \<or> q_jobs (w_port w) \<noteq> [] \<or> gh_held g \<noteq> 0"
  proof -
    have "q_capacity (w_port w) < q_total (w_port w)" using slots that by (auto simp: slots_ok_def neq_Nil_conv)
    then show ?thesis by (simp add: release_slot_def drop_slot_def)
  qed
  ultimately show ?thesis using inv by (auto simp: queue_inv_def slots_ok_def job_started_def)
qed

theorem queue_slots_conserved_witness:
  "\<exists>w g. reachable (queue_start sample_services) (queue_step sample_services) (w, g) \<and>
     q_reservations (w_port w) = [''i-1''] \<and>
     q_capacity (w_port w) + length (q_reservations (w_port w)) + length (q_jobs (w_port w))
           + gh_held g = q_total (w_port w)"
proof -
  let ?g = "\<lparr>gh_held = 0, gh_unsubmitted = {}\<rparr>" and ?w = "sample_queue_world sample_start"
  let ?q = "snd (reserve_capacity ''i-1'' sample_queue)"
  have "queue_step sample_services (?w, ?g) (?w\<lparr>w_port := ?q\<rparr>, ?g)"
    by (rule queue_step.reserve [where i = "''i-1''" and r = "fst (reserve_capacity ''i-1'' sample_queue)"])
       (simp add: sample_queue_world_def)
  then have r: "reachable (queue_start sample_services) (queue_step sample_services) (?w\<lparr>w_port := ?q\<rparr>, ?g)"
    by (rule reachable.step [OF reachable.start [of "queue_start sample_services", OF sample_queue_start]])
  moreover have "q_reservations ?q = [''i-1'']" by (simp add: reserve_capacity_def sample_queue_def)
  ultimately show ?thesis
    using queue_slots_conserved [OF r] by (intro exI [of _ "?w\<lparr>w_port := ?q\<rparr>"] exI [of _ ?g]) simp
qed

text \<open>
  C20: A job that starts leaves its execution in a terminal status whatever the worker process
  returns or raises: on a ledger that is not poisoned, whose appends succeed and with which no other
  thread interferes, the thread ends normally and the queued execution is COMPLETED, FAILED,
  TIMED_OUT or CANCELLED.
\<close>

theorem job_reaches_terminal_status:
  assumes "ledger_inv svc l" and "lg_poisoned_reason l = None"
    and "get_by_execution_id (jb_execution_id jb) l = Some r" and "rec_status r = ''QUEUED''"
    and "\<not> jb_cancellation_requested jb" and "\<And>n. re_append env n = Appended"
    and "\<And>n. re_clock env n \<noteq> []" and "re_others env = (\<lambda>_ x. x)"
  shows "\<exists>l' q. run_job svc producer_commit jb type_name env l = (Inr (), l') \<and>
    get_by_execution_id (jb_execution_id jb) l' = Some q \<and> rec_status q \<in> set TERMINAL_STATUSES"
  using assms by (rule run_job_ends)

theorem job_reaches_terminal_status_witness:
  "\<exists>l' q. run_job sample_services sample_commit (sample_job JNull) ''X'' (sample_run (Inl OtherException))
      sample_queued = (Inr (), l') \<and>
    get_by_execution_id ''e-1'' l' = Some q \<and> rec_status q \<in> set TERMINAL_STATUSES"
  using job_reaches_terminal_status [OF sample_queued_inv(2), of "sample_job JNull" _
      "sample_run (Inl OtherException)" sample_commit "''X''"]
  by (simp add: sample_queued_value sample_job_def sample_run_def moved_record_def)

text \<open>
  C21: The recovery at start closes every durable nonterminal execution that no job of this process
  owns: on a sound ledger that is not poisoned and whose appends succeed, \<open>recover_orphans\<close>
  returns, and afterwards every nonterminal execution belongs to a job.
\<close>

theorem recovery_leaves_no_orphan:
  assumes "ledger_inv svc (w_ledger w)" and "lg_poisoned_reason (w_ledger w) = None"
    and "\<And>n. snd (env n) = Appended \<and> fst (env n) \<noteq> []"
  shows "\<exists>k l'. recover_orphans svc env w = (Inr k, w\<lparr>w_ledger := l'\<rparr>) \<and>
    (\<forall>e r. get_by_execution_id e l' = Some r \<longrightarrow> is_nonterminal r \<longrightarrow>
       e \<in> fst ` set (q_jobs (w_port w)))"
  using assms by (rule recover_orphans_complete)

theorem recovery_leaves_no_orphan_witness:
  "is_nonterminal (admitted_record sample_admission ''t1'') \<and>
   (\<exists>k l'. recover_orphans sample_services (\<lambda>n. (''t5'', Appended)) (sample_queue_world sample_admitted)
        = (Inr k, (sample_queue_world sample_admitted)\<lparr>w_ledger := l'\<rparr>) \<and>
      (\<forall>e r. get_by_execution_id e l' = Some r \<longrightarrow> \<not> is_nonterminal r))"
proof
  show "is_nonterminal (admitted_record sample_admission ''t1'')" by code_simp
  show "\<exists>k l'. recover_orphans sample_services (\<lambda>n. (''t5'', Appended)) (sample_queue_world sample_admitted)
        = (Inr k, (sample_queue_world sample_admitted)\<lparr>w_ledger := l'\<rparr>) \<and>
      (\<forall>e r. get_by_execution_id e l' = Some r \<longrightarrow> \<not> is_nonterminal r)"
    using recovery_leaves_no_orphan [of sample_services "sample_queue_world sample_admitted"
        "\<lambda>n. (''t5'', Appended)"]
    by (simp add: sample_queue_world_def sample_queue_def sample_queued_inv sample_queued_value)
qed

text \<open>
  The queue accepts a COMPLETED result of a training or evaluation job only with a receipt that
  is bound to the bundle it sent: the digest is that of the receipt's canonical bytes, and the
  provenance repeats the identities and digests of the intent and the admission, the controller
  commit, and the commit of the worker package this controller trusts.
\<close>

theorem accepted_result_bound:
  assumes "validate_terminal_result svc commit bundle result = Inr r"
    and "obj_get r ''status'' = JStr ''COMPLETED''"
    and "sub_item bundle ''intent'' ''operation'' = Inr operation"
    and "operation \<noteq> JStr ''MATERIALIZE_DATASET''"
  shows "\<exists>rc bytes prov. obj_get r ''receipt'' = JObj rc \<and>
    svc_schema svc ''receipt-lineage'' (JObj rc) \<and> canonicalize_jcs (JObj rc) = Inr bytes \<and>
    obj_get r ''receipt_digest'' = JStr (sha256_digest (svc_sha svc) bytes) \<and>
    obj_get_default rc ''provenance'' (JObj []) = JObj prov \<and>
    obj_get prov ''producer_commit'' = JStr commit \<and>
    (\<forall>(part, field) \<in> {(''intent'', ''intent_id''), (''intent'', ''intent_digest''),
        (''admission'', ''admission_id''), (''admission'', ''admission_digest''),
        (''admission'', ''execution_id'')}.
       \<exists>v. sub_item bundle part field = Inr v \<and> py_eq (obj_get prov field) v)"
proof -
  from assms(1) have r: "result = JObj r" by (cases result) (auto simp: validate_terminal_result_def exn_simps)
  with assms obtain execution_id intent_id where
    ids: "sub_item bundle ''admission'' ''execution_id'' = Inr execution_id"
      "sub_item bundle ''intent'' ''intent_id'' = Inr intent_id"
    and check: "terminal_receipt_check svc commit bundle execution_id intent_id
        (obj_get r ''receipt'') (obj_get r ''receipt_digest'') = Inr ()"
    by (auto simp: validate_terminal_result_def exn_simps)
  then obtain rc where rc: "obj_get r ''receipt'' = JObj rc"
    by (cases "obj_get r ''receipt''") (auto simp: terminal_receipt_check_def)
  from check [unfolded rc] obtain bytes prov where
    "obj_get_default rc ''provenance'' (JObj []) = JObj prov"
    and "svc_schema svc ''receipt-lineage'' (JObj rc)" "canonicalize_jcs (JObj rc) = Inr bytes"
    "obj_get r ''receipt_digest'' = JStr (sha256_digest (svc_sha svc) bytes)"
    "obj_get prov ''producer_commit'' = JStr commit"
    "\<exists>v. sub_item bundle ''intent'' ''intent_digest'' = Inr v \<and> py_eq (obj_get prov ''intent_digest'') v"
    "\<exists>v. sub_item bundle ''admission'' ''admission_id'' = Inr v \<and> py_eq (obj_get prov ''admission_id'') v"
    "\<exists>v. sub_item bundle ''admission'' ''admission_digest'' = Inr v \<and> py_eq (obj_get prov ''admission_digest'') v"
    "py_eq (obj_get prov ''execution_id'') execution_id" "py_eq (obj_get prov ''intent_id'') intent_id"
    by (auto simp: terminal_receipt_check_def must_equal_def schema_validate_Inr exn_simps)
  with rc ids show ?thesis by auto
qed

definition sample_bundle :: json where
  "sample_bundle = JObj
     [(''intent'', JObj [(''intent_id'', JStr ''i-1''), (''intent_digest'', JStr ''d-1''),
         (''operation'', JStr ''TRAIN_TICKET''),
         (''workload'', JObj [(''catalog_backend_ref'', JStr ''ref''), (''model_plugin_id'', JStr ''p''),
            (''dataset_id'', JStr ''d''), (''requested_scope'', JStr ''s'')])]),
      (''admission'', JObj [(''execution_id'', JStr ''e-1''), (''admission_id'', JStr ''a-1''),
         (''admission_digest'', JStr ''ad-1''),
         (''policy_context'', JObj [(''controller_commit'', JStr ''cc'')])])]"

definition sample_lineage :: json where
  "sample_lineage = JObj
     [(''provenance'', JObj [(''intent_id'', JStr ''i-1''), (''intent_digest'', JStr ''d-1''),
         (''admission_id'', JStr ''a-1''), (''admission_digest'', JStr ''ad-1''),
         (''execution_id'', JStr ''e-1''), (''controller_commit'', JStr ''cc''),
         (''catalog_backend_ref'', JStr ''ref''), (''backend_commit'', JStr ''ref''),
         (''producer_commit'', JStr sample_commit)]),
      (''workload'', JObj [(''model_plugin_id'', JStr ''p''), (''dataset_id'', JStr ''d''),
         (''executed_scope'', JStr ''s'')])]"

definition sample_result :: "(string \<times> json) list" where
  "sample_result =
     [(''execution_id'', JStr ''e-1''), (''intent_id'', JStr ''i-1''),
      (''operation'', JStr ''TRAIN_TICKET''), (''dispatched'', JBool True),
      (''status'', JStr ''COMPLETED''), (''receipt'', sample_lineage),
      (''receipt_digest'', JStr (''sha256:'' @ replicate 64 (CHR ''0''))), (''error'', JNull)]"

lemma sample_result_accepted:
  "validate_terminal_result sample_services sample_commit sample_bundle (JObj sample_result)
     = Inr sample_result"
proof -
  have "terminal_receipt_check sample_services sample_commit sample_bundle (JStr ''e-1'') (JStr ''i-1'')
      sample_lineage (JStr (''sha256:'' @ replicate 64 (CHR ''0''))) = Inr ()"
    by (simp add: terminal_receipt_check_def sample_lineage_def sample_bundle_def sub_item_def
        must_equal_def obj_get_def obj_get_default_def schema_validate_def SCHEMA_FILES_def
        sample_services_def canonicalize_jcs_eq sha256_digest_def)
  then show ?thesis
    by (simp add: validate_terminal_result_def sample_result_def sample_bundle_def sub_item_def
        must_equal_def obj_get_def TERMINAL_STATUSES_def)
qed

theorem accepted_result_bound_witness:
  "validate_terminal_result sample_services sample_commit sample_bundle (JObj sample_result)
     = Inr sample_result \<and>
   (\<exists>rc prov. obj_get sample_result ''receipt'' = JObj rc \<and>
      obj_get_default rc ''provenance'' (JObj []) = JObj prov \<and>
      obj_get prov ''producer_commit'' = JStr sample_commit)"
proof -
  have "obj_get sample_result ''status'' = JStr ''COMPLETED''"
    "sub_item sample_bundle ''intent'' ''operation'' = Inr (JStr ''TRAIN_TICKET'')" by code_simp+
  with accepted_result_bound [OF sample_result_accepted] sample_result_accepted show ?thesis by auto
qed


definition sample_polls :: "poll list" where
  "sample_polls =
     [\<lparr>po_cancelled = False, po_stdout_size = 3, po_stderr_size = 0, po_remaining = 1, po_exited = False\<rparr>,
      \<lparr>po_cancelled = False, po_stdout_size = 3, po_stderr_size = 0, po_remaining = 0, po_exited = True\<rparr>]"


text \<open>
  The environment of a worker process holds only the named variables of the parent and the three
  fixed Python settings, whatever the parent's environment has: no other variable, and so no secret
  kept in one, reaches the worker.
\<close>

theorem worker_environment_closed:
  "map_of (sanitized_environment environ) name =
     (if name = ''PYTHONIOENCODING'' then Some ''utf-8''
      else if name = ''PYTHONNOUSERSITE'' \<or> name = ''PYTHONUTF8'' then Some ''1''
      else if name \<in> set ALLOWED_ENVIRONMENT \<and> map_of environ name \<noteq> Some [] then map_of environ name
      else None)"
proof -
  have "map_of (concat (map (\<lambda>name. case map_of environ name of
                 None \<Rightarrow> [] | Some v \<Rightarrow> if v = [] then [] else [(name, v)]) names)) name =
      (if name \<in> set names \<and> map_of environ name \<noteq> Some [] then map_of environ name else None)" for names
    by (induction names) (auto simp: map_add_def split: option.splits)
  then show ?thesis by (auto simp: sanitized_environment_def)
qed

end
