(* ===== verification/Worker_Crypto.thy ===== *)
theory Worker_Crypto
  imports Canonical
begin

text \<open>
  The worker's own canonical JSON (\<open>deltatorrent/live_execution/crypto.py\<close>), independent of
  the controller's. \<open>jcs_dumps\<close> prints numbers by the ECMAScript rules
  (\<open>_number_to_jcs\<close>), while the controller's \<open>canonicalize_jcs\<close> leaves them to
  \<open>json.dumps\<close>. The two agree on documents without floats and differ on floats such as
  \<open>1.0\<close>.
\<close>

section \<open>Numbers\<close>

definition lstrip0 :: "string \<Rightarrow> string" where
  "lstrip0 s = dropWhile (\<lambda>c. c = CHR ''0'') s"

definition rstrip0 :: "string \<Rightarrow> string" where
  "rstrip0 s = rev (dropWhile (\<lambda>c. c = CHR ''0'') (rev s))"

text \<open>The layout of \<open>k\<close> significant digits with decimal point position \<open>n\<close> (rules 6 to 10).\<close>

definition layout_digits :: "string \<Rightarrow> int \<Rightarrow> string" where
  "layout_digits digits n =
     (let k = int (length digits) in
      if k \<le> n \<and> n \<le> 21 then digits @ replicate (nat (n - k)) (CHR ''0'')
      else if 0 < n \<and> n \<le> 21 then take (nat n) digits @ ''.'' @ drop (nat n) digits
      else if - 6 < n \<and> n \<le> 0 then ''0.'' @ replicate (nat (- n)) (CHR ''0'') @ digits
      else (let exp_val = n - 1;
                exp_str = ''e'' @ (if 0 \<le> exp_val then ''+'' else ''-'') @ nat_text (nat \<bar>exp_val\<bar>)
            in if k = 1 then digits @ exp_str
               else take 1 digits @ ''.'' @ drop 1 digits @ exp_str))"

text \<open>A positive float, given by its \<open>repr\<close>.\<close>

definition positive_to_jcs :: "string \<Rightarrow> string" where
  "positive_to_jcs s_rep =
     (let (significand, has_e, e) = partition_at (CHR ''e'') s_rep;
          exp = (if has_e then text_int e else 0);
          (int_part, _, frac_part) = partition_at (CHR ''.'') significand;
          digits0 = lstrip0 (int_part @ frac_part)
      in if digits0 = [] then ''0''
         else (let digits = rstrip0 digits0;
                   trailing_zeroes = int (length digits0) - int (length digits);
                   dec_places = int (length frac_part) - trailing_zeroes;
                   n = exp - dec_places + int (length digits)
               in layout_digits digits n))"

definition number_to_jcs :: "string \<Rightarrow> string result" where
  "number_to_jcs t =
     (if \<not> float_finite t then Inl ValueError
      else if float_zero t then Inr ''0''
      else if startswith t ''-'' then Inr (''-'' @ positive_to_jcs (drop 1 t))
      else Inr (positive_to_jcs t))"

section \<open>Documents\<close>

fun jcs_dumps :: "json \<Rightarrow> string result" where
  "jcs_dumps JNull = Inr ''null''"
| "jcs_dumps (JBool b) = Inr (if b then ''true'' else ''false'')"
| "jcs_dumps (JStr s) = Inr (string_text s)"
| "jcs_dumps (JInt i) = Inr (int_text i)"
| "jcs_dumps (JFloat t) = number_to_jcs t"
| "jcs_dumps (JArr xs) =
     bindE (mapE jcs_dumps xs) (\<lambda>ts. Inr (''['' @ join '','' ts @ '']''))"
| "jcs_dumps (JObj kvs) =
     bindE (mapE (\<lambda>(k, v). bindE (jcs_dumps v) (\<lambda>t. Inr (string_text k @ '':'' @ t)))
              (sorted_items kvs))
       (\<lambda>pieces. Inr (''{'' @ join '','' pieces @ ''}''))"

definition sha256_prefixed :: "(string \<Rightarrow> string) \<Rightarrow> string \<Rightarrow> string" where
  "sha256_prefixed sha data = ''sha256:'' @ sha data"

definition worker_verify_intent_digest ::
  "(string \<Rightarrow> string) \<Rightarrow> (string \<times> json) list \<Rightarrow> bool result" where
  "worker_verify_intent_digest sha intent =
     (let declared = obj_get intent ''intent_digest'' in
      if \<not> truthy declared then Inr False
      else bindE (jcs_dumps (JObj (AList.delete ''intent_digest'' intent)))
             (\<lambda>b. Inr (py_eq declared (JStr (sha256_prefixed sha b)))))"

definition verify_admission_digest ::
  "(string \<Rightarrow> string) \<Rightarrow> (string \<times> json) list \<Rightarrow> bool result" where
  "verify_admission_digest sha admission =
     (let declared = obj_get admission ''admission_digest'' in
      if \<not> truthy declared then Inr False
      else bindE (jcs_dumps
               (JObj (AList.delete ''authenticator'' (AList.delete ''admission_digest'' admission))))
             (\<lambda>b. Inr (py_eq declared (JStr (sha256_prefixed sha b)))))"

section \<open>Agreement with the controller on documents without floats\<close>

lemma jcs_dumps_float_free: "float_free v \<Longrightarrow> jcs_dumps v = Inr (json_text (order_keys v))"
proof (induction v rule: jcs_dumps.induct)
  case (6 xs)
  then have "mapE jcs_dumps xs = Inr (map (\<lambda>x. json_text (order_keys x)) xs)"
    by (intro mapE_total) (auto simp: list_all_iff)
  then show ?case by (simp add: comp_def)
next
  case (7 kvs)
  let ?piece = "\<lambda>(k, v). string_text k @ '':'' @ json_text v"
  have "mapE (\<lambda>(k, v). bindE (jcs_dumps v) (\<lambda>t. Inr (string_text k @ '':'' @ t))) (sorted_items kvs)
      = Inr (map (\<lambda>kv. ?piece (fst kv, order_keys (snd kv))) (sorted_items kvs))"
    using 7 by (intro mapE_total) (auto simp: list_all_iff split: prod.splits)
  moreover have "map (\<lambda>kv. ?piece (fst kv, order_keys (snd kv))) (sorted_items kvs)
      = map ?piece (map (\<lambda>(k, v). (k, order_keys v)) (sorted_items kvs))"
    by (simp add: split_beta)
  ultimately show ?case by (simp only: jcs_dumps.simps order_keys.simps json_text.simps bindE_simps)
qed auto

end
