(* ===== verification/Model_Registry.thy ===== *)
theory Model_Registry
  imports Json "HOL-Library.List_Lexorder" "HOL-Library.Char_ord"
begin

text \<open>
  Model plugins, dataset providers and their registries:
  \<open>deltatorrent/model_plugins/base.py\<close>, \<open>model_plugins/registry.py\<close>, \<open>data/base.py\<close> and
  \<open>data/registry.py\<close>. The numerical work of a plugin or a provider is a field of its record;
  samples and targets have the type \<open>'s\<close>, models \<open>'m\<close>, tensors \<open>'t\<close>. A factory is a function of
  the number of the call, because every call makes a new instance. The locale
  \<open>registry_contract\<close> states what the runner relies on, for both registries.
\<close>

section \<open>Plugins and providers\<close>

record plugin_descriptor =
  pd_plugin_id :: string
  pd_display_name :: string
  pd_model_family :: string
  pd_task_type :: string
  pd_sample_kind :: string
  pd_target_kind :: string
  pd_deterministic :: bool
  pd_supports_stage_c_real_drq1 :: bool
  pd_parameter_schema_id :: "string option"

text \<open>The attributes of the frozen, slotted dataclass.\<close>

definition PLUGIN_DESCRIPTOR_FIELDS :: "string list" where
  "PLUGIN_DESCRIPTOR_FIELDS =
     [''plugin_id'', ''display_name'', ''model_family'', ''task_type'', ''sample_kind'', ''target_kind'',
      ''deterministic'', ''supports_stage_c_real_drq1'', ''parameter_schema_id'']"

record dataset_descriptor =
  dd_dataset_id :: string
  dd_display_name :: string
  dd_sample_kind :: string
  dd_target_kind :: string
  dd_deterministic :: bool
  dd_supports_offline_cache :: bool
  dd_description :: string
  dd_version :: string

record 't local_training_result =
  lt_ticket_id :: string
  lt_tensors :: 't
  lt_metadata :: "(string \<times> json) list"

record evaluation_result =
  ev_accuracy_ppm :: int
  ev_loss :: json
  ev_metrics :: "(string \<times> json) list"

record ('s, 'm, 't) model_plugin =
  mp_is_plugin :: bool
  mp_plugin_id :: string
  mp_total_elements :: int
  mp_train_ticket :: "string \<Rightarrow> 's \<times> 's \<Rightarrow> 'm option \<Rightarrow> 't local_training_result result"
  mp_load_applied_checkpoint :: "json \<Rightarrow> 'm result"
  mp_evaluate :: "'m \<Rightarrow> 's \<times> 's \<Rightarrow> evaluation_result result"

text \<open>
  \<open>part_sample_count\<close> is \<open>len(samples)\<close>, \<open>None\<close> for samples without a length. A training partition
  that is not a \<open>DataPartition\<close> is \<open>None\<close>.
\<close>

record 's data_partition =
  part_partition_id :: string
  part_samples :: 's
  part_targets :: 's
  part_sample_count :: "nat option"
  part_metadata :: "(string \<times> json) list"

type_synonym path = "string list"

record 's dataset_provider =
  ds_is_provider :: bool
  ds_dataset_id :: string
  ds_descriptor :: dataset_descriptor
  ds_materialize :: "path \<Rightarrow> bool \<Rightarrow> (string \<times> json) list result"
  ds_training_partition :: "string \<Rightarrow> 's data_partition option result"
  ds_evaluation_data :: "('s \<times> 's) result"

definition check_compatibility :: "string \<Rightarrow> string \<Rightarrow> dataset_descriptor \<Rightarrow> unit result" where
  "check_compatibility model_sample_kind model_target_kind d =
     bindE (ensure (model_sample_kind = dd_sample_kind d) ValueError) (\<lambda>_.
     ensure (model_target_kind = dd_target_kind d) ValueError)"

definition check_contract_compatibility :: "string \<Rightarrow> string \<Rightarrow> dataset_descriptor \<Rightarrow> unit result" where
  "check_contract_compatibility = check_compatibility"

section \<open>Registries\<close>

record ('d, 'i) registry =
  rg_factories :: "(string, nat \<Rightarrow> 'i) dict"
  rg_descriptors :: "(string, 'd) dict"

definition empty_registry :: "('d, 'i) registry" where
  "empty_registry = \<lparr>rg_factories = [], rg_descriptors = []\<rparr>"

definition registry_store ::
  "string \<Rightarrow> 'd \<Rightarrow> (nat \<Rightarrow> 'i) \<Rightarrow> ('d, 'i) registry \<Rightarrow> ('d, 'i) registry" where
  "registry_store k d factory r =
     \<lparr>rg_factories = AList.update k factory (rg_factories r),
      rg_descriptors = AList.update k d (rg_descriptors r)\<rparr>"

definition get_descriptor :: "string \<Rightarrow> ('d, 'i) registry \<Rightarrow> 'd result" where
  "get_descriptor k r =
     (case map_of (rg_descriptors r) k of None \<Rightarrow> Inl ValueError | Some d \<Rightarrow> Inr d)"

definition has_entry :: "string \<Rightarrow> ('d, 'i) registry \<Rightarrow> bool" where
  "has_entry k r \<longleftrightarrow> map_of (rg_descriptors r) k \<noteq> None"

definition list_descriptors :: "('d, 'i) registry \<Rightarrow> 'd list" where
  "list_descriptors r =
     map (\<lambda>k. the (map_of (rg_descriptors r) k)) (sort (map fst (rg_descriptors r)))"

type_synonym ('s, 'm, 't) model_registry = "(plugin_descriptor, ('s, 'm, 't) model_plugin) registry"

definition model_register ::
  "plugin_descriptor \<Rightarrow> (nat \<Rightarrow> ('s, 'm, 't) model_plugin) \<Rightarrow> nat \<Rightarrow>
   ('s, 'm, 't) model_registry \<Rightarrow> ('s, 'm, 't) model_registry result" where
  "model_register descriptor factory n r =
     (let plugin_id = pd_plugin_id descriptor; sample = factory n in
      bindE (ensure (plugin_id \<noteq> []) ValueError) (\<lambda>_.
      bindE (ensure (map_of (rg_descriptors r) plugin_id = None) ValueError) (\<lambda>_.
      bindE (ensure (mp_is_plugin sample) ValueError) (\<lambda>_.
      bindE (ensure (mp_plugin_id sample = plugin_id) ValueError) (\<lambda>_.
      Inr (registry_store plugin_id descriptor factory r))))))"

definition model_get ::
  "string \<Rightarrow> nat \<Rightarrow> ('s, 'm, 't) model_registry \<Rightarrow> ('s, 'm, 't) model_plugin result" where
  "model_get plugin_id n r =
     (case map_of (rg_factories r) plugin_id of
        None \<Rightarrow> Inl ValueError
      | Some factory \<Rightarrow>
          bindE (ensure (mp_plugin_id (factory n) = plugin_id) ValueError) (\<lambda>_. Inr (factory n)))"

type_synonym 's dataset_registry = "(dataset_descriptor, 's dataset_provider) registry"

definition dataset_register ::
  "dataset_descriptor \<Rightarrow> (nat \<Rightarrow> 's dataset_provider) \<Rightarrow> nat \<Rightarrow>
   's dataset_registry \<Rightarrow> 's dataset_registry result" where
  "dataset_register descriptor factory n r =
     (let dataset_id = dd_dataset_id descriptor; sample = factory n in
      bindE (ensure (dataset_id \<noteq> []) ValueError) (\<lambda>_.
      bindE (ensure (map_of (rg_descriptors r) dataset_id = None) ValueError) (\<lambda>_.
      bindE (ensure (ds_is_provider sample) ValueError) (\<lambda>_.
      bindE (ensure (ds_dataset_id sample = dataset_id) ValueError) (\<lambda>_.
      bindE (ensure (ds_descriptor sample = descriptor) ValueError) (\<lambda>_.
      Inr (registry_store dataset_id descriptor factory r)))))))"

definition dataset_get :: "string \<Rightarrow> nat \<Rightarrow> 's dataset_registry \<Rightarrow> 's dataset_provider result" where
  "dataset_get dataset_id n r =
     (case map_of (rg_factories r) dataset_id of
        None \<Rightarrow> Inl ValueError
      | Some factory \<Rightarrow>
          bindE (ensure (ds_dataset_id (factory n) = dataset_id) ValueError) (\<lambda>_.
          (case map_of (rg_descriptors r) dataset_id of
             None \<Rightarrow> Inl KeyError
           | Some d \<Rightarrow>
               bindE (ensure (ds_descriptor (factory n) = d) ValueError) (\<lambda>_. Inr (factory n)))))"

fun register_all ::
  "('d \<Rightarrow> (nat \<Rightarrow> 'i) \<Rightarrow> nat \<Rightarrow> 'r \<Rightarrow> 'r result) \<Rightarrow> ('d \<times> (nat \<Rightarrow> 'i)) list \<Rightarrow> nat \<Rightarrow> 'r \<Rightarrow> 'r result" where
  "register_all register [] n r = Inr r"
| "register_all register ((d, f) # ds) n r =
     bindE (register d f n r) (\<lambda>r'. register_all register ds (Suc n) r')"

section \<open>The contract of a registry\<close>

text \<open>
  The laws: an instance or a descriptor found under an identifier carries that identifier, a
  successful registration adds exactly its descriptor, and it never replaces one.
\<close>

locale registry_contract =
  fixes register :: "'d \<Rightarrow> (nat \<Rightarrow> 'i) \<Rightarrow> nat \<Rightarrow> 'r \<Rightarrow> 'r result"
    and get :: "string \<Rightarrow> nat \<Rightarrow> 'r \<Rightarrow> 'i result"
    and lookup :: "string \<Rightarrow> 'r \<Rightarrow> 'd result"
    and descriptor_id :: "'d \<Rightarrow> string"
    and instance_id :: "'i \<Rightarrow> string"
    and invar :: "'r \<Rightarrow> bool"
  assumes register_invar: "invar r \<Longrightarrow> register d f n r = Inr r' \<Longrightarrow> invar r'"
    and register_lookup:
      "register d f n r = Inr r' \<Longrightarrow> lookup k r' = (if k = descriptor_id d then Inr d else lookup k r)"
    and register_new: "register d f n r = Inr r' \<Longrightarrow> \<not> isl (lookup k r) \<Longrightarrow> k \<noteq> descriptor_id d"
    and lookup_id: "invar r \<Longrightarrow> lookup k r = Inr d \<Longrightarrow> descriptor_id d = k"
    and get_id: "get k n r = Inr i \<Longrightarrow> instance_id i = k"
    and get_known: "invar r \<Longrightarrow> get k n r = Inr i \<Longrightarrow> \<not> isl (lookup k r)"
begin

lemma register_all_invar: "invar r \<Longrightarrow> register_all register ds n r = Inr r' \<Longrightarrow> invar r'"
proof (induction ds arbitrary: n r)
  case (Cons p ds)
  then show ?case by (cases p) (auto simp: bindE_eq_Inr dest: register_invar)
qed simp

lemma register_all_keeps:
  "register_all register ds n r = Inr r' \<Longrightarrow> lookup k r = Inr d \<Longrightarrow> lookup k r' = Inr d"
proof (induction ds arbitrary: n r)
  case (Cons p ds)
  obtain d' f where p: "p = (d', f)" by (cases p)
  with Cons.prems obtain r1 where r1: "register d' f n r = Inr r1"
    and rest: "register_all register ds (Suc n) r1 = Inr r'"
    by (auto simp: bindE_eq_Inr)
  from r1 have "k \<noteq> descriptor_id d'" by (rule register_new) (simp add: Cons.prems(2))
  with r1 have "lookup k r1 = Inr d" using Cons.prems(2) by (simp add: register_lookup)
  with rest show ?case by (rule Cons.IH)
qed simp

text \<open>After registering a list of descriptors each of them is found, and nothing else is new.\<close>

lemma register_all_lookup:
  assumes "register_all register ds n r = Inr r'"
  shows "(d, f) \<in> set ds \<Longrightarrow> lookup (descriptor_id d) r' = Inr d"
  using assms
proof (induction ds arbitrary: n r)
  case (Cons p ds)
  obtain d' f' where p: "p = (d', f')" by (cases p)
  with Cons.prems(2) obtain r1 where r1: "register d' f' n r = Inr r1"
    and rest: "register_all register ds (Suc n) r1 = Inr r'"
    by (auto simp: bindE_eq_Inr)
  show ?case
  proof (cases "(d, f) \<in> set ds")
    case True
    with rest show ?thesis using Cons.IH by blast
  next
    case False
    with Cons.prems p have "d = d'" by auto
    with r1 have "lookup (descriptor_id d) r1 = Inr d" by (simp add: register_lookup)
    with rest show ?thesis by (rule register_all_keeps)
  qed
qed simp

end

lemma same_keys_None:
  assumes "map fst a = map fst b"
  shows "map_of a k = None \<longleftrightarrow> map_of b k = None"
  unfolding map_of_eq_None_iff set_map [symmetric] assms ..

definition registry_ok :: "('d \<Rightarrow> string) \<Rightarrow> ('d, 'i) registry \<Rightarrow> bool" where
  "registry_ok ident r \<longleftrightarrow>
     map fst (rg_factories r) = map fst (rg_descriptors r) \<and> distinct (map fst (rg_descriptors r)) \<and>
     list_all (\<lambda>(k, d). ident d = k) (rg_descriptors r)"

lemma empty_registry_ok [simp]: "registry_ok ident empty_registry"
  by (simp add: registry_ok_def empty_registry_def)

lemma registry_store_ok:
  assumes "registry_ok ident r" and "map_of (rg_descriptors r) (ident d) = None"
  shows "registry_ok ident (registry_store (ident d) d f r)"
proof -
  have "map_of (rg_factories r) (ident d) = None"
    using assms same_keys_None [of "rg_factories r" "rg_descriptors r"] by (simp add: registry_ok_def)
  with assms show ?thesis
    by (auto simp: registry_ok_def registry_store_def update_fresh map_of_eq_None_iff)
qed

lemma registry_ok_id: "registry_ok ident r \<Longrightarrow> map_of (rg_descriptors r) k = Some d \<Longrightarrow> ident d = k"
  by (auto simp: registry_ok_def list_all_iff dest: map_of_SomeD)

lemma registry_ok_known: "registry_ok ident r \<Longrightarrow> map_of (rg_factories r) k = Some f \<Longrightarrow>
    map_of (rg_descriptors r) k \<noteq> None"
  using same_keys_None [of "rg_factories r" "rg_descriptors r" k] by (simp add: registry_ok_def)

lemmas registry_defs = model_register_def model_get_def dataset_register_def dataset_get_def
  get_descriptor_def registry_store_def Let_def

interpretation models: registry_contract model_register model_get get_descriptor pd_plugin_id
  mp_plugin_id "registry_ok pd_plugin_id"
proof unfold_locales
  fix r r' :: "('s, 'm, 't) model_registry" and d f n
  assume "registry_ok pd_plugin_id r" "model_register d f n r = Inr r'"
  then show "registry_ok pd_plugin_id r'"
    by (auto simp: model_register_def Let_def bindE_eq_Inr registry_store_ok)
qed (auto simp: registry_defs bindE_eq_Inr split: option.splits dest: registry_ok_id registry_ok_known)

interpretation datasets: registry_contract dataset_register dataset_get get_descriptor dd_dataset_id
  ds_dataset_id "registry_ok dd_dataset_id"
proof unfold_locales
  fix r r' :: "'s dataset_registry" and d f n
  assume "registry_ok dd_dataset_id r" "dataset_register d f n r = Inr r'"
  then show "registry_ok dd_dataset_id r'"
    by (auto simp: dataset_register_def Let_def bindE_eq_Inr registry_store_ok)
qed (auto simp: registry_defs bindE_eq_Inr split: option.splits dest: registry_ok_id registry_ok_known)

lemma list_descriptors_sorted:
  assumes "registry_ok ident r"
  shows "sorted (map ident (list_descriptors r))"
    and "set (list_descriptors r) = snd ` set (rg_descriptors r)"
proof -
  have the: "ident (the (map_of (rg_descriptors r) k)) = k" if "k \<in> fst ` set (rg_descriptors r)" for k
    using that assms by (metis map_of_eq_None_iff option.exhaust_sel registry_ok_id)
  have "map ident (list_descriptors r) = sort (map fst (rg_descriptors r))"
    by (auto simp: list_descriptors_def the intro!: map_idI)
  then show "sorted (map ident (list_descriptors r))" by simp
  have "distinct (map fst (rg_descriptors r))" using assms by (simp add: registry_ok_def)
  then show "set (list_descriptors r) = snd ` set (rg_descriptors r)"
    by (auto simp: list_descriptors_def image_image intro!: image_eqI)
qed

section \<open>The default registries\<close>

text \<open>
  The descriptors the package registers at import. The factories are the classes of the package,
  given as a function of the identifier; the fingerprint of the QLoRA parameter schema is the
  argument \<open>qlora_schema_id\<close>.
\<close>

definition MNIST_CENTROID_DESCRIPTOR :: plugin_descriptor where
  "MNIST_CENTROID_DESCRIPTOR =
     \<lparr>pd_plugin_id = ''mnist-centroid-v1'', pd_display_name = ''MNIST Nearest Centroid'',
      pd_model_family = ''centroid'', pd_task_type = ''cv_classification'',
      pd_sample_kind = ''image/grayscale-28x28'', pd_target_kind = ''class-id/0-9'',
      pd_deterministic = True, pd_supports_stage_c_real_drq1 = True, pd_parameter_schema_id = None\<rparr>"

definition EEG_BANDPOWER_DESCRIPTOR :: plugin_descriptor where
  "EEG_BANDPOWER_DESCRIPTOR =
     \<lparr>pd_plugin_id = ''eeg-bandpower-centroid-v1'', pd_display_name = ''EEG Bandpower Centroid Classifier'',
      pd_model_family = ''centroid'', pd_task_type = ''classification'',
      pd_sample_kind = ''eeg/bandpower-4ch-4band'', pd_target_kind = ''class-id/0-1'',
      pd_deterministic = True, pd_supports_stage_c_real_drq1 = False, pd_parameter_schema_id = None\<rparr>"

definition QLORA_DESCRIPTOR :: "string \<Rightarrow> plugin_descriptor" where
  "QLORA_DESCRIPTOR qlora_schema_id =
     \<lparr>pd_plugin_id = ''qlora-tiny-adapter-v1'', pd_display_name = ''QLoRA Tiny Quantized Adapter'',
      pd_model_family = ''qlora'', pd_task_type = ''adapter_regression'',
      pd_sample_kind = ''vector/tiny-qlora-2d'', pd_target_kind = ''regression/vector-2d'',
      pd_deterministic = True, pd_supports_stage_c_real_drq1 = True,
      pd_parameter_schema_id = Some qlora_schema_id\<rparr>"

definition PHENOTYPE_10GENE_DESCRIPTOR :: plugin_descriptor where
  "PHENOTYPE_10GENE_DESCRIPTOR =
     \<lparr>pd_plugin_id = ''tabular-10gene-phenotype-v1'',
      pd_display_name = ''Synthetic 10-Gene Phenotype Centroid'',
      pd_model_family = ''centroid'', pd_task_type = ''phenotype_classification'',
      pd_sample_kind = ''tabular/genomic-10gene-vector'', pd_target_kind = ''class-id/0-1'',
      pd_deterministic = True, pd_supports_stage_c_real_drq1 = True, pd_parameter_schema_id = None\<rparr>"

definition MNIST_DESCRIPTOR :: dataset_descriptor where
  "MNIST_DESCRIPTOR =
     \<lparr>dd_dataset_id = ''mnist-v1'', dd_display_name = ''MNIST Handwritten Digits'',
      dd_sample_kind = ''image/grayscale-28x28'', dd_target_kind = ''class-id/0-9'',
      dd_deterministic = True, dd_supports_offline_cache = True,
      dd_description = ''Standard 28x28 grayscale handwritten digit classification dataset.'',
      dd_version = ''1.0.0''\<rparr>"

definition EEG_DATASET_DESCRIPTOR :: dataset_descriptor where
  "EEG_DATASET_DESCRIPTOR =
     \<lparr>dd_dataset_id = ''eeg-synthetic-bci-v1'', dd_display_name = ''Synthetic BCI EEG 4-Channel Bandpower'',
      dd_sample_kind = ''eeg/bandpower-4ch-4band'', dd_target_kind = ''class-id/0-1'',
      dd_deterministic = True, dd_supports_offline_cache = True,
      dd_description = ''Deterministic 4-channel windowed EEG bandpower features (delta, theta, alpha, beta) for binary rest vs. motor imagery classification.'',
      dd_version = ''1.0.0''\<rparr>"

definition QLORA_DATASET_DESCRIPTOR :: dataset_descriptor where
  "QLORA_DATASET_DESCRIPTOR =
     \<lparr>dd_dataset_id = ''tiny-qlora-regression-v1'', dd_display_name = ''Tiny QLoRA 2D Regression Dataset'',
      dd_sample_kind = ''vector/tiny-qlora-2d'', dd_target_kind = ''regression/vector-2d'',
      dd_deterministic = True, dd_supports_offline_cache = False,
      dd_description = ''Deterministic synthetic 2D regression dataset for QLoRA adapter training.'',
      dd_version = ''1.0.0''\<rparr>"

definition SYNTHETIC_10GENE_DESCRIPTOR :: dataset_descriptor where
  "SYNTHETIC_10GENE_DESCRIPTOR =
     \<lparr>dd_dataset_id = ''synthetic-10gene-cohort-v1'', dd_display_name = ''Synthetic 10-Gene Cohort Benchmark'',
      dd_sample_kind = ''tabular/genomic-10gene-vector'', dd_target_kind = ''class-id/0-1'',
      dd_deterministic = True, dd_supports_offline_cache = True,
      dd_description = ''Deterministic synthetic cohort benchmark containing normalized 10-gene expression vectors for binary phenotype classification.'',
      dd_version = ''1.0.0''\<rparr>"

definition build_default_registry ::
  "string \<Rightarrow> (string \<Rightarrow> nat \<Rightarrow> ('s, 'm, 't) model_plugin) \<Rightarrow> ('s, 'm, 't) model_registry result" where
  "build_default_registry qlora_schema_id factory =
     register_all model_register
       (map (\<lambda>d. (d, factory (pd_plugin_id d)))
          [MNIST_CENTROID_DESCRIPTOR, EEG_BANDPOWER_DESCRIPTOR, QLORA_DESCRIPTOR qlora_schema_id,
           PHENOTYPE_10GENE_DESCRIPTOR]) 0 empty_registry"

definition build_default_dataset_registry ::
  "(string \<Rightarrow> nat \<Rightarrow> 's dataset_provider) \<Rightarrow> 's dataset_registry result" where
  "build_default_dataset_registry factory =
     register_all dataset_register
       (map (\<lambda>d. (d, factory (dd_dataset_id d)))
          [MNIST_DESCRIPTOR, EEG_DATASET_DESCRIPTOR, QLORA_DATASET_DESCRIPTOR,
           SYNTHETIC_10GENE_DESCRIPTOR]) 0 empty_registry"

lemmas default_descriptors = MNIST_CENTROID_DESCRIPTOR_def EEG_BANDPOWER_DESCRIPTOR_def
  QLORA_DESCRIPTOR_def PHENOTYPE_10GENE_DESCRIPTOR_def MNIST_DESCRIPTOR_def
  EEG_DATASET_DESCRIPTOR_def QLORA_DATASET_DESCRIPTOR_def SYNTHETIC_10GENE_DESCRIPTOR_def

text \<open>Registration of plugins that carry the identifier they are registered under succeeds.\<close>

lemma model_register_ok:
  "mp_is_plugin (f n) \<Longrightarrow> mp_plugin_id (f n) = pd_plugin_id d \<Longrightarrow> pd_plugin_id d \<noteq> [] \<Longrightarrow>
     map_of (rg_descriptors r) (pd_plugin_id d) = None \<Longrightarrow>
     model_register d f n r = Inr (registry_store (pd_plugin_id d) d f r)"
  by (simp add: model_register_def)

lemma default_plugin_ids:
  "pd_plugin_id MNIST_CENTROID_DESCRIPTOR = ''mnist-centroid-v1''"
  "pd_plugin_id EEG_BANDPOWER_DESCRIPTOR = ''eeg-bandpower-centroid-v1''"
  "pd_plugin_id (QLORA_DESCRIPTOR q) = ''qlora-tiny-adapter-v1''"
  "pd_plugin_id PHENOTYPE_10GENE_DESCRIPTOR = ''tabular-10gene-phenotype-v1''"
  by (simp_all add: default_descriptors)

lemma build_default_registry_ok:
  assumes "\<And>k n. mp_is_plugin (factory k n) \<and> mp_plugin_id (factory k n) = k"
  shows "\<exists>r. build_default_registry q factory = Inr r"
  by (simp add: build_default_registry_def model_register_ok assms default_plugin_ids
        registry_store_def empty_registry_def)

lemma dataset_register_ok:
  "ds_is_provider (f n) \<Longrightarrow> ds_dataset_id (f n) = dd_dataset_id d \<Longrightarrow> ds_descriptor (f n) = d \<Longrightarrow>
     dd_dataset_id d \<noteq> [] \<Longrightarrow> map_of (rg_descriptors r) (dd_dataset_id d) = None \<Longrightarrow>
     dataset_register d f n r = Inr (registry_store (dd_dataset_id d) d f r)"
  by (simp add: dataset_register_def)

lemma default_dataset_ids:
  "dd_dataset_id MNIST_DESCRIPTOR = ''mnist-v1''"
  "dd_dataset_id EEG_DATASET_DESCRIPTOR = ''eeg-synthetic-bci-v1''"
  "dd_dataset_id QLORA_DATASET_DESCRIPTOR = ''tiny-qlora-regression-v1''"
  "dd_dataset_id SYNTHETIC_10GENE_DESCRIPTOR = ''synthetic-10gene-cohort-v1''"
  by (simp_all add: default_descriptors)

lemma build_default_dataset_registry_ok:
  assumes "\<And>k n. ds_is_provider (factory k n) \<and> ds_dataset_id (factory k n) = k"
    and "\<And>n. ds_descriptor (factory ''mnist-v1'' n) = MNIST_DESCRIPTOR"
    and "\<And>n. ds_descriptor (factory ''eeg-synthetic-bci-v1'' n) = EEG_DATASET_DESCRIPTOR"
    and "\<And>n. ds_descriptor (factory ''tiny-qlora-regression-v1'' n) = QLORA_DATASET_DESCRIPTOR"
    and "\<And>n. ds_descriptor (factory ''synthetic-10gene-cohort-v1'' n) = SYNTHETIC_10GENE_DESCRIPTOR"
  shows "\<exists>r. build_default_dataset_registry factory = Inr r"
  by (simp add: build_default_dataset_registry_def dataset_register_ok assms default_dataset_ids
        registry_store_def empty_registry_def)

lemma default_registry_facts:
  assumes "build_default_registry q factory = Inr r"
  shows "registry_ok pd_plugin_id r"
    and "get_descriptor ''tabular-10gene-phenotype-v1'' r = Inr PHENOTYPE_10GENE_DESCRIPTOR"
proof -
  show "registry_ok pd_plugin_id r"
    by (rule models.register_all_invar [OF empty_registry_ok assms [unfolded build_default_registry_def]])
  show "get_descriptor ''tabular-10gene-phenotype-v1'' r = Inr PHENOTYPE_10GENE_DESCRIPTOR"
    using models.register_all_lookup [OF assms [unfolded build_default_registry_def],
        of PHENOTYPE_10GENE_DESCRIPTOR "factory ''tabular-10gene-phenotype-v1''"]
    by (simp add: default_plugin_ids)
qed

lemma default_dataset_registry_facts:
  assumes "build_default_dataset_registry factory = Inr r"
  shows "registry_ok dd_dataset_id r"
    and "get_descriptor ''synthetic-10gene-cohort-v1'' r = Inr SYNTHETIC_10GENE_DESCRIPTOR"
proof -
  show "registry_ok dd_dataset_id r"
    by (rule datasets.register_all_invar [OF empty_registry_ok
          assms [unfolded build_default_dataset_registry_def]])
  show "get_descriptor ''synthetic-10gene-cohort-v1'' r = Inr SYNTHETIC_10GENE_DESCRIPTOR"
    using datasets.register_all_lookup [OF assms [unfolded build_default_dataset_registry_def],
        of SYNTHETIC_10GENE_DESCRIPTOR "factory ''synthetic-10gene-cohort-v1''"]
    by (simp add: default_dataset_ids)
qed

end
