(* ===== verification/Ed25519.thy ===== *)
theory Ed25519
  imports Worker_Crypto
begin

text \<open>
  The worker's own Ed25519 verification, \<open>deltatorrent/live_execution/crypto.py\<close>: arithmetic on
  Python's unbounded integers, points as pairs. SHA-512 is the function \<open>sha512\<close>, bytes to bytes.
  \<open>pow_mod\<close> is Python's three-argument \<open>pow\<close>; \<open>from_bytes_little\<close> is
  \<open>int.from_bytes(b, "little")\<close>; \<open>fromhex\<close> is \<open>bytes.fromhex\<close>. The lemmas show that the
  exponentiation and the byte order are what the names say, that every computed coordinate is
  reduced, and that a scalar outside the group order is refused, so that a signature cannot be
  turned into a second one by adding the order to its scalar.
\<close>

section \<open>Integers and bytes\<close>

fun pow_mod :: "int \<Rightarrow> nat \<Rightarrow> int \<Rightarrow> int" where
  "pow_mod b e m =
     (if e = 0 then 1 mod m
      else (let h = pow_mod b (e div 2) m; s = h * h mod m
            in if e mod 2 = 1 then s * (b mod m) mod m else s))"

declare pow_mod.simps [simp del]

fun from_bytes_little :: "string \<Rightarrow> int" where
  "from_bytes_little [] = 0"
| "from_bytes_little (c # cs) = int (of_char c) + 256 * from_bytes_little cs"

fun hex_digit :: "char \<Rightarrow> nat option" where
  "hex_digit c =
     (let n = of_char c :: nat in
      if 48 \<le> n \<and> n \<le> 57 then Some (n - 48)
      else if 97 \<le> n \<and> n \<le> 102 then Some (n - 87)
      else if 65 \<le> n \<and> n \<le> 70 then Some (n - 55)
      else None)"

definition is_ascii_space :: "char \<Rightarrow> bool" where
  "is_ascii_space c \<longleftrightarrow> (of_char c :: nat) = 32 \<or> (9 \<le> (of_char c :: nat) \<and> (of_char c :: nat) \<le> 13)"

text \<open>White space is skipped between two bytes, never inside one; \<open>None\<close> is \<open>ValueError\<close>.\<close>

fun fromhex :: "string \<Rightarrow> string option" where
  "fromhex [] = Some []"
| "fromhex [c] = (if is_ascii_space c then Some [] else None)"
| "fromhex (c # d # cs) =
     (if is_ascii_space c then fromhex (d # cs)
      else (case (hex_digit c, hex_digit d) of
              (Some h, Some l) \<Rightarrow> map_option (Cons (char_of (16 * h + l))) (fromhex cs)
            | _ \<Rightarrow> None))"

section \<open>The curve\<close>

definition ed_P :: int where
  "ed_P = 2 ^ 255 - 19"

definition ed_D :: int where
  "ed_D = (- 121665 * pow_mod 121666 (nat (ed_P - 2)) ed_P) mod ed_P"

definition ed_Q :: int where
  "ed_Q = 2 ^ 252 + 27742317777372353535851937790883648493"

definition ed_I :: int where
  "ed_I = pow_mod 2 (nat ((ed_P - 1) div 4)) ed_P"

definition inv_mod :: "int \<Rightarrow> int" where
  "inv_mod z = pow_mod z (nat (ed_P - 2)) ed_P"

definition xrecover :: "int \<Rightarrow> int" where
  "xrecover y =
     (let xx = (y * y - 1) * inv_mod (ed_D * y * y + 1);
          x0 = pow_mod xx (nat ((ed_P + 3) div 8)) ed_P;
          x1 = (if (x0 * x0 - xx) mod ed_P \<noteq> 0 then (x0 * ed_I) mod ed_P else x0)
      in if x1 mod 2 \<noteq> 0 then ed_P - x1 else x1)"

definition ed_BY :: int where
  "ed_BY = 4 * inv_mod 5 mod ed_P"

definition ed_BX :: int where
  "ed_BX = xrecover ed_BY"

definition ed_B :: "int \<times> int" where
  "ed_B = (ed_BX, ed_BY)"

fun edwards_add :: "int \<times> int \<Rightarrow> int \<times> int \<Rightarrow> int \<times> int" where
  "edwards_add (x1, y1) (x2, y2) =
     ((x1 * y2 + x2 * y1) * inv_mod (1 + ed_D * x1 * x2 * y1 * y2) mod ed_P,
      (y1 * y2 + x1 * x2) * inv_mod (1 - ed_D * x1 * x2 * y1 * y2) mod ed_P)"

fun scalarmult :: "int \<times> int \<Rightarrow> nat \<Rightarrow> int \<times> int" where
  "scalarmult p e =
     (if e = 0 then (0, 1)
      else (let q = scalarmult p (e div 2); q2 = edwards_add q q
            in if odd e then edwards_add q2 p else q2))"

declare scalarmult.simps [simp del]

definition decodepoint :: "string \<Rightarrow> int \<times> int" where
  "decodepoint s =
     (let y = from_bytes_little (take 32 s);
          clamp = y mod 2 ^ 255;
          x = xrecover clamp
      in (if x mod 2 \<noteq> y div 2 ^ 255 then ed_P - x else x, clamp))"

section \<open>Verification\<close>

text \<open>Both lengths are checked first, so no index of \<open>decodepoint\<close> is out of range.\<close>

definition verify_ed25519 :: "(string \<Rightarrow> string) \<Rightarrow> string \<Rightarrow> string \<Rightarrow> string \<Rightarrow> bool" where
  "verify_ed25519 sha512 public_key_bytes msg sig_bytes =
     (if length public_key_bytes \<noteq> 32 \<or> length sig_bytes \<noteq> 64 then False
      else (let r_raw = take 32 sig_bytes;
                s_raw = drop 32 sig_bytes;
                s_val = from_bytes_little s_raw
            in if s_val \<ge> ed_Q then False
               else (let pt_a = decodepoint public_key_bytes;
                         pt_r = decodepoint r_raw;
                         k = from_bytes_little (sha512 (r_raw @ public_key_bytes @ msg)) mod ed_Q;
                         sb = scalarmult ed_B (nat s_val);
                         rak = edwards_add pt_r (scalarmult pt_a (nat k))
                     in sb = rak)))"

text \<open>
  The signature of an admission record, over the record without \<open>authenticator.signature\<close>.
  \<open>verify\<close> is the signature primitive on bytes (\<open>verify_ed25519 sha512\<close> in the worker).
\<close>

definition unsigned_admission :: "(string \<times> json) list \<Rightarrow> (string \<times> json) list" where
  "unsigned_admission admission =
     (case obj_get admission ''authenticator'' of
        JObj a \<Rightarrow> AList.update ''authenticator'' (JObj (AList.delete ''signature'' a)) admission
      | _ \<Rightarrow> admission)"

definition worker_verify_admission_signature ::
  "(string \<Rightarrow> string \<Rightarrow> string \<Rightarrow> bool) \<Rightarrow> (string \<times> json) list \<Rightarrow> string \<Rightarrow> bool result" where
  "worker_verify_admission_signature verify admission trusted_pubkey_hex =
     (case obj_get admission ''authenticator'' of
        JObj a \<Rightarrow>
          (case obj_get a ''signature'' of
             JStr sig_hex \<Rightarrow>
               (case (fromhex sig_hex, fromhex trusted_pubkey_hex) of
                  (Some sig_bytes, Some pub_bytes) \<Rightarrow>
                    bindE (jcs_dumps (JObj (unsigned_admission admission)))
                      (\<lambda>msg_bytes. Inr (verify pub_bytes msg_bytes sig_bytes))
                | _ \<Rightarrow> Inr False)
           | _ \<Rightarrow> Inr False)
      | _ \<Rightarrow> Inr False)"

section \<open>What the arithmetic computes\<close>

lemma pow_mod_eq: "pow_mod b e m = b ^ e mod m"
proof (induction e rule: less_induct)
  case (less e)
  show ?case
  proof (cases "e = 0")
    case True
    then show ?thesis by (simp add: pow_mod.simps)
  next
    case False
    then have h: "pow_mod b (e div 2) m = b ^ (e div 2) mod m" using less by simp
    have sq: "(b ^ (e div 2) mod m) * (b ^ (e div 2) mod m) mod m = b ^ (2 * (e div 2)) mod m"
      by (simp add: mod_mult_eq mult_2 power_add)
    have parity: "2 * (e div 2) + e mod 2 = e" by simp
    show ?thesis
    proof (cases "e mod 2 = 1")
      case True
      then have "b ^ e = b ^ (2 * (e div 2)) * b"
        using parity by (metis power_add power_one_right)
      then have "b ^ e mod m = (b ^ (2 * (e div 2)) mod m) * (b mod m) mod m"
        by (simp only: mod_mult_eq)
      then show ?thesis
        using False h True by (subst pow_mod.simps) (simp add: Let_def sq)
    next
      case False
      then have "2 * (e div 2) = e" using parity by simp
      then show ?thesis
        using \<open>e \<noteq> 0\<close> h False by (subst pow_mod.simps) (simp add: Let_def sq)
    qed
  qed
qed

lemma char_code_less: "(of_char c :: nat) < 256"
  by (rule nat_of_char_less_256)

lemma from_bytes_little_bounds:
  "0 \<le> from_bytes_little s \<and> from_bytes_little s < 256 ^ length s"
proof (induction s)
  case (Cons c cs)
  define k where "k = (of_char c :: nat)"
  have "k < 256" unfolding k_def by (rule char_code_less)
  with Cons have "0 \<le> int k + 256 * from_bytes_little cs"
    and "int k + 256 * from_bytes_little cs < 256 * 256 ^ length cs" by linarith+
  then show ?case unfolding k_def from_bytes_little.simps length_Cons power_Suc by (rule conjI)
qed simp

lemma digit_unique:
  fixes k l a b :: int
  assumes "0 \<le> k" "k < 256" "0 \<le> l" "l < 256" and "k + 256 * a = l + 256 * b"
  shows "k = l \<and> a = b"
proof -
  have "k = (k + 256 * a) mod 256" using assms(1,2) by simp
  also have "\<dots> = l" using assms(3-5) by simp
  finally show ?thesis using assms(5) by simp
qed

lemma from_bytes_little_inj:
  "length s = length t \<Longrightarrow> from_bytes_little s = from_bytes_little t \<Longrightarrow> s = t"
proof (induction s t rule: list_induct2)
  case (Cons c cs d ds)
  define k l where "k = (of_char c :: nat)" and "l = (of_char d :: nat)"
  have "k < 256" "l < 256" unfolding k_def l_def by (rule char_code_less)+
  moreover have "int k + 256 * from_bytes_little cs = int l + 256 * from_bytes_little ds"
    using Cons.prems unfolding k_def l_def from_bytes_little.simps .
  ultimately have "k = l" "from_bytes_little cs = from_bytes_little ds"
    using digit_unique [of "int k" "int l"] by auto
  with Cons.IH show ?case by (simp add: k_def l_def)
qed simp

lemma ed_P_pos [simp]: "0 < ed_P"
  by (simp add: ed_P_def)

lemma edwards_add_reduced:
  "edwards_add p q = (x, y) \<Longrightarrow> 0 \<le> x \<and> x < ed_P \<and> 0 \<le> y \<and> y < ed_P"
  by (cases p; cases q) auto

lemma scalarmult_reduced:
  "scalarmult p e = (x, y) \<Longrightarrow> 0 \<le> x \<and> x < ed_P \<and> 0 \<le> y \<and> y < ed_P"
  by (subst (asm) scalarmult.simps)
     (auto simp: Let_def ed_P_def dest: edwards_add_reduced [unfolded ed_P_def] split: if_splits)

text \<open>
  With one commitment \<open>r\<close>, key and message, at most one of the scalars that agree modulo the
  group order is accepted.
\<close>

lemma verify_ed25519_scalar:
  assumes "verify_ed25519 sha512 pk msg sig"
  shows "length pk = 32" and "length sig = 64" and "from_bytes_little (drop 32 sig) < ed_Q"
  using assms by (auto simp: verify_ed25519_def Let_def split: if_splits)

lemma verify_ed25519_unique:
  assumes "verify_ed25519 sha512 pk msg (r @ s)" and "verify_ed25519 sha512 pk msg (r @ s')"
    and "length r = 32" and "from_bytes_little s mod ed_Q = from_bytes_little s' mod ed_Q"
  shows "s = s'"
proof -
  have len: "length s = length s'"
    using verify_ed25519_scalar(2) [OF assms(1)] verify_ed25519_scalar(2) [OF assms(2)] by simp
  have "from_bytes_little s < ed_Q" "from_bytes_little s' < ed_Q"
    using verify_ed25519_scalar(3) [OF assms(1)] verify_ed25519_scalar(3) [OF assms(2)] assms(3)
    by simp_all
  with assms(4) have "from_bytes_little s = from_bytes_little s'"
    using from_bytes_little_bounds [of s] from_bytes_little_bounds [of s'] by simp
  with len show ?thesis by (rule from_bytes_little_inj)
qed

end
