(* ===== verification/Worker_Preflight.thy ===== *)
theory Worker_Preflight
  imports Ed25519 Auth
begin

text \<open>
  The worker's own checks of an authorized execution,
  \<open>deltatorrent/live_execution/preflight.py\<close>. The worker trusts nothing the controller says: it
  recomputes both digests with its own canonical JSON, checks the signature under a key it has
  pinned, the times, the scope and the grants. What is not the worker's code is the record
  \<open>worker_services\<close>: SHA-256, the signature primitive on bytes (instantiated by
  \<open>verify_ed25519\<close>), \<open>datetime.fromisoformat\<close>, \<open>json.loads\<close>, and Python's \<open>str()\<close> of a list or a dict. The
  fields of a \<open>preflight_context\<close> that the code copies without \<open>str()\<close> keep the JSON value they
  had.
\<close>

record worker_services =
  ws_sha :: "string \<Rightarrow> string"
  ws_verify :: "string \<Rightarrow> string \<Rightarrow> string \<Rightarrow> bool"
  ws_fromiso :: "string \<Rightarrow> instant option"
  ws_loads :: "string \<Rightarrow> json option"
  ws_str :: "json \<Rightarrow> string"

fun py_str :: "worker_services \<Rightarrow> json \<Rightarrow> string" where
  "py_str ws (JStr s) = s"
| "py_str ws JNull = ''None''"
| "py_str ws (JBool b) = (if b then ''True'' else ''False'')"
| "py_str ws (JInt i) = int_text i"
| "py_str ws (JFloat t) = t"
| "py_str ws v = ws_str ws v"

text \<open>\<open>d.get(k, default)\<close> on a value that must be a dict.\<close>

fun dict_get_default :: "json \<Rightarrow> string \<Rightarrow> json \<Rightarrow> json result" where
  "dict_get_default (JObj kvs) k d = Inr (obj_get_default kvs k d)"
| "dict_get_default _ k d = Inl AttributeError"

lemma dict_get_default_eq_Inr [exn_simps]:
  "dict_get_default v k d = Inr w \<longleftrightarrow> (\<exists>kvs. v = JObj kvs \<and> w = obj_get_default kvs k d)"
  by (cases v) auto

record preflight_context =
  pc_execution_id :: json
  pc_intent_id :: json
  pc_intent_digest :: json
  pc_admission_id :: json
  pc_admission_digest :: json
  pc_controller_commit :: json
  pc_operation :: string
  pc_operation_payload :: json
  pc_model_plugin_id :: string
  pc_dataset_id :: string
  pc_requested_scope :: string
  pc_catalog_backend_ref :: string
  pc_allow_downloads :: bool
  pc_timeout_seconds :: int
  pc_max_memory_bytes :: int
  pc_admission_expires_at :: json
  pc_intent :: "(string \<times> json) list"
  pc_admission :: "(string \<times> json) list"

section \<open>Trusted keys\<close>

record preflight_validator =
  pv_trusted_keys :: "(string, string) dict"
  pv_pinned_key_ids :: "string list"
  pv_trusted_public_key_hex :: "string option"

definition validate_trusted_key :: "string \<Rightarrow> string \<Rightarrow> unit result" where
  "validate_trusted_key key_id public_key_hex =
     bindE (ensure (key_id \<noteq> []) ValueError) (\<lambda>_.
     (case fromhex public_key_hex of
        None \<Rightarrow> Inl ValueError
      | Some public_key \<Rightarrow> ensure (length public_key = 32) ValueError))"

fun bind_key_ids :: "string \<Rightarrow> string list \<Rightarrow> (string, string) dict \<Rightarrow> (string, string) dict result" where
  "bind_key_ids key [] keys = Inr keys"
| "bind_key_ids key (key_id # ids) keys =
     (case map_of keys key_id of
        Some configured \<Rightarrow>
          (if configured \<noteq> key then Inl ValueError
           else bind_key_ids key ids (AList.update key_id key keys))
      | None \<Rightarrow> bind_key_ids key ids (AList.update key_id key keys))"

definition init_preflight ::
  "string option \<Rightarrow> string list option \<Rightarrow> (string, string) dict option \<Rightarrow> preflight_validator result" where
  "init_preflight single pinned trusted =
     bindE (case single of
              None \<Rightarrow> Inr (case trusted of None \<Rightarrow> [] | Some d \<Rightarrow> d)
            | Some key \<Rightarrow>
                (case pinned of
                   None \<Rightarrow> Inl ValueError
                 | Some ids \<Rightarrow>
                     (if ids = [] then Inl ValueError
                      else bind_key_ids key ids (case trusted of None \<Rightarrow> [] | Some d \<Rightarrow> d)))) (\<lambda>keys.
     bindE (forE (\<lambda>(key_id, key). validate_trusted_key key_id key) keys) (\<lambda>_.
     (let ids = (case pinned of Some ids \<Rightarrow> ids | None \<Rightarrow> map fst keys) in
      bindE (ensure (list_all (\<lambda>k. map_of keys k \<noteq> None) ids) ValueError) (\<lambda>_.
      Inr \<lparr>pv_trusted_keys = keys, pv_pinned_key_ids = ids,
           pv_trusted_public_key_hex = single\<rparr>))))"

definition register_trusted_key ::
  "string \<Rightarrow> string \<Rightarrow> preflight_validator \<Rightarrow> preflight_validator result" where
  "register_trusted_key key_id key pv =
     bindE (validate_trusted_key key_id key) (\<lambda>_.
     Inr (pv\<lparr>pv_trusted_keys := AList.update key_id key (pv_trusted_keys pv),
             pv_pinned_key_ids := List.insert key_id (pv_pinned_key_ids pv)\<rparr>))"

section \<open>The checks, in the order of the code\<close>

abbreviation schema_failure :: exn where
  "schema_failure \<equiv> WorkerPreflightError ''ERR_SCHEMA_VALIDATION_FAILED''"

abbreviation parity_failure :: exn where
  "parity_failure \<equiv> WorkerPreflightError ''ERR_AUTHORIZED_EXECUTION_PARITY_MISMATCH''"

abbreviation signature_failure :: exn where
  "signature_failure \<equiv> WorkerPreflightError ''ERR_ADMISSION_SIGNATURE_INVALID''"

abbreviation expired_failure :: exn where
  "expired_failure \<equiv> WorkerPreflightError ''ERR_ADMISSION_EXPIRED''"

definition check_parity ::
  "(string \<times> json) list \<Rightarrow> (string \<times> json) list \<Rightarrow> unit result" where
  "check_parity intent admission =
     (let intent_id = obj_get intent ''intent_id''; intent_digest = obj_get intent ''intent_digest'' in
      bindE (ensure (truthy intent_id \<and> py_eq intent_id (obj_get admission ''intent_id''))
               parity_failure) (\<lambda>_.
      ensure (truthy intent_digest \<and> py_eq intent_digest (obj_get admission ''intent_digest''))
        parity_failure))"

definition check_digests ::
  "worker_services \<Rightarrow> (string \<times> json) list \<Rightarrow> (string \<times> json) list \<Rightarrow> unit result" where
  "check_digests ws intent admission =
     bindE (worker_verify_intent_digest (ws_sha ws) intent) (\<lambda>intent_ok.
     bindE (ensure intent_ok (WorkerPreflightError ''ERR_INTENT_DIGEST_MISMATCH'')) (\<lambda>_.
     bindE (verify_admission_digest (ws_sha ws) admission) (\<lambda>admission_ok.
     ensure admission_ok (WorkerPreflightError ''ERR_ADMISSION_DIGEST_MISMATCH''))))"

definition check_signature ::
  "worker_services \<Rightarrow> preflight_validator \<Rightarrow> (string \<times> json) list \<Rightarrow> unit result" where
  "check_signature ws pv admission =
     (case obj_get_default admission ''authenticator'' (JObj []) of
        JObj auth \<Rightarrow>
          (let key_id = obj_get auth ''key_id'' in
           bindE (ensure (obj_get auth ''algorithm'' = JStr ''ED25519'') signature_failure) (\<lambda>_.
           bindE (ensure (truthy key_id) signature_failure) (\<lambda>_.
           bindE (hash_in (pv_pinned_key_ids pv) key_id) (\<lambda>pinned.
           bindE (ensure pinned signature_failure) (\<lambda>_.
           bindE (hash_get (pv_trusted_keys pv) key_id) (\<lambda>found.
           (case found of
              None \<Rightarrow> Inl signature_failure
            | Some trusted_pubkey \<Rightarrow>
                bindE (worker_verify_admission_signature (ws_verify ws) admission trusted_pubkey)
                  (\<lambda>ok. ensure ok signature_failure))))))))
      | _ \<Rightarrow> Inl signature_failure)"

definition ttl_instant :: "worker_services \<Rightarrow> json \<Rightarrow> instant result" where
  "ttl_instant ws v =
     (case v of
        JStr text \<Rightarrow>
          (case ws_fromiso ws (replace_z text) of None \<Rightarrow> Inl schema_failure | Some t \<Rightarrow> Inr t)
      | _ \<Rightarrow> Inl schema_failure)"

definition check_freshness ::
  "worker_services \<Rightarrow> instant \<Rightarrow> (string \<times> json) list \<Rightarrow> (string \<times> json) list \<Rightarrow> unit result" where
  "check_freshness ws now intent admission =
     (let admitted_at_str = obj_get admission ''admitted_at'';
          admission_expires_at_str = obj_get admission ''admission_expires_at'';
          intent_expires_at_str = obj_get intent ''expires_at'' in
      bindE (ensure (truthy admitted_at_str \<and> truthy admission_expires_at_str \<and>
                     truthy intent_expires_at_str) schema_failure) (\<lambda>_.
      bindE (ttl_instant ws admitted_at_str) (\<lambda>admitted_at.
      bindE (ttl_instant ws admission_expires_at_str) (\<lambda>admission_expires_at.
      bindE (ttl_instant ws intent_expires_at_str) (\<lambda>intent_expires_at.
      bindE (instant_less admission_expires_at admitted_at) (\<lambda>inverted.
      bindE (ensure (\<not> inverted) expired_failure) (\<lambda>_.
      bindE (instant_less intent_expires_at admission_expires_at) (\<lambda>exceeds_intent.
      bindE (ensure (\<not> exceeds_intent) expired_failure) (\<lambda>_.
      bindE (instant_le admission_expires_at now) (\<lambda>expired.
      ensure (\<not> expired) expired_failure))))))))))"

definition check_scope :: "(string \<times> json) list \<Rightarrow> unit result" where
  "check_scope intent =
     bindE (dict_get (obj_get_default intent ''workload'' (JObj [])) ''requested_scope'') (\<lambda>scope.
     bindE (ensure (scope \<noteq> JStr ''STAGE_C_REAL_DRQ1'')
              (WorkerPreflightError ''ERR_STAGE_C_FORBIDDEN'')) (\<lambda>_.
     ensure (obj_get intent ''operation'' = JStr ''TRAIN_TICKET'' \<longrightarrow> scope = JStr ''PLUGIN_BOUNDARY'')
       (WorkerPreflightError ''ERR_OPERATION_SCOPE_UNSUPPORTED'')))"

definition check_grants :: "(string \<times> json) list \<Rightarrow> (bool \<times> int \<times> int) result" where
  "check_grants admission =
     (case obj_get admission ''resource_grants'' of
        JObj grants \<Rightarrow>
          (case obj_get grants ''allow_downloads'' of
             JBool allow_downloads \<Rightarrow>
               (case obj_get grants ''timeout_seconds'' of
                  JInt timeout \<Rightarrow>
                    bindE (ensure (1 \<le> timeout \<and> timeout \<le> 3600) schema_failure) (\<lambda>_.
                    (case obj_get grants ''max_memory_bytes'' of
                       JInt memory \<Rightarrow>
                         bindE (ensure (1 \<le> memory) schema_failure) (\<lambda>_.
                         Inr (allow_downloads, timeout, memory))
                     | _ \<Rightarrow> Inl schema_failure))
                | _ \<Rightarrow> Inl schema_failure)
           | _ \<Rightarrow> Inl schema_failure)
      | _ \<Rightarrow> Inl schema_failure)"

definition build_context ::
  "worker_services \<Rightarrow> (string \<times> json) list \<Rightarrow> (string \<times> json) list \<Rightarrow> bool \<times> int \<times> int \<Rightarrow>
   preflight_context result" where
  "build_context ws intent admission grants =
     (let workload = obj_get_default intent ''workload'' (JObj []) in
      bindE (dict_get_default (obj_get_default admission ''policy_context'' (JObj []))
               ''controller_commit'' (JStr [])) (\<lambda>commit.
      bindE (dict_get_default workload ''model_plugin_id'' (JStr [])) (\<lambda>plugin.
      bindE (dict_get_default workload ''dataset_id'' (JStr [])) (\<lambda>dataset.
      bindE (dict_get workload ''requested_scope'') (\<lambda>scope.
      bindE (dict_get_default workload ''catalog_backend_ref'' (JStr [])) (\<lambda>ref.
      Inr \<lparr>pc_execution_id = obj_get admission ''execution_id'',
           pc_intent_id = obj_get intent ''intent_id'',
           pc_intent_digest = obj_get intent ''intent_digest'',
           pc_admission_id = obj_get_default admission ''admission_id'' (JStr []),
           pc_admission_digest = obj_get_default admission ''admission_digest'' (JStr []),
           pc_controller_commit = commit,
           pc_operation = py_str ws (obj_get intent ''operation''),
           pc_operation_payload = obj_get_default intent ''operation_payload'' (JObj []),
           pc_model_plugin_id = py_str ws plugin,
           pc_dataset_id = py_str ws dataset,
           pc_requested_scope = py_str ws scope,
           pc_catalog_backend_ref = py_str ws ref,
           pc_allow_downloads = fst grants,
           pc_timeout_seconds = fst (snd grants),
           pc_max_memory_bytes = snd (snd grants),
           pc_admission_expires_at = obj_get admission ''admission_expires_at'',
           pc_intent = intent,
           pc_admission = admission\<rparr>))))))"

definition preflight_validate ::
  "worker_services \<Rightarrow> preflight_validator \<Rightarrow> json \<Rightarrow> instant \<Rightarrow> preflight_context result" where
  "preflight_validate ws pv bundle now =
     (case bundle of
        JObj b \<Rightarrow>
          bindE (ensure (obj_get b ''schema_version'' = JStr ''1.0.0'') schema_failure) (\<lambda>_.
          (case (obj_get b ''intent'', obj_get b ''admission'') of
             (JObj intent, JObj admission) \<Rightarrow>
               bindE (check_parity intent admission) (\<lambda>_.
               bindE (check_digests ws intent admission) (\<lambda>_.
               bindE (check_signature ws pv admission) (\<lambda>_.
               bindE (check_freshness ws now intent admission) (\<lambda>_.
               bindE (check_scope intent) (\<lambda>_.
               bindE (check_grants admission) (\<lambda>grants.
               bindE (ensure (truthy (obj_get admission ''execution_id'')) schema_failure) (\<lambda>_.
               build_context ws intent admission grants)))))))
           | _ \<Rightarrow> Inl schema_failure))
      | _ \<Rightarrow> Inl schema_failure)"

section \<open>What an accepted bundle is\<close>

lemma preflight_validate_Inr:
  assumes "preflight_validate ws pv doc now = Inr ctx"
  obtains b intent admission grants where "doc = JObj b"
    and "obj_get b ''intent'' = JObj intent" and "obj_get b ''admission'' = JObj admission"
    and "check_parity intent admission = Inr ()" and "check_digests ws intent admission = Inr ()"
    and "check_signature ws pv admission = Inr ()"
    and "check_freshness ws now intent admission = Inr ()" and "check_scope intent = Inr ()"
    and "check_grants admission = Inr grants" and "truthy (obj_get admission ''execution_id'')"
    and "build_context ws intent admission grants = Inr ctx"
proof -
  from assms obtain b where b: "doc = JObj b" by (cases doc) (auto simp: preflight_validate_def)
  with assms obtain intent where i: "obj_get b ''intent'' = JObj intent"
    by (cases "obj_get b ''intent''") (auto simp: preflight_validate_def exn_simps)
  with assms b obtain admission where a: "obj_get b ''admission'' = JObj admission"
    by (cases "obj_get b ''admission''") (auto simp: preflight_validate_def exn_simps)
  show thesis
    using assms b i a by (auto simp: preflight_validate_def bindE_eq_Inr intro!: that)
qed

lemma check_signature_Inr:
  assumes "check_signature ws pv admission = Inr ()"
  obtains auth key_id key where "obj_get_default admission ''authenticator'' (JObj []) = JObj auth"
    and "obj_get auth ''key_id'' = JStr key_id" and "obj_get auth ''algorithm'' = JStr ''ED25519''"
    and "key_id \<in> set (pv_pinned_key_ids pv)" and "map_of (pv_trusted_keys pv) key_id = Some key"
    and "worker_verify_admission_signature (ws_verify ws) admission key = Inr True"
proof -
  from assms obtain auth where a: "obj_get_default admission ''authenticator'' (JObj []) = JObj auth"
    by (cases "obj_get_default admission ''authenticator'' (JObj [])") (auto simp: check_signature_def)
  show thesis
    using assms a
    by (auto simp: check_signature_def Let_def bindE_eq_Inr hash_in_True split: option.splits intro!: that)
qed

lemma check_grants_Inr:
  "check_grants admission = Inr (allow, timeout, memory) \<Longrightarrow>
     1 \<le> timeout \<and> timeout \<le> 3600 \<and> 1 \<le> memory \<and>
     (\<exists>grants. obj_get admission ''resource_grants'' = JObj grants \<and>
        obj_get grants ''allow_downloads'' = JBool allow \<and>
        obj_get grants ''timeout_seconds'' = JInt timeout \<and>
        obj_get grants ''max_memory_bytes'' = JInt memory)"
  by (auto simp: check_grants_def bindE_eq_Inr split: json.splits)

end
