(* ===== verification/Model_Runner.thy ===== *)
theory Model_Runner
  imports Model_Registry Worker_Preflight
begin

text \<open>
  The generic runner \<open>deltatorrent/model_plugins/runner.py\<close>: it binds a model plugin and a
  dataset provider by identifier, checks that they fit, runs one workload step and emits the
  execution receipt. A runner remembers its last execution, and a receipt is only emitted after
  one. All errors of this file are subclasses of \<open>ValueError\<close>. Writing the receipt to a file
  (\<open>output_path\<close>) is not modelled; no caller in the live worker uses it.
\<close>

section \<open>Binding\<close>

definition VALID_DOMAIN_ROLES :: "string list" where
  "VALID_DOMAIN_ROLES = [''PRIMARY_DELTA_EXECUTION'', ''WORKLOAD_DOMAIN'', ''PLUGIN_BINDING_SMOKE'']"

definition VALID_EXECUTION_SCOPES :: "string list" where
  "VALID_EXECUTION_SCOPES = [''STAGE_C_REAL_DRQ1'', ''PLUGIN_BOUNDARY'', ''MODEL_DATASET_BINDING_ONLY'']"

definition validate_model_dataset_capability ::
  "plugin_descriptor \<Rightarrow> dataset_descriptor \<Rightarrow> string \<Rightarrow> unit result" where
  "validate_model_dataset_capability model dataset requested_scope =
     bindE (ensure (requested_scope \<in> set VALID_EXECUTION_SCOPES) ValueError) (\<lambda>_.
     bindE (check_contract_compatibility (pd_sample_kind model) (pd_target_kind model) dataset) (\<lambda>_.
     ensure (\<not> (requested_scope = ''STAGE_C_REAL_DRQ1'' \<and> \<not> pd_supports_stage_c_real_drq1 model))
       ValueError))"

record ('s, 'm, 't) binding =
  bn_model_plugin :: "('s, 'm, 't) model_plugin"
  bn_model_descriptor :: plugin_descriptor
  bn_dataset_provider :: "'s dataset_provider"
  bn_dataset_descriptor :: dataset_descriptor

definition bind_model_and_dataset ::
  "('s, 'm, 't) model_registry \<Rightarrow> 's dataset_registry \<Rightarrow> nat \<Rightarrow> string \<Rightarrow> string \<Rightarrow> string \<Rightarrow>
   ('s, 'm, 't) binding result" where
  "bind_model_and_dataset models datasets n model_plugin_id dataset_id requested_scope =
     bindE (get_descriptor model_plugin_id models) (\<lambda>model_descriptor.
     bindE (get_descriptor dataset_id datasets) (\<lambda>dataset_descriptor.
     bindE (validate_model_dataset_capability model_descriptor dataset_descriptor requested_scope) (\<lambda>_.
     bindE (model_get model_plugin_id n models) (\<lambda>plugin.
     bindE (dataset_get dataset_id n datasets) (\<lambda>provider.
     Inr \<lparr>bn_model_plugin = plugin, bn_model_descriptor = model_descriptor,
          bn_dataset_provider = provider, bn_dataset_descriptor = dataset_descriptor\<rparr>)))))"

definition binding_materialize ::
  "('s, 'm, 't) binding \<Rightarrow> path option \<Rightarrow> bool \<Rightarrow> (string \<times> json) list result" where
  "binding_materialize b cache_dir allow_download =
     (let resolved_cache =
            (case cache_dir of
               Some p \<Rightarrow> p
             | None \<Rightarrow> [''.cache'', ''deltatorrent'', dd_dataset_id (bn_dataset_descriptor b)])
      in ds_materialize (bn_dataset_provider b) resolved_cache allow_download)"

definition ticket_context_item :: "json \<Rightarrow> unit result" where
  "ticket_context_item item =
     (case item of
        JObj kvs \<Rightarrow>
          forE (\<lambda>k. ensure (truthy (obj_get kvs k) \<and> is_str (obj_get kvs k)) ValueError)
            [''session_id'', ''data_window_id'', ''intervention_event_id'']
      | _ \<Rightarrow> Inl ValueError)"

definition ticket_context_check :: "'s data_partition \<Rightarrow> unit result" where
  "ticket_context_check p =
     (case obj_get (part_metadata p) ''ticket_context'' of
        JNull \<Rightarrow> Inr ()
      | JArr items \<Rightarrow>
          bindE (ensure (length items =
                   (case part_sample_count p of Some n \<Rightarrow> n | None \<Rightarrow> 0)) ValueError) (\<lambda>_.
          forE ticket_context_item items)
      | _ \<Rightarrow> Inl ValueError)"

definition binding_train_ticket ::
  "('s, 'm, 't) binding \<Rightarrow> string \<Rightarrow> string \<Rightarrow> 'm option \<Rightarrow> 't local_training_result result" where
  "binding_train_ticket b ticket_id partition_id parent_model =
     bindE (ensure (ticket_id \<noteq> []) ValueError) (\<lambda>_.
     bindE (ensure (partition_id \<noteq> []) ValueError) (\<lambda>_.
     bindE (ds_training_partition (bn_dataset_provider b) partition_id) (\<lambda>found.
     (case found of
        None \<Rightarrow> Inl ValueError
      | Some p \<Rightarrow>
          bindE (ticket_context_check p) (\<lambda>_.
          bindE (mp_train_ticket (bn_model_plugin b) ticket_id (part_samples p, part_targets p)
                   parent_model) (\<lambda>result.
          Inr \<lparr>lt_ticket_id = lt_ticket_id result, lt_tensors = lt_tensors result,
               lt_metadata =
                 AList.update ''data_partition_metadata'' (JObj (part_metadata p))
                   (AList.update ''data_partition_id'' (JStr (part_partition_id p))
                      (lt_metadata result))\<rparr>))))))"

definition binding_evaluate :: "('s, 'm, 't) binding \<Rightarrow> 'm \<Rightarrow> evaluation_result result" where
  "binding_evaluate b model =
     bindE (ds_evaluation_data (bn_dataset_provider b)) (mp_evaluate (bn_model_plugin b) model)"

definition binding_evaluate_checkpoint :: "('s, 'm, 't) binding \<Rightarrow> json \<Rightarrow> evaluation_result result" where
  "binding_evaluate_checkpoint b checkpoint_values =
     bindE (mp_load_applied_checkpoint (bn_model_plugin b) checkpoint_values) (binding_evaluate b)"

section \<open>The runner\<close>

record ('s, 'm, 't) runner =
  rn_binding :: "('s, 'm, 't) binding"
  rn_execution_scope :: string
  rn_last_execution :: "(string \<times> json) list option"

definition init_model_runner ::
  "('s, 'm, 't) model_registry \<Rightarrow> 's dataset_registry \<Rightarrow> nat \<Rightarrow> string \<Rightarrow> string \<Rightarrow> string \<Rightarrow>
   ('s, 'm, 't) runner result" where
  "init_model_runner models datasets n plugin_id dataset_id execution_scope =
     bindE (ensure (plugin_id \<noteq> []) ValueError) (\<lambda>_.
     bindE (ensure (dataset_id \<noteq> []) ValueError) (\<lambda>_.
     bindE (bind_model_and_dataset models datasets n plugin_id dataset_id execution_scope) (\<lambda>b.
     Inr \<lparr>rn_binding = b, rn_execution_scope = execution_scope, rn_last_execution = None\<rparr>)))"

definition materialize_dataset ::
  "('s, 'm, 't) runner \<Rightarrow> path option \<Rightarrow> bool \<Rightarrow> (string \<times> json) list result" where
  "materialize_dataset rn = binding_materialize (rn_binding rn)"

definition train_ticket ::
  "string \<Rightarrow> string \<Rightarrow> 'm option \<Rightarrow> ('s, 'm, 't) runner \<Rightarrow>
   ('t local_training_result \<times> ('s, 'm, 't) runner) result" where
  "train_ticket ticket_id partition_id parent_model rn =
     bindE (binding_train_ticket (rn_binding rn) ticket_id partition_id parent_model) (\<lambda>result.
     Inr (result, rn\<lparr>rn_last_execution :=
        Some [(''type'', JStr ''TRAIN_TICKET''), (''ticket_id'', JStr ticket_id),
              (''partition_id'', JStr partition_id)]\<rparr>))"

definition runner_evaluate ::
  "'m \<Rightarrow> ('s, 'm, 't) runner \<Rightarrow> (evaluation_result \<times> ('s, 'm, 't) runner) result" where
  "runner_evaluate model rn =
     bindE (binding_evaluate (rn_binding rn) model) (\<lambda>result.
     Inr (result, rn\<lparr>rn_last_execution := Some [(''type'', JStr ''EVALUATE'')]\<rparr>))"

definition evaluate_checkpoint ::
  "json \<Rightarrow> ('s, 'm, 't) runner \<Rightarrow> (evaluation_result \<times> ('s, 'm, 't) runner) result" where
  "evaluate_checkpoint checkpoint_values rn =
     bindE (binding_evaluate_checkpoint (rn_binding rn) checkpoint_values) (\<lambda>result.
     Inr (result, rn\<lparr>rn_last_execution := Some [(''type'', JStr ''EVALUATE_CHECKPOINT'')]\<rparr>))"

section \<open>Receipts\<close>

text \<open>
  The regular expressions of this file end in \<open>$\<close> and are used with \<open>match\<close>, so a final newline
  is accepted: \<open>match_end p s\<close>. \<open>require_match\<close> is \<open>if not v or not re.match(v): raise\<close> on an
  arbitrary value.
\<close>

definition match_end :: "(string \<Rightarrow> bool) \<Rightarrow> string \<Rightarrow> bool" where
  "match_end p s \<longleftrightarrow> p s \<or> (s \<noteq> [] \<and> last s = CHR 0x0A \<and> p (butlast s))"

definition is_uuid :: "string \<Rightarrow> bool" where
  "is_uuid s \<longleftrightarrow>
     length s = 36 \<and> s ! 8 = CHR ''-'' \<and> s ! 13 = CHR ''-'' \<and> s ! 18 = CHR ''-'' \<and> s ! 23 = CHR ''-'' \<and>
     fullmatch_hex 8 (take 8 s) \<and> fullmatch_hex 4 (take 4 (drop 9 s)) \<and>
     fullmatch_hex 4 (take 4 (drop 14 s)) \<and> fullmatch_hex 4 (take 4 (drop 19 s)) \<and>
     fullmatch_hex 12 (drop 24 s)"

definition is_sha256_text :: "string \<Rightarrow> bool" where
  "is_sha256_text s \<longleftrightarrow> take 7 s = ''sha256:'' \<and> fullmatch_hex 64 (drop 7 s)"

definition require_match :: "(string \<Rightarrow> bool) \<Rightarrow> json \<Rightarrow> unit result" where
  "require_match p v =
     (if \<not> truthy v then Inl ValueError
      else (case v of
              JStr s \<Rightarrow> ensure (match_end p s) ValueError
            | _ \<Rightarrow> Inl TypeError))"

record receipt_request =
  rr_backend_commit :: string
  rr_catalog_backend_ref :: "string option"
  rr_producer_commit :: "string option"
  rr_controller_commit :: json
  rr_intent_id :: json
  rr_intent_digest :: json
  rr_admission_id :: json
  rr_admission_digest :: json
  rr_execution_id :: json
  rr_repository :: string
  rr_produced_at :: "string option"

text \<open>
  The environment of an emission: the process environment, the output of \<open>git rev-parse HEAD\<close>
  when the command succeeds, and the current time in the format of the receipt.
\<close>

record receipt_env =
  rx_environ :: "(string, string) dict"
  rx_git_head :: "string option"
  rx_now :: string

definition DEFAULT_BACKEND_COMMIT :: string where
  "DEFAULT_BACKEND_COMMIT = ''670b58f6458fe84620f4f9f46401f855d04ae05d''"

definition resolve_catalog_ref :: "string \<Rightarrow> string option \<Rightarrow> string result" where
  "resolve_catalog_ref backend_commit ref =
     (case ref of
        None \<Rightarrow> Inr backend_commit
      | Some r \<Rightarrow>
          bindE (ensure (match_end (fullmatch_hex 40) r) ValueError) (\<lambda>_.
          bindE (ensure (r = backend_commit) ValueError) (\<lambda>_. Inr r)))"

definition resolve_producer_commit :: "receipt_env \<Rightarrow> string option \<Rightarrow> string result" where
  "resolve_producer_commit rx given =
     (let from_environ =
            (case map_of (rx_environ rx) ''PRODUCER_COMMIT'' of
               Some (c # cs) \<Rightarrow> Some (c # cs)
             | _ \<Rightarrow> map_of (rx_environ rx) ''GITHUB_SHA'');
          from_git =
            (case rx_git_head rx of
               Some h \<Rightarrow> if match_end (fullmatch_hex 40) h then Some h else None
             | None \<Rightarrow> None);
          resolved = (case given of Some g \<Rightarrow> Some g
                      | None \<Rightarrow> (case from_environ of Some e \<Rightarrow> Some e | None \<Rightarrow> from_git))
      in case resolved of
           None \<Rightarrow> Inl ValueError
         | Some c \<Rightarrow> bindE (ensure (match_end (fullmatch_hex 40) c) ValueError) (\<lambda>_. Inr c))"

definition receipt_lineage :: "receipt_request \<Rightarrow> (string \<times> json) list result" where
  "receipt_lineage rr =
     (if rr_intent_id rr = JNull \<and> rr_execution_id rr = JNull then Inr []
      else
        bindE (require_match (fullmatch_hex 40) (rr_controller_commit rr)) (\<lambda>_.
        bindE (require_match is_uuid (rr_intent_id rr)) (\<lambda>_.
        bindE (require_match is_sha256_text (rr_intent_digest rr)) (\<lambda>_.
        bindE (require_match is_uuid (rr_admission_id rr)) (\<lambda>_.
        bindE (require_match is_sha256_text (rr_admission_digest rr)) (\<lambda>_.
        bindE (require_match is_uuid (rr_execution_id rr)) (\<lambda>_.
        Inr [(''controller_commit'', rr_controller_commit rr), (''intent_id'', rr_intent_id rr),
             (''intent_digest'', rr_intent_digest rr), (''admission_id'', rr_admission_id rr),
             (''admission_digest'', rr_admission_digest rr),
             (''execution_id'', rr_execution_id rr)])))))))"

definition workload_config_digest ::
  "(string \<Rightarrow> string) \<Rightarrow> string \<Rightarrow> string \<Rightarrow> string \<Rightarrow> string \<Rightarrow> string" where
  "workload_config_digest sha plugin_id dataset_id scope ref =
     ''sha256:'' @ sha (plugin_id @ '':'' @ dataset_id @ '':'' @ scope @ '':'' @ ref)"

definition emit_execution_receipt ::
  "(string \<Rightarrow> string) \<Rightarrow> receipt_env \<Rightarrow> receipt_request \<Rightarrow> ('s, 'm, 't) runner \<Rightarrow> json result" where
  "emit_execution_receipt sha rx rr rn =
     bindE (ensure (rn_execution_scope rn \<noteq> ''STAGE_C_REAL_DRQ1'') ValueError) (\<lambda>_.
     bindE (ensure (rn_last_execution rn \<noteq> None) ValueError) (\<lambda>_.
     bindE (ensure (match_end (fullmatch_hex 40) (rr_backend_commit rr)) ValueError) (\<lambda>_.
     bindE (resolve_catalog_ref (rr_backend_commit rr) (rr_catalog_backend_ref rr)) (\<lambda>ref.
     bindE (resolve_producer_commit rx (rr_producer_commit rr)) (\<lambda>producer.
     bindE (receipt_lineage rr) (\<lambda>lineage.
     (let plugin_id = pd_plugin_id (bn_model_descriptor (rn_binding rn));
          dataset_id = dd_dataset_id (bn_dataset_descriptor (rn_binding rn));
          scope = rn_execution_scope rn;
          timestamp = (case rr_produced_at rr of Some (c # cs) \<Rightarrow> c # cs | _ \<Rightarrow> rx_now rx)
      in Inr (JObj
           [(''schema_version'', JStr ''1.0.0''),
            (''receipt_type'', JStr ''DELTAREDUCE_EXECUTION_RECEIPT''),
            (''provenance'', JObj
               ([(''repository'', JStr (rr_repository rr)),
                 (''backend_commit'', JStr (rr_backend_commit rr)),
                 (''catalog_backend_ref'', JStr ref), (''producer_commit'', JStr producer),
                 (''produced_at'', JStr timestamp)] @ lineage)),
            (''workload'', JObj
               [(''model_plugin_id'', JStr plugin_id), (''dataset_id'', JStr dataset_id),
                (''executed_scope'', JStr scope),
                (''workload_config_digest'',
                   JStr (workload_config_digest sha plugin_id dataset_id scope ref))]),
            (''execution'', JObj
               [(''verdict'', JStr ''SUCCESS''), (''terminal_status'', JStr ''COMPLETED'')])]))))))))"

section \<open>Several domains\<close>

record domain_binding_spec =
  sp_domain_id :: string
  sp_model_plugin_id :: string
  sp_dataset_id :: string
  sp_role :: string
  sp_execution_scope :: string

definition check_domain_spec :: "domain_binding_spec \<Rightarrow> unit result" where
  "check_domain_spec sp =
     bindE (ensure (sp_domain_id sp \<noteq> []) ValueError) (\<lambda>_.
     bindE (ensure (sp_model_plugin_id sp \<noteq> []) ValueError) (\<lambda>_.
     bindE (ensure (sp_dataset_id sp \<noteq> []) ValueError) (\<lambda>_.
     bindE (ensure (sp_role sp \<in> set VALID_DOMAIN_ROLES) ValueError) (\<lambda>_.
     ensure (sp_execution_scope sp \<in> set VALID_EXECUTION_SCOPES) ValueError))))"

type_synonym ('s, 'm, 't) domain_bindings =
  "(string, ('s, 'm, 't) binding) dict \<times> (string, domain_binding_spec) dict"

fun bind_domain_loop ::
  "('s, 'm, 't) model_registry \<Rightarrow> 's dataset_registry \<Rightarrow> nat \<Rightarrow> domain_binding_spec list \<Rightarrow>
   ('s, 'm, 't) domain_bindings \<Rightarrow> ('s, 'm, 't) domain_bindings result" where
  "bind_domain_loop models datasets n [] acc = Inr acc"
| "bind_domain_loop models datasets n (sp # sps) (bindings, specs) =
     bindE (ensure (map_of bindings (sp_domain_id sp) = None) ValueError) (\<lambda>_.
     bindE (bind_model_and_dataset models datasets n (sp_model_plugin_id sp) (sp_dataset_id sp)
              (sp_execution_scope sp)) (\<lambda>b.
     bind_domain_loop models datasets (Suc n) sps
       (AList.update (sp_domain_id sp) b bindings, AList.update (sp_domain_id sp) sp specs)))"

definition bind_model_dataset_domains ::
  "('s, 'm, 't) model_registry \<Rightarrow> 's dataset_registry \<Rightarrow> nat \<Rightarrow> domain_binding_spec list \<Rightarrow>
   ('s, 'm, 't) domain_bindings result" where
  "bind_model_dataset_domains models datasets n specs =
     bindE (ensure (specs \<noteq> []) ValueError) (\<lambda>_.
     bind_domain_loop models datasets n specs ([], []))"

definition domain_ids :: "('s, 'm, 't) domain_bindings \<Rightarrow> string list" where
  "domain_ids mb = map fst (fst mb)"

definition get_domain :: "string \<Rightarrow> ('s, 'm, 't) domain_bindings \<Rightarrow> ('s, 'm, 't) binding result" where
  "get_domain domain_id mb =
     (case map_of (fst mb) domain_id of None \<Rightarrow> Inl ValueError | Some b \<Rightarrow> Inr b)"

section \<open>Facts\<close>

lemma bind_facts:
  assumes "bind_model_and_dataset models datasets n p d scope = Inr b"
    and "registry_ok pd_plugin_id models" and "registry_ok dd_dataset_id datasets"
  shows "pd_plugin_id (bn_model_descriptor b) = p" and "dd_dataset_id (bn_dataset_descriptor b) = d"
    and "mp_plugin_id (bn_model_plugin b) = p" and "ds_dataset_id (bn_dataset_provider b) = d"
    and "pd_sample_kind (bn_model_descriptor b) = dd_sample_kind (bn_dataset_descriptor b)"
    and "pd_target_kind (bn_model_descriptor b) = dd_target_kind (bn_dataset_descriptor b)"
    and "scope \<in> set VALID_EXECUTION_SCOPES"
  using assms
  by (auto simp: bind_model_and_dataset_def validate_model_dataset_capability_def bindE_eq_Inr
        check_contract_compatibility_def check_compatibility_def
      dest: models.lookup_id datasets.lookup_id models.get_id datasets.get_id)

lemma init_model_runner_facts:
  assumes "init_model_runner models datasets n p d scope = Inr rn"
  shows "bind_model_and_dataset models datasets n p d scope = Inr (rn_binding rn)"
    and "rn_execution_scope rn = scope" and "rn_last_execution rn = None"
  using assms by (auto simp: init_model_runner_def bindE_eq_Inr)

text \<open>A new runner cannot emit a receipt; after a workload step it can.\<close>

lemma no_receipt_before_execution:
  "rn_last_execution rn = None \<Longrightarrow> isl (emit_execution_receipt sha rx rr rn)"
  by (auto simp: emit_execution_receipt_def bindE_def ensure_def)

lemma bind_domain_loop_distinct:
  "bind_domain_loop models datasets n sps acc = Inr (bindings, specs) \<Longrightarrow>
     map fst (fst acc) = map fst (snd acc) \<Longrightarrow>
     map fst bindings = map fst (fst acc) @ map sp_domain_id sps \<and> map fst specs = map fst bindings"
proof (induction models datasets n sps acc rule: bind_domain_loop.induct)
  case (2 models datasets n sp sps bs ss)
  then obtain b where new: "map_of bs (sp_domain_id sp) = None"
    and b: "bind_model_and_dataset models datasets n (sp_model_plugin_id sp) (sp_dataset_id sp)
        (sp_execution_scope sp) = Inr b"
    and rest: "bind_domain_loop models datasets (Suc n) sps
      (AList.update (sp_domain_id sp) b bs, AList.update (sp_domain_id sp) sp ss) = Inr (bindings, specs)"
    by (auto simp: bindE_eq_Inr)
  from new "2.prems"(2) have new': "map_of ss (sp_domain_id sp) = None"
    using same_keys_None [of bs ss] by simp
  show ?case
    using "2.IH" [OF _ b rest] new new' "2.prems"(2) by (simp add: update_fresh)
qed auto

end
