(* ===== verification/Codec.thy ===== *)
theory Codec
  imports Ed25519
begin

text \<open>
  Encodings that several components share: JSON text with sorted keys, as \<open>json.dumps\<close> writes it, the
  hexadecimal text of bytes, decimal text and the components of a path.
\<close>

section \<open>Sorted JSON text\<close>

text \<open>
  \<open>json.dumps(document, ensure_ascii=False, sort_keys=True, separators=(",", ":"))\<close>: keys in code
  point order, which is the order of their UTF-8 bytes, and the names Python gives to non-finite floats.
\<close>

fun sort_keys :: "json \<Rightarrow> json" where
  "sort_keys (JObj kvs) =
     JObj (map (\<lambda>(k, v). (k, sort_keys v)) (sort_key (\<lambda>kv. map (of_char :: char \<Rightarrow> nat) (fst kv)) kvs))"
| "sort_keys (JArr xs) = JArr (map sort_keys xs)"
| "sort_keys (JFloat t) =
     JFloat (if t = ''nan'' then ''NaN'' else if t = ''inf'' then ''Infinity''
             else if t = ''-inf'' then ''-Infinity'' else t)"
| "sort_keys v = v"

definition dumps_sorted :: "json \<Rightarrow> string" where
  "dumps_sorted document = json_text (sort_keys document)"

section \<open>Hexadecimal text\<close>

text \<open>\<open>bytes.hex()\<close>.\<close>

definition bytes_hex :: "string \<Rightarrow> string" where
  "bytes_hex b = concat (map (\<lambda>c. hex2 (of_char c)) b)"

lemma hex_digit_char: "d < 16 \<Longrightarrow> hex_digit (hex_char d) = Some d \<and> \<not> is_ascii_space (hex_char d)"
  by (auto simp: hex_char_def is_ascii_space_def Let_def)

lemma fromhex_hex2: "n < 256 \<Longrightarrow> fromhex (hex2 n @ s) = map_option (Cons (char_of n)) (fromhex s)"
  using hex_digit_char [of "n div 16"] hex_digit_char [of "n mod 16"]
  by (simp add: hex2_def)

lemma fromhex_bytes_hex: "fromhex (bytes_hex b) = Some b"
proof (induction b)
  case (Cons c b)
  have "of_char c < (256 :: nat)" by simp
  with Cons show ?case by (simp add: bytes_hex_def fromhex_hex2)
qed (simp add: bytes_hex_def)

lemma length_bytes_hex: "length (bytes_hex b) = 2 * length b"
  by (induction b) (simp_all add: bytes_hex_def hex2_def)

lemma nat_text_zero: "nat_text 0 = ''0''"
  by code_simp

section \<open>Paths\<close>

text \<open>Paths are their \<open>parts\<close>; \<open>key_parts\<close> are those of a relative path given as text.\<close>

fun split_slash :: "string \<Rightarrow> string list" where
  "split_slash [] = [[]]"
| "split_slash (c # cs) =
     (if c = CHR ''/'' then [] # split_slash cs
      else (case split_slash cs of p # ps \<Rightarrow> (c # p) # ps | [] \<Rightarrow> [[c]]))"

definition key_parts :: "string \<Rightarrow> string list" where
  "key_parts s = filter (\<lambda>p. p \<noteq> [] \<and> p \<noteq> ''.'') (split_slash s)"

section \<open>Decimal text\<close>

lemma nat_text_lead: "nat_text n = CHR ''0'' # cs \<Longrightarrow> n = 0"
proof (induction n arbitrary: cs rule: nat_text.induct)
  case (1 n)
  show ?case
  proof (cases "n < 10")
    case True
    then have "of_char (CHR ''0'') = 48 + n"
      using 1(2) of_char_digit_char [OF True] by (simp add: nat_text.simps [of n])
    then show ?thesis by simp
  next
    case False
    then have "nat_text (n div 10) @ [digit_char (n mod 10)] = CHR ''0'' # cs"
      using 1(2) by (simp add: nat_text.simps [of n])
    then obtain ds where "nat_text (n div 10) = CHR ''0'' # ds"
      using nat_text_nonempty [of "n div 10"] by (cases "nat_text (n div 10)") auto
    with 1(1) False have "n div 10 = 0" by blast
    with False show ?thesis by simp
  qed
qed

lemma length_nat_text: "n < 10 ^ k \<Longrightarrow> 0 < k \<Longrightarrow> length (nat_text n) \<le> k"
proof (induction k arbitrary: n)
  case (Suc k)
  show ?case
  proof (cases "n < 10")
    case True
    then show ?thesis by (simp add: nat_text.simps [of n])
  next
    case False
    then have "0 < k" using Suc.prems by (cases k) auto
    moreover have "n div 10 < 10 ^ k" using Suc.prems by (simp add: less_mult_imp_div_less mult.commute)
    ultimately show ?thesis using Suc.IH False by (simp add: nat_text.simps [of n])
  qed
qed simp

end
