(* ===== verification/Worker_Dispatch.thy ===== *)
theory Worker_Dispatch
  imports Model_Runner Gate Codec
begin

text \<open>
  The closed dispatch table of the live worker, \<open>deltatorrent/live_execution/dispatch.py\<close>, and the
  single-request process around it, \<open>live_execution/process.py\<close>. The readings of the cancellation
  token, whether the executor thread ends within the granted time, the number of the factory calls
  and the environment of a receipt are the record \<open>dispatch_env\<close>. Since Python 3.11
  \<open>concurrent.futures.TimeoutError\<close> is the builtin \<open>TimeoutError\<close>, so one raised by the workload
  itself is handled like the deadline.
\<close>

section \<open>Dispatcher\<close>

definition APPROVED_OPERATIONS :: "string list" where
  "APPROVED_OPERATIONS = [''TRAIN_TICKET'', ''EVALUATE_CHECKPOINT'', ''MATERIALIZE_DATASET'']"

record dispatcher =
  di_producer_commit :: "string option"
  di_cache_root :: path

definition init_dispatcher :: "string option \<Rightarrow> path option \<Rightarrow> dispatcher result" where
  "init_dispatcher producer_commit cache_root =
     bindE (ensure (case producer_commit of None \<Rightarrow> True | Some c \<Rightarrow> fullmatch_hex 40 c) ValueError) (\<lambda>_.
     Inr \<lparr>di_producer_commit = producer_commit,
          di_cache_root = (case cache_root of Some p \<Rightarrow> p | None \<Rightarrow> [''.cache'', ''deltatorrent''])\<rparr>)"

record ('s, 'm, 't) dispatch_env =
  dv_models :: "('s, 'm, 't) model_registry"
  dv_datasets :: "'s dataset_registry"
  dv_call :: nat
  dv_override :: "('s, 'm, 't) runner option"
  dv_cancelled :: "nat \<Rightarrow> bool"
  dv_in_time :: bool
  dv_receipt :: receipt_env
  dv_coordinate_count :: "plugin_descriptor \<Rightarrow> nat"

fun has_dotdot :: "string \<Rightarrow> bool" where
  "has_dotdot (a # b # cs) = (a = CHR ''.'' \<and> b = CHR ''.'' \<or> has_dotdot (b # cs))"
| "has_dotdot _ = False"

definition illegal_cache_key :: "string \<Rightarrow> bool" where
  "illegal_cache_key s \<longleftrightarrow>
     has_dotdot s \<or> startswith s ''/'' \<or> startswith s [CHR 0x5C] \<or> CHR '':'' \<in> set s"

text \<open>The directory of a cache key, with what Python does for keys that are not strings.\<close>

definition cache_directory :: "dispatcher \<Rightarrow> json \<Rightarrow> path option result" where
  "cache_directory di cache_key =
     (if \<not> truthy cache_key then Inr None
      else (case cache_key of
              JStr s \<Rightarrow>
                (if illegal_cache_key s then Inl (WorkerDispatchError ''ERR_SCHEMA_VALIDATION_FAILED'')
                 else Inr (Some (di_cache_root di @ key_parts s)))
            | JArr vs \<Rightarrow>
                (if JStr ''..'' \<in> set vs then Inl (WorkerDispatchError ''ERR_SCHEMA_VALIDATION_FAILED'')
                 else Inl AttributeError)
            | JObj kvs \<Rightarrow>
                (if ''..'' \<in> fst ` set kvs then Inl (WorkerDispatchError ''ERR_SCHEMA_VALIDATION_FAILED'')
                 else Inl AttributeError)
            | _ \<Rightarrow> Inl TypeError))"

section \<open>The three operations\<close>

definition not_cancelled :: "('s, 'm, 't) dispatch_env \<Rightarrow> nat \<Rightarrow> unit result" where
  "not_cancelled dv n = ensure (\<not> dv_cancelled dv n) WorkerCancelledError"

definition receipt_for :: "preflight_context \<Rightarrow> string \<Rightarrow> receipt_request" where
  "receipt_for ctx producer_commit =
     \<lparr>rr_backend_commit = DEFAULT_BACKEND_COMMIT, rr_catalog_backend_ref = None,
      rr_producer_commit = Some producer_commit, rr_controller_commit = pc_controller_commit ctx,
      rr_intent_id = pc_intent_id ctx, rr_intent_digest = pc_intent_digest ctx,
      rr_admission_id = pc_admission_id ctx, rr_admission_digest = pc_admission_digest ctx,
      rr_execution_id = pc_execution_id ctx, rr_repository = ''chartjs333/delta'',
      rr_produced_at = None\<rparr>"

definition require_text :: "json \<Rightarrow> string result" where
  "require_text v =
     (case v of
        JStr (c # cs) \<Rightarrow> Inr (c # cs)
      | _ \<Rightarrow> Inl (WorkerDispatchError ''ERR_SCHEMA_VALIDATION_FAILED''))"

definition completed_result ::
  "preflight_context \<Rightarrow> string \<Rightarrow> (string \<times> json) list \<Rightarrow> json \<Rightarrow> json" where
  "completed_result ctx operation extra receipt =
     JObj ([(''status'', JStr ''COMPLETED''), (''execution_id'', pc_execution_id ctx),
            (''operation'', JStr operation)] @ extra @ [(''receipt'', receipt)])"

definition execute_train_ticket ::
  "worker_services \<Rightarrow> ('s, 'm, 't) dispatch_env \<Rightarrow> ('s, 'm, 't) runner \<Rightarrow> preflight_context \<Rightarrow> string \<Rightarrow>
   json result" where
  "execute_train_ticket ws dv rn ctx producer_commit =
     bindE (dict_get (pc_operation_payload ctx) ''ticket_id'') (\<lambda>ticket.
     bindE (dict_get (pc_operation_payload ctx) ''partition_id'') (\<lambda>part.
     bindE (require_text ticket) (\<lambda>ticket_id.
     bindE (require_text part) (\<lambda>partition_id.
     bindE (not_cancelled dv 2) (\<lambda>_.
     bindE (train_ticket ticket_id partition_id None rn) (\<lambda>(result, rn').
     bindE (not_cancelled dv 3) (\<lambda>_.
     bindE (emit_execution_receipt (ws_sha ws) (dv_receipt dv) (receipt_for ctx producer_commit) rn')
       (\<lambda>receipt.
     Inr (completed_result ctx ''TRAIN_TICKET''
            [(''result_metadata'', JObj (lt_metadata result))] receipt)))))))))"

fun seq_length :: "json \<Rightarrow> nat option" where
  "seq_length (JArr vs) = Some (length vs)"
| "seq_length (JStr s) = Some (length (utf8_points (map of_char s)))"
| "seq_length _ = None"

text \<open>\<open>hasattr(descriptor, "parameter_schema")\<close>, then the comparison of the lengths.\<close>

definition coordinate_check ::
  "('s, 'm, 't) dispatch_env \<Rightarrow> plugin_descriptor \<Rightarrow> nat \<Rightarrow> unit result" where
  "coordinate_check dv descriptor n =
     (if ''parameter_schema'' \<in> set PLUGIN_DESCRIPTOR_FIELDS
      then ensure (n = dv_coordinate_count dv descriptor)
             (WorkerDispatchError ''ERR_SCHEMA_VALIDATION_FAILED'')
      else Inr ())"

definition execute_evaluate_checkpoint ::
  "worker_services \<Rightarrow> ('s, 'm, 't) dispatch_env \<Rightarrow> ('s, 'm, 't) runner \<Rightarrow> preflight_context \<Rightarrow> string \<Rightarrow>
   json result" where
  "execute_evaluate_checkpoint ws dv rn ctx producer_commit =
     bindE (dict_get (pc_operation_payload ctx) ''checkpoint_coordinates'') (\<lambda>coordinates.
     (case seq_length coordinates of
        None \<Rightarrow> Inl (WorkerDispatchError ''ERR_SCHEMA_VALIDATION_FAILED'')
      | Some n \<Rightarrow>
          bindE (get_descriptor (pc_model_plugin_id ctx) (dv_models dv)) (\<lambda>descriptor.
          bindE (coordinate_check dv descriptor n) (\<lambda>_.
          bindE (not_cancelled dv 2) (\<lambda>_.
          bindE (evaluate_checkpoint coordinates rn) (\<lambda>(result, rn').
          bindE (not_cancelled dv 3) (\<lambda>_.
          bindE (emit_execution_receipt (ws_sha ws) (dv_receipt dv) (receipt_for ctx producer_commit) rn')
            (\<lambda>receipt.
          Inr (completed_result ctx ''EVALUATE_CHECKPOINT''
                 [(''metrics'', JObj (ev_metrics result))] receipt))))))))) "

definition execute_materialize_dataset ::
  "('s, 'm, 't) dispatch_env \<Rightarrow> dispatcher \<Rightarrow> ('s, 'm, 't) runner \<Rightarrow> preflight_context \<Rightarrow> json result" where
  "execute_materialize_dataset dv di rn ctx =
     bindE (dict_get (pc_operation_payload ctx) ''cache_key'') (\<lambda>cache_key.
     bindE (cache_directory di cache_key) (\<lambda>cache_dir.
     bindE (not_cancelled dv 2) (\<lambda>_.
     bindE (materialize_dataset rn cache_dir (pc_allow_downloads ctx)) (\<lambda>materialize_info.
     Inr (completed_result ctx ''MATERIALIZE_DATASET''
            [(''materialize_info'', JObj materialize_info)] JNull)))))"

definition timed_run ::
  "worker_services \<Rightarrow> ('s, 'm, 't) dispatch_env \<Rightarrow> dispatcher \<Rightarrow> preflight_context \<Rightarrow> string \<Rightarrow> json result" where
  "timed_run ws dv di ctx producer_commit =
     bindE (not_cancelled dv 1) (\<lambda>_.
     bindE (case dv_override dv of
              Some rn \<Rightarrow> Inr rn
            | None \<Rightarrow> init_model_runner (dv_models dv) (dv_datasets dv) (dv_call dv)
                        (pc_model_plugin_id ctx) (pc_dataset_id ctx) (pc_requested_scope ctx)) (\<lambda>rn.
     if pc_operation ctx = ''TRAIN_TICKET'' then execute_train_ticket ws dv rn ctx producer_commit
     else if pc_operation ctx = ''EVALUATE_CHECKPOINT''
     then execute_evaluate_checkpoint ws dv rn ctx producer_commit
     else if pc_operation ctx = ''MATERIALIZE_DATASET'' then execute_materialize_dataset dv di rn ctx
     else Inl (WorkerDispatchError ''ERR_OPERATION_SCOPE_UNSUPPORTED'')))"

definition worker_dispatch ::
  "worker_services \<Rightarrow> ('s, 'm, 't) dispatch_env \<Rightarrow> dispatcher \<Rightarrow> string option \<Rightarrow> preflight_context \<Rightarrow>
   json result" where
  "worker_dispatch ws dv di producer_commit ctx =
     (let effective = (case producer_commit of Some (c # cs) \<Rightarrow> Some (c # cs) | _ \<Rightarrow> di_producer_commit di) in
      (case effective of
         None \<Rightarrow> Inl (WorkerDispatchError ''ERR_WORKER_DISPATCH_FAILED'')
       | Some commit \<Rightarrow>
           bindE (ensure (fullmatch_hex 40 commit) (WorkerDispatchError ''ERR_WORKER_DISPATCH_FAILED'')) (\<lambda>_.
           bindE (not_cancelled dv 0) (\<lambda>_.
           bindE (ensure (pc_operation ctx \<in> set APPROVED_OPERATIONS)
                    (WorkerDispatchError ''ERR_OPERATION_SCOPE_UNSUPPORTED'')) (\<lambda>_.
           if \<not> dv_in_time dv then Inl WorkerTimeoutError
           else mapErr (\<lambda>e. if e = BuiltinTimeoutError then WorkerTimeoutError else e)
                  (timed_run ws dv di ctx commit))))))"

section \<open>The worker process\<close>

definition MAX_AUTHORIZED_EXECUTION_BYTES :: nat where
  "MAX_AUTHORIZED_EXECUTION_BYTES = 10 * 1024 * 1024"

definition MAX_TRUST_ROOTS_BYTES :: nat where
  "MAX_TRUST_ROOTS_BYTES = 64 * 1024"

definition FIXTURE_KEY_ID :: string where
  "FIXTURE_KEY_ID = ''step5c-fixture-ed25519''"

definition FIXTURE_ISSUER_ID :: string where
  "FIXTURE_ISSUER_ID = ''step5c-fixture-controller''"

definition ERROR_METADATA :: "(string \<times> string \<times> bool) list" where
  "ERROR_METADATA =
     [(''ERR_SCHEMA_VALIDATION_FAILED'', ''SCHEMA'', False),
      (''ERR_INTENT_DIGEST_MISMATCH'', ''DIGEST'', False),
      (''ERR_ADMISSION_DIGEST_MISMATCH'', ''DIGEST'', False),
      (''ERR_ADMISSION_SIGNATURE_INVALID'', ''WORKER'', False),
      (''ERR_ADMISSION_EXPIRED'', ''AUTHZ'', False),
      (''ERR_OPERATION_SCOPE_UNSUPPORTED'', ''CATALOG'', False),
      (''ERR_AUTHORIZED_EXECUTION_PARITY_MISMATCH'', ''LINEAGE'', False),
      (''ERR_STAGE_C_FORBIDDEN'', ''CONSENSUS_BOUNDARY'', False),
      (''ERR_TIMEOUT'', ''WORKER'', True),
      (''ERR_CANCELLED'', ''WORKER'', True),
      (''ERR_WORKER_DISPATCH_FAILED'', ''DISPATCH'', True)]"

text \<open>\<open>stream.read(limit + 1)\<close>.\<close>

definition read_bounded :: "string \<Rightarrow> nat \<Rightarrow> string result" where
  "read_bounded stream limit =
     (let payload = take (limit + 1) stream in
      bindE (ensure (length payload \<le> limit) WorkerProcessProtocolError) (\<lambda>_.
      bindE (ensure (payload \<noteq> []) WorkerProcessProtocolError) (\<lambda>_. Inr payload)))"

function worker_check_depth :: "json \<Rightarrow> nat \<Rightarrow> unit result" where
  "worker_check_depth v depth =
     (if depth > MAX_JSON_DEPTH then Inl WorkerProcessProtocolError
      else (case v of
              JObj kvs \<Rightarrow> forE (\<lambda>(k, nested). worker_check_depth nested (depth + 1)) kvs
            | JArr xs \<Rightarrow> forE (\<lambda>nested. worker_check_depth nested (depth + 1)) xs
            | _ \<Rightarrow> Inr ()))"
  by pat_completeness auto
termination
  by (relation "measure (\<lambda>(v, depth). Suc MAX_JSON_DEPTH - depth)") auto

declare worker_check_depth.simps [simp del]

definition trust_root_entry :: "json \<Rightarrow> (string \<times> string) result" where
  "trust_root_entry item =
     (case item of
        JObj kvs \<Rightarrow>
          (if set (map fst kvs) \<noteq> {''key_id'', ''algorithm'', ''public_key_hex''}
           then Inl WorkerProcessProtocolError
           else (case (obj_get kvs ''key_id'', obj_get kvs ''public_key_hex'') of
                   (JStr key_id, JStr public_key_hex) \<Rightarrow>
                     bindE (ensure (obj_get kvs ''algorithm'' = JStr ''ED25519'')
                              WorkerProcessProtocolError) (\<lambda>_.
                     bindE (ensure (key_id \<noteq> FIXTURE_KEY_ID) WorkerProcessProtocolError) (\<lambda>_.
                     Inr (key_id, public_key_hex)))
                 | _ \<Rightarrow> Inl WorkerProcessProtocolError))
      | _ \<Rightarrow> Inl WorkerProcessProtocolError)"

fun trust_root_keys :: "json list \<Rightarrow> (string, string) dict \<Rightarrow> (string, string) dict result" where
  "trust_root_keys [] keys = Inr keys"
| "trust_root_keys (item # items) keys =
     bindE (trust_root_entry item) (\<lambda>(key_id, public_key_hex).
     bindE (ensure (map_of keys key_id = None) WorkerProcessProtocolError) (\<lambda>_.
     trust_root_keys items (AList.update key_id public_key_hex keys)))"

text \<open>The bytes of the file; \<open>None\<close> when it cannot be read.\<close>

definition load_trust_roots ::
  "worker_services \<Rightarrow> string option \<Rightarrow> (string \<times> (string, string) dict) result" where
  "load_trust_roots ws content =
     (case content of
        None \<Rightarrow> Inl OSError
      | Some raw \<Rightarrow>
          bindE (ensure (length raw \<le> MAX_TRUST_ROOTS_BYTES) WorkerProcessProtocolError) (\<lambda>_.
          bindE (ensure (utf8_valid (map of_char raw)) WorkerProcessProtocolError) (\<lambda>_.
          (case ws_loads ws raw of
             Some (JObj doc) \<Rightarrow>
               (if set (map fst doc) \<noteq> {''schema_version'', ''issuer_id'', ''keys''} \<or>
                   obj_get doc ''schema_version'' \<noteq> JStr ''1.0.0''
                then Inl WorkerProcessProtocolError
                else (case (obj_get doc ''issuer_id'', obj_get doc ''keys'') of
                        (JStr issuer_id, JArr (k # ks)) \<Rightarrow>
                          (if is_blank issuer_id \<or> issuer_id = FIXTURE_ISSUER_ID
                           then Inl WorkerProcessProtocolError
                           else
                             bindE (trust_root_keys (k # ks) []) (\<lambda>trusted_keys.
                             bindE (init_preflight None None (Some trusted_keys)) (\<lambda>_.
                             Inr (issuer_id, trusted_keys))))
                      | _ \<Rightarrow> Inl WorkerProcessProtocolError))
           | _ \<Rightarrow> Inl WorkerProcessProtocolError))))"

text \<open>\<open>message\<close> is the first 512 characters of the message of the exception.\<close>

definition error_document :: "string \<Rightarrow> string \<Rightarrow> json" where
  "error_document code message =
     (let (category, retryable) =
            (case map_of ERROR_METADATA code of Some m \<Rightarrow> m | None \<Rightarrow> (''DISPATCH'', True))
      in JObj [(''schema_version'', JStr ''1.0.0''),
               (''error_code'',
                  JStr (if map_of ERROR_METADATA code \<noteq> None then code else ''ERR_WORKER_DISPATCH_FAILED'')),
               (''category'', JStr category), (''retryable'', JBool retryable),
               (''message'', JStr message)])"

definition identity_of :: "worker_services \<Rightarrow> (string \<times> json) list \<Rightarrow> string \<times> string \<times> string" where
  "identity_of ws b =
     (case (obj_get b ''intent'', obj_get b ''admission'') of
        (JObj intent, JObj admission) \<Rightarrow>
          (py_str ws (obj_get_default admission ''execution_id'' (JStr [])),
           py_str ws (obj_get_default intent ''intent_id'' (JStr [])),
           py_str ws (obj_get_default intent ''operation'' (JStr [])))
      | _ \<Rightarrow> ([], [], []))"

definition refused_result :: "string \<times> string \<times> string \<Rightarrow> string \<Rightarrow> string \<Rightarrow> json" where
  "refused_result ident code message =
     JObj [(''dispatched'', JBool False), (''execution_id'', JStr (fst ident)),
           (''intent_id'', JStr (fst (snd ident))), (''operation'', JStr (snd (snd ident))),
           (''status'', JStr ''FAILED''), (''error'', error_document code message),
           (''receipt'', JNull), (''receipt_digest'', JNull)]"

definition failed_status :: "worker_error_kind \<Rightarrow> string" where
  "failed_status kind =
     (case kind of TimeoutKind \<Rightarrow> ''TIMED_OUT'' | CancelledKind \<Rightarrow> ''CANCELLED'' | _ \<Rightarrow> ''FAILED'')"

definition failed_result ::
  "preflight_context \<Rightarrow> worker_error_kind \<Rightarrow> string \<Rightarrow> string \<Rightarrow> json" where
  "failed_result ctx kind code message =
     JObj [(''dispatched'', JBool True), (''execution_id'', pc_execution_id ctx),
           (''intent_id'', pc_intent_id ctx), (''operation'', JStr (pc_operation ctx)),
           (''status'', JStr (failed_status kind)), (''error'', error_document code message),
           (''receipt'', JNull), (''receipt_digest'', JNull)]"

definition dispatched_result ::
  "worker_services \<Rightarrow> preflight_context \<Rightarrow> json \<Rightarrow> json result" where
  "dispatched_result ws ctx worker_result =
     bindE (dict_get worker_result ''receipt'') (\<lambda>receipt.
     bindE (case receipt of
              JObj r \<Rightarrow> bindE (jcs_dumps receipt) (\<lambda>b. Inr (JStr (sha256_prefixed (ws_sha ws) b)))
            | _ \<Rightarrow> Inr JNull) (\<lambda>receipt_digest.
     bindE (dict_get worker_result ''status'') (\<lambda>status.
     bindE (dict_get worker_result ''metrics'') (\<lambda>metrics.
     bindE (dict_get worker_result ''materialize_info'') (\<lambda>info.
     Inr (JObj [(''dispatched'', JBool True), (''execution_id'', pc_execution_id ctx),
                (''intent_id'', pc_intent_id ctx), (''operation'', JStr (pc_operation ctx)),
                (''status'', status), (''receipt'', receipt), (''receipt_digest'', receipt_digest),
                (''metrics'', metrics), (''materialize_info'', info)]))))))"

record process_config =
  pr_trusted_keys :: "(string, string) dict"
  pr_trusted_issuer_id :: string
  pr_producer_commit :: string
  pr_cache_root :: path

text \<open>\<open>dv_cancelled\<close> is constantly false: the process dispatches without a token.\<close>

definition execute_authorized_document ::
  "worker_services \<Rightarrow> ('s, 'm, 't) dispatch_env \<Rightarrow> process_config \<Rightarrow> instant \<Rightarrow> string \<Rightarrow>
   (string \<times> json) list \<Rightarrow> json result" where
  "execute_authorized_document ws dv pr now message doc =
     bindE (ensure (fullmatch_hex 40 (pr_producer_commit pr)) WorkerProcessProtocolError) (\<lambda>_.
     bindE (case obj_get doc ''admission'' of
              JObj admission \<Rightarrow>
                (case obj_get admission ''authenticator'' of
                   JObj auth \<Rightarrow>
                     ensure (obj_get auth ''issuer_id'' = JStr (pr_trusted_issuer_id pr))
                       WorkerProcessProtocolError
                 | _ \<Rightarrow> Inl WorkerProcessProtocolError)
            | _ \<Rightarrow> Inl WorkerProcessProtocolError) (\<lambda>_.
     bindE (init_preflight None None (Some (pr_trusted_keys pr))) (\<lambda>pv.
     (case preflight_validate ws pv (JObj doc) now of
        Inl (WorkerAdapterError PreflightKind code category retryable) \<Rightarrow>
          Inr (refused_result (identity_of ws doc) code message)
      | Inl e \<Rightarrow> Inl e
      | Inr ctx \<Rightarrow>
          bindE (init_dispatcher (Some (pr_producer_commit pr)) (Some (pr_cache_root pr))) (\<lambda>di.
          (case bindE (worker_dispatch ws (dv\<lparr>dv_cancelled := \<lambda>_. False\<rparr>) di None ctx)
                  (dispatched_result ws ctx) of
             Inl (WorkerAdapterError kind code category retryable) \<Rightarrow>
               Inr (failed_result ctx kind code message)
           | r \<Rightarrow> r))))))"

definition execute_authorized_bytes ::
  "worker_services \<Rightarrow> ('s, 'm, 't) dispatch_env \<Rightarrow> process_config \<Rightarrow> instant \<Rightarrow> string \<Rightarrow> string \<Rightarrow>
   json result" where
  "execute_authorized_bytes ws dv pr now message raw =
     bindE (ensure (length raw \<le> MAX_AUTHORIZED_EXECUTION_BYTES) WorkerProcessProtocolError) (\<lambda>_.
     bindE (ensure (utf8_valid (map of_char raw)) WorkerProcessProtocolError) (\<lambda>_.
     (case ws_loads ws raw of
        Some (JObj doc) \<Rightarrow>
          bindE (worker_check_depth (JObj doc) 1) (\<lambda>_.
          execute_authorized_document ws dv pr now message doc)
      | _ \<Rightarrow> Inl WorkerProcessProtocolError)))"

text \<open>
  The process: the document on standard output, when there is one, and the exit status. \<open>main\<close>
  handles \<open>OSError\<close> and \<open>ValueError\<close> (with its subclass \<open>WorkerProcessProtocolError\<close>); any other
  exception ends the interpreter with status 1.
\<close>

definition protocol_error :: "string \<Rightarrow> json" where
  "protocol_error message =
     JObj [(''protocol_error'',
              JObj [(''error_code'', JStr ''ERR_WORKER_DISPATCH_FAILED''), (''message'', JStr message)])]"

definition worker_main ::
  "worker_services \<Rightarrow> ('s, 'm, 't) dispatch_env \<Rightarrow> string option \<Rightarrow> string \<Rightarrow> path \<Rightarrow> instant \<Rightarrow> string \<Rightarrow>
   string \<Rightarrow> json option \<times> int" where
  "worker_main ws dv trust_file producer_commit cache_root now message stdin =
     (case bindE (load_trust_roots ws trust_file) (\<lambda>(issuer_id, trusted_keys).
           bindE (read_bounded stdin MAX_AUTHORIZED_EXECUTION_BYTES) (\<lambda>payload.
           execute_authorized_bytes ws dv
             \<lparr>pr_trusted_keys = trusted_keys, pr_trusted_issuer_id = issuer_id,
              pr_producer_commit = producer_commit, pr_cache_root = cache_root\<rparr>
             now message payload)) of
        Inr result \<Rightarrow> (Some result, 0)
      | Inl e \<Rightarrow>
          (if e \<in> {OSError, ValueError, WorkerProcessProtocolError}
           then (Some (protocol_error message), 2) else (None, 1)))"

end
