(* ===== verification/Boundary_Theorems.thy ===== *)
theory Boundary_Theorems
  imports Audit_Log Worker_Crypto Worker_Dispatch
begin

text \<open>
  The theorems about what crosses the boundary of the controller: canonical bytes and digests,
  the ingress checks, authentication, the catalog, the grants and the audit log. The first two
  compare the controller with the worker, which has its own canonicaliser and its own depth check.
\<close>

section \<open>Canonical bytes\<close>

text \<open>
  C30: Canonicalisation identifies exactly the documents that are equal up to the order of keys: on
  documents without floats two canonical texts are equal just when the documents are equal after
  every object has been put into key order. So a digest over the canonical text binds the whole
  document, and an object may be written in any key order.
\<close>

theorem canonical_text_determines_document:
  assumes "float_free v" and "float_free w"
  shows "canonicalize_jcs v = canonicalize_jcs w \<longleftrightarrow> order_keys v = order_keys w"
    (is "?same \<longleftrightarrow> ?ordered")
proof
  assume ?same
  with assms show ?ordered by (rule canonicalize_jcs_same_document)
next
  assume ?ordered
  with assms show ?same by (simp add: canonicalize_jcs_eq float_free_finite)
qed

theorem canonical_text_determines_document_witness:
  "canonicalize_jcs (JObj [(''b'', JInt 1), (''a'', JNull)]) =
     canonicalize_jcs (JObj [(''a'', JNull), (''b'', JInt 1)]) \<and>
   canonicalize_jcs (JObj [(''a'', JInt 1)]) \<noteq> canonicalize_jcs (JObj [(''a'', JInt 10)])"
proof -
  let ?a = "JObj [(''b'', JInt 1), (''a'', JNull)]" and ?b = "JObj [(''a'', JNull), (''b'', JInt 1)]"
  let ?c = "JObj [(''a'', JInt 1)]" and ?d = "JObj [(''a'', JInt 10)]"
  have "sorted_items [(''b'', JInt 1), (''a'', JNull)] = sorted_items [(''a'', JNull), (''b'', JInt 1)]"
    by (rule sorted_items_perm) (simp_all add: ascii_text_def)
  then have order: "order_keys ?a = order_keys ?b" "order_keys ?c \<noteq> order_keys ?d"
    by (simp_all add: sorted_items_def)
  have same: "canonicalize_jcs ?a = canonicalize_jcs ?b \<longleftrightarrow> order_keys ?a = order_keys ?b"
    by (rule canonical_text_determines_document) simp_all
  have differ: "canonicalize_jcs ?c = canonicalize_jcs ?d \<longleftrightarrow> order_keys ?c = order_keys ?d"
    by (rule canonical_text_determines_document) simp_all
  show ?thesis using order unfolding same differ by (rule conjI)
qed

lemma float_free_delete:
  "float_free (JObj kvs) \<Longrightarrow> float_free (JObj (AList.delete k kvs))"
  by (induction kvs) auto

text \<open>
  C31: The worker and the controller have separate canonicalisers, and they agree: on every document
  without floats the bytes are the same, hence an intent or an admission whose digest the controller
  accepts or computes is accepted by the worker and the other way round.
\<close>

theorem worker_digests_agree:
  assumes "float_free (JObj doc)"
  shows "jcs_dumps (JObj doc) = canonicalize_jcs (JObj doc) \<and>
    worker_verify_intent_digest sha doc = verify_intent_digest sha doc \<and>
    verify_admission_digest sha doc =
      (if truthy (obj_get doc ''admission_digest'')
       then bindE (compute_admission_digest sha doc)
              (\<lambda>d. Inr (py_eq (obj_get doc ''admission_digest'') (JStr d)))
       else Inr False)"
proof (intro conjI)
  have same: "jcs_dumps v = canonicalize_jcs v" if "float_free v" for v
    using that by (simp add: jcs_dumps_float_free canonicalize_jcs_eq float_free_finite)
  show "jcs_dumps (JObj doc) = canonicalize_jcs (JObj doc)" by (rule same [OF assms])
  have "jcs_dumps (JObj (AList.delete ''intent_digest'' doc)) =
      canonicalize_jcs (JObj (AList.delete ''intent_digest'' doc))"
    by (intro same float_free_delete assms)
  then show "worker_verify_intent_digest sha doc = verify_intent_digest sha doc"
    by (cases "canonicalize_jcs (JObj (AList.delete ''intent_digest'' doc))")
       (simp_all add: worker_verify_intent_digest_def verify_intent_digest_def
        compute_intent_digest_def sha256_prefixed_def sha256_digest_def Let_def)
  let ?d = "JObj (AList.delete ''authenticator'' (AList.delete ''admission_digest'' doc))"
  have "jcs_dumps ?d = canonicalize_jcs ?d" by (intro same float_free_delete assms)
  then show "verify_admission_digest sha doc =
      (if truthy (obj_get doc ''admission_digest'')
       then bindE (compute_admission_digest sha doc)
              (\<lambda>d. Inr (py_eq (obj_get doc ''admission_digest'') (JStr d)))
       else Inr False)"
    by (cases "canonicalize_jcs ?d")
       (simp_all add: verify_admission_digest_def compute_admission_digest_def sha256_prefixed_def
        sha256_digest_def Let_def)
qed

theorem worker_digests_agree_witness:
  "jcs_dumps (JObj [(''a'', JInt 1)]) = canonicalize_jcs (JObj [(''a'', JInt 1)]) \<and>
   worker_verify_intent_digest (\<lambda>s. s) [(''a'', JInt 1)] = verify_intent_digest (\<lambda>s. s) [(''a'', JInt 1)]"
  using worker_digests_agree [of "[(''a'', JInt 1)]" "\<lambda>s. s"] by simp

text \<open>
  C40: With a float the two canonicalisers disagree: for \<open>1.0\<close> the controller writes \<open>1.0\<close> and the
  worker \<open>1\<close>, the form RFC 8785 requires. An intent that carries such a number has two digests, so
  one of the two sides refuses it.
\<close>

theorem float_digests_differ:
  "canonicalize_jcs (JObj [(''x'', JFloat ''1.0'')]) \<noteq> jcs_dumps (JObj [(''x'', JFloat ''1.0'')])"
proof -
  have "jcs_dumps (JObj [(''x'', JFloat ''1.0'')]) =
      Inr (CHR ''{'' # string_text ''x'' @ '':1}'')"
    by (simp add: sorted_items_def number_to_jcs_def positive_to_jcs_def float_finite_def
        non_finite_texts_def float_zero_def startswith_def lstrip0_def rstrip0_def layout_digits_def)
  moreover have "canonicalize_jcs (JObj [(''x'', JFloat ''1.0'')]) =
      Inr (CHR ''{'' # string_text ''x'' @ '':1.0}'')"
    by (simp add: canonicalize_jcs_eq float_finite_def non_finite_texts_def sorted_items_def)
  ultimately show ?thesis by simp
qed

section \<open>Ingress\<close>

lemma check_depth_inner:
  assumes "\<not> depth > MAX_JSON_DEPTH"
  shows "check_depth v depth =
      (case v of
         JObj kvs \<Rightarrow> forE (\<lambda>(k, item). check_depth item (depth + 1)) kvs
       | JArr xs \<Rightarrow> forE (\<lambda>item. check_depth item (depth + 1)) xs
       | _ \<Rightarrow> Inr ())"
    and "worker_check_depth v depth =
      (case v of
         JObj kvs \<Rightarrow> forE (\<lambda>(k, item). worker_check_depth item (depth + 1)) kvs
       | JArr xs \<Rightarrow> forE (\<lambda>item. worker_check_depth item (depth + 1)) xs
       | _ \<Rightarrow> Inr ())"
  using assms by (simp_all add: check_depth.simps [of v] worker_check_depth.simps [of v])

lemma worker_check_depth_eq:
  "worker_check_depth v depth = mapErr (\<lambda>_. WorkerProcessProtocolError) (check_depth v depth)"
proof (induction v depth rule: worker_check_depth.induct)
  case (1 v depth)
  have loop: "forE f xs = mapErr h (forE g xs)" if "\<And>x. x \<in> set xs \<Longrightarrow> f x = mapErr h (g x)"
    for f :: "'b \<Rightarrow> unit result" and g h xs
    using that by (induction xs) (auto simp: bindE_def mapErr_def split: sum.splits)
  show ?case
  proof (cases "depth > MAX_JSON_DEPTH")
    case True
    then show ?thesis by (simp add: worker_check_depth.simps [of v] check_depth.simps [of v])
  next
    case False
    show ?thesis
    proof (cases v)
      case (JArr xs)
      with 1(1) [OF False JArr] show ?thesis by (auto simp: check_depth_inner [OF False] intro!: loop)
    next
      case (JObj kvs)
      with 1(2) [OF False JObj _ refl] show ?thesis
        by (auto simp: check_depth_inner [OF False] intro!: loop)
    qed (simp_all add: check_depth_inner [OF False])
  qed
qed

text \<open>
  The recursive depth checks of the controller and of the worker are the same function of the
  document: both accept exactly the documents nested at most 32 deep, and each refuses the others
  with its own error.
\<close>

theorem depth_checks_agree:
  "check_depth v 1 = (if json_depth v \<le> 32 then Inr () else Inl SchemaValidationError) \<and>
   worker_check_depth v 1 = (if json_depth v \<le> 32 then Inr () else Inl WorkerProcessProtocolError)"
proof -
  have refuse: "e = SchemaValidationError" if "check_depth v depth = Inl e" for v depth e
    using that
  proof (induction v depth rule: check_depth.induct)
    case (1 v depth)
    show ?case
    proof (cases "depth > MAX_JSON_DEPTH")
      case True
      with 1(3) show ?thesis by (simp add: check_depth.simps [of v])
    next
      case False
      show ?thesis
      proof (cases v)
        case (JArr xs)
        with 1(3) False obtain x where "x \<in> set xs" "check_depth x (depth + 1) = Inl e"
          by (auto simp: check_depth_inner(1) [OF False] dest!: forE_eq_InlD)
        with 1(1) [OF False JArr] show ?thesis by blast
      next
        case (JObj kvs)
        with 1(3) False obtain k x where "(k, x) \<in> set kvs" "check_depth x (depth + 1) = Inl e"
          by (auto simp: check_depth_inner(1) [OF False] dest!: forE_eq_InlD)
        with 1(2) [OF False JObj _ refl] show ?thesis by blast
      qed (use 1(3) False in \<open>auto simp: check_depth_inner(1) [OF False]\<close>)
    qed
  qed
  have "check_depth v 1 = (if json_depth v \<le> 32 then Inr () else Inl SchemaValidationError)"
    using check_depth_iff [of v 1] refuse [of v 1]
    by (cases "check_depth v 1") (auto simp: MAX_JSON_DEPTH_def)
  then show ?thesis by (simp add: worker_check_depth_eq)
qed

text \<open>
  C24: What the ingress lets through is bound and alive: the document is nested at most 32 deep, has
  passed the intent schema, declares the digest of its own canonical bytes, and, if it names an
  expiry with a time zone, expires after the current time. A body of bytes was at most
  \<open>max_bytes\<close> long and valid UTF-8.
\<close>

theorem ingress_accepts_only_bound_intents:
  assumes "parse_intent svc max_bytes raw (Aware now z) = Inr data"
  shows "json_depth (JObj data) \<le> 32 \<and> svc_schema svc ''execution-intent'' (JObj data) \<and>
    (\<exists>bytes. canonicalize_jcs (JObj (AList.delete ''intent_digest'' data)) = Inr bytes \<and>
       obj_get data ''intent_digest'' = JStr (''sha256:'' @ svc_sha svc bytes)) \<and>
    (truthy (obj_get data ''expires_at'') \<longrightarrow>
       (\<exists>text t y. obj_get data ''expires_at'' = JStr text \<and>
          svc_fromiso svc (replace_z text) = Some (Aware t y) \<and> now < t)) \<and>
    (\<forall>bytes. raw = RawBytes bytes \<longrightarrow> length bytes \<le> max_bytes \<and> utf8_valid (map of_char bytes))"
proof -
  note f = parse_intent_facts [OF assms]
  have "\<exists>bytes. canonicalize_jcs (JObj (AList.delete ''intent_digest'' data)) = Inr bytes \<and>
       obj_get data ''intent_digest'' = JStr (''sha256:'' @ svc_sha svc bytes)"
    using f(4) by (auto simp: compute_intent_digest_def sha256_digest_def exn_simps)
  moreover have "\<exists>text t y. obj_get data ''expires_at'' = JStr text \<and>
          svc_fromiso svc (replace_z text) = Some (Aware t y) \<and> now < t"
    if "truthy (obj_get data ''expires_at'')"
    using f(5) that by (cases "obj_get data ''expires_at''")
      (auto simp: check_expiry_def exn_simps split: option.splits)
  moreover have "length bytes \<le> max_bytes \<and> utf8_valid (map of_char bytes)" if "raw = RawBytes bytes" for bytes
    using f(6) that by (simp add: decode_input_def exn_simps)
  ultimately show ?thesis using f(1,2) by (auto simp: MAX_JSON_DEPTH_def)
qed

definition toy_services :: services where
  "toy_services = \<lparr>svc_sha = (\<lambda>s. ''0''), svc_schema = (\<lambda>a d. True), svc_loads = (\<lambda>s. None),
     svc_fromiso = (\<lambda>s. Some (Aware 7 0)), svc_isoformat = (\<lambda>t. ''t'')\<rparr>"

definition toy_intent :: "(string \<times> json) list" where
  "toy_intent = [(''intent_id'', JStr ''i''), (''intent_digest'', JStr ''sha256:0''),
     (''expires_at'', JStr ''later'')]"

lemma toy_intent_parsed: "parse_intent toy_services 100 (RawDict toy_intent) (Aware 5 0) = Inr toy_intent"
proof -
  have "check_depth (JObj toy_intent) 1 = Inr ()"
    unfolding check_depth_iff by (simp add: toy_intent_def MAX_JSON_DEPTH_def)
  moreover have "schema_validate toy_services ''execution-intent'' (JObj toy_intent) = Inr ()"
    by (simp add: schema_validate_def SCHEMA_FILES_def toy_services_def)
  moreover have "compute_intent_digest (svc_sha toy_services) toy_intent = Inr ''sha256:0''"
    by (simp add: compute_intent_digest_def canonicalize_jcs_eq toy_intent_def toy_services_def
        sha256_digest_def)
  ultimately show ?thesis
    by (simp add: parse_intent_def decode_input_def check_expiry_def toy_intent_def obj_get_def
        toy_services_def)
qed

theorem ingress_accepts_only_bound_intents_witness:
  "parse_intent toy_services 100 (RawDict toy_intent) (Aware 5 0) = Inr toy_intent \<and>
   json_depth (JObj toy_intent) \<le> 32"
  using ingress_accepts_only_bound_intents [OF toy_intent_parsed] toy_intent_parsed by simp

section \<open>Callers, catalog, grants\<close>

text \<open>
  A caller is what the configuration says it is. Whichever of the two authentication ports is
  used, an accepted caller is one of the configured subjects, a field of the credentials other than
  the lookup keys (a claimed role, say) has no influence on the result, and a call that passes the
  role policy as well was made by a configured subject that holds one of the roles the operation
  requires.
\<close>

theorem callers_cannot_claim_roles:
  assumes "authenticate = static_authenticate port \<and>
      trusted = ran (map_of (token_map port)) \<union> ran (map_of (peer_subjects port)) \<or>
    authenticate = hashed_authenticate sha subjects \<and> trusted = ran (map_of subjects)"
    and "k \<notin> {''type'', ''token'', ''subject_id'', ''client_cn''}" and "c \<noteq> []"
  shows "authenticate (JObj (c @ [(k, claim)])) = authenticate (JObj c) \<and>
    (authenticate (JObj c) = Inr s \<longrightarrow> s \<in> trusted) \<and>
    (authenticate (JObj c) = Inr s \<and> evaluate_admission s intent = Inr () \<longrightarrow>
       (\<exists>t\<in>trusted. \<exists>operation required. obj_get intent ''operation'' = JStr operation \<and>
          map_of REQUIRED_ROLES_BY_OPERATION operation = Some required \<and>
          set (effective_roles t) \<inter> set required \<noteq> {} \<and> subject_id t = subject_id s))"
  using assms(1)
proof
  assume "authenticate = static_authenticate port \<and>
      trusted = ran (map_of (token_map port)) \<union> ran (map_of (peer_subjects port))"
  then show ?thesis
    using static.claimed_roles_ignored [OF assms(2,3)] static.accepted_trusted
      static.admitted_has_configured_role [of port "JObj c" s intent] by auto
next
  assume "authenticate = hashed_authenticate sha subjects \<and> trusted = ran (map_of subjects)"
  then show ?thesis
    using hashed.claimed_roles_ignored [OF assms(2,3)] hashed.accepted_trusted
      hashed.admitted_has_configured_role [of sha subjects "JObj c" s intent] by auto
qed

definition toy_subjects :: "(string, subject) dict" where
  "toy_subjects = [(''tok'', \<lparr>subject_id = ''alice'', authenticated_via = ''TOKEN'',
     effective_roles = [''OPERATOR'']\<rparr>)]"

theorem callers_cannot_claim_roles_witness:
  "hashed_authenticate (\<lambda>s. s) toy_subjects
     (JObj ([(''type'', JStr ''TOKEN''), (''token'', JStr ''tok'')] @ [(''roles'', JStr ''ADMIN'')]))
   = hashed_authenticate (\<lambda>s. s) toy_subjects (JObj [(''type'', JStr ''TOKEN''), (''token'', JStr ''tok'')])"
  by (rule conjunct1, rule callers_cannot_claim_roles [where trusted = "ran (map_of toy_subjects)"
        and sha = "\<lambda>s. s" and subjects = toy_subjects]) simp_all

text \<open>
  Grants stay within the configured limits: a grant is given only below the concurrency limit,
  its memory is the configured default and never more than the hard ceiling of 8 GiB, the permission
  to download is the policy's, and a requested timeout is granted only if it is an integer or
  another number not above the maximum.
\<close>

theorem grants_within_limits:
  assumes "evaluate_grants q intent active = Inr grants"
  shows "1 \<le> max_memory_bytes grants \<and> max_memory_bytes grants \<le> 8589934592 \<and>
    max_memory_bytes grants \<le> ceiling_memory_bytes q \<and> int active < max_concurrency q \<and>
    allow_downloads grants = policy_allow_downloads q \<and>
    (\<forall>n. timeout_seconds grants = JInt n \<longrightarrow>
       n = default_timeout_seconds q \<or> n \<le> max_timeout_seconds q)"
proof -
  note b = evaluate_grants_bounds [OF assms]
  have "max_memory_bytes grants \<le> ceiling_memory_bytes q"
    using assms by (auto simp: evaluate_grants_def exn_simps split: if_splits)
  with b show ?thesis by (auto simp: CEILING_MAX_MEMORY_BYTES_def)
qed

theorem grants_within_limits_witness:
  "evaluate_grants default_quota_manager [(''execution_constraints'', JObj [(''timeout_seconds'', JInt 60)])] 3
     = Inr \<lparr>max_memory_bytes = 2147483648, timeout_seconds = JInt 60, allow_downloads = False\<rparr> \<and>
   int 3 < max_concurrency default_quota_manager"
proof -
  have e: "evaluate_grants default_quota_manager [(''execution_constraints'', JObj [(''timeout_seconds'', JInt 60)])] 3
     = Inr \<lparr>max_memory_bytes = 2147483648, timeout_seconds = JInt 60, allow_downloads = False\<rparr>"
    by code_simp
  with grants_within_limits [OF e] show ?thesis by simp
qed

text \<open>
  The catalog admits exactly the frozen workloads: a workload passes if and only if it names the
  pinned backend, a known model, a known dataset and a scope the capability matrix allows for the
  operation.
\<close>

theorem catalog_admits_exactly:
  "catalog_validate c workload operation = Inr () \<longleftrightarrow>
     (\<exists>w plugin dataset op scope allowed.
        workload = JObj w \<and> obj_get w ''catalog_backend_ref'' = JStr (catalog_backend_ref c) \<and>
        obj_get w ''model_plugin_id'' = JStr plugin \<and> plugin \<in> set (known_plugins c) \<and>
        obj_get w ''dataset_id'' = JStr dataset \<and> dataset \<in> set (known_datasets c) \<and>
        operation = JStr op \<and> map_of (capability_matrix c) op = Some allowed \<and>
        obj_get w ''requested_scope'' = JStr scope \<and> scope \<in> set allowed)"
  by (rule catalog_validate_iff)

text \<open>
  No secret under a sensitive key reaches the audit log: at every depth of a logged document a
  sensitive key carries only the placeholder, and two documents that differ only below sensitive
  keys give the same audit event.
\<close>

theorem audit_hides_secrets:
  "(\<exists>shown. log_event rt now event subject details intent_id execution_id =
       JObj [(''timestamp'', JStr now), (''event_type'', JStr event),
             (''subject_id'', JStr (if subject = [] then ''ANONYMOUS'' else subject)),
             (''intent_id'', intent_id), (''execution_id'', execution_id), (''details'', shown)] \<and>
       hidden shown) \<and>
   (masked details = masked details' \<longrightarrow>
      log_event rt now event subject details intent_id execution_id =
      log_event rt now event subject details' intent_id execution_id)"
  using redact_hidden redact_masked [of details details' rt] by (auto simp: log_event_def)

theorem audit_hides_secrets_witness:
  "masked (JObj [(''token'', JStr ''one'')]) = masked (JObj [(''token'', JStr ''two'')]) \<and>
   log_event (\<lambda>s. s) ''t'' ''E'' ''alice'' (JObj [(''token'', JStr ''one'')]) JNull JNull =
   log_event (\<lambda>s. s) ''t'' ''E'' ''alice'' (JObj [(''token'', JStr ''two'')]) JNull JNull"
proof -
  have "is_sensitive_key ''token''" by (simp add: is_sensitive_key_def SENSITIVE_KEYS_def)
  then have "masked (JObj [(''token'', JStr ''one'')]) = masked (JObj [(''token'', JStr ''two'')])"
    by simp
  with audit_hides_secrets [of "\<lambda>s. s" "''t''" "''E''" "''alice''" "JObj [(''token'', JStr ''one'')]"
      JNull JNull "JObj [(''token'', JStr ''two'')]"] show ?thesis by simp
qed

end
