(* ===== verification/Gate_Props.thy ===== *)
theory Gate_Props
  imports Queue_Inv Ledger_Replay
begin

text \<open>
  What the gate guarantees about the ledger and the dispatch port. The locale
  \<open>dispatch_port_contract\<close> states what the gate relies on in a \<open>WorkerDispatchPort\<close>: releasing
  undoes reserving, a refused reservation changes nothing, a dispatch changes the ledger only
  by ledger operations and never returns a non-finite error document. The mock port and the
  subprocess queue satisfy it.
\<close>

section \<open>Small facts\<close>

lemma json_finite_obj_get: "json_finite (JObj kvs) \<Longrightarrow> json_finite (obj_get kvs k)"
  by (auto simp: obj_get_def list_all_iff dest: map_of_SomeD split: option.splits)

lemma json_finite_delete:
  "json_finite (JObj (AList.delete k kvs)) \<Longrightarrow> obj_get kvs k = JNull \<or> is_str (obj_get kvs k) \<Longrightarrow>
     distinct (map fst kvs) \<Longrightarrow> json_finite (JObj kvs)"
proof (induction kvs)
  case (Cons a kvs)
  obtain k' v where a: "a = (k', v)" by (cases a)
  show ?case
  proof (cases "k' = k")
    case True
    with Cons.prems a have "map_of kvs k = None" by (auto simp: map_of_eq_None_iff)
    with Cons.prems a True show ?thesis
      by (auto simp: delete_absent obj_get_def is_str_iff)
  next
    case False
    with Cons.prems a have "obj_get kvs k = JNull \<or> is_str (obj_get kvs k)" by (simp add: obj_get_def)
    with Cons a False show ?thesis by simp
  qed
qed simp

lemma stored_error_finite [simp]: "json_finite (stored_error e message)"
  by (simp add: stored_error_def split: exn.splits)

lemma queue_error_finite [simp]: "json_finite (queue_error c k r m)"
  by (simp add: queue_error_def)

lemma transition_step:
  "transition_execution svc t now outcome l = (res, l') \<Longrightarrow> json_finite (tr_error t) \<Longrightarrow>
     (ledger_step svc)\<^sup>*\<^sup>* l l'"
  by (intro r_into_rtranclp ledger_step.transition)

lemma steps_trans: "(ledger_step svc)\<^sup>*\<^sup>* a b \<Longrightarrow> (ledger_step svc)\<^sup>*\<^sup>* b c \<Longrightarrow> (ledger_step svc)\<^sup>*\<^sup>* a c"
  by (rule rtranclp_trans)

section \<open>The contract of a dispatch port\<close>

locale dispatch_port_contract =
  fixes svc :: services
    and port :: "'p dispatch_port"
    and port_ok :: "'p \<Rightarrow> bool"
  assumes reserve_release:
      "port_ok p \<Longrightarrow> dp_reserve_capacity port i p = (Inr u, p') \<Longrightarrow> dp_release_capacity port i p' = p"
    and reserve_failed: "dp_reserve_capacity port i p = (Inl e, p') \<Longrightarrow> p' = p"
    and dispatch_steps: "ledger_inv svc (w_ledger w) \<Longrightarrow> dp_dispatch port b w = (r, w') \<Longrightarrow>
      (ledger_step svc)\<^sup>*\<^sup>* (w_ledger w) (w_ledger w')"
    and dispatch_finite: "dp_dispatch port b w = (Inr (JObj kvs), w') \<Longrightarrow>
      json_finite (obj_get kvs ''error'')"
begin

text \<open>A refused admission gives back everything it had reserved.\<close>

lemma refused_commit_releases:
  assumes "reserve_and_commit svc g port env pf w = (Inl e, w')"
    and "ge_others env = (\<lambda>_ x. x)" and "port_ok (w_port w)"
    and "lg_poisoned_reason (w_ledger w') = None"
  shows "w' = w\<lparr>w_ledger := release_reservation (pf_intent_id pf) (w_ledger w)\<rparr>"
proof -
  let ?i = "pf_intent_id pf"
  have quiet: "ge_others env n x = x" for n x using assms(2) by simp
  let ?q = "bindE (active_count (Some ?i) (w_ledger w)) (evaluate_grants (g_quota g) (pf_intent pf))"
  show ?thesis
  proof (cases ?q)
    case (Inl x)
    with assms(1) show ?thesis by (simp add: reserve_and_commit_def quiet Let_def abandon_def)
  next
    case quota: (Inr grants)
    obtain r p where rp: "dp_reserve_capacity port ?i (w_port w) = (r, p)"
      by (cases "dp_reserve_capacity port ?i (w_port w)")
    show ?thesis
    proof (cases r)
      case (Inl x)
      with assms(1) quota rp reserve_failed [of ?i "w_port w" x p] show ?thesis
        by (simp add: reserve_and_commit_def quiet Let_def abandon_def)
    next
      case res: (Inr u)
      have given: "dp_release_capacity port ?i p = w_port w"
        using reserve_release [OF assms(3)] rp res by simp
      show ?thesis
      proof (cases "prepare_admission svc g pf grants env")
        case (Inl x)
        with assms(1) quota rp res given show ?thesis
          by (simp add: reserve_and_commit_def quiet Let_def abandon_def)
      next
        case prep: (Inr ad)
        obtain c l where cl: "commit_admission svc (commit_request pf env ad) (ge_clock env 1)
            (ge_append env 1) (w_ledger w) = (c, l)"
          by (cases "commit_admission svc (commit_request pf env ad) (ge_clock env 1)
            (ge_append env 1) (w_ledger w)")
        show ?thesis
        proof (cases c)
          case (Inl x)
          then have w': "w' = w\<lparr>w_ledger := release_reservation ?i l\<rparr>"
            using assms(1) quota rp res prep cl given
            by (simp add: reserve_and_commit_def quiet Let_def abandon_def)
          with assms(4) have "lg_poisoned_reason l = None"
            by (simp add: release_reservation_def split: if_splits)
          from cl have "l = w_ledger w"
          proof (cases rule: commit_admission_outcome)
            case (failed q)
            with persist_failed [OF failed(3)] \<open>lg_poisoned_reason l = None\<close> show ?thesis by simp
          qed (use Inl in auto)
          with w' show ?thesis by simp
        next
          case (Inr rec)
          with assms(1) quota rp res prep cl show ?thesis
            by (simp add: reserve_and_commit_def quiet Let_def)
        qed
      qed
    qed
  qed
qed

end

section \<open>The ports satisfy the contract\<close>

interpretation mock: dispatch_port_contract svc "mock_port svc auto" "\<lambda>_. True" for svc auto
proof
  show "(ledger_step svc)\<^sup>*\<^sup>* (w_ledger w) (w_ledger w')"
    if "dp_dispatch (mock_port svc auto) b w = (r, w')" for b w r w'
    using that by (auto simp: mock_port_def mock_dispatch_def split: sum.splits)
  show "json_finite (obj_get r ''error'')"
    if "dp_dispatch (mock_port svc auto) b w = (Inr (JObj r), w')" for b w r w'
    using that by (auto simp: mock_port_def mock_dispatch_def obj_get_def exn_simps split: sum.splits)
qed (auto simp: mock_port_def)

locale queue_rely =
  fixes svc :: services and env :: queue_env
  assumes others_steps: "ledger_inv svc (w_ledger w) \<Longrightarrow>
    (ledger_step svc)\<^sup>*\<^sup>* (w_ledger w) (w_ledger (qe_others env n w))"
begin

lemma attempt_steps:
  assumes "enqueue_attempt svc env e i b w = (out, w')"
  shows "(ledger_step svc)\<^sup>*\<^sup>* (w_ledger w) (w_ledger w')"
  using assms
  by (auto simp: enqueue_attempt_def move_def split: sum.splits option.splits prod.splits
      intro: transition_step)

lemma enqueue_steps:
  assumes inv: "ledger_inv svc (w_ledger w)" and e: "enqueue svc env ex i b w = (r, w')"
  shows "(ledger_step svc)\<^sup>*\<^sup>* (w_ledger w) (w_ledger w')"
proof -
  obtain out w1 where a: "enqueue_attempt svc env ex i b w = (out, w1)"
    by (cases "enqueue_attempt svc env ex i b w")
  note s1 = attempt_steps [OF a]
  have i1: "ledger_inv svc (w_ledger w1)" using ledger_history.steps_inv [OF s1 inv] .
  note s2 = others_steps [OF i1, of 1]
  have i2: "ledger_inv svc (w_ledger (qe_others env 1 w1))" using ledger_history.steps_inv [OF s2 i1] .
  show ?thesis
  proof (cases out)
    case (Unsubmitted n)
    let ?w2 = "qe_others env 1 w1"
    let ?w = "?w2\<lparr>w_port := drop_slot (withdraw_job ex n (w_port ?w2))\<rparr>"
    have s3: "(ledger_step svc)\<^sup>*\<^sup>* (w_ledger ?w2) (w_ledger (qe_others env 2 ?w))"
      using others_steps [of ?w 2] i2 by simp
    from Unsubmitted e a obtain res l where
      t: "transition_execution svc (move ex [''QUEUED''] ''FAILED''
            (queue_error ''ERR_WORKER_DISPATCH_FAILED'' ''DISPATCH'' True
               ''Worker queue submission failed''))
            (qe_clock env 2) (qe_append env 2) (w_ledger (qe_others env 2 ?w)) = (res, l)"
      and "w_ledger w' = l"
      by (auto simp: enqueue_def Let_def split: sum.splits prod.splits)
    with transition_step [OF t] s1 s2 s3 show ?thesis
      by (simp add: move_def)
  qed (use e a s1 s2 in \<open>auto simp: enqueue_def Let_def intro: steps_trans\<close>)
qed

end

sublocale queue_rely \<subseteq> queue: dispatch_port_contract svc "queue_port svc env" "\<lambda>q. q_capacity q \<le> q_total q"
proof
  show "dp_release_capacity (queue_port svc env) i p' = p"
    if "q_capacity p \<le> q_total p" "dp_reserve_capacity (queue_port svc env) i p = (Inr u, p')" for p i u p'
    using that
    by (auto simp: queue_port_def reserve_capacity_def release_capacity_reservation_def release_slot_def
        remove1_append Let_def split: if_splits)
  show "p' = p" if "dp_reserve_capacity (queue_port svc env) i p = (Inl e, p')" for p i e p'
    using that by (auto simp: queue_port_def reserve_capacity_def split: if_splits)
  show "(ledger_step svc)\<^sup>*\<^sup>* (w_ledger w) (w_ledger w')"
    if "ledger_inv svc (w_ledger w)" "dp_dispatch (queue_port svc env) b w = (r, w')" for w b r w'
    using that enqueue_steps
    by (auto simp: queue_port_def queue_dispatch_def split: sum.splits)
  show "json_finite (obj_get r ''error'')"
    if "dp_dispatch (queue_port svc env) b w = (Inr (JObj r), w')" for b w r w'
    using that
    by (auto simp: queue_port_def queue_dispatch_def enqueue_def obj_get_def Let_def
        split: sum.splits attempt.splits prod.splits)
qed

interpretation quiet_queue: queue_rely svc "env\<lparr>qe_others := \<lambda>_ w. w\<rparr>" for svc env
  by unfold_locales simp


section \<open>A prepared admission verifies\<close>

lemma prepare_admission_facts:
  assumes "prepare_admission svc g pf grants env = Inr ad"
  obtains expires signature where
    "admission_expiry svc g (pf_intent pf) (ge_now env) = Inr expires"
    and "compute_admission_digest (svc_sha svc) (admission_skeleton svc g pf grants env expires)
           = Inr (ad_digest ad)"
    and "sign_admission (si_sign (g_identity g))
           (admission_skeleton svc g pf grants env expires @
              [(''admission_digest'', JStr (ad_digest ad)), (''authenticator'', JObj (authenticator g))])
           = Inr signature"
    and "ad_document ad = admission_skeleton svc g pf grants env expires @
           [(''admission_digest'', JStr (ad_digest ad)),
            (''authenticator'', JObj (authenticator g @ [(''signature'', JStr signature)]))]"
    and "ad_bundle ad = JObj [(''schema_version'', JStr ''1.0.0''), (''intent'', JObj (pf_intent pf)),
           (''admission'', JObj (ad_document ad))]"
    and "svc_schema svc ''admission-record'' (JObj (ad_document ad))"
    and "svc_schema svc ''authorized-execution'' (ad_bundle ad)"
  using assms by (auto simp: prepare_admission_def Let_def exn_simps)

lemma skeleton_delete:
  "AList.delete ''authenticator'' (AList.delete ''admission_digest''
     (admission_skeleton svc g pf grants env x @ [(''admission_digest'', d), (''authenticator'', a)]))
   = admission_skeleton svc g pf grants env x"
  by (simp add: admission_skeleton_def)

lemma skeleton_get:
  "obj_get (admission_skeleton svc g pf grants env x @ [(''admission_digest'', d), (''authenticator'', a)])
     ''admission_digest'' = d"
  "obj_get (admission_skeleton svc g pf grants env x @ [(''admission_digest'', d), (''authenticator'', a)])
     ''authenticator'' = a"
  "obj_get (admission_skeleton svc g pf grants env x @ rest) ''intent_id'' = JStr (pf_intent_id pf)"
  "obj_get (admission_skeleton svc g pf grants env x @ rest) ''intent_digest'' = JStr (pf_intent_digest pf)"
  "obj_get (admission_skeleton svc g pf grants env x @ rest) ''execution_id'' = JStr (ge_execution_id env)"
  "obj_get (admission_skeleton svc g pf grants env x @ rest) ''admission_id'' = JStr (ge_admission_id env)"
  "obj_get (admission_skeleton svc g pf grants env x @ rest) ''admission_expires_at'' =
     JStr (svc_isoformat svc x)"
  "obj_get (admission_skeleton svc g pf grants env x @ rest) ''authenticated_subject'' =
     subject_to_dict (pf_subject pf)"
  by (simp_all add: admission_skeleton_def obj_get_def)

lemma update_authenticator:
  "AList.update ''authenticator'' b
     (admission_skeleton svc g pf grants env x @ [(''admission_digest'', d), (''authenticator'', a)])
   = admission_skeleton svc g pf grants env x @ [(''admission_digest'', d), (''authenticator'', b)]"
  by (simp add: admission_skeleton_def)

lemma authenticator_signature:
  "AList.delete ''signature'' (authenticator g @ [(''signature'', s)]) = authenticator g"
  "AList.delete ''signature'' (authenticator g) = authenticator g"
  "obj_get (authenticator g @ [(''signature'', s)]) ''signature'' = s"
  by (simp_all add: authenticator_def obj_get_def)

lemma prepared_admission_verifies:
  assumes "prepare_admission svc g pf grants env = Inr ad"
    and "\<And>payload. verify (si_sign (g_identity g) payload) payload"
  shows "verify_admission_signature verify (ad_document ad) = Inr True"
    and "compute_admission_digest (svc_sha svc) (ad_document ad) = Inr (ad_digest ad)"
    and "obj_get (ad_document ad) ''admission_digest'' = JStr (ad_digest ad)"
proof -
  obtain x s where f: "compute_admission_digest (svc_sha svc) (admission_skeleton svc g pf grants env x)
           = Inr (ad_digest ad)"
    "sign_admission (si_sign (g_identity g)) (admission_skeleton svc g pf grants env x @
              [(''admission_digest'', JStr (ad_digest ad)), (''authenticator'', JObj (authenticator g))])
           = Inr s"
    "ad_document ad = admission_skeleton svc g pf grants env x @
           [(''admission_digest'', JStr (ad_digest ad)),
            (''authenticator'', JObj (authenticator g @ [(''signature'', JStr s)]))]"
    using assms(1) by (rule prepare_admission_facts)
  show "obj_get (ad_document ad) ''admission_digest'' = JStr (ad_digest ad)"
    by (simp add: f(3) skeleton_get)
  show "compute_admission_digest (svc_sha svc) (ad_document ad) = Inr (ad_digest ad)"
    using f(1) by (simp add: f(3) compute_admission_digest_def skeleton_delete)
       (simp add: admission_skeleton_def)
  have same: "get_admission_signing_payload (ad_document ad) =
      get_admission_signing_payload (admission_skeleton svc g pf grants env x @
        [(''admission_digest'', JStr (ad_digest ad)), (''authenticator'', JObj (authenticator g))])"
    by (simp add: f(3) get_admission_signing_payload_def skeleton_get update_authenticator
        authenticator_signature)
  from f(2) obtain payload where "get_admission_signing_payload (ad_document ad) = Inr payload"
    "s = si_sign (g_identity g) payload"
    unfolding same by (auto simp: sign_admission_def exn_simps)
  with assms(2) show "verify_admission_signature verify (ad_document ad) = Inr True"
    by (simp add: verify_admission_signature_def f(3) skeleton_get authenticator_signature)
qed

section \<open>A committed admission is durable before it is dispatched\<close>

lemma reserve_and_commit_committed:
  assumes "reserve_and_commit svc g port env pf w = (Inr ad, w')"
  shows "\<exists>l grants rec. prepare_admission svc g pf grants env = Inr ad \<and>
    commit_admission svc (commit_request pf env ad) (ge_clock env 1) (ge_append env 1) l
      = (Inr rec, w_ledger w')"
  using assms
  by (auto simp: reserve_and_commit_def Let_def split: sum.splits prod.splits) blast

lemma committed_record:
  assumes "commit_admission svc a now outcome l = (Inr r, l')"
  shows "get_by_execution_id (adm_execution_id a) l' = Some r \<and> r = admitted_record a now \<and>
    lg_persistence_path l' = lg_persistence_path l \<and>
    (lg_persistence_path l \<noteq> None \<longrightarrow> lg_log l' = lg_log l @ [Snapshot (to_dict r)])"
  using assms
proof (cases rule: commit_admission_outcome)
  case (committed q lp)
  obtain s d where f: "q = admitted_record a now" "validate_snapshot_schema (to_dict q) = Inr d"
    using committed(1) by (rule commit_checks_facts)
  from snapshot_facts(2) [OF f(2)] have "rec_intent_id q \<noteq> []" .
  with committed f(1) have "get_by_execution_id (adm_execution_id a) l' = Some r \<and> r = admitted_record a now"
    by (auto simp: get_by_execution_id_def put_record_def admitted_record_def)
  moreover from committed(3) have "lg_persistence_path l' = lg_persistence_path l \<and>
      (lg_persistence_path l \<noteq> None \<longrightarrow> lg_log l' = lg_log l @ [Snapshot (to_dict r)])"
    using committed(2,4) by (cases rule: persist_outcome) (auto simp: put_record_def)
  ultimately show ?thesis by simp
qed auto

section \<open>Reads\<close>

lemma get_owned_record_owner:
  assumes "get_owned_record g e credentials l = Inr (Some r)"
  shows "\<exists>s. g_authenticate g credentials = Inr s \<and> rec_authenticated_subject_id r = subject_id s \<and>
    get_by_execution_id e l = Some r"
  using assms by (auto simp: get_owned_record_def exn_simps split: option.splits if_splits)

end
