(* ===== verification/Gate_Steps.thy ===== *)
theory Gate_Steps
  imports Gate_Props
begin

text \<open>
  Every effect of the gate on the ledger is a sequence of ledger operations, so what holds of
  all reachable ledgers holds after any call of \<open>admit_and_dispatch\<close>, whatever its outcome.
  \<open>env_rely\<close> is what the gate relies on: the other threads too only use ledger operations, and
  none of them uses the fresh execution identity this call has drawn.
\<close>

definition absent :: "string \<Rightarrow> ledger \<Rightarrow> bool" where
  "absent e l \<longleftrightarrow> map_of (lg_by_execution_id l) e = None"

definition fresh_steps :: "services \<Rightarrow> string \<Rightarrow> ledger \<Rightarrow> ledger \<Rightarrow> bool" where
  "fresh_steps svc e l l' \<longleftrightarrow> (ledger_step svc)\<^sup>*\<^sup>* l l' \<and> (absent e l \<longrightarrow> absent e l')"

definition env_rely :: "services \<Rightarrow> 'p gate_env \<Rightarrow> bool" where
  "env_rely svc env \<longleftrightarrow>
     (\<forall>n w. ledger_inv svc (w_ledger w) \<longrightarrow>
        fresh_steps svc (ge_execution_id env) (w_ledger w) (w_ledger (ge_others env n w))) \<and>
     (\<forall>x f. (x, f) \<in> set (ge_schedule env) \<longrightarrow>
        (\<forall>l. ledger_inv svc l \<longrightarrow> fresh_steps svc (ge_execution_id env) l (f l)))"

lemma fresh_steps_refl [simp]: "fresh_steps svc e l l"
  by (simp add: fresh_steps_def)

lemma fresh_steps_trans: "fresh_steps svc e a b \<Longrightarrow> fresh_steps svc e b c \<Longrightarrow> fresh_steps svc e a c"
  by (auto simp: fresh_steps_def)

lemma fresh_steps_inv: "fresh_steps svc e l l' \<Longrightarrow> ledger_inv svc l \<Longrightarrow> ledger_inv svc l'"
  by (auto simp: fresh_steps_def dest: ledger_history.steps_inv)

lemma acquire_pass_fresh:
  assumes "acquire_pass i d c now expired l = (res, l')"
  shows "fresh_steps svc e l l'"
proof -
  have "lg_by_execution_id l' = lg_by_execution_id l"
    using acquire_pass_same [OF assms] acquire_pass_reserved(6) [of i d c now expired l l'] assms
    by (cases "res = Inr Reserved") auto
  moreover have "(ledger_step svc)\<^sup>*\<^sup>* l l'"
    by (rule r_into_rtranclp) (rule ledger_step.acquire [OF assms])
  ultimately show ?thesis by (simp add: fresh_steps_def absent_def)
qed

lemma acquire_fresh:
  assumes "acquire_or_check i d c now schedule l = Some (res, l')" and "ledger_inv svc l"
    and "\<And>x f m. (x, f) \<in> set schedule \<Longrightarrow> ledger_inv svc m \<Longrightarrow> fresh_steps svc e m (f m)"
  shows "fresh_steps svc e l l'"
  using assms
proof (induction schedule arbitrary: l)
  case Nil
  obtain r k where p: "acquire_pass i d c now False l = (r, k)" by (cases "acquire_pass i d c now False l")
  with Nil(1) have "l' = k" by (auto split: sum.splits acquire_outcome.splits)
  with acquire_pass_fresh [OF p] show ?case by simp
next
  case (Cons a schedule)
  obtain expired f where a: "a = (expired, f)" by (cases a)
  obtain r k where p: "acquire_pass i d c now expired l = (r, k)"
    by (cases "acquire_pass i d c now expired l")
  note s = acquire_pass_fresh [OF p, of svc e]
  show ?case
  proof (cases "r = Inr MustWait")
    case True
    have inv: "ledger_inv svc k" using fresh_steps_inv [OF s Cons.prems(2)] .
    have f: "fresh_steps svc e k (f k)" using Cons.prems(3) [of expired f k] inv a by simp
    have rest: "acquire_or_check i d c now schedule (f k) = Some (res, l')"
      using Cons.prems(1) a p True by simp
    have "fresh_steps svc e (f k) l'"
    proof (rule Cons.IH [OF rest fresh_steps_inv [OF f inv]])
      show "fresh_steps svc e m (h m)" if "(x, h) \<in> set schedule" "ledger_inv svc m" for x h m
        using Cons.prems(3) [of x h m] that by simp
    qed
    with s f fresh_steps_trans show ?thesis by blast
  next
    case False
    with Cons.prems(1) a p have "l' = k" by (auto split: sum.splits acquire_outcome.splits)
    with s show ?thesis by simp
  qed
qed

lemma parse_intent_finite:
  assumes "parse_intent svc max_bytes raw now = Inr data" and "distinct (map fst data)"
  shows "json_finite (JObj data)"
proof -
  obtain d where d: "obj_get data ''intent_digest'' = JStr d"
    "compute_intent_digest (svc_sha svc) data = Inr d"
    using parse_intent_facts(4) [OF assms(1)] by blast
  from d(2) have fin: "json_finite (JObj (AList.delete ''intent_digest'' data))"
    by (auto simp: compute_intent_digest_def exn_simps canonicalize_jcs_eq split: if_splits)
  show ?thesis by (rule json_finite_delete [OF fin _ assms(2)]) (simp add: d(1))
qed

lemma preflight_intent:
  assumes "admit_preflight svc g raw credentials now = Inr pf"
  shows "parse_intent svc (g_max_bytes g) raw now = Inr (pf_intent pf)"
  using assms by (auto simp: admit_preflight_def exn_simps)

lemma prepared_document_finite:
  assumes "prepare_admission svc g pf grants env = Inr ad"
  shows "json_finite (JObj (ad_document ad))"
proof -
  obtain x s where f: "compute_admission_digest (svc_sha svc) (admission_skeleton svc g pf grants env x)
           = Inr (ad_digest ad)"
    "ad_document ad = admission_skeleton svc g pf grants env x @
           [(''admission_digest'', JStr (ad_digest ad)),
            (''authenticator'', JObj (authenticator g @ [(''signature'', JStr s)]))]"
    using assms by (rule prepare_admission_facts)
  have "AList.delete ''authenticator'' (AList.delete ''admission_digest''
      (admission_skeleton svc g pf grants env x)) = admission_skeleton svc g pf grants env x"
    by (simp add: admission_skeleton_def)
  with f(1) have "json_finite (JObj (admission_skeleton svc g pf grants env x))"
    by (auto simp: compute_admission_digest_def exn_simps canonicalize_jcs_eq split: if_splits)
  then show ?thesis by (simp add: f(2) authenticator_def)
qed

lemma release_reservation_step: "(ledger_step svc)\<^sup>*\<^sup>* l (release_reservation i l)"
  by (rule r_into_rtranclp) (rule ledger_step.release)

lemma others_fresh:
  "env_rely svc env \<Longrightarrow> ledger_inv svc (w_ledger w) \<Longrightarrow>
     fresh_steps svc (ge_execution_id env) (w_ledger w) (w_ledger (ge_others env n w))"
  by (simp add: env_rely_def)

context dispatch_port_contract
begin

lemma abandon_steps:
  assumes "env_rely svc env" and "ledger_inv svc (w_ledger w)"
  shows "(ledger_step svc)\<^sup>*\<^sup>* (w_ledger w) (w_ledger (abandon port env i b w))"
proof (cases b)
  case True
  let ?w = "w\<lparr>w_port := dp_release_capacity port i (w_port w)\<rparr>"
  have "(ledger_step svc)\<^sup>*\<^sup>* (w_ledger w) (w_ledger (ge_others env 4 ?w))"
    using others_fresh [OF assms(1), of ?w 4] assms(2) by (simp add: fresh_steps_def)
  with True release_reservation_step show ?thesis
    by (auto simp: abandon_def Let_def intro: steps_trans)
next
  case False
  then show ?thesis using release_reservation_step by (simp add: abandon_def)
qed

lemma reserve_and_commit_steps:
  assumes rely: "env_rely svc env" and inv: "ledger_inv svc (w_ledger w)"
    and fresh: "absent (ge_execution_id env) (w_ledger w)" and fin: "json_finite (JObj (pf_intent pf))"
    and r: "reserve_and_commit svc g port env pf w = (res, w')"
  shows "(ledger_step svc)\<^sup>*\<^sup>* (w_ledger w) (w_ledger w')"
proof -
  let ?w1 = "ge_others env 1 w"
  let ?w2 = "ge_others env 2 ?w1"
  let ?i = "pf_intent_id pf"
  obtain rc p where rp: "dp_reserve_capacity port ?i (w_port ?w2) = (rc, p)"
    by (cases "dp_reserve_capacity port ?i (w_port ?w2)")
  let ?w3 = "ge_others env 3 (?w2\<lparr>w_port := p\<rparr>)"
  note f1 = others_fresh [OF rely inv, of 1]
  note i1 = fresh_steps_inv [OF f1 inv]
  note f2 = others_fresh [OF rely i1, of 2]
  note i2 = fresh_steps_inv [OF f2 i1]
  have f3: "fresh_steps svc (ge_execution_id env) (w_ledger ?w2) (w_ledger ?w3)"
    using others_fresh [OF rely, of "?w2\<lparr>w_port := p\<rparr>" 3] i2 by simp
  note i3 = fresh_steps_inv [OF f3 i2]
  have to1: "(ledger_step svc)\<^sup>*\<^sup>* (w_ledger w) (w_ledger ?w1)" using f1 by (simp add: fresh_steps_def)
  have to2: "(ledger_step svc)\<^sup>*\<^sup>* (w_ledger w) (w_ledger ?w2)"
    using to1 f2 by (auto simp: fresh_steps_def)
  have to3: "(ledger_step svc)\<^sup>*\<^sup>* (w_ledger w) (w_ledger ?w3)"
    using to2 f3 by (auto simp: fresh_steps_def)
  have absent3: "absent (ge_execution_id env) (w_ledger ?w3)"
    using fresh f1 f2 f3 by (simp add: fresh_steps_def)
  show ?thesis
  proof (cases "bindE (active_count (Some ?i) (w_ledger ?w1)) (evaluate_grants (g_quota g) (pf_intent pf))")
    case (Inl x)
    with r have "w' = abandon port env ?i False ?w1" by (simp add: reserve_and_commit_def Let_def)
    with to1 abandon_steps [OF rely i1] show ?thesis by (auto intro: steps_trans)
  next
    case quota: (Inr grants)
    show ?thesis
    proof (cases rc)
      case (Inl x)
      with r quota rp have "w' = abandon port env ?i False (?w2\<lparr>w_port := p\<rparr>)"
        by (simp add: reserve_and_commit_def Let_def)
      with to2 abandon_steps [OF rely, of "?w2\<lparr>w_port := p\<rparr>"] i2 show ?thesis
        by (auto intro: steps_trans)
    next
      case slot: (Inr u)
      show ?thesis
      proof (cases "prepare_admission svc g pf grants env")
        case (Inl x)
        with r quota rp slot have "w' = abandon port env ?i True ?w3"
          by (simp add: reserve_and_commit_def Let_def)
        with to3 abandon_steps [OF rely i3] show ?thesis by (auto intro: steps_trans)
      next
        case prep: (Inr ad)
        obtain c l where cl: "commit_admission svc (commit_request pf env ad) (ge_clock env 1)
            (ge_append env 1) (w_ledger ?w3) = (c, l)"
          by (cases "commit_admission svc (commit_request pf env ad) (ge_clock env 1)
            (ge_append env 1) (w_ledger ?w3)")
        have step: "ledger_step svc (w_ledger ?w3) l"
          using absent3 prepared_document_finite [OF prep] fin
          by (intro ledger_step.commit [OF cl]) (simp_all add: commit_request_def absent_def)
        with to3 have tol: "(ledger_step svc)\<^sup>*\<^sup>* (w_ledger w) l" by (rule rtranclp.rtrancl_into_rtrancl)
        have il: "ledger_inv svc l" using ledger_step_inv [OF i3 step] .
        show ?thesis
        proof (cases c)
          case (Inl x)
          with r quota rp slot prep cl have "w' = abandon port env ?i True (?w3\<lparr>w_ledger := l\<rparr>)"
            by (simp add: reserve_and_commit_def Let_def)
          with tol abandon_steps [OF rely, of "?w3\<lparr>w_ledger := l\<rparr>"] il show ?thesis
            by (auto intro: steps_trans)
        next
          case (Inr rec)
          with r quota rp slot prep cl have "w' = ?w3\<lparr>w_ledger := l\<rparr>"
            by (simp add: reserve_and_commit_def Let_def)
          with tol show ?thesis by simp
        qed
      qed
    qed
  qed
qed

lemma dispatch_failed_steps:
  assumes rely: "env_rely svc env" and inv: "ledger_inv svc (w_ledger w)"
    and d: "dispatch_failed svc g env pf e w = (e', w')"
  shows "(ledger_step svc)\<^sup>*\<^sup>* (w_ledger w) (w_ledger w')"
proof -
  let ?w1 = "ge_others env 6 w"
  let ?t = "\<lparr>tr_execution_id = ge_execution_id env, tr_expected_statuses = NONTERMINAL_STATUSES,
      tr_status = ''FAILED'', tr_receipt_digest = JNull, tr_terminal_receipt = JNull,
      tr_error = stored_error e (ge_message env)\<rparr>"
  obtain res l where t: "transition_execution svc ?t (ge_clock env 2) (ge_append env 2) (w_ledger ?w1)
      = (res, l)"
    by (cases "transition_execution svc ?t (ge_clock env 2) (ge_append env 2) (w_ledger ?w1)")
  have "w_ledger w' = l"
    using d t by (auto simp: dispatch_failed_def Let_def add_audit_def split: sum.splits)
  moreover have "(ledger_step svc)\<^sup>*\<^sup>* (w_ledger ?w1) l" by (rule transition_step [OF t]) simp
  moreover have "(ledger_step svc)\<^sup>*\<^sup>* (w_ledger w) (w_ledger ?w1)"
    using others_fresh [OF rely inv] by (simp add: fresh_steps_def)
  ultimately show ?thesis by (auto intro: steps_trans)
qed

lemma release_capacity_steps:
  assumes "env_rely svc env" and "ledger_inv svc (w_ledger w)"
  shows "(ledger_step svc)\<^sup>*\<^sup>* (w_ledger w) (w_ledger (release_capacity port env i w))"
  using others_fresh [OF assms, of 7] by (simp add: release_capacity_def Let_def fresh_steps_def)

lemma dispatch_admitted_steps:
  assumes rely: "env_rely svc env" and inv: "ledger_inv svc (w_ledger w)"
    and d: "dispatch_admitted svc g port env pf ad w = (res, w')"
  shows "(ledger_step svc)\<^sup>*\<^sup>* (w_ledger w) (w_ledger w')"
    and "res = Inr kvs \<Longrightarrow> json_finite (obj_get kvs ''error'')"
proof -
  let ?w0 = "ge_others env 5 w"
  obtain r w1 where p: "dp_dispatch port (ad_bundle ad) ?w0 = (r, w1)"
    by (cases "dp_dispatch port (ad_bundle ad) ?w0")
  have s0: "(ledger_step svc)\<^sup>*\<^sup>* (w_ledger w) (w_ledger ?w0)"
    using others_fresh [OF rely inv] by (simp add: fresh_steps_def)
  note i0 = ledger_history.steps_inv [OF s0 inv]
  note s1 = steps_trans [OF s0 dispatch_steps [OF i0 p]]
  note i1 = ledger_history.steps_inv [OF s1 inv]
  let ?v = "bindE r (\<lambda>result. bindE (gate_expectation g env pf ad) (\<lambda>x. validate_dispatch_result svc x result))"
  have "(ledger_step svc)\<^sup>*\<^sup>* (w_ledger w) (w_ledger w') \<and>
      (res = Inr kvs \<longrightarrow> json_finite (obj_get kvs ''error''))"
  proof (cases ?v)
    case (Inl e)
    obtain e' w2 where f: "dispatch_failed svc g env pf e w1 = (e', w2)"
      by (cases "dispatch_failed svc g env pf e w1")
    note s2 = steps_trans [OF s1 dispatch_failed_steps [OF rely i1 f]]
    note i2 = ledger_history.steps_inv [OF s2 inv]
    from d p Inl f have "res = Inl e'" "w' = release_capacity port env (pf_intent_id pf) w2"
      by (auto simp: dispatch_admitted_def Let_def)
    with steps_trans [OF s2 release_capacity_steps [OF rely i2]] show ?thesis by simp
  next
    case (Inr kv)
    then obtain x v where "r = Inr v" "validate_dispatch_result svc x v = Inr kv"
      by (auto simp: exn_simps)
    then have "r = Inr (JObj kv)"
      by (cases v) (auto simp: validate_dispatch_result_def exn_simps)
    with dispatch_finite p have "json_finite (obj_get kv ''error'')" by blast
    moreover from d p Inr have "res = Inr kv" "w' = release_capacity port env (pf_intent_id pf) w1"
      by (auto simp: dispatch_admitted_def Let_def)
    ultimately show ?thesis using steps_trans [OF s1 release_capacity_steps [OF rely i1]] by auto
  qed
  then show "(ledger_step svc)\<^sup>*\<^sup>* (w_ledger w) (w_ledger w')"
    "res = Inr kvs \<Longrightarrow> json_finite (obj_get kvs ''error'')" by simp_all
qed

end

lemma settle_steps:
  assumes "settle svc env result l = (res, l')" and "json_finite (obj_get result ''error'')"
  shows "(ledger_step svc)\<^sup>*\<^sup>* l l'"
proof (cases "str_opt (obj_get result ''status'')")
  case None
  with assms(1) show ?thesis by (auto simp: settle_def split: json.splits)
next
  case (Some s)
  let ?t = "\<lparr>tr_execution_id = ge_execution_id env, tr_expected_statuses = [''ADMITTED''],
      tr_status = ''QUEUED'', tr_receipt_digest = JNull, tr_terminal_receipt = JNull, tr_error = JNull\<rparr>"
  let ?u = "?t\<lparr>tr_expected_statuses := NONTERMINAL_STATUSES @ [s], tr_status := s,
      tr_receipt_digest := obj_get result ''receipt_digest'',
      tr_terminal_receipt := obj_get result ''receipt'', tr_error := obj_get result ''error''\<rparr>"
  have "l' = l \<or> (\<exists>r. transition_execution svc ?t (ge_clock env 3) (ge_append env 3) l = (r, l')) \<or>
      (\<exists>r. transition_execution svc ?u (ge_clock env 3) (ge_append env 3) l = (r, l'))"
    using assms(1) Some
    by (auto simp: settle_def Let_def split: if_splits option.splits sum.splits prod.splits)
  with assms(2) show ?thesis by (auto intro: transition_step)
qed

lemma finish_admission_steps:
  assumes rely: "env_rely svc env" and inv: "ledger_inv svc (w_ledger w)"
    and f: "finish_admission svc g env pf ad result w = (res, w')"
    and "json_finite (obj_get result ''error'')"
  shows "(ledger_step svc)\<^sup>*\<^sup>* (w_ledger w) (w_ledger w')"
proof -
  let ?w1 = "ge_others env 8 w"
  obtain r l where s: "settle svc env result (w_ledger ?w1) = (r, l)"
    by (cases "settle svc env result (w_ledger ?w1)")
  have "w_ledger w' = l"
    using f s by (auto simp: finish_admission_def Let_def add_audit_def split: sum.splits)
  moreover have "(ledger_step svc)\<^sup>*\<^sup>* (w_ledger w) (w_ledger ?w1)"
    using others_fresh [OF rely inv] by (simp add: fresh_steps_def)
  ultimately show ?thesis using settle_steps [OF s assms(4)] by (auto intro: steps_trans)
qed

context dispatch_port_contract
begin

lemma admit_steps:
  assumes rely: "env_rely svc env" and inv: "ledger_inv svc (w_ledger w)"
    and fresh: "absent (ge_execution_id env) (w_ledger w)"
    and wf: "\<And>data. decode_input svc (g_max_bytes g) raw = Inr (JObj data) \<Longrightarrow> distinct (map fst data)"
    and a: "admit_and_dispatch svc g port env raw credentials w = Some (res, w')"
  shows "(ledger_step svc)\<^sup>*\<^sup>* (w_ledger w) (w_ledger w')"
proof (cases "admit_preflight svc g raw credentials (ge_now env)")
  case (Inl e)
  with a show ?thesis by (simp add: admit_and_dispatch_def)
next
  case pf: (Inr pf)
  note parsed = preflight_intent [OF pf]
  have fin: "json_finite (JObj (pf_intent pf))"
    using parse_intent_finite [OF parsed wf [OF parse_intent_facts(6) [OF parsed]]] .
  let ?w0 = "ge_others env 0 w"
  note f0 = others_fresh [OF rely inv, of 0]
  note i0 = fresh_steps_inv [OF f0 inv]
  let ?acq = "acquire_or_check (pf_intent_id pf) (pf_intent_digest pf) (subject_id (pf_subject pf))
      (ge_clock env 0) (ge_schedule env) (w_ledger ?w0)"
  obtain r l where acq: "?acq = Some (r, l)"
    using a pf by (cases ?acq) (auto simp: admit_and_dispatch_def Let_def)
  have "fresh_steps svc (ge_execution_id env) (w_ledger ?w0) l"
    by (rule acquire_fresh [OF acq i0]) (use rely in \<open>simp add: env_rely_def\<close>)
  with f0 have fl: "fresh_steps svc (ge_execution_id env) (w_ledger w) l" by (rule fresh_steps_trans)
  note il = fresh_steps_inv [OF fl inv]
  have sl: "(ledger_step svc)\<^sup>*\<^sup>* (w_ledger w) l" "absent (ge_execution_id env) l"
    using fl fresh by (simp_all add: fresh_steps_def)
  let ?w = "?w0\<lparr>w_ledger := l\<rparr>"
  consider (err) e where "r = Inl e" | (old) rec where "r = Inr (Some rec)" | (new) "r = Inr None"
    by (metis option.exhaust sum.exhaust)
  then show ?thesis
  proof cases
    case err
    with a pf acq sl show ?thesis by (auto simp: admit_and_dispatch_def Let_def)
  next
    case old
    with a pf acq have "w_ledger w' = l"
      by (auto simp: admit_and_dispatch_def Let_def already_admitted_def add_audit_def split: if_splits)
    with sl show ?thesis by simp
  next
    case new
    obtain c w1 where c: "reserve_and_commit svc g port env pf ?w = (c, w1)"
      by (cases "reserve_and_commit svc g port env pf ?w")
    have s1: "(ledger_step svc)\<^sup>*\<^sup>* (w_ledger w) (w_ledger w1)"
      using reserve_and_commit_steps [OF rely _ _ fin c] il sl by (auto intro: steps_trans)
    note i1 = ledger_history.steps_inv [OF s1 inv]
    show ?thesis
    proof (cases c)
      case (Inl e)
      with a pf acq new c s1 show ?thesis by (auto simp: admit_and_dispatch_def Let_def)
    next
      case ad: (Inr ad)
      obtain d w2 where d: "dispatch_admitted svc g port env pf ad w1 = (d, w2)"
        by (cases "dispatch_admitted svc g port env pf ad w1")
      note s2 = steps_trans [OF s1 dispatch_admitted_steps(1) [OF rely i1 d]]
      note i2 = ledger_history.steps_inv [OF s2 inv]
      show ?thesis
      proof (cases d)
        case (Inl e)
        with a pf acq new c ad d s2 show ?thesis by (auto simp: admit_and_dispatch_def Let_def)
      next
        case result: (Inr result)
        with a pf acq new c ad d have "finish_admission svc g env pf ad result w2 = (res, w')"
          by (auto simp: admit_and_dispatch_def Let_def)
        from finish_admission_steps [OF rely i2 this dispatch_admitted_steps(2) [OF rely i1 d result]] s2
        show ?thesis by (auto intro: steps_trans)
      qed
    qed
  qed
qed

end

end
