(* ===== verification/Gate_Outcomes.thy ===== *)
theory Gate_Outcomes
  imports Gate_Steps Queue_Inv
begin

text \<open>
  What one undisturbed call of the gate leaves behind: nothing when it is refused before the commit,
  and a durable record in every other case. \<open>quiet_env\<close> says that no other thread acts between
  the critical sections of the call.
\<close>

definition quiet_env :: "'p gate_env \<Rightarrow> bool" where
  "quiet_env env \<longleftrightarrow>
     ge_others env = (\<lambda>_ w. w) \<and> (\<forall>(x, f) \<in> set (ge_schedule env). f = (\<lambda>l. l))"

lemma quiet_rely: "quiet_env env \<Longrightarrow> env_rely svc env"
  by (fastforce simp: quiet_env_def env_rely_def)

section \<open>Reserving and giving back\<close>

lemma acquire_quiet:
  assumes "acquire_or_check i d c now schedule l = Some (res, l')"
    and "\<forall>(x, f) \<in> set schedule. f = (\<lambda>l. l)"
  shows "if res = Inr None then acquire_pass i d c now False l = (Inr Reserved, l')
         else l' = l \<and> (\<forall>r. res = Inr (Some r) \<longrightarrow> map_of (lg_by_intent_id l) i = Some r)"
  using assms
proof (induction schedule arbitrary: l)
  case Nil
  then show ?case
    by (auto simp: acquire_pass_def split: sum.splits option.splits if_splits)
next
  case (Cons a schedule)
  obtain expired where a: "a = (expired, \<lambda>l. l)" using Cons.prems(2) by (cases a) auto
  obtain r k where p: "acquire_pass i d c now expired l = (r, k)"
    by (cases "acquire_pass i d c now expired l")
  show ?case
  proof (cases "r = Inr MustWait")
    case True
    with p have "k = l" by (auto simp: acquire_pass_def split: sum.splits option.splits if_splits)
    with Cons a p True show ?thesis by simp
  next
    case False
    with Cons.prems(1) a p show ?thesis
      by (auto simp: acquire_pass_def split: sum.splits option.splits if_splits)
  qed
qed

lemma delete_appended: "map_of d k = None \<Longrightarrow> AList.delete k (d @ [(k, v)]) = d"
  by (induction d) (auto split: if_splits)

lemma release_reserved:
  assumes "acquire_pass i d c now False l = (Inr Reserved, l')"
  shows "release_reservation i l' = l"
proof -
  from assms obtain r where "map_of (lg_reservations l) i = None" "lg_poisoned_reason l = None"
    "l' = l\<lparr>lg_reservations := AList.update i r (lg_reservations l)\<rparr>"
    by (auto simp: acquire_pass_def raise_if_poisoned_def split: sum.splits option.splits if_splits)
  then show ?thesis by (simp add: release_reservation_def update_fresh delete_appended)
qed

section \<open>A committed execution stays\<close>

lemma execution_stays:
  assumes "(ledger_step svc)\<^sup>*\<^sup>* l l'" and "ledger_inv svc l" and "get_by_execution_id e l = Some r"
  shows "\<exists>q. get_by_execution_id e l' = Some q \<and> moves_to\<^sup>*\<^sup>* r q"
proof -
  from assms(2,3) obtain i where i: "map_of (lg_by_intent_id l) i = Some r" "rec_execution_id r = e"
    by (auto simp: get_by_execution_id_iff)
  obtain q where q: "map_of (lg_by_intent_id l') i = Some q" "moves_to\<^sup>*\<^sup>* r q"
    using ledger_history.obs_grows [OF assms(1,2) i(1)] by blast
  with i(2) moves_same [OF q(2)] ledger_history.steps_inv [OF assms(1,2)] show ?thesis
    by (auto simp: get_by_execution_id_iff)
qed

context dispatch_port_contract
begin

lemma call_after_commit:
  assumes rely: "env_rely svc env" and inv: "ledger_inv svc (w_ledger w1)"
    and d: "dispatch_admitted svc g port env pf ad w1 = (r, w2)"
    and "case r of Inl e \<Rightarrow> (res, w') = (Inl e, w2)
         | Inr result \<Rightarrow> (res, w') = finish_admission svc g env pf ad result w2"
  shows "(ledger_step svc)\<^sup>*\<^sup>* (w_ledger w1) (w_ledger w')"
proof -
  note s1 = dispatch_admitted_steps(1) [OF rely inv d]
  note i1 = ledger_history.steps_inv [OF s1 inv]
  show ?thesis
  proof (cases r)
    case (Inl e)
    with s1 assms(4) show ?thesis by simp
  next
    case (Inr result)
    with assms(4) have f: "finish_admission svc g env pf ad result w2 = (res, w')" by simp
    from finish_admission_steps [OF rely i1 f dispatch_admitted_steps(2) [OF rely inv d Inr]] s1
    show ?thesis by (auto intro: steps_trans)
  qed
qed

lemma refused_call_no_trace:
  assumes quiet: "quiet_env env" and inv: "ledger_inv svc (w_ledger w)" and ok: "port_ok (w_port w)"
    and fresh: "absent (ge_execution_id env) (w_ledger w)"
    and wf: "\<And>data. decode_input svc (g_max_bytes g) raw = Inr (JObj data) \<Longrightarrow> distinct (map fst data)"
    and a: "admit_and_dispatch svc g port env raw credentials w = Some (Inl e, w')"
    and healthy: "lg_poisoned_reason (w_ledger w') = None"
  shows "(w_ledger w' = w_ledger w \<and> w_port w' = w_port w) \<or>
    (\<exists>r. get_by_execution_id (ge_execution_id env) (w_ledger w') = Some r)"
proof (cases "admit_preflight svc g raw credentials (ge_now env)")
  case (Inl x)
  with a show ?thesis by (simp add: admit_and_dispatch_def)
next
  case pf: (Inr pf)
  have id: "ge_others env n x = x" for n x using quiet by (simp add: quiet_env_def)
  note rely = quiet_rely [OF quiet]
  note parsed = preflight_intent [OF pf]
  have fin: "json_finite (JObj (pf_intent pf))"
    using parse_intent_finite [OF parsed wf [OF parse_intent_facts(6) [OF parsed]]] .
  let ?acq = "acquire_or_check (pf_intent_id pf) (pf_intent_digest pf) (subject_id (pf_subject pf))
      (ge_clock env 0) (ge_schedule env) (w_ledger w)"
  obtain r l where acq: "?acq = Some (r, l)"
    using a pf by (cases ?acq) (auto simp: admit_and_dispatch_def Let_def id)
  note q = acquire_quiet [OF acq] quiet [unfolded quiet_env_def]
  consider (err) x where "r = Inl x" | (old) rec where "r = Inr (Some rec)" | (new) "r = Inr None"
    by (metis option.exhaust sum.exhaust)
  then show ?thesis
  proof cases
    case err
    with a pf acq q show ?thesis by (auto simp: admit_and_dispatch_def Let_def id)
  next
    case old
    with a pf acq q show ?thesis
      by (auto simp: admit_and_dispatch_def Let_def id already_admitted_def add_audit_def split: if_splits)
  next
    case new
    with q have res: "acquire_pass (pf_intent_id pf) (pf_intent_digest pf) (subject_id (pf_subject pf))
        (ge_clock env 0) False (w_ledger w) = (Inr Reserved, l)" by simp
    let ?w = "w\<lparr>w_ledger := l\<rparr>"
    have fl: "fresh_steps svc (ge_execution_id env) (w_ledger w) l" by (rule acquire_pass_fresh [OF res])
    note il = fresh_steps_inv [OF fl inv]
    have absent: "absent (ge_execution_id env) l" using fl fresh by (simp add: fresh_steps_def)
    obtain c w1 where c: "reserve_and_commit svc g port env pf ?w = (c, w1)"
      by (cases "reserve_and_commit svc g port env pf ?w")
    show ?thesis
    proof (cases c)
      case (Inl x)
      with a pf acq new c have "w' = w1" by (auto simp: admit_and_dispatch_def Let_def id)
      with refused_commit_releases [of g env pf ?w x w1] c Inl quiet ok healthy
        release_reserved [OF res] show ?thesis by (simp add: quiet_env_def)
    next
      case ad: (Inr ad)
      have s1: "(ledger_step svc)\<^sup>*\<^sup>* l (w_ledger w1)"
        using reserve_and_commit_steps [OF rely _ _ fin c] il absent by simp
      note i1 = ledger_history.steps_inv [OF s1 il]
      obtain k grants rec where "commit_admission svc (commit_request pf env ad) (ge_clock env 1)
          (ge_append env 1) k = (Inr rec, w_ledger w1)"
        using reserve_and_commit_committed [of svc g port env pf ?w ad w1] c ad by blast
      from committed_record [OF this] have stored:
        "get_by_execution_id (ge_execution_id env) (w_ledger w1) = Some rec"
        by (simp add: commit_request_def)
      obtain d w2 where d: "dispatch_admitted svc g port env pf ad w1 = (d, w2)"
        by (cases "dispatch_admitted svc g port env pf ad w1")
      have "(ledger_step svc)\<^sup>*\<^sup>* (w_ledger w1) (w_ledger w')"
        by (rule call_after_commit [OF rely i1 d, where res = "Inl e"])
           (use a pf acq new c ad d in \<open>auto simp: admit_and_dispatch_def Let_def id split: sum.splits\<close>)
      from execution_stays [OF this i1 stored] show ?thesis by blast
    qed
  qed
qed

end

section \<open>Resubmission\<close>

lemma resubmission:
  assumes pf: "admit_preflight svc g raw credentials (ge_now env) = Inr pf"
    and known: "map_of (lg_by_intent_id (w_ledger (ge_others env 0 w))) (pf_intent_id pf) = Some rec"
    and owner: "rec_authenticated_subject_id rec = subject_id (pf_subject pf)"
    and digest: "rec_intent_digest rec = pf_intent_digest pf"
    and "lg_poisoned_reason (w_ledger (ge_others env 0 w)) = None"
  shows "admit_and_dispatch svc g port env raw credentials w
    = Some (already_admitted svc g env pf rec (ge_others env 0 w))"
proof -
  let ?l = "w_ledger (ge_others env 0 w)"
  have "acquire_pass (pf_intent_id pf) (pf_intent_digest pf) (subject_id (pf_subject pf))
      (ge_clock env 0) expired ?l = (Inr (Committed rec), ?l)" for expired
    using assms by (simp add: acquire_pass_def raise_if_poisoned_def)
  then have "acquire_or_check (pf_intent_id pf) (pf_intent_digest pf) (subject_id (pf_subject pf))
      (ge_clock env 0) (ge_schedule env) ?l = Some (Inr (Some rec), ?l)"
    by (cases "ge_schedule env") auto
  with pf show ?thesis by (simp add: admit_and_dispatch_def Let_def)
qed

section \<open>The ledger accepts what the gate prepares\<close>

lemma preflight_fields:
  assumes "admit_preflight svc g raw credentials now = Inr pf"
  shows "map_of (pf_intent pf) ''intent_id'' = Some (JStr (pf_intent_id pf))"
    and "map_of (pf_intent pf) ''intent_digest'' = Some (JStr (pf_intent_digest pf))"
    and "map_of (pf_intent pf) ''operation'' = Some (pf_operation pf)"
    and "\<exists>op. pf_operation pf = JStr op \<and> op \<in> fst ` set REQUIRED_ROLES_BY_OPERATION"
    and "g_authenticate g credentials = Inr (pf_subject pf)"
    and "map_of (pf_intent pf) ''workload'' = Some (pf_workload pf)"
    and "catalog_validate (g_catalog g) (pf_workload pf) (pf_operation pf) = Inr ()"
proof -
  from assms have f: "map_of (pf_intent pf) ''intent_id'' = Some (JStr (pf_intent_id pf))"
    "map_of (pf_intent pf) ''intent_digest'' = Some (JStr (pf_intent_digest pf))"
    "map_of (pf_intent pf) ''operation'' = Some (pf_operation pf)"
    "g_authenticate g credentials = Inr (pf_subject pf)"
    "map_of (pf_intent pf) ''workload'' = Some (pf_workload pf)"
    "catalog_validate (g_catalog g) (pf_workload pf) (pf_operation pf) = Inr ()"
    "evaluate_admission (pf_subject pf) (pf_intent pf) = Inr ()"
    by (auto simp: admit_preflight_def exn_simps split: option.splits)
  then show "map_of (pf_intent pf) ''intent_id'' = Some (JStr (pf_intent_id pf))"
    "map_of (pf_intent pf) ''intent_digest'' = Some (JStr (pf_intent_digest pf))"
    "map_of (pf_intent pf) ''operation'' = Some (pf_operation pf)"
    "g_authenticate g credentials = Inr (pf_subject pf)"
    "map_of (pf_intent pf) ''workload'' = Some (pf_workload pf)"
    "catalog_validate (g_catalog g) (pf_workload pf) (pf_operation pf) = Inr ()" by simp_all
  from f(3,7) show "\<exists>op. pf_operation pf = JStr op \<and> op \<in> fst ` set REQUIRED_ROLES_BY_OPERATION"
    by (auto simp: evaluate_admission_def obj_get_def split: option.splits dest!: map_of_SomeD)
       (force+)
qed

lemma operation_names: "op \<in> fst ` set REQUIRED_ROLES_BY_OPERATION \<Longrightarrow> op \<noteq> []"
  by (auto simp: REQUIRED_ROLES_BY_OPERATION_def)

lemma prepared_snapshot:
  assumes prep: "prepare_admission svc g pf grants env = Inr ad"
    and fields: "map_of (pf_intent pf) ''intent_id'' = Some (JStr (pf_intent_id pf))"
      "map_of (pf_intent pf) ''intent_digest'' = Some (JStr (pf_intent_digest pf))"
      "map_of (pf_intent pf) ''operation'' = Some (JStr op)" "pf_operation pf = JStr op" "op \<noteq> []"
    and names: "pf_intent_id pf \<noteq> []" "pf_intent_digest pf \<noteq> []" "subject_id (pf_subject pf) \<noteq> []"
      "ge_execution_id env \<noteq> []" "now \<noteq> []"
    and retry: "ad_retry_of ad = JNull \<or> (\<exists>s. ad_retry_of ad = JStr s \<and> s \<noteq> [])"
  shows "\<exists>d. validate_snapshot_schema (to_dict (admitted_record (commit_request pf env ad) now)) = Inr d"
proof -
  let ?r = "admitted_record (commit_request pf env ad) now"
  obtain x s where doc: "ad_document ad = admission_skeleton svc g pf grants env x @
           [(''admission_digest'', JStr (ad_digest ad)),
            (''authenticator'', JObj (authenticator g @ [(''signature'', JStr s)]))]"
    using prep by (rule prepare_admission_facts)
  have sub: "obj_get (ad_document ad) ''authenticated_subject'' = subject_to_dict (pf_subject pf)"
    by (simp add: doc skeleton_get)
  have linked: "linked_field_ok (ad_document ad) ''intent_id'' (JStr (pf_intent_id pf))"
    "linked_field_ok (ad_document ad) ''intent_digest'' (JStr (pf_intent_digest pf))"
    "linked_field_ok (ad_document ad) ''execution_id'' (JStr (ge_execution_id env))"
    by (simp_all add: linked_field_ok_def doc admission_skeleton_def)
  have same: "linked_field_ok (pf_intent pf) ''intent_id'' (JStr (pf_intent_id pf))"
    "linked_field_ok (pf_intent pf) ''intent_digest'' (JStr (pf_intent_digest pf))"
    "linked_field_ok (pf_intent pf) ''operation'' (JStr op)"
    using fields by (simp_all add: linked_field_ok_def)
  have owner: "linked_field_ok [(''subject_id'', JStr (subject_id (pf_subject pf))),
      (''authenticated_via'', JStr (authenticated_via (pf_subject pf))),
      (''effective_roles'', JArr (map JStr (effective_roles (pf_subject pf))))]
      ''subject_id'' (JStr (subject_id (pf_subject pf)))"
    by (simp add: linked_field_ok_def)
  have "snapshot_fields_check (obj_get (obj_fields (to_dict ?r))) = Inr ()"
    using names retry linked same owner fields(4,5)
    by (auto simp: snapshot_fields_check_def to_dict_get admitted_record_def commit_request_def
        require_nonempty_string_def sub subject_to_dict_def KNOWN_STATUSES_def NONTERMINAL_STATUSES_def)
  moreover have "set (map fst (obj_fields (to_dict ?r))) \<subseteq> set LEDGER_FIELDS \<and>
      set REQUIRED_LEDGER_FIELDS \<subseteq> set (map fst (obj_fields (to_dict ?r)))"
    by (simp add: to_dict_def LEDGER_FIELDS_def REQUIRED_LEDGER_FIELDS_def)
  ultimately show ?thesis
    by (subst to_dict_JObj) (simp add: validate_snapshot_schema_def exn_simps)
qed

lemma prepared_commit_accepted:
  assumes "validate_snapshot_schema (to_dict (admitted_record (commit_request pf env ad) now)) = Inr d"
    and "lg_poisoned_reason l = None"
    and "map_of (lg_reservations l) (pf_intent_id pf) = Some res"
    and "res_intent_digest res = pf_intent_digest pf"
    and "res_caller_subject_id res = subject_id (pf_subject pf)"
    and "map_of (lg_by_intent_id l) (pf_intent_id pf) = None"
  shows "commit_checks svc (commit_request pf env ad) now l = Inr (admitted_record (commit_request pf env ad) now)"
proof -
  have "validate_terminal_invariants svc (admitted_record (commit_request pf env ad) now) None = Inr ()"
    by (simp add: validate_terminal_invariants_def admitted_record_def commit_request_def
        NONTERMINAL_STATUSES_def)
  with assms show ?thesis
    by (simp add: commit_checks_def Let_def raise_if_poisoned_def commit_request_def)
qed

end
