(* ===== verification/Gate_Samples.thy ===== *)
theory Gate_Samples
  imports Gate_Outcomes Samples
begin

text \<open>
  A concrete gate and a concrete call, used to apply the theorems about the gate: the frozen
  workload is submitted by a configured operator to a gate with the in-process port, with a digest
  and a signature function that return fixed text.
\<close>

text \<open>A date format that reads back what it writes: the two numbers of an instant.\<close>

fun stamp_text :: "instant \<Rightarrow> string" where
  "stamp_text (Aware t z) = int_text t @ ''|'' @ int_text z"
| "stamp_text (Naive t) = int_text t"

definition parse_stamp :: "string \<Rightarrow> instant option" where
  "parse_stamp s =
     (let (a, found, b) = partition_at (CHR ''|'') s
      in if found then Some (Aware (text_int a) (text_int b)) else None)"

lemma int_text_chars: "c \<in> set (int_text i) \<Longrightarrow> is_digit c \<or> c = CHR ''-''"
  using nat_text_digits by (auto simp: int_text_def list_all_iff split: if_splits)

lemma text_int_int_text: "text_int (int_text i) = i"
proof (cases "i < 0")
  case True
  then show ?thesis by (simp add: int_text_def text_int_def text_nat_nat_text)
next
  case False
  obtain c cs where c: "nat_text (nat i) = c # cs" using nat_text_nonempty by (cases "nat_text (nat i)") auto
  then have "is_digit c" using nat_text_digits [of "nat i"] by simp
  then have "c \<noteq> CHR ''-''" "c \<noteq> CHR ''+''" by (auto simp: is_digit_def)
  with False c text_nat_nat_text [of "nat i"] show ?thesis by (simp add: int_text_def text_int_def)
qed

lemma partition_at_found: "c \<notin> set a \<Longrightarrow> partition_at c (a @ c # b) = (a, True, b)"
  by (induction a) auto

lemma replace_z_same: "CHR ''Z'' \<notin> set s \<Longrightarrow> replace_z s = s"
  by (induction s) (auto simp: replace_z_def)

lemma parse_stamp_text: "parse_stamp (replace_z (stamp_text (Aware t z))) = Some (Aware t z)"
proof -
  have "CHR ''Z'' \<notin> set (int_text i)" "CHR ''|'' \<notin> set (int_text i)" for i
    using int_text_chars [of "CHR ''Z''" i] int_text_chars [of "CHR ''|''" i] by (auto simp: is_digit_def)
  then show ?thesis by (simp add: replace_z_same parse_stamp_def partition_at_found text_int_int_text)
qed

lemma stamp_text_nonempty: "stamp_text (Aware t z) \<noteq> []"
  by simp

definition zeros :: string where
  "zeros = replicate 64 (CHR ''0'')"

definition gate_services :: services where
  "gate_services = \<lparr>svc_sha = (\<lambda>s. zeros), svc_schema = (\<lambda>a d. True), svc_loads = (\<lambda>s. None),
     svc_fromiso = parse_stamp, svc_isoformat = stamp_text\<rparr>"

definition sample_workload :: "(string \<times> json) list" where
  "sample_workload =
     [(''catalog_backend_ref'', JStr FROZEN_CATALOG_REF),
      (''model_plugin_id'', JStr ''tabular-10gene-phenotype-v1''),
      (''dataset_id'', JStr ''synthetic-10gene-cohort-v1''),
      (''requested_scope'', JStr ''PLUGIN_BOUNDARY'')]"

definition sample_intent :: "(string \<times> json) list" where
  "sample_intent =
     [(''intent_id'', JStr ''i-1''), (''intent_digest'', JStr (''sha256:'' @ zeros)),
      (''operation'', JStr ''TRAIN_TICKET''), (''workload'', JObj sample_workload),
      (''expires_at'', JStr (stamp_text (Aware 9000000000 0)))]"

definition sample_subject :: subject where
  "sample_subject =
     \<lparr>subject_id = ''alice'', authenticated_via = ''TOKEN'', effective_roles = [''OPERATOR'']\<rparr>"

definition sample_gate :: gate where
  "sample_gate =
     \<lparr>g_max_bytes = MAX_INGRESS_BYTES,
      g_authenticate = hashed_authenticate (\<lambda>s. s) [(''tok'', sample_subject)],
      g_catalog = init_catalog FROZEN_CATALOG_REF None None None, g_quota = default_quota_manager,
      g_identity = \<lparr>si_sign = (\<lambda>p. ''00''), si_key_id = ''k'', si_issuer_id = ''issuer''\<rparr>,
      g_controller_commit = replicate 40 (CHR ''c''), g_policy_version = ''v1'',
      g_admission_ttl_seconds = 300, g_redact_text = (\<lambda>s. s)\<rparr>"

definition sample_credentials :: json where
  "sample_credentials = JObj [(''type'', JStr ''TOKEN''), (''token'', JStr ''tok'')]"

definition sample_env :: "'p gate_env" where
  "sample_env =
     \<lparr>ge_now = Aware 1000000 0, ge_schedule = [], ge_admission_id = ''a-1'', ge_execution_id = ''e-1'',
      ge_clock = (\<lambda>n. ''t1''), ge_append = (\<lambda>n. Appended), ge_message = ''failed'',
      ge_others = (\<lambda>n w. w)\<rparr>"

definition sample_world :: "json list world" where
  "sample_world = \<lparr>w_ledger = sample_start, w_port = [], w_audit = []\<rparr>"

definition sample_preflight :: preflight where
  "sample_preflight =
     \<lparr>pf_intent = sample_intent, pf_intent_id = ''i-1'', pf_intent_digest = ''sha256:'' @ zeros,
      pf_subject = sample_subject, pf_workload = JObj sample_workload,
      pf_operation = JStr ''TRAIN_TICKET''\<rparr>"

lemma sample_intent_parsed:
  "parse_intent gate_services MAX_INGRESS_BYTES (RawDict sample_intent) (Aware 1000000 0) = Inr sample_intent"
proof -
  have "check_depth (JObj sample_intent) 1 = Inr ()"
    unfolding check_depth_iff by (simp add: sample_intent_def sample_workload_def MAX_JSON_DEPTH_def)
  moreover have "schema_validate gate_services ''execution-intent'' (JObj sample_intent) = Inr ()"
    by (simp add: schema_validate_def SCHEMA_FILES_def gate_services_def)
  moreover have "compute_intent_digest (svc_sha gate_services) sample_intent = Inr (''sha256:'' @ zeros)"
    by (simp add: compute_intent_digest_def canonicalize_jcs_eq sample_intent_def sample_workload_def
        gate_services_def sha256_digest_def del: stamp_text.simps)
  ultimately show ?thesis
    using parse_stamp_text [of 9000000000 0]
    by (simp add: parse_intent_def decode_input_def check_expiry_def sample_intent_def obj_get_def
        gate_services_def del: stamp_text.simps)
qed

lemma sample_catalog_accepts:
  "catalog_validate (init_catalog FROZEN_CATALOG_REF None None None) (JObj sample_workload)
     (JStr ''TRAIN_TICKET'') = Inr ()"
  by (simp add: catalog_validate_def init_catalog_def sample_workload_def DEFAULT_KNOWN_PLUGINS_def
      DEFAULT_KNOWN_DATASETS_def ALLOWED_CAPABILITY_MATRIX_def obj_get_def)

lemma sample_admit_preflight:
  "admit_preflight gate_services sample_gate (RawDict sample_intent) sample_credentials (Aware 1000000 0)
     = Inr sample_preflight"
proof -
  have "g_authenticate sample_gate sample_credentials = Inr sample_subject"
    by (simp add: sample_gate_def hashed_authenticate_def sample_credentials_def obj_get_def)
  moreover have "evaluate_admission sample_subject sample_intent = Inr ()"
    by (simp add: evaluate_admission_def sample_subject_def sample_intent_def obj_get_def
        REQUIRED_ROLES_BY_OPERATION_def)
  ultimately show ?thesis
    using sample_intent_parsed sample_catalog_accepts
    by (simp add: admit_preflight_def sample_gate_def sample_preflight_def)
       (simp add: sample_intent_def)
qed

definition sample_grants :: resource_grants where
  "sample_grants = \<lparr>max_memory_bytes = 2147483648, timeout_seconds = JInt 900, allow_downloads = False\<rparr>"

definition sample_document :: "(string \<times> json) list" where
  "sample_document =
     admission_skeleton gate_services sample_gate sample_preflight sample_grants
        (sample_env :: json list gate_env) (Aware 301000000 0) @
     [(''admission_digest'', JStr (''sha256:'' @ zeros)),
      (''authenticator'', JObj (authenticator sample_gate @ [(''signature'', JStr ''00'')]))]"

definition sample_prepared :: admission where
  "sample_prepared =
     \<lparr>ad_document = sample_document, ad_digest = ''sha256:'' @ zeros,
      ad_bundle = JObj [(''schema_version'', JStr ''1.0.0''), (''intent'', JObj sample_intent),
                        (''admission'', JObj sample_document)],
      ad_retry_of = JNull\<rparr>"

lemma skeleton_float_free: "float_free (JObj (admission_skeleton svc g pf sample_grants env x))"
  by (simp add: admission_skeleton_def sample_grants_def subject_to_dict_def grants_to_dict_def list_all_iff)

lemma sample_prepare:
  "prepare_admission gate_services sample_gate sample_preflight sample_grants
     (sample_env :: json list gate_env) = Inr sample_prepared"
proof -
  let ?env = "sample_env :: json list gate_env"
  let ?s = "admission_skeleton gate_services sample_gate sample_preflight sample_grants ?env (Aware 301000000 0)"
  have fin: "json_finite (JObj ?s)" by (rule float_free_finite [OF skeleton_float_free])
  have expiry: "admission_expiry gate_services sample_gate sample_intent (ge_now ?env) = Inr (Aware 301000000 0)"
    using parse_stamp_text [of 9000000000 0]
    by (simp add: admission_expiry_def sample_intent_def gate_services_def sample_env_def sample_gate_def
        del: stamp_text.simps)
  have digest: "compute_admission_digest (svc_sha gate_services) ?s = Inr (''sha256:'' @ zeros)"
    using fin by (simp add: compute_admission_digest_def canonicalize_jcs_eq sha256_digest_def
        gate_services_def admission_skeleton_def)
  have signature: "sign_admission (si_sign (g_identity sample_gate)) (?s @
      [(''admission_digest'', JStr (''sha256:'' @ zeros)), (''authenticator'', JObj (authenticator sample_gate))])
      = Inr ''00''"
    using fin by (simp add: sign_admission_def get_admission_signing_payload_def skeleton_get
        update_authenticator authenticator_signature canonicalize_jcs_eq sample_gate_def)
       (simp add: authenticator_def)
  have valid: "schema_validate gate_services ''admission-record'' v = Inr ()"
    "schema_validate gate_services ''authorized-execution'' v = Inr ()" for v
    by (simp_all add: schema_validate_def SCHEMA_FILES_def gate_services_def)
  have "obj_get_default sample_intent ''execution_constraints'' (JObj []) = JObj []"
    by (simp add: obj_get_default_def sample_intent_def)
  moreover have "obj_get [] ''retry_of_intent_id'' = JNull" by (simp add: obj_get_def)
  moreover have "pf_intent sample_preflight = sample_intent" by (simp add: sample_preflight_def)
  ultimately show ?thesis
    using expiry digest signature valid
    by (simp add: prepare_admission_def Let_def sample_prepared_def sample_document_def)
qed

definition sample_record :: ledger_record where
  "sample_record =
     admitted_record (commit_request sample_preflight (sample_env :: json list gate_env) sample_prepared) ''t1''"

definition sample_acquired :: ledger where
  "sample_acquired =
     snd (acquire_pass ''i-1'' (''sha256:'' @ zeros) ''alice'' ''t1'' False sample_start)"

definition sample_committed :: "json list world" where
  "sample_committed = sample_world\<lparr>w_ledger := sample_acquired\<lparr>lg_by_intent_id := [(''i-1'', sample_record)],
     lg_by_digest := [(''sha256:'' @ zeros, ''i-1'')], lg_by_execution_id := [(''e-1'', ''i-1'')],
     lg_reservations := [], lg_log := [Snapshot (to_dict sample_record)]\<rparr>\<rparr>"

lemma sample_acquire:
  "acquire_pass ''i-1'' (''sha256:'' @ zeros) ''alice'' ''t1'' False sample_start = (Inr Reserved, sample_acquired)"
  "lg_poisoned_reason sample_acquired = None" "lg_by_intent_id sample_acquired = []"
  "map_of (lg_reservations sample_acquired) ''i-1'' = Some
     \<lparr>res_intent_id = ''i-1'', res_intent_digest = ''sha256:'' @ zeros, res_caller_subject_id = ''alice'',
      res_created_at = ''t1'', res_failed = False\<rparr>"
  by (simp_all add: sample_acquired_def acquire_pass_def sample_start_def empty_ledger_def raise_if_poisoned_def)

lemma sample_snapshot: "\<exists>d. validate_snapshot_schema (to_dict sample_record) = Inr d"
  unfolding sample_record_def
proof (rule prepared_snapshot [OF sample_prepare])
  show "map_of (pf_intent sample_preflight) ''intent_id'' = Some (JStr (pf_intent_id sample_preflight))"
    "map_of (pf_intent sample_preflight) ''intent_digest'' = Some (JStr (pf_intent_digest sample_preflight))"
    "map_of (pf_intent sample_preflight) ''operation'' = Some (JStr ''TRAIN_TICKET'')"
    "pf_operation sample_preflight = JStr ''TRAIN_TICKET''"
    by (simp_all add: sample_preflight_def sample_intent_def)
qed (simp_all add: sample_preflight_def sample_subject_def sample_env_def sample_prepared_def)

lemma sample_commit_gate:
  "commit_admission gate_services
     (commit_request sample_preflight (sample_env :: json list gate_env) sample_prepared) ''t1''
     Appended sample_acquired = (Inr sample_record, w_ledger sample_committed)"
proof -
  obtain d where d: "validate_snapshot_schema (to_dict sample_record) = Inr d" using sample_snapshot ..
  have "commit_checks gate_services
      (commit_request sample_preflight (sample_env :: json list gate_env) sample_prepared) ''t1'' sample_acquired
      = Inr sample_record"
    unfolding sample_record_def
    by (rule prepared_commit_accepted [OF d [unfolded sample_record_def], where res =
          "\<lparr>res_intent_id = ''i-1'', res_intent_digest = ''sha256:'' @ zeros, res_caller_subject_id = ''alice'',
            res_created_at = ''t1'', res_failed = False\<rparr>"])
       (simp_all add: sample_acquire sample_preflight_def sample_subject_def)
  then show ?thesis
    by (simp add: commit_admission_def persist_or_poison_def sample_acquire sample_committed_def
        sample_acquired_def acquire_pass_def sample_start_def empty_ledger_def raise_if_poisoned_def
        commit_request_def sample_preflight_def sample_env_def)
qed

lemma sample_env_fields [simp]:
  "ge_others sample_env n w = w" "ge_schedule sample_env = []" "ge_now sample_env = Aware 1000000 0"
  "ge_clock sample_env n = ''t1''" "ge_append sample_env n = Appended"
  "ge_execution_id sample_env = ''e-1''" "ge_admission_id sample_env = ''a-1''"
  by (simp_all add: sample_env_def)

lemma sample_reserve_and_commit:
  "reserve_and_commit gate_services sample_gate (mock_port gate_services False) sample_env sample_preflight
     (sample_world\<lparr>w_ledger := sample_acquired\<rparr>) = (Inr sample_prepared, sample_committed)"
proof -
  have "active_count (Some ''i-1'') sample_acquired = Inr 0"
    by (simp add: active_count_def nonterminal_count_def sample_acquired_def acquire_pass_def sample_start_def
        empty_ledger_def raise_if_poisoned_def)
  moreover have "evaluate_grants (g_quota sample_gate) sample_intent 0 = Inr sample_grants"
    by (simp add: evaluate_grants_def sample_gate_def default_quota_manager_def
        CEILING_MAX_MEMORY_BYTES_def obj_get_default_def obj_get_def sample_intent_def sample_grants_def)
  moreover have "dp_reserve_capacity (mock_port gate_services False) i p = (Inr (), p)" for i p
    by (simp add: mock_port_def)
  moreover have "pf_intent sample_preflight = sample_intent" "pf_intent_id sample_preflight = ''i-1''"
    by (simp_all add: sample_preflight_def)
  ultimately show ?thesis
    using sample_prepare sample_commit_gate
    by (simp add: reserve_and_commit_def Let_def sample_committed_def)
qed

lemma sample_admit:
  "admit_and_dispatch gate_services sample_gate (mock_port gate_services False) sample_env
     (RawDict sample_intent) sample_credentials sample_world
   = Some (case dispatch_admitted gate_services sample_gate (mock_port gate_services False) sample_env
             sample_preflight sample_prepared sample_committed of
             (Inl e, w2) \<Rightarrow> (Inl e, w2)
           | (Inr result, w2) \<Rightarrow>
               finish_admission gate_services sample_gate sample_env sample_preflight sample_prepared result w2)"
proof -
  have "acquire_or_check (pf_intent_id sample_preflight) (pf_intent_digest sample_preflight)
      (subject_id (pf_subject sample_preflight)) ''t1'' [] (w_ledger sample_world)
      = Some (Inr None, sample_acquired)"
    using sample_acquire(1) by (simp add: sample_preflight_def sample_subject_def sample_world_def)
  with sample_admit_preflight sample_reserve_and_commit show ?thesis
    by (simp add: admit_and_dispatch_def Let_def)
qed

end
