(* ===== verification/Integrated_Port.thy ===== *)
theory Integrated_Port
  imports Worker_Dispatch Gate_Props
begin

text \<open>
  \<open>IntegratedWorkerDispatchPort\<close> of \<open>deltacontroller/dispatch.py\<close>: the controller runs the worker's
  preflight and dispatcher in its own process. The state of the port is its dispatch counter.
  After the preflight every exception becomes a result document, so that the gate always has an
  outcome to store. The port satisfies \<open>dispatch_port_contract\<close>.
\<close>

definition PREFLIGHT_ERROR_METADATA :: "(string \<times> string \<times> bool) list" where
  "PREFLIGHT_ERROR_METADATA =
     [(''ERR_SCHEMA_VALIDATION_FAILED'', ''SCHEMA'', False),
      (''ERR_INTENT_DIGEST_MISMATCH'', ''DIGEST'', False),
      (''ERR_ADMISSION_DIGEST_MISMATCH'', ''DIGEST'', False),
      (''ERR_ADMISSION_SIGNATURE_INVALID'', ''WORKER'', False),
      (''ERR_ADMISSION_EXPIRED'', ''AUTHZ'', False),
      (''ERR_OPERATION_SCOPE_UNSUPPORTED'', ''CATALOG'', False),
      (''ERR_AUTHORIZED_EXECUTION_PARITY_MISMATCH'', ''LINEAGE'', False),
      (''ERR_STAGE_C_FORBIDDEN'', ''CONSENSUS_BOUNDARY'', False)]"

record ('s, 'm, 't) integrated_config =
  ic_services :: worker_services
  ic_preflight :: preflight_validator
  ic_dispatcher :: dispatcher
  ic_dispatch_env :: "('s, 'm, 't) dispatch_env"
  ic_clock :: instant
  ic_producer_commit :: string
  ic_message :: string

definition init_integrated ::
  "worker_services \<Rightarrow> preflight_validator \<Rightarrow> dispatcher option \<Rightarrow> ('s, 'm, 't) dispatch_env \<Rightarrow> instant \<Rightarrow>
   string option \<Rightarrow> string \<Rightarrow> ('s, 'm, 't) integrated_config result" where
  "init_integrated ws pv given dv clock producer_commit message =
     (case producer_commit of
        None \<Rightarrow> Inl ValueError
      | Some commit \<Rightarrow>
          bindE (ensure (fullmatch_hex 40 commit) ValueError) (\<lambda>_.
          bindE (case given of Some di \<Rightarrow> Inr di | None \<Rightarrow> init_dispatcher (Some commit) None) (\<lambda>di.
          Inr \<lparr>ic_services = ws, ic_preflight = pv, ic_dispatcher = di, ic_dispatch_env = dv,
               ic_clock = clock, ic_producer_commit = commit, ic_message = message\<rparr>)))"

definition integrated_error ::
  "json \<Rightarrow> string \<Rightarrow> string \<Rightarrow> bool \<Rightarrow> string \<Rightarrow> bool \<Rightarrow> string \<Rightarrow> json result" where
  "integrated_error bundle code category retryable message dispatched status =
     bindE (sub_item bundle ''admission'' ''execution_id'') (\<lambda>execution_id.
     bindE (sub_item bundle ''intent'' ''intent_id'') (\<lambda>intent_id.
     Inr (JObj [(''dispatched'', JBool dispatched), (''execution_id'', execution_id),
                (''intent_id'', intent_id), (''status'', JStr status),
                (''error'', JObj [(''schema_version'', JStr ''1.0.0''), (''error_code'', JStr code),
                                  (''category'', JStr category), (''retryable'', JBool retryable),
                                  (''message'', JStr message)]),
                (''receipt'', JNull)])))"

text \<open>A worker error whose code is not in the table is reported as a dispatch failure.\<close>

definition known_error :: "string \<Rightarrow> string \<times> string \<times> bool" where
  "known_error code =
     (let known = (if map_of PREFLIGHT_ERROR_METADATA code \<noteq> None then code
                   else ''ERR_WORKER_DISPATCH_FAILED'')
      in (known, case map_of PREFLIGHT_ERROR_METADATA known of
                   Some m \<Rightarrow> m | None \<Rightarrow> (''DISPATCH'', True)))"

definition report_known ::
  "json \<Rightarrow> string \<Rightarrow> string \<Rightarrow> bool \<Rightarrow> json result" where
  "report_known bundle code message dispatched =
     (let (known, category, retryable) = known_error code
      in integrated_error bundle known category retryable message dispatched ''FAILED'')"

definition lineage_matches :: "('s, 'm, 't) integrated_config \<Rightarrow> preflight_context \<Rightarrow> json \<Rightarrow> bool result" where
  "lineage_matches ic ctx receipt =
     bindE (dict_get_default receipt ''provenance'' (JObj [])) (\<lambda>provenance.
     bindE (mapE (\<lambda>(k, v). bindE (dict_get provenance k) (\<lambda>w. Inr (py_eq w v)))
        [(''intent_id'', pc_intent_id ctx), (''intent_digest'', pc_intent_digest ctx),
         (''admission_id'', pc_admission_id ctx), (''admission_digest'', pc_admission_digest ctx),
         (''execution_id'', pc_execution_id ctx), (''producer_commit'', JStr (ic_producer_commit ic))])
       (\<lambda>bs. Inr (list_all id bs)))"

text \<open>The part of the \<open>try\<close> block that follows the worker's answer.\<close>

definition integrated_result ::
  "services \<Rightarrow> ('s, 'm, 't) integrated_config \<Rightarrow> json \<Rightarrow> preflight_context \<Rightarrow> json \<Rightarrow> json result" where
  "integrated_result svc ic bundle ctx worker_result =
     bindE (dict_get worker_result ''execution_id'') (\<lambda>execution_id.
     if \<not> py_eq execution_id (pc_execution_id ctx)
     then integrated_error bundle ''ERR_RECEIPT_LINEAGE_MISMATCH'' ''LINEAGE'' False
            ''Worker result execution_id does not match AuthorizedExecution'' True ''FAILED''
     else
     bindE (dict_get worker_result ''operation'') (\<lambda>operation.
     if \<not> py_eq operation (JStr (pc_operation ctx))
     then integrated_error bundle ''ERR_RECEIPT_LINEAGE_MISMATCH'' ''LINEAGE'' False
            ''Worker result operation does not match AuthorizedExecution'' True ''FAILED''
     else
     bindE (dict_get worker_result ''status'') (\<lambda>status.
     if \<not> py_eq status (JStr ''COMPLETED'')
     then integrated_error bundle ''ERR_WORKER_DISPATCH_FAILED'' ''DISPATCH'' True
            ''Worker returned a missing or unsupported status'' True ''FAILED''
     else
     bindE (dict_get worker_result ''receipt'') (\<lambda>receipt.
     bindE (if receipt = JNull then Inr True
            else bindE (schema_validate svc ''receipt-lineage'' receipt) (\<lambda>_. lineage_matches ic ctx receipt))
       (\<lambda>matches.
     if \<not> matches
     then integrated_error bundle ''ERR_RECEIPT_LINEAGE_MISMATCH'' ''LINEAGE'' False
            ''Worker receipt provenance does not match AuthorizedExecution'' True ''FAILED''
     else
     bindE (if receipt = JNull then Inr JNull
            else bindE (canonicalize_jcs receipt) (\<lambda>b. Inr (JStr (sha256_digest (svc_sha svc) b))))
       (\<lambda>receipt_digest.
     bindE (dict_get worker_result ''metrics'') (\<lambda>metrics.
     bindE (dict_get worker_result ''materialize_info'') (\<lambda>info.
     Inr (JObj [(''dispatched'', JBool True), (''execution_id'', pc_execution_id ctx),
                (''intent_id'', pc_intent_id ctx), (''operation'', JStr (pc_operation ctx)),
                (''status'', status), (''receipt'', receipt), (''receipt_digest'', receipt_digest),
                (''metrics'', metrics), (''materialize_info'', info)])))))))))"

text \<open>The handlers. \<open>ic_message\<close> is the message of the exception, cut to 512 characters.\<close>

definition integrated_handle ::
  "('s, 'm, 't) integrated_config \<Rightarrow> json \<Rightarrow> json result \<Rightarrow> json result" where
  "integrated_handle ic bundle r =
     (case r of
        Inr result \<Rightarrow> Inr result
      | Inl (WorkerAdapterError TimeoutKind code category retryable) \<Rightarrow>
          integrated_error bundle code category retryable (ic_message ic) True ''TIMED_OUT''
      | Inl (WorkerAdapterError CancelledKind code category retryable) \<Rightarrow>
          integrated_error bundle code category True (ic_message ic) True ''CANCELLED''
      | Inl (WorkerAdapterError kind code category retryable) \<Rightarrow>
          report_known bundle code (ic_message ic) True
      | Inl e \<Rightarrow>
          integrated_error bundle ''ERR_WORKER_DISPATCH_FAILED'' ''DISPATCH'' True (ic_message ic) True
            ''FAILED'')"

definition integrated_execute ::
  "services \<Rightarrow> ('s, 'm, 't) integrated_config \<Rightarrow> json \<Rightarrow> preflight_context \<Rightarrow> json result" where
  "integrated_execute svc ic bundle ctx =
     integrated_handle ic bundle
       (bindE (worker_dispatch (ic_services ic) (ic_dispatch_env ic) (ic_dispatcher ic)
                 (Some (ic_producer_commit ic)) ctx)
          (integrated_result svc ic bundle ctx))"

definition integrated_dispatch ::
  "services \<Rightarrow> ('s, 'm, 't) integrated_config \<Rightarrow> json \<Rightarrow> nat world \<Rightarrow> json result \<times> nat world" where
  "integrated_dispatch svc ic bundle w =
     (case schema_validate svc ''authorized-execution'' bundle of
        Inl e \<Rightarrow> (Inl WorkerDispatchFailedError, w)
      | Inr _ \<Rightarrow>
          (case preflight_validate (ic_services ic) (ic_preflight ic) bundle (ic_clock ic) of
             Inl (WorkerAdapterError PreflightKind code category retryable) \<Rightarrow>
               (report_known bundle code (ic_message ic) False, w)
           | Inl e \<Rightarrow> (Inl e, w)
           | Inr ctx \<Rightarrow> (integrated_execute svc ic bundle ctx, w\<lparr>w_port := Suc (w_port w)\<rparr>)))"

definition integrated_port :: "services \<Rightarrow> ('s, 'm, 't) integrated_config \<Rightarrow> nat dispatch_port" where
  "integrated_port svc ic =
     \<lparr>dp_reserve_capacity = (\<lambda>i p. (Inr (), p)), dp_release_capacity = (\<lambda>i p. p),
      dp_dispatch = integrated_dispatch svc ic\<rparr>"

section \<open>The contract\<close>

lemma integrated_dispatch_world:
  "integrated_dispatch svc ic bundle w = (r, w') \<Longrightarrow> w_ledger w' = w_ledger w \<and> w_audit w' = w_audit w"
  by (auto simp: integrated_dispatch_def split: sum.splits exn.splits worker_error_kind.splits)

text \<open>An error document is finite; a result without one has none.\<close>

definition good_answer :: "json result \<Rightarrow> bool" where
  "good_answer r \<longleftrightarrow> (\<forall>kvs. r = Inr (JObj kvs) \<longrightarrow> json_finite (obj_get kvs ''error''))"

lemma good_answer_Inl [simp]: "good_answer (Inl e)"
  by (simp add: good_answer_def)

lemma integrated_error_good [simp]: "good_answer (integrated_error b c k r m d s)"
  by (auto simp: good_answer_def integrated_error_def bindE_eq_Inr obj_get_def)

lemma report_known_good [simp]: "good_answer (report_known b c m d)"
  by (simp add: report_known_def split: prod.splits)

lemma bindE_good: "(\<And>x. m = Inr x \<Longrightarrow> good_answer (f x)) \<Longrightarrow> good_answer (bindE m f)"
  by (cases m) auto

lemma if_good: "(b \<Longrightarrow> good_answer x) \<Longrightarrow> (\<not> b \<Longrightarrow> good_answer y) \<Longrightarrow> good_answer (if b then x else y)"
  by simp

lemma good_answer_doc: "good_answer (Inr (JObj kvs)) \<longleftrightarrow> json_finite (obj_get kvs ''error'')"
  by (simp add: good_answer_def)

lemma integrated_result_good: "good_answer (integrated_result svc ic bundle ctx wr)"
  unfolding integrated_result_def
  by (intro bindE_good if_good) (simp_all add: good_answer_doc obj_get_def)

lemma integrated_handle_good: "good_answer r \<Longrightarrow> good_answer (integrated_handle ic bundle r)"
  by (auto simp add: integrated_handle_def split: sum.splits exn.splits worker_error_kind.splits)

lemma integrated_execute_good: "good_answer (integrated_execute svc ic bundle ctx)"
  unfolding integrated_execute_def by (intro integrated_handle_good bindE_good integrated_result_good)

lemma integrated_dispatch_good: "integrated_dispatch svc ic bundle w = (r, w') \<Longrightarrow> good_answer r"
  using integrated_execute_good
  by (auto simp: integrated_dispatch_def split: sum.splits exn.splits worker_error_kind.splits)

interpretation integrated: dispatch_port_contract svc "integrated_port svc ic" "\<lambda>_. True" for svc ic
proof
  show "(ledger_step svc)\<^sup>*\<^sup>* (w_ledger w) (w_ledger w')"
    if "dp_dispatch (integrated_port svc ic) b w = (r, w')" for b w r w'
    using that integrated_dispatch_world [of svc ic b w r w'] by (simp add: integrated_port_def)
  show "json_finite (obj_get r ''error'')"
    if "dp_dispatch (integrated_port svc ic) b w = (Inr (JObj r), w')" for b w r w'
    using that integrated_dispatch_good [of svc ic b w "Inr (JObj r)"]
    by (auto simp: integrated_port_def good_answer_def)
qed (auto simp: integrated_port_def)

end
