(* ===== verification/Gate_Theorems.thy ===== *)
theory Gate_Theorems
  imports Gate_Samples Integrated_Port
begin

text \<open>
  The theorems about the authorization gate \<open>deltacontroller/gate.py\<close>, each with an application
  to the sample call.
\<close>

context queue_rely
begin

lemmas queue_admit_steps = queue.admit_steps

end

text \<open>
  C6: Everything the gate does to the ledger is done through the ledger's own operations. Whatever
  the input, the outcome, the failures of the file and the interleaving with the other threads of
  the gate and of the queue, which keep to the same operations, a call of \<open>admit_and_dispatch\<close> on
  the worker queue takes a reachable ledger to a reachable ledger. So every invariant of reachable
  ledgers holds in the running controller.
\<close>

theorem gate_refines_ledger:
  assumes "reachable (ledger_start svc) (ledger_step svc) (w_ledger w)" and "env_rely svc env"
    and "\<And>x n. ledger_inv svc (w_ledger x) \<Longrightarrow>
      (ledger_step svc)\<^sup>*\<^sup>* (w_ledger x) (w_ledger (qe_others qenv n x))"
    and "absent (ge_execution_id env) (w_ledger w)"
    and "\<And>data. decode_input svc (g_max_bytes g) raw = Inr (JObj data) \<Longrightarrow> distinct (map fst data)"
    and "admit_and_dispatch svc g (queue_port svc qenv) env raw credentials w = Some (res, w')"
  shows "reachable (ledger_start svc) (ledger_step svc) (w_ledger w')"
proof -
  have inv: "ledger_inv svc (w_ledger w)" using assms(1) by (rule ledger_history.reachable_inv)
  have "queue_rely svc qenv" by (rule queue_rely.intro) (rule assms(3))
  from queue_rely.queue_admit_steps [OF this assms(2) inv assms(4,5,6)]
  have "(ledger_step svc)\<^sup>*\<^sup>* (w_ledger w) (w_ledger w')" .
  with assms(1) show ?thesis by (rule reachable_steps)
qed

definition idle_queue :: queue where
  "idle_queue = \<lparr>q_producer_commit = replicate 40 (CHR ''a''), q_total = 1, q_capacity = 1, q_jobs = [],
     q_reservations = [], q_accepting = True, q_next_ident = 0\<rparr>"

definition sample_queue_env :: queue_env where
  "sample_queue_env = \<lparr>qe_submit_ok = True, qe_clock = (\<lambda>n. ''t1''), qe_append = (\<lambda>n. Appended),
     qe_others = (\<lambda>n w. w)\<rparr>"

theorem gate_refines_ledger_witness:
  "\<exists>res w'. admit_and_dispatch gate_services sample_gate (queue_port gate_services sample_queue_env) sample_env
      (RawDict sample_intent) sample_credentials
      \<lparr>w_ledger = sample_start, w_port = idle_queue, w_audit = []\<rparr> = Some (res, w') \<and>
    reachable (ledger_start gate_services) (ledger_step gate_services) (w_ledger w')"
proof -
  let ?w = "\<lparr>w_ledger = sample_start, w_port = idle_queue, w_audit = []\<rparr>"
  have "acquire_or_check (pf_intent_id sample_preflight) (pf_intent_digest sample_preflight)
      (subject_id (pf_subject sample_preflight)) ''t1'' [] sample_start = Some (Inr None, sample_acquired)"
    using sample_acquire(1) by (simp add: sample_preflight_def sample_subject_def)
  with sample_admit_preflight
  have "admit_and_dispatch gate_services sample_gate (queue_port gate_services sample_queue_env) sample_env
      (RawDict sample_intent) sample_credentials ?w \<noteq> None"
    by (simp add: admit_and_dispatch_def Let_def)
  then obtain res w' where a: "admit_and_dispatch gate_services sample_gate
      (queue_port gate_services sample_queue_env) sample_env
      (RawDict sample_intent) sample_credentials ?w = Some (res, w')"
    by (auto simp del: not_None_eq simp: not_None_eq)
  have rely: "env_rely gate_services (sample_env :: queue gate_env)" by (simp add: env_rely_def)
  have "reachable (ledger_start gate_services) (ledger_step gate_services) (w_ledger w')"
    by (rule gate_refines_ledger [OF _ rely _ _ _ a])
       (use sample_start_reachable in \<open>auto simp: absent_def sample_start_def sample_queue_env_def
          empty_ledger_def decode_input_def sample_intent_def\<close>)
  with a show ?thesis by blast
qed


definition full_queue :: queue where
  "full_queue = \<lparr>q_producer_commit = replicate 40 (CHR ''a''), q_total = 1, q_capacity = 0, q_jobs = [],
     q_reservations = [''i-0''], q_accepting = True, q_next_ident = 0\<rparr>"


section \<open>Dispatch\<close>

definition port_still :: "'p gate_env \<Rightarrow> bool" where
  "port_still env \<longleftrightarrow> (\<forall>n w. w_port (ge_others env n w) = w_port w)"

lemma mock_dispatch_port:
  "mock_dispatch svc auto b w = (r, w') \<Longrightarrow> w_port w' = w_port w \<or> w_port w' = w_port w @ [b]"
  by (auto simp: mock_dispatch_def split: sum.splits)

lemma mock_release [simp]: "dp_release_capacity (mock_port svc auto) i p = p"
  by (simp add: mock_port_def)

lemma mock_admitted_port:
  assumes "port_still env" and "dispatch_admitted svc g (mock_port svc auto) env pf ad w1 = (r, w2)"
  shows "w_port w2 = w_port (snd (mock_dispatch svc auto (ad_bundle ad) (ge_others env 5 w1)))"
proof -
  have still: "w_port (ge_others env n x) = w_port x" for n x using assms(1) by (simp add: port_still_def)
  obtain a w0 where m: "mock_dispatch svc auto (ad_bundle ad) (ge_others env 5 w1) = (a, w0)"
    by (cases "mock_dispatch svc auto (ad_bundle ad) (ge_others env 5 w1)")
  then have dp: "dp_dispatch (mock_port svc auto) (ad_bundle ad) (ge_others env 5 w1) = (a, w0)"
    by (simp add: mock_port_def)
  have released: "w_port (release_capacity (mock_port svc auto) env i x) = w_port x" for i x
    by (simp add: release_capacity_def Let_def still)
  have failed: "w_port x' = w_port x" if "dispatch_failed svc g env pf e x = (e', x')" for e x e' x'
    using that by (auto simp: dispatch_failed_def Let_def add_audit_def still split: sum.splits prod.splits)
  from assms(2) dp have "w_port w2 = w_port w0"
    by (auto simp: dispatch_admitted_def Let_def released split: sum.splits prod.splits dest: failed)
  with m show ?thesis by simp
qed

lemma call_end_port:
  assumes "port_still env"
    and "case r of Inl e \<Rightarrow> (res, w') = (Inl e, w2)
         | Inr result \<Rightarrow> (res, w') = finish_admission svc g env pf ad result w2"
  shows "w_port w' = w_port w2"
  using assms
  by (auto simp: finish_admission_def Let_def add_audit_def port_still_def split: sum.splits prod.splits)

lemma mock_call_port:
  assumes "port_still env" and d: "dispatch_admitted svc g (mock_port svc auto) env pf ad w1 = (r, w2)"
    and "case r of Inl e \<Rightarrow> (res, w') = (Inl e, w2)
         | Inr result \<Rightarrow> (res, w') = finish_admission svc g env pf ad result w2"
  shows "w_port w' = w_port w1 \<or> w_port w' = w_port w1 @ [ad_bundle ad]"
  using call_end_port [OF assms(1,3)] mock_admitted_port [OF assms(1) d]
    mock_dispatch_port [OF prod.collapse [symmetric], of svc auto "ad_bundle ad" "ge_others env 5 w1"] assms(1)
  by (simp add: port_still_def)

lemma mock_reserve_port:
  assumes "port_still env" and "reserve_and_commit svc g (mock_port svc auto) env pf w = (r, w')"
  shows "w_port w' = w_port w"
proof -
  have still: "w_port (ge_others env n x) = w_port x" for n x using assms(1) by (simp add: port_still_def)
  have reserve: "dp_reserve_capacity (mock_port svc auto) i p = (Inr (), p)" for i p
    by (simp add: mock_port_def)
  have "w_port (abandon (mock_port svc auto) env i b x) = w_port x" for i b x
    by (simp add: abandon_def Let_def still)
  with assms(2) show ?thesis
    by (auto simp: reserve_and_commit_def Let_def reserve still split: sum.splits prod.splits)
qed


lemma sample_dispatched:
  assumes "admit_and_dispatch gate_services sample_gate (mock_port gate_services False) sample_env
      (RawDict sample_intent) sample_credentials sample_world = Some (res, w')"
  shows "w_port w' = [ad_bundle sample_prepared]"
proof -
  have still: "port_still (sample_env :: json list gate_env)" by (simp add: port_still_def)
  obtain d w2 where d: "dispatch_admitted gate_services sample_gate (mock_port gate_services False) sample_env
      sample_preflight sample_prepared sample_committed = (d, w2)"
    by (cases "dispatch_admitted gate_services sample_gate (mock_port gate_services False) sample_env
      sample_preflight sample_prepared sample_committed")
  have "w_port (snd (mock_dispatch gate_services False b sample_committed)) = [b]" for b
    by (simp add: mock_dispatch_def schema_validate_def SCHEMA_FILES_def gate_services_def
        sample_committed_def sample_world_def)
  with mock_admitted_port [OF still d] have "w_port w2 = [ad_bundle sample_prepared]" by simp
  moreover have "w_port w' = w_port w2"
    by (rule call_end_port [OF still, where r = d and res = res and svc = gate_services and g = sample_gate
          and pf = sample_preflight and ad = sample_prepared])
       (use assms d in \<open>auto simp: sample_admit split: sum.splits\<close>)
  ultimately show ?thesis by simp
qed


section \<open>Resubmission and reads\<close>

text \<open>
  C24: Resubmission is idempotent: when the intent of a call is already recorded for the same caller
  with the same digest, the call answers ALREADY_ADMITTED with the recorded admission and the
  recorded receipt, whatever the port and however often it is made; the ledger and the port, hence
  the one execution the intent has, stay untouched.
\<close>

theorem resubmission_idempotent:
  assumes "admit_preflight svc g raw credentials (ge_now env) = Inr pf"
    and "map_of (lg_by_intent_id (w_ledger w)) (pf_intent_id pf) = Some rec"
    and "rec_authenticated_subject_id rec = subject_id (pf_subject pf)"
    and "rec_intent_digest rec = pf_intent_digest pf" and "lg_poisoned_reason (w_ledger w) = None"
    and "ge_others env = (\<lambda>_ x. x)"
  shows "\<exists>res w'. admit_and_dispatch svc g port env raw credentials w = Some (res, w') \<and>
    w_ledger w' = w_ledger w \<and> w_port w' = w_port w \<and>
    (\<forall>status. record_status svc (ge_clock env 0) rec = Inr status \<longrightarrow>
       res = Inr (response ''ALREADY_ADMITTED'' (rec_admission_record rec) status (rec_terminal_receipt rec)))"
proof -
  have "admit_and_dispatch svc g port env raw credentials w = Some (already_admitted svc g env pf rec w)"
    using resubmission [of svc g raw credentials env pf w rec port] assms by simp
  then show ?thesis
    by (auto simp: already_admitted_def record_status_def add_audit_def)
qed

theorem resubmission_idempotent_witness:
  "\<exists>res w'. admit_and_dispatch gate_services sample_gate (mock_port gate_services False) sample_env
      (RawDict sample_intent) sample_credentials sample_committed = Some (res, w') \<and>
    w_ledger w' = w_ledger sample_committed \<and> w_port w' = []"
proof -
  have p: "admit_preflight gate_services sample_gate (RawDict sample_intent) sample_credentials
      (ge_now (sample_env :: json list gate_env)) = Inr sample_preflight"
    using sample_admit_preflight by simp
  have "map_of (lg_by_intent_id (w_ledger sample_committed)) (pf_intent_id sample_preflight) = Some sample_record"
    "rec_authenticated_subject_id sample_record = subject_id (pf_subject sample_preflight)"
    "rec_intent_digest sample_record = pf_intent_digest sample_preflight"
    "lg_poisoned_reason (w_ledger sample_committed) = None" "w_port sample_committed = []"
    "ge_others sample_env = (\<lambda>_ x :: json list world. x)"
    by (simp_all add: sample_committed_def sample_preflight_def sample_record_def admitted_record_def
        commit_request_def sample_acquire sample_world_def fun_eq_iff)
  with resubmission_idempotent [OF p, of sample_committed sample_record "mock_port gate_services False"]
  show ?thesis by auto
qed

text \<open>
  Only the owner reads an execution: status and receipt are returned exactly to a caller that
  authenticates as the subject stored in the record, any other authenticated caller is refused with
  the same error for every existing execution, and an unknown execution gives no document.
\<close>

theorem only_owner_reads:
  assumes "g_authenticate g credentials = Inr s"
  shows "get_receipt g execution_id credentials l =
      (case get_by_execution_id execution_id l of
         None \<Rightarrow> Inr None
       | Some r \<Rightarrow> if rec_authenticated_subject_id r = subject_id s then Inr (Some (rec_terminal_receipt r))
                   else Inl UnauthorizedCallerError) \<and>
    get_status svc g now execution_id credentials l =
      (case get_by_execution_id execution_id l of
         None \<Rightarrow> Inr None
       | Some r \<Rightarrow> if rec_authenticated_subject_id r = subject_id s
                   then bindE (record_status svc now r) (\<lambda>doc. Inr (Some doc))
                   else Inl UnauthorizedCallerError)"
  using assms
  by (simp add: get_receipt_def get_status_def get_owned_record_def split: option.splits)

theorem only_owner_reads_witness:
  "g_authenticate sample_gate sample_credentials = Inr sample_subject \<and>
   get_receipt sample_gate ''e-1'' sample_credentials (w_ledger sample_committed) = Inr (Some JNull)"
proof -
  have a: "g_authenticate sample_gate sample_credentials = Inr sample_subject"
    by (simp add: sample_gate_def hashed_authenticate_def sample_credentials_def obj_get_def)
  have "get_by_execution_id ''e-1'' (w_ledger sample_committed) = Some sample_record"
    by (simp add: get_by_execution_id_def sample_committed_def)
  with only_owner_reads [OF a, of "''e-1''" "w_ledger sample_committed" gate_services "''t''"] a show ?thesis
    by (simp add: sample_record_def admitted_record_def commit_request_def sample_preflight_def)
qed

section \<open>The admission document\<close>

text \<open>
  An admission never outlives its intent or the dispatch window: the expiry the gate writes is
  the earlier of the intent's own expiry and the current time plus the configured lifetime.
\<close>

theorem admission_expiry_bounded:
  assumes "prepare_admission svc g pf grants env = Inr ad" and "ge_now env = Aware now z"
  shows "\<exists>text t y expires x. obj_get (pf_intent pf) ''expires_at'' = JStr text \<and>
    svc_fromiso svc (replace_z text) = Some (Aware t y) \<and>
    obj_get (ad_document ad) ''admission_expires_at'' = JStr (svc_isoformat svc (Aware expires x)) \<and>
    expires \<le> t \<and> expires \<le> now + 1000000 * g_admission_ttl_seconds g \<and>
    (expires = t \<or> expires = now + 1000000 * g_admission_ttl_seconds g)"
proof -
  obtain e s where f: "admission_expiry svc g (pf_intent pf) (ge_now env) = Inr e"
    "ad_document ad = admission_skeleton svc g pf grants env e @
       [(''admission_digest'', JStr (ad_digest ad)),
        (''authenticator'', JObj (authenticator g @ [(''signature'', JStr s)]))]"
    using assms(1) by (rule prepare_admission_facts)
  from f(1) obtain v where v: "map_of (pf_intent pf) ''expires_at'' = Some v"
    by (cases "map_of (pf_intent pf) ''expires_at''") (auto simp: admission_expiry_def)
  with f(1) obtain stamp i b where i: "obj_get (pf_intent pf) ''expires_at'' = JStr stamp"
    "svc_fromiso svc (replace_z stamp) = Some i"
    "instant_less (plus_seconds (Aware now z) (g_admission_ttl_seconds g)) i = Inr b"
    "e = (if b then plus_seconds (Aware now z) (g_admission_ttl_seconds g) else i)"
    by (cases v) (auto simp: admission_expiry_def assms(2) obj_get_def Let_def exn_simps
        split: option.splits)
  then obtain t y where "i = Aware t y" by (cases i) auto
  with i f(2) show ?thesis by (cases b) (auto simp: skeleton_get)
qed

theorem admission_expiry_bounded_witness:
  "\<exists>expires x. obj_get sample_document ''admission_expires_at'' =
      JStr (svc_isoformat gate_services (Aware expires x)) \<and> expires \<le> 301000000"
proof -
  have "ge_now (sample_env :: json list gate_env) = Aware 1000000 0" by simp
  from admission_expiry_bounded [OF sample_prepare this] show ?thesis
    by (auto simp: sample_prepared_def sample_gate_def)
qed

text \<open>
  The ledger never refuses what the gate has prepared: after a successful preflight and with the
  call's own reservation in place, the commit of the prepared admission passes every check of the
  ledger, so it fails only if the append to the file fails.
\<close>

theorem prepared_admission_commits:
  assumes pre: "admit_preflight svc g raw credentials (ge_now env) = Inr pf"
    and prep: "prepare_admission svc g pf grants env = Inr ad"
    and names: "pf_intent_id pf \<noteq> []" "pf_intent_digest pf \<noteq> []" "subject_id (pf_subject pf) \<noteq> []"
      "ge_execution_id env \<noteq> []" "now \<noteq> []"
    and retry: "ad_retry_of ad = JNull \<or> (\<exists>s. ad_retry_of ad = JStr s \<and> s \<noteq> [])"
    and acquired: "acquire_pass (pf_intent_id pf) (pf_intent_digest pf) (subject_id (pf_subject pf)) t False l
      = (Inr Reserved, l')"
  shows "\<exists>r k. commit_admission svc (commit_request pf env ad) now Appended l' = (Inr r, k)"
proof -
  obtain op where op: "pf_operation pf = JStr op" "op \<noteq> []"
    using preflight_fields(4) [OF pre] operation_names by blast
  have "map_of (pf_intent pf) ''operation'' = Some (JStr op)" using preflight_fields(3) [OF pre] op by simp
  from prepared_snapshot [OF prep preflight_fields(1,2) [OF pre] this op names retry] obtain d where
    d: "validate_snapshot_schema (to_dict (admitted_record (commit_request pf env ad) now)) = Inr d" ..
  from acquired obtain res where "lg_poisoned_reason l' = None"
    "map_of (lg_reservations l') (pf_intent_id pf) = Some res" "res_intent_digest res = pf_intent_digest pf"
    "res_caller_subject_id res = subject_id (pf_subject pf)" "map_of (lg_by_intent_id l') (pf_intent_id pf) = None"
    by (auto simp: acquire_pass_def raise_if_poisoned_def split: sum.splits option.splits if_splits)
  from prepared_commit_accepted [OF d this] show ?thesis
    by (auto simp: commit_admission_def persist_or_poison_def split: option.splits)
qed

theorem prepared_admission_commits_witness:
  "\<exists>r k. commit_admission gate_services
     (commit_request sample_preflight (sample_env :: json list gate_env) sample_prepared) ''t1'' Appended
     sample_acquired = (Inr r, k)"
proof -
  have p: "admit_preflight gate_services sample_gate (RawDict sample_intent) sample_credentials
      (ge_now (sample_env :: json list gate_env)) = Inr sample_preflight"
    using sample_admit_preflight by simp
  have acq: "acquire_pass (pf_intent_id sample_preflight) (pf_intent_digest sample_preflight)
      (subject_id (pf_subject sample_preflight)) ''t1'' False sample_start = (Inr Reserved, sample_acquired)"
    using sample_acquire(1) by (simp add: sample_preflight_def sample_subject_def)
  show ?thesis
    by (rule prepared_admission_commits [OF p sample_prepare _ _ _ _ _ _ acq])
       (simp_all add: sample_preflight_def sample_subject_def sample_prepared_def)
qed

end
