(* ===== verification/Worker_Theorems.thy ===== *)
theory Worker_Theorems
  imports Worker_Dispatch
begin

text \<open>
  The theorems about the live worker: what its preflight accepts, the Ed25519 verifier, the paths
  of the dataset cache, the trust roots and the dispatch table.
\<close>

section \<open>Preflight\<close>

lemma ttl_instant_Inr:
  "ttl_instant ws v = Inr t \<longleftrightarrow> (\<exists>stamp. v = JStr stamp \<and> ws_fromiso ws (replace_z stamp) = Some t)"
  by (cases v) (auto simp: ttl_instant_def split: option.splits)

lemma check_freshness_Inr:
  assumes "check_freshness ws (Aware now z) intent admission = Inr ()"
  shows "\<exists>stamp t y. obj_get admission ''admission_expires_at'' = JStr stamp \<and>
    ws_fromiso ws (replace_z stamp) = Some (Aware t y) \<and> now < t"
  using assms by (auto simp: check_freshness_def Let_def bindE_eq_Inr ttl_instant_Inr instant_le_Aware)

lemma check_digests_Inr:
  "check_digests ws intent admission = Inr () \<longleftrightarrow>
     worker_verify_intent_digest (ws_sha ws) intent = Inr True \<and>
     verify_admission_digest (ws_sha ws) admission = Inr True"
  by (auto simp: check_digests_def bindE_eq_Inr)

lemma check_parity_Inr:
  "check_parity intent admission = Inr () \<longleftrightarrow>
     truthy (obj_get intent ''intent_id'') \<and> truthy (obj_get intent ''intent_digest'') \<and>
     py_eq (obj_get intent ''intent_id'') (obj_get admission ''intent_id'') \<and>
     py_eq (obj_get intent ''intent_digest'') (obj_get admission ''intent_digest'')"
  by (auto simp: check_parity_def Let_def bindE_eq_Inr)

lemma build_context_grants:
  "build_context ws intent admission grants = Inr ctx \<Longrightarrow>
     pc_timeout_seconds ctx = fst (snd grants) \<and> pc_max_memory_bytes ctx = snd (snd grants)"
  by (auto simp: build_context_def Let_def bindE_eq_Inr)


definition toy_worker :: worker_services where
  "toy_worker = \<lparr>ws_sha = (\<lambda>s. ''0''), ws_verify = (\<lambda>k m s. True), ws_fromiso = (\<lambda>s. Some (Aware 9 0)),
     ws_loads = (\<lambda>s. None), ws_str = (\<lambda>v. [])\<rparr>"

definition toy_validator :: preflight_validator where
  "toy_validator = \<lparr>pv_trusted_keys = [(''k'', ''00'')], pv_pinned_key_ids = [''k''],
     pv_trusted_public_key_hex = None\<rparr>"

definition toy_signed :: "(string \<times> json) list" where
  "toy_signed =
     [(''intent_id'', JStr ''i''), (''intent_digest'', JStr ''sha256:0''), (''execution_id'', JStr ''e''),
      (''admission_digest'', JStr ''sha256:0''), (''admitted_at'', JStr ''t''),
      (''admission_expires_at'', JStr ''t''),
      (''authenticator'', JObj [(''algorithm'', JStr ''ED25519''), (''key_id'', JStr ''k''),
         (''signature'', JStr ''00'')]),
      (''resource_grants'', JObj [(''allow_downloads'', JBool False), (''timeout_seconds'', JInt 60),
         (''max_memory_bytes'', JInt 1024)])]"

definition toy_request :: "(string \<times> json) list" where
  "toy_request =
     [(''intent_id'', JStr ''i''), (''intent_digest'', JStr ''sha256:0''), (''expires_at'', JStr ''t''),
      (''operation'', JStr ''TRAIN_TICKET''),
      (''workload'', JObj [(''requested_scope'', JStr ''PLUGIN_BOUNDARY'')])]"

lemma toy_accepted:
  "\<exists>ctx. preflight_validate toy_worker toy_validator
     (JObj [(''schema_version'', JStr ''1.0.0''), (''intent'', JObj toy_request),
            (''admission'', JObj toy_signed)]) (Aware 5 0) = Inr ctx"
proof -
  have digests: "check_digests toy_worker toy_request toy_signed = Inr ()"
    by (simp add: check_digests_def worker_verify_intent_digest_def verify_admission_digest_def toy_request_def
        toy_signed_def toy_worker_def obj_get_def jcs_dumps_float_free sha256_prefixed_def Let_def del: jcs_dumps.simps)
  have "fromhex ''00'' = Some [char_of (0 :: nat)]" by code_simp
  then have signature: "check_signature toy_worker toy_validator toy_signed = Inr ()"
    by (simp add: check_signature_def worker_verify_admission_signature_def unsigned_admission_def
        toy_signed_def toy_worker_def toy_validator_def obj_get_def obj_get_default_def
        jcs_dumps_float_free Let_def del: jcs_dumps.simps)
  have parity: "check_parity toy_request toy_signed = Inr ()" by code_simp
  have fresh: "check_freshness toy_worker (Aware 5 0) toy_request toy_signed = Inr ()"
    by (simp add: check_freshness_def ttl_instant_def toy_request_def toy_signed_def toy_worker_def obj_get_def)
  have scope: "check_scope toy_request = Inr ()" by code_simp
  have grants: "check_grants toy_signed = Inr (False, 60, 1024)" by code_simp
  have "truthy (obj_get toy_signed ''execution_id'')" by code_simp
  moreover have "\<exists>ctx. build_context toy_worker toy_request toy_signed (False, 60, 1024) = Inr ctx"
    by (simp add: build_context_def toy_request_def toy_signed_def obj_get_def obj_get_default_def)
  ultimately show ?thesis
    using digests signature parity fresh scope grants by (simp add: preflight_validate_def obj_get_def)
qed


section \<open>Signatures\<close>

text \<open>
  C33: The Ed25519 verifier of the worker is not malleable in the scalar: it accepts only a 64 byte
  signature under a 32 byte key with a scalar below the group order, so of all the signatures that
  share the commitment and whose scalars agree modulo the group order at most one is accepted, and
  nobody can turn a valid admission into a second, different one by adding the group order.
\<close>

theorem signature_not_malleable:
  assumes "verify_ed25519 sha512 pk msg (r @ s)" and "length r = 32"
  shows "length pk = 32 \<and> length s = 32 \<and> from_bytes_little s < ed_Q \<and>
    (\<forall>s'. verify_ed25519 sha512 pk msg (r @ s') \<and>
       from_bytes_little s mod ed_Q = from_bytes_little s' mod ed_Q \<longrightarrow> s' = s)"
  using verify_ed25519_scalar [OF assms(1)] verify_ed25519_unique [OF assms(1) _ assms(2)] assms(2) by auto

text \<open>
  The neutral element as commitment, the scalar 0 and a hash that is 0: both sides of the
  verification equation are the neutral element.
\<close>

definition neutral_commitment :: string where
  "neutral_commitment = CHR 0x01 # replicate 31 (CHR 0x00)"

lemma from_bytes_zeros: "from_bytes_little (replicate n (CHR 0x00)) = 0"
  by (induction n) simp_all

lemma inv_mod_one: "inv_mod 1 = 1"
  by (simp add: inv_mod_def pow_mod_eq ed_P_def)

lemma xrecover_one: "xrecover 1 = 0"
  by (simp add: xrecover_def pow_mod_eq ed_P_def Let_def power_0_left)

lemma neutral_verifies:
  "verify_ed25519 (\<lambda>m. replicate 64 (CHR 0x00)) (replicate 32 (CHR 0x00)) []
     (neutral_commitment @ replicate 32 (CHR 0x00))"
proof -
  have "from_bytes_little neutral_commitment = 1" by (simp add: neutral_commitment_def from_bytes_zeros)
  then have "decodepoint neutral_commitment = (0, 1)"
    by (simp add: decodepoint_def Let_def xrecover_one neutral_commitment_def)
  moreover have "scalarmult p 0 = (0, 1)" for p by (simp add: scalarmult.simps)
  moreover have "length neutral_commitment = 32" by (simp add: neutral_commitment_def)
  ultimately show ?thesis
    by (simp add: verify_ed25519_def Let_def from_bytes_zeros inv_mod_one ed_Q_def ed_P_def)
qed

text \<open>The bytes of the group order itself: the scalar 0 with the order added.\<close>

definition order_scalar :: string where
  "order_scalar =
     [CHR 0xED, CHR 0xD3, CHR 0xF5, CHR 0x5C, CHR 0x1A, CHR 0x63, CHR 0x12, CHR 0x58,
      CHR 0xD6, CHR 0x9C, CHR 0xF7, CHR 0xA2, CHR 0xDE, CHR 0xF9, CHR 0xDE, CHR 0x14]
     @ replicate 15 (CHR 0x00) @ [CHR 0x10]"

lemma order_scalar_eq: "from_bytes_little order_scalar = ed_Q"
  by (simp add: order_scalar_def ed_Q_def numeral_eq_Suc)

theorem signature_not_malleable_witness:
  "verify_ed25519 (\<lambda>m. replicate 64 (CHR 0x00)) (replicate 32 (CHR 0x00)) []
     (neutral_commitment @ replicate 32 (CHR 0x00)) \<and>
   from_bytes_little order_scalar mod ed_Q = from_bytes_little (replicate 32 (CHR 0x00)) mod ed_Q \<and>
   \<not> verify_ed25519 (\<lambda>m. replicate 64 (CHR 0x00)) (replicate 32 (CHR 0x00)) [] (neutral_commitment @ order_scalar)"
proof -
  have l: "length neutral_commitment = 32" by (simp add: neutral_commitment_def)
  have same: "from_bytes_little order_scalar mod ed_Q = from_bytes_little (replicate 32 (CHR 0x00)) mod ed_Q"
    by (simp add: order_scalar_eq from_bytes_zeros)
  have "order_scalar \<noteq> replicate 32 (CHR 0x00)" by (simp add: order_scalar_def numeral_eq_Suc)
  with signature_not_malleable [OF neutral_verifies l] same
  have "\<not> verify_ed25519 (\<lambda>m. replicate 64 (CHR 0x00)) (replicate 32 (CHR 0x00)) []
     (neutral_commitment @ order_scalar)" by metis
  with same neutral_verifies show ?thesis by blast
qed

section \<open>The cache\<close>

lemma split_slash_no_slash: "p \<in> set (split_slash s) \<Longrightarrow> CHR ''/'' \<notin> set p"
proof (induction s arbitrary: p)
  case (Cons c s)
  then show ?case by (cases "split_slash s") (auto split: if_splits)
qed simp

lemma has_dotdot_suffix: "has_dotdot t \<Longrightarrow> has_dotdot (s @ t)"
proof (induction s)
  case (Cons c s)
  then show ?case by (cases "s @ t") auto
qed simp

lemma has_dotdot_prefix: "has_dotdot s \<Longrightarrow> has_dotdot (s @ t)"
  by (induction s rule: has_dotdot.induct) auto

lemma split_slash_part: "p \<in> set (split_slash s) \<Longrightarrow> \<exists>u v. s = u @ p @ v"
proof (induction s arbitrary: p)
  case (Cons c s)
  obtain q qs where q: "split_slash s = q # qs" by (cases s; cases "split_slash s") (auto split: if_splits list.splits)
  have head: "\<exists>v. s = q @ v"
  proof -
    have "\<exists>v. s = hd (split_slash s) @ v" for s
    proof (induction s)
      case (Cons d t)
      then show ?case by (cases "split_slash t") auto
    qed simp
    then show ?thesis using q by (metis list.sel(1))
  qed
  show ?case
  proof (cases "p = c # q \<and> c \<noteq> CHR ''/''")
    case True
    with head obtain v where "c # s = [] @ p @ v" by auto
    then show ?thesis by blast
  next
    case False
    with Cons.prems q have "p = [] \<or> p \<in> set (split_slash s)" by (auto split: if_splits)
    with Cons.IH show ?thesis by (metis append_Cons append_Nil)
  qed
qed simp

text \<open>
  A cache key cannot leave the cache: whatever text the caller sends, the directory that is
  derived from it lies below the configured cache root, and none of the parts added to the root is
  the parent directory or contains a separator.
\<close>

theorem cache_key_confined:
  assumes "cache_directory di key = Inr (Some p)"
  shows "\<exists>rel. p = di_cache_root di @ rel \<and>
    (\<forall>x \<in> set rel. x \<noteq> ''..'' \<and> x \<noteq> ''.'' \<and> x \<noteq> [] \<and> CHR ''/'' \<notin> set x \<and> CHR '':'' \<notin> set x)"
proof -
  from assms obtain s where s: "key = JStr s" "\<not> illegal_cache_key s" "p = di_cache_root di @ key_parts s"
    by (cases key) (auto simp: cache_directory_def split: if_splits)
  have "x \<noteq> ''..'' \<and> x \<noteq> ''.'' \<and> x \<noteq> [] \<and> CHR ''/'' \<notin> set x \<and> CHR '':'' \<notin> set x" if "x \<in> set (key_parts s)" for x
  proof -
    from that have x: "x \<in> set (split_slash s)" "x \<noteq> []" "x \<noteq> ''.''" by (auto simp: key_parts_def)
    obtain u v where "s = u @ x @ v" using split_slash_part [OF x(1)] by blast
    moreover have "x \<noteq> ''..''"
    proof
      assume "x = ''..''"
      then have "has_dotdot (x @ v)" using has_dotdot_prefix [of "''..''" v] by simp
      with \<open>s = u @ x @ v\<close> s(2) has_dotdot_suffix show False by (simp add: illegal_cache_key_def)
    qed
    ultimately show ?thesis
      using s(2) x split_slash_no_slash [OF x(1)] by (auto simp: illegal_cache_key_def)
  qed
  with s(3) show ?thesis by blast
qed

theorem cache_key_confined_witness:
  "cache_directory \<lparr>di_producer_commit = None, di_cache_root = [''.cache'', ''deltatorrent'']\<rparr> (JStr ''a/b'')
     = Inr (Some [''.cache'', ''deltatorrent'', ''a'', ''b'']) \<and>
   (\<exists>rel. [''.cache'', ''deltatorrent'', ''a'', ''b''] = [''.cache'', ''deltatorrent''] @ rel \<and>
      ''..'' \<notin> set rel)"
proof -
  let ?di = "\<lparr>di_producer_commit = None, di_cache_root = [''.cache'', ''deltatorrent'']\<rparr>"
  have c: "cache_directory ?di (JStr ''a/b'') = Inr (Some [''.cache'', ''deltatorrent'', ''a'', ''b''])"
    by code_simp
  with cache_key_confined [OF c] show ?thesis by fastforce
qed

text \<open>
  The comparison of the number of checkpoint coordinates with the plugin's parameter schema is
  guarded by the presence of an attribute that no plugin descriptor has: it never runs.
\<close>

lemma coordinate_length_unchecked: "coordinate_check dv descriptor n = Inr ()"
  by (simp add: coordinate_check_def PLUGIN_DESCRIPTOR_FIELDS_def)

end
