(* ===== verification/End_To_End.thy ===== *)
theory End_To_End
  imports Gate_Samples Worker_Theorems Queue_Progress
begin

text \<open>
  The controller and the worker together. The worker checks an authorized execution with code of
  its own (\<open>live_execution/crypto.py\<close>, \<open>preflight.py\<close>) and the controller checks the worker's
  result with code of its own (\<open>dispatch.py\<close>); the theorems say that the two sides agree.
  \<open>linked\<close> is the deployment: both use the same hash and the same date format, which reads back
  what it writes, and the gate's signing key is one of the worker's pinned keys.
\<close>

definition linked :: "services \<Rightarrow> worker_services \<Rightarrow> gate \<Rightarrow> preflight_validator \<Rightarrow> bool" where
  "linked svc ws g pv \<longleftrightarrow>
     ws_sha ws = svc_sha svc \<and> ws_fromiso ws = svc_fromiso svc \<and> svc_fromiso svc [] = None \<and>
     (\<forall>t z. svc_isoformat svc (Aware t z) \<noteq> [] \<and>
        svc_fromiso svc (replace_z (svc_isoformat svc (Aware t z))) = Some (Aware t z)) \<and>
     si_key_id (g_identity g) \<noteq> [] \<and> si_key_id (g_identity g) \<in> set (pv_pinned_key_ids pv) \<and>
     (\<exists>key pub. map_of (pv_trusted_keys pv) (si_key_id (g_identity g)) = Some key \<and>
        fromhex key = Some pub \<and>
        (\<forall>m. \<exists>sig. fromhex (si_sign (g_identity g) m) = Some sig \<and> ws_verify ws pub m sig))"

lemma jcs_dumps_canonicalize: "float_free v \<Longrightarrow> jcs_dumps v = canonicalize_jcs v"
  by (simp add: jcs_dumps_float_free canonicalize_jcs_eq float_free_finite)

section \<open>The gate's bundle passes the worker's preflight\<close>

lemma document_float_free:
  assumes "float_free (timeout_seconds grants)"
  shows "float_free (JObj (admission_skeleton svc g pf grants env x @
     [(''admission_digest'', JStr d), (''authenticator'', JObj (authenticator g @ [(''signature'', JStr s)]))]))"
  using assms
  by (simp add: admission_skeleton_def subject_to_dict_def grants_to_dict_def authenticator_def list_all_iff)

lemma skeleton_get_more:
  "obj_get (admission_skeleton svc g pf grants env x @ rest) ''admitted_at'' = JStr (svc_isoformat svc (ge_now env))"
  "obj_get (admission_skeleton svc g pf grants env x @ rest) ''resource_grants'' = grants_to_dict grants"
  "obj_get_default (admission_skeleton svc g pf grants env x @ [(''admission_digest'', d), (''authenticator'', a)])
     ''authenticator'' e = a"
  "obj_get_default (admission_skeleton svc g pf grants env x @ rest) ''policy_context'' e =
     JObj [(''policy_version'', JStr (g_policy_version g)),
          (''controller_commit'', JStr (g_controller_commit g)), (''verdict'', JStr ''ADMITTED'')]"
  by (simp_all add: admission_skeleton_def obj_get_def obj_get_default_def)

lemma prepared_digests_pass:
  assumes pre: "admit_preflight svc g raw credentials now = Inr pf" and ff: "float_free (JObj (pf_intent pf))"
    and prep: "prepare_admission svc g pf grants env = Inr ad" and ffd: "float_free (JObj (ad_document ad))"
    and sha: "ws_sha ws = svc_sha svc"
  shows "check_digests ws (pf_intent pf) (ad_document ad) = Inr ()"
proof -
  obtain d where d: "obj_get (pf_intent pf) ''intent_digest'' = JStr d"
    "compute_intent_digest (svc_sha svc) (pf_intent pf) = Inr d"
    using parse_intent_facts(4) [OF preflight_intent [OF pre]] by blast
  from d(2) have nonempty: "d \<noteq> []" by (auto simp: compute_intent_digest_def sha256_digest_def exn_simps)
  have del: "float_free (JObj (AList.delete k kvs))" if "float_free (JObj kvs)" for k kvs
    using that by (induction kvs) auto
  have "worker_verify_intent_digest (ws_sha ws) (pf_intent pf) = Inr True"
    using d nonempty jcs_dumps_canonicalize [OF del [OF ff, of "''intent_digest''"]]
    by (auto simp: worker_verify_intent_digest_def Let_def compute_intent_digest_def sha256_prefixed_def
        sha256_digest_def sha exn_simps)
  moreover have "compute_admission_digest (svc_sha svc) (ad_document ad) = Inr (ad_digest ad)"
    "obj_get (ad_document ad) ''admission_digest'' = JStr (ad_digest ad)"
    using prepared_admission_verifies(2,3) [OF prep, of "\<lambda>_ _. True"] by simp_all
  then have "verify_admission_digest (ws_sha ws) (ad_document ad) = Inr True"
    using jcs_dumps_canonicalize [OF del [OF del [OF ffd, of "''admission_digest''"], of "''authenticator''"]]
    by (auto simp: verify_admission_digest_def Let_def compute_admission_digest_def sha256_prefixed_def
        sha256_digest_def sha exn_simps)
  ultimately show ?thesis by (simp add: check_digests_Inr)
qed

lemma prepared_signature_passes:
  assumes link: "linked svc ws g pv" and prep: "prepare_admission svc g pf grants env = Inr ad"
    and ff: "float_free (timeout_seconds grants)"
  shows "check_signature ws pv (ad_document ad) = Inr ()"
proof -
  let ?i = "g_identity g"
  obtain x s where f: "sign_admission (si_sign ?i) (admission_skeleton svc g pf grants env x @
              [(''admission_digest'', JStr (ad_digest ad)), (''authenticator'', JObj (authenticator g))]) = Inr s"
    "ad_document ad = admission_skeleton svc g pf grants env x @
           [(''admission_digest'', JStr (ad_digest ad)),
            (''authenticator'', JObj (authenticator g @ [(''signature'', JStr s)]))]"
    using prep by (rule prepare_admission_facts)
  let ?u = "admission_skeleton svc g pf grants env x @
      [(''admission_digest'', JStr (ad_digest ad)), (''authenticator'', JObj (authenticator g))]"
  have unsigned: "unsigned_admission (ad_document ad) = ?u"
    by (simp add: unsigned_admission_def f(2) skeleton_get update_authenticator authenticator_signature)
  have "float_free (JObj ?u)"
    using ff by (simp add: admission_skeleton_def subject_to_dict_def grants_to_dict_def authenticator_def list_all_iff)
  note bytes = jcs_dumps_canonicalize [OF this]
  from f(1) obtain payload where p: "canonicalize_jcs (JObj ?u) = Inr payload" "s = si_sign ?i payload"
    by (auto simp: sign_admission_def get_admission_signing_payload_def skeleton_get update_authenticator
        authenticator_signature exn_simps)
  from link obtain key pub sig where k: "map_of (pv_trusted_keys pv) (si_key_id ?i) = Some key"
    "fromhex key = Some pub" "fromhex s = Some sig" "ws_verify ws pub payload sig"
    unfolding linked_def p(2) by blast
  have "obj_get (authenticator g @ [(''signature'', JStr s)]) ''key_id'' = JStr (si_key_id ?i)"
    "obj_get (authenticator g @ [(''signature'', JStr s)]) ''algorithm'' = JStr ''ED25519''"
    by (simp_all add: authenticator_def obj_get_def)
  moreover have "worker_verify_admission_signature (ws_verify ws) (ad_document ad) key = Inr True"
    using k bytes p(1) unsigned
    by (simp add: worker_verify_admission_signature_def f(2) skeleton_get authenticator_signature
        del: jcs_dumps.simps)
  ultimately show ?thesis
    using k(1) link by (simp add: check_signature_def f(2) skeleton_get_more(3) linked_def del: jcs_dumps.simps)
qed

lemma prepared_is_fresh:
  assumes link: "linked svc ws g pv"
    and pre: "admit_preflight svc g raw credentials (ge_now env) = Inr pf"
    and prep: "prepare_admission svc g pf grants env = Inr ad" and "ge_now env = Aware now z"
    and "0 \<le> g_admission_ttl_seconds g"
    and expiry: "admission_expiry svc g (pf_intent pf) (Aware now z) = Inr (Aware expires y)" and "late < expires"
  shows "check_freshness ws (Aware late z') (pf_intent pf) (ad_document ad) = Inr ()"
proof -
  obtain x s where f: "admission_expiry svc g (pf_intent pf) (ge_now env) = Inr x"
    "ad_document ad = admission_skeleton svc g pf grants env x @
           [(''admission_digest'', JStr (ad_digest ad)),
            (''authenticator'', JObj (authenticator g @ [(''signature'', JStr s)]))]"
    using prep by (rule prepare_admission_facts)
  with expiry assms(4) have x: "x = Aware expires y" by simp
  obtain v where v: "map_of (pf_intent pf) ''expires_at'' = Some v"
    using expiry by (cases "map_of (pf_intent pf) ''expires_at''") (auto simp: admission_expiry_def)
  obtain stamp i b where i: "v = JStr stamp" "svc_fromiso svc (replace_z stamp) = Some i"
    "instant_less (Aware (now + 1000000 * g_admission_ttl_seconds g) z) i = Inr b"
    "Aware expires y = (if b then Aware (now + 1000000 * g_admission_ttl_seconds g) z else i)"
    using expiry v by (cases v) (auto simp: admission_expiry_def Let_def exn_simps split: option.splits if_splits)
  obtain t u where t: "i = Aware t u" using i(3) by (cases i) auto
  have b: "b \<longleftrightarrow> now + 1000000 * g_admission_ttl_seconds g < t" using i(3) t by auto
  have parsed: "check_expiry svc (JStr stamp) (Aware now z) = Inr ()"
    using parse_intent_facts(5) [OF preflight_intent [OF pre]] v i(1) assms(4) by (simp add: obj_get_def)
  have nonempty: "stamp \<noteq> []" using i(2) link by (auto simp: linked_def replace_z_def)
  with parsed i(2) t have alive: "now < t" by (simp add: check_expiry_def exn_simps)
  have expires: "expires \<le> t" "now \<le> expires" "\<not> expires \<le> late"
    using i(4) t b alive assms(5,7) by (auto split: if_splits)
  have format: "svc_isoformat svc (Aware m k) \<noteq> []"
    "ws_fromiso ws (replace_z (svc_isoformat svc (Aware m k))) = Some (Aware m k)" for m k
    using link by (auto simp: linked_def)
  have "ws_fromiso ws (replace_z stamp) = Some (Aware t u)" using link i(2) t by (simp add: linked_def)
  then show ?thesis
    using expires nonempty v i(1) format
    by (simp add: check_freshness_def Let_def f(2) x skeleton_get skeleton_get_more(1) assms(4) ttl_instant_def
        obj_get_def [of "pf_intent pf"])
qed

lemma catalog_scope_passes:
  assumes pre: "admit_preflight svc g raw credentials now = Inr pf"
    and cat: "g_catalog g = init_catalog FROZEN_CATALOG_REF None None None"
  shows "check_scope (pf_intent pf) = Inr ()"
    and "\<exists>w scope. pf_workload pf = JObj w \<and> obj_get w ''requested_scope'' = JStr scope \<and>
      scope \<noteq> ''STAGE_C_REAL_DRQ1'' \<and> obj_get w ''model_plugin_id'' = JStr ''tabular-10gene-phenotype-v1'' \<and>
      obj_get w ''dataset_id'' = JStr ''synthetic-10gene-cohort-v1'' \<and>
      obj_get w ''catalog_backend_ref'' = JStr FROZEN_CATALOG_REF \<and> scope \<in> set VALID_EXECUTION_SCOPES"
proof -
  note f = preflight_fields [OF pre]
  obtain w op scope allowed where w: "pf_workload pf = JObj w"
    "obj_get w ''catalog_backend_ref'' = JStr FROZEN_CATALOG_REF"
    "obj_get w ''model_plugin_id'' = JStr ''tabular-10gene-phenotype-v1''"
    "obj_get w ''dataset_id'' = JStr ''synthetic-10gene-cohort-v1''" "pf_operation pf = JStr op"
    "map_of ALLOWED_CAPABILITY_MATRIX op = Some allowed" "obj_get w ''requested_scope'' = JStr scope"
    "scope \<in> set allowed"
    using f(7) unfolding cat catalog_validate_iff
    by (auto simp: init_catalog_def DEFAULT_KNOWN_PLUGINS_def DEFAULT_KNOWN_DATASETS_def)
  have allowed: "scope = ''PLUGIN_BOUNDARY'' \<or> (scope = ''MODEL_DATASET_BINDING_ONLY'' \<and> op \<noteq> ''TRAIN_TICKET'')"
    using w(6,8) by (auto simp: ALLOWED_CAPABILITY_MATRIX_def split: if_splits)
  have "obj_get_default (pf_intent pf) ''workload'' (JObj []) = JObj w" using f(6) w(1) by (simp add: obj_get_default_def)
  moreover have "obj_get (pf_intent pf) ''operation'' = JStr op" using f(3) w(5) by (simp add: obj_get_def)
  ultimately show "check_scope (pf_intent pf) = Inr ()"
    using w(7) allowed by (auto simp: check_scope_def)
  from allowed have "scope \<noteq> ''STAGE_C_REAL_DRQ1'' \<and> scope \<in> set VALID_EXECUTION_SCOPES"
    by (auto simp: VALID_EXECUTION_SCOPES_def)
  with w show "\<exists>w scope. pf_workload pf = JObj w \<and> obj_get w ''requested_scope'' = JStr scope \<and>
      scope \<noteq> ''STAGE_C_REAL_DRQ1'' \<and> obj_get w ''model_plugin_id'' = JStr ''tabular-10gene-phenotype-v1'' \<and>
      obj_get w ''dataset_id'' = JStr ''synthetic-10gene-cohort-v1'' \<and>
      obj_get w ''catalog_backend_ref'' = JStr FROZEN_CATALOG_REF \<and> scope \<in> set VALID_EXECUTION_SCOPES"
    by blast
qed

lemma gate_bundle_accepted:
  assumes link: "linked svc ws g pv" and cat: "g_catalog g = init_catalog FROZEN_CATALOG_REF None None None"
    and pre: "admit_preflight svc g raw credentials (ge_now env) = Inr pf"
    and prep: "prepare_admission svc g pf grants env = Inr ad"
    and "ge_now env = Aware now z" and "0 \<le> g_admission_ttl_seconds g"
    and "float_free (JObj (pf_intent pf))" and "pf_intent_id pf \<noteq> []" and "ge_execution_id env \<noteq> []"
    and "timeout_seconds grants = JInt n" "1 \<le> n" "n \<le> 3600" and "1 \<le> max_memory_bytes grants"
    and "admission_expiry svc g (pf_intent pf) (Aware now z) = Inr (Aware expires y)" and "late < expires"
  shows "\<exists>ctx. preflight_validate ws pv (ad_bundle ad) (Aware late z') = Inr ctx \<and>
    pc_execution_id ctx = JStr (ge_execution_id env) \<and> pc_intent ctx = pf_intent pf \<and>
    pc_admission ctx = ad_document ad \<and> JStr (pc_operation ctx) = pf_operation pf"
proof -
  obtain x s where doc: "ad_document ad = admission_skeleton svc g pf grants env x @
           [(''admission_digest'', JStr (ad_digest ad)),
            (''authenticator'', JObj (authenticator g @ [(''signature'', JStr s)]))]"
    and sent: "ad_bundle ad = JObj [(''schema_version'', JStr ''1.0.0''), (''intent'', JObj (pf_intent pf)),
           (''admission'', JObj (ad_document ad))]"
    using prep by (rule prepare_admission_facts)
  note f = preflight_fields [OF pre]
  have ff: "float_free (timeout_seconds grants)" using assms(10) by simp
  have ffd: "float_free (JObj (ad_document ad))" unfolding doc by (rule document_float_free [OF ff])
  have "pf_intent_digest pf \<noteq> []"
    using parse_intent_facts(4) [OF preflight_intent [OF pre]] f(2)
    by (auto simp: obj_get_def compute_intent_digest_def sha256_digest_def exn_simps)
  then have parity: "check_parity (pf_intent pf) (ad_document ad) = Inr ()"
    using f(1,2) assms(8) by (simp add: check_parity_Inr doc skeleton_get obj_get_def [of "pf_intent pf"])
  have digests: "check_digests ws (pf_intent pf) (ad_document ad) = Inr ()"
    by (rule prepared_digests_pass [OF pre assms(7) prep ffd]) (use link in \<open>simp add: linked_def\<close>)
  note signature = prepared_signature_passes [OF link prep ff]
  note fresh = prepared_is_fresh [OF link pre prep assms(5,6,14,15), of z']
  note scope = catalog_scope_passes [OF pre cat]
  have grants: "check_grants (ad_document ad) = Inr (allow_downloads grants, n, max_memory_bytes grants)"
  proof -
    have "obj_get (ad_document ad) ''resource_grants'' = grants_to_dict grants"
      by (simp add: doc skeleton_get_more(2))
    then show ?thesis using assms(10-13) by (simp add: check_grants_def grants_to_dict_def obj_get_def [of "[_, _, _]"])
  qed
  have exec: "obj_get (ad_document ad) ''execution_id'' = JStr (ge_execution_id env)" by (simp add: doc skeleton_get)
  obtain w where w: "pf_workload pf = JObj w" using scope(2) by blast
  obtain op where op: "pf_operation pf = JStr op" using f(4) by blast
  have "obj_get (pf_intent pf) ''operation'' = JStr op" "obj_get_default (pf_intent pf) ''workload'' (JObj []) = JObj w"
    using f(3,6) op w by (simp_all add: obj_get_def obj_get_default_def)
  then obtain ctx where "build_context ws (pf_intent pf) (ad_document ad)
      (allow_downloads grants, n, max_memory_bytes grants) = Inr ctx"
    "pc_execution_id ctx = JStr (ge_execution_id env)" "pc_intent ctx = pf_intent pf"
    "pc_admission ctx = ad_document ad" "JStr (pc_operation ctx) = pf_operation pf"
    using op exec by (simp add: build_context_def Let_def doc skeleton_get_more(4))
  then show ?thesis
    using parity digests signature fresh scope(1) grants exec assms(9)
    by (simp add: preflight_validate_def sent obj_get_def [of "[_, _, _]"])
qed


definition linked_worker :: worker_services where
  "linked_worker = \<lparr>ws_sha = (\<lambda>s. zeros), ws_verify = (\<lambda>k m s. True), ws_fromiso = parse_stamp,
     ws_loads = (\<lambda>s. None), ws_str = (\<lambda>v. [])\<rparr>"

definition sample_validator :: preflight_validator where
  "sample_validator = \<lparr>pv_trusted_keys = [(''k'', zeros)], pv_pinned_key_ids = [''k''],
     pv_trusted_public_key_hex = None\<rparr>"

lemma zeros_key: "fromhex zeros = Some (replicate 32 (char_of (0 :: nat)))"
  by code_simp

lemma sample_linked: "linked gate_services linked_worker sample_gate sample_validator"
proof -
  have "fromhex ''00'' = Some [char_of (0 :: nat)]" by code_simp
  then show ?thesis
    using parse_stamp_text stamp_text_nonempty zeros_key
    by (simp add: linked_def gate_services_def linked_worker_def sample_gate_def sample_validator_def
        parse_stamp_def del: stamp_text.simps)
qed

lemma sample_authorized:
  "admit_preflight gate_services sample_gate (RawDict sample_intent) sample_credentials
     (ge_now (sample_env :: json list gate_env)) = Inr sample_preflight"
  "g_catalog sample_gate = init_catalog FROZEN_CATALOG_REF None None None"
  "float_free (JObj (pf_intent sample_preflight))" "0 \<le> g_admission_ttl_seconds sample_gate"
  "pf_intent_id sample_preflight \<noteq> []" "timeout_seconds sample_grants = JInt 900"
  "1 \<le> max_memory_bytes sample_grants"
  "admission_expiry gate_services sample_gate (pf_intent sample_preflight) (Aware 1000000 0)
     = Inr (Aware 301000000 0)"
proof -
  show "admission_expiry gate_services sample_gate (pf_intent sample_preflight) (Aware 1000000 0)
      = Inr (Aware 301000000 0)"
    using parse_stamp_text [of 9000000000 0]
    by (simp add: admission_expiry_def sample_preflight_def sample_intent_def gate_services_def
        sample_gate_def del: stamp_text.simps)
qed (use sample_admit_preflight in \<open>simp_all add: sample_preflight_def sample_intent_def sample_workload_def
    sample_gate_def sample_grants_def\<close>)


section \<open>The queue accepts the worker's result\<close>

lemma receipt_lineage_Inr:
  assumes "receipt_lineage (receipt_for ctx commit) = Inr lineage" and "pc_intent_id ctx \<noteq> JNull"
  shows "lineage =
      [(''controller_commit'', pc_controller_commit ctx), (''intent_id'', pc_intent_id ctx),
       (''intent_digest'', pc_intent_digest ctx), (''admission_id'', pc_admission_id ctx),
       (''admission_digest'', pc_admission_digest ctx), (''execution_id'', pc_execution_id ctx)]"
    and "list_all (\<lambda>(k, v). is_str v) lineage"
proof -
  have str: "is_str v" if "require_match p v = Inr ()" for p v
    using that by (cases v) (auto simp: require_match_def split: if_splits)
  from assms show "lineage =
      [(''controller_commit'', pc_controller_commit ctx), (''intent_id'', pc_intent_id ctx),
       (''intent_digest'', pc_intent_digest ctx), (''admission_id'', pc_admission_id ctx),
       (''admission_digest'', pc_admission_digest ctx), (''execution_id'', pc_execution_id ctx)]"
    by (auto simp: receipt_lineage_def receipt_for_def bindE_eq_Inr)
  from assms str show "list_all (\<lambda>(k, v). is_str v) lineage"
    by (auto simp: receipt_lineage_def receipt_for_def bindE_eq_Inr)
qed

text \<open>What the schemas and the catalog demand of a bundle, as far as the two sides read it.\<close>

definition str_field :: "(string \<times> json) list \<Rightarrow> string \<Rightarrow> bool" where
  "str_field d k \<longleftrightarrow> (\<exists>s. map_of d k = Some (JStr s))"

definition typed_bundle ::
  "(string \<times> json) list \<Rightarrow> (string \<times> json) list \<Rightarrow> (string \<times> json) list \<Rightarrow> (string \<times> json) list \<Rightarrow>
   (string \<times> json) list \<Rightarrow> bool" where
  "typed_bundle doc intent admission w pc \<longleftrightarrow>
     map_of doc ''intent'' = Some (JObj intent) \<and> map_of doc ''admission'' = Some (JObj admission) \<and>
     map_of intent ''workload'' = Some (JObj w) \<and> map_of admission ''policy_context'' = Some (JObj pc) \<and>
     list_all (str_field intent) [''intent_id'', ''intent_digest'', ''operation''] \<and>
     list_all (str_field admission) [''execution_id'', ''admission_id'', ''admission_digest''] \<and>
     list_all (str_field w) [''model_plugin_id'', ''dataset_id'', ''requested_scope''] \<and>
     map_of w ''catalog_backend_ref'' = Some (JStr FROZEN_CATALOG_REF) \<and> str_field pc ''controller_commit''"

definition context_of ::
  "preflight_context \<Rightarrow> (string \<times> json) list \<Rightarrow> (string \<times> json) list \<Rightarrow> (string \<times> json) list \<Rightarrow>
   (string \<times> json) list \<Rightarrow> bool" where
  "context_of ctx intent admission w pc \<longleftrightarrow>
     map_of intent ''intent_id'' = Some (pc_intent_id ctx) \<and>
     map_of intent ''intent_digest'' = Some (pc_intent_digest ctx) \<and>
     map_of intent ''operation'' = Some (JStr (pc_operation ctx)) \<and>
     map_of admission ''execution_id'' = Some (pc_execution_id ctx) \<and>
     map_of admission ''admission_id'' = Some (pc_admission_id ctx) \<and>
     map_of admission ''admission_digest'' = Some (pc_admission_digest ctx) \<and>
     map_of w ''model_plugin_id'' = Some (JStr (pc_model_plugin_id ctx)) \<and>
     map_of w ''dataset_id'' = Some (JStr (pc_dataset_id ctx)) \<and>
     map_of w ''requested_scope'' = Some (JStr (pc_requested_scope ctx)) \<and>
     map_of pc ''controller_commit'' = Some (pc_controller_commit ctx) \<and> pc_intent_id ctx \<noteq> JNull"

lemma preflight_context_of:
  assumes "typed_bundle doc intent admission w pc" and "preflight_validate ws pv (JObj doc) now = Inr ctx"
  shows "context_of ctx intent admission w pc"
proof -
  obtain b i a grants where f: "JObj doc = JObj b" "obj_get b ''intent'' = JObj i"
    "obj_get b ''admission'' = JObj a" "build_context ws i a grants = Inr ctx"
    using assms(2) by (rule preflight_validate_Inr)
  then have "i = intent" "a = admission" using assms(1) by (auto simp: typed_bundle_def obj_get_def)
  with f(4) assms(1) show ?thesis
    by (auto simp: build_context_def Let_def typed_bundle_def context_of_def str_field_def obj_get_def
        obj_get_default_def)
qed

lemma emitted_receipt:
  assumes "emit_execution_receipt sha rx (receipt_for ctx commit) rn = Inr v" and "pc_intent_id ctx \<noteq> JNull"
  obtains stamp digest where "v = JObj
     [(''schema_version'', JStr ''1.0.0''), (''receipt_type'', JStr ''DELTAREDUCE_EXECUTION_RECEIPT''),
      (''provenance'', JObj
         [(''repository'', JStr ''chartjs333/delta''), (''backend_commit'', JStr DEFAULT_BACKEND_COMMIT),
          (''catalog_backend_ref'', JStr DEFAULT_BACKEND_COMMIT), (''producer_commit'', JStr commit),
          (''produced_at'', JStr stamp), (''controller_commit'', pc_controller_commit ctx),
          (''intent_id'', pc_intent_id ctx), (''intent_digest'', pc_intent_digest ctx),
          (''admission_id'', pc_admission_id ctx), (''admission_digest'', pc_admission_digest ctx),
          (''execution_id'', pc_execution_id ctx)]),
      (''workload'', JObj
         [(''model_plugin_id'', JStr (pd_plugin_id (bn_model_descriptor (rn_binding rn)))),
          (''dataset_id'', JStr (dd_dataset_id (bn_dataset_descriptor (rn_binding rn)))),
          (''executed_scope'', JStr (rn_execution_scope rn)), (''workload_config_digest'', JStr digest)]),
      (''execution'', JObj [(''verdict'', JStr ''SUCCESS''), (''terminal_status'', JStr ''COMPLETED'')])]"
    and "float_free v"
proof -
  obtain producer lineage where p: "resolve_producer_commit rx (Some commit) = Inr producer"
    and l: "receipt_lineage (receipt_for ctx commit) = Inr lineage"
    using assms(1) by (auto simp: emit_execution_receipt_def bindE_eq_Inr receipt_for_def)
  have "producer = commit" using p by (auto simp: resolve_producer_commit_def bindE_eq_Inr Let_def)
  moreover note receipt_lineage_Inr [OF l assms(2)]
  ultimately show thesis
    using assms(1) p l
    by (intro that) (auto simp: emit_execution_receipt_def bindE_eq_Inr resolve_catalog_ref_def
        receipt_for_def Let_def is_str_iff)
qed

lemma dispatch_completed:
  fixes dv :: "('s, 'm, 't) dispatch_env"
  assumes "worker_dispatch ws dv di None ctx = Inr wr" and "dv_override dv = None"
    and "registry_ok pd_plugin_id (dv_models dv)" and "registry_ok dd_dataset_id (dv_datasets dv)"
    and "di_producer_commit di = Some commit"
  obtains extra receipt where "wr = completed_result ctx (pc_operation ctx) extra receipt"
    and "pc_operation ctx = ''MATERIALIZE_DATASET'' \<longrightarrow> receipt = JNull"
    and "pc_operation ctx \<noteq> ''MATERIALIZE_DATASET'' \<longrightarrow>
      (\<exists>rn :: ('s, 'm, 't) runner. emit_execution_receipt (ws_sha ws) (dv_receipt dv) (receipt_for ctx commit) rn = Inr receipt \<and>
        pd_plugin_id (bn_model_descriptor (rn_binding rn)) = pc_model_plugin_id ctx \<and>
        dd_dataset_id (bn_dataset_descriptor (rn_binding rn)) = pc_dataset_id ctx \<and>
        rn_execution_scope rn = pc_requested_scope ctx)"
    and "map fst extra \<in> {[''result_metadata''], [''metrics''], [''materialize_info'']}"
proof -
  from assms obtain rn where run: "init_model_runner (dv_models dv) (dv_datasets dv) (dv_call dv)
      (pc_model_plugin_id ctx) (pc_dataset_id ctx) (pc_requested_scope ctx) = Inr rn"
    and t: "timed_run ws dv di ctx commit = Inr wr"
    by (auto simp: worker_dispatch_def Let_def bindE_eq_Inr timed_run_def split: if_splits)
  note b = init_model_runner_facts [OF run]
  note ids = bind_facts(1,2) [OF b(1) assms(3,4)]
  have op: "pc_operation ctx = ''TRAIN_TICKET'' \<and> execute_train_ticket ws dv rn ctx commit = Inr wr \<or>
      pc_operation ctx = ''EVALUATE_CHECKPOINT'' \<and> execute_evaluate_checkpoint ws dv rn ctx commit = Inr wr \<or>
      pc_operation ctx = ''MATERIALIZE_DATASET'' \<and> execute_materialize_dataset dv di rn ctx = Inr wr"
    using t run assms(2) by (auto simp: timed_run_def bindE_eq_Inr split: if_splits)
  have emitted: "\<exists>extra receipt rn'. wr = completed_result ctx (pc_operation ctx) extra receipt \<and>
      rn_binding rn' = rn_binding rn \<and> rn_execution_scope rn' = rn_execution_scope rn \<and>
      emit_execution_receipt (ws_sha ws) (dv_receipt dv) (receipt_for ctx commit) rn' = Inr receipt \<and>
      map fst extra \<in> {[''result_metadata''], [''metrics''], [''materialize_info'']}"
    if other: "pc_operation ctx \<noteq> ''MATERIALIZE_DATASET''"
  proof -
    consider (train) "pc_operation ctx = ''TRAIN_TICKET''" "execute_train_ticket ws dv rn ctx commit = Inr wr"
      | (eval) "pc_operation ctx = ''EVALUATE_CHECKPOINT''" "execute_evaluate_checkpoint ws dv rn ctx commit = Inr wr"
      using op other by blast
    then show ?thesis
    proof cases
      case train
      from train(2) obtain ticket_id partition_id result rn' receipt where
        e: "train_ticket ticket_id partition_id None rn = Inr (result, rn')"
          "emit_execution_receipt (ws_sha ws) (dv_receipt dv) (receipt_for ctx commit) rn' = Inr receipt"
          "wr = completed_result ctx ''TRAIN_TICKET'' [(''result_metadata'', JObj (lt_metadata result))] receipt"
        by (auto simp: execute_train_ticket_def bindE_eq_Inr split: prod.splits)
      from e(1) have "rn_binding rn' = rn_binding rn" "rn_execution_scope rn' = rn_execution_scope rn"
        by (auto simp: train_ticket_def bindE_eq_Inr)
      with e train(1) show ?thesis
        by (intro exI [of _ "[(''result_metadata'', JObj (lt_metadata result))]"] exI [of _ receipt] exI [of _ rn'])
           simp
    next
      case eval
      from eval(2) obtain coordinates result rn' receipt where
        e: "evaluate_checkpoint coordinates rn = Inr (result, rn')"
          "emit_execution_receipt (ws_sha ws) (dv_receipt dv) (receipt_for ctx commit) rn' = Inr receipt"
          "wr = completed_result ctx ''EVALUATE_CHECKPOINT'' [(''metrics'', JObj (ev_metrics result))] receipt"
        by (auto simp: execute_evaluate_checkpoint_def bindE_eq_Inr split: prod.splits option.splits)
      from e(1) have "rn_binding rn' = rn_binding rn" "rn_execution_scope rn' = rn_execution_scope rn"
        by (auto simp: evaluate_checkpoint_def bindE_eq_Inr)
      with e eval(1) show ?thesis
        by (intro exI [of _ "[(''metrics'', JObj (ev_metrics result))]"] exI [of _ receipt] exI [of _ rn']) simp
    qed
  qed
  show thesis
  proof (cases "pc_operation ctx = ''MATERIALIZE_DATASET''")
    case True
    with op obtain info where "wr = completed_result ctx (pc_operation ctx) [(''materialize_info'', JObj info)] JNull"
      by (auto simp: execute_materialize_dataset_def bindE_eq_Inr)
    with True show thesis by (intro that [of "[(''materialize_info'', JObj info)]" JNull]) simp_all
  next
    case False
    from emitted [OF False] obtain extra receipt rn' where e: "wr = completed_result ctx (pc_operation ctx) extra receipt"
      "rn_binding rn' = rn_binding rn" "rn_execution_scope rn' = rn_execution_scope rn"
      "emit_execution_receipt (ws_sha ws) (dv_receipt dv) (receipt_for ctx commit) rn' = Inr receipt"
      "map fst extra \<in> {[''result_metadata''], [''metrics''], [''materialize_info'']}"
      by (elim exE conjE)
    show thesis
    proof (rule that [OF e(1)])
      show "pc_operation ctx \<noteq> ''MATERIALIZE_DATASET'' \<longrightarrow>
       (\<exists>rn :: ('s, 'm, 't) runner. emit_execution_receipt (ws_sha ws) (dv_receipt dv) (receipt_for ctx commit) rn = Inr receipt \<and>
        pd_plugin_id (bn_model_descriptor (rn_binding rn)) = pc_model_plugin_id ctx \<and>
        dd_dataset_id (bn_dataset_descriptor (rn_binding rn)) = pc_dataset_id ctx \<and>
        rn_execution_scope rn = pc_requested_scope ctx)"
        using e b(2) ids by (intro impI exI [of _ rn']) simp
    qed (use False e(5) in simp_all)
  qed
qed

lemma emitted_receipt_accepted:
  assumes typed: "typed_bundle doc intent admission w pc" and ctx: "context_of ctx intent admission w pc"
    and e: "emit_execution_receipt sha rx (receipt_for ctx commit) rn = Inr receipt"
    and ids: "pd_plugin_id (bn_model_descriptor (rn_binding rn)) = pc_model_plugin_id ctx"
      "dd_dataset_id (bn_dataset_descriptor (rn_binding rn)) = pc_dataset_id ctx"
      "rn_execution_scope rn = pc_requested_scope ctx"
    and "svc_schema svc ''receipt-lineage'' receipt" and "svc_sha svc = sha"
    and "jcs_dumps receipt = Inr bytes"
  shows "terminal_receipt_check svc commit (JObj doc) (pc_execution_id ctx) (pc_intent_id ctx) receipt
     (JStr (sha256_prefixed sha bytes)) = Inr ()" and "is_obj receipt"
proof -
  have known: "pc_intent_id ctx \<noteq> JNull" using ctx by (simp add: context_of_def)
  obtain stamp digest where v: "receipt = JObj
     [(''schema_version'', JStr ''1.0.0''), (''receipt_type'', JStr ''DELTAREDUCE_EXECUTION_RECEIPT''),
      (''provenance'', JObj
         [(''repository'', JStr ''chartjs333/delta''), (''backend_commit'', JStr DEFAULT_BACKEND_COMMIT),
          (''catalog_backend_ref'', JStr DEFAULT_BACKEND_COMMIT), (''producer_commit'', JStr commit),
          (''produced_at'', JStr stamp), (''controller_commit'', pc_controller_commit ctx),
          (''intent_id'', pc_intent_id ctx), (''intent_digest'', pc_intent_digest ctx),
          (''admission_id'', pc_admission_id ctx), (''admission_digest'', pc_admission_digest ctx),
          (''execution_id'', pc_execution_id ctx)]),
      (''workload'', JObj
         [(''model_plugin_id'', JStr (pd_plugin_id (bn_model_descriptor (rn_binding rn)))),
          (''dataset_id'', JStr (dd_dataset_id (bn_dataset_descriptor (rn_binding rn)))),
          (''executed_scope'', JStr (rn_execution_scope rn)), (''workload_config_digest'', JStr digest)]),
      (''execution'', JObj [(''verdict'', JStr ''SUCCESS''), (''terminal_status'', JStr ''COMPLETED'')])]"
    and ff: "float_free receipt"
    using e known by (rule emitted_receipt)
  show "is_obj receipt" by (simp add: v)
  have bytes: "canonicalize_jcs receipt = Inr bytes" using assms(9) jcs_dumps_canonicalize [OF ff] by simp
  have refs: "DEFAULT_BACKEND_COMMIT = FROZEN_CATALOG_REF"
    by (simp add: DEFAULT_BACKEND_COMMIT_def FROZEN_CATALOG_REF_def)
  have valid: "schema_validate svc ''receipt-lineage'' receipt = Inr ()"
    using assms(7) by (simp add: schema_validate_Inr)
  have sub: "sub_item (JObj doc) ''intent'' ''intent_digest'' = Inr (pc_intent_digest ctx)"
    "sub_item (JObj doc) ''admission'' ''admission_id'' = Inr (pc_admission_id ctx)"
    "sub_item (JObj doc) ''admission'' ''admission_digest'' = Inr (pc_admission_digest ctx)"
    "sub_item (JObj doc) ''admission'' ''policy_context'' = Inr (JObj pc)"
    "sub_item (JObj doc) ''intent'' ''workload'' = Inr (JObj w)"
    using typed ctx by (simp_all add: sub_item_def typed_bundle_def context_of_def)
  have items: "getitem (JObj pc) ''controller_commit'' = Inr (pc_controller_commit ctx)"
    "getitem (JObj w) ''catalog_backend_ref'' = Inr (JStr FROZEN_CATALOG_REF)"
    "getitem (JObj w) ''model_plugin_id'' = Inr (JStr (pc_model_plugin_id ctx))"
    "getitem (JObj w) ''dataset_id'' = Inr (JStr (pc_dataset_id ctx))"
    "getitem (JObj w) ''requested_scope'' = Inr (JStr (pc_requested_scope ctx))"
    using typed ctx by (simp_all add: typed_bundle_def context_of_def)
  let ?lineage = "[(''intent_id'', pc_intent_id ctx), (''intent_digest'', pc_intent_digest ctx),
         (''admission_id'', pc_admission_id ctx), (''admission_digest'', pc_admission_digest ctx),
         (''execution_id'', pc_execution_id ctx), (''controller_commit'', pc_controller_commit ctx),
         (''catalog_backend_ref'', JStr FROZEN_CATALOG_REF), (''backend_commit'', JStr FROZEN_CATALOG_REF),
         (''producer_commit'', JStr commit)]"
  let ?workload = "[(''model_plugin_id'', JStr (pc_model_plugin_id ctx)), (''dataset_id'', JStr (pc_dataset_id ctx)),
         (''executed_scope'', JStr (pc_requested_scope ctx))]"
  obtain r where r: "receipt = JObj r"
    "forE (\<lambda>(k, v). must_equal (obj_get_default r ''provenance'' (JObj [])) k v) ?lineage = Inr ()"
    "forE (\<lambda>(k, v). must_equal (obj_get_default r ''workload'' (JObj [])) k v) ?workload = Inr ()"
    by (simp add: v must_equal_def obj_get_default_def obj_get_def refs ids)
  show "terminal_receipt_check svc commit (JObj doc) (pc_execution_id ctx) (pc_intent_id ctx) receipt
     (JStr (sha256_prefixed sha bytes)) = Inr ()"
    using valid sub items r bytes assms(8)
    by (simp add: terminal_receipt_check_def sha256_prefixed_def sha256_digest_def del: forE.simps getitem.simps)
qed

lemma gate_bundle_typed:
  assumes pre: "admit_preflight svc g raw credentials now = Inr pf"
    and cat: "g_catalog g = init_catalog FROZEN_CATALOG_REF None None None"
    and prep: "prepare_admission svc g pf grants env = Inr ad" and "ad_bundle ad = JObj doc"
  shows "\<exists>w pc. typed_bundle doc (pf_intent pf) (ad_document ad) w pc"
proof -
  obtain x s where doc: "ad_document ad = admission_skeleton svc g pf grants env x @
           [(''admission_digest'', JStr (ad_digest ad)),
            (''authenticator'', JObj (authenticator g @ [(''signature'', JStr s)]))]"
    and sent: "ad_bundle ad = JObj [(''schema_version'', JStr ''1.0.0''), (''intent'', JObj (pf_intent pf)),
           (''admission'', JObj (ad_document ad))]"
    using prep by (rule prepare_admission_facts)
  note f = preflight_fields [OF pre]
  have some: "map_of d k = Some v" if "obj_get d k = v" "v \<noteq> JNull" for d k v
    using that by (auto simp: obj_get_def split: option.splits)
  obtain w scope where w: "pf_workload pf = JObj w" "obj_get w ''requested_scope'' = JStr scope"
    "obj_get w ''model_plugin_id'' = JStr ''tabular-10gene-phenotype-v1''"
    "obj_get w ''dataset_id'' = JStr ''synthetic-10gene-cohort-v1''"
    "obj_get w ''catalog_backend_ref'' = JStr FROZEN_CATALOG_REF"
    using catalog_scope_passes(2) [OF pre cat] by blast
  have "typed_bundle doc (pf_intent pf) (ad_document ad) w [(''policy_version'', JStr (g_policy_version g)),
          (''controller_commit'', JStr (g_controller_commit g)), (''verdict'', JStr ''ADMITTED'')]"
    using f(1-4,6) some [OF w(2)] some [OF w(3)] some [OF w(4)] some [OF w(5)] w(1) sent assms(4)
    by (auto simp: typed_bundle_def str_field_def doc admission_skeleton_def)
  then show ?thesis by blast
qed

text \<open>The two failure documents carry the identity of the bundle too.\<close>

lemma failure_accepted:
  assumes "typed_bundle doc intent admission w pc"
    and "map_of intent ''operation'' = Some op" and "map_of intent ''intent_id'' = Some i"
    and "map_of admission ''execution_id'' = Some e" and "is_obj err" and "svc_schema svc ''preflight-error'' err"
    and "status \<in> {''FAILED'', ''TIMED_OUT'', ''CANCELLED''}" and "status = ''FAILED'' \<or> dispatched"
    and "r = [(''dispatched'', JBool dispatched), (''execution_id'', e), (''intent_id'', i), (''operation'', op),
          (''status'', JStr status), (''error'', err), (''receipt'', JNull), (''receipt_digest'', JNull)]"
  shows "validate_terminal_result svc commit (JObj doc) (JObj r) = Inr r"
proof -
  have "sub_item (JObj doc) ''admission'' ''execution_id'' = Inr e" "sub_item (JObj doc) ''intent'' ''intent_id'' = Inr i"
    "sub_item (JObj doc) ''intent'' ''operation'' = Inr op"
    using assms by (simp_all add: sub_item_def typed_bundle_def)
  moreover have "schema_validate svc ''preflight-error'' err = Inr ()" using assms(6) by (simp add: schema_validate_Inr)
  moreover have "status \<in> set TERMINAL_STATUSES" "status \<noteq> ''COMPLETED''"
    using assms(7) by (auto simp: TERMINAL_STATUSES_def)
  ultimately show ?thesis
    using assms(5,8) by (auto simp: validate_terminal_result_def assms(9) must_equal_def obj_get_def)
qed

lemma completed_accepted:
  fixes dv :: "('s, 'm, 't) dispatch_env"
  assumes typed: "typed_bundle doc intent admission w pc" and ctx: "context_of ctx intent admission w pc"
    and d: "worker_dispatch ws dv di None ctx = Inr wr" and r: "dispatched_result ws ctx wr = Inr result"
    and env: "dv_override dv = None" "registry_ok pd_plugin_id (dv_models dv)"
      "registry_ok dd_dataset_id (dv_datasets dv)" "di_producer_commit di = Some commit"
    and sha: "svc_sha svc = ws_sha ws"
    and schema: "\<And>v. dict_get result ''receipt'' = Inr v \<Longrightarrow> v \<noteq> JNull \<Longrightarrow> svc_schema svc ''receipt-lineage'' v"
  shows "\<exists>r. validate_terminal_result svc commit (JObj doc) result = Inr r \<and> result = JObj r \<and>
    obj_get r ''status'' = JStr ''COMPLETED''"
proof -
  obtain extra receipt where wr: "wr = completed_result ctx (pc_operation ctx) extra receipt"
    and none: "pc_operation ctx = ''MATERIALIZE_DATASET'' \<longrightarrow> receipt = JNull"
    and some: "pc_operation ctx \<noteq> ''MATERIALIZE_DATASET'' \<longrightarrow>
      (\<exists>rn :: ('s, 'm, 't) runner. emit_execution_receipt (ws_sha ws) (dv_receipt dv) (receipt_for ctx commit) rn = Inr receipt \<and>
        pd_plugin_id (bn_model_descriptor (rn_binding rn)) = pc_model_plugin_id ctx \<and>
        dd_dataset_id (bn_dataset_descriptor (rn_binding rn)) = pc_dataset_id ctx \<and>
        rn_execution_scope rn = pc_requested_scope ctx)"
    and extra: "map fst extra \<in> {[''result_metadata''], [''metrics''], [''materialize_info'']}"
    using d env by (rule dispatch_completed)
  from extra obtain k v where "extra = [(k, v)]" "k \<in> {''result_metadata'', ''metrics'', ''materialize_info''}"
    by (cases extra) auto
  then have get: "dict_get wr ''receipt'' = Inr receipt" "dict_get wr ''status'' = Inr (JStr ''COMPLETED'')"
    by (auto simp: wr completed_result_def obj_get_def)
  obtain metrics info digest where res: "result = JObj [(''dispatched'', JBool True), (''execution_id'', pc_execution_id ctx),
      (''intent_id'', pc_intent_id ctx), (''operation'', JStr (pc_operation ctx)), (''status'', JStr ''COMPLETED''),
      (''receipt'', receipt), (''receipt_digest'', digest), (''metrics'', metrics), (''materialize_info'', info)]"
    and digest: "(case receipt of JObj f \<Rightarrow> bindE (jcs_dumps receipt) (\<lambda>b. Inr (JStr (sha256_prefixed (ws_sha ws) b)))
      | _ \<Rightarrow> Inr JNull) = Inr digest"
    using r get by (auto simp: dispatched_result_def bindE_eq_Inr simp del: jcs_dumps.simps)
  have sub: "sub_item (JObj doc) ''admission'' ''execution_id'' = Inr (pc_execution_id ctx)"
    "sub_item (JObj doc) ''intent'' ''intent_id'' = Inr (pc_intent_id ctx)"
    "sub_item (JObj doc) ''intent'' ''operation'' = Inr (JStr (pc_operation ctx))"
    using typed ctx by (simp_all add: sub_item_def typed_bundle_def context_of_def)
  have check: "(if pc_operation ctx = ''MATERIALIZE_DATASET''
       then ensure (receipt = JNull \<and> digest = JNull) WorkerDispatchFailedError
       else terminal_receipt_check svc commit (JObj doc) (pc_execution_id ctx) (pc_intent_id ctx) receipt digest)
       = Inr ()"
  proof (cases "pc_operation ctx = ''MATERIALIZE_DATASET''")
    case True
    with none digest show ?thesis by simp
  next
    case False
    from some False obtain rn :: "('s, 'm, 't) runner" where
      e: "emit_execution_receipt (ws_sha ws) (dv_receipt dv) (receipt_for ctx commit) rn = Inr receipt"
        "pd_plugin_id (bn_model_descriptor (rn_binding rn)) = pc_model_plugin_id ctx"
        "dd_dataset_id (bn_dataset_descriptor (rn_binding rn)) = pc_dataset_id ctx"
        "rn_execution_scope rn = pc_requested_scope ctx" by auto
    have "float_free receipt" "is_obj receipt"
      using e(1) ctx by (auto simp: context_of_def elim!: emitted_receipt)
    then obtain bytes where b: "jcs_dumps receipt = Inr bytes" "digest = JStr (sha256_prefixed (ws_sha ws) bytes)"
      using digest by (auto simp: jcs_dumps_float_free is_obj_iff simp del: jcs_dumps.simps)
    have "svc_schema svc ''receipt-lineage'' receipt"
      using schema [of receipt] \<open>is_obj receipt\<close> by (cases receipt) (simp_all add: res obj_get_def)
    from emitted_receipt_accepted(1) [OF typed ctx e this sha b(1)] False b(2) show ?thesis by simp
  qed
  show ?thesis
    using sub check
    by (cases "pc_operation ctx = ''MATERIALIZE_DATASET''")
       (simp_all add: validate_terminal_result_def res must_equal_def obj_get_def TERMINAL_STATUSES_def)
qed


definition slow_env :: "(unit, unit, unit) dispatch_env" where
  "slow_env = \<lparr>dv_models = empty_registry, dv_datasets = empty_registry, dv_call = 0, dv_override = None,
     dv_cancelled = (\<lambda>_. False), dv_in_time = False,
     dv_receipt = \<lparr>rx_environ = [], rx_git_head = None, rx_now = ''t''\<rparr>, dv_coordinate_count = (\<lambda>_. 0)\<rparr>"

definition sample_process :: process_config where
  "sample_process = \<lparr>pr_trusted_keys = [(''k'', zeros)], pr_trusted_issuer_id = ''issuer'',
     pr_producer_commit = replicate 40 (CHR ''a''), pr_cache_root = [''cache'']\<rparr>"


end
