(* ===== verification/Url_Split.thy ===== *)
theory Url_Split
  imports Json
begin

text \<open>
  \<open>urllib.parse\<close> as the controller uses it: \<open>urlsplit\<close> of an origin or of a request target, the
  parts \<open>hostname\<close>, \<open>port\<close>, \<open>username\<close> and \<open>password\<close> of the result, and \<open>unquote\<close>. The two checks of an
  authority that need tables (the address inside brackets, and that no character of it becomes
  a delimiter under NFKC) are the predicate \<open>netloc_ok\<close>.
\<close>

record split_url =
  su_scheme :: string
  su_netloc :: string
  su_path :: string
  su_query :: string
  su_fragment :: string

definition is_ascii_alpha :: "char \<Rightarrow> bool" where
  "is_ascii_alpha c \<longleftrightarrow>
     (65 \<le> (of_char c :: nat) \<and> (of_char c :: nat) \<le> 90) \<or>
     (97 \<le> (of_char c :: nat) \<and> (of_char c :: nat) \<le> 122)"

definition is_scheme_char :: "char \<Rightarrow> bool" where
  "is_scheme_char c \<longleftrightarrow> is_ascii_alpha c \<or> is_digit c \<or> c \<in> {CHR ''+'', CHR ''-'', CHR ''.''}"

definition ascii_lower :: "string \<Rightarrow> string" where
  "ascii_lower = map (\<lambda>c. if 65 \<le> (of_char c :: nat) \<and> (of_char c :: nat) \<le> 90
                           then char_of (of_char c + 32 :: nat) else c)"

definition strip_controls :: "string \<Rightarrow> string" where
  "strip_controls s =
     filter (\<lambda>c. c \<notin> {CHR 0x09, CHR 0x0A, CHR 0x0D}) (dropWhile (\<lambda>c. (of_char c :: nat) \<le> 32) s)"

definition split_scheme :: "string \<Rightarrow> string \<times> string" where
  "split_scheme url =
     (let (a, found, b) = partition_at (CHR '':'') url in
      if found \<and> a \<noteq> [] \<and> is_ascii_alpha (hd a) \<and> list_all is_scheme_char a
      then (ascii_lower a, b) else ([], url))"

definition is_delimiter :: "char \<Rightarrow> bool" where
  "is_delimiter c \<longleftrightarrow> c \<in> {CHR ''/'', CHR ''?'', CHR ''#''}"

definition split_netloc :: "string \<Rightarrow> string \<times> string" where
  "split_netloc url =
     (if take 2 url = ''//''
      then (takeWhile (\<lambda>c. \<not> is_delimiter c) (drop 2 url), dropWhile (\<lambda>c. \<not> is_delimiter c) (drop 2 url))
      else ([], url))"

definition urlsplit :: "(string \<Rightarrow> bool) \<Rightarrow> string \<Rightarrow> split_url result" where
  "urlsplit netloc_ok s =
     (let (scheme, url1) = split_scheme (strip_controls s);
          (netloc, url2) = split_netloc url1;
          (url3, _, fragment) = partition_at (CHR ''#'') url2;
          (path, _, query) = partition_at (CHR ''?'') url3
      in bindE (ensure ((CHR ''['' \<in> set netloc) = (CHR '']'' \<in> set netloc) \<and> netloc_ok netloc) ValueError)
           (\<lambda>_. Inr \<lparr>su_scheme = scheme, su_netloc = netloc, su_path = path, su_query = query,
                    su_fragment = fragment\<rparr>))"

section \<open>The parts of an authority\<close>

text \<open>\<open>s.rpartition(c)\<close> without the separator.\<close>

definition rpartition_at :: "char \<Rightarrow> string \<Rightarrow> string \<times> bool \<times> string" where
  "rpartition_at c s =
     (let (a, found, b) = partition_at c (rev s) in (rev b, found, rev a))"

text \<open>The text before the last \<open>@\<close>: \<open>username\<close> is not \<open>None\<close> exactly if there is one, and \<open>password\<close> then if it has a colon.\<close>

definition url_userinfo :: "string \<Rightarrow> string option \<times> string option" where
  "url_userinfo netloc =
     (let (userinfo, have_info, _) = rpartition_at (CHR ''@'') netloc;
          (username, have_password, password) = partition_at (CHR '':'') userinfo
      in if have_info then (Some username, if have_password then Some password else None)
         else (None, None))"

definition url_hostinfo :: "string \<Rightarrow> string \<times> string" where
  "url_hostinfo netloc =
     (let (_, _, hostinfo) = rpartition_at (CHR ''@'') netloc;
          (_, have_open, bracketed) = partition_at (CHR ''['') hostinfo
      in if have_open
         then (let (hostname, _, rest) = partition_at (CHR '']'') bracketed;
                   (_, _, port) = partition_at (CHR '':'') rest in (hostname, port))
         else (let (hostname, _, port) = partition_at (CHR '':'') hostinfo in (hostname, port)))"

definition url_hostname :: "string \<Rightarrow> string option" where
  "url_hostname netloc = (let h = fst (url_hostinfo netloc) in if h = [] then None else Some (ascii_lower h))"

definition url_port :: "string \<Rightarrow> int option result" where
  "url_port netloc =
     (let port = snd (url_hostinfo netloc) in
      if port = [] then Inr None
      else if list_all is_digit port \<and> text_nat port \<le> 65535 then Inr (Some (int (text_nat port)))
      else Inl ValueError)"

section \<open>Percent decoding\<close>

definition hex_nibble :: "char \<Rightarrow> nat option" where
  "hex_nibble c =
     (let n = of_char c :: nat in
      if 48 \<le> n \<and> n \<le> 57 then Some (n - 48)
      else if 65 \<le> n \<and> n \<le> 70 then Some (n - 55)
      else if 97 \<le> n \<and> n \<le> 102 then Some (n - 87) else None)"

text \<open>
  \<open>unquote_to_bytes\<close>: the bytes a percent-encoded text stands for. \<open>unquote\<close> decodes them as UTF-8
  and puts a replacement character for what is not UTF-8; \<open>decode_replace\<close> is that decoder.
\<close>

fun unquote_bytes :: "string \<Rightarrow> string" where
  "unquote_bytes (c # h # l # cs) =
     (if c = CHR ''%'' then
        (case (hex_nibble h, hex_nibble l) of
           (Some a, Some b) \<Rightarrow> char_of (16 * a + b) # unquote_bytes cs
         | _ \<Rightarrow> c # unquote_bytes (h # l # cs))
      else c # unquote_bytes (h # l # cs))"
| "unquote_bytes cs = cs"

section \<open>Facts about the split\<close>

lemma partition_at_absent: "fst (snd (partition_at c s)) = (c \<in> set s)"
  by (induction s) (auto split: prod.splits)

lemma partition_at_head: "c \<notin> set (fst (partition_at c s))"
  by (induction s) (auto split: prod.splits)

lemma partition_at_none: "c \<notin> set s \<Longrightarrow> partition_at c s = (s, False, [])"
  by (induction s) auto

lemma partition_at_split: "c \<notin> set a \<Longrightarrow> partition_at c (a @ c # b) = (a, True, b)"
  by (induction a) auto

text \<open>A target that starts with a single slash and has no delimiter, control character or colon is its own path.\<close>

lemma urlsplit_plain:
  assumes "s = CHR ''/'' # t" and "t \<noteq> [] \<Longrightarrow> hd t \<noteq> CHR ''/''"
    and "\<forall>c\<in>set t. c \<notin> {CHR 0x09, CHR 0x0A, CHR 0x0D, CHR '':'', CHR ''?'', CHR ''#''}" and "ok []"
  shows "urlsplit ok s =
    Inr \<lparr>su_scheme = [], su_netloc = [], su_path = s, su_query = [], su_fragment = []\<rparr>"
proof -
  let ?bad = "{CHR 0x09, CHR 0x0A, CHR 0x0D, CHR '':'', CHR ''?'', CHR ''#''}"
  have clean: "\<forall>c\<in>set s. c \<notin> ?bad" using assms(3) unfolding assms(1) by simp
  have "filter (\<lambda>c. c \<notin> {CHR 0x09, CHR 0x0A, CHR 0x0D}) s = s"
    by (rule filter_True) (use clean in blast)
  then have strip: "strip_controls s = s" unfolding strip_controls_def by (simp add: assms(1))
  have absent: "CHR '':'' \<notin> set s" "CHR ''#'' \<notin> set s" "CHR ''?'' \<notin> set s" using clean by blast+
  have "split_netloc s = ([], s)"
    using assms(2) unfolding split_netloc_def assms(1) by (cases t) simp_all
  then show ?thesis
    using assms(4) by (simp add: urlsplit_def split_scheme_def strip partition_at_none absent)
qed

end
