(* ===== verification/Runtime_Config.thy ===== *)
theory Runtime_Config
  imports Url_Split Codec Gate
begin

text \<open>
  The fail-closed start of the controller, \<open>deltacontroller/runtime_config.py\<close>: the deployment
  descriptor, the signing identity with the worker's trust roots, and the lease of the data
  directory. The content of a file is given as text (\<open>None\<close> when it cannot be read) or as a
  dictionary from paths to contents; \<open>loads\<close> is \<open>json.loads\<close> with the hook that refuses
  non-finite constants; the third-party key library is the record \<open>key_library\<close>. A Python float is
  its \<open>repr\<close>.
\<close>

definition FORMAL_SEMANTICS_ID :: string where
  "FORMAL_SEMANTICS_ID = ''sha256:cc98f15ac20fc3ed265cb76682ca15a936e24660a651e2b8f81638abb3265cb6''"

definition HTTP_PROTOCOL_ID :: string where
  "HTTP_PROTOCOL_ID = ''deltareduce.step5c.http.v1''"

definition CONTRACT_SCHEMA_VERSION :: string where
  "CONTRACT_SCHEMA_VERSION = ''1.0.0''"

definition RUNTIME_DESCRIPTOR_VERSION :: string where
  "RUNTIME_DESCRIPTOR_VERSION = ''1.0.0''"

definition MAX_REQUEST_BYTES :: int where
  "MAX_REQUEST_BYTES = 10 * 1024 * 1024"

definition MAX_CONFIG_JSON_DEPTH :: int where
  "MAX_CONFIG_JSON_DEPTH = 32"

definition FIXTURE_KEY_IDS :: "string list" where
  "FIXTURE_KEY_IDS = [''step5c-fixture-ed25519'']"

definition FIXTURE_ISSUER_IDS :: "string list" where
  "FIXTURE_ISSUER_IDS = [''step5c-fixture-controller'']"

section \<open>The deployment descriptor\<close>

record working_config =
  cf_profile :: string
  cf_bind_host :: string
  cf_port :: int
  cf_allowed_origins :: "string list"
  cf_request_limit_bytes :: int
  cf_json_max_depth :: int
  cf_request_timeout_seconds :: string
  cf_max_inflight_requests :: int
  cf_request_queue_size :: int
  cf_worker_queue_capacity :: int
  cf_worker_processes :: int
  cf_shutdown_grace_seconds :: string
  cf_local_subject_id :: string
  cf_local_effective_roles :: "string list"
  cf_protocol_id :: string
  cf_contract_schema_version :: string
  cf_formal_semantics_id :: string

definition cf_is_local :: "working_config \<Rightarrow> bool" where
  "cf_is_local c \<longleftrightarrow> cf_profile c = ''LOCAL_LOOPBACK''"

fun require_object :: "json \<Rightarrow> (string \<times> json) list result" where
  "require_object (JObj kvs) = Inr kvs"
| "require_object _ = Inl ValueError"

fun require_int :: "json \<Rightarrow> int \<Rightarrow> int \<Rightarrow> int result" where
  "require_int (JInt i) lo hi = (if i < lo \<or> i > hi then Inl ValueError else Inr i)"
| "require_int _ lo hi = Inl ValueError"

text \<open>
  Comparison of a finite float with an integer. The \<open>repr\<close> of a float is the shortest decimal that
  rounds to it, so it lies on the same side of every integer as the float.
\<close>

definition float_scaled :: "string \<Rightarrow> int \<Rightarrow> int \<times> int" where
  "float_scaled t k =
     (let (neg, ds, e) = float_parts t; m = (if neg then - int (text_nat ds) else int (text_nat ds))
      in if 0 \<le> e then (m * 10 ^ nat e, k) else (m, k * 10 ^ nat (- e)))"

definition float_in_range :: "string \<Rightarrow> int \<Rightarrow> int \<Rightarrow> bool" where
  "float_in_range t lo hi \<longleftrightarrow>
     float_finite t \<and>
     snd (float_scaled t lo) \<le> fst (float_scaled t lo) \<and> fst (float_scaled t hi) \<le> snd (float_scaled t hi)"

text \<open>An integer outside the range is out of range as a float too, or raises \<open>OverflowError\<close>.\<close>

fun require_number :: "json \<Rightarrow> int \<Rightarrow> int \<Rightarrow> string result" where
  "require_number (JInt i) lo hi =
     (if i < lo \<or> i > hi then Inl ValueError else Inr (int_text i @ ''.0''))"
| "require_number (JFloat t) lo hi = (if float_in_range t lo hi then Inr t else Inl ValueError)"
| "require_number _ lo hi = Inl ValueError"

definition check_origin :: "(string \<Rightarrow> bool) \<Rightarrow> string \<Rightarrow> json \<Rightarrow> string result" where
  "check_origin netloc_ok profile v =
     (case v of
        JStr origin \<Rightarrow>
          bindE (ensure (origin \<noteq> [] \<and> CHR ''*'' \<notin> set origin) ValueError) (\<lambda>_.
          bindE (urlsplit netloc_ok origin) (\<lambda>u.
          bindE (url_port (su_netloc u)) (\<lambda>port.
          bindE (ensure (url_hostname (su_netloc u) \<noteq> None \<and> url_userinfo (su_netloc u) = (None, None) \<and>
                         su_path u = [] \<and> su_query u = [] \<and> su_fragment u = []) ValueError) (\<lambda>_.
          bindE (ensure (\<not> (profile = ''REMOTE_TLS'' \<and> su_scheme u \<noteq> ''https'')) ValueError) (\<lambda>_.
          bindE (ensure (case port of None \<Rightarrow> True | Some p \<Rightarrow> 1 \<le> p \<and> p \<le> 65535) ValueError) (\<lambda>_.
          Inr origin))))))
      | _ \<Rightarrow> Inl ValueError)"

definition loopback_origin :: "int \<Rightarrow> string" where
  "loopback_origin port = ''http://127.0.0.1'' @ (if port = 80 then [] else '':'' @ int_text port)"

definition check_bindings ::
  "(string \<Rightarrow> bool) \<Rightarrow> string \<Rightarrow> (string \<times> json) list \<Rightarrow> (string \<times> int \<times> string list) result" where
  "check_bindings netloc_ok profile bindings =
     (case obj_get bindings ''host'' of
        JStr bind_host \<Rightarrow>
          bindE (ensure (bind_host \<noteq> []) ValueError) (\<lambda>_.
          bindE (ensure (\<not> (profile = ''LOCAL_LOOPBACK'' \<and> bind_host \<noteq> ''127.0.0.1'')) ValueError) (\<lambda>_.
          bindE (require_int (obj_get bindings ''port'') 1 65535) (\<lambda>port.
          (case obj_get bindings ''allowed_origins'' of
             JArr raw_origins \<Rightarrow>
               bindE (ensure (raw_origins \<noteq> []) ValueError) (\<lambda>_.
               bindE (mapE (check_origin netloc_ok profile) raw_origins) (\<lambda>origins.
               bindE (ensure (distinct origins) ValueError) (\<lambda>_.
               bindE (ensure (\<not> (profile = ''LOCAL_LOOPBACK'' \<and> origins \<noteq> [loopback_origin port])) ValueError) (\<lambda>_.
               Inr (bind_host, port, origins)))))
           | _ \<Rightarrow> Inl ValueError))))
      | _ \<Rightarrow> Inl ValueError)"

definition check_protocol :: "(string \<times> json) list \<Rightarrow> unit result" where
  "check_protocol document =
     bindE (ensure (obj_get document ''protocol_id'' = JStr HTTP_PROTOCOL_ID) ValueError) (\<lambda>_.
     bindE (ensure (obj_get document ''contract_schema_version'' = JStr CONTRACT_SCHEMA_VERSION) ValueError) (\<lambda>_.
     ensure (obj_get document ''formal_semantics_id'' = JStr FORMAL_SEMANTICS_ID) ValueError))"

definition check_local_identity :: "(string \<times> json) list \<Rightarrow> (string \<times> string list) result" where
  "check_local_identity identity =
     (case (obj_get identity ''local_subject_id'', obj_get identity ''local_effective_roles'') of
        (JStr sid, JArr roles) \<Rightarrow>
          bindE (ensure (\<not> is_blank sid) ValueError) (\<lambda>_.
          bindE (ensure (roles \<noteq> []) ValueError) (\<lambda>_.
          (case str_list roles of None \<Rightarrow> Inl ValueError | Some rs \<Rightarrow> Inr (sid, rs))))
      | _ \<Rightarrow> Inl ValueError)"

definition check_limits ::
  "(string \<times> json) list \<Rightarrow> (int \<times> int) result" where
  "check_limits limits =
     bindE (require_int (obj_get limits ''request_bytes'') 1 MAX_REQUEST_BYTES) (\<lambda>request_limit.
     bindE (ensure (request_limit = MAX_REQUEST_BYTES) ValueError) (\<lambda>_.
     bindE (require_int (obj_get limits ''json_depth'') 1 MAX_CONFIG_JSON_DEPTH) (\<lambda>json_depth.
     bindE (ensure (json_depth = MAX_CONFIG_JSON_DEPTH) ValueError) (\<lambda>_.
     Inr (request_limit, json_depth)))))"

definition validated_config ::
  "(string \<Rightarrow> bool) \<Rightarrow> string \<Rightarrow> (string \<times> json) list \<Rightarrow> (string \<times> json) list \<Rightarrow> (string \<times> json) list \<Rightarrow>
   (string \<times> json) list \<Rightarrow> working_config result" where
  "validated_config netloc_ok profile document bindings limits identity =
     bindE (check_bindings netloc_ok profile bindings) (\<lambda>(bind_host, port, origins).
     bindE (check_protocol document) (\<lambda>_.
     bindE (check_limits limits) (\<lambda>(request_limit, json_depth).
     bindE (check_local_identity identity) (\<lambda>(sid, roles).
     bindE (require_number (obj_get limits ''request_timeout_seconds'') 1 120) (\<lambda>request_timeout.
     bindE (require_int (obj_get limits ''max_inflight_requests'') 1 1024) (\<lambda>max_inflight.
     bindE (require_int (obj_get limits ''request_queue_size'') 1 1024) (\<lambda>queue_size.
     bindE (require_int (obj_get limits ''worker_queue_capacity'') 1 128) (\<lambda>worker_queue.
     bindE (require_int (obj_get limits ''worker_processes'') 1 32) (\<lambda>worker_processes.
     bindE (require_number (obj_get limits ''shutdown_grace_seconds'') 0 300) (\<lambda>grace.
     Inr \<lparr>cf_profile = profile, cf_bind_host = bind_host, cf_port = port,
          cf_allowed_origins = origins, cf_request_limit_bytes = request_limit,
          cf_json_max_depth = json_depth, cf_request_timeout_seconds = request_timeout,
          cf_max_inflight_requests = max_inflight, cf_request_queue_size = queue_size,
          cf_worker_queue_capacity = worker_queue, cf_worker_processes = worker_processes,
          cf_shutdown_grace_seconds = grace, cf_local_subject_id = sid,
          cf_local_effective_roles = roles, cf_protocol_id = HTTP_PROTOCOL_ID,
          cf_contract_schema_version = CONTRACT_SCHEMA_VERSION,
          cf_formal_semantics_id = FORMAL_SEMANTICS_ID\<rparr>))))))))))"

definition load_working_version_config ::
  "(string \<Rightarrow> bool) \<Rightarrow> (string \<Rightarrow> json option) \<Rightarrow> string option \<Rightarrow> working_config result" where
  "load_working_version_config netloc_ok loads content =
     (case Option.bind content loads of
        None \<Rightarrow> Inl ValueError
      | Some v \<Rightarrow>
          bindE (require_object v) (\<lambda>document.
          bindE (ensure (obj_get document ''schema_version'' = JStr RUNTIME_DESCRIPTOR_VERSION) ValueError) (\<lambda>_.
          bindE (ensure (obj_get document ''build_id_source'' = JStr ''required-cli-argument'') ValueError) (\<lambda>_.
          bindE (require_object (obj_get document ''bindings'')) (\<lambda>bindings.
          bindE (require_object (obj_get document ''limits'')) (\<lambda>limits.
          bindE (require_object (obj_get document ''identity'')) (\<lambda>identity.
          bindE (hash_in [''LOCAL_LOOPBACK'', ''REMOTE_TLS''] (obj_get document ''profile'')) (\<lambda>known.
          (case obj_get document ''profile'' of
             JStr profile \<Rightarrow>
               bindE (ensure known ValueError) (\<lambda>_.
               validated_config netloc_ok profile document bindings limits identity)
           | _ \<Rightarrow> Inl ValueError)))))))))"

definition validate_build_id :: "string \<Rightarrow> string result" where
  "validate_build_id build_id = (if fullmatch_hex 40 build_id then Inr build_id else Inl ValueError)"

section \<open>The signing identity and the trust roots\<close>

record 'k key_library =
  kl_load_pem :: "string \<Rightarrow> 'k option result"
  kl_to_pem :: "'k \<Rightarrow> string"
  kl_public :: "'k \<Rightarrow> string"
  kl_sign :: "'k \<Rightarrow> string \<Rightarrow> string"

record runtime_identity =
  ri_signing_identity :: signing_identity
  ri_trust_roots_path :: string
  ri_public_key_hex :: string

type_synonym files = "(string, string) dict"

text \<open>
  \<open>_atomic_write\<close>. The temporary file replaces the target in one step; the write can fail before
  that step, or after it when the mode of the target cannot be set.
\<close>

datatype write_outcome = Written | NotWritten | WrittenNoMode

definition atomic_write :: "write_outcome \<Rightarrow> string \<Rightarrow> string \<Rightarrow> files \<Rightarrow> unit result \<times> files" where
  "atomic_write outcome path payload fs =
     (case outcome of
        Written \<Rightarrow> (Inr (), AList.update path payload fs)
      | NotWritten \<Rightarrow> (Inl OSError, fs)
      | WrittenNoMode \<Rightarrow> (Inl OSError, AList.update path payload fs))"

definition config_load_trust_roots ::
  "(string \<Rightarrow> json option) \<Rightarrow> string option \<Rightarrow> (string \<times> string \<times> string) result" where
  "config_load_trust_roots loads content =
     (case Option.bind content loads of
        None \<Rightarrow> Inl ValueError
      | Some v \<Rightarrow>
          bindE (require_object v) (\<lambda>document.
          bindE (ensure (set (map fst document) = {''schema_version'', ''issuer_id'', ''keys''}) ValueError) (\<lambda>_.
          bindE (ensure (obj_get document ''schema_version'' = JStr ''1.0.0'') ValueError) (\<lambda>_.
          (case obj_get document ''issuer_id'' of
             JStr issuer_id \<Rightarrow>
               bindE (ensure (issuer_id \<noteq> [] \<and> issuer_id \<notin> set FIXTURE_ISSUER_IDS) ValueError) (\<lambda>_.
               (case obj_get document ''keys'' of
                  JArr [JObj key] \<Rightarrow>
                    bindE (ensure (set (map fst key) = {''key_id'', ''algorithm'', ''public_key_hex''}) ValueError) (\<lambda>_.
                    (case obj_get key ''key_id'' of
                       JStr key_id \<Rightarrow>
                         bindE (ensure (key_id \<noteq> [] \<and> key_id \<notin> set FIXTURE_KEY_IDS) ValueError) (\<lambda>_.
                         bindE (ensure (obj_get key ''algorithm'' = JStr ''ED25519'') ValueError) (\<lambda>_.
                         (case obj_get key ''public_key_hex'' of
                            JStr public_key_hex \<Rightarrow>
                              bindE (ensure (fullmatch_hex 64 public_key_hex) ValueError) (\<lambda>_.
                              Inr (issuer_id, key_id, public_key_hex))
                          | _ \<Rightarrow> Inl ValueError)))
                     | _ \<Rightarrow> Inl ValueError))
                | _ \<Rightarrow> Inl ValueError))
           | _ \<Rightarrow> Inl ValueError)))))"

text \<open>The document of a fresh identity, with its keys in the order \<open>sort_keys\<close> writes them.\<close>

definition bootstrap_key_id :: "(string \<Rightarrow> string) \<Rightarrow> string \<Rightarrow> string" where
  "bootstrap_key_id sha public_key = ''working-version-'' @ take 16 (sha public_key)"

definition bootstrap_roots :: "(string \<Rightarrow> string) \<Rightarrow> string \<Rightarrow> json" where
  "bootstrap_roots sha public_key =
     JObj [(''issuer_id'', JStr ''delta-working-version-local''),
           (''keys'', JArr [JObj [(''algorithm'', JStr ''ED25519''),
                                 (''key_id'', JStr (bootstrap_key_id sha public_key)),
                                 (''public_key_hex'', JStr (bytes_hex public_key))]]),
           (''schema_version'', JStr ''1.0.0'')]"

definition bootstrap_identity ::
  "'k key_library \<Rightarrow> (string \<Rightarrow> string) \<Rightarrow> 'k \<Rightarrow> (nat \<Rightarrow> write_outcome) \<Rightarrow> string \<Rightarrow> string \<Rightarrow> files \<Rightarrow>
   unit result \<times> files" where
  "bootstrap_identity kl sha private_key outcomes key_path roots_path fs =
     (case atomic_write (outcomes 0) key_path (kl_to_pem kl private_key) fs of
        (Inl e, fs1) \<Rightarrow> (Inl e, fs1)
      | (Inr _, fs1) \<Rightarrow>
          atomic_write (outcomes 1) roots_path
            (json_text (bootstrap_roots sha (kl_public kl private_key)) @ [CHR 0x0A]) fs1)"

definition load_identity ::
  "'k key_library \<Rightarrow> (string \<Rightarrow> json option) \<Rightarrow> string \<Rightarrow> string \<Rightarrow> files \<Rightarrow> runtime_identity result" where
  "load_identity kl loads key_path roots_path fs =
     bindE (mapErr (\<lambda>e. if e \<in> {OSError, ValueError, TypeError} then ValueError else e)
              (case map_of fs key_path of None \<Rightarrow> Inl OSError | Some pem \<Rightarrow> kl_load_pem kl pem)) (\<lambda>loaded.
     (case loaded of
        None \<Rightarrow> Inl ValueError
      | Some key \<Rightarrow>
          bindE (config_load_trust_roots loads (map_of fs roots_path))
            (\<lambda>(issuer_id, key_id, trusted_public_hex).
          bindE (ensure (bytes_hex (kl_public kl key) = trusted_public_hex) ValueError) (\<lambda>_.
          bindE (init_signing_identity (Some (kl_sign kl key)) key_id issuer_id) (\<lambda>identity.
          Inr \<lparr>ri_signing_identity = identity, ri_trust_roots_path = roots_path,
               ri_public_key_hex = trusted_public_hex\<rparr>)))))"

definition load_or_bootstrap_runtime_identity ::
  "'k key_library \<Rightarrow> (string \<Rightarrow> string) \<Rightarrow> (string \<Rightarrow> json option) \<Rightarrow> (string \<Rightarrow> string) \<Rightarrow> 'k \<Rightarrow>
   (nat \<Rightarrow> write_outcome) \<Rightarrow> string \<Rightarrow> bool \<Rightarrow> string option \<Rightarrow> string option \<Rightarrow> files \<Rightarrow>
   runtime_identity result \<times> files" where
  "load_or_bootstrap_runtime_identity kl sha loads resolve fresh outcomes data_dir allow_local_bootstrap
       signing_key_path trust_roots_path fs =
     (let key_path = resolve (case signing_key_path of
            Some p \<Rightarrow> p | None \<Rightarrow> resolve data_dir @ ''/controller-signing-key.pem'');
          roots_path = resolve (case trust_roots_path of
            Some p \<Rightarrow> p | None \<Rightarrow> resolve data_dir @ ''/worker-trust-roots.json'');
          key_exists = (map_of fs key_path \<noteq> None);
          roots_exist = (map_of fs roots_path \<noteq> None) in
      if key_exists \<noteq> roots_exist then (Inl ValueError, fs)
      else if \<not> key_exists \<and> \<not> allow_local_bootstrap then (Inl ValueError, fs)
      else
        (case (if key_exists then (Inr (), fs)
               else bootstrap_identity kl sha fresh outcomes key_path roots_path fs) of
           (Inl e, fs') \<Rightarrow> (Inl e, fs')
         | (Inr _, fs') \<Rightarrow> (load_identity kl loads key_path roots_path fs', fs')))"

section \<open>The lease of the data directory\<close>

text \<open>
  \<open>locks\<close> are the advisory locks of the operating system, from a directory to the lease object that
  holds it. \<open>acquire\<close> raises after it has the lock when the owner document cannot be written: the
  object then still holds the lock.
\<close>

record lease =
  ls_data_dir :: string
  ls_build_id :: string
  ls_held :: bool

type_synonym locks = "(string, nat) dict"

definition init_lease :: "(string \<Rightarrow> string) \<Rightarrow> string \<Rightarrow> string \<Rightarrow> lease result" where
  "init_lease resolve data_dir build_id =
     bindE (validate_build_id build_id) (\<lambda>b.
     Inr \<lparr>ls_data_dir = resolve data_dir, ls_build_id = b, ls_held = False\<rparr>)"

definition owner_path :: "lease \<Rightarrow> string" where
  "owner_path ls = ls_data_dir ls @ ''/runtime-owner.json''"

definition owner_document :: "int \<Rightarrow> lease \<Rightarrow> json" where
  "owner_document pid ls =
     JObj [(''build_id'', JStr (ls_build_id ls)), (''data_dir'', JStr (ls_data_dir ls)),
           (''pid'', JInt pid), (''schema_version'', JStr ''1.0.0'')]"

definition lease_acquire ::
  "nat \<Rightarrow> int \<Rightarrow> write_outcome \<Rightarrow> (json \<Rightarrow> string) \<Rightarrow> lease \<Rightarrow> locks \<times> files \<Rightarrow>
   unit result \<times> lease \<times> locks \<times> files" where
  "lease_acquire me pid outcome dumps ls st =
     (let (locks, fs) = st in
      if ls_held ls \<or> map_of locks (ls_data_dir ls) \<noteq> None then (Inl RuntimeError, ls, locks, fs)
      else
        (let (r, fs') = atomic_write outcome (owner_path ls)
               (dumps (owner_document pid ls) @ [CHR 0x0A]) fs
         in (r, ls\<lparr>ls_held := True\<rparr>, AList.update (ls_data_dir ls) me locks, fs')))"

definition lease_release :: "lease \<Rightarrow> locks \<times> files \<Rightarrow> lease \<times> locks \<times> files" where
  "lease_release ls st =
     (let (locks, fs) = st in
      if \<not> ls_held ls then (ls, locks, fs)
      else (ls\<lparr>ls_held := False\<rparr>, AList.delete (ls_data_dir ls) locks, AList.delete (owner_path ls) fs))"

end
