(* ===== verification/Application.thy ===== *)
theory Application
  imports Runtime_Config Dispatch_Queue
begin

text \<open>
  The runtime application, \<open>deltacontroller/application.py\<close>: the operations the HTTP host may call.
  An \<open>application\<close> is what the constructor stores; the state is the readiness event and the world
  shared by the gates and the worker queue. \<open>ae_others n\<close> is what the other threads do before the
  \<open>n\<close>-th critical section of a cancellation. \<open>casefold\<close> is \<open>str.casefold\<close>.
\<close>

record application =
  ap_config :: working_config
  ap_build_id :: string
  ap_gate :: gate
  ap_identity :: runtime_identity
  ap_instance_id :: string

record app_state =
  as_ready :: bool
  as_world :: "queue world"

record api_env =
  ae_gate :: "queue gate_env"
  ae_queue :: queue_env
  ae_clock :: "nat \<Rightarrow> string"
  ae_others :: "nat \<Rightarrow> queue world \<Rightarrow> queue world"

definition init_application ::
  "working_config \<Rightarrow> string \<Rightarrow> gate \<Rightarrow> runtime_identity \<Rightarrow> string \<Rightarrow> queue world \<Rightarrow> application \<times> app_state" where
  "init_application config build_id g identity instance_id w =
     (\<lparr>ap_config = config, ap_build_id = build_id, ap_gate = g, ap_identity = identity,
       ap_instance_id = instance_id\<rparr>,
      \<lparr>as_ready = True, as_world = w\<rparr>)"

definition credentials_for_request ::
  "(string \<Rightarrow> string) \<Rightarrow> application \<Rightarrow> string \<Rightarrow> string option \<Rightarrow> json result" where
  "credentials_for_request casefold ap peer_ip authorization_header =
     (if cf_is_local (ap_config ap) then
        (if peer_ip \<noteq> ''127.0.0.1'' then Inl AuthenticationFailedError
         else if authorization_header \<noteq> None then Inl AuthenticationFailedError
         else Inr (JObj [(''type'', JStr ''LOCAL_PEER_CREDENTIAL''),
                         (''subject_id'', JStr ''working-version-loopback'')]))
      else
        (case authorization_header of
           None \<Rightarrow> Inl AuthenticationRequiredError
         | Some header \<Rightarrow>
             (let (scheme, separator, credential) = partition_at (CHR '' '') header in
              if casefold scheme \<noteq> ''bearer'' \<or> \<not> separator \<or> credential = [] \<or> CHR '' '' \<in> set credential
              then Inl AuthenticationFailedError
              else Inr (JObj [(''type'', JStr ''TOKEN''), (''token'', JStr credential)]))))"

definition submit ::
  "services \<Rightarrow> application \<Rightarrow> api_env \<Rightarrow> string \<Rightarrow> json \<Rightarrow> app_state \<Rightarrow> (json result \<times> app_state) option" where
  "submit svc ap env body credentials st =
     (if \<not> as_ready st then Some (Inl (ControllerError ''ERR_SHUTTING_DOWN'' ''RESOURCE'' True), st)
      else map_option (\<lambda>(r, w). (r, st\<lparr>as_world := w\<rparr>))
        (admit_and_dispatch svc (ap_gate ap) (queue_port svc (ae_queue env)) (ae_gate env) (RawBytes body)
           credentials (as_world st)))"

definition app_get_status ::
  "services \<Rightarrow> application \<Rightarrow> api_env \<Rightarrow> string \<Rightarrow> json \<Rightarrow> app_state \<Rightarrow> json option result" where
  "app_get_status svc ap env execution_id credentials st =
     get_status svc (ap_gate ap) (ae_clock env 0) execution_id credentials (w_ledger (as_world st))"

definition app_get_receipt ::
  "application \<Rightarrow> string \<Rightarrow> json \<Rightarrow> app_state \<Rightarrow> json option result" where
  "app_get_receipt ap execution_id credentials st =
     get_receipt (ap_gate ap) execution_id credentials (w_ledger (as_world st))"

definition ExecutionTerminalError :: exn where
  "ExecutionTerminalError = ControllerError ''ERR_EXECUTION_TERMINAL'' ''IDEMPOTENCY'' False"

definition cancel_guard ::
  "services \<Rightarrow> application \<Rightarrow> api_env \<Rightarrow> string \<Rightarrow> json \<Rightarrow> ledger \<Rightarrow> bool result" where
  "cancel_guard svc ap env execution_id credentials l =
     bindE (get_status svc (ap_gate ap) (ae_clock env 0) execution_id credentials l) (\<lambda>current.
     (case current of
        None \<Rightarrow> Inr False
      | Some status \<Rightarrow>
          bindE (getitem status ''state'') (\<lambda>state.
          bindE (hash_in TERMINAL_STATUSES state) (\<lambda>terminal.
          bindE (ensure (\<not> terminal) ExecutionTerminalError) (\<lambda>_. Inr True)))))"

definition app_cancel ::
  "services \<Rightarrow> application \<Rightarrow> api_env \<Rightarrow> string \<Rightarrow> json \<Rightarrow> app_state \<Rightarrow> json option result \<times> app_state" where
  "app_cancel svc ap env execution_id credentials st =
     (case cancel_guard svc ap env execution_id credentials (w_ledger (as_world st)) of
        Inl e \<Rightarrow> (Inl e, st)
      | Inr False \<Rightarrow> (Inr None, st)
      | Inr True \<Rightarrow>
          (case cancel svc (ae_queue env) execution_id (ae_others env 1 (as_world st)) of
             (Inl e, w) \<Rightarrow> (Inl e, st\<lparr>as_world := w\<rparr>)
           | (Inr None, w) \<Rightarrow> (Inl ExecutionTerminalError, st\<lparr>as_world := w\<rparr>)
           | (Inr (Some _), w) \<Rightarrow>
               (let w' = ae_others env 2 w in
                (get_status svc (ap_gate ap) (ae_clock env 1) execution_id credentials (w_ledger w'),
                 st\<lparr>as_world := w'\<rparr>))))"

definition health_document :: "application \<Rightarrow> json" where
  "health_document ap =
     JObj [(''schema_version'', JStr ''1.0.0''), (''status'', JStr ''UP''),
           (''profile'', JStr (cf_profile (ap_config ap))), (''build_id'', JStr (ap_build_id ap)),
           (''protocol_id'', JStr (cf_protocol_id (ap_config ap))),
           (''contract_schema_version'', JStr (cf_contract_schema_version (ap_config ap))),
           (''formal_semantics_id'', JStr (cf_formal_semantics_id (ap_config ap))),
           (''instance_id'', JStr (ap_instance_id ap)),
           (''components'',
              JObj [(''controller'', JStr ''UP''), (''worker'', JStr ''SUBPROCESS_BOUNDARY''),
                    (''admin_ui'', JStr ''STATIC_LIVE_BUILD''),
                    (''native_runtime'', JStr ''REFERENCE_ONLY_NOT_STARTED''),
                    (''jvm_node'', JStr ''REFERENCE_ONLY_NOT_STARTED'')])]"

definition readiness_document :: "application \<Rightarrow> app_state \<Rightarrow> bool \<times> json" where
  "readiness_document ap st =
     (as_ready st,
      JObj [(''schema_version'', JStr ''1.0.0''),
            (''status'', JStr (if as_ready st then ''READY'' else ''DRAINING'')),
            (''build_id'', JStr (ap_build_id ap)),
            (''protocol_id'', JStr (cf_protocol_id (ap_config ap))),
            (''contract_schema_version'', JStr (cf_contract_schema_version (ap_config ap))),
            (''formal_semantics_id'', JStr (cf_formal_semantics_id (ap_config ap))),
            (''instance_id'', JStr (ap_instance_id ap)),
            (''signing_key_id'', JStr (si_key_id (ri_signing_identity (ap_identity ap)))),
            (''worker_trust_root'', JStr ''EXPLICIT_MATCH'')])"

definition begin_shutdown :: "app_state \<Rightarrow> app_state" where
  "begin_shutdown st = st\<lparr>as_ready := False\<rparr>"

text \<open>Of the timeout the queue reads only whether it is negative; \<open>float_scaled\<close> keeps the sign.\<close>

definition app_shutdown ::
  "services \<Rightarrow> application \<Rightarrow> shutdown_env \<Rightarrow> app_state \<Rightarrow> (unit result \<times> app_state) option" where
  "app_shutdown svc ap env st =
     map_option (\<lambda>(r, w). (r, (begin_shutdown st)\<lparr>as_world := w\<rparr>))
       (shutdown svc (env\<lparr>se_timeout_seconds := fst (float_scaled (cf_shutdown_grace_seconds (ap_config ap)) 0)\<rparr>)
          (as_world st))"

section \<open>Cancellation\<close>

lemma get_status_owned:
  assumes "get_status svc g now e c l = Inr (Some doc)"
  shows "\<exists>s r. g_authenticate g c = Inr s \<and> get_by_execution_id e l = Some r \<and>
    rec_authenticated_subject_id r = subject_id s \<and> record_status svc now r = Inr doc"
  using assms by (auto simp: get_status_def get_owned_record_def exn_simps split: option.splits if_splits)

lemma cancel_guard_owned:
  assumes "cancel_guard svc ap env e c l = Inr True"
  shows "\<exists>s r. g_authenticate (ap_gate ap) c = Inr s \<and> get_by_execution_id e l = Some r \<and>
    rec_authenticated_subject_id r = subject_id s"
  using assms get_status_owned
  by (fastforce simp: cancel_guard_def exn_simps split: option.splits)

text \<open>A cancellation that is not the owner's leaves the application as it was.\<close>

lemma app_cancel_effect:
  assumes "app_cancel svc ap env e c st = (r, st')" and "st' \<noteq> st"
  shows "\<exists>s rec. g_authenticate (ap_gate ap) c = Inr s \<and>
    get_by_execution_id e (w_ledger (as_world st)) = Some rec \<and> rec_authenticated_subject_id rec = subject_id s"
  using assms cancel_guard_owned [of svc ap env e c]
  by (auto simp: app_cancel_def split: sum.splits bool.splits)

end
