(* ===== verification/Http_Host.thy ===== *)
theory Http_Host
  imports Application
begin

text \<open>
  The request handler of the HTTP host, \<open>deltacontroller/http_host.py\<close>, from the parsed request (method,
  target, headers as the base class has read them, the body stream) to the response: status, the headers the
  handler sends itself, body, and the line it logs. A response that cannot be logged is not sent:
  \<open>send_response\<close> logs first, and logging splits the request target, which may raise; the connection
  is then closed without an answer (\<open>Dropped\<close>). Header text is the Latin-1 text the base class delivers.
  \<open>http_library\<close> is what the handler calls and is not its own code: \<open>casefold\<close>, the two table checks
  of \<open>urlsplit\<close>, \<open>json.loads\<close>, the decoder of percent-decoded bytes, the resolution of a path, the files below it and
  the media types.
\<close>

section \<open>Requests and responses\<close>

datatype http_method = GET | HEAD | POST | OPTIONS

definition method_text :: "http_method \<Rightarrow> string" where
  "method_text m = (case m of GET \<Rightarrow> ''GET'' | HEAD \<Rightarrow> ''HEAD'' | POST \<Rightarrow> ''POST'' | OPTIONS \<Rightarrow> ''OPTIONS'')"

text \<open>The body stream: the bytes that arrive, and the exception that ends them (\<open>None\<close> at the end of the stream).\<close>

record http_request =
  rq_method :: http_method
  rq_target :: string
  rq_headers :: "(string \<times> string) list"
  rq_peer :: string
  rq_stream :: string
  rq_stream_error :: "exn option"

record http_response =
  rs_status :: nat
  rs_headers :: "(string \<times> string) list"
  rs_body :: string
  rs_log :: "string \<times> string \<times> string"

datatype http_outcome = Answered http_response | Dropped

record http_library =
  hl_casefold :: "string \<Rightarrow> string"
  hl_netloc_ok :: "string \<Rightarrow> bool"
  hl_loads :: "string \<Rightarrow> json option"
  hl_decode :: "string \<Rightarrow> string"
  hl_resolve :: "string list \<Rightarrow> string \<Rightarrow> string list result"
  hl_read_file :: "string list \<Rightarrow> string result option"
  hl_media_type :: "string \<Rightarrow> string option"

record http_server =
  sv_application :: application
  sv_ui_dir :: "string list option"
  sv_port :: int
  sv_stopping :: bool

text \<open>\<open>headers.get(name)\<close> and \<open>headers.get_all(name)\<close>.\<close>

definition header_get :: "http_request \<Rightarrow> string \<Rightarrow> string option" where
  "header_get rq name =
     map_option snd (find (\<lambda>(k, v). ascii_lower k = ascii_lower name) (rq_headers rq))"

definition header_all :: "http_request \<Rightarrow> string \<Rightarrow> string list" where
  "header_all rq name = map snd (filter (\<lambda>(k, v). ascii_lower k = ascii_lower name) (rq_headers rq))"

section \<open>Text of headers\<close>

text \<open>\<open>str.strip\<close> on Latin-1 text: the white space of ASCII and the two code points \<open>U+0085\<close>, \<open>U+00A0\<close>.\<close>

definition is_white :: "char \<Rightarrow> bool" where
  "is_white c \<longleftrightarrow> (let n = of_char c :: nat in (9 \<le> n \<and> n \<le> 13) \<or> (28 \<le> n \<and> n \<le> 32))"

fun lstrip_latin :: "string \<Rightarrow> string" where
  "lstrip_latin (c # d # cs) =
     (if is_white c then lstrip_latin (d # cs)
      else if c = CHR 0xC2 \<and> d \<in> {CHR 0x85, CHR 0xA0} then lstrip_latin cs else c # d # cs)"
| "lstrip_latin cs = dropWhile is_white cs"

fun rstrip_latin_rev :: "string \<Rightarrow> string" where
  "rstrip_latin_rev (c # d # cs) =
     (if is_white c then rstrip_latin_rev (d # cs)
      else if d = CHR 0xC2 \<and> c \<in> {CHR 0x85, CHR 0xA0} then rstrip_latin_rev cs else c # d # cs)"
| "rstrip_latin_rev cs = dropWhile is_white cs"

definition strip_latin :: "string \<Rightarrow> string" where
  "strip_latin s = rev (rstrip_latin_rev (rev (lstrip_latin s)))"

text \<open>
  \<open>int(text)\<close> on Latin-1 text: white space around, a sign, digits with single underscores between them,
  and the limit of 4300 digits of the conversion. \<open>None\<close> is \<open>ValueError\<close>.
\<close>

fun underscores_single :: "string \<Rightarrow> bool" where
  "underscores_single (c # d # cs) = (\<not> (c = CHR ''_'' \<and> d = CHR ''_'') \<and> underscores_single (d # cs))"
| "underscores_single _ = True"

definition int_of_text :: "string \<Rightarrow> int option" where
  "int_of_text s =
     (let t = strip_latin s;
          neg = startswith t ''-'';
          u = (if neg \<or> startswith t ''+'' then drop 1 t else t);
          ds = filter is_digit u
      in if u \<noteq> [] \<and> list_all (\<lambda>c. is_digit c \<or> c = CHR ''_'') u \<and> hd u \<noteq> CHR ''_'' \<and> last u \<noteq> CHR ''_'' \<and>
            underscores_single u \<and> length ds \<le> 4300
         then Some (if neg then - int (text_nat ds) else int (text_nat ds)) else None)"

fun split_on :: "char \<Rightarrow> string \<Rightarrow> string list" where
  "split_on c [] = [[]]"
| "split_on c (x # xs) =
     (if x = c then [] # split_on c xs
      else (case split_on c xs of [] \<Rightarrow> [[x]] | p # ps \<Rightarrow> (x # p) # ps))"

section \<open>Sending\<close>

type_synonym 'a handled = "http_response result + 'a"

definition log_message :: "http_library \<Rightarrow> http_request \<Rightarrow> (string \<times> string \<times> string) result" where
  "log_message hl rq =
     bindE (urlsplit (hl_netloc_ok hl) (rq_target rq)) (\<lambda>u.
     Inr (method_text (rq_method rq), su_path u, rq_peer rq))"

definition response_origin :: "http_server \<Rightarrow> http_request \<Rightarrow> string option" where
  "response_origin sv rq =
     (case header_get rq ''Origin'' of
        None \<Rightarrow> None
      | Some origin \<Rightarrow>
          (if origin \<in> set (cf_allowed_origins (ap_config (sv_application sv))) then Some origin else None))"

definition common_headers :: "string option \<Rightarrow> bool \<Rightarrow> (string \<times> string) list" where
  "common_headers origin api_response =
     [(''Connection'', ''close''), (''X-Content-Type-Options'', ''nosniff''),
      (''Referrer-Policy'', ''no-referrer''), (''X-Frame-Options'', ''DENY'')] @
     (if api_response then [(''Cache-Control'', ''no-store'')] else []) @
     (case origin of
        None \<Rightarrow> []
      | Some o_text \<Rightarrow> [(''Access-Control-Allow-Origin'', o_text), (''Vary'', ''Origin'')])"

definition json_headers :: "nat \<Rightarrow> string \<Rightarrow> (string \<times> string) list" where
  "json_headers status payload =
     [(''Content-Type'', ''application/json; charset=utf-8''), (''Content-Length'', nat_text (length payload))] @
     (if status = 401 then [(''WWW-Authenticate'', ''Bearer realm=\"delta-working-version\"'')] else []) @
     (if status = 429 then [(''Retry-After'', ''1'')] else [])"

definition send_json ::
  "http_library \<Rightarrow> http_server \<Rightarrow> http_request \<Rightarrow> nat \<Rightarrow> json \<Rightarrow> http_response result" where
  "send_json hl sv rq status document =
     (let payload = dumps_sorted document in
      bindE (log_message hl rq) (\<lambda>log.
      Inr \<lparr>rs_status = status,
           rs_headers = common_headers (response_origin sv rq) True @ json_headers status payload,
           rs_body = (if rq_method rq = HEAD then [] else payload), rs_log = log\<rparr>))"

definition send_error_document ::
  "http_library \<Rightarrow> http_server \<Rightarrow> http_request \<Rightarrow> nat \<Rightarrow> json \<Rightarrow> http_response result" where
  "send_error_document hl sv rq status err =
     send_json hl sv rq status (JObj [(''schema_version'', JStr ''1.0.0''), (''error'', err)])"

definition error_body :: "string \<Rightarrow> string \<Rightarrow> bool \<Rightarrow> string \<Rightarrow> json" where
  "error_body code category retryable message =
     JObj [(''schema_version'', JStr ''1.0.0''), (''error_code'', JStr code), (''category'', JStr category),
           (''retryable'', JBool retryable), (''message'', JStr message)]"

definition send_transport_error ::
  "http_library \<Rightarrow> http_server \<Rightarrow> http_request \<Rightarrow> nat \<Rightarrow> string \<Rightarrow> string \<Rightarrow> bool \<Rightarrow> http_response result" where
  "send_transport_error hl sv rq status code message retryable =
     send_error_document hl sv rq status (error_body code ''TRANSPORT'' retryable message)"

text \<open>A check that answers the request itself ends the operation; \<open>raising\<close> lifts one that raises.\<close>

definition reject ::
  "http_library \<Rightarrow> http_server \<Rightarrow> http_request \<Rightarrow> bool \<Rightarrow> nat \<Rightarrow> string \<Rightarrow> string \<Rightarrow> bool \<Rightarrow> unit handled" where
  "reject hl sv rq bad status code message retryable =
     (if bad then Inl (send_transport_error hl sv rq status code message retryable) else Inr ())"

definition raising :: "'a result \<Rightarrow> 'a handled" where
  "raising r = (case r of Inl e \<Rightarrow> Inl (Inl e) | Inr x \<Rightarrow> Inr x)"

lemma reject_Inr [simp]: "reject hl sv rq bad status code message retryable = Inr u \<longleftrightarrow> \<not> bad"
  by (simp add: reject_def)

lemma raising_Inr [simp]: "raising r = Inr x \<longleftrightarrow> r = Inr x"
  by (cases r) (simp_all add: raising_def)

section \<open>Checks\<close>

definition allowed_hosts :: "http_library \<Rightarrow> http_server \<Rightarrow> string list result" where
  "allowed_hosts hl sv =
     (let config = ap_config (sv_application sv) in
      if cf_is_local config
      then Inr [''127.0.0.1'' @ (if sv_port sv = 80 then [] else '':'' @ int_text (sv_port sv))]
      else mapE (\<lambda>origin. bindE (urlsplit (hl_netloc_ok hl) origin) (\<lambda>u.
             Inr (hl_casefold hl (su_netloc u)))) (cf_allowed_origins config))"

definition validate_host_and_request_target ::
  "http_library \<Rightarrow> http_server \<Rightarrow> http_request \<Rightarrow> unit handled" where
  "validate_host_and_request_target hl sv rq =
     bindE (reject hl sv rq (\<not> startswith (rq_target rq) ''/'') 400 ''ERR_REQUEST_TARGET_INVALID''
              ''Only origin-form HTTP request targets are accepted'' False) (\<lambda>_.
     bindE (reject hl sv rq (length (header_all rq ''Host'') \<noteq> 1) 400 ''ERR_HOST_HEADER_INVALID''
              ''Exactly one Host header is required'' False) (\<lambda>_.
     bindE (raising (allowed_hosts hl sv)) (\<lambda>hosts.
     reject hl sv rq (hl_casefold hl (strip_latin (hd (header_all rq ''Host''))) \<notin> set hosts) 400
       ''ERR_HOST_HEADER_INVALID'' ''Host header does not match the configured service authority'' False)))"

text \<open>\<open>_validated_origin(required=...)\<close>; \<open>None\<close> is a request without an origin.\<close>

definition validated_origin ::
  "http_library \<Rightarrow> http_server \<Rightarrow> http_request \<Rightarrow> bool \<Rightarrow> string option handled" where
  "validated_origin hl sv rq required =
     (case header_get rq ''Origin'' of
        None \<Rightarrow>
          bindE (reject hl sv rq required 403 ''ERR_ORIGIN_FORBIDDEN''
                   ''Origin is required for CORS preflight'' False) (\<lambda>_. Inr None)
      | Some origin \<Rightarrow>
          bindE (reject hl sv rq (origin \<notin> set (cf_allowed_origins (ap_config (sv_application sv)))) 403
                   ''ERR_ORIGIN_FORBIDDEN'' ''Request origin is not configured'' False) (\<lambda>_. Inr (Some origin)))"

definition json_content_type :: "string \<Rightarrow> bool" where
  "json_content_type content_type =
     (case map (\<lambda>part. ascii_lower (strip_latin part)) (split_on (CHR '';'') content_type) of
        [] \<Rightarrow> False
      | main # params \<Rightarrow>
          main = ''application/json'' \<and> list_all (\<lambda>part. part = [] \<or> part = ''charset=utf-8'') params)"

definition validate_api_request ::
  "http_library \<Rightarrow> http_server \<Rightarrow> http_request \<Rightarrow> bool \<Rightarrow> unit handled" where
  "validate_api_request hl sv rq require_json =
     bindE (reject hl sv rq (sv_stopping sv) 503 ''ERR_SHUTTING_DOWN'' ''Controller is shutting down'' True) (\<lambda>_.
     bindE (validated_origin hl sv rq False) (\<lambda>_.
     bindE (reject hl sv rq (header_get rq ''X-Delta-Request'' \<noteq> Some ''1'') 400
              ''ERR_DELTA_REQUEST_HEADER_REQUIRED'' ''X-Delta-Request: 1 is required'' False) (\<lambda>_.
     if \<not> require_json then Inr ()
     else (case header_get rq ''Content-Type'' of
             None \<Rightarrow>
               reject hl sv rq True 400 ''ERR_CONTENT_TYPE_REQUIRED''
                 ''Content-Type: application/json is required'' False
           | Some content_type \<Rightarrow>
               reject hl sv rq (\<not> json_content_type content_type) 400 ''ERR_CONTENT_TYPE_UNSUPPORTED''
                 ''Content-Type must be application/json with optional charset=utf-8'' False))))"

definition request_credentials :: "http_library \<Rightarrow> http_server \<Rightarrow> http_request \<Rightarrow> json handled" where
  "request_credentials hl sv rq =
     raising (credentials_for_request (hl_casefold hl) (sv_application sv) (rq_peer rq)
                (header_get rq ''Authorization''))"

text \<open>\<open>rfile.read(n)\<close>.\<close>

definition read_stream :: "http_request \<Rightarrow> nat \<Rightarrow> string result" where
  "read_stream rq n =
     (if n \<le> length (rq_stream rq) then Inr (take n (rq_stream rq))
      else (case rq_stream_error rq of None \<Rightarrow> Inr (rq_stream rq) | Some e \<Rightarrow> Inl e))"

definition read_bounded_body ::
  "http_library \<Rightarrow> http_server \<Rightarrow> http_request \<Rightarrow> bool \<Rightarrow> string handled" where
  "read_bounded_body hl sv rq allow_empty =
     bindE (reject hl sv rq (header_get rq ''Transfer-Encoding'' \<noteq> None) 400
              ''ERR_TRANSFER_ENCODING_UNSUPPORTED'' ''Chunked request bodies are not supported'' False) (\<lambda>_.
     bindE (reject hl sv rq (header_get rq ''Content-Length'' = None) 400
              ''ERR_CONTENT_LENGTH_REQUIRED'' ''Content-Length is required'' False) (\<lambda>_.
     (case Option.bind (header_get rq ''Content-Length'') int_of_text of
        None \<Rightarrow>
          Inl (send_transport_error hl sv rq 400 ''ERR_CONTENT_LENGTH_INVALID''
                 ''Content-Length must be a non-negative integer'' False)
      | Some content_length \<Rightarrow>
          bindE (reject hl sv rq (content_length < 0) 400 ''ERR_CONTENT_LENGTH_INVALID''
                   ''Content-Length must be a non-negative integer'' False) (\<lambda>_.
          bindE (reject hl sv rq (content_length > cf_request_limit_bytes (ap_config (sv_application sv))) 413
                   ''ERR_PAYLOAD_TOO_LARGE'' ''Request body exceeds the 10 MiB limit'' False) (\<lambda>_.
          bindE (reject hl sv rq (content_length = 0 \<and> \<not> allow_empty) 400
                   ''ERR_SCHEMA_VALIDATION_FAILED'' ''JSON request body must not be empty'' False) (\<lambda>_.
          bindE (raising (read_stream rq (nat content_length))) (\<lambda>body.
          bindE (reject hl sv rq (int (length body) \<noteq> content_length) 400 ''ERR_TRUNCATED_BODY''
                   ''Request body ended before Content-Length bytes were received'' False) (\<lambda>_.
          Inr body))))))))"

text \<open>\<open>handle_expect_100\<close>: whether the client may send its body.\<close>

definition handle_expect_100 :: "http_library \<Rightarrow> http_server \<Rightarrow> http_request \<Rightarrow> unit handled" where
  "handle_expect_100 hl sv rq =
     (let content_length =
            (case header_get rq ''Content-Length'' of
               None \<Rightarrow> - 1
             | Some t \<Rightarrow> (case int_of_text t of None \<Rightarrow> - 1 | Some n \<Rightarrow> n))
      in bindE (reject hl sv rq (content_length < 0) 400 ''ERR_SCHEMA_VALIDATION_FAILED''
                  ''A valid Content-Length header is required'' False) (\<lambda>_.
         reject hl sv rq (content_length > cf_request_limit_bytes (ap_config (sv_application sv))) 413
           ''ERR_PAYLOAD_TOO_LARGE'' ''Request body exceeds the 10 MiB limit'' False))"

section \<open>Routes\<close>

definition route_char :: "char \<Rightarrow> bool" where
  "route_char c \<longleftrightarrow> is_lower_hex c \<or> (65 \<le> (of_char c :: nat) \<and> (of_char c :: nat) \<le> 70) \<or> c = CHR ''-''"

definition EXECUTION_ROUTE :: "string \<Rightarrow> (string \<times> string) option" where
  "EXECUTION_ROUTE path =
     (let r = drop 18 path; ident = take 36 r; tail = drop 36 r in
      if startswith path ''/api/v1/execution/'' \<and> length ident = 36 \<and> list_all route_char ident \<and>
         tail \<in> {''/status'', ''/receipt'', ''/cancel''}
      then Some (ident, drop 1 tail) else None)"

definition handle_options :: "http_library \<Rightarrow> http_server \<Rightarrow> http_request \<Rightarrow> http_response result" where
  "handle_options hl sv rq =
     (case validated_origin hl sv rq True of
        Inl answered \<Rightarrow> answered
      | Inr origin \<Rightarrow>
          bindE (log_message hl rq) (\<lambda>log.
          Inr \<lparr>rs_status = 204,
               rs_headers =
                 common_headers origin True @
                 [(''Access-Control-Allow-Methods'', ''GET, POST, OPTIONS''),
                  (''Access-Control-Allow-Headers'', ''Content-Type, Authorization, X-Delta-Request''),
                  (''Access-Control-Max-Age'', ''600''), (''Content-Length'', ''0'')],
               rs_body = [], rs_log = log\<rparr>))"

definition is_html :: "string \<Rightarrow> bool" where
  "is_html name \<longleftrightarrow> length name > 5 \<and> ascii_lower (drop (length name - 5) name) = ''.html''"

definition CONTENT_SECURITY_POLICY :: string where
  "CONTENT_SECURITY_POLICY =
     ''default-src 'self'; connect-src 'self'; img-src 'self' blob: data:; '' @
     ''style-src 'self' 'unsafe-inline'; script-src 'self'; object-src 'none'; '' @
     ''base-uri 'none'; form-action 'none'' @ [CHR 0x27]"

definition static_response ::
  "http_library \<Rightarrow> http_request \<Rightarrow> string list \<Rightarrow> string \<Rightarrow> bool \<Rightarrow> http_response result" where
  "static_response hl rq candidate payload head_only =
     (let name = last candidate in
      bindE (log_message hl rq) (\<lambda>log.
      Inr \<lparr>rs_status = 200,
           rs_headers =
             common_headers None False @
             [(''Content-Type'',
                 case hl_media_type hl name of None \<Rightarrow> ''application/octet-stream'' | Some t \<Rightarrow> t),
              (''Content-Length'', nat_text (length payload))] @
             (if is_html name
              then [(''Content-Security-Policy'', CONTENT_SECURITY_POLICY), (''Cache-Control'', ''no-store'')]
              else [(''Cache-Control'', ''public, max-age=31536000, immutable'')]),
           rs_body = (if head_only then [] else payload), rs_log = log\<rparr>))"

definition is_below :: "string list \<Rightarrow> string list \<Rightarrow> bool" where
  "is_below dir p \<longleftrightarrow> take (length dir) p = dir"

definition handle_static ::
  "http_library \<Rightarrow> http_server \<Rightarrow> http_request \<Rightarrow> bool \<Rightarrow> http_response result" where
  "handle_static hl sv rq head_only =
     (case sv_ui_dir sv of
        None \<Rightarrow> send_transport_error hl sv rq 404 ''ERR_UI_NOT_CONFIGURED'' ''Admin UI is not configured'' False
      | Some ui_dir \<Rightarrow>
          bindE (urlsplit (hl_netloc_ok hl) (rq_target rq)) (\<lambda>u.
          (let request_path = hl_decode hl (unquote_bytes (su_path u));
               relative = (if request_path = [] \<or> request_path = ''/'' then ''live.html''
                           else dropWhile (\<lambda>c. c = CHR ''/'') request_path)
           in bindE (hl_resolve hl ui_dir relative) (\<lambda>candidate.
              if \<not> is_below ui_dir candidate
              then send_transport_error hl sv rq 404 ''ERR_STATIC_PATH_INVALID'' ''Static resource not found'' False
              else (case hl_read_file hl candidate of
                      None \<Rightarrow>
                        send_transport_error hl sv rq 404 ''ERR_STATIC_NOT_FOUND'' ''Static resource not found'' False
                    | Some content \<Rightarrow>
                        bindE content (\<lambda>payload. static_response hl rq candidate payload head_only))))))"

definition answer_execution ::
  "http_library \<Rightarrow> http_server \<Rightarrow> http_request \<Rightarrow> string \<Rightarrow> json option \<Rightarrow> http_response result" where
  "answer_execution hl sv rq message result =
     (if result = None \<or> result = Some JNull
      then send_transport_error hl sv rq 404 ''ERR_EXECUTION_NOT_FOUND'' message False
      else send_json hl sv rq 200 (the result))"

definition handle_execution_read ::
  "services \<Rightarrow> http_library \<Rightarrow> http_server \<Rightarrow> api_env \<Rightarrow> http_request \<Rightarrow> string \<Rightarrow> string \<Rightarrow> app_state \<Rightarrow>
   http_response result" where
  "handle_execution_read svc hl sv env rq execution_id operation st =
     (case bindE (validate_api_request hl sv rq False) (\<lambda>_.
           bindE (request_credentials hl sv rq) (\<lambda>credentials.
           raising (if operation = ''status''
                    then app_get_status svc (sv_application sv) env execution_id credentials st
                    else app_get_receipt (sv_application sv) execution_id credentials st))) of
        Inl answered \<Rightarrow> answered
      | Inr result \<Rightarrow>
          answer_execution hl sv rq ''Execution or terminal receipt is unavailable'' result)"

definition handle_get ::
  "services \<Rightarrow> http_library \<Rightarrow> http_server \<Rightarrow> api_env \<Rightarrow> http_request \<Rightarrow> app_state \<Rightarrow> http_response result" where
  "handle_get svc hl sv env rq st =
     bindE (urlsplit (hl_netloc_ok hl) (rq_target rq)) (\<lambda>u.
     (let path = su_path u in
      if path = ''/healthz'' then send_json hl sv rq 200 (health_document (sv_application sv))
      else if path = ''/readyz'' then
        (let (ready, document) = readiness_document (sv_application sv) st
         in send_json hl sv rq (if ready then 200 else 503) document)
      else
        (case EXECUTION_ROUTE path of
           Some (execution_id, operation) \<Rightarrow>
             (if operation \<in> {''status'', ''receipt''}
              then handle_execution_read svc hl sv env rq execution_id operation st
              else send_transport_error hl sv rq 404 ''ERR_ENDPOINT_NOT_FOUND'' ''API endpoint not found'' False)
         | None \<Rightarrow>
             (if startswith path ''/api/''
              then send_transport_error hl sv rq 404 ''ERR_ENDPOINT_NOT_FOUND'' ''API endpoint not found'' False
              else handle_static hl sv rq False))))"

definition handle_submit ::
  "services \<Rightarrow> http_library \<Rightarrow> http_server \<Rightarrow> api_env \<Rightarrow> http_request \<Rightarrow> json \<Rightarrow> app_state \<Rightarrow>
   (http_response result \<times> app_state) option" where
  "handle_submit svc hl sv env rq credentials st =
     (case read_bounded_body hl sv rq False of
        Inl answered \<Rightarrow> Some (answered, st)
      | Inr body \<Rightarrow>
          map_option (\<lambda>(r, st').
            (bindE r (\<lambda>result.
               let public_result = filter (\<lambda>(k, v). k \<noteq> ''bundle'') (obj_fields result)
               in send_json hl sv rq (if obj_get public_result ''action'' = JStr ''ADMITTED'' then 201 else 200)
                    (JObj public_result)), st'))
            (submit svc (sv_application sv) env body credentials st))"

definition check_cancel_body :: "http_library \<Rightarrow> string \<Rightarrow> unit result" where
  "check_cancel_body hl body =
     (if body \<in> {[], ''{}'', ''{ }''} then Inr ()
      else if \<not> utf8_valid (map of_char body) then Inl ValueError
      else (case hl_loads hl body of
              None \<Rightarrow> Inl ValueError
            | Some parsed \<Rightarrow> ensure (py_eq parsed (JObj [])) ValueError))"

definition handle_cancel ::
  "services \<Rightarrow> http_library \<Rightarrow> http_server \<Rightarrow> api_env \<Rightarrow> http_request \<Rightarrow> json \<Rightarrow> string \<Rightarrow> app_state \<Rightarrow>
   http_response result \<times> app_state" where
  "handle_cancel svc hl sv env rq credentials execution_id st =
     (case bindE (read_bounded_body hl sv rq True) (\<lambda>body. raising (check_cancel_body hl body)) of
        Inl answered \<Rightarrow> (answered, st)
      | Inr _ \<Rightarrow>
          (let (r, st') = app_cancel svc (sv_application sv) env execution_id credentials st
           in (bindE r (answer_execution hl sv rq ''Execution is unavailable''), st')))"

definition handle_post ::
  "services \<Rightarrow> http_library \<Rightarrow> http_server \<Rightarrow> api_env \<Rightarrow> http_request \<Rightarrow> app_state \<Rightarrow>
   (http_response result \<times> app_state) option" where
  "handle_post svc hl sv env rq st =
     (case urlsplit (hl_netloc_ok hl) (rq_target rq) of
        Inl e \<Rightarrow> Some (Inl e, st)
      | Inr u \<Rightarrow>
          (case bindE (validate_api_request hl sv rq True) (\<lambda>_. request_credentials hl sv rq) of
             Inl answered \<Rightarrow> Some (answered, st)
           | Inr credentials \<Rightarrow>
               (if su_path u = ''/api/v1/intent/submit'' then handle_submit svc hl sv env rq credentials st
                else
                  (case EXECUTION_ROUTE (su_path u) of
                     Some (execution_id, operation) \<Rightarrow>
                       Some (if operation = ''cancel''
                             then handle_cancel svc hl sv env rq credentials execution_id st
                             else (send_transport_error hl sv rq 404 ''ERR_ENDPOINT_NOT_FOUND''
                                     ''API endpoint not found'' False, st))
                   | None \<Rightarrow>
                       Some (send_transport_error hl sv rq 404 ''ERR_ENDPOINT_NOT_FOUND''
                               ''API endpoint not found'' False, st)))))"

section \<open>Errors\<close>

definition HTTP_STATUS_BY_ERROR :: "(string \<times> nat) list" where
  "HTTP_STATUS_BY_ERROR =
     [(''ERR_AUTHENTICATION_REQUIRED'', 401), (''ERR_AUTHENTICATION_FAILED'', 401),
      (''ERR_UNAUTHORIZED_CALLER'', 403), (''ERR_POLICY_DENIED'', 403), (''ERR_ROLE_FORBIDDEN'', 403),
      (''ERR_CATALOG_REF_MISMATCH'', 403), (''ERR_UNKNOWN_PLUGIN_ID'', 403),
      (''ERR_UNKNOWN_DATASET_ID'', 403), (''ERR_OPERATION_SCOPE_UNSUPPORTED'', 403),
      (''ERR_STAGE_C_FORBIDDEN'', 403), (''ERR_INTENT_ID_DIGEST_CONFLICT'', 409),
      (''ERR_INTENT_COLLISION_DETECTED'', 409), (''ERR_EXECUTION_TERMINAL'', 409),
      (''ERR_QUOTA_EXCEEDED'', 429), (''ERR_SHUTTING_DOWN'', 503), (''ERR_WORKER_DISPATCH_FAILED'', 503)]"

text \<open>\<open>message\<close> is the first 512 characters of the text of the exception.\<close>

definition handle_exception ::
  "http_library \<Rightarrow> http_server \<Rightarrow> http_request \<Rightarrow> string \<Rightarrow> exn \<Rightarrow> http_response result option" where
  "handle_exception hl sv rq message e =
     (case e of
        ConnectionLost \<Rightarrow> None
      | BuiltinTimeoutError \<Rightarrow>
          Some (send_transport_error hl sv rq 408 ''ERR_REQUEST_TIMEOUT'' ''HTTP request timed out'' True)
      | ControllerError code category retryable \<Rightarrow>
          (let status = (case map_of HTTP_STATUS_BY_ERROR code of None \<Rightarrow> 400 | Some n \<Rightarrow> n)
           in Some (send_error_document hl sv rq status
                (error_body code category retryable
                   (if status = 401 then ''Authentication failed'' else message))))
      | KeyError \<Rightarrow> Some (send_transport_error hl sv rq 400 ''ERR_SCHEMA_VALIDATION_FAILED'' message False)
      | ValueError \<Rightarrow> Some (send_transport_error hl sv rq 400 ''ERR_SCHEMA_VALIDATION_FAILED'' message False)
      | _ \<Rightarrow> Some (send_transport_error hl sv rq 500 ''ERR_INTERNAL'' ''Internal request failure'' True))"

definition outcome_of :: "http_response result \<Rightarrow> http_outcome" where
  "outcome_of r = (case r of Inl e \<Rightarrow> Dropped | Inr resp \<Rightarrow> Answered resp)"

definition bounded ::
  "http_library \<Rightarrow> http_server \<Rightarrow> http_request \<Rightarrow> string \<Rightarrow> (http_response result \<times> app_state) option \<Rightarrow> app_state \<Rightarrow>
   (http_outcome \<times> app_state) option" where
  "bounded hl sv rq message operation st =
     (case validate_host_and_request_target hl sv rq of
        Inl answered \<Rightarrow> Some (outcome_of answered, st)
      | Inr _ \<Rightarrow>
          map_option (\<lambda>(r, st').
            (case r of
               Inr resp \<Rightarrow> Answered resp
             | Inl e \<Rightarrow>
                 (case handle_exception hl sv rq message e of None \<Rightarrow> Dropped | Some r' \<Rightarrow> outcome_of r'), st'))
            operation)"

text \<open>
  \<open>do_GET\<close>, \<open>do_HEAD\<close>, \<open>do_POST\<close> and \<open>do_OPTIONS\<close>; a method of another name never reaches the handler.
  \<open>None\<close> is a submission that still waits for an identical one when its schedule ends.
\<close>

definition http_operation ::
  "services \<Rightarrow> http_library \<Rightarrow> http_server \<Rightarrow> api_env \<Rightarrow> http_request \<Rightarrow> app_state \<Rightarrow>
   (http_response result \<times> app_state) option" where
  "http_operation svc hl sv env rq st =
     (case rq_method rq of
        GET \<Rightarrow> Some (handle_get svc hl sv env rq st, st)
      | HEAD \<Rightarrow> Some (handle_static hl sv rq True, st)
      | POST \<Rightarrow> handle_post svc hl sv env rq st
      | OPTIONS \<Rightarrow> Some (handle_options hl sv rq, st))"

definition serve ::
  "services \<Rightarrow> http_library \<Rightarrow> http_server \<Rightarrow> api_env \<Rightarrow> string \<Rightarrow> http_request \<Rightarrow> app_state \<Rightarrow>
   (http_outcome \<times> app_state) option" where
  "serve svc hl sv env message rq st = bounded hl sv rq message (http_operation svc hl sv env rq st) st"

end
