(* ===== verification/Host.thy ===== *)
theory Host
  imports Http_Host
begin

text \<open>
  The entry point of the controller, \<open>deltacontroller/host.py\<close>: how the parts are put together, what start
  is refused, and the life cycle of the process. The command line is the record \<open>host_args\<close>, \<open>environ\<close> the
  environment variables, \<open>resolve\<close> is \<open>Path.resolve\<close>. What the construction meets outside the
  program is the record \<open>build_env\<close>: files, locks, the lines of the ledger, and the outcomes of writes.
\<close>

definition DEFAULT_POLICY_VERSION :: string where
  "DEFAULT_POLICY_VERSION = ''step5c-policy-v1''"

definition DEFAULT_ADMISSION_TTL_SECONDS :: int where
  "DEFAULT_ADMISSION_TTL_SECONDS = 300"

section \<open>Command line and profile\<close>

record host_args =
  ha_config :: "string option"
  ha_data_dir :: string
  ha_ui_dir :: string
  ha_build_id :: string
  ha_port :: "int option"
  ha_bootstrap_local_identity :: bool
  ha_signing_key :: "string option"
  ha_worker_trust_roots :: "string option"
  ha_remote_auth_config :: "string option"
  ha_tls_cert :: "string option"
  ha_tls_key :: "string option"
  ha_shutdown_file :: "string option"
  ha_instance_id :: "string option"

definition configured_path :: "(string \<Rightarrow> string option) \<Rightarrow> string option \<Rightarrow> string \<Rightarrow> string option" where
  "configured_path environ argument name =
     (case argument of
        Some p \<Rightarrow> Some p
      | None \<Rightarrow> (case environ name of None \<Rightarrow> None | Some v \<Rightarrow> if v = [] then None else Some v))"

definition identity_paths_for_profile ::
  "(string \<Rightarrow> string option) \<Rightarrow> host_args \<Rightarrow> working_config \<Rightarrow> (string option \<times> string option) result" where
  "identity_paths_for_profile environ args config =
     (if cf_is_local config then
        (if ha_bootstrap_local_identity args \<and>
            (ha_signing_key args \<noteq> None \<or> ha_worker_trust_roots args \<noteq> None)
         then Inl ValueError
         else Inr (ha_signing_key args, ha_worker_trust_roots args))
      else Inr (configured_path environ (ha_signing_key args) ''DELTA_SIGNING_KEY_FILE'',
                configured_path environ (ha_worker_trust_roots args) ''DELTA_WORKER_TRUST_ROOTS_FILE''))"

definition override_port :: "int option \<Rightarrow> working_config \<Rightarrow> working_config result" where
  "override_port port config =
     (case port of
        None \<Rightarrow> Inr config
      | Some p \<Rightarrow>
          (if p < 1 \<or> p > 65535 then Inl ValueError
           else Inr (config\<lparr>cf_port := p,
                            cf_allowed_origins := (if cf_is_local config then [loopback_origin p]
                                                   else cf_allowed_origins config)\<rparr>)))"

text \<open>\<open>uuid_text t\<close> is \<open>str(uuid.UUID(t))\<close>, \<open>None\<close> when it raises; \<open>fresh\<close> is a new identifier.\<close>

definition check_instance_id ::
  "(string \<Rightarrow> string option) \<Rightarrow> string \<Rightarrow> string option \<Rightarrow> string result" where
  "check_instance_id uuid_text fresh argument =
     (case argument of
        None \<Rightarrow> Inr fresh
      | Some t \<Rightarrow>
          (case uuid_text t of
             None \<Rightarrow> Inl ValueError
           | Some instance_id \<Rightarrow> if t = instance_id then Inr instance_id else Inl ValueError))"

definition validate_ui_dir :: "(string \<Rightarrow> string) \<Rightarrow> (string \<Rightarrow> bool) \<Rightarrow> (string \<Rightarrow> bool) \<Rightarrow> string \<Rightarrow> string result" where
  "validate_ui_dir resolve is_dir is_file path =
     (let resolved = resolve path in
      bindE (ensure (is_dir resolved \<and> is_file (resolved @ ''/live.html'')) ValueError) (\<lambda>_. Inr resolved))"

definition validate_shutdown_file ::
  "(string \<Rightarrow> string) \<Rightarrow> string \<Rightarrow> string \<Rightarrow> string \<Rightarrow> string result" where
  "validate_shutdown_file resolve path data_dir instance_id =
     (let resolved = resolve path;
          expected = resolve (resolve data_dir @ ''/shutdown-'' @ instance_id @ ''.request'')
      in bindE (ensure (resolved = expected) ValueError) (\<lambda>_. Inr resolved))"

record host_plan =
  hp_config :: working_config
  hp_build_id :: string
  hp_instance_id :: string
  hp_data_dir :: string
  hp_ui_dir :: string
  hp_shutdown_file :: string
  hp_allow_local_bootstrap :: bool
  hp_signing_key :: "string option"
  hp_trust_roots :: "string option"
  hp_remote_auth :: "string option"
  hp_tls_cert :: "string option"
  hp_tls_key :: "string option"

record host_system =
  hs_environ :: "string \<Rightarrow> string option"
  hs_resolve :: "string \<Rightarrow> string"
  hs_is_dir :: "string \<Rightarrow> bool"
  hs_is_file :: "string \<Rightarrow> bool"
  hs_uuid_text :: "string \<Rightarrow> string option"
  hs_fresh_uuid :: string

text \<open>\<open>run_host\<close> up to the call of \<open>build_application\<close>; \<open>loaded\<close> is the result of \<open>load_working_version_config\<close>.\<close>

definition prepare_host :: "host_system \<Rightarrow> host_args \<Rightarrow> working_config result \<Rightarrow> host_plan result" where
  "prepare_host hs args loaded =
     bindE loaded (\<lambda>loaded_config.
     bindE (override_port (ha_port args) loaded_config) (\<lambda>config.
     bindE (validate_build_id (ha_build_id args)) (\<lambda>build_id.
     bindE (check_instance_id (hs_uuid_text hs) (hs_fresh_uuid hs) (ha_instance_id args)) (\<lambda>instance_id.
     (let data_dir = hs_resolve hs (ha_data_dir args) in
     bindE (validate_ui_dir (hs_resolve hs) (hs_is_dir hs) (hs_is_file hs) (ha_ui_dir args)) (\<lambda>ui_dir.
     bindE (validate_shutdown_file (hs_resolve hs)
              (case ha_shutdown_file args of
                 Some p \<Rightarrow> p | None \<Rightarrow> data_dir @ ''/shutdown-'' @ instance_id @ ''.request'')
              data_dir instance_id) (\<lambda>shutdown_file.
     bindE (ensure (cf_is_local config \<or> \<not> ha_bootstrap_local_identity args) ValueError) (\<lambda>_.
     bindE (identity_paths_for_profile (hs_environ hs) args config) (\<lambda>(signing_key, trust_roots).
     (let lookup = (\<lambda>argument name. if cf_is_local config then argument
                                    else configured_path (hs_environ hs) argument name);
          remote_auth = lookup (ha_remote_auth_config args) ''DELTA_REMOTE_AUTH_CONFIG'';
          tls_cert = lookup (ha_tls_cert args) ''DELTA_TLS_CERT_FILE'';
          tls_key = lookup (ha_tls_key args) ''DELTA_TLS_KEY_FILE''
      in
     bindE (ensure (cf_is_local config \<or> (signing_key \<noteq> None \<and> trust_roots \<noteq> None)) ValueError) (\<lambda>_.
     bindE (ensure (cf_is_local config \<or> (tls_cert \<noteq> None \<and> tls_key \<noteq> None)) ValueError) (\<lambda>_.
     Inr \<lparr>hp_config = config, hp_build_id = build_id, hp_instance_id = instance_id, hp_data_dir = data_dir,
          hp_ui_dir = ui_dir, hp_shutdown_file = shutdown_file,
          hp_allow_local_bootstrap = (ha_bootstrap_local_identity args \<and> cf_is_local config),
          hp_signing_key = signing_key, hp_trust_roots = trust_roots, hp_remote_auth = remote_auth,
          hp_tls_cert = tls_cert, hp_tls_key = tls_key\<rparr>))))))))))))"

section \<open>Construction\<close>

definition worker_command :: "string \<Rightarrow> runtime_identity \<Rightarrow> string \<Rightarrow> string \<Rightarrow> string list" where
  "worker_command executable identity build_id data_dir =
     [executable, ''-m'', ''deltatorrent.live_execution.process'', ''--trust-roots'',
      ri_trust_roots_path identity, ''--producer-commit'', build_id, ''--cache-root'', data_dir @ ''/worker-cache'']"

definition local_port :: "working_config \<Rightarrow> static_port" where
  "local_port config =
     \<lparr>token_map = [], allow_local_peer = True,
      peer_subjects =
        [(''working-version-loopback'',
          \<lparr>subject_id = cf_local_subject_id config, authenticated_via = ''LOCAL_PEER_CREDENTIAL'',
           effective_roles = cf_local_effective_roles config\<rparr>)]\<rparr>"

definition build_authentication_port ::
  "(string \<Rightarrow> string) \<Rightarrow> (string \<Rightarrow> json option) \<Rightarrow> files \<Rightarrow> working_config \<Rightarrow> string option \<Rightarrow>
   (json \<Rightarrow> subject result) result" where
  "build_authentication_port sha loads fs config remote_auth_config =
     (if cf_is_local config then
        (if remote_auth_config \<noteq> None then Inl ValueError else Inr (static_authenticate (local_port config)))
      else
        (case remote_auth_config of
           None \<Rightarrow> Inl ValueError
         | Some path \<Rightarrow>
             (case Option.bind (map_of fs path) loads of
                None \<Rightarrow> Inl ValueError
              | Some document \<Rightarrow>
                  bindE (hashed_port_from_document document) (\<lambda>subjects. Inr (hashed_authenticate sha subjects)))))"

record 'k build_env =
  be_keys :: "'k key_library"
  be_loads :: "string \<Rightarrow> json option"
  be_resolve :: "string \<Rightarrow> string"
  be_fresh_key :: 'k
  be_writes :: "nat \<Rightarrow> write_outcome"
  be_owner_write :: write_outcome
  be_pid :: int
  be_dumps :: "json \<Rightarrow> string"
  be_lease :: nat
  be_ledger_lines :: "log_line list option"
  be_recover :: "nat \<Rightarrow> string \<times> append_outcome"
  be_executable :: string
  be_redact :: "string \<Rightarrow> string"

definition build_gate ::
  "'k build_env \<Rightarrow> working_config \<Rightarrow> string \<Rightarrow> runtime_identity \<Rightarrow> (json \<Rightarrow> subject result) \<Rightarrow> ledger \<Rightarrow> gate result" where
  "build_gate be config build_id identity authenticate l =
     bindE (init_gate_checks (Some authenticate) (Some (ri_signing_identity identity)) (Some l) (Some build_id)) (\<lambda>_.
     Inr \<lparr>g_max_bytes = nat (cf_request_limit_bytes config), g_authenticate = authenticate,
          g_catalog = init_catalog FROZEN_CATALOG_REF None None None,
          g_quota = default_quota_manager
            \<lparr>max_concurrency := cf_worker_processes config + cf_worker_queue_capacity config\<rparr>,
          g_identity = ri_signing_identity identity, g_controller_commit = build_id,
          g_policy_version = DEFAULT_POLICY_VERSION, g_admission_ttl_seconds = DEFAULT_ADMISSION_TTL_SECONDS,
          g_redact_text = be_redact be\<rparr>)"

text \<open>The queue with the recovery of orphans that its constructor runs.\<close>

definition build_queue ::
  "services \<Rightarrow> 'k build_env \<Rightarrow> working_config \<Rightarrow> string \<Rightarrow> string list \<Rightarrow> ledger \<Rightarrow> queue world result" where
  "build_queue svc be config build_id command l =
     bindE (init_queue build_id (Some command) (None :: unit option) (cf_worker_processes config)
              (cf_worker_queue_capacity config)) (\<lambda>q.
     (case recover_orphans svc (be_recover be) \<lparr>w_ledger = l, w_port = q, w_audit = []\<rparr> of
        (Inl e, w) \<Rightarrow> Inl e
      | (Inr k, w) \<Rightarrow> Inr w))"

definition build_parts ::
  "services \<Rightarrow> 'k build_env \<Rightarrow> host_plan \<Rightarrow> files \<Rightarrow> (application \<times> app_state) result \<times> files" where
  "build_parts svc be hp fs =
     (let data_dir = be_resolve be (hp_data_dir hp); config = hp_config hp; build_id = hp_build_id hp in
      case load_or_bootstrap_runtime_identity (be_keys be) (svc_sha svc) (be_loads be) (be_resolve be)
             (be_fresh_key be) (be_writes be) data_dir (hp_allow_local_bootstrap hp) (hp_signing_key hp)
             (hp_trust_roots hp) fs of
        (Inl e, fs') \<Rightarrow> (Inl e, fs')
      | (Inr identity, fs') \<Rightarrow>
          (bindE (build_authentication_port (svc_sha svc) (be_loads be) fs' config (hp_remote_auth hp)) (\<lambda>authenticate.
           bindE (init_ledger svc (Some (data_dir @ ''/controller-ledger.jsonl'')) (Some build_id)
                    (be_ledger_lines be)) (\<lambda>l.
           bindE (build_queue svc be config build_id
                    (worker_command (be_executable be) identity build_id data_dir) l) (\<lambda>w.
           bindE (build_gate be config build_id identity authenticate (w_ledger w)) (\<lambda>g.
           Inr (init_application config build_id g identity (hp_instance_id hp) w))))), fs'))"

definition build_application ::
  "services \<Rightarrow> 'k build_env \<Rightarrow> host_plan \<Rightarrow> locks \<times> files \<Rightarrow>
   (application \<times> app_state \<times> lease) result \<times> locks \<times> files" where
  "build_application svc be hp st =
     (case bindE (validate_build_id (hp_build_id hp)) (init_lease (be_resolve be) (be_resolve be (hp_data_dir hp))) of
        Inl e \<Rightarrow> (Inl e, st)
      | Inr ls \<Rightarrow>
          (case lease_acquire (be_lease be) (be_pid be) (be_owner_write be) (be_dumps be) ls st of
             (Inl e, ls', st') \<Rightarrow> (Inl e, st')
           | (Inr _, ls', locks, fs) \<Rightarrow>
               (case build_parts svc be hp fs of
                  (Inr (ap, s), fs') \<Rightarrow> (Inr (ap, s, ls'), locks, fs')
                | (Inl e, fs') \<Rightarrow>
                    (let (_, st') = lease_release ls' (locks, fs') in (Inl e, st')))))"

section \<open>The shutdown request\<close>

text \<open>
  \<open>_watch_shutdown_file\<close>. A turn observes whether the process has stopped, whether the request file is
  there and whether it can be removed. The result is whether the shutdown was initiated; \<open>None\<close> is a
  loop that still waits when its observations end.
\<close>

record watch_turn =
  wt_stopped :: bool
  wt_is_file :: bool
  wt_unlink_ok :: bool

fun watch_shutdown_file :: "nat \<Rightarrow> bool \<Rightarrow> nat \<Rightarrow> watch_turn list \<Rightarrow> bool option" where
  "watch_shutdown_file limit observed attempts [] = None"
| "watch_shutdown_file limit observed attempts (t # ts) =
     (if wt_stopped t then Some False
      else if \<not> observed \<and> \<not> wt_is_file t then watch_shutdown_file limit observed attempts ts
      else if wt_unlink_ok t then Some True
      else if attempts + 1 < limit then watch_shutdown_file limit True (attempts + 1) ts
      else Some True)"

text \<open>\<open>initiate_shutdown\<close>: the event \<open>stopped\<close>, the readiness of the application and the event of the server.\<close>

definition initiate_shutdown :: "bool \<times> app_state \<times> bool \<Rightarrow> bool \<times> app_state \<times> bool" where
  "initiate_shutdown st =
     (let (stopped, ap, stopping) = st in
      if stopped then st else (True, begin_shutdown ap, True))"

section \<open>The life of the process\<close>

text \<open>
  \<open>run_host\<close> after the construction: how each step ends (\<open>hr_stopping_early\<close>: a shutdown request came in
  before the set-up failed), and the order in which the process lets go of what it holds.
\<close>

datatype serve_end = ServeReturned | Interrupted | ServeRaised exn

record host_run =
  hr_server :: "unit result"
  hr_setup :: "unit result"
  hr_stopping_early :: bool
  hr_serve :: serve_end
  hr_server_close :: "unit result"
  hr_app_shutdown :: "unit result"
  hr_write_stopped :: "unit result"

datatype host_event = ServerClosed | ApplicationShutdown | StoppedWritten | LeaseReleased

definition serve_and_stop :: "host_run \<Rightarrow> unit result \<times> host_event list \<times> bool" where
  "serve_and_stop hr =
     (let served = (case hr_serve hr of ServeRaised e \<Rightarrow> Inl e | _ \<Rightarrow> Inr ()) in
      case hr_server_close hr of
        Inl e \<Rightarrow> (Inl e, [ServerClosed], False)
      | Inr _ \<Rightarrow>
          (case hr_app_shutdown hr of
             Inl e \<Rightarrow> (Inl e, [ServerClosed, ApplicationShutdown], True)
           | Inr _ \<Rightarrow>
               (case hr_write_stopped hr of
                  Inl e \<Rightarrow> (Inl e, [ServerClosed, ApplicationShutdown], True)
                | Inr _ \<Rightarrow> (served, [ServerClosed, ApplicationShutdown, StoppedWritten], True))))"

text \<open>
  The result, the events before the outer \<open>finally\<close>, whether there is a server whose stopping event is not set,
  and whether the application has been shut down.
\<close>

definition host_body :: "host_run \<Rightarrow> unit result \<times> host_event list \<times> bool \<times> bool" where
  "host_body hr =
     (case hr_server hr of
        Inl e \<Rightarrow> (Inl e, [], False, False)
      | Inr _ \<Rightarrow>
          (case hr_setup hr of
             Inl e \<Rightarrow> (Inl e, [], \<not> hr_stopping_early hr, False)
           | Inr _ \<Rightarrow> (let (r, es, down) = serve_and_stop hr in (r, es, False, down))))"

definition run_host :: "host_run \<Rightarrow> unit result \<times> host_event list" where
  "run_host hr =
     (let (r, es, server_open, down) = host_body hr;
          r1 = (if server_open then (case hr_server_close hr of Inl e \<Rightarrow> Inl e | Inr _ \<Rightarrow> r) else r);
          r2 = (if down then r1 else (case hr_app_shutdown hr of Inl e \<Rightarrow> Inl e | Inr _ \<Rightarrow> r1))
      in (r2, es @ (if server_open then [ServerClosed] else []) @
                   (if down then [] else [ApplicationShutdown]) @ [LeaseReleased]))"

text \<open>\<open>main\<close>: the exit status, or the exception that leaves the process.\<close>

definition host_main :: "unit result \<Rightarrow> int result" where
  "host_main r =
     (case r of
        Inr _ \<Rightarrow> Inr 0
      | Inl e \<Rightarrow> if e \<in> {OSError, RuntimeError, ValueError} then Inr 2 else Inl e)"

definition runtime_document :: "application \<Rightarrow> int \<Rightarrow> int \<Rightarrow> string \<Rightarrow> json" where
  "runtime_document ap pid port status =
     (let config = ap_config ap;
          scheme = (if cf_is_local config then ''http'' else ''https'');
          host = (if cf_bind_host config = ''0.0.0.0'' then ''<configured-host>'' else cf_bind_host config)
      in JObj [(''schema_version'', JStr ''1.0.0''), (''status'', JStr status), (''pid'', JInt pid),
               (''profile'', JStr (cf_profile config)), (''listen_host'', JStr (cf_bind_host config)),
               (''listen_port'', JInt port),
               (''base_url'', JStr (scheme @ ''://'' @ host @ '':'' @ int_text port)),
               (''build_id'', JStr (ap_build_id ap)), (''protocol_id'', JStr (cf_protocol_id config)),
               (''contract_schema_version'', JStr (cf_contract_schema_version config)),
               (''formal_semantics_id'', JStr (cf_formal_semantics_id config)),
               (''instance_id'', JStr (ap_instance_id ap))])"

definition install_tls ::
  "(string \<Rightarrow> bool) \<Rightarrow> unit result \<Rightarrow> working_config \<Rightarrow> string option \<Rightarrow> string option \<Rightarrow> bool result" where
  "install_tls is_file load_chain config certificate private_key =
     (if cf_is_local config then
        (if certificate \<noteq> None \<or> private_key \<noteq> None then Inl ValueError else Inr False)
      else
        (case (certificate, private_key) of
           (Some c, Some k) \<Rightarrow>
             bindE (ensure (is_file c \<and> is_file k) ValueError) (\<lambda>_. bindE load_chain (\<lambda>_. Inr True))
         | _ \<Rightarrow> Inl ValueError))"

end
