(* ===== verification/Host_Props.thy ===== *)
theory Host_Props
  imports Host End_To_End Queue_Theorems
begin

text \<open>
  What the start of the controller guarantees: the bounds of a loaded descriptor, the agreement
  between the signing identity and the worker's trust roots, the consistency of the constructed parts, and
  the order in which the process lets go of what it holds.
\<close>

section \<open>The descriptor\<close>

lemma require_int_Inr: "require_int v lo hi = Inr i \<longleftrightarrow> v = JInt i \<and> lo \<le> i \<and> i \<le> hi"
  by (cases v) auto

lemma require_object_Inr: "require_object v = Inr kvs \<longleftrightarrow> v = JObj kvs"
  by (cases v) auto

lemma float_scaled_int:
  assumes "0 \<le> i"
  shows "float_scaled (int_text i @ ''.0'') k = (10 * i, k * 10)"
proof -
  define n where "n = nat i"
  have i: "int_text i = nat_text n" using assms by (simp add: int_text_def n_def)
  have digits: "c \<in> set (nat_text n) \<Longrightarrow> is_digit c" for c
    using nat_text_digits by (simp add: list_all_iff)
  have nodigit: "\<not> is_digit (CHR ''e'')" "\<not> is_digit (CHR ''.'')" "\<not> is_digit (CHR ''-'')"
    by (simp_all add: is_digit_def)
  have "startswith (nat_text n @ ''.0'') ''-'' = False"
    using digits nodigit nat_text_nonempty [of n] by (cases "nat_text n") (auto simp: startswith_def)
  moreover have "partition_at (CHR ''e'') (nat_text n @ ''.0'') = (nat_text n @ ''.0'', False, [])"
    using digits nodigit by (intro partition_at_none) auto
  moreover have "partition_at (CHR ''.'') (nat_text n @ ''.0'') = (nat_text n, True, ''0'')"
    using digits nodigit by (intro partition_at_split) auto
  moreover have "text_nat (nat_text n @ ''0'') = 10 * n"
    using text_nat_nat_text [of n] by (simp add: text_nat_def digits_value_append)
  ultimately show ?thesis
    using assms by (simp add: float_scaled_def float_parts_def i text_int_def n_def)
qed

lemma int_text_point_finite: "float_finite (int_text i @ ''.0'')"
  by (auto simp: float_finite_def non_finite_texts_def dest!: arg_cong [where f = last])

lemma require_number_Inr:
  assumes "require_number v lo hi = Inr t" and "0 \<le> lo"
  shows "float_in_range t lo hi"
proof (cases v)
  case (JInt i)
  with assms show ?thesis
    by (auto simp: float_in_range_def float_scaled_int int_text_point_finite split: if_splits)
qed (use assms in \<open>auto split: if_splits\<close>)

lemma check_origin_Inr:
  assumes "check_origin ok profile v = Inr origin"
  shows "v = JStr origin \<and> CHR ''*'' \<notin> set origin \<and>
    (\<exists>u. urlsplit ok origin = Inr u \<and> url_hostname (su_netloc u) \<noteq> None \<and>
       (profile = ''REMOTE_TLS'' \<longrightarrow> su_scheme u = ''https''))"
  using assms by (cases v) (auto simp: check_origin_def bindE_eq_Inr)

definition origin_ok :: "(string \<Rightarrow> bool) \<Rightarrow> string \<Rightarrow> string \<Rightarrow> bool" where
  "origin_ok ok profile origin \<longleftrightarrow>
     CHR ''*'' \<notin> set origin \<and>
     (\<exists>u. urlsplit ok origin = Inr u \<and> url_hostname (su_netloc u) \<noteq> None \<and>
        (profile = ''REMOTE_TLS'' \<longrightarrow> su_scheme u = ''https''))"

lemma check_bindings_Inr:
  assumes "check_bindings ok profile b = Inr (bind_host, port, origins)"
  shows "1 \<le> port \<and> port \<le> 65535 \<and> origins \<noteq> [] \<and> distinct origins \<and>
    (profile = ''LOCAL_LOOPBACK'' \<longrightarrow> bind_host = ''127.0.0.1'' \<and> origins = [loopback_origin port]) \<and>
    (\<forall>origin\<in>set origins. origin_ok ok profile origin)"
proof -
  obtain raw where raw: "mapE (check_origin ok profile) raw = Inr origins" "raw \<noteq> []"
    and rest: "1 \<le> port" "port \<le> 65535" "distinct origins"
      "profile = ''LOCAL_LOOPBACK'' \<longrightarrow> bind_host = ''127.0.0.1'' \<and> origins = [loopback_origin port]"
    using assms by (cases "obj_get b ''host''"; cases "obj_get b ''allowed_origins''")
      (auto simp: check_bindings_def bindE_eq_Inr require_int_Inr)
  have "list_all2 (\<lambda>v origin. check_origin ok profile v = Inr origin) raw origins"
    using raw(1) by (simp add: mapE_eq_Inr_iff)
  then have "\<forall>origin\<in>set origins. origin_ok ok profile origin" and "origins \<noteq> []"
    using raw(2) check_origin_Inr unfolding origin_ok_def
    by (fastforce simp: list_all2_conv_all_nth in_set_conv_nth)+
  with rest show ?thesis by blast
qed

definition config_ok :: "(string \<Rightarrow> bool) \<Rightarrow> working_config \<Rightarrow> bool" where
  "config_ok ok c \<longleftrightarrow>
     cf_profile c \<in> {''LOCAL_LOOPBACK'', ''REMOTE_TLS''} \<and> 1 \<le> cf_port c \<and> cf_port c \<le> 65535 \<and>
     cf_request_limit_bytes c = 10485760 \<and> cf_json_max_depth c = int MAX_JSON_DEPTH \<and>
     1 \<le> cf_max_inflight_requests c \<and> cf_max_inflight_requests c \<le> 1024 \<and>
     1 \<le> cf_worker_processes c \<and> cf_worker_processes c \<le> 32 \<and>
     1 \<le> cf_worker_queue_capacity c \<and> cf_worker_queue_capacity c \<le> 128 \<and>
     float_in_range (cf_request_timeout_seconds c) 1 120 \<and>
     float_in_range (cf_shutdown_grace_seconds c) 0 300 \<and>
     cf_allowed_origins c \<noteq> [] \<and> distinct (cf_allowed_origins c) \<and>
     (cf_is_local c \<longrightarrow> cf_bind_host c = ''127.0.0.1'' \<and> cf_allowed_origins c = [loopback_origin (cf_port c)]) \<and>
     (\<forall>origin\<in>set (cf_allowed_origins c). origin_ok ok (cf_profile c) origin)"

lemma validated_config_ok:
  assumes "validated_config ok profile document bindings limits identity = Inr c"
    and profile: "profile \<in> {''LOCAL_LOOPBACK'', ''REMOTE_TLS''}"
  shows "config_ok ok c"
proof -
  obtain bind_host where d: "cf_profile c = profile" "cf_bind_host c = bind_host"
      "check_bindings ok profile bindings = Inr (bind_host, cf_port c, cf_allowed_origins c)"
      "check_limits limits = Inr (cf_request_limit_bytes c, cf_json_max_depth c)"
      "require_number (obj_get limits ''request_timeout_seconds'') 1 120 = Inr (cf_request_timeout_seconds c)"
      "require_number (obj_get limits ''shutdown_grace_seconds'') 0 300 = Inr (cf_shutdown_grace_seconds c)"
      "1 \<le> cf_max_inflight_requests c" "cf_max_inflight_requests c \<le> 1024"
      "1 \<le> cf_worker_processes c" "cf_worker_processes c \<le> 32"
      "1 \<le> cf_worker_queue_capacity c" "cf_worker_queue_capacity c \<le> 128"
    using assms(1) unfolding validated_config_def bindE_eq_Inr
    by (elim exE conjE, clarsimp simp: bindE_eq_Inr require_int_Inr)
  have "cf_request_limit_bytes c = 10485760" "cf_json_max_depth c = int MAX_JSON_DEPTH"
    using d(4) by (auto simp: check_limits_def bindE_eq_Inr MAX_REQUEST_BYTES_def MAX_CONFIG_JSON_DEPTH_def
        MAX_JSON_DEPTH_def)
  with profile d check_bindings_Inr [OF d(3)] require_number_Inr [OF d(5)] require_number_Inr [OF d(6)]
  show ?thesis unfolding config_ok_def cf_is_local_def by simp
qed

lemma load_config_ok:
  assumes "load_working_version_config ok loads content = Inr c"
  shows "config_ok ok c"
proof -
  obtain profile document bindings limits identity where
      "validated_config ok profile document bindings limits identity = Inr c"
      "profile \<in> {''LOCAL_LOOPBACK'', ''REMOTE_TLS''}"
    using assms
  proof -
    from assms obtain v where v: "Option.bind content loads = Some v"
      by (cases "Option.bind content loads") (auto simp: load_working_version_config_def)
    from assms v obtain document where d: "v = JObj document"
      by (auto simp: load_working_version_config_def bindE_eq_Inr require_object_Inr)
    show ?thesis
      using assms v d that
      by (cases "obj_get document ''profile''")
        (auto simp: load_working_version_config_def bindE_eq_Inr require_object_Inr)
  qed
  then show ?thesis by (rule validated_config_ok)
qed

text \<open>The host check of the request handler cannot raise under a loaded descriptor.\<close>

lemma allowed_hosts_total:
  assumes "config_ok (hl_netloc_ok hl) (ap_config (sv_application sv))"
  shows "\<exists>hosts. allowed_hosts hl sv = Inr hosts"
proof -
  let ?f = "\<lambda>origin. bindE (urlsplit (hl_netloc_ok hl) origin) (\<lambda>u. Inr (hl_casefold hl (su_netloc u)))"
  let ?g = "\<lambda>origin. case ?f origin of Inr h \<Rightarrow> h | Inl e \<Rightarrow> []"
  have "?f origin = Inr (?g origin)" if "origin \<in> set (cf_allowed_origins (ap_config (sv_application sv)))" for origin
  proof -
    from assms that obtain u where "urlsplit (hl_netloc_ok hl) origin = Inr u"
      unfolding config_ok_def origin_ok_def by blast
    then show ?thesis by simp
  qed
  then have "mapE ?f (cf_allowed_origins (ap_config (sv_application sv)))
      = Inr (map ?g (cf_allowed_origins (ap_config (sv_application sv))))" by (rule mapE_total)
  then show ?thesis unfolding allowed_hosts_def by (auto simp: Let_def)
qed

section \<open>The signing identity and the trust roots\<close>

lemma config_trust_rootsE:
  assumes "config_load_trust_roots loads content = Inr (issuer, key_id, hex)"
  obtains raw document key where "content = Some raw" "loads raw = Some (JObj document)"
    "set (map fst document) = {''schema_version'', ''issuer_id'', ''keys''}"
    "obj_get document ''schema_version'' = JStr ''1.0.0''" "obj_get document ''issuer_id'' = JStr issuer"
    "issuer \<notin> set FIXTURE_ISSUER_IDS" "obj_get document ''keys'' = JArr [JObj key]"
    "set (map fst key) = {''key_id'', ''algorithm'', ''public_key_hex''}" "obj_get key ''key_id'' = JStr key_id"
    "key_id \<noteq> []" "key_id \<notin> set FIXTURE_KEY_IDS" "obj_get key ''algorithm'' = JStr ''ED25519''"
    "obj_get key ''public_key_hex'' = JStr hex" "fullmatch_hex 64 hex"
proof -
  from assms obtain raw v where c: "content = Some raw" "loads raw = Some v"
    by (cases content; cases "Option.bind content loads") (auto simp: config_load_trust_roots_def)
  with assms obtain document where d: "v = JObj document"
    by (auto simp: config_load_trust_roots_def bindE_eq_Inr require_object_Inr)
  note u = assms [unfolded config_load_trust_roots_def c d bind.simps option.simps]
  from u obtain iss where i: "obj_get document ''issuer_id'' = JStr iss"
    by (cases "obj_get document ''issuer_id''") (auto simp: bindE_eq_Inr)
  from u i obtain ks where k: "obj_get document ''keys'' = JArr ks"
    by (cases "obj_get document ''keys''") (auto simp: bindE_eq_Inr)
  from u i k obtain kv where "ks = [kv]"
    by (cases ks; cases "tl ks") (auto simp: bindE_eq_Inr split: json.splits)
  with u i k obtain key where key: "ks = [JObj key]" by (cases kv) (auto simp: bindE_eq_Inr)
  from u i k key obtain kid where kid: "obj_get key ''key_id'' = JStr kid"
    by (cases "obj_get key ''key_id''") (auto simp: bindE_eq_Inr)
  from u i k key kid obtain h where "obj_get key ''public_key_hex'' = JStr h"
    by (cases "obj_get key ''public_key_hex''") (auto simp: bindE_eq_Inr)
  with u c d i k key kid that show thesis by (auto simp: bindE_eq_Inr)
qed

text \<open>A trust roots document the controller accepts is accepted by the worker, with the same key.\<close>

lemma worker_accepts_trust_roots:
  assumes c: "config_load_trust_roots loads content = Inr (issuer, key_id, bytes_hex public)"
    and issuer: "\<not> is_blank issuer" and content: "content = Some raw" "length raw \<le> MAX_TRUST_ROOTS_BYTES"
      "utf8_valid (map of_char raw)" "ws_loads ws raw = loads raw"
  shows "load_trust_roots ws content = Inr (issuer, [(key_id, bytes_hex public)])"
    and "init_preflight None None (Some [(key_id, bytes_hex public)]) =
      Inr \<lparr>pv_trusted_keys = [(key_id, bytes_hex public)], pv_pinned_key_ids = [key_id],
           pv_trusted_public_key_hex = None\<rparr>"
proof -
  from c obtain raw' document key where d: "content = Some raw'" "loads raw' = Some (JObj document)"
    "set (map fst document) = {''schema_version'', ''issuer_id'', ''keys''}"
    "obj_get document ''schema_version'' = JStr ''1.0.0''" "obj_get document ''issuer_id'' = JStr issuer"
    "issuer \<notin> set FIXTURE_ISSUER_IDS" "obj_get document ''keys'' = JArr [JObj key]"
    and k: "set (map fst key) = {''key_id'', ''algorithm'', ''public_key_hex''}"
    "obj_get key ''key_id'' = JStr key_id" "key_id \<noteq> []" "key_id \<notin> set FIXTURE_KEY_IDS"
    "obj_get key ''algorithm'' = JStr ''ED25519''" "obj_get key ''public_key_hex'' = JStr (bytes_hex public)"
    and hex: "fullmatch_hex 64 (bytes_hex public)"
    by (rule config_trust_rootsE)
  have "length public = 32" using hex length_bytes_hex [of public] by (simp add: fullmatch_hex_def)
  with k(3) show p: "init_preflight None None (Some [(key_id, bytes_hex public)]) =
      Inr \<lparr>pv_trusted_keys = [(key_id, bytes_hex public)], pv_pinned_key_ids = [key_id],
           pv_trusted_public_key_hex = None\<rparr>"
    by (simp add: init_preflight_def validate_trusted_key_def fromhex_bytes_hex)
  have "trust_root_keys [JObj key] [] = Inr [(key_id, bytes_hex public)]"
    using k by (simp add: trust_root_entry_def FIXTURE_KEY_ID_def FIXTURE_KEY_IDS_def)
  with d content issuer p show "load_trust_roots ws content = Inr (issuer, [(key_id, bytes_hex public)])"
    by (simp add: load_trust_roots_def FIXTURE_ISSUER_ID_def FIXTURE_ISSUER_IDS_def)
qed

lemma load_identityE:
  assumes "load_identity kl loads key_path roots_path fs = Inr ident"
  obtains key where "ri_trust_roots_path ident = roots_path"
    "config_load_trust_roots loads (map_of fs roots_path) =
       Inr (si_issuer_id (ri_signing_identity ident), si_key_id (ri_signing_identity ident),
            bytes_hex (kl_public kl key))"
    "si_sign (ri_signing_identity ident) = kl_sign kl key" "\<not> is_blank (si_issuer_id (ri_signing_identity ident))"
    "ri_public_key_hex ident = bytes_hex (kl_public kl key)"
  using assms
  by (auto simp: load_identity_def init_signing_identity_def bindE_eq_Inr split: option.splits)

lemma identity_loaded:
  assumes "load_or_bootstrap_runtime_identity kl sha loads resolve fresh outcomes data_dir allow key_path roots_path fs
    = (Inr ident, fs')"
  shows "\<exists>kp rp. load_identity kl loads kp rp fs' = Inr ident"
  using assms
  by (auto simp: load_or_bootstrap_runtime_identity_def Let_def split: if_splits sum.splits prod.splits)

text \<open>
  The deployment that the theorems about gate and worker assume is the one the start builds: the key of the
  gate is the one the worker reads from the trust roots, provided the key library verifies what it signs.
\<close>

lemma deployment_links:
  assumes ident: "load_or_bootstrap_runtime_identity kl sha loads resolve fresh outcomes data_dir allow key_path
      roots_path fs = (Inr ident, fs')"
    and raw: "map_of fs' (ri_trust_roots_path ident) = Some raw" "length raw \<le> MAX_TRUST_ROOTS_BYTES"
      "utf8_valid (map of_char raw)" "ws_loads ws raw = loads raw"
    and keys: "\<And>k m. \<exists>sig. fromhex (kl_sign kl k m) = Some sig \<and> ws_verify ws (kl_public kl k) m sig"
    and time: "ws_sha ws = svc_sha svc" "ws_fromiso ws = svc_fromiso svc" "svc_fromiso svc [] = None"
      "\<And>t z. svc_isoformat svc (Aware t z) \<noteq> [] \<and>
         svc_fromiso svc (replace_z (svc_isoformat svc (Aware t z))) = Some (Aware t z)"
    and g: "g_identity g = ri_signing_identity ident"
  shows "\<exists>trusted pv. load_trust_roots ws (Some raw) = Inr (si_issuer_id (g_identity g), trusted) \<and>
    init_preflight None None (Some trusted) = Inr pv \<and> linked svc ws g pv"
proof -
  obtain kp rp where "load_identity kl loads kp rp fs' = Inr ident" using identity_loaded [OF ident] by blast
  then obtain key where k: "ri_trust_roots_path ident = rp"
      "config_load_trust_roots loads (map_of fs' rp) =
         Inr (si_issuer_id (ri_signing_identity ident), si_key_id (ri_signing_identity ident),
              bytes_hex (kl_public kl key))"
      "si_sign (ri_signing_identity ident) = kl_sign kl key" "\<not> is_blank (si_issuer_id (ri_signing_identity ident))"
    by (rule load_identityE)
  note c = k(2) [unfolded k(1) [symmetric] raw(1)]
  have nonempty: "si_key_id (ri_signing_identity ident) \<noteq> []" by (rule config_trust_rootsE [OF c])
  note w = worker_accepts_trust_roots [OF c k(4) refl raw(2,3,4)]
  have "linked svc ws g
      \<lparr>pv_trusted_keys = [(si_key_id (ri_signing_identity ident), bytes_hex (kl_public kl key))],
       pv_pinned_key_ids = [si_key_id (ri_signing_identity ident)], pv_trusted_public_key_hex = None\<rparr>"
    using keys time nonempty by (simp add: linked_def g k(3) fromhex_bytes_hex)
  with w g show ?thesis by auto
qed

section \<open>Cancellation\<close>

lemma cancelled_transition:
  assumes inv: "ledger_inv svc l" and fin: "json_finite err"
    and t: "transition_execution svc (move e NONTERMINAL_STATUSES ''CANCELLED'' err) now outcome l
            = (Inr (Some r), l')"
  shows "ledger_step svc l l'" and "\<exists>q. get_by_execution_id e l' = Some q \<and> rec_status q = ''CANCELLED''"
proof -
  let ?t = "move e NONTERMINAL_STATUSES ''CANCELLED'' err"
  show "ledger_step svc l l'" using t by (rule ledger_step.transition) (simp add: move_def fin)
  then have inv': "ledger_inv svc l'" using inv ledger_step_inv by blast
  note agree = ledger_inv_distinct_reservations(3) [OF inv]
  have no_repeat: "transition_decision svc ?t now l \<noteq> Inr (Some (False, p))" for p
  proof
    assume "transition_decision svc ?t now l = Inr (Some (False, p))"
    then show False
      by (rule transition_decision_facts) (auto simp: move_def NONTERMINAL_STATUSES_def)
  qed
  from t show "\<exists>q. get_by_execution_id e l' = Some q \<and> rec_status q = ''CANCELLED''"
  proof (cases rule: transition_outcome)
    case (moved q lp)
    obtain i p where f: "map_of (lg_by_execution_id l) e = Some i" "map_of (lg_by_intent_id l) i = Some p"
        "moves_to p q" "rec_status q = ''CANCELLED''"
      by (rule transition_moves [OF inv moved(1)]) (auto simp: move_def fin)
    have "rec_execution_id q = e"
      using indexes_agreeD(5) [OF agree f(1)] f(2) moves_to_same(3) [OF f(3)] by auto
    moreover have "map_of (lg_by_intent_id l') i = Some q"
      using moved(4) f(1) by (simp add: owner_of_execution_def move_def)
    ultimately show ?thesis using inv' f(4) by (auto simp: get_by_execution_id_iff)
  qed (use no_repeat in auto)
qed

lemma terminal_execution_kept:
  assumes "ledger_inv svc l" and "(ledger_step svc)\<^sup>*\<^sup>* l l'" and "get_by_execution_id e l = Some r"
    and "rec_status r \<in> set TERMINAL_STATUSES"
  shows "get_by_execution_id e l' = Some r"
proof -
  obtain i where i: "map_of (lg_by_intent_id l) i = Some r" "rec_execution_id r = e"
    using assms(1,3) get_by_execution_id_iff by blast
  have "map_of (lg_by_intent_id l') i = Some r"
    using ledger_history.maximal_kept [OF assms(2,1) i(1)] terminal_maximal [OF assms(4)] by blast
  moreover have "ledger_inv svc l'" using ledger_history.steps_inv [OF assms(2,1)] .
  ultimately show ?thesis using i(2) get_by_execution_id_iff by blast
qed

definition ledger_rely :: "services \<Rightarrow> (nat \<Rightarrow> queue world \<Rightarrow> queue world) \<Rightarrow> bool" where
  "ledger_rely svc others \<longleftrightarrow> (\<forall>n w. (ledger_step svc)\<^sup>*\<^sup>* (w_ledger w) (w_ledger (others n w)))"

lemma cancel_done:
  assumes inv: "ledger_inv svc (w_ledger w)" and rely: "ledger_rely svc (qe_others env)"
    and c: "cancel svc env e w = (Inr (Some r), w')"
  shows "ledger_inv svc (w_ledger w') \<and>
    (\<exists>q. get_by_execution_id e (w_ledger w') = Some q \<and> rec_status q = ''CANCELLED'')"
proof -
  let ?w1 = "qe_others env 1 w"
  obtain l where t: "transition_execution svc
        (move e NONTERMINAL_STATUSES ''CANCELLED'' (queue_error ''ERR_CANCELLED'' ''WORKER'' True ''Execution was cancelled''))
        (qe_clock env 1) (qe_append env 1) (w_ledger ?w1) = (Inr (Some r), l)"
      and w': "w_ledger w' = w_ledger (qe_others env 2 (?w1\<lparr>w_ledger := l\<rparr>))"
    using c by (auto simp: cancel_def Let_def split: option.splits if_splits prod.splits sum.splits)
  have inv1: "ledger_inv svc (w_ledger ?w1)"
    using ledger_history.steps_inv [OF _ inv] rely unfolding ledger_rely_def by blast
  have "json_finite (queue_error ''ERR_CANCELLED'' ''WORKER'' True ''Execution was cancelled'')"
    by (simp add: queue_error_def)
  note s = cancelled_transition [OF inv1 this t]
  have inv2: "ledger_inv svc l" using s(1) inv1 ledger_step_inv by blast
  obtain q where q: "get_by_execution_id e l = Some q" "rec_status q = ''CANCELLED''" using s(2) by blast
  have steps: "(ledger_step svc)\<^sup>*\<^sup>* l (w_ledger w')"
    using rely unfolding ledger_rely_def w' by (metis world.select_convs(1) world.simps(4) world.surjective world.update_convs(1))
  have "get_by_execution_id e (w_ledger w') = Some q"
    by (rule terminal_execution_kept [OF inv2 steps q(1)]) (simp add: q(2) TERMINAL_STATUSES_def)
  with q(2) ledger_history.steps_inv [OF steps inv2] show ?thesis by blast
qed

lemma record_status_state:
  "record_status svc now r = Inr doc \<Longrightarrow> dict_get doc ''state'' = Inr (JStr (rec_status r))"
  by (auto simp: record_status_def build_execution_status_def Let_def bindE_eq_Inr obj_get_def split: if_splits)

lemma app_cancel_done:
  assumes inv: "ledger_inv svc (w_ledger (as_world st))"
    and rely: "ledger_rely svc (ae_others env)" "ledger_rely svc (qe_others (ae_queue env))"
    and c: "app_cancel svc ap env e c st = (Inr (Some doc), st')"
  shows "\<exists>s q. g_authenticate (ap_gate ap) c = Inr s \<and>
    get_by_execution_id e (w_ledger (as_world st')) = Some q \<and> rec_status q = ''CANCELLED'' \<and>
    rec_authenticated_subject_id q = subject_id s \<and> dict_get doc ''state'' = Inr (JStr ''CANCELLED'')"
proof -
  obtain r w where w: "cancel svc (ae_queue env) e (ae_others env 1 (as_world st)) = (Inr (Some r), w)"
      and st': "as_world st' = ae_others env 2 w"
      and g: "get_status svc (ap_gate ap) (ae_clock env 1) e c (w_ledger (as_world st')) = Inr (Some doc)"
    using c by (auto simp: app_cancel_def Let_def split: sum.splits bool.splits prod.splits option.splits)
  have inv1: "ledger_inv svc (w_ledger (ae_others env 1 (as_world st)))"
    using ledger_history.steps_inv [OF _ inv] rely(1) unfolding ledger_rely_def by blast
  obtain q where q: "ledger_inv svc (w_ledger w)" "get_by_execution_id e (w_ledger w) = Some q"
      "rec_status q = ''CANCELLED''"
    using cancel_done [OF inv1 rely(2) w] by blast
  have "get_by_execution_id e (w_ledger (as_world st')) = Some q"
    unfolding st' by (rule terminal_execution_kept [OF q(1) _ q(2)])
      (use rely(1) q(3) in \<open>auto simp: ledger_rely_def TERMINAL_STATUSES_def\<close>)
  with get_status_owned [OF g] record_status_state q(3) show ?thesis by fastforce
qed

section \<open>Construction\<close>

lemma recover_records_steps:
  "recover_records svc active recs env n l = (r, l') \<Longrightarrow> (ledger_step svc)\<^sup>*\<^sup>* l l'"
proof (induction svc active recs env n l arbitrary: r l' rule: recover_records.induct)
  case (2 svc active rec recs env n l)
  show ?case
  proof (cases "rec_execution_id rec \<in> set active")
    case True
    with 2 show ?thesis by simp
  next
    case False
    obtain r1 l1 where t: "transition_execution svc
        (move (rec_execution_id rec) [rec_status rec] ''FAILED'' orphan_error) (fst (env n)) (snd (env n)) l = (r1, l1)"
      by (cases "transition_execution svc
        (move (rec_execution_id rec) [rec_status rec] ''FAILED'' orphan_error) (fst (env n)) (snd (env n)) l")
    have step: "ledger_step svc l l1"
      using t by (rule ledger_step.transition) (simp add: move_def orphan_error_def queue_error_def)
    show ?thesis
    proof (cases r1)
      case (Inl e)
      with 2(3) False t step show ?thesis by auto
    next
      case (Inr moved)
      obtain r2 l2 where rest: "recover_records svc active recs env (Suc n) l1 = (r2, l2)"
        by (cases "recover_records svc active recs env (Suc n) l1")
      have "(ledger_step svc)\<^sup>*\<^sup>* l1 l2" using 2(2) [OF False t [symmetric] Inr rest] .
      moreover have "l' = l2" using 2(3) False t Inr rest by (auto split: sum.splits)
      ultimately show ?thesis using step by (meson converse_rtranclp_into_rtranclp)
    qed
  qed
qed simp

lemma recover_orphans_steps:
  assumes "recover_orphans svc env w = (r, w')"
  shows "(ledger_step svc)\<^sup>*\<^sup>* (w_ledger w) (w_ledger w') \<and> w_port w' = w_port w"
  using assms recover_records_steps
  by (auto simp: recover_orphans_def split: sum.splits prod.splits)

lemma build_queue_Inr:
  assumes "build_queue svc be config build_id command l = Inr w"
  shows "(ledger_step svc)\<^sup>*\<^sup>* l (w_ledger w) \<and> q_producer_commit (w_port w) = build_id \<and>
    q_total (w_port w) = nat (cf_worker_processes config + cf_worker_queue_capacity config) \<and>
    q_capacity (w_port w) = q_total (w_port w) \<and> q_jobs (w_port w) = [] \<and> q_reservations (w_port w) = [] \<and>
    q_accepting (w_port w)"
proof -
  obtain q where q: "init_queue build_id (Some command) (None :: unit option) (cf_worker_processes config)
        (cf_worker_queue_capacity config) = Inr q"
    using assms by (auto simp: build_queue_def bindE_eq_Inr)
  obtain r where r: "recover_orphans svc (be_recover be) \<lparr>w_ledger = l, w_port = q, w_audit = []\<rparr> = (r, w)"
    using assms q by (cases "recover_orphans svc (be_recover be) \<lparr>w_ledger = l, w_port = q, w_audit = []\<rparr>")
      (auto simp: build_queue_def split: sum.splits)
  have q': "q = \<lparr>q_producer_commit = build_id,
      q_total = nat (cf_worker_processes config + cf_worker_queue_capacity config),
      q_capacity = nat (cf_worker_processes config + cf_worker_queue_capacity config), q_jobs = [],
      q_reservations = [], q_accepting = True, q_next_ident = 0\<rparr>"
    using q by (auto simp: init_queue_def bindE_eq_Inr)
  from recover_orphans_steps [OF r] show ?thesis by (simp add: q')
qed

definition consistent :: "services \<Rightarrow> application \<Rightarrow> app_state \<Rightarrow> bool" where
  "consistent svc ap s \<longleftrightarrow>
     as_ready s \<and> reachable (ledger_start svc) (ledger_step svc) (w_ledger (as_world s)) \<and>
     int (q_total (w_port (as_world s))) = max_concurrency (g_quota (ap_gate ap)) \<and>
     q_capacity (w_port (as_world s)) = q_total (w_port (as_world s)) \<and>
     q_jobs (w_port (as_world s)) = [] \<and> q_reservations (w_port (as_world s)) = [] \<and>
     g_controller_commit (ap_gate ap) = ap_build_id ap \<and> q_producer_commit (w_port (as_world s)) = ap_build_id ap \<and>
     g_identity (ap_gate ap) = ri_signing_identity (ap_identity ap) \<and>
     g_max_bytes (ap_gate ap) = nat (cf_request_limit_bytes (ap_config ap))"

lemma build_parts_consistent:
  assumes "build_parts svc be hp fs = (Inr (ap, s), fs')"
    and "1 \<le> cf_worker_processes (hp_config hp)" and "1 \<le> cf_worker_queue_capacity (hp_config hp)"
  shows "consistent svc ap s \<and> ap_config ap = hp_config hp \<and> ap_build_id ap = hp_build_id hp \<and>
    (\<exists>data_dir. load_or_bootstrap_runtime_identity (be_keys be) (svc_sha svc) (be_loads be) (be_resolve be)
       (be_fresh_key be) (be_writes be) data_dir (hp_allow_local_bootstrap hp) (hp_signing_key hp)
       (hp_trust_roots hp) fs = (Inr (ap_identity ap), fs'))"
proof -
  let ?c = "hp_config hp" and ?b = "hp_build_id hp" and ?d = "be_resolve be (hp_data_dir hp)"
  obtain identity authenticate l w g where
      i: "load_or_bootstrap_runtime_identity (be_keys be) (svc_sha svc) (be_loads be) (be_resolve be)
        (be_fresh_key be) (be_writes be) ?d (hp_allow_local_bootstrap hp) (hp_signing_key hp)
        (hp_trust_roots hp) fs = (Inr identity, fs')"
      and l: "init_ledger svc (Some (?d @ ''/controller-ledger.jsonl'')) (Some ?b) (be_ledger_lines be) = Inr l"
      and q: "build_queue svc be ?c ?b (worker_command (be_executable be) identity ?b ?d) l = Inr w"
      and g: "build_gate be ?c ?b identity authenticate (w_ledger w) = Inr g"
      and a: "(ap, s) = init_application ?c ?b g identity (hp_instance_id hp) w"
    using assms(1) by (auto simp: build_parts_def Let_def bindE_eq_Inr split: sum.splits prod.splits)
  have "ledger_start svc l" using l by (auto simp: ledger_start_def)
  then have "reachable (ledger_start svc) (ledger_step svc) (w_ledger w)"
    using build_queue_Inr [OF q] by (blast intro: reachable_steps reachable.start)
  with build_queue_Inr [OF q] a g i assms(2,3) show ?thesis
    by (auto simp: consistent_def init_application_def build_gate_def bindE_eq_Inr)
qed

lemma build_applicationE:
  assumes "build_application svc be hp (locks, fs) = (Inr (ap, s, ls), locks', fs')"
  obtains fs1 where "build_parts svc be hp fs1 = (Inr (ap, s), fs')" "ls_held ls"
    "map_of locks (ls_data_dir ls) = None" "map_of locks' (ls_data_dir ls) = Some (be_lease be)"
  using assms
  by (auto simp: build_application_def lease_acquire_def init_lease_def Let_def bindE_eq_Inr
      split: sum.splits prod.splits if_splits)

lemma build_application_failed:
  assumes "build_application svc be hp (locks, fs) = (Inl e, locks', fs')" and "be_owner_write be = Written"
  shows "map_of locks' = map_of locks"
proof -
  have "map_of (AList.delete d (AList.update d m locks)) = map_of locks" if "map_of locks d = None" for d m
    using that by (auto simp: fun_eq_iff)
  then show ?thesis
    using assms
    by (auto simp: build_application_def lease_acquire_def lease_release_def init_lease_def atomic_write_def Let_def
        bindE_eq_Inr split: sum.splits prod.splits if_splits)
qed

section \<open>The life of the process\<close>

lemma run_host_events:
  "run_host hr = (r, es) \<Longrightarrow>
     (\<exists>before. es = before @ [LeaseReleased] \<and> LeaseReleased \<notin> set before \<and>
        count_list before ApplicationShutdown = 1) \<and>
     (StoppedWritten \<in> set es \<longrightarrow> hr_app_shutdown hr = Inr ())"
  by (auto simp: run_host_def host_body_def serve_and_stop_def Let_def split: sum.splits serve_end.splits if_splits)

end
