(* ===== verification/Http_Props.thy ===== *)
theory Http_Props
  imports Http_Host
begin

text \<open>
  What the request handler guarantees about every request: which checks precede an effect on the
  application, what every response carries, and when a request gets no response.
\<close>

section \<open>The checks\<close>

lemma validate_host_Inr:
  "validate_host_and_request_target hl sv rq = Inr u \<longleftrightarrow>
     startswith (rq_target rq) ''/'' \<and>
     (\<exists>h hosts. header_all rq ''Host'' = [h] \<and> allowed_hosts hl sv = Inr hosts \<and>
        hl_casefold hl (strip_latin h) \<in> set hosts)"
  by (auto simp: validate_host_and_request_target_def bindE_eq_Inr length_Suc_conv)

lemma validated_origin_Inr:
  "validated_origin hl sv rq required = Inr origin \<longleftrightarrow>
     header_get rq ''Origin'' = origin \<and> (required \<longrightarrow> origin \<noteq> None) \<and>
     (\<forall>v. origin = Some v \<longrightarrow> v \<in> set (cf_allowed_origins (ap_config (sv_application sv))))"
  by (auto simp: validated_origin_def bindE_eq_Inr split: option.splits)

lemma validate_api_request_json:
  "validate_api_request hl sv rq True = Inr u \<longleftrightarrow>
     \<not> sv_stopping sv \<and> header_get rq ''X-Delta-Request'' = Some ''1'' \<and>
     (\<forall>v. header_get rq ''Origin'' = Some v \<longrightarrow> v \<in> set (cf_allowed_origins (ap_config (sv_application sv)))) \<and>
     (\<exists>t. header_get rq ''Content-Type'' = Some t \<and> json_content_type t)"
  by (auto simp: validate_api_request_def bindE_eq_Inr validated_origin_Inr split: option.splits)

lemma read_stream_Inr:
  "read_stream rq n = Inr b \<Longrightarrow> int (length b) = int n \<Longrightarrow> b = take n (rq_stream rq)"
  by (auto simp: read_stream_def split: if_splits option.splits)

lemma read_bounded_body_Inr:
  assumes "read_bounded_body hl sv rq allow_empty = Inr body"
  shows "\<exists>t. header_get rq ''Content-Length'' = Some t \<and> int_of_text t = Some (int (length body)) \<and>
    int (length body) \<le> cf_request_limit_bytes (ap_config (sv_application sv)) \<and>
    body = take (length body) (rq_stream rq) \<and> header_get rq ''Transfer-Encoding'' = None"
  using assms
  by (auto simp: read_bounded_body_def bindE_eq_Inr dest!: read_stream_Inr split: option.splits)

section \<open>Effects\<close>

definition body_of :: "http_server \<Rightarrow> http_request \<Rightarrow> string \<Rightarrow> bool" where
  "body_of sv rq body \<longleftrightarrow>
     (\<exists>t. header_get rq ''Content-Length'' = Some t \<and> int_of_text t = Some (int (length body)) \<and>
        int (length body) \<le> cf_request_limit_bytes (ap_config (sv_application sv)) \<and>
        body = take (length body) (rq_stream rq) \<and> header_get rq ''Transfer-Encoding'' = None)"

text \<open>Everything the handler checks before it lets a request act.\<close>

definition guarded :: "http_library \<Rightarrow> http_server \<Rightarrow> http_request \<Rightarrow> bool" where
  "guarded hl sv rq \<longleftrightarrow>
     rq_method rq = POST \<and> startswith (rq_target rq) ''/'' \<and>
     (\<exists>h hosts. header_all rq ''Host'' = [h] \<and> allowed_hosts hl sv = Inr hosts \<and>
        hl_casefold hl (strip_latin h) \<in> set hosts) \<and>
     \<not> sv_stopping sv \<and> header_get rq ''X-Delta-Request'' = Some ''1'' \<and>
     (\<forall>v. header_get rq ''Origin'' = Some v \<longrightarrow> v \<in> set (cf_allowed_origins (ap_config (sv_application sv)))) \<and>
     (\<exists>t. header_get rq ''Content-Type'' = Some t \<and> json_content_type t)"

lemma bounded_effect:
  assumes "bounded hl sv rq message op st = Some (out, st')" and "st' \<noteq> st"
  shows "validate_host_and_request_target hl sv rq = Inr ()" and "\<exists>r. op = Some (r, st')"
proof -
  show v: "validate_host_and_request_target hl sv rq = Inr ()"
    using assms by (auto simp: bounded_def split: sum.splits)
  obtain r where "op = Some (r, st')" using assms v by (cases op) (auto simp: bounded_def)
  then show "\<exists>r. op = Some (r, st')" by blast
qed

lemma handle_submit_effect:
  assumes "handle_submit svc hl sv env rq c st = Some (r, st')" and "st' \<noteq> st"
  shows "\<exists>body r'. body_of sv rq body \<and> as_ready st \<and>
    submit svc (sv_application sv) env body c st = Some (r', st')"
proof -
  obtain body r' where b: "read_bounded_body hl sv rq False = Inr body"
    and s: "submit svc (sv_application sv) env body c st = Some (r', st')"
    using assms by (auto simp: handle_submit_def split: sum.splits)
  have "as_ready st" using s assms(2) by (auto simp: submit_def split: if_splits)
  with s read_bounded_body_Inr [OF b] show ?thesis unfolding body_of_def by blast
qed

lemma handle_cancel_effect:
  assumes "handle_cancel svc hl sv env rq c e st = (r, st')" and "st' \<noteq> st"
  shows "\<exists>body r'. body_of sv rq body \<and> app_cancel svc (sv_application sv) env e c st = (r', st')"
proof -
  obtain body r' where b: "read_bounded_body hl sv rq True = Inr body"
    and s: "app_cancel svc (sv_application sv) env e c st = (r', st')"
    using assms by (auto simp: handle_cancel_def bindE_eq_Inr split: sum.splits prod.splits)
  with read_bounded_body_Inr [OF b] show ?thesis unfolding body_of_def by blast
qed

lemma handle_post_effect:
  assumes "handle_post svc hl sv env rq st = Some (r, st')" and "st' \<noteq> st"
  shows "\<exists>c u. validate_api_request hl sv rq True = Inr () \<and>
    credentials_for_request (hl_casefold hl) (sv_application sv) (rq_peer rq) (header_get rq ''Authorization'') = Inr c \<and>
    urlsplit (hl_netloc_ok hl) (rq_target rq) = Inr u \<and>
    ((su_path u = ''/api/v1/intent/submit'' \<and> handle_submit svc hl sv env rq c st = Some (r, st')) \<or>
     (\<exists>e. EXECUTION_ROUTE (su_path u) = Some (e, ''cancel'') \<and> handle_cancel svc hl sv env rq c e st = (r, st')))"
  using assms
  by (auto simp: handle_post_def request_credentials_def bindE_eq_Inr split: sum.splits if_splits option.splits)

lemma serve_effect:
  assumes "serve svc hl sv env message rq st = Some (out, st')" and "st' \<noteq> st"
  shows "guarded hl sv rq" and "\<exists>r. handle_post svc hl sv env rq st = Some (r, st')"
proof -
  note b = bounded_effect [OF assms(1) [unfolded serve_def] assms(2)]
  from b(2) assms(2) show p: "\<exists>r. handle_post svc hl sv env rq st = Some (r, st')"
    by (auto simp: http_operation_def split: http_method.splits)
  have "rq_method rq = POST" using b(2) assms(2) by (auto simp: http_operation_def split: http_method.splits)
  moreover obtain r where "handle_post svc hl sv env rq st = Some (r, st')" using p by blast
  then have "validate_api_request hl sv rq True = Inr ()" using handle_post_effect [OF _ assms(2)] by metis
  ultimately show "guarded hl sv rq"
    using b(1) unfolding guarded_def validate_host_Inr validate_api_request_json by blast
qed

section \<open>Responses\<close>

text \<open>
  Every response was logged, names an origin only if the request came from it and it is configured, forbids framing, and
  announces the length of its body (or, for \<open>HEAD\<close>, of the body it leaves out).
\<close>

definition sound_response :: "http_library \<Rightarrow> http_server \<Rightarrow> http_request \<Rightarrow> http_response \<Rightarrow> bool" where
  "sound_response hl sv rq resp \<longleftrightarrow>
     log_message hl rq = Inr (rs_log resp) \<and>
     (\<forall>v. (''Access-Control-Allow-Origin'', v) \<in> set (rs_headers resp) \<longrightarrow>
        header_get rq ''Origin'' = Some v \<and> v \<in> set (cf_allowed_origins (ap_config (sv_application sv)))) \<and>
     (''X-Frame-Options'', ''DENY'') \<in> set (rs_headers resp) \<and>
     (\<exists>payload. (''Content-Length'', nat_text (length payload)) \<in> set (rs_headers resp) \<and>
        rs_body resp = (if rq_method rq = HEAD then [] else payload))"

lemma common_headers_origin:
  "(''Access-Control-Allow-Origin'', v) \<in> set (common_headers origin api) \<longleftrightarrow> origin = Some v"
  "(''X-Frame-Options'', ''DENY'') \<in> set (common_headers origin api)"
  by (auto simp: common_headers_def split: option.splits)

lemma response_origin_Some:
  "response_origin sv rq = Some v \<longleftrightarrow>
     header_get rq ''Origin'' = Some v \<and> v \<in> set (cf_allowed_origins (ap_config (sv_application sv)))"
  by (auto simp: response_origin_def split: option.splits)

lemma sound_responseI:
  assumes "log_message hl rq = Inr (rs_log resp)"
    and "rs_headers resp = common_headers origin api @ rest"
    and "origin = None \<or> origin = response_origin sv rq"
    and "''Access-Control-Allow-Origin'' \<notin> fst ` set rest"
    and "(''Content-Length'', nat_text (length payload)) \<in> set rest"
    and "rs_body resp = (if rq_method rq = HEAD then [] else payload)"
  shows "sound_response hl sv rq resp"
proof -
  have "header_get rq ''Origin'' = Some v \<and> v \<in> set (cf_allowed_origins (ap_config (sv_application sv)))"
    if "(''Access-Control-Allow-Origin'', v) \<in> set (rs_headers resp)" for v
  proof -
    have "(''Access-Control-Allow-Origin'', v) \<notin> set rest" using assms(4) by force
    with that assms(2) have "origin = Some v" by (simp add: common_headers_origin)
    with assms(3) have "response_origin sv rq = Some v" by auto
    then show ?thesis by (simp only: response_origin_Some)
  qed
  with assms(1,2,5,6) show ?thesis
    unfolding sound_response_def by (auto simp: common_headers_origin)
qed

lemma send_json_sound:
  assumes "send_json hl sv rq status doc = Inr resp"
  shows "sound_response hl sv rq resp"
proof (rule sound_responseI)
  show "rs_headers resp = common_headers (response_origin sv rq) True @ json_headers status (dumps_sorted doc)"
    "log_message hl rq = Inr (rs_log resp)" "rs_body resp = (if rq_method rq = HEAD then [] else dumps_sorted doc)"
    using assms by (auto simp: send_json_def Let_def bindE_eq_Inr)
qed (auto simp: json_headers_def)

lemma send_transport_error_sound:
  "send_transport_error hl sv rq status code message retryable = Inr resp \<Longrightarrow> sound_response hl sv rq resp"
  by (auto simp: send_transport_error_def send_error_document_def dest: send_json_sound)

definition sound_result :: "http_library \<Rightarrow> http_server \<Rightarrow> http_request \<Rightarrow> http_response result \<Rightarrow> bool" where
  "sound_result hl sv rq r \<longleftrightarrow> (\<forall>resp. r = Inr resp \<longrightarrow> sound_response hl sv rq resp)"

lemma sound_result_intros [simp]:
  "sound_result hl sv rq (send_json hl sv rq status doc)"
  "sound_result hl sv rq (send_transport_error hl sv rq status code message retryable)"
  "sound_result hl sv rq (send_error_document hl sv rq status err)"
  "sound_result hl sv rq (Inl e)"
  by (auto simp: sound_result_def send_error_document_def intro: send_json_sound send_transport_error_sound)

lemma sound_result_bind: "(\<And>x. r = Inr x \<Longrightarrow> sound_result hl sv rq (f x)) \<Longrightarrow> sound_result hl sv rq (bindE r f)"
  by (cases r) auto

definition sound_handled :: "http_library \<Rightarrow> http_server \<Rightarrow> http_request \<Rightarrow> 'a handled \<Rightarrow> bool" where
  "sound_handled hl sv rq h \<longleftrightarrow> (\<forall>r. h = Inl r \<longrightarrow> sound_result hl sv rq r)"

lemma sound_handled_intros [simp]:
  "sound_handled hl sv rq (reject hl sv rq bad status code message retryable)"
  "sound_handled hl sv rq (raising r')"
  "sound_handled hl sv rq (Inr x)"
  "sound_handled hl sv rq (Inl r) = sound_result hl sv rq r"
  by (auto simp: sound_handled_def reject_def raising_def split: sum.splits if_splits)

lemma sound_handled_bind:
  "sound_handled hl sv rq m \<Longrightarrow> (\<And>x. sound_handled hl sv rq (f x)) \<Longrightarrow> sound_handled hl sv rq (bindE m f)"
  by (cases m) auto

lemma checks_sound:
  "sound_handled hl sv rq (validate_host_and_request_target hl sv rq)"
  "sound_handled hl sv rq (validated_origin hl sv rq required)"
  "sound_handled hl sv rq (validate_api_request hl sv rq require_json)"
  "sound_handled hl sv rq (read_bounded_body hl sv rq allow_empty)"
  "sound_handled hl sv rq (request_credentials hl sv rq)"
  by (auto simp: validate_host_and_request_target_def validated_origin_def validate_api_request_def
      read_bounded_body_def request_credentials_def intro!: sound_handled_bind split: option.splits)

lemma sound_handled_result:
  "sound_handled hl sv rq h \<Longrightarrow> (\<And>x. sound_result hl sv rq (f x)) \<Longrightarrow>
     sound_result hl sv rq (case h of Inl r \<Rightarrow> r | Inr x \<Rightarrow> f x)"
  by (cases h) auto

lemma handle_options_sound:
  assumes "rq_method rq = OPTIONS"
  shows "sound_result hl sv rq (handle_options hl sv rq)"
proof (cases "validated_origin hl sv rq True")
  case (Inl r)
  with checks_sound(2) [of hl sv rq True] show ?thesis by (simp add: handle_options_def)
next
  case (Inr origin)
  then have "origin = response_origin sv rq"
    by (cases origin) (auto simp: validated_origin_Inr response_origin_def)
  then show ?thesis
    using assms Inr unfolding sound_result_def handle_options_def
    by (auto simp: bindE_eq_Inr nat_text_zero
        intro!: sound_responseI [where origin = origin and api = True and payload = "[]"])
qed

lemma static_response_sound:
  assumes "h = (rq_method rq = HEAD)"
  shows "sound_result hl sv rq (static_response hl rq candidate payload h)"
  using assms unfolding sound_result_def static_response_def Let_def
  by (auto simp: bindE_eq_Inr intro!: sound_responseI [where origin = None and api = False and payload = payload])

lemma handle_static_sound:
  "h = (rq_method rq = HEAD) \<Longrightarrow> sound_result hl sv rq (handle_static hl sv rq h)"
  by (auto simp: handle_static_def Let_def static_response_sound intro!: sound_result_bind split: option.splits)

lemma answer_execution_sound: "sound_result hl sv rq (answer_execution hl sv rq message result)"
  by (simp add: answer_execution_def)

lemma handle_get_sound:
  assumes "rq_method rq = GET"
  shows "sound_result hl sv rq (handle_get svc hl sv env rq st)"
proof -
  have "sound_result hl sv rq (handle_execution_read svc hl sv env rq e operation st)" for e operation
    unfolding handle_execution_read_def
    by (intro sound_handled_result sound_handled_bind checks_sound answer_execution_sound) simp
  with assms show ?thesis
    by (auto simp: handle_get_def Let_def handle_static_sound readiness_document_def intro!: sound_result_bind
        split: option.splits)
qed

lemma handle_post_sound:
  assumes "handle_post svc hl sv env rq st = Some (r, st')"
  shows "sound_result hl sv rq r"
proof -
  have submit: "sound_result hl sv rq r" if "handle_submit svc hl sv env rq c st = Some (r, st')" for c
    using that checks_sound(4) [of hl sv rq False]
    by (auto simp: handle_submit_def Let_def split: sum.splits intro!: sound_result_bind)
  have cancel: "sound_result hl sv rq (fst (handle_cancel svc hl sv env rq c e st))" for c e
  proof -
    have "sound_handled hl sv rq
        (bindE (read_bounded_body hl sv rq True) (\<lambda>body. raising (check_cancel_body hl body)))"
      by (intro sound_handled_bind checks_sound) simp
    then show ?thesis
      by (auto simp: handle_cancel_def Let_def split: sum.splits prod.splits
          intro!: sound_result_bind answer_execution_sound)
  qed
  have "sound_handled hl sv rq
      (bindE (validate_api_request hl sv rq True) (\<lambda>_. request_credentials hl sv rq))"
    by (intro sound_handled_bind checks_sound)
  then show ?thesis
    using assms submit cancel
    by (auto simp: handle_post_def split: sum.splits if_splits option.splits) (metis fst_conv)+
qed

lemma http_operation_sound:
  assumes "http_operation svc hl sv env rq st = Some (r, st')"
  shows "sound_result hl sv rq r"
  using assms handle_post_sound
  by (auto simp: http_operation_def handle_get_sound handle_static_sound handle_options_sound
      split: http_method.splits)

section \<open>Requests without a response\<close>

lemma send_fails_iff:
  "(\<exists>e. send_json hl sv rq status doc = Inl e) \<longleftrightarrow> (\<exists>e. urlsplit (hl_netloc_ok hl) (rq_target rq) = Inl e)"
  by (auto simp: send_json_def Let_def log_message_def bindE_eq_Inl)

lemma transport_error_outcome:
  "outcome_of (send_json hl sv rq status doc) = Dropped \<longleftrightarrow>
     (\<exists>e. urlsplit (hl_netloc_ok hl) (rq_target rq) = Inl e)"
  using send_fails_iff [of hl sv rq status doc] by (auto simp: outcome_of_def split: sum.splits)

lemmas sending = send_transport_error_def send_error_document_def transport_error_outcome

lemma validate_host_Inl:
  assumes "validate_host_and_request_target hl sv rq = Inl r"
  shows "outcome_of r = Dropped \<longleftrightarrow>
    (\<exists>e. urlsplit (hl_netloc_ok hl) (rq_target rq) = Inl e) \<or>
    (startswith (rq_target rq) ''/'' \<and> length (header_all rq ''Host'') = 1 \<and> (\<exists>e. allowed_hosts hl sv = Inl e))"
  using assms
  by (auto simp: validate_host_and_request_target_def bindE_eq_Inl reject_def raising_def sending
      split: if_splits sum.splits) (auto simp: outcome_of_def)

lemma handle_exception_outcome:
  "(case handle_exception hl sv rq message e of None \<Rightarrow> Dropped | Some r \<Rightarrow> outcome_of r) = Dropped \<longleftrightarrow>
     e = ConnectionLost \<or> (\<exists>e. urlsplit (hl_netloc_ok hl) (rq_target rq) = Inl e)"
  by (cases e) (auto simp: handle_exception_def Let_def sending)

lemma operation_answered:
  assumes "http_operation svc hl sv env rq st = Some (Inr resp, st')"
  shows "\<exists>u. urlsplit (hl_netloc_ok hl) (rq_target rq) = Inr u"
  using http_operation_sound [OF assms]
  by (auto simp: sound_result_def sound_response_def log_message_def bindE_eq_Inr)

lemma serve_answered_sound:
  assumes "serve svc hl sv env message rq st = Some (Answered resp, st')"
  shows "sound_response hl sv rq resp"
proof (cases "validate_host_and_request_target hl sv rq")
  case (Inl r)
  with assms have "r = Inr resp" by (auto simp: serve_def bounded_def outcome_of_def split: sum.splits)
  with checks_sound(1) [of hl sv rq] Inl show ?thesis by (simp add: sound_result_def)
next
  case (Inr u)
  with assms obtain r where op: "http_operation svc hl sv env rq st = Some (r, st')"
    by (cases "http_operation svc hl sv env rq st") (auto simp: serve_def bounded_def)
  show ?thesis
  proof (cases r)
    case (Inl e)
    have "sound_result hl sv rq r'" if "handle_exception hl sv rq message e = Some r'" for r'
      using that by (cases e) (auto simp: handle_exception_def Let_def)
    with assms Inr op Inl show ?thesis
      by (auto simp: serve_def bounded_def outcome_of_def sound_result_def split: option.splits sum.splits)
  next
    case resp: (Inr resp')
    with assms Inr op http_operation_sound [OF op] show ?thesis
      by (simp add: serve_def bounded_def sound_result_def)
  qed
qed

lemma serve_dropped_iff:
  assumes "serve svc hl sv env message rq st = Some (out, st')"
  shows "out = Dropped \<longleftrightarrow>
    (\<exists>e. urlsplit (hl_netloc_ok hl) (rq_target rq) = Inl e) \<or>
    (startswith (rq_target rq) ''/'' \<and> length (header_all rq ''Host'') = 1 \<and> (\<exists>e. allowed_hosts hl sv = Inl e)) \<or>
    (validate_host_and_request_target hl sv rq = Inr () \<and>
     http_operation svc hl sv env rq st = Some (Inl ConnectionLost, st'))"
proof (cases "validate_host_and_request_target hl sv rq")
  case (Inl r)
  with assms have "out = outcome_of r" by (simp add: serve_def bounded_def)
  with validate_host_Inl [OF Inl] Inl show ?thesis by simp
next
  case (Inr u)
  have hosts: "\<exists>hosts. allowed_hosts hl sv = Inr hosts" using Inr by (auto simp: validate_host_Inr)
  obtain r where op: "http_operation svc hl sv env rq st = Some (r, st')"
    using assms Inr by (cases "http_operation svc hl sv env rq st") (auto simp: serve_def bounded_def)
  show ?thesis
  proof (cases r)
    case (Inl e)
    with assms Inr op have "out = (case handle_exception hl sv rq message e of None \<Rightarrow> Dropped | Some r \<Rightarrow> outcome_of r)"
      by (simp add: serve_def bounded_def)
    with handle_exception_outcome [of hl sv rq message e] hosts Inr op Inl show ?thesis by auto
  next
    case resp: (Inr resp)
    with assms Inr op have "out = Answered resp" by (simp add: serve_def bounded_def)
    with operation_answered op resp hosts show ?thesis by fastforce
  qed
qed

section \<open>Static files\<close>

lemma handle_static_confined:
  assumes "handle_static hl sv rq head_only = Inr resp" and "rs_status resp = 200"
  shows "\<exists>ui_dir rest content. sv_ui_dir sv = Some ui_dir \<and>
    hl_read_file hl (ui_dir @ rest) = Some (Inr content) \<and> rs_body resp = (if head_only then [] else content)"
proof -
  have err: "send_transport_error hl sv rq 404 code message False \<noteq> Inr resp" for code message
    using assms(2) by (auto simp: send_transport_error_def send_error_document_def send_json_def Let_def bindE_eq_Inr)
  obtain ui_dir candidate content where s: "sv_ui_dir sv = Some ui_dir" "is_below ui_dir candidate"
      "hl_read_file hl candidate = Some (Inr content)"
      "static_response hl rq candidate content head_only = Inr resp"
    using assms(1) err
    by (auto simp: handle_static_def Let_def bindE_eq_Inr split: option.splits if_splits)
  have "candidate = ui_dir @ drop (length ui_dir) candidate"
    using s(2) by (metis append_take_drop_id is_below_def)
  moreover have "rs_body resp = (if head_only then [] else content)"
    using s(4) by (auto simp: static_response_def Let_def bindE_eq_Inr)
  ultimately show ?thesis using s by metis
qed

end
