(* ===== verification/Http_Server.thy ===== *)
theory Http_Server
  imports Transition_System Errors
begin

text \<open>
  The connection side of the HTTP host, class \<open>WorkingVersionHttpServer\<close> of
  \<open>deltacontroller/http_host.py\<close>: the bounded number of request threads and the absolute deadline of
  every connection. A connection is a number; \<open>ss_slots\<close> is the value of the bounded semaphore,
  \<open>ss_closed\<close> the connections the server has closed. Each definition is one critical section. The step relation interleaves
  the accept loop, the request threads, the deadline monitor and the shutdown; \<open>ss_accepting\<close> and
  \<open>ss_threads\<close> say where the accept loop and each request thread stand.
\<close>

datatype stage = Acquired | Tracked | Aborting

record server_state =
  ss_limit :: nat
  ss_slots :: nat
  ss_deadlines :: "(nat, int) dict"
  ss_stopping :: bool
  ss_monitor_stopping :: bool
  ss_closed :: "nat list"
  ss_accepting :: "(nat \<times> stage) option"
  ss_threads :: "(nat, bool) dict"

definition init_server :: "nat \<Rightarrow> server_state" where
  "init_server limit =
     \<lparr>ss_limit = limit, ss_slots = limit, ss_deadlines = [], ss_stopping = False, ss_monitor_stopping = False,
      ss_closed = [], ss_accepting = None, ss_threads = []\<rparr>"

section \<open>Critical sections\<close>

definition close_request_socket :: "nat \<Rightarrow> server_state \<Rightarrow> server_state" where
  "close_request_socket r s = s\<lparr>ss_closed := r # ss_closed s\<rparr>"

definition acquire_request_slot :: "server_state \<Rightarrow> bool \<times> server_state" where
  "acquire_request_slot s =
     (if ss_slots s = 0 then (False, s) else (True, s\<lparr>ss_slots := ss_slots s - 1\<rparr>))"

text \<open>\<open>BoundedSemaphore.release\<close> raises above the initial value.\<close>

definition release_request_slot :: "server_state \<Rightarrow> server_state result" where
  "release_request_slot s =
     (if ss_slots s \<ge> ss_limit s then Inl ValueError else Inr (s\<lparr>ss_slots := ss_slots s + 1\<rparr>))"

definition track_request :: "int \<Rightarrow> nat \<Rightarrow> server_state \<Rightarrow> bool \<times> server_state" where
  "track_request deadline r s =
     (if ss_stopping s \<or> ss_monitor_stopping s then (False, s)
      else (True, s\<lparr>ss_deadlines := AList.update r deadline (ss_deadlines s)\<rparr>))"

definition untrack_request :: "nat \<Rightarrow> server_state \<Rightarrow> server_state" where
  "untrack_request r s = s\<lparr>ss_deadlines := AList.delete r (ss_deadlines s)\<rparr>"

text \<open>
  One turn of the deadline monitor with the clock at \<open>now\<close>: \<open>None\<close> when it returns, otherwise the connections it
  takes out of the table, which it closes after it has left the lock.
\<close>

definition monitor_turn :: "int \<Rightarrow> server_state \<Rightarrow> (nat list \<times> server_state) option" where
  "monitor_turn now s =
     (if ss_monitor_stopping s then None
      else
        (let expired = map fst (filter (\<lambda>(r, deadline). deadline \<le> now) (ss_deadlines s))
         in Some (expired, s\<lparr>ss_deadlines := filter (\<lambda>(r, deadline). \<not> deadline \<le> now) (ss_deadlines s)\<rparr>)))"

definition close_active_requests :: "server_state \<Rightarrow> server_state" where
  "close_active_requests s =
     fold close_request_socket (map fst (ss_deadlines s)) (s\<lparr>ss_deadlines := []\<rparr>)"

definition stop_deadline_monitor :: "server_state \<Rightarrow> server_state" where
  "stop_deadline_monitor s = close_active_requests (s\<lparr>ss_monitor_stopping := True\<rparr>)"

definition server_shutdown :: "server_state \<Rightarrow> server_state" where
  "server_shutdown s = close_active_requests (s\<lparr>ss_stopping := True\<rparr>)"

definition server_close :: "server_state \<Rightarrow> server_state" where
  "server_close s = stop_deadline_monitor (s\<lparr>ss_stopping := True\<rparr>)"

section \<open>The accept loop\<close>

text \<open>
  \<open>process_request\<close> without interference: the connection is refused at capacity, refused while the server
  stops, handed to a thread, or given back when no thread can be started.
\<close>

definition process_request :: "int \<Rightarrow> bool \<Rightarrow> nat \<Rightarrow> server_state \<Rightarrow> unit result \<times> server_state" where
  "process_request deadline thread_starts r s =
     (case acquire_request_slot s of
        (False, s1) \<Rightarrow> (Inr (), close_request_socket r s1)
      | (True, s1) \<Rightarrow>
          (case track_request deadline r s1 of
             (False, s2) \<Rightarrow>
               (case release_request_slot s2 of
                  Inl e \<Rightarrow> (Inl e, s2) | Inr s3 \<Rightarrow> (Inr (), close_request_socket r s3))
           | (True, s2) \<Rightarrow>
               (if thread_starts then (Inr (), s2\<lparr>ss_threads := AList.update r True (ss_threads s2)\<rparr>)
                else
                  (case release_request_slot (untrack_request r s2) of
                     Inl e \<Rightarrow> (Inl e, untrack_request r s2)
                   | Inr s3 \<Rightarrow> (Inl OtherException, close_request_socket r s3)))))"

text \<open>The \<open>finally\<close> of \<open>process_request_thread\<close>.\<close>

definition finish_request_thread :: "nat \<Rightarrow> server_state \<Rightarrow> unit result \<times> server_state" where
  "finish_request_thread r s =
     (let s1 = (untrack_request r s)\<lparr>ss_threads := AList.delete r (ss_threads s)\<rparr> in
      case release_request_slot s1 of Inl e \<Rightarrow> (Inl e, s1) | Inr s2 \<Rightarrow> (Inr (), s2))"

section \<open>Interleaving\<close>

text \<open>\<open>ss_threads\<close> maps a connection to whether its thread still has to untrack it.\<close>

inductive server_step :: "server_state \<Rightarrow> server_state \<Rightarrow> bool" where
  refused: "ss_accepting s = None \<Longrightarrow> acquire_request_slot s = (False, s') \<Longrightarrow>
     server_step s (close_request_socket r s')"
| acquired: "ss_accepting s = None \<Longrightarrow> acquire_request_slot s = (True, s') \<Longrightarrow>
     r \<notin> fst ` set (ss_threads s) \<Longrightarrow> server_step s (s'\<lparr>ss_accepting := Some (r, Acquired)\<rparr>)"
| tracked: "ss_accepting s = Some (r, Acquired) \<Longrightarrow> track_request deadline r s = (True, s') \<Longrightarrow>
     server_step s (s'\<lparr>ss_accepting := Some (r, Tracked)\<rparr>)"
| untracked: "ss_accepting s = Some (r, Acquired) \<Longrightarrow> track_request deadline r s = (False, s') \<Longrightarrow>
     server_step s (s'\<lparr>ss_accepting := Some (r, Aborting)\<rparr>)"
| spawned: "ss_accepting s = Some (r, Tracked) \<Longrightarrow>
     server_step s (s\<lparr>ss_accepting := None, ss_threads := AList.update r True (ss_threads s)\<rparr>)"
| no_thread: "ss_accepting s = Some (r, Tracked) \<Longrightarrow>
     server_step s ((untrack_request r s)\<lparr>ss_accepting := Some (r, Aborting)\<rparr>)"
| given_back: "ss_accepting s = Some (r, Aborting) \<Longrightarrow> release_request_slot s = Inr s' \<Longrightarrow>
     server_step s (close_request_socket r (s'\<lparr>ss_accepting := None\<rparr>))"
| thread_done: "map_of (ss_threads s) r = Some True \<Longrightarrow>
     server_step s ((untrack_request r s)\<lparr>ss_threads := AList.update r False (ss_threads s)\<rparr>)"
| thread_released: "map_of (ss_threads s) r = Some False \<Longrightarrow> release_request_slot s = Inr s' \<Longrightarrow>
     server_step s (s'\<lparr>ss_threads := AList.delete r (ss_threads s)\<rparr>)"
| expired: "monitor_turn now s = Some (rs, s') \<Longrightarrow> server_step s (fold close_request_socket rs s')"
| stopping: "server_step s (s\<lparr>ss_stopping := True\<rparr>)"
| closing: "server_step s (close_active_requests s)"
| monitor_stopped: "server_step s (stop_deadline_monitor s)"

definition holders :: "server_state \<Rightarrow> nat list" where
  "holders s = (case ss_accepting s of None \<Rightarrow> [] | Some (r, _) \<Rightarrow> [r]) @ map fst (ss_threads s)"

definition live_holders :: "server_state \<Rightarrow> nat set" where
  "live_holders s =
     (case ss_accepting s of Some (r, Tracked) \<Rightarrow> {r} | _ \<Rightarrow> {}) \<union> {r. map_of (ss_threads s) r = Some True}"

text \<open>
  Every slot that is not free is held by exactly one connection, and a connection that is
  watched by the monitor is served or about to be.
\<close>

definition server_inv :: "server_state \<Rightarrow> bool" where
  "server_inv s \<longleftrightarrow>
     ss_slots s + length (holders s) = ss_limit s \<and> distinct (holders s) \<and>
     distinct (map fst (ss_deadlines s)) \<and> (\<forall>r \<in> dom (map_of (ss_deadlines s)). r \<in> live_holders s)"

lemma fold_close [simp]:
  "fold close_request_socket rs s = s\<lparr>ss_closed := rev rs @ ss_closed s\<rparr>"
  by (induction rs arbitrary: s) (simp_all add: close_request_socket_def)

lemma close_request_socket_inv [simp]: "server_inv (close_request_socket r s) = server_inv s"
  by (simp add: server_inv_def holders_def live_holders_def close_request_socket_def)

lemma server_inv_closed [simp]: "server_inv (s\<lparr>ss_closed := cs\<rparr>) = server_inv s"
  by (simp add: server_inv_def holders_def live_holders_def)

text \<open>A slot can always be given back by a holder.\<close>

lemma release_request_slot_holder:
  assumes "server_inv s" and "holders s \<noteq> []"
  shows "release_request_slot s = Inr (s\<lparr>ss_slots := ss_slots s + 1\<rparr>)"
  using assms by (cases "holders s") (auto simp: server_inv_def release_request_slot_def)

section \<open>The invariant\<close>

lemma server_inv_flags [simp]:
  "server_inv (s\<lparr>ss_stopping := b\<rparr>) = server_inv s"
  "server_inv (s\<lparr>ss_monitor_stopping := b\<rparr>) = server_inv s"
  by (simp_all add: server_inv_def holders_def live_holders_def)

lemma server_inv_no_deadlines: "server_inv s \<Longrightarrow> server_inv (s\<lparr>ss_deadlines := []\<rparr>)"
  by (simp add: server_inv_def holders_def live_holders_def)

lemma close_active_requests_inv: "server_inv s \<Longrightarrow> server_inv (close_active_requests s)"
  by (simp add: close_active_requests_def server_inv_no_deadlines)

lemma server_inv_shrink:
  assumes "server_inv s" and "distinct (map fst ds)" and "dom (map_of ds) \<subseteq> dom (map_of (ss_deadlines s))"
  shows "server_inv (s\<lparr>ss_deadlines := ds\<rparr>)"
proof -
  have "holders (s\<lparr>ss_deadlines := ds\<rparr>) = holders s" "live_holders (s\<lparr>ss_deadlines := ds\<rparr>) = live_holders s"
    by (simp_all add: holders_def live_holders_def)
  with assms show ?thesis unfolding server_inv_def by auto
qed

lemma monitor_turn_inv:
  assumes "server_inv s" and "monitor_turn now s = Some (rs, s')"
  shows "server_inv s'"
proof -
  let ?ds = "filter (\<lambda>(r, deadline). \<not> deadline \<le> now) (ss_deadlines s)"
  have "distinct (map fst ?ds)" using assms(1) by (simp add: server_inv_def distinct_map_filter)
  moreover have "dom (map_of ?ds) \<subseteq> dom (map_of (ss_deadlines s))" by (auto simp: dom_map_of_conv_image_fst)
  moreover have "s' = s\<lparr>ss_deadlines := ?ds\<rparr>"
    using assms(2) by (simp add: monitor_turn_def Let_def split: if_splits)
  ultimately show ?thesis using server_inv_shrink [OF assms(1)] by blast
qed

lemma delete_keys_filter: "map fst (AList.delete k d) = filter (\<lambda>x. x \<noteq> k) (map fst d)"
  by (induction d) (auto simp: AList.delete_eq)

lemma length_filter_other: "distinct ks \<Longrightarrow> k \<in> set ks \<Longrightarrow> Suc (length (filter (\<lambda>x. x \<noteq> k) ks)) = length ks"
proof (induction ks)
  case (Cons a ks)
  have "filter (\<lambda>x. x \<noteq> k) ks = ks" if "k \<notin> set ks" by (rule filter_True) (use that in blast)
  with Cons show ?case by auto
qed simp

lemma thread_released_inv:
  assumes "server_inv s" and "map_of (ss_threads s) r = Some False"
  shows "server_inv (s\<lparr>ss_slots := ss_slots s + 1, ss_threads := AList.delete r (ss_threads s)\<rparr>)"
proof -
  let ?t = "s\<lparr>ss_slots := ss_slots s + 1, ss_threads := AList.delete r (ss_threads s)\<rparr>"
  let ?ks = "map fst (ss_threads s)"
  obtain acc where h: "holders s = acc @ ?ks" "holders ?t = acc @ filter (\<lambda>x. x \<noteq> r) ?ks"
    by (simp add: holders_def delete_keys_filter)
  have "r \<in> set ?ks" using assms(2) by (force dest: map_of_SomeD)
  with assms(1) h(1) have "Suc (length (filter (\<lambda>x. x \<noteq> r) ?ks)) = length ?ks"
    by (intro length_filter_other) (auto simp: server_inv_def)
  moreover have "live_holders ?t = live_holders s"
    using assms(2) by (auto simp: live_holders_def)
  ultimately show ?thesis
    using assms(1) h by (auto simp: server_inv_def)
qed

lemma server_step_inv: "server_step s t \<Longrightarrow> server_inv s \<Longrightarrow> server_inv t"
proof (induction rule: server_step.induct)
  case (refused s s' r)
  then show ?case by (simp add: acquire_request_slot_def split: if_splits)
next
  case (acquired s s' r)
  then show ?case
    by (auto simp: acquire_request_slot_def server_inv_def holders_def live_holders_def split: if_splits)
next
  case (tracked s r deadline s')
  then show ?case
    by (auto simp: track_request_def server_inv_def holders_def live_holders_def split: if_splits)
next
  case (untracked s r deadline s')
  then show ?case
    by (auto simp: track_request_def server_inv_def holders_def live_holders_def split: if_splits)
next
  case (spawned s r)
  then have "map_of (ss_threads s) r = None"
    by (auto simp: server_inv_def holders_def map_of_eq_None_iff)
  with spawned show ?case
    by (auto simp: server_inv_def holders_def live_holders_def update_fresh map_add_def
        split: option.splits)
next
  case (no_thread s r)
  then show ?case
    by (auto simp: untrack_request_def server_inv_def holders_def live_holders_def distinct_delete)
next
  case (given_back s r s')
  then show ?case
    by (auto simp: release_request_slot_def close_request_socket_def server_inv_def holders_def live_holders_def split: if_splits)
next
  case (thread_done s r)
  then show ?case
    by (auto simp: untrack_request_def server_inv_def holders_def live_holders_def distinct_delete keys_update_known
        split: option.splits stage.splits)
next
  case (thread_released s r s')
  then show ?case using thread_released_inv [of s r] by (simp add: release_request_slot_def split: if_splits)
next
  case (expired now s rs s')
  then show ?case by (simp add: monitor_turn_inv)
next
  case (stopping s)
  then show ?case by simp
next
  case (closing s)
  then show ?case by (simp add: close_active_requests_inv)
next
  case (monitor_stopped s)
  then show ?case by (simp add: stop_deadline_monitor_def close_active_requests_inv)
qed

lemma server_step_limit: "server_step s t \<Longrightarrow> ss_limit t = ss_limit s"
  by (induction rule: server_step.induct)
    (auto simp: acquire_request_slot_def close_request_socket_def track_request_def untrack_request_def
      release_request_slot_def monitor_turn_def close_active_requests_def stop_deadline_monitor_def Let_def
      split: if_splits)

interpretation http_server: invariant_system "\<lambda>s. \<exists>n. s = init_server n" server_step server_inv
proof
  show "server_inv s" if "\<exists>n. s = init_server n" for s
    using that by (auto simp: init_server_def server_inv_def holders_def live_holders_def)
qed (rule server_step_inv)

end
