(* ===== verification/Host_Theorems.thy ===== *)
theory Host_Theorems
  imports Host_Props Http_Props Http_Server
begin

text \<open>
  The theorems about the HTTP host and the start of the controller (\<open>http_host.py\<close>,
  \<open>application.py\<close>, \<open>runtime_config.py\<close>, \<open>host.py\<close>), each applied to a concrete server.
\<close>

section \<open>A sample server\<close>

definition sample_config :: working_config where
  "sample_config =
     \<lparr>cf_profile = ''REMOTE_TLS'', cf_bind_host = ''0.0.0.0'', cf_port = 8765, cf_allowed_origins = [''https://a''],
      cf_request_limit_bytes = 10485760, cf_json_max_depth = 32, cf_request_timeout_seconds = ''30.0'',
      cf_max_inflight_requests = 16, cf_request_queue_size = 16, cf_worker_queue_capacity = 2,
      cf_worker_processes = 1, cf_shutdown_grace_seconds = ''30.0'', cf_local_subject_id = ''operator'',
      cf_local_effective_roles = [''OPERATOR''], cf_protocol_id = HTTP_PROTOCOL_ID,
      cf_contract_schema_version = CONTRACT_SCHEMA_VERSION, cf_formal_semantics_id = FORMAL_SEMANTICS_ID\<rparr>"

definition sample_app :: application where
  "sample_app =
     \<lparr>ap_config = sample_config, ap_build_id = replicate 40 (CHR ''c''), ap_gate = sample_gate,
      ap_identity = \<lparr>ri_signing_identity = g_identity sample_gate, ri_trust_roots_path = ''roots'',
                     ri_public_key_hex = zeros\<rparr>,
      ap_instance_id = ''instance''\<rparr>"

definition sample_server :: http_server where
  "sample_server = \<lparr>sv_application = sample_app, sv_ui_dir = Some [''ui''], sv_port = 8765, sv_stopping = False\<rparr>"

definition sample_library :: http_library where
  "sample_library =
     \<lparr>hl_casefold = ascii_lower, hl_netloc_ok = (\<lambda>s. True), hl_loads = (\<lambda>s. None), hl_decode = (\<lambda>s. s),
      hl_resolve = (\<lambda>dir relative. Inr (dir @ [relative])),
      hl_read_file = (\<lambda>p. if p = [''ui'', ''live.html''] then Some (Inr ''<html>'') else None),
      hl_media_type = (\<lambda>name. Some ''text/html'')\<rparr>"

definition sample_api :: api_env where
  "sample_api =
     \<lparr>ae_gate = sample_env,
      ae_queue = \<lparr>qe_submit_ok = True, qe_clock = (\<lambda>n. ''t2''), qe_append = (\<lambda>n. Appended), qe_others = (\<lambda>n w. w)\<rparr>,
      ae_clock = (\<lambda>n. ''t3''), ae_others = (\<lambda>n w. w)\<rparr>"

definition sample_request :: "http_method \<Rightarrow> string \<Rightarrow> http_request" where
  "sample_request m target =
     \<lparr>rq_method = m, rq_target = target,
      rq_headers = [(''Host'', ''A''), (''Origin'', ''https://a''), (''X-Delta-Request'', ''1''),
                    (''Content-Type'', ''application/json; charset=utf-8''), (''Authorization'', ''Bearer tok''),
                    (''Content-Length'', ''2'')],
      rq_peer = ''10.0.0.1'', rq_stream = ''{}'', rq_stream_error = None\<rparr>"

definition sample_state :: app_state where
  "sample_state = \<lparr>as_ready = True,
     as_world = \<lparr>w_ledger = w_ledger sample_committed, w_port = sample_queue, w_audit = []\<rparr>\<rparr>"

definition loading_services :: services where
  "loading_services = gate_services\<lparr>svc_loads := (\<lambda>s. Some (JObj sample_intent))\<rparr>"

lemma sample_headers:
  "header_all (sample_request m target) ''Host'' = [''A'']"
  "header_get (sample_request m target) ''X-Delta-Request'' = Some ''1''"
  "header_get (sample_request m target) ''Origin'' = Some ''https://a''"
  "header_get (sample_request m target) ''Content-Type'' = Some ''application/json; charset=utf-8''"
  "header_get (sample_request m target) ''Authorization'' = Some ''Bearer tok''"
  "header_get (sample_request m target) ''Content-Length'' = Some ''2''"
  "header_get (sample_request m target) ''Transfer-Encoding'' = None"
  by code_simp+

lemma sample_selectors [simp]:
  "sv_application sample_server = sample_app" "ap_config sample_app = sample_config"
  "ap_gate sample_app = sample_gate" "sv_stopping sample_server = False"
  "\<not> cf_is_local sample_config" "cf_allowed_origins sample_config = [''https://a'']"
  by (simp_all add: sample_server_def sample_app_def sample_config_def cf_is_local_def)

lemma sample_origin_split:
  "urlsplit (hl_netloc_ok sample_library) ''https://a'' =
     Inr \<lparr>su_scheme = ''https'', su_netloc = ''a'', su_path = [], su_query = [], su_fragment = []\<rparr>"
  by code_simp

lemma sample_hosts: "allowed_hosts sample_library sample_server = Inr [''a'']"
proof -
  have "hl_casefold sample_library ''a'' = ''a''" by code_simp
  then show ?thesis by (simp add: allowed_hosts_def sample_origin_split)
qed

lemma sample_host_ok:
  assumes "startswith target ''/''"
  shows "validate_host_and_request_target sample_library sample_server (sample_request m target) = Inr ()"
proof -
  have "hl_casefold sample_library (strip_latin ''A'') \<in> set [''a'']" by code_simp
  with sample_hosts sample_headers(1) show ?thesis
    unfolding validate_host_Inr using assms by (auto simp: sample_request_def)
qed

lemma sample_texts: "int_of_text ''2'' = Some 2" "json_content_type ''application/json; charset=utf-8''"
  by code_simp+

lemma sample_body:
  "read_bounded_body sample_library sample_server (sample_request m target) False = Inr ''{}''"
  by (simp add: read_bounded_body_def sample_headers sample_texts reject_def raising_def read_stream_def
      sample_server_def sample_app_def sample_config_def) (simp add: sample_request_def)

lemma sample_request_credentials:
  "credentials_for_request (hl_casefold sample_library) sample_app peer (Some ''Bearer tok'') = Inr sample_credentials"
proof -
  have "partition_at (CHR '' '') ''Bearer tok'' = (''Bearer'', True, ''tok'')"
    "hl_casefold sample_library ''Bearer'' = ''bearer''" by code_simp+
  then show ?thesis by (simp add: credentials_for_request_def sample_credentials_def)
qed

lemma sample_parsed:
  "admit_preflight loading_services sample_gate (RawBytes ''{}'') sample_credentials (Aware 1000000 0)
     = Inr sample_preflight"
proof -
  have "decode_input loading_services MAX_INGRESS_BYTES (RawBytes ''{}'') = Inr (JObj sample_intent)"
  proof -
    have "utf8_valid (map of_char ''{}'')" by code_simp
    then show ?thesis
      by (simp add: decode_input_def load_json_def loading_services_def MAX_INGRESS_BYTES_def)
  qed
  moreover have "decode_input gate_services MAX_INGRESS_BYTES (RawDict sample_intent) = Inr (JObj sample_intent)"
    by (simp add: decode_input_def)
  ultimately have "parse_intent loading_services MAX_INGRESS_BYTES (RawBytes ''{}'') (Aware 1000000 0)
      = parse_intent gate_services MAX_INGRESS_BYTES (RawDict sample_intent) (Aware 1000000 0)"
    by (simp add: parse_intent_def loading_services_def schema_validate_def check_expiry_def
        cong: json.case_cong)
  then show ?thesis
    using sample_admit_preflight
    by (simp add: admit_preflight_def sample_gate_def)
qed

lemma sample_submit:
  "\<exists>r st'. submit loading_services sample_app sample_api ''{}'' sample_credentials sample_state = Some (r, st') \<and>
     st' \<noteq> sample_state"
proof -
  have w: "w_ledger (as_world sample_state) = w_ledger sample_committed" by (simp add: sample_state_def)
  have "map_of (lg_by_intent_id (w_ledger sample_committed)) (pf_intent_id sample_preflight) = Some sample_record"
    "rec_authenticated_subject_id sample_record = subject_id (pf_subject sample_preflight)"
    "rec_intent_digest sample_record = pf_intent_digest sample_preflight"
    "lg_poisoned_reason (w_ledger sample_committed) = None"
    by (simp_all add: sample_committed_def sample_preflight_def sample_record_def admitted_record_def
        commit_request_def sample_acquire sample_world_def)
  then have "admit_and_dispatch loading_services sample_gate (queue_port loading_services (ae_queue sample_api))
      sample_env (RawBytes ''{}'') sample_credentials (as_world sample_state)
      = Some (already_admitted loading_services sample_gate sample_env sample_preflight sample_record
          (as_world sample_state))"
    by (subst resubmission [where pf = sample_preflight and rec = sample_record]) (simp_all add: sample_parsed w)
  moreover have "rec_admission_record sample_record \<noteq> JNull" "rec_operation sample_record \<noteq> JNull"
    by (simp_all add: sample_record_def admitted_record_def commit_request_def sample_preflight_def)
  ultimately show ?thesis
    by (auto simp: submit_def sample_app_def sample_api_def sample_state_def already_admitted_def add_audit_def)
qed

lemma sample_serve_submit:
  "\<exists>out st'. serve loading_services sample_library sample_server sample_api ''text''
      (sample_request POST ''/api/v1/intent/submit'') sample_state = Some (out, st') \<and> st' \<noteq> sample_state"
proof -
  let ?rq = "sample_request POST ''/api/v1/intent/submit''"
  have split: "urlsplit (hl_netloc_ok sample_library) (rq_target ?rq) =
      Inr \<lparr>su_scheme = [], su_netloc = [], su_path = ''/api/v1/intent/submit'', su_query = [], su_fragment = []\<rparr>"
    by code_simp
  have valid: "validate_api_request sample_library sample_server ?rq True = Inr ()"
    unfolding validate_api_request_json
    by (simp add: sample_headers sample_texts)
  have cred: "request_credentials sample_library sample_server ?rq = Inr sample_credentials"
    by (simp add: request_credentials_def raising_def sample_headers sample_server_def sample_request_credentials)
  obtain r st' where s: "submit loading_services sample_app sample_api ''{}'' sample_credentials sample_state = Some (r, st')"
      "st' \<noteq> sample_state" using sample_submit by blast
  have "sv_application sample_server = sample_app" by (simp add: sample_server_def)
  with s have "\<exists>r. handle_post loading_services sample_library sample_server sample_api ?rq sample_state = Some (r, st')"
    by (simp add: handle_post_def split valid cred handle_submit_def sample_body)
  moreover have "startswith ''/api/v1/intent/submit'' ''/''" by (simp add: startswith_def)
  moreover have "rq_method ?rq = POST" by (simp add: sample_request_def)
  ultimately show ?thesis
    using s(2) by (auto simp: serve_def bounded_def http_operation_def sample_host_ok)
qed

section \<open>Requests\<close>

text \<open>
  C15: A request changes the state of the application only after every check of the handler: it is a POST
  with an origin-form target, exactly one Host header that names the configured authority, the
  header that no cross-site form can send, a JSON content type, no origin or a configured one, on a server
  that is not stopping, from a caller whose credentials come from the connection profile. The body has exactly
  the announced length and at most the configured size. The change itself is either a submission of this body to a ready application
  or the cancellation of an execution by its owner.
\<close>

theorem http_effects_guarded:
  assumes "serve svc hl sv env message rq st = Some (out, st')" and "st' \<noteq> st"
  shows "guarded hl sv rq \<and>
    (\<exists>c u body. urlsplit (hl_netloc_ok hl) (rq_target rq) = Inr u \<and>
       credentials_for_request (hl_casefold hl) (sv_application sv) (rq_peer rq) (header_get rq ''Authorization'')
         = Inr c \<and>
       body_of sv rq body \<and>
       ((su_path u = ''/api/v1/intent/submit'' \<and> as_ready st \<and>
         (\<exists>r. submit svc (sv_application sv) env body c st = Some (r, st'))) \<or>
        (\<exists>e s rec r. EXECUTION_ROUTE (su_path u) = Some (e, ''cancel'') \<and>
           app_cancel svc (sv_application sv) env e c st = (r, st') \<and>
           g_authenticate (ap_gate (sv_application sv)) c = Inr s \<and>
           get_by_execution_id e (w_ledger (as_world st)) = Some rec \<and>
           rec_authenticated_subject_id rec = subject_id s)))"
proof -
  note e = serve_effect [OF assms]
  obtain r where p: "handle_post svc hl sv env rq st = Some (r, st')" using e(2) by blast
  obtain c u where c: "credentials_for_request (hl_casefold hl) (sv_application sv) (rq_peer rq)
        (header_get rq ''Authorization'') = Inr c" "urlsplit (hl_netloc_ok hl) (rq_target rq) = Inr u"
      and cases: "(su_path u = ''/api/v1/intent/submit'' \<and> handle_submit svc hl sv env rq c st = Some (r, st')) \<or>
        (\<exists>e. EXECUTION_ROUTE (su_path u) = Some (e, ''cancel'') \<and> handle_cancel svc hl sv env rq c e st = (r, st'))"
    using handle_post_effect [OF p assms(2)] by blast
  from cases show ?thesis
  proof (elim disjE exE conjE)
    assume "su_path u = ''/api/v1/intent/submit''" and "handle_submit svc hl sv env rq c st = Some (r, st')"
    with c e(1) handle_submit_effect [OF _ assms(2)] show ?thesis by blast
  next
    fix x assume route: "EXECUTION_ROUTE (su_path u) = Some (x, ''cancel'')"
      and "handle_cancel svc hl sv env rq c x st = (r, st')"
    then obtain body r' where b: "body_of sv rq body" and a: "app_cancel svc (sv_application sv) env x c st = (r', st')"
      using handle_cancel_effect [OF _ assms(2)] by blast
    with c e(1) route app_cancel_effect [OF a assms(2)] show ?thesis by blast
  qed
qed

theorem http_effects_guarded_witness:
  "header_get (sample_request POST ''/api/v1/intent/submit'') ''X-Delta-Request'' = Some ''1'' \<and>
   (\<exists>out st'. serve loading_services sample_library sample_server sample_api ''text''
      (sample_request POST ''/api/v1/intent/submit'') sample_state = Some (out, st') \<and> st' \<noteq> sample_state)"
proof -
  obtain out st' where s: "serve loading_services sample_library sample_server sample_api ''text''
      (sample_request POST ''/api/v1/intent/submit'') sample_state = Some (out, st')" "st' \<noteq> sample_state"
    using sample_serve_submit by blast
  from http_effects_guarded [OF s] s show ?thesis unfolding guarded_def by blast
qed


lemma sample_static:
  "\<exists>resp. handle_static sample_library sample_server (sample_request m ''/live.html'') h = Inr resp \<and>
     rs_status resp = 200"
proof -
  let ?rq = "sample_request m ''/live.html''"
  have split: "urlsplit (hl_netloc_ok sample_library) (rq_target ?rq) =
      Inr \<lparr>su_scheme = [], su_netloc = [], su_path = ''/live.html'', su_query = [], su_fragment = []\<rparr>"
    by code_simp
  have "unquote_bytes ''/live.html'' = ''/live.html''" by code_simp
  moreover have "sv_ui_dir sample_server = Some [''ui'']" by (simp add: sample_server_def)
  moreover have "is_below [''ui''] [''ui'', ''live.html'']" by code_simp
  moreover have "hl_resolve sample_library d r = Inr (d @ [r])" "hl_decode sample_library r = r"
      "hl_read_file sample_library [''ui'', ''live.html''] = Some (Inr ''<html>'')" for d r
    by (simp_all add: sample_library_def)
  ultimately show ?thesis
    by (simp add: handle_static_def split Let_def static_response_def log_message_def)
qed

lemma sample_serve_static:
  "\<exists>resp. serve loading_services sample_library sample_server sample_api ''text''
      (sample_request HEAD ''/live.html'') sample_state = Some (Answered resp, sample_state)"
proof -
  obtain resp where "handle_static sample_library sample_server (sample_request HEAD ''/live.html'') True = Inr resp"
    using sample_static by blast
  moreover have "startswith ''/live.html'' ''/''" by (simp add: startswith_def)
  moreover have "rq_method (sample_request HEAD ''/live.html'') = HEAD" by (simp add: sample_request_def)
  ultimately show ?thesis by (simp add: serve_def bounded_def http_operation_def sample_host_ok)
qed


text \<open>
  A file is served only from below the directory of the user interface: whatever the path of the request
  decodes and resolves to, a response with status 200 carries the content of a file under that directory.
\<close>

theorem static_files_confined:
  assumes "handle_static hl sv rq head_only = Inr resp" and "rs_status resp = 200"
  shows "\<exists>ui_dir rest content. sv_ui_dir sv = Some ui_dir \<and>
    hl_read_file hl (ui_dir @ rest) = Some (Inr content) \<and> rs_body resp = (if head_only then [] else content)"
  using assms by (rule handle_static_confined)

theorem static_files_confined_witness:
  "\<exists>resp rest content. handle_static sample_library sample_server (sample_request GET ''/live.html'') False = Inr resp \<and>
     hl_read_file sample_library ([''ui''] @ rest) = Some (Inr content) \<and> rs_body resp = content"
proof -
  obtain resp where r: "handle_static sample_library sample_server (sample_request GET ''/live.html'') False = Inr resp"
      "rs_status resp = 200" using sample_static by blast
  have "sv_ui_dir sample_server = Some [''ui'']" by (simp add: sample_server_def)
  with static_files_confined [OF r] r(1) show ?thesis by auto
qed


lemma sample_config_ok: "config_ok (hl_netloc_ok sample_library) sample_config"
proof -
  have "url_hostname ''a'' = Some ''a''" by code_simp
  then have "origin_ok (hl_netloc_ok sample_library) ''REMOTE_TLS'' ''https://a''"
    unfolding origin_ok_def by (simp add: sample_origin_split)
  moreover have "float_in_range ''30.0'' 1 120" "float_in_range ''30.0'' 0 300" by code_simp+
  ultimately show ?thesis
    by (simp add: config_ok_def sample_config_def cf_is_local_def MAX_JSON_DEPTH_def)
qed


section \<open>Connections\<close>

text \<open>
  C19: In every state that the accept loop, the request threads, the deadline monitor and the shutdown can reach,
  under any interleaving, each request slot is free or held by exactly one connection. So at most the configured number of
  requests is served at a time, no slot is lost, giving a slot back never makes the bounded semaphore raise, and the monitor only watches
  connections that are still being served.
\<close>

theorem request_slots_conserved:
  assumes "reachable (\<lambda>s. s = init_server limit) server_step s"
  shows "ss_limit s = limit \<and> ss_slots s + length (holders s) = limit \<and> distinct (holders s) \<and>
    (holders s \<noteq> [] \<longrightarrow> release_request_slot s = Inr (s\<lparr>ss_slots := ss_slots s + 1\<rparr>)) \<and>
    (\<forall>r\<in>dom (map_of (ss_deadlines s)). r \<in> live_holders s)"
proof -
  from assms have "reachable (\<lambda>s. \<exists>n. s = init_server n) server_step s \<and> ss_limit s = limit"
    by induction (auto simp: init_server_def intro: reachable.intros dest: server_step_limit)
  moreover from this have "server_inv s" using http_server.reachable_inv by blast
  ultimately show ?thesis using release_request_slot_holder unfolding server_inv_def by blast
qed

theorem request_slots_conserved_witness:
  "\<exists>s. reachable (\<lambda>s. s = init_server 1) server_step s \<and> ss_slots s = 0 \<and> holders s = [7] \<and>
     release_request_slot s = Inr (s\<lparr>ss_slots := 1\<rparr>)"
proof -
  define s where "s = (init_server 1)\<lparr>ss_slots := 0, ss_accepting := Some (7, Acquired)\<rparr>"
  have "server_step (init_server 1) s"
    unfolding s_def
    using server_step.acquired [of "init_server 1" "(init_server 1)\<lparr>ss_slots := 0\<rparr>" 7]
    by (simp add: init_server_def acquire_request_slot_def)
  then have r: "reachable (\<lambda>s. s = init_server 1) server_step s"
    by (intro reachable.step [OF reachable.start [where s = "init_server 1"]]) simp
  have "ss_slots s = 0" "holders s = [7]" by (simp_all add: s_def holders_def init_server_def)
  with request_slots_conserved [OF r] r show ?thesis by auto
qed

section \<open>Cancellation\<close>

text \<open>
  C16: A cancellation that is confirmed has happened: when the application answers a cancel request with a status document, the caller owns
  the execution, the document says CANCELLED, and the ledger holds the execution as CANCELLED, whatever the
  gates and the workers did to the ledger in between.
\<close>

theorem cancel_confirmed:
  assumes "ledger_inv svc (w_ledger (as_world st))"
    and "ledger_rely svc (ae_others env)" and "ledger_rely svc (qe_others (ae_queue env))"
    and "app_cancel svc ap env e c st = (Inr (Some doc), st')"
  shows "\<exists>s q. g_authenticate (ap_gate ap) c = Inr s \<and>
    get_by_execution_id e (w_ledger (as_world st')) = Some q \<and> rec_status q = ''CANCELLED'' \<and>
    rec_authenticated_subject_id q = subject_id s \<and> dict_get doc ''state'' = Inr (JStr ''CANCELLED'')"
  using assms by (rule app_cancel_done)

definition cancelled_now :: ledger where
  "cancelled_now =
     snd (transition_execution sample_services (move ''e-1'' NONTERMINAL_STATUSES ''CANCELLED''
            (queue_error ''ERR_CANCELLED'' ''WORKER'' True ''Execution was cancelled'')) ''t2'' Appended sample_admitted)"

definition sample_owned :: app_state where
  "sample_owned = \<lparr>as_ready = True, as_world = sample_queue_world sample_admitted\<rparr>"

lemma sample_status:
  assumes "get_by_execution_id ''e-1'' l = Some r" and "rec_authenticated_subject_id r = ''alice''"
    and "record_status sample_services now r = Inr doc"
  shows "get_status sample_services sample_gate now ''e-1'' sample_credentials l = Inr (Some doc)"
proof -
  have "g_authenticate sample_gate sample_credentials = Inr sample_subject"
    by (simp add: sample_gate_def hashed_authenticate_def sample_credentials_def obj_get_def)
  with assms show ?thesis by (simp add: get_status_def get_owned_record_def sample_subject_def)
qed

lemma sample_admitted_status:
  "\<exists>doc. get_status sample_services sample_gate now ''e-1'' sample_credentials sample_admitted = Inr (Some doc) \<and>
     getitem doc ''state'' = Inr (JStr ''ADMITTED'')"
proof -
  have "get_by_execution_id ''e-1'' sample_admitted = Some (admitted_record sample_admission ''t1'')"
    "rec_authenticated_subject_id (admitted_record sample_admission ''t1'') = ''alice''"
    "case record_status sample_services now (admitted_record sample_admission ''t1'') of
       Inr doc \<Rightarrow> getitem doc ''state'' = Inr (JStr ''ADMITTED'') | Inl e \<Rightarrow> False"
    by code_simp+
  then show ?thesis by (auto dest: sample_status split: sum.splits)
qed

lemma sample_cancelled_status:
  "\<exists>doc. get_status sample_services sample_gate now ''e-1'' sample_credentials cancelled_now = Inr (Some doc)"
proof -
  have "map_option (\<lambda>r. (rec_authenticated_subject_id r, isl (record_status sample_services now r)))
      (get_by_execution_id ''e-1'' cancelled_now) = Some (''alice'', False)"
    by code_simp
  then obtain r where "get_by_execution_id ''e-1'' cancelled_now = Some r" "rec_authenticated_subject_id r = ''alice''"
      "\<not> isl (record_status sample_services now r)" by auto
  then show ?thesis using sample_status by (metis sum.collapse(2))
qed

lemma sample_cancel:
  "\<exists>doc st'. app_cancel sample_services sample_app sample_api ''e-1'' sample_credentials sample_owned = (Inr (Some doc), st')"
proof -
  obtain doc where d: "get_status sample_services sample_gate ''t3'' ''e-1'' sample_credentials sample_admitted = Inr (Some doc)"
      "getitem doc ''state'' = Inr (JStr ''ADMITTED'')" using sample_admitted_status by blast
  obtain doc' where d': "get_status sample_services sample_gate ''t3'' ''e-1'' sample_credentials cancelled_now = Inr (Some doc')"
    using sample_cancelled_status by blast
  have adm: "get_by_execution_id ''e-1'' sample_admitted = Some (admitted_record sample_admission ''t1'')"
    "rec_status (admitted_record sample_admission ''t1'') = ''ADMITTED''" by code_simp+
  have "case fst (transition_execution sample_services (move ''e-1'' NONTERMINAL_STATUSES ''CANCELLED''
            (queue_error ''ERR_CANCELLED'' ''WORKER'' True ''Execution was cancelled'')) ''t2'' Appended sample_admitted) of
      Inr (Some r) \<Rightarrow> True | _ \<Rightarrow> False" by code_simp
  then obtain r where t: "transition_execution sample_services (move ''e-1'' NONTERMINAL_STATUSES ''CANCELLED''
            (queue_error ''ERR_CANCELLED'' ''WORKER'' True ''Execution was cancelled'')) ''t2'' Appended sample_admitted
      = (Inr (Some r), cancelled_now)"
    by (auto simp: cancelled_now_def prod_eq_iff split: sum.splits option.splits)
  have env: "ae_others sample_api n w = w" "qe_others (ae_queue sample_api) n w = w"
      "qe_clock (ae_queue sample_api) n = ''t2''" "qe_append (ae_queue sample_api) n = Appended"
      "ae_clock sample_api n = ''t3''" for n w
    by (simp_all add: sample_api_def)
  have "cancel_guard sample_services sample_app sample_api ''e-1'' sample_credentials sample_admitted = Inr True"
    by (simp add: cancel_guard_def env d TERMINAL_STATUSES_def)
  then show ?thesis
    using adm d' t
    by (simp add: app_cancel_def sample_owned_def sample_queue_world_def cancel_def Let_def env TERMINAL_STATUSES_def)
qed

theorem cancel_confirmed_witness:
  "\<exists>doc st' q. app_cancel sample_services sample_app sample_api ''e-1'' sample_credentials sample_owned
       = (Inr (Some doc), st') \<and>
     get_by_execution_id ''e-1'' (w_ledger (as_world st')) = Some q \<and> rec_status q = ''CANCELLED''"
proof -
  obtain doc st' where c: "app_cancel sample_services sample_app sample_api ''e-1'' sample_credentials sample_owned
      = (Inr (Some doc), st')" using sample_cancel by blast
  have "ledger_inv sample_services (w_ledger (as_world sample_owned))"
    using sample_queued_inv(1) by (simp add: sample_owned_def sample_queue_world_def)
  moreover have "ledger_rely sample_services (ae_others sample_api)"
    "ledger_rely sample_services (qe_others (ae_queue sample_api))"
    by (simp_all add: ledger_rely_def sample_api_def)
  ultimately show ?thesis using cancel_confirmed [OF _ _ _ c] c by blast
qed

section \<open>Start and stop\<close>


lemma letter_not_blank:
  "(of_char c :: nat) < 192 \<Longrightarrow> \<not> is_space_point (of_char c) \<Longrightarrow> \<not> is_blank (c # s)"
  by (simp add: is_blank_def)

definition sample_descriptor :: json where
  "sample_descriptor =
     JObj [(''schema_version'', JStr ''1.0.0''), (''profile'', JStr ''LOCAL_LOOPBACK''),
       (''build_id_source'', JStr ''required-cli-argument''), (''protocol_id'', JStr HTTP_PROTOCOL_ID),
       (''contract_schema_version'', JStr CONTRACT_SCHEMA_VERSION), (''formal_semantics_id'', JStr FORMAL_SEMANTICS_ID),
       (''bindings'', JObj [(''host'', JStr ''127.0.0.1''), (''port'', JInt 80),
          (''allowed_origins'', JArr [JStr ''http://127.0.0.1''])]),
       (''identity'', JObj [(''local_subject_id'', JStr ''operator''),
          (''local_effective_roles'', JArr [JStr ''OPERATOR''])]),
       (''limits'', JObj [(''request_bytes'', JInt 10485760), (''json_depth'', JInt 32),
          (''request_timeout_seconds'', JFloat ''30.0''), (''max_inflight_requests'', JInt 16),
          (''request_queue_size'', JInt 16), (''worker_queue_capacity'', JInt 2),
          (''worker_processes'', JInt 1), (''shutdown_grace_seconds'', JFloat ''30.0'')])]"

definition sample_local :: working_config where
  "sample_local = sample_config\<lparr>cf_profile := ''LOCAL_LOOPBACK'', cf_bind_host := ''127.0.0.1'',
     cf_port := 80, cf_allowed_origins := [''http://127.0.0.1'']\<rparr>"

lemma sample_local_loaded:
  "load_working_version_config (\<lambda>s. True) (\<lambda>s. Some sample_descriptor) (Some ''{}'') = Inr sample_local"
proof -
  have o: "mapE (check_origin (\<lambda>s. True) ''LOCAL_LOOPBACK'') [JStr ''http://127.0.0.1''] = Inr [''http://127.0.0.1'']"
    by code_simp
  have f: "float_in_range ''30.0'' 1 120" "float_in_range ''30.0'' 0 300" by code_simp+
  have b: "\<not> is_blank ''operator''" by (rule letter_not_blank) (simp_all add: is_space_point_def)
  show ?thesis
    using b f o
    by (simp add: load_working_version_config_def sample_descriptor_def obj_get_def RUNTIME_DESCRIPTOR_VERSION_def
        validated_config_def check_bindings_def check_protocol_def check_limits_def check_local_identity_def
        MAX_REQUEST_BYTES_def MAX_CONFIG_JSON_DEPTH_def loopback_origin_def sample_local_def sample_config_def)
qed




definition sample_keys :: "unit key_library" where
  "sample_keys = \<lparr>kl_load_pem = (\<lambda>s. Inr (Some ())), kl_to_pem = (\<lambda>k. ''pem''),
     kl_public = (\<lambda>k. replicate 32 (CHR 0x00)), kl_sign = (\<lambda>k m. ''00'')\<rparr>"

definition sample_build :: "unit build_env" where
  "sample_build =
     \<lparr>be_keys = sample_keys, be_loads = (\<lambda>s. Some (bootstrap_roots (\<lambda>s. zeros) (replicate 32 (CHR 0x00)))),
      be_resolve = (\<lambda>p. p), be_fresh_key = (), be_writes = (\<lambda>n. Written), be_owner_write = Written, be_pid = 1,
      be_dumps = (\<lambda>v. ''{}''), be_lease = 1, be_ledger_lines = None, be_recover = (\<lambda>n. (''t'', Appended)),
      be_executable = ''python'', be_redact = (\<lambda>s. s)\<rparr>"

definition sample_plan :: host_plan where
  "sample_plan =
     \<lparr>hp_config = sample_local, hp_build_id = sample_commit, hp_instance_id = ''instance'', hp_data_dir = ''data'',
      hp_ui_dir = ''ui'', hp_shutdown_file = ''shutdown'', hp_allow_local_bootstrap = False,
      hp_signing_key = Some ''key'', hp_trust_roots = Some ''roots'', hp_remote_auth = None,
      hp_tls_cert = None, hp_tls_key = None\<rparr>"

definition sample_files :: files where
  "sample_files = [(''key'', ''pem''), (''roots'', ''{}'')]"

definition sample_identity :: runtime_identity where
  "sample_identity =
     \<lparr>ri_signing_identity =
        \<lparr>si_sign = (\<lambda>m. ''00''), si_key_id = bootstrap_key_id (\<lambda>s. zeros) (replicate 32 (CHR 0x00)),
         si_issuer_id = ''delta-working-version-local''\<rparr>,
      ri_trust_roots_path = ''roots'', ri_public_key_hex = bytes_hex (replicate 32 (CHR 0x00))\<rparr>"

lemma sample_identity_loaded:
  assumes "map_of fs ''key'' = Some pem" and "map_of fs ''roots'' = Some raw"
  shows "load_or_bootstrap_runtime_identity sample_keys sha
     (\<lambda>s. Some (bootstrap_roots (\<lambda>s. zeros) (replicate 32 (CHR 0x00)))) (\<lambda>p. p) () writes ''data'' False
     (Some ''key'') (Some ''roots'') fs = (Inr sample_identity, fs)"
proof -
  have "config_load_trust_roots (\<lambda>s. Some (bootstrap_roots (\<lambda>s. zeros) (replicate 32 (CHR 0x00)))) (Some raw) =
      Inr (''delta-working-version-local'', bootstrap_key_id (\<lambda>s. zeros) (replicate 32 (CHR 0x00)),
           bytes_hex (replicate 32 (CHR 0x00)))"
  proof -
    have "fullmatch_hex 64 (bytes_hex (replicate 32 (CHR 0x00)))" by code_simp
    then show ?thesis
      by (simp add: config_load_trust_roots_def bootstrap_roots_def bootstrap_key_id_def obj_get_def
          FIXTURE_ISSUER_IDS_def FIXTURE_KEY_IDS_def insert_commute)
  qed
  moreover have "\<not> is_blank (bootstrap_key_id (\<lambda>s. zeros) (replicate 32 (CHR 0x00)))"
    "\<not> is_blank ''delta-working-version-local''"
    unfolding bootstrap_key_id_def append_Cons by (rule letter_not_blank; simp add: is_space_point_def)+
  moreover have "bootstrap_key_id (\<lambda>s. zeros) (replicate 32 (CHR 0x00)) \<noteq> FROZEN_TEST_FIXTURE_KEY_ID"
    "''delta-working-version-local'' \<noteq> FROZEN_TEST_FIXTURE_ISSUER_ID"
    by (simp_all add: bootstrap_key_id_def FROZEN_TEST_FIXTURE_KEY_ID_def FROZEN_TEST_FIXTURE_ISSUER_ID_def)
  ultimately show ?thesis
    using assms
    by (simp add: load_or_bootstrap_runtime_identity_def load_identity_def sample_keys_def init_signing_identity_def
        sample_identity_def)
qed

lemma sample_built:
  "\<exists>ap s ls locks' fs'. build_application gate_services sample_build sample_plan ([], sample_files)
     = (Inr (ap, s, ls), locks', fs') \<and> map_of fs' (ri_trust_roots_path (ap_identity ap)) = Some ''{}''"
proof -
  let ?l = "empty_ledger (Some ''data/controller-ledger.jsonl'') (Some sample_commit) []"
  let ?w = "\<lparr>w_ledger = ?l, w_port = sample_queue, w_audit = []\<rparr>"
  have commit: "fullmatch_hex 40 sample_commit" by code_simp
  have fields: "cf_worker_processes sample_local = 1" "cf_worker_queue_capacity sample_local = 2" "cf_is_local sample_local"
    by (simp_all add: sample_local_def sample_config_def cf_is_local_def)
  have "init_queue sample_commit (Some command) (None :: unit option) 1 2 = Inr sample_queue" for command :: "string list"
    using commit by (simp add: init_queue_def sample_queue_def)
  moreover have "recover_orphans gate_services env ?w = (Inr 0, ?w)" for env
    by (simp add: recover_orphans_def list_nonterminal_records_def empty_ledger_def list_records_def raise_if_poisoned_def)
  ultimately have "build_queue gate_services sample_build sample_local sample_commit command ?l = Inr ?w" for command
    by (simp add: build_queue_def fields)
  moreover have "init_ledger gate_services (Some ''data/controller-ledger.jsonl'') (Some sample_commit) None = Inr ?l"
    by (simp add: init_ledger_def commit)
  ultimately show ?thesis
    using commit
    by (simp add: build_application_def validate_build_id_def init_lease_def lease_acquire_def atomic_write_def
        build_parts_def build_authentication_port_def build_gate_def init_gate_checks_def init_application_def
        sample_plan_def sample_build_def fields sample_identity_loaded sample_files_def owner_path_def)
      (simp add: sample_identity_def)
qed


definition sample_linked_worker :: worker_services where
  "sample_linked_worker =
     linked_worker\<lparr>ws_loads := (\<lambda>s. Some (bootstrap_roots (\<lambda>s. zeros) (replicate 32 (CHR 0x00))))\<rparr>"


text \<open>
  However the set-up, the service loop and the shutdown end, the process lets go of its data directory last and exactly once,
  after it has stopped the application exactly once; it reports itself as stopped only when that shutdown succeeded.
\<close>

theorem lease_released_last:
  assumes "run_host hr = (r, es)"
  shows "(\<exists>before. es = before @ [LeaseReleased] \<and> LeaseReleased \<notin> set before \<and>
      count_list before ApplicationShutdown = 1) \<and>
    (StoppedWritten \<in> set es \<longrightarrow> hr_app_shutdown hr = Inr ())"
  using run_host_events [OF assms] .

theorem lease_released_last_witness:
  "\<exists>r es. run_host \<lparr>hr_server = Inr (), hr_setup = Inr (), hr_stopping_early = False, hr_serve = Interrupted,
      hr_server_close = Inl OSError, hr_app_shutdown = Inr (), hr_write_stopped = Inr ()\<rparr> = (r, es) \<and>
     LeaseReleased \<in> set es"
proof -
  let ?hr = "\<lparr>hr_server = Inr (), hr_setup = Inr (), hr_stopping_early = False, hr_serve = Interrupted,
      hr_server_close = Inl OSError, hr_app_shutdown = Inr (), hr_write_stopped = Inr ()\<rparr>"
  obtain r es where h: "run_host ?hr = (r, es)" by (cases "run_host ?hr")
  from lease_released_last [OF h] h show ?thesis by fastforce
qed

end
