(* ===== verification/Fixed_Point.thy ===== *)
theory Fixed_Point
  imports Codec "HOL-Library.Word"
begin

text \<open>
  The exact-integer oracle of the \<open>int16-fixed-v1\<close> wire format, \<open>deltatorrent/reference/fixedpoint_encoder.py\<close>:
  canonical rationals, quantisation with ties to even, the INT16 payload, the DRQ1 envelope and the Merkle
  root of a shard table. \<open>sha\<close> is the digest of \<open>hashlib.sha256\<close> as bytes. \<open>ud\<close> gives the digits of
  Unicode outside ASCII: \<open>Some (Some d)\<close> for a decimal digit, \<open>Some None\<close> for a character
  that is a digit for \<open>str.isdigit\<close> but not for \<open>int\<close> (such as a superscript).
\<close>

datatype fx_error = ContractError string | IntValueError | ZeroDivisionError

type_synonym 'a fx = "fx_error + 'a"

definition Q_MIN :: int where "Q_MIN = -32767"
definition Q_MAX :: int where "Q_MAX = 32767"
definition I64_MAX :: int where "I64_MAX = 2 ^ 63 - 1"
definition I64_MIN :: int where "I64_MIN = - (2 ^ 63)"
definition MAX_HEADER_BYTES :: nat where "MAX_HEADER_BYTES = 65536"
definition MAX_PAYLOAD_BYTES :: nat where "MAX_PAYLOAD_BYTES = 1048576"
definition ENVELOPE_MAGIC :: string where "ENVELOPE_MAGIC = ''DRQ1''"

section \<open>Rationals\<close>

record rational =
  numerator :: int
  denominator :: int

type_synonym digit_table = "nat \<Rightarrow> nat option option"

definition digit_of :: "digit_table \<Rightarrow> nat \<Rightarrow> nat option option" where
  "digit_of ud p = (if p < 128 then (if 48 \<le> p \<and> p \<le> 57 then Some (Some (p - 48)) else None) else ud p)"

definition isdigit :: "digit_table \<Rightarrow> string \<Rightarrow> bool" where
  "isdigit ud s \<longleftrightarrow> s \<noteq> [] \<and> list_all (\<lambda>p. digit_of ud p \<noteq> None) (utf8_points (map of_char s))"

fun points_value :: "digit_table \<Rightarrow> nat \<Rightarrow> nat list \<Rightarrow> nat option" where
  "points_value ud acc [] = Some acc"
| "points_value ud acc (p # ps) =
     (case digit_of ud p of Some (Some d) \<Rightarrow> points_value ud (10 * acc + d) ps | _ \<Rightarrow> None)"

text \<open>\<open>int(text)\<close> of a text of digits, with its limit of 4300 digits.\<close>

definition int_of_digits :: "digit_table \<Rightarrow> string \<Rightarrow> nat fx" where
  "int_of_digits ud s =
     (let ps = utf8_points (map of_char s) in
      if length ps > 4300 then Inl IntValueError
      else (case points_value ud 0 ps of None \<Rightarrow> Inl IntValueError | Some n \<Rightarrow> Inr n))"

definition parse_i64_decimal :: "digit_table \<Rightarrow> json \<Rightarrow> int fx" where
  "parse_i64_decimal ud v =
     (case v of
        JStr s \<Rightarrow>
          (let negative = startswith s ''-''; digits = (if negative then drop 1 s else s) in
           bindE (ensure (s \<noteq> []) (ContractError ''DECIMAL_INVALID'')) (\<lambda>_.
           bindE (ensure (\<not> (s = ''-0'' \<or> startswith s ''+'' \<or> (startswith s ''0'' \<and> s \<noteq> ''0'')))
                    (ContractError ''DECIMAL_NOT_CANONICAL'')) (\<lambda>_.
           bindE (ensure (\<not> (startswith s ''-0'' \<or> \<not> isdigit ud digits))
                    (ContractError ''DECIMAL_NOT_CANONICAL'')) (\<lambda>_.
           bindE (int_of_digits ud digits) (\<lambda>n.
           (let parsed = (if negative then - int n else int n) in
            bindE (ensure (\<not> (parsed < I64_MIN \<or> parsed > I64_MAX)) (ContractError ''DECIMAL_OUT_OF_RANGE''))
              (\<lambda>_. Inr parsed)))))))
      | _ \<Rightarrow> Inl (ContractError ''DECIMAL_INVALID''))"

definition parse_u32 :: "json \<Rightarrow> int fx" where
  "parse_u32 v =
     (case v of
        JInt i \<Rightarrow> if i < 0 \<or> i > 4294967295 then Inl (ContractError ''U32_INVALID'') else Inr i
      | _ \<Rightarrow> Inl (ContractError ''U32_INVALID''))"

definition rational_parse :: "digit_table \<Rightarrow> (string \<times> json) list \<Rightarrow> bool \<Rightarrow> rational fx" where
  "rational_parse ud v positive =
     bindE (ensure (set (map fst v) = {''denominator'', ''numerator''}) (ContractError ''RATIONAL_FIELDS_INVALID'')) (\<lambda>_.
     bindE (parse_i64_decimal ud (obj_get v ''numerator'')) (\<lambda>n.
     bindE (parse_u32 (obj_get v ''denominator'')) (\<lambda>d.
     bindE (ensure (d \<noteq> 0) (ContractError ''RATIONAL_ZERO_DENOMINATOR'')) (\<lambda>_.
     bindE (ensure (\<not> (positive \<and> n \<le> 0)) (ContractError ''SCALE_NOT_POSITIVE'')) (\<lambda>_.
     bindE (ensure (\<not> (positive \<and> n > 4294967295)) (ContractError ''SCALE_NUMERATOR_OUT_OF_RANGE'')) (\<lambda>_.
     bindE (ensure (\<not> (n = 0 \<and> d \<noteq> 1)) (ContractError ''RATIONAL_ZERO_NOT_CANONICAL'')) (\<lambda>_.
     bindE (ensure (gcd \<bar>n\<bar> d = 1) (ContractError ''RATIONAL_NOT_REDUCED'')) (\<lambda>_.
     Inr \<lparr>numerator = n, denominator = d\<rparr>))))))))"

definition rational_to_json :: "rational \<Rightarrow> (string \<times> json) list" where
  "rational_to_json r =
     [(''denominator'', JInt (denominator r)), (''numerator'', JStr (int_text (numerator r)))]"

section \<open>Quantisation\<close>

definition checked_positive_product :: "int \<Rightarrow> int \<Rightarrow> int fx" where
  "checked_positive_product left right =
     (if left * right > I64_MAX then Inl (ContractError ''QUANTIZATION_INTERMEDIATE_OVERFLOW'')
      else Inr (left * right))"

definition quantize :: "rational \<Rightarrow> rational \<Rightarrow> int fx" where
  "quantize source quantum =
     bindE (ensure (\<not> numerator quantum \<le> 0) (ContractError ''SCALE_NOT_POSITIVE'')) (\<lambda>_.
     bindE (checked_positive_product \<bar>numerator source\<bar> (denominator quantum)) (\<lambda>magnitude.
     bindE (checked_positive_product (denominator source) (numerator quantum)) (\<lambda>divisor.
     bindE (ensure (divisor \<noteq> 0) ZeroDivisionError) (\<lambda>_.
     (let quotient = magnitude div divisor;
          twice_remainder = magnitude mod divisor * 2;
          rounded = (if twice_remainder > divisor \<or> (twice_remainder = divisor \<and> quotient mod 2 = 1)
                     then quotient + 1 else quotient);
          result = (if numerator source < 0 then - rounded else rounded)
      in bindE (ensure (\<not> (result < Q_MIN \<or> result > Q_MAX)) (ContractError ''QUANTIZATION_RANGE_EXCEEDED''))
           (\<lambda>_. Inr result))))))"

section \<open>Payload and envelope\<close>

text \<open>\<open>struct.pack("<h", value)\<close>: two's complement, low byte first.\<close>

definition pack_h :: "int \<Rightarrow> string" where
  "pack_h v = (let w = word_of_int v :: 16 word
     in [char_of (unat (take_bit 8 w)), char_of (unat (drop_bit 8 w))])"

definition encode_payload :: "json list \<Rightarrow> string fx" where
  "encode_payload vs =
     bindE (mapE (\<lambda>v. case v of
              JInt q \<Rightarrow> if q < Q_MIN \<or> q > Q_MAX then Inl (ContractError ''Q_VALUE_OUT_OF_RANGE'') else Inr (pack_h q)
            | _ \<Rightarrow> Inl (ContractError ''Q_VALUE_OUT_OF_RANGE'')) vs) (\<lambda>chunks.
     bindE (ensure (\<not> length (concat chunks) > MAX_PAYLOAD_BYTES) (ContractError ''SHARD_PAYLOAD_TOO_LARGE'')) (\<lambda>_.
     Inr (concat chunks)))"

text \<open>The unsigned formats \<open>"<H"\<close> and \<open>"<I"\<close> with their number of bytes.\<close>

fun pack_le :: "nat \<Rightarrow> nat \<Rightarrow> string" where
  "pack_le 0 n = []"
| "pack_le (Suc k) n = char_of (n mod 256) # pack_le k (n div 256)"

definition fx_canonical_json_bytes :: "json \<Rightarrow> string fx" where
  "fx_canonical_json_bytes v =
     (if json_finite v then Inr (dumps_sorted v) else Inl (ContractError ''CANONICAL_JSON_INVALID''))"

definition encode_envelope :: "(string \<times> json) list \<Rightarrow> string \<Rightarrow> string fx" where
  "encode_envelope header payload =
     bindE (fx_canonical_json_bytes (JObj header)) (\<lambda>header_bytes.
     bindE (ensure (\<not> length header_bytes > MAX_HEADER_BYTES) (ContractError ''SHARD_HEADER_TOO_LARGE'')) (\<lambda>_.
     bindE (ensure (\<not> length payload > MAX_PAYLOAD_BYTES) (ContractError ''SHARD_PAYLOAD_TOO_LARGE'')) (\<lambda>_.
     Inr (ENVELOPE_MAGIC @ pack_le 2 1 @ pack_le 2 0 @ pack_le 4 (length header_bytes) @ pack_le 4 (length payload) @
          header_bytes @ payload))))"

section \<open>Content identities and the Merkle root\<close>

definition fx_content_id :: "(string \<Rightarrow> string) \<Rightarrow> string \<Rightarrow> string \<Rightarrow> string fx" where
  "fx_content_id sha domain payload =
     (if \<not> list_all (\<lambda>c. (of_char c :: nat) < 128) domain \<or> \<not> startswith domain ''deltareduce.004.''
      then Inl (ContractError ''HASH_DOMAIN_INVALID'')
      else Inr (''sha256:'' @ bytes_hex (sha (domain @ [CHR 0x00] @ payload))))"

definition leaf_id :: "(string \<Rightarrow> string) \<Rightarrow> string \<Rightarrow> string fx" where
  "leaf_id sha envelope = fx_content_id sha ''deltareduce.004.shard-leaf.v1'' envelope"

definition leaf_node :: "string \<Rightarrow> string fx" where
  "leaf_node leaf =
     (if \<not> startswith leaf ''sha256:'' \<or> length leaf \<noteq> 71 then Inl (ContractError ''CONTENT_ID_INVALID'')
      else (case fromhex (drop 7 leaf) of
              None \<Rightarrow> Inl (ContractError ''CONTENT_ID_INVALID'') | Some node \<Rightarrow> Inr node))"

definition MERKLE_DOMAIN :: string where
  "MERKLE_DOMAIN = ''deltareduce.004.merkle-node.v1'' @ [CHR 0x00]"

fun merkle_pairs :: "(string \<Rightarrow> string) \<Rightarrow> string list \<Rightarrow> string list" where
  "merkle_pairs sha (x # y # nodes) = sha (MERKLE_DOMAIN @ x @ y) # merkle_pairs sha nodes"
| "merkle_pairs sha _ = []"

definition merkle_level :: "(string \<Rightarrow> string) \<Rightarrow> string list \<Rightarrow> string list" where
  "merkle_level sha nodes = merkle_pairs sha (if odd (length nodes) then nodes @ [last nodes] else nodes)"

lemma length_merkle_pairs [simp]: "length (merkle_pairs sha nodes) = length nodes div 2"
  by (induction sha nodes rule: merkle_pairs.induct) auto

lemma length_merkle_level: "length (merkle_level sha nodes) = (length nodes + 1) div 2"
  by (simp add: merkle_level_def)

function merkle_loop :: "(string \<Rightarrow> string) \<Rightarrow> string list \<Rightarrow> string list" where
  "merkle_loop sha nodes = (if length nodes > 1 then merkle_loop sha (merkle_level sha nodes) else nodes)"
  by pat_completeness auto

termination merkle_loop
  by (relation "measure (\<lambda>(sha, nodes). length nodes)") (auto simp: length_merkle_level)

declare merkle_loop.simps [simp del]

definition merkle_root :: "(string \<Rightarrow> string) \<Rightarrow> string list \<Rightarrow> string fx" where
  "merkle_root sha leaves =
     bindE (ensure (leaves \<noteq> []) (ContractError ''EMPTY_SHARD_TABLE'')) (\<lambda>_.
     bindE (mapE leaf_node leaves) (\<lambda>nodes.
     Inr (''sha256:'' @ bytes_hex (hd (merkle_loop sha nodes)))))"

end
