(* ===== verification/Fixed_Point_Props.thy ===== *)
theory Fixed_Point_Props
  imports Fixed_Point
begin

text \<open>
  Facts about the wire format: quantisation against the definition of rounding to the nearest integer with ties to even,
  fixed-width fields that can be read back, the canonical form of rationals, and what the Merkle root
  binds.
\<close>

section \<open>Rounding\<close>

text \<open>\<open>q\<close> is the integer nearest to \<open>n / d\<close>, and even when two integers are equally near.\<close>

definition nearest_even :: "int \<Rightarrow> int \<Rightarrow> int \<Rightarrow> bool" where
  "nearest_even n d q \<longleftrightarrow> 2 * \<bar>n - q * d\<bar> \<le> d \<and> (2 * \<bar>n - q * d\<bar> = d \<longrightarrow> even q)"

lemma between_neighbours:
  fixes n x y d :: int
  assumes "2 * \<bar>n - x\<bar> \<le> d" and "2 * \<bar>n - y\<bar> \<le> d" and "x = y + d \<or> y = x + d"
  shows "2 * \<bar>n - x\<bar> = d \<and> 2 * \<bar>n - y\<bar> = d"
  using assms by (auto simp: abs_if split: if_splits)

lemma nearest_even_unique:
  assumes "0 < d" and p: "nearest_even n d p" and q: "nearest_even n d q"
  shows "p = q"
proof (rule ccontr)
  assume "p \<noteq> q"
  have near: "2 * \<bar>n - p * d\<bar> \<le> d" "2 * \<bar>n - q * d\<bar> \<le> d" using p q by (simp_all add: nearest_even_def)
  moreover have "\<bar>(p - q) * d\<bar> \<le> \<bar>n - p * d\<bar> + \<bar>n - q * d\<bar>" unfolding left_diff_distrib by arith
  ultimately have "2 * \<bar>(p - q) * d\<bar> \<le> 2 * d" by simp
  then have "\<bar>p - q\<bar> * d \<le> 1 * d" using assms(1) by (simp add: abs_mult)
  then have "\<bar>p - q\<bar> \<le> 1" using assms(1) mult_le_cancel_right_pos by blast
  with \<open>p \<noteq> q\<close> have pq: "p = q + 1 \<or> q = p + 1" by linarith
  then have "p * d = q * d + d \<or> q * d = p * d + d" by (auto simp: distrib_right)
  with near have "2 * \<bar>n - p * d\<bar> = d \<and> 2 * \<bar>n - q * d\<bar> = d" by (rule between_neighbours)
  with p q have "even p" "even q" by (simp_all add: nearest_even_def)
  with pq show False by auto
qed

lemma nearest_even_uminus: "nearest_even (- n) d (- q) \<longleftrightarrow> nearest_even n d q"
proof -
  have "\<bar>- n - - q * d\<bar> = \<bar>n - q * d\<bar>" by linarith
  then show ?thesis by (simp add: nearest_even_def)
qed

lemma rounded_nearest_even:
  fixes m d :: int
  assumes "0 < d"
  defines "q \<equiv> m div d" and "t \<equiv> m mod d * 2"
  shows "nearest_even m d (if t > d \<or> (t = d \<and> q mod 2 = 1) then q + 1 else q)"
proof -
  have m: "m = q * d + m mod d" by (simp add: q_def)
  have r: "0 \<le> m mod d" "m mod d < d" using assms(1) by simp_all
  have low: "\<bar>m - q * d\<bar> = m mod d" using m r by linarith
  have high: "\<bar>m - (q + 1) * d\<bar> = d - m mod d" using m r by (simp add: algebra_simps)
  show ?thesis
  proof (cases "t > d \<or> (t = d \<and> q mod 2 = 1)")
    case True
    then have "2 * (d - m mod d) \<le> d" "2 * (d - m mod d) = d \<longrightarrow> even (q + 1)"
      by (auto simp: t_def)
    then show ?thesis unfolding if_P [OF True] nearest_even_def using high by simp
  next
    case False
    then have "2 * (m mod d) \<le> d" "2 * (m mod d) = d \<longrightarrow> even q"
      by (auto simp: t_def)
    then show ?thesis unfolding if_not_P [OF False] nearest_even_def using low by simp
  qed
qed

lemma quantize_iff:
  assumes "0 < denominator source" and "0 < numerator quantum"
  shows "quantize source quantum = Inr q \<longleftrightarrow>
    \<bar>numerator source\<bar> * denominator quantum \<le> I64_MAX \<and> denominator source * numerator quantum \<le> I64_MAX \<and>
    nearest_even (numerator source * denominator quantum) (denominator source * numerator quantum) q \<and>
    Q_MIN \<le> q \<and> q \<le> Q_MAX"
proof -
  let ?m = "\<bar>numerator source\<bar> * denominator quantum" and ?d = "denominator source * numerator quantum"
  let ?t = "?m mod ?d * 2"
  let ?r = "if ?t > ?d \<or> (?t = ?d \<and> ?m div ?d mod 2 = 1) then ?m div ?d + 1 else ?m div ?d"
  have pos: "0 < ?d" using assms by simp
  define r where "r = ?r"
  define q' where "q' = (if numerator source < 0 then - r else r)"
  have rounded: "nearest_even ?m ?d r" unfolding r_def by (rule rounded_nearest_even [OF pos])
  have near: "nearest_even (numerator source * denominator quantum) ?d q'"
  proof (cases "numerator source < 0")
    case True
    then have n: "numerator source * denominator quantum = - ?m" by simp
    from True have "q' = - r" by (simp add: q'_def)
    with rounded show ?thesis unfolding n by (simp only: nearest_even_uminus)
  next
    case False
    with rounded show ?thesis by (simp add: q'_def)
  qed
  have "nearest_even (numerator source * denominator quantum) ?d q \<longleftrightarrow> q = q'"
    using nearest_even_unique [OF pos _ near] near by metis
  moreover have "quantize source quantum =
      (if ?m > I64_MAX \<or> ?d > I64_MAX then Inl (ContractError ''QUANTIZATION_INTERMEDIATE_OVERFLOW'')
       else if q' < Q_MIN \<or> q' > Q_MAX then Inl (ContractError ''QUANTIZATION_RANGE_EXCEEDED'') else Inr q')"
    using assms pos unfolding quantize_def checked_positive_product_def Let_def q'_def r_def by simp
  then have "quantize source quantum = Inr q \<longleftrightarrow>
      ?m \<le> I64_MAX \<and> ?d \<le> I64_MAX \<and> Q_MIN \<le> q' \<and> q' \<le> Q_MAX \<and> q = q'"
    by (simp add: not_less not_le) linarith
  ultimately show ?thesis by auto
qed

section \<open>Fields of fixed width\<close>

text \<open>
  Reading a sequence of fields: \<open>unpack_all w dec\<close> reads one field of \<open>w\<close> bytes after the other. A fixed-width
  format is a pair of functions that read back what they write.
\<close>

function unpack_all :: "nat \<Rightarrow> (string \<Rightarrow> 'a) \<Rightarrow> string \<Rightarrow> 'a list" where
  "unpack_all w dec s = (if w = 0 \<or> s = [] then [] else dec (take w s) # unpack_all w dec (drop w s))"
  by pat_completeness auto

termination unpack_all
  by (relation "measure (\<lambda>(w, dec, s). length s)") auto

declare unpack_all.simps [simp del]

locale fixed_width_format =
  fixes width :: nat
    and enc :: "'a \<Rightarrow> string"
    and dec :: "string \<Rightarrow> 'a"
    and ok :: "'a \<Rightarrow> bool"
  assumes width_pos: "0 < width"
    and enc_length: "length (enc v) = width"
    and dec_enc: "ok v \<Longrightarrow> dec (enc v) = v"
begin

lemma field_read: "ok v \<Longrightarrow> dec (take width (enc v @ s)) = v \<and> drop width (enc v @ s) = s"
  using enc_length dec_enc by simp

lemma fields_length: "length (concat (map enc vs)) = width * length vs"
  by (induction vs) (simp_all add: enc_length)

lemma fields_read: "list_all ok vs \<Longrightarrow> unpack_all width dec (concat (map enc vs)) = vs"
proof (induction vs)
  case Nil
  then show ?case by (simp add: unpack_all.simps)
next
  case (Cons v vs)
  have "enc v \<noteq> []" using width_pos enc_length [of v] by auto
  with Cons field_read [of v "concat (map enc vs)"] width_pos show ?case
    by (subst unpack_all.simps) simp
qed

end

definition unpack_h :: "string \<Rightarrow> int" where
  "unpack_h s = sint (word_of_nat (of_char (s ! 0)) + push_bit 8 (word_of_nat (of_char (s ! 1))) :: 16 word)"

lemma unpack_pack_h:
  assumes "Q_MIN \<le> v" and "v \<le> Q_MAX"
  shows "unpack_h (pack_h v) = v"
proof -
  let ?w = "word_of_int v :: 16 word"
  have low: "unat (take_bit 8 ?w) < 256"
    using take_bit_nat_less_exp [of 8 "unat ?w"] by (simp add: unsigned_take_bit_eq)
  have high: "unat (drop_bit 8 ?w) < 256"
  proof -
    have "unat ?w < 65536" using unsigned_less [of ?w] by simp
    then have "drop_bit 8 (unat ?w) < 256" by (simp add: drop_bit_eq_div)
    then show ?thesis by (simp add: unat_drop_bit_eq)
  qed
  have "unpack_h (pack_h v) = sint (take_bit 8 ?w + push_bit 8 (drop_bit 8 ?w))"
    using low high by (simp add: unpack_h_def pack_h_def Let_def of_char_of)
  also have "\<dots> = sint ?w" using bits_ident [of 8 ?w] by (simp add: add.commute)
  also have "\<dots> = v"
    using assms by (simp add: sint_sbintrunc' signed_take_bit_int_eq_self Q_MIN_def Q_MAX_def)
  finally show ?thesis .
qed

lemma from_bytes_little_pack_le: "n < 256 ^ k \<Longrightarrow> from_bytes_little (pack_le k n) = int n"
proof (induction k arbitrary: n)
  case (Suc k)
  have "n div 256 < 256 ^ k" using Suc.prems by (simp add: less_mult_imp_div_less mult.commute)
  with Suc.IH have "from_bytes_little (pack_le k (n div 256)) = int (n div 256)" .
  moreover have "int (n mod 256) + 256 * int (n div 256) = int n"
    by (metis mod_mult_div_eq of_nat_add of_nat_mult of_nat_numeral)
  ultimately show ?case by (simp add: of_char_of)
qed simp

lemma length_pack_le [simp]: "length (pack_le k n) = k"
  by (induction k arbitrary: n) simp_all

interpretation int16: fixed_width_format 2 pack_h unpack_h "\<lambda>v. Q_MIN \<le> v \<and> v \<le> Q_MAX"
  by unfold_locales (simp_all add: unpack_pack_h, simp add: pack_h_def Let_def)

interpretation uint16: fixed_width_format 2 "pack_le 2" "nat \<circ> from_bytes_little" "\<lambda>n. n < 65536"
  by unfold_locales (simp_all add: from_bytes_little_pack_le)

interpretation uint32: fixed_width_format 4 "pack_le 4" "nat \<circ> from_bytes_little" "\<lambda>n. n < 4294967296"
  by unfold_locales (simp_all add: from_bytes_little_pack_le)

section \<open>Payload and envelope\<close>

lemma encode_payload_Inr:
  "encode_payload vs = Inr bytes \<longleftrightarrow>
     (\<exists>qs. vs = map JInt qs \<and> list_all (\<lambda>q. Q_MIN \<le> q \<and> q \<le> Q_MAX) qs \<and> bytes = concat (map pack_h qs) \<and>
        length bytes \<le> MAX_PAYLOAD_BYTES)"
proof -
  let ?f = "\<lambda>v. case v of
      JInt q \<Rightarrow> if q < Q_MIN \<or> q > Q_MAX then Inl (ContractError ''Q_VALUE_OUT_OF_RANGE'') else Inr (pack_h q)
    | _ \<Rightarrow> Inl (ContractError ''Q_VALUE_OUT_OF_RANGE'')"
  have one: "?f v = Inr c \<longleftrightarrow> (\<exists>q. v = JInt q \<and> Q_MIN \<le> q \<and> q \<le> Q_MAX \<and> c = pack_h q)" for v c
    by (auto split: json.splits)
  have all: "mapE ?f vs = Inr cs \<longleftrightarrow>
      (\<exists>qs. vs = map JInt qs \<and> list_all (\<lambda>q. Q_MIN \<le> q \<and> q \<le> Q_MAX) qs \<and> cs = map pack_h qs)" for cs
  proof (induction vs arbitrary: cs)
    case (Cons v vs)
    show ?case
    proof
      assume "mapE ?f (v # vs) = Inr cs"
      then obtain q qs where "v = JInt q" "Q_MIN \<le> q" "q \<le> Q_MAX" "cs = pack_h q # map pack_h qs" "vs = map JInt qs"
          "list_all (\<lambda>q. Q_MIN \<le> q \<and> q \<le> Q_MAX) qs"
        by (auto simp: bindE_eq_Inr one Cons.IH)
      then show "\<exists>qs. v # vs = map JInt qs \<and> list_all (\<lambda>q. Q_MIN \<le> q \<and> q \<le> Q_MAX) qs \<and> cs = map pack_h qs"
        by (intro exI [of _ "q # qs"]) simp
    qed (auto simp: Cons.IH bindE_eq_Inr one Cons_eq_map_conv)
  qed auto
  show ?thesis by (auto simp: encode_payload_def bindE_eq_Inr all not_less)
qed

text \<open>Reading an envelope back: the header bytes and the payload.\<close>

definition decode_envelope :: "string \<Rightarrow> (string \<times> string) option" where
  "decode_envelope s =
     (let h = nat (from_bytes_little (take 4 (drop 8 s))); p = nat (from_bytes_little (take 4 (drop 12 s))) in
      if take 8 s = ENVELOPE_MAGIC @ pack_le 2 1 @ pack_le 2 0 \<and> length s = 16 + h + p
      then Some (take h (drop 16 s), drop (16 + h) s) else None)"

lemma take_field: "length a = n \<Longrightarrow> length f = k \<Longrightarrow> take k (drop n (a @ f @ r)) = f"
  and drop_field: "length a = n \<Longrightarrow> drop n (a @ r) = r"
  and take_prefix: "length a = n \<Longrightarrow> take n (a @ r) = a"
  by auto

lemma decode_encode_envelope:
  assumes "encode_envelope header payload = Inr bytes"
  shows "decode_envelope bytes = Some (dumps_sorted (JObj header), payload)"
proof -
  let ?h = "dumps_sorted (JObj header)"
  let ?m = "ENVELOPE_MAGIC @ pack_le 2 1 @ pack_le 2 0"
  have small: "length ?h \<le> 65536" "length payload \<le> 1048576"
      and bytes: "bytes = ?m @ pack_le 4 (length ?h) @ pack_le 4 (length payload) @ ?h @ payload"
    using assms
    by (auto simp: encode_envelope_def fx_canonical_json_bytes_def bindE_eq_Inr MAX_HEADER_BYTES_def
        MAX_PAYLOAD_BYTES_def split: if_splits)
  have m: "length ?m = 8" by (simp add: ENVELOPE_MAGIC_def)
  have "take 4 (drop 8 bytes) = pack_le 4 (length ?h)"
    unfolding bytes by (rule take_field [OF m]) simp
  moreover have "bytes = (?m @ pack_le 4 (length ?h)) @ pack_le 4 (length payload) @ ?h @ payload" by (simp add: bytes)
  then have "take 4 (drop 12 bytes) = pack_le 4 (length payload)"
    by (rule ssubst) (rule take_field, use m in simp_all)
  moreover have "bytes = (?m @ pack_le 4 (length ?h) @ pack_le 4 (length payload)) @ ?h @ payload" by (simp add: bytes)
  then have "drop 16 bytes = ?h @ payload" by (rule ssubst) (rule drop_field, use m in simp)
  moreover have "take 8 bytes = ?m" unfolding bytes using m by (rule take_prefix)
  moreover have "length bytes = 16 + length ?h + length payload" using m by (simp add: bytes)
  moreover have "drop (16 + length ?h) bytes = drop (length ?h) (drop 16 bytes)" by (simp add: add.commute)
  ultimately show ?thesis using small by (simp add: decode_envelope_def from_bytes_little_pack_le)
qed

section \<open>Rationals\<close>

text \<open>A decimal text without leading zero is the text of its value.\<close>

lemma nat_text_text_nat:
  assumes "list_all is_digit s" and "s \<noteq> []" and "hd s \<noteq> CHR ''0'' \<or> s = ''0''"
  shows "nat_text (text_nat s) = s"
  using assms
proof (induction s rule: rev_induct)
  case (snoc c s)
  define d where "d = of_char c - (48 :: nat)"
  have d: "d < 10" "c = digit_char d"
    using snoc.prems(1) by (auto simp: d_def is_digit_def digit_char_def)
  have v: "text_nat (s @ [c]) = 10 * text_nat s + d" by (simp add: text_nat_def digits_value_append d_def)
  show ?case
  proof (cases "s = []")
    case True
    with v d show ?thesis by (simp add: text_nat_def nat_text.simps [of d])
  next
    case False
    with snoc.prems have "hd s \<noteq> CHR ''0''" by (cases s) auto
    with snoc False have ih: "nat_text (text_nat s) = s" by simp
    have "text_nat s \<noteq> 0"
    proof
      assume "text_nat s = 0"
      with ih have "s = ''0''" by (simp add: nat_text_zero)
      with \<open>hd s \<noteq> CHR ''0''\<close> show False by simp
    qed
    then have "\<not> 10 * text_nat s + d < 10" by simp
    then show ?thesis unfolding v using d ih by (simp add: nat_text.simps [of "10 * text_nat s + d"])
  qed
qed simp

lemma ascii_points:
  assumes "list_all (\<lambda>c. (of_char c :: nat) < 128) s"
  shows "utf8_points (map of_char s) = map of_char s"
  using assms by (induction s) auto

lemma isdigit_ascii:
  assumes "list_all (\<lambda>c. (of_char c :: nat) < 128) s"
  shows "isdigit ud s \<longleftrightarrow> s \<noteq> [] \<and> list_all is_digit s"
  using assms unfolding isdigit_def ascii_points [OF assms]
  by (auto simp: list_all_iff digit_of_def is_digit_def split: if_splits)

lemma points_value_digits:
  "list_all is_digit s \<Longrightarrow> points_value ud acc (map of_char s) = Some (digits_value acc s)"
  by (induction s arbitrary: acc) (auto simp: digit_of_def is_digit_def)

lemma digits_ascii: "list_all is_digit s \<Longrightarrow> list_all (\<lambda>c. (of_char c :: nat) < 128) s"
  by (auto simp: list_all_iff is_digit_def)

lemma int_of_digits_ascii:
  assumes "list_all is_digit s"
  shows "int_of_digits ud s = (if length s > 4300 then Inl IntValueError else Inr (text_nat s))"
  using points_value_digits [OF assms] ascii_points [OF digits_ascii [OF assms]]
  by (simp add: int_of_digits_def Let_def text_nat_def)

lemma parse_i64_decimal_ascii:
  assumes p: "parse_i64_decimal ud v = Inr n" and ascii: "\<And>s. v = JStr s \<Longrightarrow> list_all (\<lambda>c. (of_char c :: nat) < 128) s"
  shows "v = JStr (int_text n) \<and> I64_MIN \<le> n \<and> n \<le> I64_MAX"
proof -
  obtain s where v: "v = JStr s" using p by (cases v) (auto simp: parse_i64_decimal_def)
  let ?neg = "startswith s ''-''"
  let ?ds = "if ?neg then drop 1 s else s"
  note u = p [unfolded v parse_i64_decimal_def json.case Let_def bindE_eq_Inr]
  from u obtain k where k: "int_of_digits ud ?ds = Inr k" "n = (if ?neg then - int k else int k)"
      "I64_MIN \<le> n" "n \<le> I64_MAX" and digits: "isdigit ud ?ds" and canon: "\<not> (startswith s ''0'' \<and> s \<noteq> ''0'')"
      "\<not> startswith s ''-0''" "s \<noteq> []"
    by auto
  have "list_all (\<lambda>c. (of_char c :: nat) < 128) ?ds" using ascii [OF v] by (cases s) auto
  note digits [unfolded isdigit_ascii [OF this]]
  then have ds: "?ds \<noteq> []" "list_all is_digit ?ds" by blast+
  with k(1) have k': "k = text_nat ?ds" by (simp add: int_of_digits_ascii split: if_splits)
  have neg: "?neg \<Longrightarrow> s = CHR ''-'' # ?ds \<and> hd ?ds \<noteq> CHR ''0''"
    using canon(2) ds(1) by (cases s; cases "tl s") (auto simp: startswith_def)
  have pos: "\<not> ?neg \<Longrightarrow> hd ?ds \<noteq> CHR ''0'' \<or> ?ds = ''0''"
    using canon(1,3) by (cases s) (auto simp: startswith_def)
  have digits_text: "nat_text k = ?ds" unfolding k' using ds neg pos by (intro nat_text_text_nat) auto
  have "k \<noteq> 0" if "?neg"
  proof
    assume "k = 0"
    with digits_text have "?ds = ''0''" by (simp add: nat_text_zero)
    with neg [OF that] show False by simp
  qed
  then have neg_text: "?neg \<Longrightarrow> int_text n = CHR ''-'' # nat_text k" using k(2) by (simp add: int_text_def)
  have pos_text: "\<not> ?neg \<Longrightarrow> int_text n = nat_text k" using k(2) by (simp add: int_text_def)
  have "int_text n = s"
  proof (cases "?neg")
    case True
    from neg_text [OF True] neg [OF True] digits_text show ?thesis by simp
  next
    case False
    from pos_text [OF False] digits_text False show ?thesis by simp
  qed
  with v k(3,4) show ?thesis by simp
qed

lemma parse_u32_Inr: "parse_u32 v = Inr i \<longleftrightarrow> v = JInt i \<and> 0 \<le> i \<and> i \<le> 4294967295"
  by (cases v) (auto simp: parse_u32_def)

definition rational_ok :: "rational \<Rightarrow> bool \<Rightarrow> bool" where
  "rational_ok r positive \<longleftrightarrow>
     I64_MIN \<le> numerator r \<and> numerator r \<le> I64_MAX \<and> 0 < denominator r \<and> denominator r \<le> 4294967295 \<and>
     (positive \<longrightarrow> 0 < numerator r \<and> numerator r \<le> 4294967295) \<and> gcd \<bar>numerator r\<bar> (denominator r) = 1"

lemma int_text_ascii: "list_all (\<lambda>c. (of_char c :: nat) < 128) (int_text i)"
  using digits_ascii [OF nat_text_digits] by (simp add: int_text_def)

lemma parse_int_text:
  assumes "I64_MIN \<le> i" and "i \<le> I64_MAX"
  shows "parse_i64_decimal ud (JStr (int_text i)) = Inr i"
proof -
  define n where "n = nat \<bar>i\<bar>"
  have n: "n < 10 ^ 4300"
  proof -
    have "n \<le> 2 ^ 63" using assms by (simp add: n_def I64_MIN_def I64_MAX_def)
    also have "(2 :: nat) ^ 63 < 10 ^ 63" by (rule power_strict_mono) simp_all
    also have "(10 :: nat) ^ 63 \<le> 10 ^ 4300" by (rule power_increasing) simp_all
    finally show ?thesis .
  qed
  have len: "length (nat_text n) \<le> 4300" using n by (rule length_nat_text) simp
  obtain c cs where c: "nat_text n = c # cs" using nat_text_nonempty by (cases "nat_text n") auto
  have digits: "list_all is_digit (nat_text n)" by (rule nat_text_digits)
  then have c': "is_digit c" by (simp add: c)
  then have sign: "c \<noteq> CHR ''-''" "c \<noteq> CHR ''+''" by (auto simp: is_digit_def)
  have lead: "c = CHR ''0'' \<Longrightarrow> n = 0" using nat_text_lead c by blast
  have isd: "isdigit ud (nat_text n)"
    using isdigit_ascii [OF digits_ascii [OF digits], of ud] digits c by simp
  have val: "int_of_digits ud (nat_text n) = Inr n"
    using int_of_digits_ascii [OF digits, of ud] len by (simp add: text_nat_nat_text)
  show ?thesis
  proof (cases "i < 0")
    case True
    then have "int_text i = CHR ''-'' # nat_text n" "n \<noteq> 0" "i = - int n" by (simp_all add: int_text_def n_def)
    moreover from this lead have "c \<noteq> CHR ''0''" by blast
    ultimately show ?thesis using isd val c assms by (auto simp: parse_i64_decimal_def Let_def startswith_def)
  next
    case False
    then have "int_text i = nat_text n" "i = int n" by (simp_all add: int_text_def n_def)
    moreover have "c = CHR ''0'' \<Longrightarrow> cs = []" using lead c by (auto simp: nat_text_zero)
    then have "\<not> (c = CHR ''0'' \<and> cs \<noteq> [])" by blast
    ultimately show ?thesis
      using isd val c sign assms by (simp add: parse_i64_decimal_def Let_def startswith_def)
  qed
qed

lemma parse_i64_decimal_range: "parse_i64_decimal ud v = Inr n \<Longrightarrow> I64_MIN \<le> n \<and> n \<le> I64_MAX"
  by (cases v) (auto simp: parse_i64_decimal_def Let_def bindE_eq_Inr)

lemma rational_parse_Inr:
  assumes "rational_parse ud v positive = Inr r"
  shows "rational_ok r positive \<and> parse_i64_decimal ud (obj_get v ''numerator'') = Inr (numerator r) \<and>
    obj_get v ''denominator'' = JInt (denominator r) \<and> set (map fst v) = {''denominator'', ''numerator''}"
proof -
  obtain n d where n: "parse_i64_decimal ud (obj_get v ''numerator'') = Inr n"
      and d: "parse_u32 (obj_get v ''denominator'') = Inr d" and r: "r = \<lparr>numerator = n, denominator = d\<rparr>"
      and keys: "set (map fst v) = {''denominator'', ''numerator''}"
      and ok: "d \<noteq> 0" "positive \<longrightarrow> 0 < n \<and> n \<le> 4294967295" "gcd \<bar>n\<bar> d = 1"
    using assms unfolding rational_parse_def bindE_eq_Inr ensure_eq_Inr by (elim exE conjE) force
  show ?thesis
    using parse_i64_decimal_range [OF n] d ok n keys unfolding rational_ok_def r parse_u32_Inr by simp
qed

lemma rational_parse_print:
  assumes "rational_ok r positive"
  shows "rational_parse ud (rational_to_json r) positive = Inr r"
proof -
  have "numerator r = 0 \<Longrightarrow> denominator r = 1" using assms by (auto simp: rational_ok_def)
  with assms parse_int_text show ?thesis
    by (auto simp: rational_parse_def rational_to_json_def obj_get_def rational_ok_def parse_u32_def)
qed

section \<open>The Merkle root\<close>

lemma lower_hex_digit:
  assumes "is_lower_hex c"
  obtains d where "hex_digit c = Some d" "d < 16" "hex_char d = c" "\<not> is_ascii_space c"
proof -
  consider "48 \<le> (of_char c :: nat)" "(of_char c :: nat) \<le> 57" | "97 \<le> (of_char c :: nat)" "(of_char c :: nat) \<le> 102"
    using assms by (auto simp: is_lower_hex_def is_digit_def)
  then show thesis
  proof cases
    case 1
    then show ?thesis by (intro that [of "of_char c - 48"]) (auto simp: hex_char_def is_ascii_space_def Let_def)
  next
    case 2
    then show ?thesis by (intro that [of "of_char c - 87"]) (auto simp: hex_char_def is_ascii_space_def Let_def)
  qed
qed

lemma fromhex_lower:
  "list_all is_lower_hex s \<Longrightarrow> even (length s) \<Longrightarrow>
     \<exists>b. fromhex s = Some b \<and> bytes_hex b = s \<and> length b = length s div 2"
proof (induction s rule: fromhex.induct)
  case (3 c d cs)
  obtain h where h: "hex_digit c = Some h" "h < 16" "hex_char h = c" "\<not> is_ascii_space c"
    using 3(3) by (auto elim: lower_hex_digit)
  obtain l where l: "hex_digit d = Some l" "l < 16" "hex_char l = d"
    using 3(3) by (auto elim: lower_hex_digit)
  obtain b where b: "fromhex cs = Some b" "bytes_hex b = cs" "length b = length cs div 2"
    using 3 h l by auto
  have "16 * h + l < 256" using h l by simp
  then show ?case using h l b by (auto simp: bytes_hex_def hex2_def of_char_of)
qed (auto simp: bytes_hex_def)

lemma leaf_node_canonical:
  assumes "startswith leaf ''sha256:''" and "fullmatch_hex 64 (drop 7 leaf)"
  shows "\<exists>node. leaf_node leaf = Inr node \<and> length node = 32 \<and> leaf = ''sha256:'' @ bytes_hex node"
proof -
  have l: "length (drop 7 leaf) = 64" and x: "list_all is_lower_hex (drop 7 leaf)"
    using assms(2) unfolding fullmatch_hex_def by blast+
  have "even (length (drop 7 leaf))" unfolding l by simp
  from fromhex_lower [OF x this, unfolded l] obtain b where
    "fromhex (drop 7 leaf) = Some b" "bytes_hex b = drop 7 leaf" "length b = 32" by auto
  moreover have "take 7 leaf = ''sha256:''"
    using assms(1) by (simp add: startswith_def numeral_eq_Suc)
  then have "leaf = ''sha256:'' @ drop 7 leaf" by (metis append_take_drop_id)
  moreover have "length leaf = 71" using l by simp
  ultimately show ?thesis using assms(1) by (auto simp: leaf_node_def)
qed

definition collision :: "(string \<Rightarrow> string) \<Rightarrow> bool" where
  "collision sha \<longleftrightarrow> (\<exists>x y. x \<noteq> y \<and> sha x = sha y)"

lemma merkle_pairs_binding:
  assumes "merkle_pairs sha xs = merkle_pairs sha ys" and "length xs = length ys" and "even (length xs)"
    and "\<forall>x\<in>set xs \<union> set ys. length x = 32"
  shows "xs = ys \<or> collision sha"
  using assms
proof (induction sha xs arbitrary: ys rule: merkle_pairs.induct)
  case (1 sha x y nodes)
  obtain x' y' nodes' where ys: "ys = x' # y' # nodes'"
    using 1(3) by (metis length_Suc_conv list.size(4) length_Cons)
  show ?case
  proof (cases "MERKLE_DOMAIN @ x @ y = MERKLE_DOMAIN @ x' @ y'")
    case True
    then have "x = x' \<and> y = y'" using 1(5) ys by simp
    moreover have "nodes = nodes' \<or> collision sha" using 1 ys by (intro 1(1)) auto
    ultimately show ?thesis using ys by auto
  next
    case False
    moreover have "sha (MERKLE_DOMAIN @ x @ y) = sha (MERKLE_DOMAIN @ x' @ y')" using 1(2) ys by simp
    ultimately show ?thesis unfolding collision_def by blast
  qed
qed auto

lemma merkle_pairs_hashes: "x \<in> set (merkle_pairs sha nodes) \<Longrightarrow> \<exists>y. x = sha y"
  by (induction sha nodes rule: merkle_pairs.induct) auto

lemma merkle_level_binding:
  assumes "merkle_level sha xs = merkle_level sha ys" and "length xs = length ys"
    and "\<forall>x\<in>set xs \<union> set ys. length x = 32"
  shows "xs = ys \<or> collision sha"
proof (cases "odd (length xs)")
  case True
  then have ne: "xs \<noteq> []" "ys \<noteq> []" using assms(2) by auto
  have "merkle_pairs sha (xs @ [last xs]) = merkle_pairs sha (ys @ [last ys])"
    using assms(1,2) True by (simp add: merkle_level_def)
  then have "xs @ [last xs] = ys @ [last ys] \<or> collision sha"
    by (rule merkle_pairs_binding) (use assms(2,3) True ne in auto)
  then show ?thesis by auto
next
  case False
  have "merkle_pairs sha xs = merkle_pairs sha ys" using assms(1,2) False by (simp add: merkle_level_def)
  then show ?thesis by (rule merkle_pairs_binding) (use assms(2,3) False in auto)
qed

lemma merkle_level_hashes: "x \<in> set (merkle_level sha nodes) \<Longrightarrow> \<exists>y. x = sha y"
  unfolding merkle_level_def by (rule merkle_pairs_hashes)

lemma merkle_loop_binding:
  "merkle_loop sha xs = merkle_loop sha ys \<Longrightarrow> length xs = length ys \<Longrightarrow>
    \<forall>x\<in>set xs \<union> set ys. length x = 32 \<Longrightarrow> \<forall>x. length (sha x) = 32 \<Longrightarrow> xs = ys \<or> collision sha"
proof (induction sha xs arbitrary: ys rule: merkle_loop.induct)
  case (1 sha xs)
  show ?case
  proof (cases "length xs > 1")
    case True
    have hashes: "\<forall>x\<in>set (merkle_level sha xs) \<union> set (merkle_level sha ys). length x = 32"
      using 1(5) merkle_level_hashes by fastforce
    have "merkle_level sha xs = merkle_level sha ys \<or> collision sha"
    proof (rule 1(1) [OF True])
      show "merkle_loop sha (merkle_level sha xs) = merkle_loop sha (merkle_level sha ys)"
        using 1(2,3) True by (simp add: merkle_loop.simps [of sha xs] merkle_loop.simps [of sha ys])
    qed (use 1(3,5) hashes in \<open>simp_all add: length_merkle_level\<close>)
    with merkle_level_binding [OF _ 1(3,4)] show ?thesis by blast
  next
    case False
    with 1(2,3) show ?thesis by (simp add: merkle_loop.simps [of sha xs] merkle_loop.simps [of sha ys])
  qed
qed

lemma merkle_loop_single: "xs \<noteq> [] \<Longrightarrow> length (merkle_loop sha xs) = 1"
proof (induction sha xs rule: merkle_loop.induct)
  case (1 sha xs)
  show ?case
  proof (cases "length xs > 1")
    case True
    then have "merkle_level sha xs \<noteq> []" using length_merkle_level [of sha xs] by auto
    with 1(1) True show ?thesis by (simp add: merkle_loop.simps [of sha xs])
  next
    case False
    with 1(2) show ?thesis by (cases xs) (auto simp: merkle_loop.simps [of sha "[_]"])
  qed
qed

text \<open>The nodes of a table of canonical content identities.\<close>

definition leaf_nodes :: "string list \<Rightarrow> string list \<Rightarrow> bool" where
  "leaf_nodes leaves nodes \<longleftrightarrow> leaves = map (\<lambda>node. ''sha256:'' @ bytes_hex node) nodes \<and> (\<forall>node\<in>set nodes. length node = 32)"

lemma leaf_nodes_mapE:
  assumes "mapE leaf_node leaves = Inr nodes"
    and "\<forall>leaf\<in>set leaves. startswith leaf ''sha256:'' \<and> fullmatch_hex 64 (drop 7 leaf)"
  shows "leaf_nodes leaves nodes"
  using assms
proof (induction leaves arbitrary: nodes)
  case (Cons leaf leaves)
  then show ?case
    using leaf_node_canonical [of leaf] by (fastforce simp: bindE_eq_Inr leaf_nodes_def)
qed (simp add: leaf_nodes_def)

lemma merkle_rootE:
  assumes "merkle_root sha leaves = Inr root"
    and "\<forall>leaf\<in>set leaves. startswith leaf ''sha256:'' \<and> fullmatch_hex 64 (drop 7 leaf)"
  obtains nodes where "leaf_nodes leaves nodes" "root = ''sha256:'' @ bytes_hex (hd (merkle_loop sha nodes))" "nodes \<noteq> []"
proof -
  obtain nodes where n: "mapE leaf_node leaves = Inr nodes" "leaves \<noteq> []"
      "root = ''sha256:'' @ bytes_hex (hd (merkle_loop sha nodes))"
    using assms(1) by (auto simp: merkle_root_def bindE_eq_Inr)
  have "leaf_nodes leaves nodes" using n(1) assms(2) by (rule leaf_nodes_mapE)
  moreover from this n(2) have "nodes \<noteq> []" by (auto simp: leaf_nodes_def)
  ultimately show thesis using n(3) that by blast
qed

end
