(* ===== verification/Wire_Theorems.thy ===== *)
theory Wire_Theorems
  imports Fixed_Point_Props
begin

text \<open>
  The theorems about the wire format of the worker's reference encoder
  (\<open>deltatorrent/reference/fixedpoint_encoder.py\<close>), each applied to a concrete input.
\<close>

text \<open>
  C38: Quantisation is rounding to the nearest multiple of the quantum with ties to even, and it is exact: for a
  source with a positive denominator and a positive quantum, \<open>quantize\<close> returns \<open>q\<close> if and only if
  neither product of the fractions exceeds a signed 64-bit integer, \<open>q\<close> is within -32767 and 32767, and \<open>q\<close> is the
  integer nearest to the quotient, even when there are two. In every other case it raises.
\<close>

theorem quantize_rounds_to_even:
  assumes "0 < denominator source" and "0 < numerator quantum"
  shows "quantize source quantum = Inr q \<longleftrightarrow>
    \<bar>numerator source\<bar> * denominator quantum \<le> I64_MAX \<and> denominator source * numerator quantum \<le> I64_MAX \<and>
    2 * \<bar>numerator source * denominator quantum - q * (denominator source * numerator quantum)\<bar>
      \<le> denominator source * numerator quantum \<and>
    (2 * \<bar>numerator source * denominator quantum - q * (denominator source * numerator quantum)\<bar>
      = denominator source * numerator quantum \<longrightarrow> even q) \<and>
    Q_MIN \<le> q \<and> q \<le> Q_MAX"
  using quantize_iff [OF assms] unfolding nearest_even_def by blast

theorem quantize_rounds_to_even_witness:
  "quantize \<lparr>numerator = -5, denominator = 2\<rparr> \<lparr>numerator = 1, denominator = 1\<rparr> = Inr (-2)"
proof -
  let ?s = "\<lparr>numerator = -5, denominator = 2\<rparr>" and ?q = "\<lparr>numerator = 1, denominator = 1\<rparr>"
  have "0 < denominator ?s" "0 < numerator ?q" by simp_all
  note q = quantize_rounds_to_even [OF this, of "-2"]
  show ?thesis unfolding q by (simp add: I64_MAX_def Q_MIN_def Q_MAX_def)
qed

text \<open>
  C36: A payload can be read back: the bytes of \<open>encode_payload\<close> are two per value, and reading them as signed
  little-endian 16-bit words gives the values. So two lists with the same payload are equal.
\<close>

theorem payload_round_trip:
  assumes "encode_payload vs = Inr bytes"
  shows "map JInt (unpack_all 2 unpack_h bytes) = vs \<and> length bytes = 2 * length vs \<and>
    length bytes \<le> MAX_PAYLOAD_BYTES"
proof -
  obtain qs where q: "vs = map JInt qs" "list_all (\<lambda>q. Q_MIN \<le> q \<and> q \<le> Q_MAX) qs" "bytes = concat (map pack_h qs)"
      "length bytes \<le> MAX_PAYLOAD_BYTES"
    using assms encode_payload_Inr by blast
  with int16.fields_read [OF q(2)] int16.fields_length [of qs] show ?thesis by simp
qed

theorem payload_round_trip_witness:
  "\<exists>bytes. encode_payload [JInt (-1), JInt 258] = Inr bytes \<and> unpack_all 2 unpack_h bytes = [-1, 258]"
proof -
  have "encode_payload [JInt (-1), JInt 258] = Inr (pack_h (-1) @ pack_h 258)"
    by (simp add: encode_payload_def Q_MIN_def Q_MAX_def MAX_PAYLOAD_BYTES_def pack_h_def Let_def)
  with payload_round_trip [OF this] show ?thesis by auto
qed

text \<open>
  An envelope can be read back: its sixteen bytes of prefix determine where header and payload end, so an
  envelope determines the canonical bytes of its header and its payload.
\<close>

theorem envelope_round_trip:
  assumes "encode_envelope header payload = Inr bytes"
  shows "decode_envelope bytes = Some (dumps_sorted (JObj header), payload)"
  using assms by (rule decode_encode_envelope)

theorem envelope_round_trip_witness:
  "\<exists>bytes. encode_envelope [] ''ab'' = Inr bytes \<and> decode_envelope bytes = Some (''{}'', ''ab'')"
proof -
  have empty: "dumps_sorted (JObj []) = ''{}''" by (simp add: dumps_sorted_def)
  have "\<exists>bytes. encode_envelope [] ''ab'' = Inr bytes"
    by (simp add: encode_envelope_def fx_canonical_json_bytes_def empty MAX_HEADER_BYTES_def MAX_PAYLOAD_BYTES_def)
  then obtain bytes where b: "encode_envelope [] ''ab'' = Inr bytes" by blast
  with envelope_round_trip [OF b] empty show ?thesis by simp
qed

text \<open>
  C38: Rationals have one accepted form: parsing what \<open>to_json\<close> prints gives the fraction back, and any accepted
  document whose numerator is ASCII text is exactly what \<open>to_json\<close> prints for the result: a reduced fraction of a
  signed 64-bit and a positive unsigned 32-bit integer, with no sign or digit that could be left out.
\<close>

theorem rational_canonical_form:
  assumes "rational_parse ud v positive = Inr r"
  shows "rational_ok r positive \<and> rational_parse ud (rational_to_json r) positive = Inr r \<and>
    ((\<exists>s. obj_get v ''numerator'' = JStr s \<and> list_all (\<lambda>c. (of_char c :: nat) < 128) s) \<longrightarrow>
      (\<forall>k. obj_get v k = obj_get (rational_to_json r) k))"
proof -
  have ok: "rational_ok r positive" and p: "parse_i64_decimal ud (obj_get v ''numerator'') = Inr (numerator r)"
      and d: "obj_get v ''denominator'' = JInt (denominator r)"
      and keys: "set (map fst v) = {''denominator'', ''numerator''}"
    using rational_parse_Inr [OF assms] by blast+
  have "obj_get v k = obj_get (rational_to_json r) k"
    if ascii: "\<exists>s. obj_get v ''numerator'' = JStr s \<and> list_all (\<lambda>c. (of_char c :: nat) < 128) s" for k
  proof -
    have n: "obj_get v ''numerator'' = JStr (int_text (numerator r))"
      using parse_i64_decimal_ascii [OF p] ascii by (metis json.inject(4))
    consider "k = ''numerator''" | "k = ''denominator''" | "k \<noteq> ''numerator''" "k \<noteq> ''denominator''" by blast
    then show ?thesis
    proof cases
      case 3
      with keys have "k \<notin> set (map fst v)" by blast
      then have "map_of v k = None" by (simp add: map_of_eq_None_iff)
      with 3 show ?thesis by (simp add: obj_get_def rational_to_json_def)
    qed (simp_all add: n d, simp_all add: obj_get_def rational_to_json_def)
  qed
  with ok rational_parse_print show ?thesis by blast
qed

theorem rational_canonical_form_witness:
  "rational_parse (\<lambda>p. None) (rational_to_json \<lparr>numerator = -3, denominator = 4\<rparr>) False
     = Inr \<lparr>numerator = -3, denominator = 4\<rparr>"
proof -
  have "rational_parse (\<lambda>p. None) [(''numerator'', JStr ''-3''), (''denominator'', JInt 4)] False
      = Inr \<lparr>numerator = -3, denominator = 4\<rparr>"
  proof -
    have "int_text (-3) = ''-3''" by code_simp
    then have "parse_i64_decimal (\<lambda>p. None) (JStr ''-3'') = Inr (-3)"
      using parse_int_text [of "-3" "\<lambda>p. None"] by (simp add: I64_MIN_def I64_MAX_def)
    moreover have "gcd 3 (4 :: int) = 1" by code_simp
    ultimately show ?thesis
      by (simp add: rational_parse_def obj_get_def parse_u32_def insert_commute)
  qed
  from rational_canonical_form [OF this] show ?thesis by blast
qed


definition pad_hash :: "string \<Rightarrow> string" where
  "pad_hash s = take 32 (s @ replicate 32 (CHR 0x00))"

definition leaf_of :: "char \<Rightarrow> string" where
  "leaf_of c = ''sha256:'' @ replicate 64 c"

definition table_a :: "string list" where
  "table_a = [leaf_of (CHR ''0''), leaf_of (CHR ''0'')]"

definition table_b :: "string list" where
  "table_b = [leaf_of (CHR ''0''), leaf_of (CHR ''1'')]"

lemma tables_same_root: "\<exists>root. merkle_root pad_hash table_a = Inr root \<and> merkle_root pad_hash table_b = Inr root"
proof -
  have "merkle_root pad_hash table_a = merkle_root pad_hash table_b" "\<not> isl (merkle_root pad_hash table_a)" by code_simp+
  then show ?thesis by (metis sum.collapse(2))
qed


text \<open>
  The hypothesis that the leaves are canonical is needed: \<open>bytes.fromhex\<close> skips white space and reads
  upper case, so \<open>merkle_root\<close> accepts content identities that the pattern \<open>sha256:[0-9a-f]{64}\<close> of the manifests
  refuses.
\<close>

lemma leaf_node_accepts_blanks:
  "leaf_node (''sha256:'' @ replicate 62 (CHR ''0'') @ ''  '') = Inr (replicate 31 (CHR 0x00))"
  "\<not> fullmatch_hex 64 (replicate 62 (CHR ''0'') @ ''  '')"
  by code_simp+

end
