(* ===== verification/Local_Domain.thy ===== *)
theory Local_Domain
  imports Codec
begin

text \<open>
  The values an offline round of the worker exchanges: \<open>domain/errors.py\<close>, the artifact references of
  \<open>domain/manifests.py\<close>, \<open>domain/tickets.py\<close>, \<open>domain/planes.py\<close>, \<open>domain/worker_state.py\<close> and
  \<open>protocol/canonical.py\<close>. A dataclass is a record; its constructor with \<open>__post_init__\<close> takes the keyword
  arguments as a dictionary of JSON values, because a document read from disk reaches it unchecked.
  \<open>sha\<close> is the hexadecimal digest of \<open>hashlib.sha256\<close>.
\<close>

section \<open>Errors\<close>

datatype error_code =
    ARTIFACT_HASH_MISMATCH | ARTIFACT_IMMUTABLE_CONFLICT | ARTIFACT_NOT_FOUND | FORMAL_SEMANTICS_MISMATCH
  | INVALID_CONTENT_ID | INVALID_MANIFEST | INVALID_CONTRIBUTION_CANDIDATE | INVALID_DELTA_TENSOR
  | INVALID_LOCAL_COMPLETION | INVALID_NETWORK_PROFILE | INVALID_PARAMETER_SCHEMA | INVALID_SCHEMA_ID
  | INVALID_ARTIFACT_LOCATOR | INVALID_TOKEN_ACCOUNTING | INVALID_WORK_TICKET | INVALID_WORKER_TRANSITION
  | SCHEMA_INVALID | NETEM_PLATFORM_UNSUPPORTED | NETEM_PRIVILEGE_REQUIRED | NETEM_TC_UNAVAILABLE
  | UNKNOWN_MEDIA_TYPE | UNSAFE_SERIALIZATION | TICKET_ALREADY_IN_PROGRESS | TICKET_ID_CONFLICT
  | WORKER_CANCELLED | WORKER_CRASH | WORKER_DATA_EXHAUSTED | WORKER_DEADLINE_EXCEEDED | WORKER_OOM

text \<open>
  What a round may raise: a \<open>DeltaError\<close> with code and message, the four exceptions of the engine, torch's
  out-of-memory error, the exceptions of Python the code catches or lets pass, and \<open>ProcessExit\<close> for what
  \<open>except Exception\<close> does not catch (an interrupt, an exit, the end of the process).
\<close>

datatype local_exn =
    DeltaError error_code string
  | WorkerCancellationRequested
  | WorkerDataExhausted
  | WorkerDeadlineExceeded
  | WorkerInjectedCrash
  | OutOfMemoryError
  | LocalTypeError
  | LocalValueError
  | LocalOSError
  | OtherException string
  | ProcessExit

type_synonym 'a lresult = "local_exn + 'a"

text \<open>\<open>except TypeError as exc: raise e from exc\<close>, and the same for \<open>(TypeError, ValueError)\<close>.\<close>

fun on_type_error :: "local_exn \<Rightarrow> 'a lresult \<Rightarrow> 'a lresult" where
  "on_type_error e (Inl x) = Inl (if x = LocalTypeError then e else x)"
| "on_type_error e (Inr r) = Inr r"

fun on_type_or_value_error :: "local_exn \<Rightarrow> 'a lresult \<Rightarrow> 'a lresult" where
  "on_type_or_value_error e (Inl x) = Inl (if x = LocalTypeError \<or> x = LocalValueError then e else x)"
| "on_type_or_value_error e (Inr r) = Inr r"

lemma on_type_error_eq_Inr [simp, exn_simps]: "on_type_error e m = Inr r \<longleftrightarrow> m = Inr r"
  by (cases m) simp_all

lemma on_type_or_value_error_eq_Inr [simp, exn_simps]: "on_type_or_value_error e m = Inr r \<longleftrightarrow> m = Inr r"
  by (cases m) simp_all

section \<open>Canonical text\<close>

text \<open>\<open>canonical_json_bytes\<close>: \<open>_normalize\<close> refuses floats; JSON documents have no other unsafe values.\<close>

definition canonical_json_bytes :: "json \<Rightarrow> string lresult" where
  "canonical_json_bytes v = (if float_free v then Inr (dumps_sorted v) else Inl LocalTypeError)"

definition sha256_content_id :: "(string \<Rightarrow> string) \<Rightarrow> string \<Rightarrow> string" where
  "sha256_content_id sha bytes = ''sha256:'' @ sha bytes"

definition document_fingerprint :: "(string \<Rightarrow> string) \<Rightarrow> json \<Rightarrow> string lresult" where
  "document_fingerprint sha v = bindE (canonical_json_bytes v) (\<lambda>bytes. Inr (sha256_content_id sha bytes))"

definition LOCAL_SEMANTICS_ID :: string where
  "LOCAL_SEMANTICS_ID = ''sha256:cc98f15ac20fc3ed265cb76682ca15a936e24660a651e2b8f81638abb3265cb6''"

section \<open>Patterns\<close>

definition ascii_upper :: "char \<Rightarrow> bool" where
  "ascii_upper c \<longleftrightarrow> 65 \<le> (of_char c :: nat) \<and> (of_char c :: nat) \<le> 90"

definition ascii_alnum :: "char \<Rightarrow> bool" where
  "ascii_alnum c \<longleftrightarrow> is_digit c \<or> ascii_upper c \<or> (97 \<le> (of_char c :: nat) \<and> (of_char c :: nat) \<le> 122)"

definition IDENTIFIER :: "string \<Rightarrow> bool" where
  "IDENTIFIER s \<longleftrightarrow> s \<noteq> [] \<and> ascii_alnum (hd s) \<and>
     list_all (\<lambda>c. ascii_alnum c \<or> c \<in> set ''._-'') (tl s) \<and> length (tl s) \<le> 127"

definition CONTENT_ID :: "string \<Rightarrow> bool" where
  "CONTENT_ID s \<longleftrightarrow> startswith s ''sha256:'' \<and> fullmatch_hex 64 (drop 7 s)"

text \<open>\<open>SCHEMA-[A-Z0-9-]+-V[0-9]+\<close>, read from the end: digits, then \<open>-V\<close>, then the name.\<close>

definition SCHEMA_ID :: "string \<Rightarrow> bool" where
  "SCHEMA_ID s \<longleftrightarrow> startswith s ''SCHEMA-'' \<and>
     (let r = rev (drop 7 s) in
      takeWhile is_digit r \<noteq> [] \<and>
      (case dropWhile is_digit r of
         v # d # name \<Rightarrow> v = CHR ''V'' \<and> d = CHR ''-'' \<and> name \<noteq> [] \<and>
           list_all (\<lambda>c. ascii_upper c \<or> is_digit c \<or> c = CHR ''-'') name
       | _ \<Rightarrow> False))"

section \<open>Artifact references\<close>

text \<open>
  \<open>PurePosixPath\<close> drops empty components and single dots, and prints \<open>.\<close> when nothing is left. So a relative
  text prints as itself if it is \<open>.\<close> or has no such component.
\<close>

definition posix_path_text :: "string \<Rightarrow> string" where
  "posix_path_text value = (case key_parts value of [] \<Rightarrow> ''.'' | ps \<Rightarrow> join ''/'' ps)"

definition locator_refused :: "string \<Rightarrow> bool" where
  "locator_refused value \<longleftrightarrow>
     value = [] \<or> CHR 0x5C \<in> set value \<or> startswith value ''/'' \<or> ''..'' \<in> set (key_parts value) \<or>
     ''.'' \<in> set (key_parts value) \<or> posix_path_text value \<noteq> value"

definition require_locator :: "json \<Rightarrow> string lresult" where
  "require_locator v =
     (case v of
        JStr value \<Rightarrow> if locator_refused value then Inl (DeltaError INVALID_ARTIFACT_LOCATOR ''LOCATOR'') else Inr value
      | _ \<Rightarrow> Inl LocalTypeError)"

definition require_content_id :: "json \<Rightarrow> string lresult" where
  "require_content_id v =
     (case v of JStr s \<Rightarrow> if CONTENT_ID s then Inr s else Inl (DeltaError INVALID_CONTENT_ID ''invalid'')
      | _ \<Rightarrow> Inl LocalTypeError)"

fun py_len :: "json \<Rightarrow> nat option" where
  "py_len (JStr s) = Some (length (utf8_points (map of_char s)))"
| "py_len (JArr xs) = Some (length xs)"
| "py_len (JObj kvs) = Some (length kvs)"
| "py_len _ = None"

definition non_negative_int :: "json \<Rightarrow> int option" where
  "non_negative_int v = (case v of JInt i \<Rightarrow> if i < 0 then None else Some i | _ \<Rightarrow> None)"

definition positive_int :: "json \<Rightarrow> int option" where
  "positive_int v = (case v of JInt i \<Rightarrow> if i \<le> 0 then None else Some i | _ \<Rightarrow> None)"

definition raise_none :: "local_exn \<Rightarrow> 'a option \<Rightarrow> 'a lresult" where
  "raise_none e x = (case x of None \<Rightarrow> Inl e | Some y \<Rightarrow> Inr y)"

lemma raise_none_eq_Inr [simp, exn_simps]: "raise_none e x = Inr y \<longleftrightarrow> x = Some y"
  by (cases x) (simp_all add: raise_none_def)

lemma raise_none_Some [simp]: "raise_none e (Some y) = Inr y"
  by (simp add: raise_none_def)

lemma int_checks_Some [simp]:
  "non_negative_int v = Some i \<longleftrightarrow> v = JInt i \<and> 0 \<le> i"
  "positive_int v = Some i \<longleftrightarrow> v = JInt i \<and> 0 < i"
  by (auto simp: non_negative_int_def positive_int_def split: json.splits)

record artifact_ref =
  ar_content_id :: string
  ar_media_type :: json
  ar_schema_id :: string
  ar_schema_version :: string
  ar_byte_length :: int
  ar_locator :: string

definition require_media_type :: "json \<Rightarrow> unit lresult" where
  "require_media_type m =
     (if \<not> truthy m then Inl (DeltaError INVALID_MANIFEST ''invalid media_type'')
      else (case py_len m of
              None \<Rightarrow> Inl LocalTypeError
            | Some n \<Rightarrow> ensure (\<not> n > 255) (DeltaError INVALID_MANIFEST ''invalid media_type'')))"

definition require_schema_id :: "json \<Rightarrow> string lresult" where
  "require_schema_id v =
     (case v of JStr s \<Rightarrow> if SCHEMA_ID s then Inr s else Inl (DeltaError INVALID_SCHEMA_ID ''invalid schema_id'')
      | _ \<Rightarrow> Inl LocalTypeError)"

definition init_artifact_ref :: "(string \<times> json) list \<Rightarrow> artifact_ref lresult" where
  "init_artifact_ref kw =
     bindE (require_content_id (obj_get kw ''content_id'')) (\<lambda>content_id.
     bindE (require_media_type (obj_get kw ''media_type'')) (\<lambda>_.
     bindE (require_schema_id (obj_get kw ''schema_id'')) (\<lambda>schema_id.
     bindE (ensure (obj_get kw ''schema_version'' = JStr ''1.0.0'')
              (DeltaError INVALID_MANIFEST ''unsupported schema_version'')) (\<lambda>_.
     bindE (raise_none (DeltaError INVALID_MANIFEST ''byte_length must be non-negative'')
              (non_negative_int (obj_get kw ''byte_length''))) (\<lambda>byte_length.
     bindE (require_locator (obj_get kw ''locator'')) (\<lambda>locator.
     Inr \<lparr>ar_content_id = content_id, ar_media_type = obj_get kw ''media_type'', ar_schema_id = schema_id,
          ar_schema_version = ''1.0.0'', ar_byte_length = byte_length, ar_locator = locator\<rparr>))))))"

definition artifact_ref_to_dict :: "artifact_ref \<Rightarrow> (string \<times> json) list" where
  "artifact_ref_to_dict r =
     [(''byte_length'', JInt (ar_byte_length r)), (''content_id'', JStr (ar_content_id r)),
      (''locator'', JStr (ar_locator r)), (''media_type'', ar_media_type r), (''schema_id'', JStr (ar_schema_id r)),
      (''schema_version'', JStr (ar_schema_version r))]"

definition artifact_ref_from_dict :: "(string \<times> json) list \<Rightarrow> artifact_ref lresult" where
  "artifact_ref_from_dict value =
     bindE (ensure (set (map fst value)
              = {''byte_length'', ''content_id'', ''locator'', ''media_type'', ''schema_id'', ''schema_version''})
            (DeltaError INVALID_MANIFEST ''ArtifactRef fields do not match the schema'')) (\<lambda>_.
     on_type_error (DeltaError INVALID_MANIFEST ''ArtifactRef field type is invalid'') (init_artifact_ref value))"

section \<open>Planes\<close>

definition WORKER_LOCAL_MEDIA_TYPES :: "string list" where
  "WORKER_LOCAL_MEDIA_TYPES =
     [''application/vnd.deltareduce.local-round-completion+json;version=1'',
      ''application/vnd.deltareduce.normalized-contribution-candidate+json;version=1'']"

text \<open>A list or a dictionary cannot be looked up in a \<open>frozenset\<close>.\<close>

definition require_distribution_eligible :: "artifact_ref \<Rightarrow> artifact_ref lresult" where
  "require_distribution_eligible r =
     (case ar_media_type r of
        JStr m \<Rightarrow> if m \<in> set WORKER_LOCAL_MEDIA_TYPES
          then Inl (DeltaError SCHEMA_INVALID ''WORKER_LOCAL_ARTIFACT_FORBIDDEN_IN_DISTRIBUTION_PLANE'') else Inr r
      | JArr _ \<Rightarrow> Inl LocalTypeError
      | JObj _ \<Rightarrow> Inl LocalTypeError
      | _ \<Rightarrow> Inr r)"

section \<open>Work tickets\<close>

record data_range =
  dr_start :: int
  dr_end :: int

definition ticket_error :: "string \<Rightarrow> local_exn" where
  "ticket_error message = DeltaError INVALID_WORK_TICKET message"

definition init_data_range :: "json \<Rightarrow> json \<Rightarrow> data_range lresult" where
  "init_data_range start stop =
     (case (start, stop) of
        (JInt s, JInt e) \<Rightarrow> if s < 0 \<or> e \<le> s then Inl (ticket_error ''WORK_TICKET_DATA_RANGE_INVALID'')
                           else Inr \<lparr>dr_start = s, dr_end = e\<rparr>
      | _ \<Rightarrow> Inl (ticket_error ''WORK_TICKET_DATA_RANGE_INVALID''))"

definition data_range_to_dict :: "data_range \<Rightarrow> (string \<times> json) list" where
  "data_range_to_dict r = [(''end'', JInt (dr_end r)), (''start'', JInt (dr_start r))]"

record work_ticket =
  wt_ticket_id :: string
  wt_domain_id :: string
  wt_data :: artifact_ref
  wt_data_range :: data_range
  wt_batch_budget :: int
  wt_step_budget :: int
  wt_parent_model :: artifact_ref
  wt_parameter_schema_id :: string
  wt_optimizer_profile_id :: string
  wt_arithmetic_profile_id :: string
  wt_deterministic_seed :: int
  wt_logical_deadline_ms :: int

definition ticket_positive :: "json \<Rightarrow> int lresult" where
  "ticket_positive v = raise_none (ticket_error ''WORK_TICKET_POSITIVE_INTEGER_REQUIRED'') (positive_int v)"

definition matching :: "(string \<Rightarrow> bool) \<Rightarrow> json \<Rightarrow> string option" where
  "matching pattern v = (case v of JStr s \<Rightarrow> if pattern s then Some s else None | _ \<Rightarrow> None)"

lemma matching_Some [simp]: "matching pattern v = Some s \<longleftrightarrow> v = JStr s \<and> pattern s"
  by (auto simp: matching_def split: json.splits)

definition ticket_identifier :: "json \<Rightarrow> string lresult" where
  "ticket_identifier v = raise_none (ticket_error ''WORK_TICKET_IDENTIFIER_INVALID'') (matching IDENTIFIER v)"

definition ticket_content_id :: "json \<Rightarrow> string lresult" where
  "ticket_content_id v = raise_none (ticket_error ''WORK_TICKET_CONTENT_ID_INVALID'') (matching CONTENT_ID v)"

text \<open>
  \<open>DomainPureWorkTicket.__post_init__\<close>. The version and the semantics have one accepted value each, so the
  record does not carry them.
\<close>

definition init_ticket ::
  "(string \<times> json) list \<Rightarrow> artifact_ref \<Rightarrow> data_range \<Rightarrow> artifact_ref \<Rightarrow> work_ticket lresult" where
  "init_ticket kw data span parent =
     bindE (ticket_identifier (obj_get kw ''ticket_id'')) (\<lambda>ticket_id.
     bindE (ticket_identifier (obj_get kw ''domain_id'')) (\<lambda>domain_id.
     bindE (ticket_positive (obj_get kw ''batch_budget'')) (\<lambda>batch_budget.
     bindE (ticket_positive (obj_get kw ''step_budget'')) (\<lambda>step_budget.
     bindE (ticket_content_id (obj_get kw ''parameter_schema_id'')) (\<lambda>schema.
     bindE (ticket_content_id (obj_get kw ''optimizer_profile_id'')) (\<lambda>optimizer.
     bindE (ticket_content_id (obj_get kw ''arithmetic_profile_id'')) (\<lambda>arithmetic.
     bindE (raise_none (ticket_error ''WORK_TICKET_SEED_INVALID'') (non_negative_int (obj_get kw ''deterministic_seed'')))
       (\<lambda>seed.
     bindE (ticket_positive (obj_get kw ''logical_deadline_ms'')) (\<lambda>deadline.
     bindE (ensure (obj_get kw ''formal_semantics_id'' = JStr LOCAL_SEMANTICS_ID)
              (DeltaError FORMAL_SEMANTICS_MISMATCH ''work-ticket semantics mismatch'')) (\<lambda>_.
     bindE (ensure (obj_get kw ''schema_version'' = JStr ''1.0.0'') (ticket_error ''WORK_TICKET_VERSION_UNSUPPORTED''))
       (\<lambda>_.
     Inr \<lparr>wt_ticket_id = ticket_id, wt_domain_id = domain_id, wt_data = data, wt_data_range = span,
          wt_batch_budget = batch_budget, wt_step_budget = step_budget, wt_parent_model = parent,
          wt_parameter_schema_id = schema, wt_optimizer_profile_id = optimizer, wt_arithmetic_profile_id = arithmetic,
          wt_deterministic_seed = seed, wt_logical_deadline_ms = deadline\<rparr>)))))))))))"

definition ticket_to_dict :: "work_ticket \<Rightarrow> (string \<times> json) list" where
  "ticket_to_dict t =
     [(''arithmetic_profile_id'', JStr (wt_arithmetic_profile_id t)), (''batch_budget'', JInt (wt_batch_budget t)),
      (''data'', JObj (artifact_ref_to_dict (wt_data t))), (''data_range'', JObj (data_range_to_dict (wt_data_range t))),
      (''deterministic_seed'', JInt (wt_deterministic_seed t)), (''domain_id'', JStr (wt_domain_id t)),
      (''formal_semantics_id'', JStr LOCAL_SEMANTICS_ID), (''logical_deadline_ms'', JInt (wt_logical_deadline_ms t)),
      (''optimizer_profile_id'', JStr (wt_optimizer_profile_id t)),
      (''parameter_schema_id'', JStr (wt_parameter_schema_id t)),
      (''parent_model'', JObj (artifact_ref_to_dict (wt_parent_model t))), (''schema_version'', JStr ''1.0.0''),
      (''step_budget'', JInt (wt_step_budget t)), (''ticket_id'', JStr (wt_ticket_id t))]"

definition ticket_fingerprint :: "(string \<Rightarrow> string) \<Rightarrow> work_ticket \<Rightarrow> string lresult" where
  "ticket_fingerprint sha t = document_fingerprint sha (JObj (ticket_to_dict t))"

definition TICKET_FIELDS :: "string list" where
  "TICKET_FIELDS =
     [''ticket_id'', ''domain_id'', ''data'', ''data_range'', ''batch_budget'', ''step_budget'', ''parent_model'',
      ''parameter_schema_id'', ''optimizer_profile_id'', ''arithmetic_profile_id'', ''deterministic_seed'',
      ''logical_deadline_ms'', ''formal_semantics_id'', ''schema_version'']"

definition ticket_from_dict :: "(string \<times> json) list \<Rightarrow> work_ticket lresult" where
  "ticket_from_dict value =
     bindE (ensure (set (map fst value) = set TICKET_FIELDS) (ticket_error ''WORK_TICKET_FIELDS_INVALID'')) (\<lambda>_.
     (case (obj_opt (obj_get value ''data''), obj_opt (obj_get value ''parent_model'')) of
        (Some data, Some parent) \<Rightarrow>
          (case obj_opt (obj_get value ''data_range'') of
             None \<Rightarrow> Inl (ticket_error ''WORK_TICKET_DATA_RANGE_INVALID'')
           | Some bounds \<Rightarrow>
               bindE (ensure (set (map fst bounds) = {''end'', ''start''}) (ticket_error ''WORK_TICKET_DATA_RANGE_INVALID''))
                 (\<lambda>_.
               on_type_error (ticket_error ''WORK_TICKET_TYPES_INVALID'')
                 (bindE (artifact_ref_from_dict data) (\<lambda>data_ref.
                  bindE (init_data_range (obj_get bounds ''start'') (obj_get bounds ''end'')) (\<lambda>data_range.
                  bindE (artifact_ref_from_dict parent) (\<lambda>parent_ref.
                  init_ticket value data_ref data_range parent_ref))))))
      | _ \<Rightarrow> Inl (ticket_error ''WORK_TICKET_ARTIFACT_REF_INVALID'')))"

section \<open>Lifecycle of a round\<close>

datatype local_round_state = ACCEPTED | CANCELLED | COMPLETED | FAILED | RECEIVED | RUNNING

fun TRANSITIONS :: "local_round_state \<Rightarrow> local_round_state list" where
  "TRANSITIONS RECEIVED = [ACCEPTED, FAILED]"
| "TRANSITIONS ACCEPTED = [RUNNING, CANCELLED, FAILED]"
| "TRANSITIONS RUNNING = [COMPLETED, CANCELLED, FAILED]"
| "TRANSITIONS COMPLETED = []"
| "TRANSITIONS CANCELLED = []"
| "TRANSITIONS FAILED = []"

definition transition :: "local_round_state \<Rightarrow> local_round_state \<Rightarrow> local_round_state lresult" where
  "transition current target =
     (if target \<in> set (TRANSITIONS current) then Inr target
      else Inl (DeltaError INVALID_WORKER_TRANSITION ''WORKER_TRANSITION_INVALID''))"

end
