(* ===== verification/Local_Updates.thy ===== *)
theory Local_Updates
  imports Local_Domain
begin

text \<open>
  The documents a round produces: the parameter schema of \<open>domain/parameters.py\<close> with
  \<open>included_tensor_names\<close> of \<open>delta/schema.py\<close>, and the local delta, the completion and the normalised
  candidate of \<open>domain/updates.py\<close>.
\<close>

section \<open>Parameter schemas\<close>

definition PARAMETER_NAME :: "string \<Rightarrow> bool" where
  "PARAMETER_NAME s \<longleftrightarrow> s \<noteq> [] \<and> (ascii_alnum (hd s) \<or> hd s = CHR ''_'') \<and>
     list_all (\<lambda>c. ascii_alnum c \<or> c \<in> set ''_.-'') (tl s) \<and> length (tl s) \<le> 255"

definition schema_error :: "string \<Rightarrow> local_exn" where
  "schema_error message = DeltaError INVALID_PARAMETER_SCHEMA message"

datatype logical_dtype = BFLOAT16 | FLOAT16 | FLOAT32 | FLOAT64

fun dtype_value :: "logical_dtype \<Rightarrow> string" where
  "dtype_value BFLOAT16 = ''bfloat16''"
| "dtype_value FLOAT16 = ''float16''"
| "dtype_value FLOAT32 = ''float32''"
| "dtype_value FLOAT64 = ''float64''"

datatype frozen_omission_policy = INCLUDE_ALL | OMIT_FROZEN

fun policy_value :: "frozen_omission_policy \<Rightarrow> string" where
  "policy_value INCLUDE_ALL = ''INCLUDE_ALL''"
| "policy_value OMIT_FROZEN = ''OMIT_FROZEN''"

text \<open>\<open>Enum(value)\<close>: the member with this value, or \<open>ValueError\<close>.\<close>

definition enum_of :: "('a \<Rightarrow> string) \<Rightarrow> 'a list \<Rightarrow> json \<Rightarrow> 'a lresult" where
  "enum_of to_text members v = raise_none LocalValueError (find (\<lambda>x. JStr (to_text x) = v) members)"

record parameter_spec =
  ps_name :: string
  ps_shape :: "int list"
  ps_logical_dtype :: logical_dtype
  ps_trainable :: bool

fun shape_items :: "json list \<Rightarrow> int list option" where
  "shape_items [] = Some []"
| "shape_items (v # vs) =
     (case (positive_int v, shape_items vs) of (Some i, Some is) \<Rightarrow> Some (i # is) | _ \<Rightarrow> None)"

definition init_parameter_spec :: "(string \<times> json) list \<Rightarrow> json list \<Rightarrow> logical_dtype \<Rightarrow> parameter_spec lresult" where
  "init_parameter_spec kw shape dtype =
     bindE (raise_none (schema_error ''PARAMETER_NAME_INVALID'') (matching PARAMETER_NAME (obj_get kw ''name''))) (\<lambda>name.
     (case obj_get kw ''trainable'' of
        JBool trainable \<Rightarrow>
          bindE (raise_none (schema_error ''PARAMETER_SHAPE_INVALID'') (shape_items shape)) (\<lambda>is.
          Inr \<lparr>ps_name = name, ps_shape = is, ps_logical_dtype = dtype, ps_trainable = trainable\<rparr>)
      | _ \<Rightarrow> Inl (schema_error ''PARAMETER_TRAINABLE_INVALID'')))"

definition parameter_spec_to_dict :: "parameter_spec \<Rightarrow> (string \<times> json) list" where
  "parameter_spec_to_dict p =
     [(''logical_dtype'', JStr (dtype_value (ps_logical_dtype p))), (''name'', JStr (ps_name p)),
      (''shape'', JArr (map JInt (ps_shape p))), (''trainable'', JBool (ps_trainable p))]"

definition parameter_spec_from_dict :: "(string \<times> json) list \<Rightarrow> parameter_spec lresult" where
  "parameter_spec_from_dict value =
     bindE (ensure (set (map fst value) = {''logical_dtype'', ''name'', ''shape'', ''trainable''})
              (schema_error ''PARAMETER_FIELDS_INVALID'')) (\<lambda>_.
     (case obj_get value ''shape'' of
        JArr shape \<Rightarrow>
          on_type_or_value_error (schema_error ''PARAMETER_TYPES_INVALID'')
            (bindE (enum_of dtype_value [BFLOAT16, FLOAT16, FLOAT32, FLOAT64] (obj_get value ''logical_dtype'')) (\<lambda>dtype.
             init_parameter_spec value shape dtype))
      | _ \<Rightarrow> Inl (schema_error ''PARAMETER_SHAPE_INVALID'')))"

record parameter_schema =
  sc_parameters :: "parameter_spec list"
  sc_tied_aliases :: "(string \<times> string) list"
  sc_frozen_omission_policy :: frozen_omission_policy

definition name_key :: "string \<Rightarrow> nat list" where
  "name_key = map of_char"

text \<open>The checks on one alias, and the sorted copy of the dictionary.\<close>

definition alias_owner :: "string list \<Rightarrow> string \<times> json \<Rightarrow> (string \<times> string) lresult" where
  "alias_owner names kv =
     (case snd kv of
        JStr owner \<Rightarrow> if PARAMETER_NAME (fst kv) \<and> owner \<in> set names \<and> fst kv \<notin> set names then Inr (fst kv, owner)
                     else Inl (schema_error ''TIED_ALIAS_INVALID'')
      | _ \<Rightarrow> Inl (schema_error ''TIED_ALIAS_INVALID''))"

definition init_parameter_schema ::
  "json \<Rightarrow> parameter_spec list \<Rightarrow> (string \<times> json) list \<Rightarrow> frozen_omission_policy \<Rightarrow> parameter_schema lresult" where
  "init_parameter_schema schema_version parameters tied_aliases policy =
     bindE (ensure (schema_version = JStr ''1.0.0'') (schema_error ''PARAMETER_SCHEMA_VERSION_UNSUPPORTED'')) (\<lambda>_.
     bindE (ensure (parameters \<noteq> []) (schema_error ''PARAMETER_SET_EMPTY_OR_INVALID'')) (\<lambda>_.
     bindE (ensure (sort_key (\<lambda>p. name_key (ps_name p)) parameters = parameters)
              (schema_error ''PARAMETERS_NOT_CANONICALLY_ORDERED'')) (\<lambda>_.
     bindE (ensure (distinct (map ps_name parameters)) (schema_error ''PARAMETER_NAME_DUPLICATE'')) (\<lambda>_.
     bindE (mapE (alias_owner (map ps_name parameters)) tied_aliases) (\<lambda>aliases.
     Inr \<lparr>sc_parameters = parameters, sc_tied_aliases = sort_key (\<lambda>kv. name_key (fst kv)) aliases,
          sc_frozen_omission_policy = policy\<rparr>)))))"

definition parameter_schema_to_dict :: "parameter_schema \<Rightarrow> (string \<times> json) list" where
  "parameter_schema_to_dict s =
     [(''frozen_omission_policy'', JStr (policy_value (sc_frozen_omission_policy s))),
      (''parameters'', JArr (map (\<lambda>p. JObj (parameter_spec_to_dict p)) (sc_parameters s))),
      (''schema_version'', JStr ''1.0.0''),
      (''tied_aliases'', JObj (map (\<lambda>(a, n). (a, JStr n)) (sc_tied_aliases s)))]"

definition parameter_schema_fingerprint :: "(string \<Rightarrow> string) \<Rightarrow> parameter_schema \<Rightarrow> string lresult" where
  "parameter_schema_fingerprint sha s = document_fingerprint sha (JObj (parameter_schema_to_dict s))"

definition parameter_schema_from_dict :: "(string \<times> json) list \<Rightarrow> parameter_schema lresult" where
  "parameter_schema_from_dict value =
     bindE (ensure (set (map fst value) = {''frozen_omission_policy'', ''parameters'', ''schema_version'', ''tied_aliases''})
              (schema_error ''PARAMETER_SCHEMA_FIELDS_INVALID'')) (\<lambda>_.
     (case obj_get value ''parameters'' of
        JArr parameters \<Rightarrow>
          bindE (ensure (list_all is_obj parameters) (schema_error ''PARAMETER_SET_INVALID'')) (\<lambda>_.
          (case obj_get value ''tied_aliases'' of
             JObj aliases \<Rightarrow>
               on_type_or_value_error (schema_error ''PARAMETER_SCHEMA_TYPES_INVALID'')
                 (bindE (enum_of policy_value [INCLUDE_ALL, OMIT_FROZEN] (obj_get value ''frozen_omission_policy'')) (\<lambda>policy.
                  bindE (mapE (\<lambda>v. parameter_spec_from_dict (obj_fields v)) parameters) (\<lambda>specs.
                  init_parameter_schema (obj_get value ''schema_version'') specs aliases policy)))
           | _ \<Rightarrow> Inl (schema_error ''TIED_ALIASES_INVALID'')))
      | _ \<Rightarrow> Inl (schema_error ''PARAMETER_SET_INVALID'')))"

definition included_tensor_names :: "parameter_schema \<Rightarrow> string list" where
  "included_tensor_names s =
     (case sc_frozen_omission_policy s of
        OMIT_FROZEN \<Rightarrow> map ps_name (filter ps_trainable (sc_parameters s))
      | INCLUDE_ALL \<Rightarrow> map ps_name (sc_parameters s))"

section \<open>Checks of update documents\<close>

definition completion_error :: "string \<Rightarrow> local_exn" where
  "completion_error message = DeltaError INVALID_LOCAL_COMPLETION message"

definition candidate_error :: "string \<Rightarrow> local_exn" where
  "candidate_error message = DeltaError INVALID_CONTRIBUTION_CANDIDATE message"

definition ERROR_CODE :: "string \<Rightarrow> bool" where
  "ERROR_CODE s \<longleftrightarrow> s \<noteq> [] \<and> ascii_upper (hd s) \<and>
     list_all (\<lambda>c. ascii_upper c \<or> is_digit c \<or> c = CHR ''_'') (tl s) \<and> length (tl s) \<le> 127"

definition PRODUCER_VERSION :: "string \<Rightarrow> bool" where
  "PRODUCER_VERSION s \<longleftrightarrow> s \<noteq> [] \<and> ascii_alnum (hd s) \<and>
     list_all (\<lambda>c. ascii_alnum c \<or> c \<in> set ''._+-'') (tl s) \<and> length (tl s) \<le> 127"

definition update_content_id :: "(string \<Rightarrow> local_exn) \<Rightarrow> json \<Rightarrow> string lresult" where
  "update_content_id factory v = raise_none (factory ''CONTENT_ID_INVALID'') (matching CONTENT_ID v)"

definition update_identifier :: "(string \<Rightarrow> local_exn) \<Rightarrow> json \<Rightarrow> string lresult" where
  "update_identifier factory v = raise_none (factory ''IDENTIFIER_INVALID'') (matching IDENTIFIER v)"

definition counter :: "json \<Rightarrow> int lresult" where
  "counter v = raise_none (completion_error ''COUNTER_INVALID'') (non_negative_int v)"

definition positive_counter :: "json \<Rightarrow> int lresult" where
  "positive_counter v = raise_none (completion_error ''POSITIVE_INTEGER_REQUIRED'') (positive_int v)"

fun text_items :: "(string \<Rightarrow> bool) \<Rightarrow> json list \<Rightarrow> string list option" where
  "text_items pattern [] = Some []"
| "text_items pattern (v # vs) =
     (case (matching pattern v, text_items pattern vs) of (Some s, Some ss) \<Rightarrow> Some (s # ss) | _ \<Rightarrow> None)"

definition tensor_order_of :: "(string \<Rightarrow> local_exn) \<Rightarrow> json list \<Rightarrow> string list lresult" where
  "tensor_order_of factory items =
     (case text_items PARAMETER_NAME items of
        None \<Rightarrow> Inl (factory ''TENSOR_ORDER_INVALID'')
      | Some names \<Rightarrow>
          bindE (ensure (names \<noteq> [] \<and> sort_key name_key names = names \<and> distinct names) (factory ''TENSOR_ORDER_INVALID''))
            (\<lambda>_. Inr names))"

section \<open>Numerical and resource summaries\<close>

record numerical_summary =
  ns_all_finite :: bool
  ns_max_abs_fp32_bits :: "string option"
  ns_global_l2_norm_fp64_bits :: "string option"

definition text_or_null :: "string option \<Rightarrow> json" where
  "text_or_null x = (case x of None \<Rightarrow> JNull | Some s \<Rightarrow> JStr s)"

definition bits_or_none :: "nat \<Rightarrow> string \<Rightarrow> json \<Rightarrow> string option lresult" where
  "bits_or_none n message v =
     (if v = JNull then Inr None
      else bindE (raise_none (completion_error message) (matching (fullmatch_hex n) v)) (\<lambda>s. Inr (Some s)))"

definition init_numerical_summary :: "(string \<times> json) list \<Rightarrow> numerical_summary lresult" where
  "init_numerical_summary kw =
     (case obj_get kw ''all_finite'' of
        JBool all_finite \<Rightarrow>
          bindE (bits_or_none 8 ''MAX_ABS_BITS_INVALID'' (obj_get kw ''max_abs_fp32_bits'')) (\<lambda>max_abs.
          bindE (bits_or_none 16 ''GLOBAL_L2_BITS_INVALID'' (obj_get kw ''global_l2_norm_fp64_bits'')) (\<lambda>l2.
          Inr \<lparr>ns_all_finite = all_finite, ns_max_abs_fp32_bits = max_abs, ns_global_l2_norm_fp64_bits = l2\<rparr>))
      | _ \<Rightarrow> Inl (completion_error ''NUMERICAL_FINITE_FLAG_INVALID''))"

definition numerical_summary_to_dict :: "numerical_summary \<Rightarrow> (string \<times> json) list" where
  "numerical_summary_to_dict s =
     [(''all_finite'', JBool (ns_all_finite s)),
      (''global_l2_norm_fp64_bits'', text_or_null (ns_global_l2_norm_fp64_bits s)),
      (''max_abs_fp32_bits'', text_or_null (ns_max_abs_fp32_bits s))]"

definition numerical_summary_from_dict :: "(string \<times> json) list \<Rightarrow> numerical_summary lresult" where
  "numerical_summary_from_dict value =
     bindE (ensure (set (map fst value) = {''all_finite'', ''global_l2_norm_fp64_bits'', ''max_abs_fp32_bits''})
              (completion_error ''NUMERICAL_SUMMARY_FIELDS_INVALID'')) (\<lambda>_.
     on_type_error (completion_error ''NUMERICAL_SUMMARY_TYPES_INVALID'') (init_numerical_summary value))"

record resource_summary =
  rs_peak_memory_bytes :: int
  rs_wall_time_ms :: int

definition init_resource_summary :: "(string \<times> json) list \<Rightarrow> resource_summary lresult" where
  "init_resource_summary kw =
     bindE (counter (obj_get kw ''peak_memory_bytes'')) (\<lambda>peak.
     bindE (counter (obj_get kw ''wall_time_ms'')) (\<lambda>wall.
     Inr \<lparr>rs_peak_memory_bytes = peak, rs_wall_time_ms = wall\<rparr>))"

definition resource_summary_to_dict :: "resource_summary \<Rightarrow> (string \<times> json) list" where
  "resource_summary_to_dict s =
     [(''peak_memory_bytes'', JInt (rs_peak_memory_bytes s)), (''wall_time_ms'', JInt (rs_wall_time_ms s))]"

definition resource_summary_from_dict :: "(string \<times> json) list \<Rightarrow> resource_summary lresult" where
  "resource_summary_from_dict value =
     bindE (ensure (set (map fst value) = {''peak_memory_bytes'', ''wall_time_ms''})
              (completion_error ''RESOURCE_SUMMARY_FIELDS_INVALID'')) (\<lambda>_.
     on_type_error (completion_error ''RESOURCE_SUMMARY_TYPES_INVALID'') (init_resource_summary value))"

section \<open>Local deltas\<close>

definition is_tensor_artifact :: "artifact_ref \<Rightarrow> bool" where
  "is_tensor_artifact r \<longleftrightarrow>
     ar_schema_id r = ''SCHEMA-SAFETENSORS-V1'' \<and> ar_media_type r = JStr ''application/vnd.safetensors''"

record local_delta =
  ld_ticket_id :: string
  ld_ticket_fingerprint :: string
  ld_parent_model_id :: string
  ld_parameter_schema_id :: string
  ld_artifact :: artifact_ref
  ld_tensor_order :: "string list"

definition init_local_delta :: "(string \<times> json) list \<Rightarrow> artifact_ref \<Rightarrow> json list \<Rightarrow> local_delta lresult" where
  "init_local_delta kw artifact tensor_order =
     bindE (update_identifier completion_error (obj_get kw ''ticket_id'')) (\<lambda>ticket_id.
     bindE (update_content_id completion_error (obj_get kw ''ticket_fingerprint'')) (\<lambda>fingerprint.
     bindE (update_content_id completion_error (obj_get kw ''parent_model_id'')) (\<lambda>parent.
     bindE (update_content_id completion_error (obj_get kw ''parameter_schema_id'')) (\<lambda>schema.
     bindE (ensure (is_tensor_artifact artifact) (completion_error ''LOCAL_DELTA_FORMAT_UNSAFE'')) (\<lambda>_.
     bindE (tensor_order_of completion_error tensor_order) (\<lambda>names.
     bindE (ensure (obj_get kw ''sign_convention'' = JStr ''PARENT_MINUS_FINAL'') (completion_error ''LOCAL_DELTA_SIGN_INVALID''))
       (\<lambda>_.
     bindE (ensure (obj_get kw ''storage_dtype'' = JStr ''float32'') (completion_error ''LOCAL_DELTA_DTYPE_INVALID'')) (\<lambda>_.
     Inr \<lparr>ld_ticket_id = ticket_id, ld_ticket_fingerprint = fingerprint, ld_parent_model_id = parent,
          ld_parameter_schema_id = schema, ld_artifact = artifact, ld_tensor_order = names\<rparr>))))))))"

definition local_delta_to_dict :: "local_delta \<Rightarrow> (string \<times> json) list" where
  "local_delta_to_dict d =
     [(''artifact'', JObj (artifact_ref_to_dict (ld_artifact d))), (''parameter_schema_id'', JStr (ld_parameter_schema_id d)),
      (''parent_model_id'', JStr (ld_parent_model_id d)), (''sign_convention'', JStr ''PARENT_MINUS_FINAL''),
      (''storage_dtype'', JStr ''float32''), (''tensor_order'', JArr (map JStr (ld_tensor_order d))),
      (''ticket_fingerprint'', JStr (ld_ticket_fingerprint d)), (''ticket_id'', JStr (ld_ticket_id d))]"

definition LOCAL_DELTA_FIELDS :: "string list" where
  "LOCAL_DELTA_FIELDS =
     [''ticket_id'', ''ticket_fingerprint'', ''parent_model_id'', ''parameter_schema_id'', ''artifact'', ''tensor_order'',
      ''sign_convention'', ''storage_dtype'']"

definition local_delta_from_dict :: "(string \<times> json) list \<Rightarrow> local_delta lresult" where
  "local_delta_from_dict value =
     bindE (ensure (set (map fst value) = set LOCAL_DELTA_FIELDS) (completion_error ''LOCAL_DELTA_FIELDS_INVALID'')) (\<lambda>_.
     (case (obj_get value ''artifact'', obj_get value ''tensor_order'') of
        (JObj artifact, JArr tensor_order) \<Rightarrow>
          on_type_error (completion_error ''LOCAL_DELTA_TYPES_INVALID'')
            (bindE (artifact_ref_from_dict artifact) (\<lambda>r. init_local_delta value r tensor_order))
      | _ \<Rightarrow> Inl (completion_error ''LOCAL_DELTA_COLLECTION_FIELDS_INVALID'')))"

section \<open>Completions\<close>

datatype completion_status = STATUS_CANCELLED | STATUS_COMPLETED | STATUS_FAILED

fun status_value :: "completion_status \<Rightarrow> string" where
  "status_value STATUS_CANCELLED = ''CANCELLED''"
| "status_value STATUS_COMPLETED = ''COMPLETED''"
| "status_value STATUS_FAILED = ''FAILED''"

datatype completion_reason =
  REASON_CANCELLED | DATA_EXHAUSTED | DEADLINE | EXACT_H | INTERNAL_FAILURE | NON_FINITE | OOM

fun reason_value :: "completion_reason \<Rightarrow> string" where
  "reason_value REASON_CANCELLED = ''CANCELLED''"
| "reason_value DATA_EXHAUSTED = ''DATA_EXHAUSTED''"
| "reason_value DEADLINE = ''DEADLINE''"
| "reason_value EXACT_H = ''EXACT_H''"
| "reason_value INTERNAL_FAILURE = ''INTERNAL_FAILURE''"
| "reason_value NON_FINITE = ''NON_FINITE''"
| "reason_value OOM = ''OOM''"

fun allowed_reasons :: "completion_status \<Rightarrow> completion_reason list" where
  "allowed_reasons STATUS_CANCELLED = [REASON_CANCELLED]"
| "allowed_reasons STATUS_COMPLETED = [EXACT_H]"
| "allowed_reasons STATUS_FAILED = [DATA_EXHAUSTED, DEADLINE, INTERNAL_FAILURE, NON_FINITE, OOM]"

text \<open>The thirty fields of \<open>LocalRoundCompletion\<close>, grouped: identities, counters, and the rest.\<close>

record completion_ids =
  ci_ticket_id :: string
  ci_domain_id :: string
  ci_worker_id :: string
  ci_ticket_fingerprint :: string
  ci_data_id :: string
  ci_parent_model_id :: string
  ci_parameter_schema_id :: string
  ci_optimizer_profile_id :: string
  ci_arithmetic_profile_id :: string

record completion_counts =
  cc_batch_budget :: int
  cc_step_budget :: int
  cc_deterministic_seed :: int
  cc_logical_deadline_ms :: int
  cc_data_range_start :: int
  cc_data_range_end :: int
  cc_effective_steps :: int
  cc_micro_steps :: int
  cc_processed_tokens :: int
  cc_cursor_start :: int
  cc_cursor_end :: int

record completion =
  cp_ids :: completion_ids
  cp_counts :: completion_counts
  cp_status :: completion_status
  cp_reason :: completion_reason
  cp_candidate_eligible :: bool
  cp_local_delta :: "local_delta option"
  cp_failure_code :: "string option"
  cp_numerical_summary :: numerical_summary
  cp_resource_summary :: resource_summary
  cp_producer_version :: string

definition init_completion_ids :: "(string \<times> json) list \<Rightarrow> completion_ids lresult" where
  "init_completion_ids kw =
     bindE (update_identifier completion_error (obj_get kw ''ticket_id'')) (\<lambda>ticket_id.
     bindE (update_identifier completion_error (obj_get kw ''domain_id'')) (\<lambda>domain_id.
     bindE (update_identifier completion_error (obj_get kw ''worker_id'')) (\<lambda>worker_id.
     bindE (update_content_id completion_error (obj_get kw ''ticket_fingerprint'')) (\<lambda>fingerprint.
     bindE (update_content_id completion_error (obj_get kw ''data_id'')) (\<lambda>data_id.
     bindE (update_content_id completion_error (obj_get kw ''parent_model_id'')) (\<lambda>parent.
     bindE (update_content_id completion_error (obj_get kw ''parameter_schema_id'')) (\<lambda>schema.
     bindE (update_content_id completion_error (obj_get kw ''optimizer_profile_id'')) (\<lambda>optimizer.
     bindE (update_content_id completion_error (obj_get kw ''arithmetic_profile_id'')) (\<lambda>arithmetic.
     Inr \<lparr>ci_ticket_id = ticket_id, ci_domain_id = domain_id, ci_worker_id = worker_id,
          ci_ticket_fingerprint = fingerprint, ci_data_id = data_id, ci_parent_model_id = parent,
          ci_parameter_schema_id = schema, ci_optimizer_profile_id = optimizer,
          ci_arithmetic_profile_id = arithmetic\<rparr>)))))))))"

definition init_completion_counts :: "(string \<times> json) list \<Rightarrow> completion_counts lresult" where
  "init_completion_counts kw =
     bindE (positive_counter (obj_get kw ''batch_budget'')) (\<lambda>batch.
     bindE (positive_counter (obj_get kw ''step_budget'')) (\<lambda>steps.
     bindE (counter (obj_get kw ''deterministic_seed'')) (\<lambda>seed.
     bindE (positive_counter (obj_get kw ''logical_deadline_ms'')) (\<lambda>deadline.
     bindE (counter (obj_get kw ''data_range_start'')) (\<lambda>range_start.
     bindE (counter (obj_get kw ''data_range_end'')) (\<lambda>range_end.
     bindE (counter (obj_get kw ''effective_steps'')) (\<lambda>effective.
     bindE (counter (obj_get kw ''micro_steps'')) (\<lambda>micro.
     bindE (counter (obj_get kw ''processed_tokens'')) (\<lambda>tokens.
     bindE (counter (obj_get kw ''cursor_start'')) (\<lambda>cursor_start.
     bindE (counter (obj_get kw ''cursor_end'')) (\<lambda>cursor_end.
     bindE (ensure (\<not> (range_end \<le> range_start \<or> cursor_start \<noteq> range_start \<or> cursor_end < cursor_start \<or>
                       cursor_end > range_end \<or> effective > steps))
              (completion_error ''COMPLETION_COUNTER_RELATION_INVALID'')) (\<lambda>_.
     Inr \<lparr>cc_batch_budget = batch, cc_step_budget = steps, cc_deterministic_seed = seed,
          cc_logical_deadline_ms = deadline, cc_data_range_start = range_start, cc_data_range_end = range_end,
          cc_effective_steps = effective, cc_micro_steps = micro, cc_processed_tokens = tokens,
          cc_cursor_start = cursor_start, cc_cursor_end = cursor_end\<rparr>))))))))))))"

text \<open>The branch for a complete round: the delta, its lineage and the numerical summary.\<close>

definition check_complete :: "completion_ids \<Rightarrow> local_delta option \<Rightarrow> json \<Rightarrow> numerical_summary \<Rightarrow> unit lresult" where
  "check_complete ids delta failure_code summary =
     (case delta of
        None \<Rightarrow> Inl (completion_error ''COMPLETION_SUCCESS_ARTIFACT_INVALID'')
      | Some d \<Rightarrow>
          bindE (ensure (failure_code = JNull) (completion_error ''COMPLETION_SUCCESS_ARTIFACT_INVALID'')) (\<lambda>_.
          bindE (ensure (ld_ticket_id d = ci_ticket_id ids \<and> ld_ticket_fingerprint d = ci_ticket_fingerprint ids \<and>
                         ld_parent_model_id d = ci_parent_model_id ids \<and>
                         ld_parameter_schema_id d = ci_parameter_schema_id ids)
                   (completion_error ''COMPLETION_LOCAL_DELTA_LINEAGE_INVALID'')) (\<lambda>_.
          ensure (ns_all_finite summary \<and> ns_max_abs_fp32_bits summary \<noteq> None \<and>
                  ns_global_l2_norm_fp64_bits summary \<noteq> None)
            (completion_error ''COMPLETION_NUMERICAL_SUMMARY_INVALID''))))"

definition init_completion ::
  "(string \<times> json) list \<Rightarrow> completion_status \<Rightarrow> completion_reason \<Rightarrow> local_delta option \<Rightarrow> numerical_summary \<Rightarrow>
   resource_summary \<Rightarrow> completion lresult" where
  "init_completion kw status reason delta numerical resource =
     bindE (init_completion_ids kw) (\<lambda>ids.
     bindE (init_completion_counts kw) (\<lambda>counts.
     (let complete = (status = STATUS_COMPLETED \<and> reason = EXACT_H \<and> cc_effective_steps counts = cc_step_budget counts)
      in
      bindE (ensure (obj_get kw ''candidate_eligible'' = JBool complete)
               (completion_error ''COMPLETION_ELIGIBILITY_INVALID'')) (\<lambda>_.
      bindE (ensure (reason \<in> set (allowed_reasons status)) (completion_error ''COMPLETION_STATUS_REASON_INVALID'')) (\<lambda>_.
      bindE (if complete then check_complete ids delta (obj_get kw ''failure_code'') numerical
             else ensure (delta = None \<and> matching ERROR_CODE (obj_get kw ''failure_code'') \<noteq> None)
                    (completion_error ''INCOMPLETE_CANDIDATE_MUST_BE_ABSENT'')) (\<lambda>_.
      bindE (raise_none (completion_error ''COMPLETION_PRODUCER_VERSION_INVALID'')
               (matching PRODUCER_VERSION (obj_get kw ''producer_version''))) (\<lambda>producer.
      bindE (ensure (obj_get kw ''formal_semantics_id'' = JStr LOCAL_SEMANTICS_ID)
               (DeltaError FORMAL_SEMANTICS_MISMATCH ''completion semantics mismatch'')) (\<lambda>_.
      bindE (ensure (obj_get kw ''schema_version'' = JStr ''1.0.0'') (completion_error ''COMPLETION_VERSION_UNSUPPORTED''))
        (\<lambda>_.
      Inr \<lparr>cp_ids = ids, cp_counts = counts, cp_status = status, cp_reason = reason, cp_candidate_eligible = complete,
           cp_local_delta = delta, cp_failure_code = str_opt (obj_get kw ''failure_code''),
           cp_numerical_summary = numerical, cp_resource_summary = resource, cp_producer_version = producer\<rparr>)))))))))"

definition completion_to_dict :: "completion \<Rightarrow> (string \<times> json) list" where
  "completion_to_dict c =
     (let i = cp_ids c; n = cp_counts c in
      [(''arithmetic_profile_id'', JStr (ci_arithmetic_profile_id i)), (''batch_budget'', JInt (cc_batch_budget n)),
       (''candidate_eligible'', JBool (cp_candidate_eligible c)), (''cursor_end'', JInt (cc_cursor_end n)),
       (''cursor_start'', JInt (cc_cursor_start n)), (''data_id'', JStr (ci_data_id i)),
       (''data_range_end'', JInt (cc_data_range_end n)), (''data_range_start'', JInt (cc_data_range_start n)),
       (''deterministic_seed'', JInt (cc_deterministic_seed n)), (''domain_id'', JStr (ci_domain_id i)),
       (''effective_steps'', JInt (cc_effective_steps n)), (''failure_code'', text_or_null (cp_failure_code c)),
       (''formal_semantics_id'', JStr LOCAL_SEMANTICS_ID),
       (''local_delta'', (case cp_local_delta c of None \<Rightarrow> JNull | Some d \<Rightarrow> JObj (local_delta_to_dict d))),
       (''logical_deadline_ms'', JInt (cc_logical_deadline_ms n)), (''micro_steps'', JInt (cc_micro_steps n)),
       (''numerical_summary'', JObj (numerical_summary_to_dict (cp_numerical_summary c))),
       (''optimizer_profile_id'', JStr (ci_optimizer_profile_id i)),
       (''parameter_schema_id'', JStr (ci_parameter_schema_id i)), (''parent_model_id'', JStr (ci_parent_model_id i)),
       (''processed_tokens'', JInt (cc_processed_tokens n)), (''producer_version'', JStr (cp_producer_version c)),
       (''reason'', JStr (reason_value (cp_reason c))), (''schema_version'', JStr ''1.0.0''),
       (''status'', JStr (status_value (cp_status c))), (''step_budget'', JInt (cc_step_budget n)),
       (''resource_summary'', JObj (resource_summary_to_dict (cp_resource_summary c))),
       (''ticket_fingerprint'', JStr (ci_ticket_fingerprint i)), (''ticket_id'', JStr (ci_ticket_id i)),
       (''worker_id'', JStr (ci_worker_id i))])"

definition completion_fingerprint :: "(string \<Rightarrow> string) \<Rightarrow> completion \<Rightarrow> string lresult" where
  "completion_fingerprint sha c = document_fingerprint sha (JObj (completion_to_dict c))"

definition COMPLETION_FIELDS :: "string list" where
  "COMPLETION_FIELDS =
     [''ticket_id'', ''domain_id'', ''worker_id'', ''ticket_fingerprint'', ''data_id'', ''data_range_start'',
      ''data_range_end'', ''parent_model_id'', ''parameter_schema_id'', ''optimizer_profile_id'',
      ''arithmetic_profile_id'', ''batch_budget'', ''step_budget'', ''deterministic_seed'', ''logical_deadline_ms'',
      ''effective_steps'', ''micro_steps'', ''processed_tokens'', ''cursor_start'', ''cursor_end'', ''status'',
      ''reason'', ''candidate_eligible'', ''local_delta'', ''failure_code'', ''numerical_summary'',
      ''resource_summary'', ''producer_version'', ''formal_semantics_id'', ''schema_version'']"

text \<open>An empty object for \<open>local_delta\<close> is false in Python and read like \<open>null\<close>.\<close>

definition local_delta_or_none :: "json \<Rightarrow> local_delta option lresult" where
  "local_delta_or_none v =
     (if truthy v then bindE (local_delta_from_dict (obj_fields v)) (\<lambda>d. Inr (Some d)) else Inr None)"

definition completion_from_dict :: "(string \<times> json) list \<Rightarrow> completion lresult" where
  "completion_from_dict value =
     bindE (ensure (set (map fst value) = set COMPLETION_FIELDS) (completion_error ''COMPLETION_FIELDS_INVALID'')) (\<lambda>_.
     bindE (ensure (obj_get value ''local_delta'' = JNull \<or> is_obj (obj_get value ''local_delta''))
              (completion_error ''COMPLETION_LOCAL_DELTA_INVALID'')) (\<lambda>_.
     (case (obj_get value ''numerical_summary'', obj_get value ''resource_summary'') of
        (JObj numerical, JObj resource) \<Rightarrow>
          on_type_or_value_error (completion_error ''COMPLETION_TYPES_INVALID'')
            (bindE (local_delta_or_none (obj_get value ''local_delta'')) (\<lambda>delta.
             bindE (numerical_summary_from_dict numerical) (\<lambda>numerical_summary.
             bindE (enum_of reason_value
                      [REASON_CANCELLED, DATA_EXHAUSTED, DEADLINE, EXACT_H, INTERNAL_FAILURE, NON_FINITE, OOM]
                      (obj_get value ''reason'')) (\<lambda>reason.
             bindE (enum_of status_value [STATUS_CANCELLED, STATUS_COMPLETED, STATUS_FAILED] (obj_get value ''status''))
               (\<lambda>status.
             bindE (resource_summary_from_dict resource) (\<lambda>resource_summary.
             init_completion value status reason delta numerical_summary resource_summary))))))
      | _ \<Rightarrow> Inl (completion_error ''COMPLETION_SUMMARY_INVALID''))))"

section \<open>Normalised candidates\<close>

record candidate =
  cd_ticket_id :: string
  cd_domain_id :: string
  cd_ticket_fingerprint :: string
  cd_completion_id :: string
  cd_parent_model_id :: string
  cd_parameter_schema_id :: string
  cd_optimizer_profile_id :: string
  cd_arithmetic_profile_id :: string
  cd_effective_steps :: int
  cd_step_budget :: int
  cd_normalization_denominator :: int
  cd_normalized_delta :: artifact_ref
  cd_tensor_order :: "string list"

fun int_opt :: "json \<Rightarrow> int option" where
  "int_opt (JInt i) = Some i"
| "int_opt _ = None"

lemma int_opt_Some [simp]: "int_opt v = Some i \<longleftrightarrow> v = JInt i"
  by (cases v) auto

definition candidate_counters :: "(string \<times> json) list \<Rightarrow> (int \<times> int \<times> int) lresult" where
  "candidate_counters kw =
     (case (int_opt (obj_get kw ''effective_steps''), int_opt (obj_get kw ''step_budget''),
            int_opt (obj_get kw ''normalization_denominator'')) of
        (Some effective, Some steps, Some denominator) \<Rightarrow>
          bindE (ensure (\<not> (effective \<le> 0 \<or> effective \<noteq> steps \<or> denominator \<noteq> effective))
                   (candidate_error ''CANDIDATE_REQUIRES_A_EQUALS_H'')) (\<lambda>_.
          Inr (effective, steps, denominator))
      | _ \<Rightarrow> Inl (candidate_error ''CANDIDATE_REQUIRES_A_EQUALS_H''))"

definition init_candidate :: "(string \<times> json) list \<Rightarrow> artifact_ref \<Rightarrow> json list \<Rightarrow> candidate lresult" where
  "init_candidate kw normalized tensor_order =
     bindE (update_identifier candidate_error (obj_get kw ''ticket_id'')) (\<lambda>ticket_id.
     bindE (update_identifier candidate_error (obj_get kw ''domain_id'')) (\<lambda>domain_id.
     bindE (update_content_id candidate_error (obj_get kw ''ticket_fingerprint'')) (\<lambda>fingerprint.
     bindE (update_content_id candidate_error (obj_get kw ''completion_id'')) (\<lambda>completion_id.
     bindE (update_content_id candidate_error (obj_get kw ''parent_model_id'')) (\<lambda>parent.
     bindE (update_content_id candidate_error (obj_get kw ''parameter_schema_id'')) (\<lambda>schema.
     bindE (update_content_id candidate_error (obj_get kw ''optimizer_profile_id'')) (\<lambda>optimizer.
     bindE (update_content_id candidate_error (obj_get kw ''arithmetic_profile_id'')) (\<lambda>arithmetic.
     bindE (candidate_counters kw) (\<lambda>(effective, steps, denominator).
     bindE (ensure (is_tensor_artifact normalized) (candidate_error ''CANDIDATE_TENSOR_ARTIFACT_INVALID'')) (\<lambda>_.
     bindE (tensor_order_of candidate_error tensor_order) (\<lambda>names.
     bindE (ensure (obj_get kw ''storage_dtype'' = JStr ''float32'') (candidate_error ''CANDIDATE_DTYPE_INVALID'')) (\<lambda>_.
     bindE (ensure (obj_get kw ''formal_semantics_id'' = JStr LOCAL_SEMANTICS_ID)
              (DeltaError FORMAL_SEMANTICS_MISMATCH ''candidate semantics mismatch'')) (\<lambda>_.
     bindE (ensure (obj_get kw ''schema_version'' = JStr ''1.0.0'') (candidate_error ''CANDIDATE_VERSION_UNSUPPORTED''))
       (\<lambda>_.
     Inr \<lparr>cd_ticket_id = ticket_id, cd_domain_id = domain_id, cd_ticket_fingerprint = fingerprint,
          cd_completion_id = completion_id, cd_parent_model_id = parent, cd_parameter_schema_id = schema,
          cd_optimizer_profile_id = optimizer, cd_arithmetic_profile_id = arithmetic, cd_effective_steps = effective,
          cd_step_budget = steps, cd_normalization_denominator = denominator, cd_normalized_delta = normalized,
          cd_tensor_order = names\<rparr>))))))))))))))"

definition candidate_to_dict :: "candidate \<Rightarrow> (string \<times> json) list" where
  "candidate_to_dict c =
     [(''arithmetic_profile_id'', JStr (cd_arithmetic_profile_id c)), (''completion_id'', JStr (cd_completion_id c)),
      (''domain_id'', JStr (cd_domain_id c)), (''effective_steps'', JInt (cd_effective_steps c)),
      (''formal_semantics_id'', JStr LOCAL_SEMANTICS_ID),
      (''normalization_denominator'', JInt (cd_normalization_denominator c)),
      (''normalized_delta'', JObj (artifact_ref_to_dict (cd_normalized_delta c))),
      (''optimizer_profile_id'', JStr (cd_optimizer_profile_id c)),
      (''parameter_schema_id'', JStr (cd_parameter_schema_id c)), (''parent_model_id'', JStr (cd_parent_model_id c)),
      (''schema_version'', JStr ''1.0.0''), (''step_budget'', JInt (cd_step_budget c)),
      (''storage_dtype'', JStr ''float32''), (''tensor_order'', JArr (map JStr (cd_tensor_order c))),
      (''ticket_fingerprint'', JStr (cd_ticket_fingerprint c)), (''ticket_id'', JStr (cd_ticket_id c))]"

definition CANDIDATE_FIELDS :: "string list" where
  "CANDIDATE_FIELDS =
     [''ticket_id'', ''domain_id'', ''ticket_fingerprint'', ''completion_id'', ''parent_model_id'',
      ''parameter_schema_id'', ''optimizer_profile_id'', ''arithmetic_profile_id'', ''effective_steps'', ''step_budget'',
      ''normalization_denominator'', ''normalized_delta'', ''tensor_order'', ''storage_dtype'', ''formal_semantics_id'',
      ''schema_version'']"

definition candidate_from_dict :: "(string \<times> json) list \<Rightarrow> candidate lresult" where
  "candidate_from_dict value =
     bindE (ensure (set (map fst value) = set CANDIDATE_FIELDS) (candidate_error ''CANDIDATE_FIELDS_INVALID'')) (\<lambda>_.
     (case (obj_get value ''tensor_order'', obj_get value ''normalized_delta'') of
        (JArr tensor_order, JObj normalized) \<Rightarrow>
          on_type_or_value_error (candidate_error ''CANDIDATE_TYPES_INVALID'')
            (bindE (artifact_ref_from_dict normalized) (\<lambda>r. init_candidate value r tensor_order))
      | _ \<Rightarrow> Inl (candidate_error ''CANDIDATE_COLLECTION_FIELDS_INVALID'')))"

end
