(* ===== verification/Local_Store.thy ===== *)
theory Local_Store
  imports Local_Updates Transition_System
begin

text \<open>
  What an offline round keeps on disk: the immutable artifact store (\<open>artifacts/filesystem.py\<close>) and the claims
  and outcomes of tickets (\<open>worker/repository.py\<close>). A file is created once, by a hard link that fails if the
  name exists; writing a temporary file, \<open>fsync\<close> and \<open>unlink\<close> are not visible to a reader. Each
  operation is one step on the shared \<open>disk\<close>, and \<open>disk_step\<close> is what any process may do to it.
\<close>

record disk =
  dk_artifacts :: "(string, string) dict"
  dk_claims :: "(string, string) dict"
  dk_outcomes :: "(string, string) dict"

definition empty_disk :: disk where
  "empty_disk = \<lparr>dk_artifacts = [], dk_claims = [], dk_outcomes = []\<rparr>"

section \<open>The artifact store\<close>

definition path_below :: "string \<Rightarrow> string \<Rightarrow> bool" where
  "path_below dir path \<longleftrightarrow> startswith path (dir @ ''/'')"

text \<open>
  A path that cannot be a file: the root of the store, a directory that holds a file, or a path below a file.
  Opening or linking it raises an \<open>OSError\<close> that the store does not catch.
\<close>

definition not_a_file :: "disk \<Rightarrow> string \<Rightarrow> bool" where
  "not_a_file d locator \<longleftrightarrow>
     locator = ''.'' \<or> list_ex (\<lambda>(k, _). path_below locator k \<or> path_below k locator) (dk_artifacts d)"

definition resolve_locator :: "string \<Rightarrow> string lresult" where
  "resolve_locator locator =
     (if locator_refused locator then Inl (DeltaError INVALID_ARTIFACT_LOCATOR ''artifact locator must remain inside the store'')
      else Inr locator)"

definition store_read :: "(string \<Rightarrow> string) \<Rightarrow> disk \<Rightarrow> artifact_ref \<Rightarrow> string lresult" where
  "store_read sha d r =
     bindE (resolve_locator (ar_locator r)) (\<lambda>path.
     bindE (ensure (\<not> not_a_file d path) LocalOSError) (\<lambda>_.
     bindE (raise_none (DeltaError ARTIFACT_NOT_FOUND ''referenced artifact does not exist'') (map_of (dk_artifacts d) path))
       (\<lambda>value.
     bindE (ensure (int (length value) = ar_byte_length r \<and> sha256_content_id sha value = ar_content_id r)
              (DeltaError ARTIFACT_HASH_MISMATCH ''artifact bytes do not match the immutable reference'')) (\<lambda>_.
     Inr value))))"

text \<open>The link of \<open>_publish_at\<close>: a new file, or the same bytes as the existing one.\<close>

definition link_artifact :: "string \<Rightarrow> string \<Rightarrow> disk \<Rightarrow> disk lresult" where
  "link_artifact path value d =
     (if not_a_file d path then Inl LocalOSError
      else (case map_of (dk_artifacts d) path of
              None \<Rightarrow> Inr (d\<lparr>dk_artifacts := dk_artifacts d @ [(path, value)]\<rparr>)
            | Some existing \<Rightarrow>
                if existing = value then Inr d
                else Inl (DeltaError ARTIFACT_IMMUTABLE_CONFLICT ''immutable artifact locator already contains different bytes'')))"

definition publish_at ::
  "(string \<Rightarrow> string) \<Rightarrow> string \<Rightarrow> string \<Rightarrow> json \<Rightarrow> string \<Rightarrow> disk \<Rightarrow> artifact_ref lresult \<times> disk" where
  "publish_at sha locator value media_type schema_id d =
     (case bindE (resolve_locator locator) (\<lambda>path. link_artifact path value d) of
        Inl e \<Rightarrow> (Inl e, d)
      | Inr d' \<Rightarrow>
          (bindE (init_artifact_ref
                    [(''byte_length'', JInt (int (length value))), (''content_id'', JStr (sha256_content_id sha value)),
                     (''locator'', JStr locator), (''media_type'', media_type), (''schema_id'', JStr schema_id),
                     (''schema_version'', JStr ''1.0.0'')]) (\<lambda>r.
           bindE (store_read sha d' r) (\<lambda>_. Inr r)), d'))"

definition publish_bytes ::
  "(string \<Rightarrow> string) \<Rightarrow> string \<Rightarrow> json \<Rightarrow> string \<Rightarrow> disk \<Rightarrow> artifact_ref lresult \<times> disk" where
  "publish_bytes sha value media_type schema_id d =
     (let digest = drop 7 (sha256_content_id sha value) in
      publish_at sha (''objects/sha256/'' @ take 2 digest @ ''/'' @ digest) value media_type schema_id d)"

definition publish_json ::
  "(string \<Rightarrow> string) \<Rightarrow> json \<Rightarrow> json \<Rightarrow> string \<Rightarrow> disk \<Rightarrow> artifact_ref lresult \<times> disk" where
  "publish_json sha document media_type schema_id d =
     (case canonical_json_bytes document of
        Inl e \<Rightarrow> (Inl e, d)
      | Inr bytes \<Rightarrow> publish_bytes sha bytes media_type schema_id d)"

section \<open>Claims and outcomes\<close>

text \<open>\<open>_create_once\<close>: whether the file was created, and the directory afterwards.\<close>

definition create_once :: "string \<Rightarrow> string \<Rightarrow> (string, string) dict \<Rightarrow> bool \<times> (string, string) dict" where
  "create_once name value files =
     (case map_of files name of None \<Rightarrow> (True, files @ [(name, value)]) | Some _ \<Rightarrow> (False, files))"

datatype claim_decision = CLAIMED | REPLAY "(string \<times> json) list"

definition claim_document :: "string \<Rightarrow> work_ticket \<Rightarrow> json" where
  "claim_document fingerprint t =
     JObj [(''schema_version'', JStr ''1.0.0''), (''ticket_fingerprint'', JStr fingerprint),
           (''ticket_id'', JStr (wt_ticket_id t))]"

definition read_outcome :: "(string \<Rightarrow> json option) \<Rightarrow> string \<Rightarrow> disk \<Rightarrow> (string \<times> json) list option lresult" where
  "read_outcome loads ticket_id d =
     (case map_of (dk_outcomes d) ticket_id of
        None \<Rightarrow> Inr None
      | Some bytes \<Rightarrow>
          (case loads bytes of
             Some (JObj outcome) \<Rightarrow> Inr (Some outcome)
           | _ \<Rightarrow> Inl (DeltaError TICKET_ID_CONFLICT ''TICKET_OUTCOME_INVALID'')))"

definition claim ::
  "(string \<Rightarrow> string) \<Rightarrow> (string \<Rightarrow> json option) \<Rightarrow> bool \<Rightarrow> work_ticket \<Rightarrow> disk \<Rightarrow> claim_decision lresult \<times> disk" where
  "claim sha loads recover_incomplete t d =
     (case bindE (ticket_fingerprint sha t) (\<lambda>fp. canonical_json_bytes (claim_document fp t)) of
        Inl e \<Rightarrow> (Inl e, d)
      | Inr expected \<Rightarrow>
          (case create_once (wt_ticket_id t) expected (dk_claims d) of
             (True, claims) \<Rightarrow> (Inr CLAIMED, d\<lparr>dk_claims := claims\<rparr>)
           | (False, _) \<Rightarrow>
               (if map_of (dk_claims d) (wt_ticket_id t) \<noteq> Some expected
                then (Inl (DeltaError TICKET_ID_CONFLICT ''TICKET_ID_REUSED_WITH_DIFFERENT_FINGERPRINT''), d)
                else (bindE (read_outcome loads (wt_ticket_id t) d) (\<lambda>outcome.
                        case outcome of
                          None \<Rightarrow> if recover_incomplete then Inr CLAIMED
                                  else Inl (DeltaError TICKET_ALREADY_IN_PROGRESS ''TICKET_ALREADY_IN_PROGRESS'')
                        | Some document \<Rightarrow> Inr (REPLAY document)), d))))"

definition complete :: "work_ticket \<Rightarrow> (string \<times> json) list \<Rightarrow> disk \<Rightarrow> unit lresult \<times> disk" where
  "complete t outcome d =
     (if map_of (dk_claims d) (wt_ticket_id t) = None
      then (Inl (DeltaError TICKET_ID_CONFLICT ''TICKET_OUTCOME_WITHOUT_CLAIM''), d)
      else (case canonical_json_bytes (JObj outcome) of
              Inl e \<Rightarrow> (Inl e, d)
            | Inr encoded \<Rightarrow>
                (case create_once (wt_ticket_id t) encoded (dk_outcomes d) of
                   (True, outcomes) \<Rightarrow> (Inr (), d\<lparr>dk_outcomes := outcomes\<rparr>)
                 | (False, _) \<Rightarrow>
                     (ensure (map_of (dk_outcomes d) (wt_ticket_id t) = Some encoded)
                        (DeltaError TICKET_ID_CONFLICT ''TICKET_OUTCOME_CONFLICT''), d))))"

section \<open>The disk under all processes\<close>

inductive disk_step :: "(string \<Rightarrow> string) \<Rightarrow> disk \<Rightarrow> disk \<Rightarrow> bool" for sha where
  publishing: "publish_at sha locator value media_type schema_id d = (res, d') \<Longrightarrow> disk_step sha d d'"
| claiming: "claim sha loads recover t d = (dec, d') \<Longrightarrow> disk_step sha d d'"
| completing: "complete t outcome d = (fin, d') \<Longrightarrow> disk_step sha d d'"

inductive_cases disk_stepE: "disk_step sha d d'"

datatype disk_file = Artifact string | Claim string | Outcome string

fun disk_content :: "disk \<Rightarrow> disk_file \<Rightarrow> string option" where
  "disk_content d (Artifact locator) = map_of (dk_artifacts d) locator"
| "disk_content d (Claim ticket_id) = map_of (dk_claims d) ticket_id"
| "disk_content d (Outcome ticket_id) = map_of (dk_outcomes d) ticket_id"

definition disk_inv :: "disk \<Rightarrow> bool" where
  "disk_inv d \<longleftrightarrow>
     distinct (map fst (dk_artifacts d)) \<and> distinct (map fst (dk_claims d)) \<and> distinct (map fst (dk_outcomes d)) \<and>
     (\<forall>(k, _)\<in>set (dk_artifacts d). \<not> locator_refused k \<and> k \<noteq> ''.'') \<and>
     fst ` set (dk_outcomes d) \<subseteq> fst ` set (dk_claims d)"

lemma map_of_None_fst: "map_of xs k = None \<longleftrightarrow> k \<notin> fst ` set xs"
  by (simp add: map_of_eq_None_iff)

lemma link_artifact_Inr:
  assumes "link_artifact path content d = Inr d'"
  shows "\<not> not_a_file d path" "map_of (dk_artifacts d') path = Some content" "dk_claims d' = dk_claims d"
    "dk_outcomes d' = dk_outcomes d"
    "d' = d \<or> map_of (dk_artifacts d) path = None \<and> dk_artifacts d' = dk_artifacts d @ [(path, content)]"
  using assms unfolding link_artifact_def by (auto simp: map_add_def split: if_splits option.splits)

lemma publish_at_disk:
  assumes "publish_at sha locator content media_type schema_id d = (res, d')"
  shows "d' = d \<or> (\<not> locator_refused locator \<and> link_artifact locator content d = Inr d')"
  using assms unfolding publish_at_def resolve_locator_def by (auto split: sum.splits if_splits)

lemma claim_disk:
  assumes "claim sha loads recover t d = (dec, d')"
  shows "d' = d \<or> (\<exists>bytes. map_of (dk_claims d) (wt_ticket_id t) = None \<and>
    d' = d\<lparr>dk_claims := dk_claims d @ [(wt_ticket_id t, bytes)]\<rparr>)"
  using assms unfolding claim_def create_once_def by (auto split: sum.splits if_splits option.splits)

lemma complete_disk:
  assumes "complete t outcome d = (fin, d')"
  shows "d' = d \<or> (\<exists>bytes. map_of (dk_claims d) (wt_ticket_id t) \<noteq> None \<and> map_of (dk_outcomes d) (wt_ticket_id t) = None \<and>
    d' = d\<lparr>dk_outcomes := dk_outcomes d @ [(wt_ticket_id t, bytes)]\<rparr>)"
  using assms unfolding complete_def create_once_def by (auto split: sum.splits if_splits option.splits)

lemma disk_inv_empty: "disk_inv empty_disk"
  by (simp add: disk_inv_def empty_disk_def)

lemma disk_inv_link:
  "disk_inv d \<Longrightarrow> link_artifact path content d = Inr d' \<Longrightarrow> \<not> locator_refused path \<Longrightarrow> disk_inv d'"
  using link_artifact_Inr [of path content d d'] unfolding disk_inv_def
  by (auto simp: map_of_None_fst not_a_file_def)

lemma disk_inv_claim:
  "disk_inv d \<Longrightarrow> map_of (dk_claims d) k = None \<Longrightarrow> disk_inv (d\<lparr>dk_claims := dk_claims d @ [(k, bytes)]\<rparr>)"
  unfolding disk_inv_def map_of_None_fst by (simp add: subset_insertI2)

lemma disk_inv_outcome:
  "disk_inv d \<Longrightarrow> map_of (dk_outcomes d) k = None \<Longrightarrow> map_of (dk_claims d) k \<noteq> None \<Longrightarrow>
     disk_inv (d\<lparr>dk_outcomes := dk_outcomes d @ [(k, bytes)]\<rparr>)"
  unfolding disk_inv_def map_of_None_fst by simp

lemma disk_step_inv: "disk_inv d \<Longrightarrow> disk_step sha d d' \<Longrightarrow> disk_inv d'"
proof (erule disk_stepE)
  fix locator content media_type schema_id res
  assume "disk_inv d" "publish_at sha locator content media_type schema_id d = (res, d')"
  then show ?thesis using publish_at_disk disk_inv_link by metis
next
  fix loads recover t dec
  assume "disk_inv d" "claim sha loads recover t d = (dec, d')"
  then show ?thesis using claim_disk disk_inv_claim by metis
next
  fix t outcome fin
  assume "disk_inv d" "complete t outcome d = (fin, d')"
  then show ?thesis using complete_disk disk_inv_outcome by metis
qed

lemma disk_step_content:
  assumes "disk_step sha d d'" and "disk_content d f = Some v"
  shows "disk_content d' f = Some v"
  using assms
proof (elim disk_stepE)
  fix locator content media_type schema_id res
  assume "publish_at sha locator content media_type schema_id d = (res, d')"
  with publish_at_disk link_artifact_Inr(3-5) [of locator content d d'] assms(2) show ?thesis
    by (cases f) (force simp: map_add_def)+
next
  fix loads recover t dec
  assume "claim sha loads recover t d = (dec, d')"
  with claim_disk [of sha loads recover t d dec d'] assms(2) show ?thesis
    by (cases f) (force simp: map_add_def)+
next
  fix t outcome fin
  assume "complete t outcome d = (fin, d')"
  with complete_disk [of t outcome d fin d'] assms(2) show ?thesis
    by (cases f) (force simp: map_add_def)+
qed

interpretation disk: growing_system "\<lambda>d. d = empty_disk" "disk_step sha" disk_inv disk_content "(=)"
  by unfold_locales (auto simp: disk_inv_empty intro: disk_step_inv disk_step_content)

lemma disk_steps_content: "(disk_step sha)\<^sup>*\<^sup>* d d' \<Longrightarrow> disk_content d f = Some v \<Longrightarrow> disk_content d' f = Some v"
  by (induction rule: rtranclp_induct) (auto intro: disk_step_content)

lemma readable_kept:
  assumes "disk_step sha d d'" and "\<not> not_a_file d k" and "map_of (dk_artifacts d) k = Some content"
  shows "\<not> not_a_file d' k"
  using assms(1)
proof (elim disk_stepE)
  fix locator new media_type schema_id res
  assume published: "publish_at sha locator new media_type schema_id d = (res, d')"
  show ?thesis
  proof (cases "d' = d")
    case False
    with publish_at_disk [OF published] have link: "link_artifact locator new d = Inr d'" by blast
    note l = link_artifact_Inr [OF link]
    have "(k, content) \<in> set (dk_artifacts d)" using assms(3) by (rule map_of_SomeD)
    with l(1) have "\<not> path_below locator k" "\<not> path_below k locator" by (auto simp: not_a_file_def list_ex_iff)
    with assms(2) l(5) False show ?thesis by (auto simp: not_a_file_def)
  qed (use assms(2) in simp)
next
  fix loads recover t dec
  assume "claim sha loads recover t d = (dec, d')"
  with claim_disk [OF this] assms(2) show ?thesis by (auto simp: not_a_file_def)
next
  fix t outcome fin
  assume "complete t outcome d = (fin, d')"
  with complete_disk [OF this] assms(2) show ?thesis by (auto simp: not_a_file_def)
qed

lemma store_read_Inr:
  "store_read sha d r = Inr content \<longleftrightarrow> \<not> locator_refused (ar_locator r) \<and> \<not> not_a_file d (ar_locator r) \<and>
     map_of (dk_artifacts d) (ar_locator r) = Some content \<and> int (length content) = ar_byte_length r \<and>
     sha256_content_id sha content = ar_content_id r"
  unfolding store_read_def resolve_locator_def by (auto simp: bindE_eq_Inr)

lemma store_read_step: "disk_step sha d d' \<Longrightarrow> store_read sha' d r = Inr content \<Longrightarrow> store_read sha' d' r = Inr content"
  unfolding store_read_Inr using readable_kept [of sha d d' "ar_locator r"] disk_step_content [of sha d d' "Artifact (ar_locator r)"]
  by simp

lemma store_read_steps:
  "(disk_step sha)\<^sup>*\<^sup>* d d' \<Longrightarrow> store_read sha' d r = Inr content \<Longrightarrow> store_read sha' d' r = Inr content"
  by (induction rule: rtranclp_induct) (auto intro: store_read_step)

lemma publish_at_Inr:
  assumes "publish_at sha locator content media_type schema_id d = (Inr r, d')"
  shows "store_read sha d' r = Inr content \<and> ar_locator r = locator \<and> ar_content_id r = sha256_content_id sha content \<and>
    (\<exists>kw. init_artifact_ref kw = Inr r) \<and> ar_media_type r = media_type \<and> ar_schema_id r = schema_id"
proof -
  from assms obtain path kw where link: "\<not> locator_refused locator" "link_artifact locator content d = Inr d'"
    and kw: "kw = [(''byte_length'', JInt (int (length content))), (''content_id'', JStr (sha256_content_id sha content)),
      (''locator'', JStr locator), (''media_type'', media_type), (''schema_id'', JStr schema_id),
      (''schema_version'', JStr ''1.0.0'')]" and init: "init_artifact_ref kw = Inr r" and read: "\<exists>v. store_read sha d' r = Inr v"
    unfolding publish_at_def resolve_locator_def by (auto simp: bindE_eq_Inr split: sum.splits if_splits)
  have r: "ar_locator r = locator" "ar_content_id r = sha256_content_id sha content" "ar_media_type r = media_type"
      "ar_schema_id r = schema_id"
    using init unfolding init_artifact_ref_def kw
    by (auto simp: bindE_eq_Inr obj_get_def require_locator_def require_content_id_def require_schema_id_def split: if_splits)
  have "map_of (dk_artifacts d') locator = Some content" using link_artifact_Inr(2) [OF link(2)] .
  with read r init show ?thesis by (auto simp: store_read_Inr)
qed

end
