(* ===== verification/Local_Training.thy ===== *)
theory Local_Training
  imports Local_Updates
begin

text \<open>
  The training side of a round: the configuration (\<open>training/config.py\<close>), tokenizer, windows and sampler
  (\<open>training/data.py\<close>), the accounting of tokens (\<open>training/token_accounting.py\<close>), the telemetry
  (\<open>worker/telemetry.py\<close>) and one optimizer step (\<open>training/local_round.py\<close>). The model of type \<open>'m\<close>, its
  loss and the optimizer are torch: \<open>trainer\<close> gathers what the step asks of them. A loss is carried by its
  \<open>repr\<close>.
\<close>

section \<open>Configuration\<close>

record baseline_config =
  bc_run_id :: json
  bc_corpus_path :: json
  bc_tokenizer_path :: json
  bc_output_dir :: json
  bc_seed :: int
  bc_sequence_length :: int
  bc_batch_size :: int
  bc_gradient_accumulation_steps :: int
  bc_optimizer_steps :: int
  bc_checkpoint_every_optimizer_steps :: int
  bc_vocab_size :: int
  bc_hidden_size :: int
  bc_learning_rate_nanos :: int
  bc_weight_decay_ppm :: int
  bc_beta1_ppm :: int
  bc_beta2_ppm :: int
  bc_epsilon_nanos :: int

definition config_error :: "string \<Rightarrow> local_exn" where
  "config_error message = DeltaError SCHEMA_INVALID message"

definition config_int :: "(string \<times> json) list \<Rightarrow> string \<Rightarrow> int lresult" where
  "config_int kw field = raise_none (config_error ''config integer must be non-negative'') (non_negative_int (obj_get kw field))"

definition check_run_id :: "json \<Rightarrow> unit lresult" where
  "check_run_id v =
     (if \<not> truthy v then Inl (config_error ''run_id is invalid'')
      else (case py_len v of None \<Rightarrow> Inl LocalTypeError | Some n \<Rightarrow> ensure (\<not> n > 128) (config_error ''run_id is invalid'')))"

text \<open>\<open>device\<close> and \<open>dtype\<close> have one accepted value each, like the version; the record leaves them out.\<close>

definition init_config :: "(string \<times> json) list \<Rightarrow> baseline_config lresult" where
  "init_config kw =
     bindE (ensure (obj_get kw ''schema_version'' = JStr ''1.0.0'') (config_error ''CONFIG_VERSION_UNSUPPORTED'')) (\<lambda>_.
     bindE (check_run_id (obj_get kw ''run_id'')) (\<lambda>_.
     bindE (ensure (list_all (\<lambda>f. truthy (obj_get kw f)) [''corpus_path'', ''tokenizer_path'', ''output_dir''])
              (config_error ''config paths must be non-empty'')) (\<lambda>_.
     bindE (ensure (obj_get kw ''device'' = JStr ''cpu'' \<and> obj_get kw ''dtype'' = JStr ''float32'')
              (config_error ''feature 001 supports only cpu/float32 reproducibility class'')) (\<lambda>_.
     bindE (config_int kw ''batch_size'') (\<lambda>batch.
     bindE (config_int kw ''beta1_ppm'') (\<lambda>beta1.
     bindE (config_int kw ''beta2_ppm'') (\<lambda>beta2.
     bindE (config_int kw ''checkpoint_every_optimizer_steps'') (\<lambda>every.
     bindE (config_int kw ''epsilon_nanos'') (\<lambda>epsilon.
     bindE (config_int kw ''gradient_accumulation_steps'') (\<lambda>accumulation.
     bindE (config_int kw ''hidden_size'') (\<lambda>hidden.
     bindE (config_int kw ''learning_rate_nanos'') (\<lambda>rate.
     bindE (config_int kw ''optimizer_steps'') (\<lambda>steps.
     bindE (config_int kw ''seed'') (\<lambda>seed.
     bindE (config_int kw ''sequence_length'') (\<lambda>sequence.
     bindE (config_int kw ''vocab_size'') (\<lambda>vocab.
     bindE (config_int kw ''weight_decay_ppm'') (\<lambda>decay.
     bindE (ensure (0 \<notin> set [batch, every, epsilon, accumulation, hidden, rate, steps, sequence, vocab])
              (config_error ''config dimensions and schedules must be positive'')) (\<lambda>_.
     bindE (ensure (0 \<le> beta1 \<and> beta1 < beta2 \<and> beta2 < 1000000)
              (config_error ''AdamW betas must satisfy 0 <= beta1 < beta2 < 1'')) (\<lambda>_.
     bindE (ensure (\<not> decay > 1000000) (config_error ''weight_decay_ppm cannot exceed one'')) (\<lambda>_.
     Inr \<lparr>bc_run_id = obj_get kw ''run_id'', bc_corpus_path = obj_get kw ''corpus_path'',
          bc_tokenizer_path = obj_get kw ''tokenizer_path'', bc_output_dir = obj_get kw ''output_dir'', bc_seed = seed,
          bc_sequence_length = sequence, bc_batch_size = batch, bc_gradient_accumulation_steps = accumulation,
          bc_optimizer_steps = steps, bc_checkpoint_every_optimizer_steps = every, bc_vocab_size = vocab,
          bc_hidden_size = hidden, bc_learning_rate_nanos = rate, bc_weight_decay_ppm = decay, bc_beta1_ppm = beta1,
          bc_beta2_ppm = beta2, bc_epsilon_nanos = epsilon\<rparr>))))))))))))))))))))"

definition CONFIG_FIELDS :: "string list" where
  "CONFIG_FIELDS =
     [''run_id'', ''corpus_path'', ''tokenizer_path'', ''output_dir'', ''seed'', ''device'', ''dtype'', ''sequence_length'',
      ''batch_size'', ''gradient_accumulation_steps'', ''optimizer_steps'', ''checkpoint_every_optimizer_steps'',
      ''vocab_size'', ''hidden_size'', ''learning_rate_nanos'', ''weight_decay_ppm'', ''beta1_ppm'', ''beta2_ppm'',
      ''epsilon_nanos'', ''schema_version'']"

definition config_from_mapping :: "(string \<times> json) list \<Rightarrow> baseline_config lresult" where
  "config_from_mapping v =
     bindE (ensure (set (map fst v) = set CONFIG_FIELDS) (config_error ''CONFIG_FIELDS_INVALID'')) (\<lambda>_.
     on_type_error (config_error ''CONFIG_FIELD_TYPE_INVALID'') (init_config v))"

section \<open>Tokenizer and samples\<close>

record tokenizer =
  tk_vocabulary :: "(string, int) dict"
  tk_pad_token :: string
  tk_unknown_token :: string

definition init_tokenizer :: "(string, int) dict \<Rightarrow> json \<Rightarrow> json \<Rightarrow> tokenizer lresult" where
  "init_tokenizer vocabulary pad_token unknown_token =
     (let known = (\<lambda>v. case v of JStr s \<Rightarrow> Inr (if s \<in> fst ` set vocabulary then Some s else None)
                       | JArr _ \<Rightarrow> Inl LocalTypeError | JObj _ \<Rightarrow> Inl LocalTypeError | _ \<Rightarrow> Inr None);
          bad = DeltaError SCHEMA_INVALID ''TOKENIZER_VOCABULARY_INVALID''
      in
      bindE (ensure (vocabulary \<noteq> [] \<and> distinct (map snd vocabulary) \<and>
                     sort (map snd vocabulary) = map int [0..<length vocabulary]) bad) (\<lambda>_.
      bindE (bindE (known pad_token) (raise_none bad)) (\<lambda>pad.
      bindE (bindE (known unknown_token) (raise_none bad)) (\<lambda>unknown.
      Inr \<lparr>tk_vocabulary = vocabulary, tk_pad_token = pad, tk_unknown_token = unknown\<rparr>))))"

fun vocabulary_items :: "(string \<times> json) list \<Rightarrow> (string, int) dict lresult" where
  "vocabulary_items [] = Inr []"
| "vocabulary_items ((k, v) # kvs) =
     bindE (raise_none (DeltaError SCHEMA_INVALID ''TOKENIZER_VOCABULARY_INVALID'') (int_opt v)) (\<lambda>i.
     bindE (vocabulary_items kvs) (\<lambda>rest. Inr ((k, i) # rest)))"

definition tokenizer_from_json_bytes :: "(string \<Rightarrow> json option) \<Rightarrow> string \<Rightarrow> tokenizer lresult" where
  "tokenizer_from_json_bytes loads payload =
     (case loads payload of
        None \<Rightarrow> Inl (DeltaError SCHEMA_INVALID ''TOKENIZER_JSON_INVALID'')
      | Some (JObj v) \<Rightarrow>
          bindE (ensure (set (map fst v) = {''pad_token'', ''schema_version'', ''unknown_token'', ''vocabulary''} \<and>
                         obj_get v ''schema_version'' = JStr ''1.0.0'' \<and> is_obj (obj_get v ''vocabulary''))
                   (DeltaError SCHEMA_INVALID ''TOKENIZER_SCHEMA_INVALID'')) (\<lambda>_.
          bindE (vocabulary_items (obj_fields (obj_get v ''vocabulary''))) (\<lambda>vocabulary.
          init_tokenizer vocabulary (obj_get v ''pad_token'') (obj_get v ''unknown_token'')))
      | Some _ \<Rightarrow> Inl (DeltaError SCHEMA_INVALID ''TOKENIZER_SCHEMA_INVALID''))"

definition pad_id :: "tokenizer \<Rightarrow> int" where
  "pad_id t = the (map_of (tk_vocabulary t) (tk_pad_token t))"

text \<open>\<open>text.split()\<close> on code points: the maximal runs without white space.\<close>

fun split_spaces :: "nat list \<Rightarrow> nat list list" where
  "split_spaces [] = [[]]"
| "split_spaces (p # ps) =
     (if is_space_point p then [] # split_spaces ps
      else (case split_spaces ps of w # ws \<Rightarrow> (p # w) # ws | [] \<Rightarrow> [[p]]))"

definition tokenizer_encode :: "tokenizer \<Rightarrow> string \<Rightarrow> int list" where
  "tokenizer_encode t s =
     (let points = (\<lambda>x. utf8_points (map of_char x));
          unknown = the (map_of (tk_vocabulary t) (tk_unknown_token t));
          vocabulary = map (\<lambda>(k, i). (points k, i)) (tk_vocabulary t)
      in map (\<lambda>w. case map_of vocabulary w of None \<Rightarrow> unknown | Some i \<Rightarrow> i) (filter (\<lambda>w. w \<noteq> []) (split_spaces (points s))))"

record token_sample =
  sm_inputs :: "int list"
  sm_targets :: "int list"

text \<open>The windows at \<open>start, start + length, \<dots>\<close>, each one token longer than the sequence.\<close>

function windows :: "nat \<Rightarrow> int list \<Rightarrow> token_sample list" where
  "windows n tokens =
     (if n = 0 \<or> length tokens < n + 1 then []
      else (let window = take (n + 1) tokens in
            \<lparr>sm_inputs = butlast window, sm_targets = tl window\<rparr> # windows n (drop n tokens)))"
  by pat_completeness auto

termination windows
  by (relation "measure (\<lambda>(n, tokens). length tokens)") auto

declare windows.simps [simp del]

text \<open>A sequence length of zero makes \<open>range\<close> raise.\<close>

definition load_samples_from_text :: "string \<Rightarrow> tokenizer \<Rightarrow> int \<Rightarrow> token_sample list lresult" where
  "load_samples_from_text s t sequence_length =
     bindE (ensure (sequence_length \<noteq> 0) LocalValueError) (\<lambda>_.
     (let samples = windows (nat sequence_length) (tokenizer_encode t s) in
      bindE (ensure (samples \<noteq> []) (DeltaError SCHEMA_INVALID ''CORPUS_TOO_SHORT'')) (\<lambda>_. Inr samples)))"

section \<open>The sampler\<close>

record sampler =
  sp_sample_count :: nat
  sp_seed :: nat
  sp_cursor :: nat

definition init_sampler :: "int \<Rightarrow> int \<Rightarrow> int \<Rightarrow> sampler lresult" where
  "init_sampler sample_count seed cursor =
     (if sample_count \<le> 0 \<or> seed < 0 \<or> cursor < 0 then Inl LocalValueError
      else Inr \<lparr>sp_sample_count = nat sample_count, sp_seed = nat seed, sp_cursor = nat cursor\<rparr>)"

text \<open>Digests of equal length compare like their hexadecimal text.\<close>

definition epoch_order :: "(string \<Rightarrow> string) \<Rightarrow> sampler \<Rightarrow> nat \<Rightarrow> nat list" where
  "epoch_order sha s epoch =
     sort_key (\<lambda>index. name_key (sha (''deltareduce.sampler.v1:'' @ nat_text (sp_seed s) @ '':'' @ nat_text epoch @ '':'' @
                                     nat_text index)))
       [0..<sp_sample_count s]"

definition index_at :: "(string \<Rightarrow> string) \<Rightarrow> sampler \<Rightarrow> nat \<Rightarrow> nat" where
  "index_at sha s cursor = epoch_order sha s (cursor div sp_sample_count s) ! (cursor mod sp_sample_count s)"

definition sampler_take :: "(string \<Rightarrow> string) \<Rightarrow> int \<Rightarrow> sampler \<Rightarrow> (nat list \<times> sampler) lresult" where
  "sampler_take sha draws s =
     (if draws \<le> 0 then Inl LocalValueError
      else Inr (map (\<lambda>offset. index_at sha s (sp_cursor s + offset)) [0..<nat draws],
                s\<lparr>sp_cursor := sp_cursor s + nat draws\<rparr>))"

section \<open>Token accounting\<close>

record token_accounting =
  ta_effective_steps :: int
  ta_observed_micro_steps :: int
  ta_committed_micro_steps :: int
  ta_processed_tokens :: int
  ta_cursor_start :: int
  ta_cursor_end :: int
  ta_pending_micro_steps :: int

definition accounting_error :: "string \<Rightarrow> local_exn" where
  "accounting_error message = DeltaError INVALID_TOKEN_ACCOUNTING message"

definition check_token_accounting :: "token_accounting \<Rightarrow> token_accounting lresult" where
  "check_token_accounting a =
     bindE (ensure (list_all (\<lambda>n. \<not> n < 0)
              [ta_effective_steps a, ta_observed_micro_steps a, ta_committed_micro_steps a, ta_processed_tokens a,
               ta_cursor_start a, ta_cursor_end a, ta_pending_micro_steps a])
              (accounting_error ''ACCOUNTING_NON_NEGATIVE_INTEGER_REQUIRED'')) (\<lambda>_.
     bindE (ensure (\<not> ta_cursor_end a < ta_cursor_start a) (accounting_error ''ACCOUNTING_CURSOR_INVALID'')) (\<lambda>_.
     bindE (ensure (\<not> ta_committed_micro_steps a > ta_observed_micro_steps a)
              (accounting_error ''ACCOUNTING_MICRO_STEP_RELATION_INVALID'')) (\<lambda>_.
     Inr a)))"

record boundary_ledger =
  bl_range_start :: int
  bl_range_end :: int
  bl_effective_steps :: int
  bl_observed_micro_steps :: int
  bl_committed_micro_steps :: int
  bl_processed_tokens :: int
  bl_cursor_end :: int
  bl_pending_tokens :: int
  bl_pending_cursor_end :: "int option"
  bl_pending_micro_steps :: int

definition init_boundary_ledger :: "int \<Rightarrow> int \<Rightarrow> boundary_ledger lresult" where
  "init_boundary_ledger range_start range_end =
     bindE (ensure (\<not> range_start < 0 \<and> \<not> range_end < 0) (accounting_error ''ACCOUNTING_NON_NEGATIVE_INTEGER_REQUIRED'')) (\<lambda>_.
     bindE (ensure (\<not> range_end \<le> range_start) (accounting_error ''ACCOUNTING_RANGE_INVALID'')) (\<lambda>_.
     Inr \<lparr>bl_range_start = range_start, bl_range_end = range_end, bl_effective_steps = 0, bl_observed_micro_steps = 0,
          bl_committed_micro_steps = 0, bl_processed_tokens = 0, bl_cursor_end = range_start, bl_pending_tokens = 0,
          bl_pending_cursor_end = None, bl_pending_micro_steps = 0\<rparr>))"

definition expected_start :: "boundary_ledger \<Rightarrow> int" where
  "expected_start l = (case bl_pending_cursor_end l of Some c \<Rightarrow> c | None \<Rightarrow> bl_cursor_end l)"

definition stage_microbatch :: "int \<Rightarrow> int \<Rightarrow> int \<Rightarrow> boundary_ledger \<Rightarrow> boundary_ledger lresult" where
  "stage_microbatch cursor_start cursor_end non_padding_tokens l =
     bindE (ensure (\<not> cursor_start < 0 \<and> \<not> cursor_end < 0 \<and> \<not> non_padding_tokens < 0)
              (accounting_error ''ACCOUNTING_NON_NEGATIVE_INTEGER_REQUIRED'')) (\<lambda>_.
     bindE (ensure (\<not> (cursor_start \<noteq> expected_start l \<or> cursor_end \<le> cursor_start \<or> cursor_end > bl_range_end l))
              (accounting_error ''ACCOUNTING_STAGE_RANGE_INVALID'')) (\<lambda>_.
     Inr (l\<lparr>bl_observed_micro_steps := bl_observed_micro_steps l + 1,
            bl_pending_micro_steps := bl_pending_micro_steps l + 1,
            bl_pending_tokens := bl_pending_tokens l + non_padding_tokens,
            bl_pending_cursor_end := Some cursor_end\<rparr>)))"

definition accounting_snapshot :: "boundary_ledger \<Rightarrow> token_accounting lresult" where
  "accounting_snapshot l =
     check_token_accounting
       \<lparr>ta_effective_steps = bl_effective_steps l, ta_observed_micro_steps = bl_observed_micro_steps l,
        ta_committed_micro_steps = bl_committed_micro_steps l, ta_processed_tokens = bl_processed_tokens l,
        ta_cursor_start = bl_range_start l, ta_cursor_end = bl_cursor_end l,
        ta_pending_micro_steps = bl_pending_micro_steps l\<rparr>"

definition clear_pending :: "boundary_ledger \<Rightarrow> boundary_ledger" where
  "clear_pending l = l\<lparr>bl_pending_tokens := 0, bl_pending_cursor_end := None, bl_pending_micro_steps := 0\<rparr>"

definition commit_optimizer_step :: "int \<Rightarrow> boundary_ledger \<Rightarrow> token_accounting lresult \<times> boundary_ledger" where
  "commit_optimizer_step expected_micro_steps l =
     (case bl_pending_cursor_end l of
        Some cursor \<Rightarrow>
          (if expected_micro_steps \<le> 0 \<or> bl_pending_micro_steps l \<noteq> expected_micro_steps
           then (Inl (accounting_error ''ACCOUNTING_BOUNDARY_INCOMPLETE''), l)
           else (let l' = clear_pending
                       (l\<lparr>bl_effective_steps := bl_effective_steps l + 1,
                          bl_committed_micro_steps := bl_committed_micro_steps l + bl_pending_micro_steps l,
                          bl_processed_tokens := bl_processed_tokens l + bl_pending_tokens l, bl_cursor_end := cursor\<rparr>)
                 in (accounting_snapshot l', l')))
      | None \<Rightarrow> (Inl (accounting_error ''ACCOUNTING_BOUNDARY_INCOMPLETE''), l))"

definition discard_partial_accumulation :: "boundary_ledger \<Rightarrow> token_accounting lresult \<times> boundary_ledger" where
  "discard_partial_accumulation l = (accounting_snapshot (clear_pending l), clear_pending l)"

section \<open>One optimizer step\<close>

text \<open>
  \<open>tr_forward\<close> is the loss of a batch and the model with the gradients added, \<open>tr_step\<close> the optimizer's
  update, \<open>tr_zero_grad\<close> the model without its gradients, \<open>tr_mean_loss\<close> the accumulated loss divided by the number of micro-batches.
\<close>

record 'm trainer =
  tr_forward :: "'m \<Rightarrow> token_sample list \<Rightarrow> (string \<times> 'm) lresult"
  tr_step :: "'m \<Rightarrow> 'm lresult"
  tr_zero_grad :: "'m \<Rightarrow> 'm"
  tr_mean_loss :: "string list \<Rightarrow> string"

record 'm training_state =
  ts_model :: 'm
  ts_sampler :: sampler
  ts_micro_step :: int
  ts_optimizer_step :: int
  ts_processed_tokens :: int

record training_metric =
  tm_step :: int
  tm_optimizer_step :: int
  tm_processed_tokens :: int
  tm_loss :: string

definition non_padding :: "token_sample list \<Rightarrow> int" where
  "non_padding samples = sum_list (map (\<lambda>s. int (length (filter (\<lambda>t. t \<noteq> 0) (sm_targets s)))) samples)"

text \<open>One pass of the loop, up to the accounting of the micro-batch.\<close>

definition train_microbatch ::
  "(string \<Rightarrow> string) \<Rightarrow> 'm trainer \<Rightarrow> (boundary_ledger \<Rightarrow> unit lresult) \<Rightarrow> baseline_config \<Rightarrow> token_sample list \<Rightarrow>
   'm training_state \<Rightarrow> boundary_ledger \<Rightarrow> (string \<times> int) lresult \<times> 'm training_state \<times> boundary_ledger" where
  "train_microbatch sha tr before_microbatch config samples st l =
     (case before_microbatch l of
        Inl e \<Rightarrow> (Inl e, st, l)
      | Inr _ \<Rightarrow>
          (case sampler_take sha (bc_batch_size config) (ts_sampler st) of
             Inl e \<Rightarrow> (Inl e, st, l)
           | Inr (indices, drawn) \<Rightarrow>
               (let st' = st\<lparr>ts_sampler := drawn\<rparr> in
                if \<not> list_all (\<lambda>i. i < length samples) indices then (Inl (OtherException ''IndexError''), st', l)
                else
                  (let batch = map (\<lambda>i. samples ! i) indices in
                   case tr_forward tr (ts_model st) batch of
                     Inl e \<Rightarrow> (Inl e, st', l)
                   | Inr (loss, model) \<Rightarrow>
                       if \<not> float_finite loss then (Inl (DeltaError INVALID_MANIFEST ''NON_FINITE_LOSS''), st', l)
                       else
                         (case stage_microbatch (int (sp_cursor (ts_sampler st))) (int (sp_cursor drawn)) (non_padding batch) l of
                            Inl e \<Rightarrow> (Inl e, st', l)
                          | Inr l' \<Rightarrow> (Inr (loss, non_padding batch), st'\<lparr>ts_model := model\<rparr>, l'))))))"

fun train_microbatches ::
  "(string \<Rightarrow> string) \<Rightarrow> 'm trainer \<Rightarrow> (boundary_ledger \<Rightarrow> unit lresult) \<Rightarrow> baseline_config \<Rightarrow> token_sample list \<Rightarrow> nat \<Rightarrow>
   'm training_state \<Rightarrow> boundary_ledger \<Rightarrow> (string \<times> int) list lresult \<times> 'm training_state \<times> boundary_ledger" where
  "train_microbatches sha tr before config samples 0 st l = (Inr [], st, l)"
| "train_microbatches sha tr before config samples (Suc n) st l =
     (case train_microbatch sha tr before config samples st l of
        (Inl e, st', l') \<Rightarrow> (Inl e, st', l')
      | (Inr x, st', l') \<Rightarrow>
          (case train_microbatches sha tr before config samples n st' l' of
             (Inl e, st'', l'') \<Rightarrow> (Inl e, st'', l'')
           | (Inr xs, st'', l'') \<Rightarrow> (Inr (x # xs), st'', l'')))"

text \<open>The handler: the cursor goes back, gradients and what was staged are discarded; the end of the process runs no handler.\<close>

definition roll_back ::
  "'m trainer \<Rightarrow> sampler \<Rightarrow> local_exn \<Rightarrow> 'm training_state \<Rightarrow> boundary_ledger \<Rightarrow>
   training_metric lresult \<times> 'm training_state \<times> boundary_ledger" where
  "roll_back tr start e st l =
     (if e = ProcessExit then (Inl e, st, l)
      else (let (discarded, l') = discard_partial_accumulation l; st' = st\<lparr>ts_sampler := start, ts_model := tr_zero_grad tr (ts_model st)\<rparr>
            in case discarded of Inl e' \<Rightarrow> (Inl e', st', l') | Inr _ \<Rightarrow> (Inl e, st', l')))"

definition train_one_optimizer_step ::
  "(string \<Rightarrow> string) \<Rightarrow> 'm trainer \<Rightarrow> (boundary_ledger \<Rightarrow> unit lresult) \<Rightarrow> baseline_config \<Rightarrow> token_sample list \<Rightarrow>
   'm training_state \<Rightarrow> boundary_ledger \<Rightarrow> training_metric lresult \<times> 'm training_state \<times> boundary_ledger" where
  "train_one_optimizer_step sha tr before config samples st l =
     (if ts_optimizer_step st \<ge> bc_optimizer_steps config then (Inl LocalValueError, st, l)
      else if ts_micro_step st mod bc_gradient_accumulation_steps config \<noteq> 0 then (Inl LocalValueError, st, l)
      else
        (case train_microbatches sha tr before config samples (nat (bc_gradient_accumulation_steps config)) st l of
           (Inl e, st', l') \<Rightarrow> roll_back tr (ts_sampler st) e st' l'
         | (Inr batches, st', l') \<Rightarrow>
             (case tr_step tr (ts_model st') of
                Inl e \<Rightarrow> roll_back tr (ts_sampler st) e st' l'
              | Inr model \<Rightarrow>
                  (let st'' = st'\<lparr>ts_model := model, ts_micro_step := ts_micro_step st' + int (length batches),
                                 ts_optimizer_step := ts_optimizer_step st' + 1,
                                 ts_processed_tokens := ts_processed_tokens st' + sum_list (map snd batches)\<rparr>
                   in
                   case commit_optimizer_step (bc_gradient_accumulation_steps config) l' of
                     (Inl e, l'') \<Rightarrow> (Inl e, st'', l'')
                   | (Inr committed, l'') \<Rightarrow>
                       (if ta_effective_steps committed \<noteq> ts_optimizer_step st'' \<or>
                           ta_committed_micro_steps committed \<noteq> ts_micro_step st'' \<or>
                           ta_processed_tokens committed \<noteq> ts_processed_tokens st''
                        then (Inl (accounting_error ''ACCOUNTING_STATE_DIVERGENCE''), st'', l'')
                        else (Inr \<lparr>tm_step = ts_micro_step st'', tm_optimizer_step = ts_optimizer_step st'',
                                   tm_processed_tokens = ts_processed_tokens st'',
                                   tm_loss = tr_mean_loss tr (map fst batches)\<rparr>, st'', l''))))))"

section \<open>Telemetry\<close>

record lifecycle_event =
  le_sequence :: nat
  le_state :: local_round_state

record local_round_metric =
  lm_optimizer_step :: int
  lm_micro_step :: int
  lm_processed_tokens :: int
  lm_loss_fp64_bits :: string
  lm_learning_rate_nanos :: int

record telemetry =
  te_ticket_id :: string
  te_domain_id :: string
  te_state :: local_round_state
  te_events :: "lifecycle_event list"
  te_metrics :: "local_round_metric list"

definition append_event :: "telemetry \<Rightarrow> telemetry" where
  "append_event t = t\<lparr>te_events := te_events t @ [\<lparr>le_sequence = length (te_events t), le_state = te_state t\<rparr>]\<rparr>"

definition init_telemetry :: "string \<Rightarrow> string \<Rightarrow> telemetry" where
  "init_telemetry ticket_id domain_id =
     append_event \<lparr>te_ticket_id = ticket_id, te_domain_id = domain_id, te_state = RECEIVED, te_events = [], te_metrics = []\<rparr>"

definition move_to :: "local_round_state \<Rightarrow> telemetry \<Rightarrow> telemetry lresult" where
  "move_to target t = bindE (transition (te_state t) target) (\<lambda>s. Inr (append_event (t\<lparr>te_state := s\<rparr>)))"

definition record_optimizer_step :: "(string \<Rightarrow> string) \<Rightarrow> int \<Rightarrow> training_metric \<Rightarrow> telemetry \<Rightarrow> telemetry lresult" where
  "record_optimizer_step fp64_bits learning_rate_nanos metric t =
     (if te_state t \<noteq> RUNNING then Inl (DeltaError INVALID_WORKER_TRANSITION ''METRIC_OUTSIDE_RUNNING_STATE'')
      else Inr (t\<lparr>te_metrics := te_metrics t @
             [\<lparr>lm_optimizer_step = tm_optimizer_step metric, lm_micro_step = tm_step metric,
               lm_processed_tokens = tm_processed_tokens metric, lm_loss_fp64_bits = fp64_bits (tm_loss metric),
               lm_learning_rate_nanos = learning_rate_nanos\<rparr>]\<rparr>))"

fun state_value :: "local_round_state \<Rightarrow> string" where
  "state_value ACCEPTED = ''ACCEPTED''"
| "state_value CANCELLED = ''CANCELLED''"
| "state_value COMPLETED = ''COMPLETED''"
| "state_value FAILED = ''FAILED''"
| "state_value RECEIVED = ''RECEIVED''"
| "state_value RUNNING = ''RUNNING''"

definition event_to_dict :: "telemetry \<Rightarrow> lifecycle_event \<Rightarrow> json" where
  "event_to_dict t e =
     JObj [(''domain_id'', JStr (te_domain_id t)), (''schema_version'', JStr ''1.0.0''),
           (''sequence'', JInt (int (le_sequence e))), (''state'', JStr (state_value (le_state e))),
           (''ticket_id'', JStr (te_ticket_id t))]"

definition metric_to_dict :: "local_round_metric \<Rightarrow> json" where
  "metric_to_dict m =
     JObj [(''learning_rate_nanos'', JInt (lm_learning_rate_nanos m)), (''loss_fp64_bits'', JStr (lm_loss_fp64_bits m)),
           (''micro_step'', JInt (lm_micro_step m)), (''optimizer_step'', JInt (lm_optimizer_step m)),
           (''processed_tokens'', JInt (lm_processed_tokens m)), (''schema_version'', JStr ''1.0.0'')]"

definition telemetry_to_dict :: "telemetry \<Rightarrow> json" where
  "telemetry_to_dict t =
     JObj [(''domain_id'', JStr (te_domain_id t)), (''events'', JArr (map (event_to_dict t) (te_events t))),
           (''metrics'', JArr (map metric_to_dict (te_metrics t))), (''schema_version'', JStr ''1.0.0''),
           (''ticket_id'', JStr (te_ticket_id t))]"

end
