(* ===== verification/Local_Engine.thy ===== *)
theory Local_Engine
  imports Local_Store Local_Training
begin

text \<open>
  A whole offline round: the resolution of a ticket (\<open>worker/validation.py\<close>), the publication of its results
  (\<open>worker/update_writer.py\<close>) and the engine (\<open>worker/engine.py\<close>). A bundle of tensors has the type \<open>'t\<close>;
  \<open>tensor_ops\<close> gathers what is asked of torch and safetensors, \<open>engine_env\<close> the callbacks and clocks of the
  engine and what other processes do to the disk at the stages of the round.
\<close>

section \<open>Tensors\<close>

record local_round_limits =
  lim_per_tensor_norm_ceiling_microunits :: int
  lim_global_norm_ceiling_microunits :: int

definition init_limits :: "json \<Rightarrow> json \<Rightarrow> local_round_limits lresult" where
  "init_limits per_tensor global =
     bindE (raise_none (ticket_error ''WORK_TICKET_NORM_LIMIT_INVALID'') (positive_int per_tensor)) (\<lambda>p.
     bindE (raise_none (ticket_error ''WORK_TICKET_NORM_LIMIT_INVALID'') (positive_int global)) (\<lambda>g.
     Inr \<lparr>lim_per_tensor_norm_ceiling_microunits = p, lim_global_norm_ceiling_microunits = g\<rparr>))"

text \<open>
  \<open>to_create\<close>: the training state with the parent's parameters loaded and read back; \<open>to_delta\<close>: the
  difference of parent and model, checked by reconstruction; \<open>to_validate\<close>: \<open>validate_fp32_tensor_bundle\<close> with
  its summary, with or without norm ceilings; \<open>to_divide\<close>, \<open>to_restrict\<close>, \<open>to_names\<close>, \<open>to_equal\<close>: the
  operations on a bundle; \<open>to_save\<close> and \<open>to_load\<close>: safetensors.
\<close>

record ('m, 't) tensor_ops =
  to_create :: "baseline_config \<Rightarrow> parameter_schema \<Rightarrow> 't \<Rightarrow> 'm lresult"
  to_trainer :: "baseline_config \<Rightarrow> 'm trainer"
  to_delta :: "parameter_schema \<Rightarrow> 't \<Rightarrow> 'm \<Rightarrow> 't lresult"
  to_validate :: "parameter_schema \<Rightarrow> local_round_limits option \<Rightarrow> 't \<Rightarrow> (string \<times> string) lresult"
  to_divide :: "'t \<Rightarrow> int \<Rightarrow> 't"
  to_restrict :: "string list \<Rightarrow> 't \<Rightarrow> 't"
  to_names :: "'t \<Rightarrow> string list"
  to_equal :: "'t \<Rightarrow> 't \<Rightarrow> bool"
  to_save :: "'t \<Rightarrow> string"
  to_load :: "string \<Rightarrow> 't option"
  to_fp64_bits :: "string \<Rightarrow> string"

definition require_complete_steps :: "int \<Rightarrow> int \<Rightarrow> int lresult" where
  "require_complete_steps effective_steps step_budget =
     (if effective_steps \<le> 0 \<or> effective_steps \<noteq> step_budget
      then Inl (candidate_error ''CANDIDATE_REQUIRES_A_EQUALS_H'') else Inr effective_steps)"

definition normalize_local_delta ::
  "('m, 't) tensor_ops \<Rightarrow> parameter_schema \<Rightarrow> local_round_limits \<Rightarrow> int \<Rightarrow> int \<Rightarrow> 't \<Rightarrow> 't lresult" where
  "normalize_local_delta ops schema limits effective_steps step_budget delta =
     bindE (require_complete_steps effective_steps step_budget) (\<lambda>denominator.
     bindE (to_validate ops schema None delta) (\<lambda>_.
     (let normalized = to_divide ops delta denominator in
      bindE (to_validate ops schema (Some limits) normalized) (\<lambda>_. Inr normalized))))"

section \<open>Resolution of a ticket\<close>

definition optimizer_profile_payload :: "baseline_config \<Rightarrow> json" where
  "optimizer_profile_payload config =
     JObj [(''beta1_ppm'', JInt (bc_beta1_ppm config)), (''beta2_ppm'', JInt (bc_beta2_ppm config)),
           (''epsilon_nanos'', JInt (bc_epsilon_nanos config)), (''kind'', JStr ''CANONICAL_ADAMW_V1''),
           (''learning_rate_nanos'', JInt (bc_learning_rate_nanos config)), (''schema_version'', JStr ''1.0.0''),
           (''weight_decay_ppm'', JInt (bc_weight_decay_ppm config))]"

definition optimizer_profile_id :: "(string \<Rightarrow> string) \<Rightarrow> baseline_config \<Rightarrow> string lresult" where
  "optimizer_profile_id sha config = document_fingerprint sha (optimizer_profile_payload config)"

definition arithmetic_profile_payload :: "baseline_config \<Rightarrow> string \<Rightarrow> local_round_limits \<Rightarrow> json" where
  "arithmetic_profile_payload config tokenizer_id limits =
     JObj [(''device'', JStr ''cpu''), (''dtype'', JStr ''float32''),
           (''global_norm_ceiling_microunits'', JInt (lim_global_norm_ceiling_microunits limits)),
           (''gradient_accumulation_steps'', JInt (bc_gradient_accumulation_steps config)),
           (''hidden_size'', JInt (bc_hidden_size config)),
           (''per_tensor_norm_ceiling_microunits'', JInt (lim_per_tensor_norm_ceiling_microunits limits)),
           (''schema_version'', JStr ''1.0.0''), (''sequence_length'', JInt (bc_sequence_length config)),
           (''tokenizer_id'', JStr tokenizer_id), (''vocab_size'', JInt (bc_vocab_size config))]"

definition arithmetic_profile_id ::
  "(string \<Rightarrow> string) \<Rightarrow> baseline_config \<Rightarrow> string \<Rightarrow> local_round_limits \<Rightarrow> string lresult" where
  "arithmetic_profile_id sha config tokenizer_id limits =
     document_fingerprint sha (arithmetic_profile_payload config tokenizer_id limits)"

record 't resolved_round =
  rl_ticket :: work_ticket
  rl_config :: baseline_config
  rl_parameter_schema :: parameter_schema
  rl_tokenizer_ref :: artifact_ref
  rl_tokenizer :: tokenizer
  rl_samples :: "token_sample list"
  rl_parent_parameters :: 't
  rl_limits :: local_round_limits

text \<open>\<open>decode\<close> is \<open>bytes.decode("utf-8")\<close>: whether the bytes are valid UTF-8.\<close>

definition resolve_data ::
  "(string \<Rightarrow> string) \<Rightarrow> (string \<Rightarrow> bool) \<Rightarrow> disk \<Rightarrow> work_ticket \<Rightarrow> baseline_config \<Rightarrow> tokenizer \<Rightarrow> token_sample list lresult" where
  "resolve_data sha decode d ticket config t =
     bindE (ensure (ar_schema_id (wt_data ticket) = ''SCHEMA-CORPUS-TEXT-V1'' \<and>
                    ar_media_type (wt_data ticket) = JStr ''text/plain;charset=utf-8'')
              (ticket_error ''WORK_TICKET_DATA_REF_INVALID'')) (\<lambda>_.
     bindE (store_read sha d (wt_data ticket)) (\<lambda>corpus.
     bindE (ensure (decode corpus) (ticket_error ''WORK_TICKET_DATA_UTF8_INVALID'')) (\<lambda>_.
     bindE (load_samples_from_text corpus t (bc_sequence_length config)) (\<lambda>samples.
     bindE (ensure (dr_end (wt_data_range ticket) - dr_start (wt_data_range ticket)
                    = wt_batch_budget ticket * bc_gradient_accumulation_steps config * wt_step_budget ticket)
              (ticket_error ''WORK_TICKET_DATA_RANGE_BUDGET_MISMATCH'')) (\<lambda>_.
     Inr samples)))))"

text \<open>
  The parent's tensors. Any exception of reading or loading becomes one error, and a \<open>DeltaError\<close> of the
  validation too.
\<close>

definition resolve_parent ::
  "(string \<Rightarrow> string) \<Rightarrow> ('m, 't) tensor_ops \<Rightarrow> disk \<Rightarrow> work_ticket \<Rightarrow> parameter_schema \<Rightarrow> 't lresult" where
  "resolve_parent sha ops d ticket schema =
     bindE (ensure (is_tensor_artifact (wt_parent_model ticket)) (ticket_error ''WORK_TICKET_PARENT_REF_INVALID'')) (\<lambda>_.
     bindE (mapErr (\<lambda>_. ticket_error ''WORK_TICKET_PARENT_TENSOR_INVALID'')
              (bindE (store_read sha d (wt_parent_model ticket)) (\<lambda>bytes. raise_none LocalValueError (to_load ops bytes))))
       (\<lambda>parent.
     (let canonical = to_restrict ops (included_tensor_names schema) parent in
      bindE (mapErr (\<lambda>e. case e of DeltaError _ _ \<Rightarrow> ticket_error ''WORK_TICKET_PARENT_TENSOR_INVALID'' | _ \<Rightarrow> e)
               (to_validate ops schema None canonical)) (\<lambda>_.
      bindE (ensure (set (to_names ops parent) = set (to_names ops canonical))
               (ticket_error ''WORK_TICKET_PARENT_TENSOR_SET_INVALID'')) (\<lambda>_.
      Inr canonical)))))"

definition resolve_local_round ::
  "(string \<Rightarrow> string) \<Rightarrow> (string \<Rightarrow> json option) \<Rightarrow> (string \<Rightarrow> bool) \<Rightarrow> ('m, 't) tensor_ops \<Rightarrow> disk \<Rightarrow> work_ticket \<Rightarrow>
   baseline_config \<Rightarrow> parameter_schema \<Rightarrow> artifact_ref \<Rightarrow> local_round_limits \<Rightarrow> 't resolved_round lresult" where
  "resolve_local_round sha loads decode ops d ticket config schema tokenizer_ref limits =
     bindE (parameter_schema_fingerprint sha schema) (\<lambda>schema_id.
     bindE (ensure (wt_parameter_schema_id ticket = schema_id) (ticket_error ''WORK_TICKET_PARAMETER_SCHEMA_MISMATCH'')) (\<lambda>_.
     bindE (ensure (wt_batch_budget ticket = bc_batch_size config \<and> wt_step_budget ticket = bc_optimizer_steps config)
              (ticket_error ''WORK_TICKET_BUDGET_MISMATCH'')) (\<lambda>_.
     bindE (ensure (wt_deterministic_seed ticket = bc_seed config) (ticket_error ''WORK_TICKET_SEED_MISMATCH'')) (\<lambda>_.
     bindE (optimizer_profile_id sha config) (\<lambda>optimizer_id.
     bindE (ensure (wt_optimizer_profile_id ticket = optimizer_id) (ticket_error ''WORK_TICKET_OPTIMIZER_PROFILE_MISMATCH''))
       (\<lambda>_.
     bindE (ensure (ar_schema_id tokenizer_ref = ''SCHEMA-TOKENIZER-V1'' \<and>
                    ar_media_type tokenizer_ref = JStr ''application/vnd.deltareduce.tokenizer+json;version=1'')
              (ticket_error ''WORK_TICKET_TOKENIZER_REF_INVALID'')) (\<lambda>_.
     bindE (store_read sha d tokenizer_ref) (\<lambda>tokenizer_bytes.
     bindE (tokenizer_from_json_bytes loads tokenizer_bytes) (\<lambda>t.
     bindE (ensure (int (length (tk_vocabulary t)) = bc_vocab_size config \<and> pad_id t = 0)
              (ticket_error ''WORK_TICKET_TOKENIZER_PROFILE_MISMATCH'')) (\<lambda>_.
     bindE (arithmetic_profile_id sha config (ar_content_id tokenizer_ref) limits) (\<lambda>arithmetic_id.
     bindE (ensure (wt_arithmetic_profile_id ticket = arithmetic_id) (ticket_error ''WORK_TICKET_ARITHMETIC_PROFILE_MISMATCH''))
       (\<lambda>_.
     bindE (resolve_data sha decode d ticket config t) (\<lambda>samples.
     bindE (resolve_parent sha ops d ticket schema) (\<lambda>parent.
     Inr \<lparr>rl_ticket = ticket, rl_config = config, rl_parameter_schema = schema, rl_tokenizer_ref = tokenizer_ref,
          rl_tokenizer = t, rl_samples = samples, rl_parent_parameters = parent, rl_limits = limits\<rparr>))))))))))))))"

section \<open>Publication\<close>

record engine_env =
  en_sha :: "string \<Rightarrow> string"
  en_loads :: "string \<Rightarrow> json option"
  en_inject :: "string \<Rightarrow> nat \<Rightarrow> unit lresult"
  en_others :: "string \<Rightarrow> disk \<Rightarrow> disk"
  en_cancellation_requested :: "nat \<Rightarrow> bool"
  en_logical_clock_ms :: "nat \<Rightarrow> int"
  en_logical_started :: int
  en_clock_started :: int
  en_clock_ended :: int
  en_worker_id :: string
  en_recover_incomplete :: bool

text \<open>Operations on the disk that may raise, in sequence; a stage calls the injector and lets other processes act.\<close>

type_synonym 'a disk_action = "disk \<Rightarrow> 'a lresult \<times> disk"

definition bindD :: "'a disk_action \<Rightarrow> ('a \<Rightarrow> 'b disk_action) \<Rightarrow> 'b disk_action" where
  "bindD m f d = (case m d of (Inl e, d') \<Rightarrow> (Inl e, d') | (Inr x, d') \<Rightarrow> f x d')"

definition pureD :: "'a lresult \<Rightarrow> 'a disk_action" where
  "pureD x d = (x, d)"

definition after_stage :: "engine_env \<Rightarrow> string \<Rightarrow> unit disk_action" where
  "after_stage env stage d = (en_inject env stage 0, en_others env stage d)"

definition SCHEMA_MEDIA_TYPE :: json where
  "SCHEMA_MEDIA_TYPE = JStr ''application/vnd.deltareduce.parameter-schema+json;version=1''"

definition COMPLETION_MEDIA_TYPE :: json where
  "COMPLETION_MEDIA_TYPE = JStr ''application/vnd.deltareduce.local-round-completion+json;version=1''"

definition CANDIDATE_MEDIA_TYPE :: json where
  "CANDIDATE_MEDIA_TYPE = JStr ''application/vnd.deltareduce.normalized-contribution-candidate+json;version=1''"

definition publish_tensors :: "(string \<Rightarrow> string) \<Rightarrow> ('m, 't) tensor_ops \<Rightarrow> 't \<Rightarrow> artifact_ref disk_action" where
  "publish_tensors sha ops tensors =
     publish_bytes sha (to_save ops tensors) (JStr ''application/vnd.safetensors'') ''SCHEMA-SAFETENSORS-V1''"

definition completion_locator :: "work_ticket \<Rightarrow> string" where
  "completion_locator t = ''local-round/'' @ wt_ticket_id t @ ''/completion.json''"

definition candidate_locator :: "work_ticket \<Rightarrow> string" where
  "candidate_locator t = ''local-round/'' @ wt_ticket_id t @ ''/candidate.json''"

definition publish_document :: "(string \<Rightarrow> string) \<Rightarrow> string \<Rightarrow> (string \<times> json) list \<Rightarrow> json \<Rightarrow> string \<Rightarrow> artifact_ref disk_action" where
  "publish_document sha locator document media_type schema_id =
     bindD (pureD (canonical_json_bytes (JObj document))) (\<lambda>bytes. publish_at sha locator bytes media_type schema_id)"

text \<open>The keyword arguments of \<open>LocalRoundCompletion\<close> that success and failure share.\<close>

definition completion_arguments ::
  "work_ticket \<Rightarrow> string \<Rightarrow> string \<Rightarrow> token_accounting \<Rightarrow> bool \<Rightarrow> string option \<Rightarrow> (string \<times> json) list" where
  "completion_arguments t fingerprint worker_id a eligible failure_code =
     [(''arithmetic_profile_id'', JStr (wt_arithmetic_profile_id t)), (''batch_budget'', JInt (wt_batch_budget t)),
      (''candidate_eligible'', JBool eligible), (''cursor_end'', JInt (ta_cursor_end a)),
      (''cursor_start'', JInt (ta_cursor_start a)), (''data_id'', JStr (ar_content_id (wt_data t))),
      (''data_range_end'', JInt (dr_end (wt_data_range t))), (''data_range_start'', JInt (dr_start (wt_data_range t))),
      (''deterministic_seed'', JInt (wt_deterministic_seed t)), (''domain_id'', JStr (wt_domain_id t)),
      (''effective_steps'', JInt (ta_effective_steps a)), (''failure_code'', text_or_null failure_code),
      (''logical_deadline_ms'', JInt (wt_logical_deadline_ms t)), (''micro_steps'', JInt (ta_observed_micro_steps a)),
      (''optimizer_profile_id'', JStr (wt_optimizer_profile_id t)),
      (''parameter_schema_id'', JStr (wt_parameter_schema_id t)),
      (''parent_model_id'', JStr (ar_content_id (wt_parent_model t))),
      (''processed_tokens'', JInt (ta_processed_tokens a)), (''producer_version'', JStr ''deltatorrent-worker-0.1.0''),
      (''step_budget'', JInt (wt_step_budget t)), (''ticket_fingerprint'', JStr fingerprint),
      (''ticket_id'', JStr (wt_ticket_id t)), (''worker_id'', JStr worker_id),
      (''formal_semantics_id'', JStr LOCAL_SEMANTICS_ID), (''schema_version'', JStr ''1.0.0'')]"

record published_round =
  pl_parameter_schema_ref :: artifact_ref
  pl_local_delta_ref :: artifact_ref
  pl_completion_ref :: artifact_ref
  pl_normalized_delta_ref :: artifact_ref
  pl_candidate_ref :: artifact_ref
  pl_completion :: completion
  pl_candidate :: candidate

definition published_round_to_dict :: "published_round \<Rightarrow> (string \<times> json) list" where
  "published_round_to_dict p =
     [(''candidate'', JObj (artifact_ref_to_dict (pl_candidate_ref p))),
      (''completion'', JObj (artifact_ref_to_dict (pl_completion_ref p))),
      (''local_delta'', JObj (artifact_ref_to_dict (pl_local_delta_ref p))),
      (''normalized_delta'', JObj (artifact_ref_to_dict (pl_normalized_delta_ref p))),
      (''parameter_schema'', JObj (artifact_ref_to_dict (pl_parameter_schema_ref p))),
      (''schema_version'', JStr ''1.0.0''), (''status'', JStr ''COMPLETED''),
      (''ticket_id'', JStr (cd_ticket_id (pl_candidate p)))]"

record published_failure =
  pf_parameter_schema_ref :: artifact_ref
  pf_completion_ref :: artifact_ref
  pf_completion :: completion

definition published_failure_to_dict :: "published_failure \<Rightarrow> (string \<times> json) list" where
  "published_failure_to_dict p =
     [(''candidate'', JNull), (''completion'', JObj (artifact_ref_to_dict (pf_completion_ref p))),
      (''parameter_schema'', JObj (artifact_ref_to_dict (pf_parameter_schema_ref p))),
      (''schema_version'', JStr ''1.0.0''), (''status'', JStr (status_value (cp_status (pf_completion p)))),
      (''ticket_id'', JStr (ci_ticket_id (cp_ids (pf_completion p))))]"

definition success_completion ::
  "work_ticket \<Rightarrow> string \<Rightarrow> string \<Rightarrow> token_accounting \<Rightarrow> artifact_ref \<Rightarrow> string list \<Rightarrow> string \<times> string \<Rightarrow> int \<Rightarrow>
   completion lresult" where
  "success_completion t fingerprint worker_id a delta_ref tensor_order summary wall_time_ms =
     bindE (init_local_delta
              [(''ticket_id'', JStr (wt_ticket_id t)), (''ticket_fingerprint'', JStr fingerprint),
               (''parent_model_id'', JStr (ar_content_id (wt_parent_model t))),
               (''parameter_schema_id'', JStr (wt_parameter_schema_id t)),
               (''sign_convention'', JStr ''PARENT_MINUS_FINAL''), (''storage_dtype'', JStr ''float32'')]
              delta_ref (map JStr tensor_order)) (\<lambda>contract.
     bindE (init_numerical_summary
              [(''all_finite'', JBool True), (''global_l2_norm_fp64_bits'', JStr (snd summary)),
               (''max_abs_fp32_bits'', JStr (fst summary))]) (\<lambda>numerical.
     bindE (init_resource_summary [(''peak_memory_bytes'', JInt 0), (''wall_time_ms'', JInt wall_time_ms)]) (\<lambda>resource.
     init_completion (completion_arguments t fingerprint worker_id a True None)
       STATUS_COMPLETED EXACT_H (Some contract) numerical resource)))"

definition round_candidate ::
  "work_ticket \<Rightarrow> string \<Rightarrow> string \<Rightarrow> token_accounting \<Rightarrow> artifact_ref \<Rightarrow> string list \<Rightarrow> candidate lresult" where
  "round_candidate t fingerprint completion_id a normalized_ref tensor_order =
     init_candidate
       [(''arithmetic_profile_id'', JStr (wt_arithmetic_profile_id t)), (''completion_id'', JStr completion_id),
        (''domain_id'', JStr (wt_domain_id t)), (''effective_steps'', JInt (ta_effective_steps a)),
        (''normalization_denominator'', JInt (ta_effective_steps a)),
        (''optimizer_profile_id'', JStr (wt_optimizer_profile_id t)),
        (''parameter_schema_id'', JStr (wt_parameter_schema_id t)),
        (''parent_model_id'', JStr (ar_content_id (wt_parent_model t))), (''step_budget'', JInt (wt_step_budget t)),
        (''ticket_fingerprint'', JStr fingerprint), (''ticket_id'', JStr (wt_ticket_id t)),
        (''storage_dtype'', JStr ''float32''), (''formal_semantics_id'', JStr LOCAL_SEMANTICS_ID),
        (''schema_version'', JStr ''1.0.0'')]
       normalized_ref (map JStr tensor_order)"

definition publish_success ::
  "engine_env \<Rightarrow> ('m, 't) tensor_ops \<Rightarrow> work_ticket \<Rightarrow> parameter_schema \<Rightarrow> local_round_limits \<Rightarrow> token_accounting \<Rightarrow>
   't \<Rightarrow> 't \<Rightarrow> int \<Rightarrow> published_round disk_action" where
  "publish_success env ops t schema limits a delta normalized wall_time_ms =
     bindD (pureD (ensure (\<not> (ta_effective_steps a \<noteq> wt_step_budget t \<or> ta_pending_micro_steps a \<noteq> 0))
                     (candidate_error ''CANDIDATE_REQUIRES_COMMITTED_A_EQUALS_H''))) (\<lambda>_.
     bindD (pureD (to_validate ops schema None delta)) (\<lambda>_.
     bindD (pureD (to_validate ops schema (Some limits) normalized)) (\<lambda>summary.
     bindD (publish_json (en_sha env) (JObj (parameter_schema_to_dict schema)) SCHEMA_MEDIA_TYPE
              ''SCHEMA-PARAMETER-SCHEMA-V1'') (\<lambda>schema_ref.
     bindD (pureD (ensure (ar_content_id schema_ref = wt_parameter_schema_id t) (ticket_error ''PUBLISHED_SCHEMA_ID_MISMATCH'')))
       (\<lambda>_.
     bindD (publish_tensors (en_sha env) ops delta) (\<lambda>delta_ref.
     bindD (after_stage env ''AFTER_LOCAL_DELTA_ARTIFACT'') (\<lambda>_.
     bindD (publish_tensors (en_sha env) ops normalized) (\<lambda>normalized_ref.
     bindD (after_stage env ''AFTER_NORMALIZED_DELTA_ARTIFACT'') (\<lambda>_.
     bindD (pureD (ticket_fingerprint (en_sha env) t)) (\<lambda>fingerprint.
     bindD (pureD (success_completion t fingerprint (en_worker_id env) a delta_ref (included_tensor_names schema) summary
                     wall_time_ms)) (\<lambda>completion.
     bindD (publish_document (en_sha env) (completion_locator t) (completion_to_dict completion) COMPLETION_MEDIA_TYPE
              ''SCHEMA-LOCAL-ROUND-COMPLETION-V1'') (\<lambda>completion_ref.
     bindD (pureD (completion_fingerprint (en_sha env) completion)) (\<lambda>completion_id.
     bindD (pureD (ensure (ar_content_id completion_ref = completion_id) (completion_error ''COMPLETION_ID_MISMATCH''))) (\<lambda>_.
     bindD (after_stage env ''AFTER_COMPLETION_MANIFEST'') (\<lambda>_.
     bindD (pureD (round_candidate t fingerprint completion_id a normalized_ref (included_tensor_names schema))) (\<lambda>candidate.
     bindD (publish_document (en_sha env) (candidate_locator t) (candidate_to_dict candidate) CANDIDATE_MEDIA_TYPE
              ''SCHEMA-NORMALIZED-CONTRIBUTION-CANDIDATE-V1'') (\<lambda>candidate_ref.
     pureD (Inr \<lparr>pl_parameter_schema_ref = schema_ref, pl_local_delta_ref = delta_ref,
                 pl_completion_ref = completion_ref, pl_normalized_delta_ref = normalized_ref,
                 pl_candidate_ref = candidate_ref, pl_completion = completion,
                 pl_candidate = candidate\<rparr>))))))))))))))))))"

definition failure_completion ::
  "work_ticket \<Rightarrow> string \<Rightarrow> string \<Rightarrow> token_accounting \<Rightarrow> completion_status \<Rightarrow> completion_reason \<Rightarrow> string \<Rightarrow> int \<Rightarrow>
   completion lresult" where
  "failure_completion t fingerprint worker_id a status reason failure_code wall_time_ms =
     bindE (init_numerical_summary
              [(''all_finite'', JBool False), (''global_l2_norm_fp64_bits'', JNull), (''max_abs_fp32_bits'', JNull)])
       (\<lambda>numerical.
     bindE (init_resource_summary [(''peak_memory_bytes'', JInt 0), (''wall_time_ms'', JInt wall_time_ms)]) (\<lambda>resource.
     init_completion (completion_arguments t fingerprint worker_id a False (Some failure_code))
       status reason None numerical resource))"

definition publish_failure ::
  "engine_env \<Rightarrow> work_ticket \<Rightarrow> parameter_schema \<Rightarrow> token_accounting \<Rightarrow> completion_status \<Rightarrow> completion_reason \<Rightarrow>
   string \<Rightarrow> int \<Rightarrow> published_failure disk_action" where
  "publish_failure env t schema a status reason failure_code wall_time_ms =
     bindD (publish_json (en_sha env) (JObj (parameter_schema_to_dict schema)) SCHEMA_MEDIA_TYPE
              ''SCHEMA-PARAMETER-SCHEMA-V1'') (\<lambda>schema_ref.
     bindD (pureD (ticket_fingerprint (en_sha env) t)) (\<lambda>fingerprint.
     bindD (pureD (failure_completion t fingerprint (en_worker_id env) a status reason failure_code wall_time_ms))
       (\<lambda>completion.
     bindD (publish_document (en_sha env) (completion_locator t) (completion_to_dict completion) COMPLETION_MEDIA_TYPE
              ''SCHEMA-LOCAL-ROUND-COMPLETION-V1'') (\<lambda>completion_ref.
     pureD (Inr \<lparr>pf_parameter_schema_ref = schema_ref, pf_completion_ref = completion_ref, pf_completion = completion\<rparr>)))))"

definition load_canonical_tensor_artifact ::
  "(string \<Rightarrow> string) \<Rightarrow> ('m, 't) tensor_ops \<Rightarrow> disk \<Rightarrow> artifact_ref \<Rightarrow> parameter_schema \<Rightarrow> 't lresult" where
  "load_canonical_tensor_artifact sha ops d r schema =
     bindE (ensure (is_tensor_artifact r) (DeltaError INVALID_DELTA_TENSOR ''TENSOR_ARTIFACT_TYPE_INVALID'')) (\<lambda>_.
     bindE (mapErr (\<lambda>_. DeltaError INVALID_DELTA_TENSOR ''TENSOR_ARTIFACT_INVALID'')
              (bindE (store_read sha d r) (\<lambda>bytes. raise_none LocalValueError (to_load ops bytes)))) (\<lambda>loaded.
     bindE (ensure (set (to_names ops loaded) = set (included_tensor_names schema))
              (DeltaError INVALID_DELTA_TENSOR ''TENSOR_ARTIFACT_SET_INVALID'')) (\<lambda>_.
     (let canonical = to_restrict ops (included_tensor_names schema) loaded in
      bindE (to_validate ops schema None canonical) (\<lambda>_. Inr canonical)))))"

definition round_lineage_matches :: "string \<Rightarrow> string \<Rightarrow> work_ticket \<Rightarrow> published_round \<Rightarrow> bool" where
  "round_lineage_matches fingerprint completion_id t p \<longleftrightarrow>
     (let i = cp_ids (pl_completion p); c = pl_candidate p in
      ar_content_id (pl_parameter_schema_ref p) = wt_parameter_schema_id t \<and>
      ci_ticket_id i = wt_ticket_id t \<and> ci_domain_id i = wt_domain_id t \<and> ci_ticket_fingerprint i = fingerprint \<and>
      ci_data_id i = ar_content_id (wt_data t) \<and> ci_parent_model_id i = ar_content_id (wt_parent_model t) \<and>
      ci_parameter_schema_id i = wt_parameter_schema_id t \<and> ci_optimizer_profile_id i = wt_optimizer_profile_id t \<and>
      ci_arithmetic_profile_id i = wt_arithmetic_profile_id t \<and>
      map_option ld_artifact (cp_local_delta (pl_completion p)) = Some (pl_local_delta_ref p) \<and>
      cd_ticket_id c = wt_ticket_id t \<and> cd_domain_id c = wt_domain_id t \<and> cd_ticket_fingerprint c = fingerprint \<and>
      cd_completion_id c = completion_id \<and> cd_parent_model_id c = ar_content_id (wt_parent_model t) \<and>
      cd_parameter_schema_id c = wt_parameter_schema_id t \<and> cd_optimizer_profile_id c = wt_optimizer_profile_id t \<and>
      cd_arithmetic_profile_id c = wt_arithmetic_profile_id t \<and> cd_normalized_delta c = pl_normalized_delta_ref p)"

definition verify_success ::
  "(string \<Rightarrow> string) \<Rightarrow> ('m, 't) tensor_ops \<Rightarrow> work_ticket \<Rightarrow> parameter_schema \<Rightarrow> local_round_limits \<Rightarrow> published_round \<Rightarrow>
   disk \<Rightarrow> unit lresult" where
  "verify_success sha ops t schema limits p d =
     bindE (ticket_fingerprint sha t) (\<lambda>fingerprint.
     bindE (completion_fingerprint sha (pl_completion p)) (\<lambda>completion_id.
     bindE (ensure (round_lineage_matches fingerprint completion_id t p) (candidate_error ''CANDIDATE_LINEAGE_MISMATCH'')) (\<lambda>_.
     bindE (store_read sha d (pl_parameter_schema_ref p)) (\<lambda>schema_bytes.
     bindE (ensure (canonical_json_bytes (JObj (parameter_schema_to_dict schema)) = Inr schema_bytes)
              (schema_error ''PUBLISHED_SCHEMA_BYTES_INVALID'')) (\<lambda>_.
     bindE (store_read sha d (pl_completion_ref p)) (\<lambda>completion_bytes.
     bindE (store_read sha d (pl_candidate_ref p)) (\<lambda>candidate_bytes.
     bindE (ensure (canonical_json_bytes (JObj (completion_to_dict (pl_completion p))) = Inr completion_bytes)
              (completion_error ''COMPLETION_BYTES_INVALID'')) (\<lambda>_.
     bindE (ensure (canonical_json_bytes (JObj (candidate_to_dict (pl_candidate p))) = Inr candidate_bytes)
              (candidate_error ''CANDIDATE_BYTES_INVALID'')) (\<lambda>_.
     bindE (load_canonical_tensor_artifact sha ops d (pl_local_delta_ref p) schema) (\<lambda>delta.
     bindE (load_canonical_tensor_artifact sha ops d (pl_normalized_delta_ref p) schema) (\<lambda>normalized.
     bindE (to_validate ops schema (Some limits) normalized) (\<lambda>_.
     bindE (normalize_local_delta ops schema limits (cd_effective_steps (pl_candidate p))
              (cd_step_budget (pl_candidate p)) delta) (\<lambda>expected.
     ensure (to_equal ops normalized expected) (candidate_error ''CANDIDATE_NORMALIZATION_MISMATCH''))))))))))))))"

section \<open>The engine\<close>

datatype engine_result = Published published_round telemetry | PublishedFailed published_failure telemetry
  | Replayed "(string \<times> json) list"

fun engine_result_to_dict :: "engine_result \<Rightarrow> (string \<times> json) list" where
  "engine_result_to_dict (Published p tel) = published_round_to_dict p @ [(''telemetry'', telemetry_to_dict tel)]"
| "engine_result_to_dict (PublishedFailed p tel) = published_failure_to_dict p @ [(''telemetry'', telemetry_to_dict tel)]"
| "engine_result_to_dict (Replayed outcome) = outcome"

text \<open>The objects of a run that a handler sees when an exception is raised.\<close>

record round_state =
  rd_telemetry :: telemetry
  rd_ledger :: boundary_ledger
  rd_wall_time_ms :: "int option"
  rd_disk :: disk

type_synonym 'a round_action = "round_state \<Rightarrow> 'a lresult \<times> round_state"

definition bindR :: "'a round_action \<Rightarrow> ('a \<Rightarrow> 'b round_action) \<Rightarrow> 'b round_action" where
  "bindR m f r = (case m r of (Inl e, r') \<Rightarrow> (Inl e, r') | (Inr x, r') \<Rightarrow> f x r')"

definition pureR :: "'a lresult \<Rightarrow> 'a round_action" where
  "pureR x r = (x, r)"

definition on_disk :: "'a disk_action \<Rightarrow> 'a round_action" where
  "on_disk f r = (case f (rd_disk r) of (x, d) \<Rightarrow> (x, r\<lparr>rd_disk := d\<rparr>))"

definition on_telemetry :: "(telemetry \<Rightarrow> telemetry lresult) \<Rightarrow> unit round_action" where
  "on_telemetry f r =
     (case f (rd_telemetry r) of Inl e \<Rightarrow> (Inl e, r) | Inr t \<Rightarrow> (Inr (), r\<lparr>rd_telemetry := t\<rparr>))"

definition check_boundary :: "engine_env \<Rightarrow> work_ticket \<Rightarrow> boundary_ledger \<Rightarrow> unit lresult" where
  "check_boundary env t l =
     (let n = nat (bl_observed_micro_steps l) in
      bindE (en_inject env ''BEFORE_MICROBATCH'' n) (\<lambda>_.
      bindE (ensure (\<not> en_cancellation_requested env n) WorkerCancellationRequested) (\<lambda>_.
      ensure (\<not> en_logical_clock_ms env n - en_logical_started env \<ge> wt_logical_deadline_ms t) WorkerDeadlineExceeded)))"

fun run_steps ::
  "engine_env \<Rightarrow> ('m, 't) tensor_ops \<Rightarrow> 't resolved_round \<Rightarrow> nat \<Rightarrow> 'm training_state \<Rightarrow> 'm training_state round_action" where
  "run_steps env ops resolved 0 st r = (Inr st, r)"
| "run_steps env ops resolved (Suc n) st r =
     (case train_one_optimizer_step (en_sha env) (to_trainer ops (rl_config resolved)) (check_boundary env (rl_ticket resolved))
             (rl_config resolved) (rl_samples resolved) st (rd_ledger r) of
        (Inl e, st', l) \<Rightarrow> (Inl e, r\<lparr>rd_ledger := l\<rparr>)
      | (Inr metric, st', l) \<Rightarrow>
          bindR (on_telemetry (record_optimizer_step (to_fp64_bits ops) (bc_learning_rate_nanos (rl_config resolved)) metric))
            (\<lambda>_. bindR (pureR (en_inject env ''AFTER_OPTIMIZER_STEP'' (nat (ts_optimizer_step st'))))
            (\<lambda>_. run_steps env ops resolved n st')) (r\<lparr>rd_ledger := l\<rparr>))"

definition wall_time :: "engine_env \<Rightarrow> int" where
  "wall_time env = max 0 ((en_clock_ended env - en_clock_started env) div 1000000)"

definition start_training :: "engine_env \<Rightarrow> ('m, 't) tensor_ops \<Rightarrow> 't resolved_round \<Rightarrow> 'm training_state lresult" where
  "start_training env ops resolved =
     (let t = rl_ticket resolved in
      bindE (init_sampler (int (length (rl_samples resolved))) (wt_deterministic_seed t) (dr_start (wt_data_range t))) (\<lambda>s.
      bindE (to_create ops (rl_config resolved) (rl_parameter_schema resolved) (rl_parent_parameters resolved)) (\<lambda>model.
      Inr \<lparr>ts_model = model, ts_sampler = s, ts_micro_step = 0, ts_optimizer_step = 0, ts_processed_tokens = 0\<rparr>)))"

definition train_round :: "engine_env \<Rightarrow> ('m, 't) tensor_ops \<Rightarrow> 't resolved_round \<Rightarrow> ('m \<times> token_accounting) round_action" where
  "train_round env ops resolved =
     bindR (pureR (en_inject env ''AFTER_CLAIM'' 0)) (\<lambda>_.
     bindR (on_telemetry (move_to ACCEPTED)) (\<lambda>_.
     bindR (pureR (start_training env ops resolved)) (\<lambda>st.
     bindR (on_telemetry (move_to RUNNING)) (\<lambda>_.
     bindR (run_steps env ops resolved (nat (wt_step_budget (rl_ticket resolved))) st) (\<lambda>st'.
     bindR (\<lambda>r. (accounting_snapshot (rd_ledger r), r)) (\<lambda>accounting.
     bindR (pureR (ensure (\<not> ta_cursor_end accounting \<noteq> dr_end (wt_data_range (rl_ticket resolved))) WorkerDataExhausted)) (\<lambda>_.
     pureR (Inr (ts_model st', accounting)))))))))"

text \<open>From the final parameters to the verified publication.\<close>

definition publish_round ::
  "engine_env \<Rightarrow> ('m, 't) tensor_ops \<Rightarrow> 't resolved_round \<Rightarrow> 'm \<Rightarrow> token_accounting \<Rightarrow> published_round round_action" where
  "publish_round env ops resolved model accounting =
     (let t = rl_ticket resolved; schema = rl_parameter_schema resolved; limits = rl_limits resolved in
      bindR (pureR (to_delta ops schema (rl_parent_parameters resolved) model)) (\<lambda>delta.
      bindR (pureR (normalize_local_delta ops schema limits (ta_effective_steps accounting) (wt_step_budget t) delta))
        (\<lambda>normalized.
      bindR (pureR (en_inject env ''BEFORE_PUBLICATION'' 0)) (\<lambda>_.
      bindR (\<lambda>r. (Inr (), r\<lparr>rd_wall_time_ms := Some (wall_time env)\<rparr>)) (\<lambda>_.
      bindR (on_disk (publish_success env ops t schema limits accounting delta normalized (wall_time env))) (\<lambda>published.
      bindR (on_disk (\<lambda>d. (Inr (), en_others env ''BEFORE_VERIFICATION'' d))) (\<lambda>_.
      bindR (on_disk (\<lambda>d. (verify_success (en_sha env) ops t schema limits published d, d))) (\<lambda>_.
      pureR (Inr published)))))))))"

definition round_body :: "engine_env \<Rightarrow> ('m, 't) tensor_ops \<Rightarrow> 't resolved_round \<Rightarrow> published_round round_action" where
  "round_body env ops resolved =
     bindR (train_round env ops resolved) (\<lambda>(model, accounting).
     bindR (publish_round env ops resolved model accounting) (\<lambda>published.
     bindR (on_telemetry (move_to COMPLETED)) (\<lambda>_.
     pureR (Inr published))))"

definition classify_failure :: "local_exn \<Rightarrow> (completion_status \<times> completion_reason \<times> string) lresult" where
  "classify_failure e =
     (case e of
        WorkerCancellationRequested \<Rightarrow> Inr (STATUS_CANCELLED, REASON_CANCELLED, ''WORKER_CANCELLED'')
      | WorkerDeadlineExceeded \<Rightarrow> Inr (STATUS_FAILED, DEADLINE, ''WORKER_DEADLINE_EXCEEDED'')
      | WorkerDataExhausted \<Rightarrow> Inr (STATUS_FAILED, DATA_EXHAUSTED, ''WORKER_DATA_EXHAUSTED'')
      | OutOfMemoryError \<Rightarrow> Inr (STATUS_FAILED, OOM, ''WORKER_OOM'')
      | WorkerInjectedCrash \<Rightarrow> Inr (STATUS_FAILED, INTERNAL_FAILURE, ''WORKER_CRASH'')
      | DeltaError _ message \<Rightarrow>
          if message \<in> set [''NON_FINITE_GRADIENT'', ''NON_FINITE_LOSS'', ''NON_FINITE_OPTIMIZER_STATE'',
                            ''DELTA_TENSOR_NON_FINITE'']
          then Inr (STATUS_FAILED, NON_FINITE, ''NON_FINITE_STATE'') else Inl e
      | _ \<Rightarrow> Inl e)"

definition handle_failure ::
  "engine_env \<Rightarrow> 't resolved_round \<Rightarrow> local_exn \<Rightarrow> (published_failure \<times> telemetry) round_action" where
  "handle_failure env resolved e =
     (if e = ProcessExit then pureR (Inl e)
      else
        bindR (pureR (classify_failure e)) (\<lambda>(status, reason, failure_code).
        bindR (on_telemetry (move_to (if status = STATUS_CANCELLED then CANCELLED else FAILED))) (\<lambda>_.
        bindR (\<lambda>r. (accounting_snapshot (rd_ledger r), r)) (\<lambda>accounting r.
        bindR (on_disk (publish_failure env (rl_ticket resolved) (rl_parameter_schema resolved) accounting status reason
                          failure_code (case rd_wall_time_ms r of Some w \<Rightarrow> w | None \<Rightarrow> wall_time env))) (\<lambda>failed r'.
        (Inr (failed, rd_telemetry r'), r')) r))))"

text \<open>What follows the \<open>try\<close> and its handler: the outcome is recorded.\<close>

definition record_outcome :: "engine_env \<Rightarrow> work_ticket \<Rightarrow> engine_result \<Rightarrow> engine_result disk_action" where
  "record_outcome env t result d =
     bindD (complete t (engine_result_to_dict result)) (\<lambda>_. pureD (Inr result)) (en_others env ''BEFORE_OUTCOME'' d)"

definition conclude_round ::
  "engine_env \<Rightarrow> 't resolved_round \<Rightarrow> published_round lresult \<times> round_state \<Rightarrow> engine_result lresult \<times> disk" where
  "conclude_round env resolved tried =
     (case tried of
        (Inr published, r) \<Rightarrow> record_outcome env (rl_ticket resolved) (Published published (rd_telemetry r)) (rd_disk r)
      | (Inl e, r) \<Rightarrow>
          (case handle_failure env resolved e r of
             (Inl e', r') \<Rightarrow> (Inl e', rd_disk r')
           | (Inr (failed, tel), r') \<Rightarrow> record_outcome env (rl_ticket resolved) (PublishedFailed failed tel) (rd_disk r')))"

definition run_claimed :: "engine_env \<Rightarrow> ('m, 't) tensor_ops \<Rightarrow> 't resolved_round \<Rightarrow> engine_result disk_action" where
  "run_claimed env ops resolved d =
     (let t = rl_ticket resolved in
      case init_boundary_ledger (dr_start (wt_data_range t)) (dr_end (wt_data_range t)) of
        Inl e \<Rightarrow> (Inl e, d)
      | Inr ledger \<Rightarrow>
          conclude_round env resolved
            (round_body env ops resolved
               \<lparr>rd_telemetry = init_telemetry (wt_ticket_id t) (wt_domain_id t), rd_ledger = ledger,
                rd_wall_time_ms = None, rd_disk = en_others env ''AFTER_CLAIM'' d\<rparr>))"

definition run :: "engine_env \<Rightarrow> ('m, 't) tensor_ops \<Rightarrow> 't resolved_round \<Rightarrow> engine_result disk_action" where
  "run env ops resolved =
     bindD (claim (en_sha env) (en_loads env) (en_recover_incomplete env) (rl_ticket resolved)) (\<lambda>decision.
     case decision of
       REPLAY outcome \<Rightarrow> pureD (Inr (Replayed outcome))
     | CLAIMED \<Rightarrow> run_claimed env ops resolved)"

end
