(* ===== verification/Local_Documents.thy ===== *)
theory Local_Documents
  imports Local_Updates
begin

text \<open>
  Reading back the documents of a round: what \<open>to_dict\<close> writes of an object that a constructor accepted is
  accepted by \<open>from_dict\<close> and gives the same object; and canonical bytes determine a document up to the order of keys.
\<close>

section \<open>Fields\<close>

lemma obj_get_simps [simp]:
  "obj_get [] k = JNull"
  "obj_get ((k', v) # kvs) k = (if k' = k then v else obj_get kvs k)"
  by (simp_all add: obj_get_def)

lemma content_id_Inr [simp]: "require_content_id v = Inr s \<longleftrightarrow> v = JStr s \<and> CONTENT_ID s"
  by (auto simp: require_content_id_def split: json.splits)

lemma schema_id_Inr [simp]: "require_schema_id v = Inr s \<longleftrightarrow> v = JStr s \<and> SCHEMA_ID s"
  by (auto simp: require_schema_id_def split: json.splits)

lemma locator_Inr [simp]: "require_locator v = Inr s \<longleftrightarrow> v = JStr s \<and> \<not> locator_refused s"
  by (auto simp: require_locator_def split: json.splits)

lemma update_fields_Inr [simp]:
  "update_content_id factory v = Inr s \<longleftrightarrow> v = JStr s \<and> CONTENT_ID s"
  "update_identifier factory v = Inr s \<longleftrightarrow> v = JStr s \<and> IDENTIFIER s"
  "counter v = Inr i \<longleftrightarrow> v = JInt i \<and> 0 \<le> i"
  "positive_counter v = Inr i \<longleftrightarrow> v = JInt i \<and> 0 < i"
  "ticket_identifier v = Inr s \<longleftrightarrow> v = JStr s \<and> IDENTIFIER s"
  "ticket_content_id v = Inr s \<longleftrightarrow> v = JStr s \<and> CONTENT_ID s"
  "ticket_positive v = Inr i \<longleftrightarrow> v = JInt i \<and> 0 < i"
  by (simp_all add: update_content_id_def update_identifier_def counter_def positive_counter_def
      ticket_identifier_def ticket_content_id_def ticket_positive_def)

section \<open>Artifact references and tickets\<close>

lemma init_artifact_ref_Inr:
  "init_artifact_ref kw = Inr r \<longleftrightarrow>
     obj_get kw ''content_id'' = JStr (ar_content_id r) \<and> CONTENT_ID (ar_content_id r) \<and>
     obj_get kw ''media_type'' = ar_media_type r \<and> require_media_type (ar_media_type r) = Inr () \<and>
     obj_get kw ''schema_id'' = JStr (ar_schema_id r) \<and> SCHEMA_ID (ar_schema_id r) \<and>
     obj_get kw ''schema_version'' = JStr ''1.0.0'' \<and> ar_schema_version r = ''1.0.0'' \<and>
     obj_get kw ''byte_length'' = JInt (ar_byte_length r) \<and> 0 \<le> ar_byte_length r \<and>
     obj_get kw ''locator'' = JStr (ar_locator r) \<and> \<not> locator_refused (ar_locator r)"
  unfolding init_artifact_ref_def by (cases r) (auto simp: bindE_eq_Inr)

lemma artifact_ref_round_trip:
  "init_artifact_ref kw = Inr r \<Longrightarrow> artifact_ref_from_dict (artifact_ref_to_dict r) = Inr r"
  unfolding init_artifact_ref_Inr artifact_ref_from_dict_def
  by (simp add: artifact_ref_to_dict_def init_artifact_ref_Inr bindE_eq_Inr)

lemma artifact_ref_from_dict_Inr: "artifact_ref_from_dict v = Inr r \<Longrightarrow> init_artifact_ref v = Inr r"
  by (simp add: artifact_ref_from_dict_def bindE_eq_Inr)

lemma init_data_range_Inr:
  "init_data_range a b = Inr r \<longleftrightarrow> a = JInt (dr_start r) \<and> b = JInt (dr_end r) \<and> 0 \<le> dr_start r \<and> dr_start r < dr_end r"
  unfolding init_data_range_def by (cases r) (auto split: json.splits)

lemma init_ticket_Inr:
  "init_ticket kw data span parent = Inr t \<longleftrightarrow>
     obj_get kw ''ticket_id'' = JStr (wt_ticket_id t) \<and> IDENTIFIER (wt_ticket_id t) \<and>
     obj_get kw ''domain_id'' = JStr (wt_domain_id t) \<and> IDENTIFIER (wt_domain_id t) \<and>
     obj_get kw ''batch_budget'' = JInt (wt_batch_budget t) \<and> 0 < wt_batch_budget t \<and>
     obj_get kw ''step_budget'' = JInt (wt_step_budget t) \<and> 0 < wt_step_budget t \<and>
     obj_get kw ''parameter_schema_id'' = JStr (wt_parameter_schema_id t) \<and> CONTENT_ID (wt_parameter_schema_id t) \<and>
     obj_get kw ''optimizer_profile_id'' = JStr (wt_optimizer_profile_id t) \<and> CONTENT_ID (wt_optimizer_profile_id t) \<and>
     obj_get kw ''arithmetic_profile_id'' = JStr (wt_arithmetic_profile_id t) \<and> CONTENT_ID (wt_arithmetic_profile_id t) \<and>
     obj_get kw ''deterministic_seed'' = JInt (wt_deterministic_seed t) \<and> 0 \<le> wt_deterministic_seed t \<and>
     obj_get kw ''logical_deadline_ms'' = JInt (wt_logical_deadline_ms t) \<and> 0 < wt_logical_deadline_ms t \<and>
     obj_get kw ''formal_semantics_id'' = JStr LOCAL_SEMANTICS_ID \<and> obj_get kw ''schema_version'' = JStr ''1.0.0'' \<and>
     wt_data t = data \<and> wt_data_range t = span \<and> wt_parent_model t = parent"
  unfolding init_ticket_def by (cases t) (auto simp: bindE_eq_Inr)

definition ticket_ok :: "work_ticket \<Rightarrow> bool" where
  "ticket_ok t \<longleftrightarrow> artifact_ref_from_dict (artifact_ref_to_dict (wt_data t)) = Inr (wt_data t) \<and>
     artifact_ref_from_dict (artifact_ref_to_dict (wt_parent_model t)) = Inr (wt_parent_model t) \<and>
     0 \<le> dr_start (wt_data_range t) \<and> dr_start (wt_data_range t) < dr_end (wt_data_range t) \<and>
     IDENTIFIER (wt_ticket_id t) \<and> IDENTIFIER (wt_domain_id t) \<and> 0 < wt_batch_budget t \<and> 0 < wt_step_budget t \<and>
     CONTENT_ID (wt_parameter_schema_id t) \<and> CONTENT_ID (wt_optimizer_profile_id t) \<and>
     CONTENT_ID (wt_arithmetic_profile_id t) \<and> 0 \<le> wt_deterministic_seed t \<and> 0 < wt_logical_deadline_ms t"

lemma ticket_from_dict_ok:
  assumes "ticket_from_dict v = Inr t"
  shows "ticket_ok t"
proof -
  from assms obtain data parent bounds data_ref span parent_ref where
    "artifact_ref_from_dict data = Inr data_ref" "init_data_range (obj_get bounds ''start'') (obj_get bounds ''end'') = Inr span"
    "artifact_ref_from_dict parent = Inr parent_ref" "init_ticket v data_ref span parent_ref = Inr t"
    unfolding ticket_from_dict_def by (auto simp: bindE_eq_Inr split: option.splits)
  then show ?thesis
    unfolding ticket_ok_def init_ticket_Inr init_data_range_Inr
    using artifact_ref_from_dict_Inr artifact_ref_round_trip by blast
qed

lemma ticket_fields: "fst ` set (ticket_to_dict t) = set TICKET_FIELDS"
  by (simp add: ticket_to_dict_def TICKET_FIELDS_def insert_commute)

lemma ticket_to_dict_get:
  "obj_get (ticket_to_dict t) ''data'' = JObj (artifact_ref_to_dict (wt_data t))"
  "obj_get (ticket_to_dict t) ''parent_model'' = JObj (artifact_ref_to_dict (wt_parent_model t))"
  "obj_get (ticket_to_dict t) ''data_range'' = JObj (data_range_to_dict (wt_data_range t))"
  "init_ticket (ticket_to_dict t) (wt_data t) (wt_data_range t) (wt_parent_model t) = Inr t \<longleftrightarrow>
     IDENTIFIER (wt_ticket_id t) \<and> IDENTIFIER (wt_domain_id t) \<and> 0 < wt_batch_budget t \<and> 0 < wt_step_budget t \<and>
     CONTENT_ID (wt_parameter_schema_id t) \<and> CONTENT_ID (wt_optimizer_profile_id t) \<and>
     CONTENT_ID (wt_arithmetic_profile_id t) \<and> 0 \<le> wt_deterministic_seed t \<and> 0 < wt_logical_deadline_ms t"
  unfolding init_ticket_Inr by (simp_all add: ticket_to_dict_def)

lemma data_range_round_trip:
  "0 \<le> dr_start r \<Longrightarrow> dr_start r < dr_end r \<Longrightarrow>
     init_data_range (obj_get (data_range_to_dict r) ''start'') (obj_get (data_range_to_dict r) ''end'') = Inr r \<and>
     fst ` set (data_range_to_dict r) = {''end'', ''start''}"
  by (simp add: data_range_to_dict_def init_data_range_Inr)

lemma ticket_dict_round_trip: "ticket_ok t \<Longrightarrow> ticket_from_dict (ticket_to_dict t) = Inr t"
  unfolding ticket_from_dict_def ticket_ok_def by (simp add: ticket_fields ticket_to_dict_get data_range_round_trip)

section \<open>Update documents\<close>

lemma enum_of_Inr:
  "enum_of dtype_value [BFLOAT16, FLOAT16, FLOAT32, FLOAT64] (JStr (dtype_value x)) = Inr x"
  "enum_of policy_value [INCLUDE_ALL, OMIT_FROZEN] (JStr (policy_value p)) = Inr p"
  "enum_of status_value [STATUS_CANCELLED, STATUS_COMPLETED, STATUS_FAILED] (JStr (status_value s)) = Inr s"
  "enum_of reason_value [REASON_CANCELLED, DATA_EXHAUSTED, DEADLINE, EXACT_H, INTERNAL_FAILURE, NON_FINITE, OOM]
     (JStr (reason_value r)) = Inr r"
  subgoal by (cases x) (simp_all add: enum_of_def)
  subgoal by (cases p) (simp_all add: enum_of_def)
  subgoal by (cases s) (simp_all add: enum_of_def)
  subgoal by (cases r) (simp_all add: enum_of_def)
  done

lemma map_JStr_eq [simp]: "map JStr xs = map JStr ys \<longleftrightarrow> xs = ys"
  by (simp add: inj_map_eq_map inj_def)

lemma matching_JStr [simp]: "matching pattern (JStr s) = (if pattern s then Some s else None)"
  by (simp add: matching_def)

lemma text_items_Some: "text_items pattern vs = Some ss \<longleftrightarrow> vs = map JStr ss \<and> list_all pattern ss"
proof (induction vs arbitrary: ss)
  case (Cons v vs)
  then show ?case by (cases ss) (auto split: option.splits)
qed auto

lemma tensor_order_of_Inr:
  "tensor_order_of factory items = Inr names \<longleftrightarrow> items = map JStr names \<and> list_all PARAMETER_NAME names \<and> names \<noteq> [] \<and>
     sort_key name_key names = names \<and> distinct names"
proof (cases "text_items PARAMETER_NAME items")
  case None
  then have "\<not> (items = map JStr names \<and> list_all PARAMETER_NAME names)"
    using text_items_Some [of PARAMETER_NAME items names] by simp
  with None show ?thesis by (auto simp: tensor_order_of_def)
next
  case (Some ns)
  with text_items_Some [of PARAMETER_NAME items ns] show ?thesis by (auto simp: tensor_order_of_def bindE_eq_Inr)
qed

lemma bits_or_none_Inr:
  "bits_or_none n message v = Inr x \<longleftrightarrow> v = text_or_null x \<and> pred_option (fullmatch_hex n) x"
  unfolding bits_or_none_def text_or_null_def by (cases x) (auto simp: bindE_eq_Inr)

lemma init_numerical_summary_Inr:
  "init_numerical_summary kw = Inr s \<longleftrightarrow> obj_get kw ''all_finite'' = JBool (ns_all_finite s) \<and>
     obj_get kw ''max_abs_fp32_bits'' = text_or_null (ns_max_abs_fp32_bits s) \<and>
     pred_option (fullmatch_hex 8) (ns_max_abs_fp32_bits s) \<and>
     obj_get kw ''global_l2_norm_fp64_bits'' = text_or_null (ns_global_l2_norm_fp64_bits s) \<and>
     pred_option (fullmatch_hex 16) (ns_global_l2_norm_fp64_bits s)"
  unfolding init_numerical_summary_def by (cases s) (auto simp: bindE_eq_Inr bits_or_none_Inr split: json.splits)

lemma numerical_summary_round_trip:
  "init_numerical_summary kw = Inr s \<Longrightarrow> numerical_summary_from_dict (numerical_summary_to_dict s) = Inr s"
  unfolding numerical_summary_from_dict_def init_numerical_summary_Inr
  by (simp add: bindE_eq_Inr init_numerical_summary_Inr numerical_summary_to_dict_def)

lemma numerical_summary_from_dict_Inr: "numerical_summary_from_dict v = Inr s \<Longrightarrow> init_numerical_summary v = Inr s"
  by (simp add: numerical_summary_from_dict_def bindE_eq_Inr)

lemma init_resource_summary_Inr:
  "init_resource_summary kw = Inr s \<longleftrightarrow>
     obj_get kw ''peak_memory_bytes'' = JInt (rs_peak_memory_bytes s) \<and> 0 \<le> rs_peak_memory_bytes s \<and>
     obj_get kw ''wall_time_ms'' = JInt (rs_wall_time_ms s) \<and> 0 \<le> rs_wall_time_ms s"
  unfolding init_resource_summary_def by (cases s) (auto simp: bindE_eq_Inr)

lemma resource_summary_round_trip:
  "init_resource_summary kw = Inr s \<Longrightarrow> resource_summary_from_dict (resource_summary_to_dict s) = Inr s"
  unfolding resource_summary_from_dict_def init_resource_summary_Inr
  by (simp add: bindE_eq_Inr init_resource_summary_Inr resource_summary_to_dict_def)

lemma resource_summary_from_dict_Inr: "resource_summary_from_dict v = Inr s \<Longrightarrow> init_resource_summary v = Inr s"
  by (simp add: resource_summary_from_dict_def bindE_eq_Inr)

definition delta_ok :: "local_delta \<Rightarrow> bool" where
  "delta_ok d \<longleftrightarrow> IDENTIFIER (ld_ticket_id d) \<and> CONTENT_ID (ld_ticket_fingerprint d) \<and> CONTENT_ID (ld_parent_model_id d) \<and>
     CONTENT_ID (ld_parameter_schema_id d) \<and> is_tensor_artifact (ld_artifact d) \<and>
     artifact_ref_from_dict (artifact_ref_to_dict (ld_artifact d)) = Inr (ld_artifact d) \<and>
     list_all PARAMETER_NAME (ld_tensor_order d) \<and> ld_tensor_order d \<noteq> [] \<and>
     sort_key name_key (ld_tensor_order d) = ld_tensor_order d \<and> distinct (ld_tensor_order d)"

lemma init_local_delta_ok:
  assumes "init_local_delta kw artifact order = Inr d" and "init_artifact_ref kw' = Inr artifact"
  shows "delta_ok d"
proof -
  have "ld_artifact d = artifact" and rest: "IDENTIFIER (ld_ticket_id d)" "CONTENT_ID (ld_ticket_fingerprint d)"
      "CONTENT_ID (ld_parent_model_id d)" "CONTENT_ID (ld_parameter_schema_id d)" "is_tensor_artifact artifact"
      "tensor_order_of completion_error order = Inr (ld_tensor_order d)"
    using assms(1) unfolding init_local_delta_def by (auto simp: bindE_eq_Inr)
  with artifact_ref_round_trip [OF assms(2)] show ?thesis by (simp add: delta_ok_def tensor_order_of_Inr)
qed

lemma local_delta_round_trip: "delta_ok d \<Longrightarrow> local_delta_from_dict (local_delta_to_dict d) = Inr d"
  unfolding delta_ok_def local_delta_from_dict_def init_local_delta_def
  by (cases d) (simp add: local_delta_to_dict_def LOCAL_DELTA_FIELDS_def bindE_eq_Inr tensor_order_of_Inr insert_commute)

lemma local_delta_from_dict_ok: "local_delta_from_dict v = Inr d \<Longrightarrow> delta_ok d"
  unfolding local_delta_from_dict_def
  by (auto simp: bindE_eq_Inr split: json.splits dest: artifact_ref_from_dict_Inr init_local_delta_ok)

lemma init_completion_ids_Inr:
  "init_completion_ids kw = Inr i \<longleftrightarrow>
     obj_get kw ''ticket_id'' = JStr (ci_ticket_id i) \<and> IDENTIFIER (ci_ticket_id i) \<and>
     obj_get kw ''domain_id'' = JStr (ci_domain_id i) \<and> IDENTIFIER (ci_domain_id i) \<and>
     obj_get kw ''worker_id'' = JStr (ci_worker_id i) \<and> IDENTIFIER (ci_worker_id i) \<and>
     obj_get kw ''ticket_fingerprint'' = JStr (ci_ticket_fingerprint i) \<and> CONTENT_ID (ci_ticket_fingerprint i) \<and>
     obj_get kw ''data_id'' = JStr (ci_data_id i) \<and> CONTENT_ID (ci_data_id i) \<and>
     obj_get kw ''parent_model_id'' = JStr (ci_parent_model_id i) \<and> CONTENT_ID (ci_parent_model_id i) \<and>
     obj_get kw ''parameter_schema_id'' = JStr (ci_parameter_schema_id i) \<and> CONTENT_ID (ci_parameter_schema_id i) \<and>
     obj_get kw ''optimizer_profile_id'' = JStr (ci_optimizer_profile_id i) \<and> CONTENT_ID (ci_optimizer_profile_id i) \<and>
     obj_get kw ''arithmetic_profile_id'' = JStr (ci_arithmetic_profile_id i) \<and> CONTENT_ID (ci_arithmetic_profile_id i)"
  unfolding init_completion_ids_def by (cases i) (auto simp: bindE_eq_Inr)

lemma init_completion_counts_Inr:
  "init_completion_counts kw = Inr n \<longleftrightarrow>
     obj_get kw ''batch_budget'' = JInt (cc_batch_budget n) \<and> 0 < cc_batch_budget n \<and>
     obj_get kw ''step_budget'' = JInt (cc_step_budget n) \<and> 0 < cc_step_budget n \<and>
     obj_get kw ''deterministic_seed'' = JInt (cc_deterministic_seed n) \<and> 0 \<le> cc_deterministic_seed n \<and>
     obj_get kw ''logical_deadline_ms'' = JInt (cc_logical_deadline_ms n) \<and> 0 < cc_logical_deadline_ms n \<and>
     obj_get kw ''data_range_start'' = JInt (cc_data_range_start n) \<and> 0 \<le> cc_data_range_start n \<and>
     obj_get kw ''data_range_end'' = JInt (cc_data_range_end n) \<and> cc_data_range_start n < cc_data_range_end n \<and>
     obj_get kw ''effective_steps'' = JInt (cc_effective_steps n) \<and> 0 \<le> cc_effective_steps n \<and>
     cc_effective_steps n \<le> cc_step_budget n \<and>
     obj_get kw ''micro_steps'' = JInt (cc_micro_steps n) \<and> 0 \<le> cc_micro_steps n \<and>
     obj_get kw ''processed_tokens'' = JInt (cc_processed_tokens n) \<and> 0 \<le> cc_processed_tokens n \<and>
     obj_get kw ''cursor_start'' = JInt (cc_cursor_start n) \<and> cc_cursor_start n = cc_data_range_start n \<and>
     obj_get kw ''cursor_end'' = JInt (cc_cursor_end n) \<and> cc_cursor_start n \<le> cc_cursor_end n \<and>
     cc_cursor_end n \<le> cc_data_range_end n"
  unfolding init_completion_counts_def by (cases n) (auto simp: bindE_eq_Inr)

definition completion_complete :: "completion \<Rightarrow> bool" where
  "completion_complete c \<longleftrightarrow> cp_status c = STATUS_COMPLETED \<and> cp_reason c = EXACT_H \<and>
     cc_effective_steps (cp_counts c) = cc_step_budget (cp_counts c)"

lemma init_completion_Inr:
  "init_completion kw status reason delta numerical resource = Inr c \<longleftrightarrow>
     init_completion_ids kw = Inr (cp_ids c) \<and> init_completion_counts kw = Inr (cp_counts c) \<and>
     obj_get kw ''candidate_eligible'' = JBool (cp_candidate_eligible c) \<and> cp_candidate_eligible c = completion_complete c \<and>
     reason \<in> set (allowed_reasons status) \<and>
     (if completion_complete c then check_complete (cp_ids c) delta (obj_get kw ''failure_code'') numerical = Inr ()
      else delta = None \<and> matching ERROR_CODE (obj_get kw ''failure_code'') \<noteq> None) \<and>
     obj_get kw ''producer_version'' = JStr (cp_producer_version c) \<and> PRODUCER_VERSION (cp_producer_version c) \<and>
     obj_get kw ''formal_semantics_id'' = JStr LOCAL_SEMANTICS_ID \<and> obj_get kw ''schema_version'' = JStr ''1.0.0'' \<and>
     cp_status c = status \<and> cp_reason c = reason \<and> cp_local_delta c = delta \<and>
     cp_failure_code c = str_opt (obj_get kw ''failure_code'') \<and> cp_numerical_summary c = numerical \<and>
     cp_resource_summary c = resource"
  unfolding init_completion_def Let_def completion_complete_def
  by (cases c) (auto simp: bindE_eq_Inr split: if_splits)

lemma completion_ids_again:
  "init_completion_ids kw = Inr (cp_ids c) \<Longrightarrow> init_completion_ids (completion_to_dict c) = Inr (cp_ids c)"
  unfolding init_completion_ids_Inr completion_to_dict_def Let_def by simp

lemma completion_counts_again:
  "init_completion_counts kw = Inr (cp_counts c) \<Longrightarrow> init_completion_counts (completion_to_dict c) = Inr (cp_counts c)"
  unfolding init_completion_counts_Inr completion_to_dict_def Let_def by simp

lemma completion_rest:
  "obj_get (completion_to_dict c) ''candidate_eligible'' = JBool (cp_candidate_eligible c)"
  "obj_get (completion_to_dict c) ''failure_code'' = text_or_null (cp_failure_code c)"
  "obj_get (completion_to_dict c) ''producer_version'' = JStr (cp_producer_version c)"
  "obj_get (completion_to_dict c) ''formal_semantics_id'' = JStr LOCAL_SEMANTICS_ID"
  "obj_get (completion_to_dict c) ''schema_version'' = JStr ''1.0.0''"
  "obj_get (completion_to_dict c) ''reason'' = JStr (reason_value (cp_reason c))"
  "obj_get (completion_to_dict c) ''status'' = JStr (status_value (cp_status c))"
  "obj_get (completion_to_dict c) ''worker_id'' = JStr (ci_worker_id (cp_ids c))"
  "obj_get (completion_to_dict c) ''local_delta''
     = (case cp_local_delta c of None \<Rightarrow> JNull | Some d \<Rightarrow> JObj (local_delta_to_dict d))"
  "obj_get (completion_to_dict c) ''numerical_summary'' = JObj (numerical_summary_to_dict (cp_numerical_summary c))"
  "obj_get (completion_to_dict c) ''resource_summary'' = JObj (resource_summary_to_dict (cp_resource_summary c))"
  "fst ` set (completion_to_dict c) = set COMPLETION_FIELDS"
  unfolding completion_to_dict_def Let_def COMPLETION_FIELDS_def by (simp_all add: insert_commute)

lemma failure_code_again:
  assumes "if done then check_complete ids delta v numerical = Inr () else delta = None \<and> matching ERROR_CODE v \<noteq> None"
  shows "text_or_null (str_opt v) = v"
  using assms by (cases v) (auto simp: check_complete_def text_or_null_def matching_def bindE_eq_Inr
      split: if_splits option.splits)

lemma init_completion_again:
  assumes "init_completion kw status reason delta numerical resource = Inr c"
  shows "init_completion (completion_to_dict c) (cp_status c) (cp_reason c) (cp_local_delta c) (cp_numerical_summary c)
    (cp_resource_summary c) = Inr c"
proof -
  note facts = assms [unfolded init_completion_Inr]
  have ids: "init_completion_ids kw = Inr (cp_ids c)" and counts: "init_completion_counts kw = Inr (cp_counts c)"
    using facts by blast+
  have "cp_failure_code c = str_opt (obj_get kw ''failure_code'')" using facts by blast
  moreover have "text_or_null (str_opt (obj_get kw ''failure_code'')) = obj_get kw ''failure_code''"
    using facts failure_code_again by blast
  ultimately have code: "text_or_null (cp_failure_code c) = obj_get kw ''failure_code''" by simp
  show ?thesis
    unfolding init_completion_Inr completion_rest completion_ids_again [OF ids] completion_counts_again [OF counts] code
    using facts by simp
qed

definition completion_ok :: "completion \<Rightarrow> bool" where
  "completion_ok c \<longleftrightarrow>
     init_completion (completion_to_dict c) (cp_status c) (cp_reason c) (cp_local_delta c) (cp_numerical_summary c)
       (cp_resource_summary c) = Inr c \<and>
     pred_option delta_ok (cp_local_delta c) \<and>
     numerical_summary_from_dict (numerical_summary_to_dict (cp_numerical_summary c)) = Inr (cp_numerical_summary c) \<and>
     resource_summary_from_dict (resource_summary_to_dict (cp_resource_summary c)) = Inr (cp_resource_summary c)"

lemma completion_okI:
  assumes "init_completion kw status reason delta numerical resource = Inr c" and "pred_option delta_ok delta"
    and "init_numerical_summary kw' = Inr numerical" and "init_resource_summary kw'' = Inr resource"
  shows "completion_ok c"
proof -
  have "cp_local_delta c = delta" "cp_numerical_summary c = numerical" "cp_resource_summary c = resource"
    using assms(1) [unfolded init_completion_Inr] by blast+
  then show ?thesis
    using init_completion_again [OF assms(1)] assms(2) numerical_summary_round_trip [OF assms(3)]
      resource_summary_round_trip [OF assms(4)] by (simp add: completion_ok_def)
qed

lemma local_delta_or_none_again:
  "pred_option delta_ok x \<Longrightarrow>
     local_delta_or_none (case x of None \<Rightarrow> JNull | Some d \<Rightarrow> JObj (local_delta_to_dict d)) = Inr x"
  by (cases x) (simp_all add: local_delta_or_none_def local_delta_round_trip, simp add: local_delta_to_dict_def)

lemma completion_dict_round_trip:
  assumes "completion_ok c"
  shows "completion_from_dict (completion_to_dict c) = Inr c"
proof -
  have delta: "local_delta_or_none (obj_get (completion_to_dict c) ''local_delta'') = Inr (cp_local_delta c)"
    using assms local_delta_or_none_again by (simp add: completion_ok_def completion_rest)
  have "obj_get (completion_to_dict c) ''local_delta'' = JNull \<or> is_obj (obj_get (completion_to_dict c) ''local_delta'')"
    by (simp add: completion_rest split: option.splits)
  then show ?thesis
    using assms unfolding completion_from_dict_def delta completion_ok_def
    by (simp add: completion_rest enum_of_Inr)
qed

lemma completion_from_dict_ok:
  assumes "completion_from_dict v = Inr c"
  shows "completion_ok c"
proof -
  from assms obtain numerical resource delta ns reason status rs where
    "local_delta_or_none (obj_get v ''local_delta'') = Inr delta" "numerical_summary_from_dict numerical = Inr ns"
    "resource_summary_from_dict resource = Inr rs" and init: "init_completion v status reason delta ns rs = Inr c"
    unfolding completion_from_dict_def by (auto simp: bindE_eq_Inr split: json.splits)
  moreover from this(1) have "pred_option delta_ok delta"
    by (auto simp: local_delta_or_none_def bindE_eq_Inr split: if_splits dest: local_delta_from_dict_ok)
  ultimately show ?thesis
    using completion_okI numerical_summary_from_dict_Inr resource_summary_from_dict_Inr by blast
qed

section \<open>Candidates\<close>

lemma candidate_counters_Inr:
  "candidate_counters kw = Inr (e, s, n) \<longleftrightarrow> obj_get kw ''effective_steps'' = JInt e \<and> obj_get kw ''step_budget'' = JInt s \<and>
     obj_get kw ''normalization_denominator'' = JInt n \<and> 0 < e \<and> s = e \<and> n = e"
  unfolding candidate_counters_def by (auto simp: bindE_eq_Inr split: option.splits)

lemma init_candidate_Inr:
  "init_candidate kw normalized order = Inr c \<longleftrightarrow>
     obj_get kw ''ticket_id'' = JStr (cd_ticket_id c) \<and> IDENTIFIER (cd_ticket_id c) \<and>
     obj_get kw ''domain_id'' = JStr (cd_domain_id c) \<and> IDENTIFIER (cd_domain_id c) \<and>
     obj_get kw ''ticket_fingerprint'' = JStr (cd_ticket_fingerprint c) \<and> CONTENT_ID (cd_ticket_fingerprint c) \<and>
     obj_get kw ''completion_id'' = JStr (cd_completion_id c) \<and> CONTENT_ID (cd_completion_id c) \<and>
     obj_get kw ''parent_model_id'' = JStr (cd_parent_model_id c) \<and> CONTENT_ID (cd_parent_model_id c) \<and>
     obj_get kw ''parameter_schema_id'' = JStr (cd_parameter_schema_id c) \<and> CONTENT_ID (cd_parameter_schema_id c) \<and>
     obj_get kw ''optimizer_profile_id'' = JStr (cd_optimizer_profile_id c) \<and> CONTENT_ID (cd_optimizer_profile_id c) \<and>
     obj_get kw ''arithmetic_profile_id'' = JStr (cd_arithmetic_profile_id c) \<and> CONTENT_ID (cd_arithmetic_profile_id c) \<and>
     candidate_counters kw = Inr (cd_effective_steps c, cd_step_budget c, cd_normalization_denominator c) \<and>
     is_tensor_artifact normalized \<and> tensor_order_of candidate_error order = Inr (cd_tensor_order c) \<and>
     obj_get kw ''storage_dtype'' = JStr ''float32'' \<and> obj_get kw ''formal_semantics_id'' = JStr LOCAL_SEMANTICS_ID \<and>
     obj_get kw ''schema_version'' = JStr ''1.0.0'' \<and> cd_normalized_delta c = normalized"
  unfolding init_candidate_def by (cases c) (auto simp: bindE_eq_Inr)

lemma candidate_dict_round_trip:
  assumes "init_candidate kw normalized order = Inr c" and "init_artifact_ref kw' = Inr normalized"
  shows "candidate_from_dict (candidate_to_dict c) = Inr c"
proof -
  have "init_candidate (candidate_to_dict c) normalized (map JStr (cd_tensor_order c)) = Inr c"
    using assms(1) unfolding init_candidate_Inr candidate_counters_Inr candidate_to_dict_def
    by (simp add: tensor_order_of_Inr)
  moreover have "cd_normalized_delta c = normalized" using assms(1) unfolding init_candidate_Inr by blast
  moreover have "fst ` set (candidate_to_dict c) = set CANDIDATE_FIELDS"
    by (simp add: candidate_to_dict_def CANDIDATE_FIELDS_def insert_commute)
  moreover have "obj_get (candidate_to_dict c) ''tensor_order'' = JArr (map JStr (cd_tensor_order c))"
    "obj_get (candidate_to_dict c) ''normalized_delta'' = JObj (artifact_ref_to_dict (cd_normalized_delta c))"
    by (simp_all add: candidate_to_dict_def)
  ultimately show ?thesis
    using artifact_ref_round_trip [OF assms(2)] by (simp add: candidate_from_dict_def)
qed

section \<open>Parameter schemas\<close>

lemma shape_items_Some: "shape_items vs = Some is \<longleftrightarrow> vs = map JInt is \<and> list_all (\<lambda>i. 0 < i) is"
proof (induction vs arbitrary: "is")
  case (Cons v vs)
  then show ?case
    by (cases "is") (auto simp: positive_int_def inj_map_eq_map inj_def split: option.splits json.splits if_splits)
qed auto

definition spec_ok :: "parameter_spec \<Rightarrow> bool" where
  "spec_ok p \<longleftrightarrow> PARAMETER_NAME (ps_name p) \<and> list_all (\<lambda>i. 0 < i) (ps_shape p)"

lemma parameter_spec_round_trip: "spec_ok p \<Longrightarrow> parameter_spec_from_dict (parameter_spec_to_dict p) = Inr p"
  unfolding spec_ok_def parameter_spec_from_dict_def init_parameter_spec_def
  by (cases p) (simp add: parameter_spec_to_dict_def enum_of_Inr bindE_eq_Inr shape_items_Some)

lemma init_parameter_spec_ok: "init_parameter_spec kw shape dtype = Inr p \<Longrightarrow> spec_ok p"
  unfolding init_parameter_spec_def spec_ok_def
  by (cases "obj_get kw ''trainable''") (auto simp: bindE_eq_Inr shape_items_Some)

lemma parameter_spec_from_dict_ok: "parameter_spec_from_dict v = Inr p \<Longrightarrow> spec_ok p"
  unfolding parameter_spec_from_dict_def
  by (cases "obj_get v ''shape''") (auto simp: bindE_eq_Inr intro: init_parameter_spec_ok)

definition schema_ok :: "parameter_schema \<Rightarrow> bool" where
  "schema_ok s \<longleftrightarrow> sc_parameters s \<noteq> [] \<and> list_all spec_ok (sc_parameters s) \<and>
     sort_key (\<lambda>p. name_key (ps_name p)) (sc_parameters s) = sc_parameters s \<and> distinct (map ps_name (sc_parameters s)) \<and>
     sort_key (\<lambda>kv. name_key (fst kv)) (sc_tied_aliases s) = sc_tied_aliases s \<and>
     list_all (\<lambda>(a, n). PARAMETER_NAME a \<and> n \<in> ps_name ` set (sc_parameters s) \<and> a \<notin> ps_name ` set (sc_parameters s))
       (sc_tied_aliases s)"

lemma alias_owner_Inr:
  "alias_owner names kv = Inr r \<longleftrightarrow> fst kv = fst r \<and> snd kv = JStr (snd r) \<and> PARAMETER_NAME (fst r) \<and>
     snd r \<in> set names \<and> fst r \<notin> set names"
  unfolding alias_owner_def by (cases r) (auto split: json.splits)

lemma init_parameter_schema_ok:
  assumes "init_parameter_schema version specs aliases policy = Inr s" and "list_all spec_ok specs"
  shows "schema_ok s"
proof -
  obtain owners where s: "specs \<noteq> []" "sort_key (\<lambda>p. name_key (ps_name p)) specs = specs" "distinct (map ps_name specs)"
      "list_all2 (\<lambda>kv r. alias_owner (map ps_name specs) kv = Inr r) aliases owners"
      "sc_parameters s = specs" "sc_tied_aliases s = sort_key (\<lambda>kv. name_key (fst kv)) owners"
    using assms(1) unfolding init_parameter_schema_def by (auto simp: bindE_eq_Inr mapE_eq_Inr_iff)
  have "PARAMETER_NAME (fst r) \<and> snd r \<in> ps_name ` set specs \<and> fst r \<notin> ps_name ` set specs" if "r \<in> set owners" for r
    using s(4) that by (auto simp: list_all2_conv_all_nth in_set_conv_nth alias_owner_Inr)
  then show ?thesis
    using s(1-3) assms(2) unfolding schema_ok_def s(5,6) by (simp add: list_all_iff case_prod_beta sort_key_id_if_sorted)
qed

lemma parameter_schema_round_trip:
  assumes "schema_ok s"
  shows "parameter_schema_from_dict (parameter_schema_to_dict s) = Inr s"
proof -
  have specs: "mapE (\<lambda>v. parameter_spec_from_dict (obj_fields v)) (map (\<lambda>p. JObj (parameter_spec_to_dict p)) (sc_parameters s))
      = Inr (sc_parameters s)"
    using assms by (auto simp: mapE_eq_Inr_iff list_all2_conv_all_nth schema_ok_def list_all_length parameter_spec_round_trip)
  have aliases: "mapE (alias_owner (map ps_name (sc_parameters s))) (map (\<lambda>(a, n). (a, JStr n)) (sc_tied_aliases s))
      = Inr (sc_tied_aliases s)"
    using assms by (auto simp: mapE_eq_Inr_iff list_all2_conv_all_nth schema_ok_def list_all_length alias_owner_Inr
        split: prod.splits)
  have get: "obj_get (parameter_schema_to_dict s) ''parameters''
        = JArr (map (\<lambda>p. JObj (parameter_spec_to_dict p)) (sc_parameters s))"
      "obj_get (parameter_schema_to_dict s) ''tied_aliases'' = JObj (map (\<lambda>(a, n). (a, JStr n)) (sc_tied_aliases s))"
      "obj_get (parameter_schema_to_dict s) ''schema_version'' = JStr ''1.0.0''"
      "obj_get (parameter_schema_to_dict s) ''frozen_omission_policy'' = JStr (policy_value (sc_frozen_omission_policy s))"
      "fst ` set (parameter_schema_to_dict s) = {''frozen_omission_policy'', ''parameters'', ''schema_version'', ''tied_aliases''}"
    by (simp_all add: parameter_schema_to_dict_def)
  show ?thesis
    unfolding parameter_schema_from_dict_def get
    using assms specs aliases by (simp add: get enum_of_Inr init_parameter_schema_def schema_ok_def list_all_iff)
qed

lemma parameter_schema_from_dict_ok:
  assumes "parameter_schema_from_dict v = Inr s"
  shows "schema_ok s"
proof (cases "obj_get v ''parameters''")
  case (JArr parameters)
  show ?thesis
  proof (cases "obj_get v ''tied_aliases''")
    case (JObj aliases)
    with JArr assms obtain specs policy where
      specs: "list_all2 (\<lambda>v p. parameter_spec_from_dict (obj_fields v) = Inr p) parameters specs"
      and init: "init_parameter_schema (obj_get v ''schema_version'') specs aliases policy = Inr s"
      unfolding parameter_schema_from_dict_def by (auto simp: bindE_eq_Inr mapE_eq_Inr_iff)
    have "list_all spec_ok specs"
      using specs by (auto simp: list_all2_conv_all_nth list_all_length intro: parameter_spec_from_dict_ok)
    with init show ?thesis by (rule init_parameter_schema_ok)
  qed (use assms JArr in \<open>auto simp: parameter_schema_from_dict_def bindE_eq_Inr\<close>)
qed (use assms in \<open>auto simp: parameter_schema_from_dict_def bindE_eq_Inr\<close>)

section \<open>Canonical bytes\<close>

lemma float_free_sort_keys [simp]: "float_free (sort_keys v) = float_free v"
  by (induction v rule: sort_keys.induct) (auto simp: list_all_iff)

lemma canonical_json_bytes_inj:
  assumes "canonical_json_bytes v = Inr b" and "canonical_json_bytes w = Inr b"
  shows "sort_keys v = sort_keys w"
proof -
  have "float_free v" "float_free w" and "json_text (sort_keys v) @ [] = json_text (sort_keys w) @ []"
    using assms by (auto simp: canonical_json_bytes_def dumps_sorted_def split: if_splits)
  then show ?thesis using json_text_prefix [of "sort_keys v" "sort_keys w" "[]" "[]"] by (simp add: delim_def)
qed

lemma sort_keys_get:
  assumes "sort_keys (JObj a) = sort_keys (JObj b)" and "distinct (map fst a)" and "distinct (map fst b)"
  shows "sort_keys (obj_get a k) = sort_keys (obj_get b k)"
proof -
  let ?f = "\<lambda>(k, v). (k, sort_keys v)"
  have get: "map_of (map ?f (sort_key (\<lambda>kv. map (of_char :: char \<Rightarrow> nat) (fst kv)) xs)) k = map_option sort_keys (map_of xs k)"
    if "distinct (map fst xs)" for xs
  proof -
    have "map_of (sort_key (\<lambda>kv. map (of_char :: char \<Rightarrow> nat) (fst kv)) xs) = map_of xs"
      by (rule map_of_inject_set [THEN iffD2]) (use that in \<open>simp_all add: distinct_map\<close>)
    then show ?thesis by (simp add: map_of_map)
  qed
  have "map_option sort_keys (map_of a k) = map_option sort_keys (map_of b k)"
    using assms(1) get [OF assms(2)] get [OF assms(3)] by simp
  then show ?thesis by (cases "map_of a k"; cases "map_of b k") (simp_all add: obj_get_def)
qed

end
