(* ===== verification/Local_Training_Props.thy ===== *)
theory Local_Training_Props
  imports Local_Training
begin

text \<open>
  What one optimizer step leaves behind, and what the sampler draws: the counters of the ledger and of the training
  state agree after every step, a failed step changes nothing but the number of observed micro-batches, and an
  epoch draws every sample exactly once.
\<close>

section \<open>The sampler\<close>

lemma epoch_order_perm: "mset (epoch_order sha s epoch) = mset [0..<sp_sample_count s]"
  unfolding epoch_order_def by (rule mset_sort)

lemma length_epoch_order [simp]: "length (epoch_order sha s epoch) = sp_sample_count s"
  by (metis epoch_order_perm length_upt minus_nat.diff_0 size_mset)

lemma index_at_less: "0 < sp_sample_count s \<Longrightarrow> index_at sha s cursor < sp_sample_count s"
proof -
  assume pos: "0 < sp_sample_count s"
  then have "index_at sha s cursor \<in> set (epoch_order sha s (cursor div sp_sample_count s))"
    by (simp add: index_at_def)
  also have "\<dots> = {0..<sp_sample_count s}"
    using epoch_order_perm [THEN mset_eq_setD] by simp
  finally show ?thesis by simp
qed

lemma epoch_draws:
  assumes "0 < sp_sample_count s"
  shows "map (index_at sha s) [epoch * sp_sample_count s..<(epoch + 1) * sp_sample_count s] = epoch_order sha s epoch"
proof (rule nth_equalityI)
  show "length (map (index_at sha s) [epoch * sp_sample_count s..<(epoch + 1) * sp_sample_count s])
      = length (epoch_order sha s epoch)" by simp
  fix i
  assume "i < length (map (index_at sha s) [epoch * sp_sample_count s..<(epoch + 1) * sp_sample_count s])"
  then have i: "i < sp_sample_count s" by simp
  then show "map (index_at sha s) [epoch * sp_sample_count s..<(epoch + 1) * sp_sample_count s] ! i = epoch_order sha s epoch ! i"
    using assms by (simp add: index_at_def)
qed

lemma sampler_take_Inr:
  "sampler_take sha draws s = Inr (indices, s') \<longleftrightarrow>
     0 < draws \<and> indices = map (index_at sha s) [sp_cursor s..<sp_cursor s + nat draws] \<and>
     s' = s\<lparr>sp_cursor := sp_cursor s + nat draws\<rparr>"
proof -
  have "map (\<lambda>offset. index_at sha s (sp_cursor s + offset)) [0..<nat draws]
      = map (index_at sha s) [sp_cursor s..<sp_cursor s + nat draws]"
    by (rule nth_equalityI) simp_all
  then show ?thesis by (auto simp: sampler_take_def)
qed

lemma index_at_cursor [simp]: "index_at sha (s\<lparr>sp_cursor := c\<rparr>) = index_at sha s"
  by (rule ext) (simp add: index_at_def epoch_order_def)

section \<open>Agreement of the counters\<close>

definition counted :: "baseline_config \<Rightarrow> 'm training_state \<Rightarrow> boundary_ledger \<Rightarrow> bool" where
  "counted config st l \<longleftrightarrow>
     0 < bc_gradient_accumulation_steps config \<and> 0 < bc_batch_size config \<and>
     0 \<le> bl_effective_steps l \<and> bl_effective_steps l = ts_optimizer_step st \<and>
     bl_committed_micro_steps l = bl_effective_steps l * bc_gradient_accumulation_steps config \<and>
     bl_committed_micro_steps l = ts_micro_step st \<and> bl_committed_micro_steps l \<le> bl_observed_micro_steps l \<and>
     0 \<le> bl_processed_tokens l \<and> bl_processed_tokens l = ts_processed_tokens st \<and>
     bl_pending_tokens l = 0 \<and> bl_pending_cursor_end l = None \<and> bl_pending_micro_steps l = 0 \<and>
     0 \<le> bl_range_start l \<and> bl_cursor_end l \<le> bl_range_end l \<and> bl_cursor_end l = int (sp_cursor (ts_sampler st)) \<and>
     bl_cursor_end l = bl_range_start l + bl_committed_micro_steps l * bc_batch_size config"

text \<open>The ledger \<open>l\<close> with the training state \<open>st\<close> after \<open>k\<close> micro-batches of the step that began with \<open>l0\<close> and \<open>st0\<close>.\<close>

definition staged ::
  "baseline_config \<Rightarrow> 'm training_state \<Rightarrow> boundary_ledger \<Rightarrow> nat \<Rightarrow> int \<Rightarrow> 'm training_state \<Rightarrow> boundary_ledger \<Rightarrow> bool" where
  "staged config st0 l0 k tokens st l \<longleftrightarrow>
     l = l0\<lparr>bl_observed_micro_steps := bl_observed_micro_steps l0 + int k, bl_pending_tokens := tokens,
            bl_pending_cursor_end := (if k = 0 then None else Some (int (sp_cursor (ts_sampler st)))),
            bl_pending_micro_steps := int k\<rparr> \<and>
     0 \<le> tokens \<and> int (sp_cursor (ts_sampler st)) = bl_cursor_end l0 + int k * bc_batch_size config \<and>
     int (sp_cursor (ts_sampler st)) \<le> bl_range_end l0 \<and>
     ts_micro_step st = ts_micro_step st0 \<and> ts_optimizer_step st = ts_optimizer_step st0 \<and>
     ts_processed_tokens st = ts_processed_tokens st0"

lemma staged_start: "counted config st l \<Longrightarrow> staged config st l 0 0 st l"
  by (cases l) (simp add: counted_def staged_def)

lemma non_padding_nonneg: "0 \<le> non_padding samples"
  by (auto simp: non_padding_def intro!: sum_list_nonneg)

lemma train_microbatch_staged:
  assumes "staged config st0 l0 k tokens st l" and "counted config st0 l0"
    and "train_microbatch sha tr before config samples st l = (res, st', l')"
  shows "case res of Inr (loss, n) \<Rightarrow> staged config st0 l0 (Suc k) (tokens + n) st' l'
    | Inl e \<Rightarrow> l' = l \<and> ts_micro_step st' = ts_micro_step st0 \<and> ts_optimizer_step st' = ts_optimizer_step st0 \<and>
        ts_processed_tokens st' = ts_processed_tokens st0"
proof (cases res)
  case (Inl e)
  then show ?thesis
    using assms(1,3) unfolding train_microbatch_def staged_def Let_def
    by (auto split: sum.splits prod.splits if_splits)
next
  case (Inr x)
  obtain loss n where x: "x = (loss, n)" by (cases x)
  from assms(3) Inr x obtain indices drawn model batch where t:
    "sampler_take sha (bc_batch_size config) (ts_sampler st) = Inr (indices, drawn)" "n = non_padding batch"
    "stage_microbatch (int (sp_cursor (ts_sampler st))) (int (sp_cursor drawn)) n l = Inr l'"
    "st' = st\<lparr>ts_sampler := drawn, ts_model := model\<rparr>"
    unfolding train_microbatch_def Let_def by (auto split: sum.splits prod.splits if_splits)
  have pos: "0 < bc_batch_size config" using assms(2) by (simp add: counted_def)
  have cursor: "int (sp_cursor drawn) = int (sp_cursor (ts_sampler st)) + bc_batch_size config"
    using t(1) pos by (auto simp: sampler_take_Inr)
  show ?thesis
    using assms(1) t(3) cursor non_padding_nonneg [of batch] unfolding Inr x t(2,4) staged_def stage_microbatch_def
    by (auto simp: bindE_eq_Inr algebra_simps)
qed

lemma train_microbatches_staged:
  assumes "staged config st0 l0 k tokens st l" and "counted config st0 l0"
    and "train_microbatches sha tr before config samples n st l = (res, st', l')"
  shows "case res of Inr xs \<Rightarrow> length xs = n \<and> staged config st0 l0 (k + n) (tokens + sum_list (map snd xs)) st' l'
    | Inl e \<Rightarrow> (\<exists>j tokens' st''. j < k + n \<and> staged config st0 l0 j tokens' st'' l') \<and>
        ts_micro_step st' = ts_micro_step st0 \<and> ts_optimizer_step st' = ts_optimizer_step st0 \<and>
        ts_processed_tokens st' = ts_processed_tokens st0"
  using assms(1,3)
proof (induction n arbitrary: k tokens st l res st' l')
  case 0
  then show ?case by auto
next
  case (Suc n)
  obtain one st1 l1 where one: "train_microbatch sha tr before config samples st l = (one, st1, l1)" by (metis prod_cases3)
  show ?case
  proof (cases one)
    case (Inl e)
    with one Suc.prems(2) have "res = Inl e" "st' = st1" "l' = l1" by auto
    with train_microbatch_staged [OF Suc.prems(1) assms(2) one] Inl Suc.prems(1) show ?thesis
      by (auto intro!: exI [of _ k])
  next
    case (Inr x)
    obtain loss m where x: "x = (loss, m)" by (cases x)
    have after: "staged config st0 l0 (Suc k) (tokens + m) st1 l1"
      using train_microbatch_staged [OF Suc.prems(1) assms(2) one] Inr x by simp
    obtain rest st2 l2 where rest: "train_microbatches sha tr before config samples n st1 l1 = (rest, st2, l2)"
      by (metis prod_cases3)
    note IH = Suc.IH [OF after rest]
    show ?thesis
    proof (cases rest)
      case (Inl e)
      with one Inr rest Suc.prems(2) have "res = Inl e" "st' = st2" "l' = l2" by auto
      with IH Inl show ?thesis by auto
    next
      case (Inr xs)
      with one \<open>one = Inr x\<close> rest Suc.prems(2) have "res = Inr (x # xs)" "st' = st2" "l' = l2" by auto
      with IH Inr x show ?thesis by (auto simp: add.assoc)
    qed
  qed
qed

lemma counted_bounds:
  assumes "counted config st l"
  shows "0 \<le> bl_effective_steps l" "0 \<le> bl_committed_micro_steps l" "0 \<le> bl_observed_micro_steps l"
    "bl_committed_micro_steps l \<le> bl_observed_micro_steps l" "0 \<le> bl_processed_tokens l" "0 \<le> bl_range_start l"
    "bl_range_start l \<le> bl_cursor_end l" "0 \<le> bl_cursor_end l" "bl_pending_micro_steps l = 0"
proof -
  note c = assms [unfolded counted_def]
  show e: "0 \<le> bl_effective_steps l" "bl_committed_micro_steps l \<le> bl_observed_micro_steps l" "0 \<le> bl_processed_tokens l"
      "0 \<le> bl_range_start l" "bl_pending_micro_steps l = 0"
    using c by blast+
  show m: "0 \<le> bl_committed_micro_steps l" using c by (metis mult_nonneg_nonneg order_less_imp_le)
  then show "0 \<le> bl_observed_micro_steps l" using e(2) by linarith
  have "0 \<le> bl_committed_micro_steps l * bc_batch_size config" using m c by (simp add: mult_nonneg_nonneg)
  then show r: "bl_range_start l \<le> bl_cursor_end l" using c by linarith
  then show "0 \<le> bl_cursor_end l" using e(4) by linarith
qed

text \<open>What agreement says of the ledger alone.\<close>

definition ledger_ok :: "boundary_ledger \<Rightarrow> bool" where
  "ledger_ok l \<longleftrightarrow> 0 \<le> bl_effective_steps l \<and> 0 \<le> bl_committed_micro_steps l \<and>
     bl_committed_micro_steps l \<le> bl_observed_micro_steps l \<and> 0 \<le> bl_processed_tokens l \<and> 0 \<le> bl_range_start l \<and>
     bl_range_start l \<le> bl_cursor_end l \<and> bl_cursor_end l \<le> bl_range_end l \<and> bl_pending_micro_steps l = 0"

lemma counted_ledger_ok:
  assumes "counted config st l"
  shows "ledger_ok l"
proof -
  have "bl_cursor_end l \<le> bl_range_end l" using assms unfolding counted_def by blast
  with counted_bounds [OF assms] show ?thesis unfolding ledger_ok_def by blast
qed

lemma accounting_snapshot_ok:
  "ledger_ok l \<Longrightarrow> accounting_snapshot l =
     Inr \<lparr>ta_effective_steps = bl_effective_steps l, ta_observed_micro_steps = bl_observed_micro_steps l,
          ta_committed_micro_steps = bl_committed_micro_steps l, ta_processed_tokens = bl_processed_tokens l,
          ta_cursor_start = bl_range_start l, ta_cursor_end = bl_cursor_end l, ta_pending_micro_steps = 0\<rparr>"
  by (simp add: accounting_snapshot_def check_token_accounting_def ledger_ok_def)

lemmas accounting_snapshot_counted = accounting_snapshot_ok [OF counted_ledger_ok]

text \<open>A step that did not happen: the ledger has seen more micro-batches, nothing else has changed.\<close>

definition undone :: "boundary_ledger \<Rightarrow> boundary_ledger \<Rightarrow> bool" where
  "undone l l' \<longleftrightarrow> bl_observed_micro_steps l \<le> bl_observed_micro_steps l' \<and>
     l' = l\<lparr>bl_observed_micro_steps := bl_observed_micro_steps l'\<rparr>"

lemma undone_fields:
  assumes "undone l l'"
  shows "bl_effective_steps l' = bl_effective_steps l" "bl_range_start l' = bl_range_start l" "bl_range_end l' = bl_range_end l"
proof -
  obtain n where "l' = l\<lparr>bl_observed_micro_steps := n\<rparr>" using assms undone_def by blast
  then show "bl_effective_steps l' = bl_effective_steps l" "bl_range_start l' = bl_range_start l"
    "bl_range_end l' = bl_range_end l" by simp_all
qed

lemma counted_undone:
  assumes "counted config st l" and "undone l l'" and "ts_sampler st' = ts_sampler st"
    and "ts_micro_step st' = ts_micro_step st" and "ts_optimizer_step st' = ts_optimizer_step st"
    and "ts_processed_tokens st' = ts_processed_tokens st"
  shows "counted config st' l'"
proof -
  have "l' = l\<lparr>bl_observed_micro_steps := bl_observed_micro_steps l'\<rparr>" using assms(2) by (simp add: undone_def)
  then obtain n where "l' = l\<lparr>bl_observed_micro_steps := n\<rparr>" "bl_observed_micro_steps l \<le> n"
    using assms(2) undone_def by blast
  with assms(1,3-6) show ?thesis unfolding counted_def by auto
qed

lemma roll_back_undone:
  assumes "counted config st0 l0" and "staged config st0 l0 j tokens any l" and "e \<noteq> ProcessExit"
    and "ts_micro_step st = ts_micro_step st0" and "ts_optimizer_step st = ts_optimizer_step st0"
    and "ts_processed_tokens st = ts_processed_tokens st0"
    and "roll_back tr (ts_sampler st0) e st l = (res, st', l')"
  shows "res = Inl e \<and> undone l0 l' \<and> counted config st' l' \<and> ts_sampler st' = ts_sampler st0"
proof -
  let ?rolled = "st\<lparr>ts_sampler := ts_sampler st0, ts_model := tr_zero_grad tr (ts_model st)\<rparr>"
  have u: "undone l0 (clear_pending l)"
    using assms(1,2) by (auto simp: staged_def undone_def clear_pending_def counted_def)
  have c: "counted config ?rolled (clear_pending l)"
    by (rule counted_undone [OF assms(1) u]) (simp_all add: assms(4-6))
  show ?thesis
    using assms(3,7) u c by (auto simp: roll_back_def discard_partial_accumulation_def accounting_snapshot_counted [OF c])
qed

lemma commit_staged:
  assumes "counted config st0 l0" and "staged config st0 l0 k tokens st l" and "int k = bc_gradient_accumulation_steps config"
  shows "\<exists>l'. commit_optimizer_step (bc_gradient_accumulation_steps config) l
      = (accounting_snapshot l', l') \<and>
    counted config (st\<lparr>ts_model := model, ts_micro_step := ts_micro_step st + int k,
        ts_optimizer_step := ts_optimizer_step st + 1, ts_processed_tokens := ts_processed_tokens st + tokens\<rparr>) l' \<and>
    bl_effective_steps l' = bl_effective_steps l0 + 1 \<and>
    bl_processed_tokens l' = bl_processed_tokens l0 + tokens \<and> bl_range_start l' = bl_range_start l0 \<and>
    bl_range_end l' = bl_range_end l0 \<and> bl_observed_micro_steps l' = bl_observed_micro_steps l0 + int k"
proof -
  have k: "0 < k" using assms(1,3) by (simp add: counted_def)
  have "counted config (st\<lparr>ts_model := model, ts_micro_step := ts_micro_step st + int k,
        ts_optimizer_step := ts_optimizer_step st + 1, ts_processed_tokens := ts_processed_tokens st + tokens\<rparr>)
      (clear_pending (l\<lparr>bl_effective_steps := bl_effective_steps l + 1,
          bl_committed_micro_steps := bl_committed_micro_steps l + bl_pending_micro_steps l,
          bl_processed_tokens := bl_processed_tokens l + bl_pending_tokens l,
          bl_cursor_end := int (sp_cursor (ts_sampler st))\<rparr>))"
    using assms k unfolding counted_def staged_def clear_pending_def by (auto simp: algebra_simps)
  with assms k show ?thesis
    unfolding commit_optimizer_step_def by (auto simp: staged_def clear_pending_def Let_def)
qed

lemma train_step_counted:
  assumes "counted config st l"
    and "train_one_optimizer_step sha tr before config samples st l = (res, st', l')" and "res \<noteq> Inl ProcessExit"
  shows "counted config st' l' \<and>
    (case res of
       Inl e \<Rightarrow> undone l l' \<and> ts_sampler st' = ts_sampler st
     | Inr metric \<Rightarrow> bl_effective_steps l' = bl_effective_steps l + 1 \<and> tm_optimizer_step metric = bl_effective_steps l' \<and>
         tm_step metric = bl_committed_micro_steps l' \<and> tm_processed_tokens metric = bl_processed_tokens l' \<and>
         bl_range_start l' = bl_range_start l \<and> bl_range_end l' = bl_range_end l)"
proof -
  have undone_refl: "undone l l" by (simp add: undone_def)
  obtain outcome st1 l1 where loop: "train_microbatches sha tr before config samples
      (nat (bc_gradient_accumulation_steps config)) st l = (outcome, st1, l1)" by (metis prod_cases3)
  note facts = train_microbatches_staged [OF staged_start [OF assms(1)] assms(1) loop]
  have acc: "int (nat (bc_gradient_accumulation_steps config)) = bc_gradient_accumulation_steps config"
    using assms(1) by (simp add: counted_def)
  show ?thesis
  proof (cases "ts_optimizer_step st \<ge> bc_optimizer_steps config \<or> ts_micro_step st mod bc_gradient_accumulation_steps config \<noteq> 0")
    case True
    then have "res = Inl LocalValueError" "st' = st" "l' = l"
      using assms(2) by (auto simp: train_one_optimizer_step_def split: if_splits)
    then show ?thesis using assms(1) undone_refl by simp
  next
    case False
    show ?thesis
    proof (cases outcome)
      case (Inl e)
      then have rolled: "roll_back tr (ts_sampler st) e st1 l1 = (res, st', l')"
        using assms(2) False loop by (auto simp: train_one_optimizer_step_def split: if_splits)
      then have "e \<noteq> ProcessExit" using assms(3) by (auto simp: roll_back_def)
      moreover obtain j tokens st2 where "staged config st l j tokens st2 l1"
        and same: "ts_micro_step st1 = ts_micro_step st" "ts_optimizer_step st1 = ts_optimizer_step st"
          "ts_processed_tokens st1 = ts_processed_tokens st"
        using facts Inl by auto
      ultimately have "res = Inl e \<and> undone l l' \<and> counted config st' l' \<and> ts_sampler st' = ts_sampler st"
        using roll_back_undone [OF assms(1) _ _ same rolled] by blast
      then show ?thesis by simp
    next
      case (Inr xs)
      with facts have xs: "length xs = nat (bc_gradient_accumulation_steps config)"
        and stg: "staged config st l (nat (bc_gradient_accumulation_steps config)) (sum_list (map snd xs)) st1 l1" by auto
      show ?thesis
      proof (cases "tr_step tr (ts_model st1)")
        case (Inl e)
        then have rolled: "roll_back tr (ts_sampler st) e st1 l1 = (res, st', l')"
          using assms(2) False loop \<open>outcome = Inr xs\<close> by (auto simp: train_one_optimizer_step_def split: if_splits)
        then have "e \<noteq> ProcessExit" using assms(3) by (auto simp: roll_back_def)
        moreover have same: "ts_micro_step st1 = ts_micro_step st" "ts_optimizer_step st1 = ts_optimizer_step st"
          "ts_processed_tokens st1 = ts_processed_tokens st"
          using stg by (simp_all add: staged_def)
        ultimately have "res = Inl e \<and> undone l l' \<and> counted config st' l' \<and> ts_sampler st' = ts_sampler st"
          using roll_back_undone [OF assms(1) stg _ same rolled] by blast
        then show ?thesis by simp
      next
        case (Inr model)
        obtain l2 where commit: "commit_optimizer_step (bc_gradient_accumulation_steps config) l1 = (accounting_snapshot l2, l2)"
          and c: "counted config (st1\<lparr>ts_model := model,
              ts_micro_step := ts_micro_step st1 + int (nat (bc_gradient_accumulation_steps config)),
              ts_optimizer_step := ts_optimizer_step st1 + 1,
              ts_processed_tokens := ts_processed_tokens st1 + sum_list (map snd xs)\<rparr>) l2"
          and "bl_effective_steps l2 = bl_effective_steps l + 1" "bl_range_start l2 = bl_range_start l"
            "bl_range_end l2 = bl_range_end l"
          using commit_staged [OF assms(1) stg acc] by blast
        moreover have "bl_effective_steps l2 = ts_optimizer_step st1 + 1" "bl_committed_micro_steps l2 = ts_micro_step st1 + int (length xs)"
          "bl_processed_tokens l2 = ts_processed_tokens st1 + sum_list (map snd xs)"
          using c xs unfolding counted_def by auto
        ultimately show ?thesis
          using assms(2) False loop \<open>outcome = Inr xs\<close> Inr xs
          by (auto simp: train_one_optimizer_step_def accounting_snapshot_counted [OF c] split: if_splits)
      qed
    qed
  qed
qed

end
