(* ===== verification/Local_Engine_Props.thy ===== *)
theory Local_Engine_Props
  imports Local_Engine Local_Documents Local_Training_Props
begin

text \<open>
  What a run of the engine does to the disk and what its results say: every run is a sequence of \<open>disk_step\<close>s, a
  published round is complete and bound to its ticket, a completion of another worker blocks a ticket.
\<close>

section \<open>Runs as steps of the disk\<close>

definition disk_run :: "(string \<Rightarrow> string) \<Rightarrow> 'a disk_action \<Rightarrow> bool" where
  "disk_run sha m \<longleftrightarrow> (\<forall>d. (disk_step sha)\<^sup>*\<^sup>* d (snd (m d)))"

definition others_ok :: "engine_env \<Rightarrow> bool" where
  "others_ok env \<longleftrightarrow> (\<forall>stage d. (disk_step (en_sha env))\<^sup>*\<^sup>* d (en_others env stage d))"

named_theorems disk_runs \<open>actions that are steps of the disk\<close>

lemma disk_run_bindD [disk_runs]: "disk_run sha m \<Longrightarrow> (\<And>x. disk_run sha (f x)) \<Longrightarrow> disk_run sha (bindD m f)"
  unfolding disk_run_def bindD_def by (auto split: prod.splits sum.splits) (metis rtranclp_trans snd_conv)+

lemma disk_run_pureD [disk_runs]: "disk_run sha (pureD x)"
  by (simp add: disk_run_def pureD_def)

lemma disk_run_publish_at [disk_runs]: "disk_run sha (publish_at sha locator content media_type schema_id)"
  unfolding disk_run_def by (metis disk_step.publishing prod.collapse r_into_rtranclp)

lemma disk_run_claim [disk_runs]: "disk_run sha (claim sha loads recover t)"
  unfolding disk_run_def by (metis disk_step.claiming prod.collapse r_into_rtranclp)

lemma disk_run_complete [disk_runs]: "disk_run sha (complete t outcome)"
  unfolding disk_run_def by (metis disk_step.completing prod.collapse r_into_rtranclp)

lemma disk_run_publish_json [disk_runs]: "disk_run sha (publish_json sha document media_type schema_id)"
  using disk_run_publish_at unfolding disk_run_def publish_json_def publish_bytes_def Let_def
  by (auto split: sum.splits)

lemma disk_run_publish_tensors [disk_runs]: "disk_run sha (publish_tensors sha ops tensors)"
  using disk_run_publish_at unfolding disk_run_def publish_tensors_def publish_bytes_def Let_def by auto

lemma disk_run_publish_document [disk_runs]: "disk_run sha (publish_document sha locator document media_type schema_id)"
  unfolding publish_document_def by (intro disk_runs)

lemma disk_run_after_stage [disk_runs]: "others_ok env \<Longrightarrow> disk_run (en_sha env) (after_stage env stage)"
  by (simp add: disk_run_def after_stage_def others_ok_def)

lemma disk_run_publish_success [disk_runs]:
  "others_ok env \<Longrightarrow> disk_run (en_sha env) (publish_success env ops t schema limits a delta normalized wall)"
  unfolding publish_success_def by (intro disk_runs)

lemma disk_run_publish_failure [disk_runs]:
  "disk_run (en_sha env) (publish_failure env t schema a status reason code wall)"
  unfolding publish_failure_def by (intro disk_runs)

lemma disk_run_snd: "disk_run sha m \<Longrightarrow> (disk_step sha)\<^sup>*\<^sup>* d (snd (m d))"
  by (simp add: disk_run_def)

lemma others_okD: "others_ok env \<Longrightarrow> (disk_step (en_sha env))\<^sup>*\<^sup>* d (en_others env stage d)"
  by (simp add: others_ok_def)

lemma disk_runD: "disk_run sha m \<Longrightarrow> m d = (x, d') \<Longrightarrow> (disk_step sha)\<^sup>*\<^sup>* d d'"
  unfolding disk_run_def by (metis snd_conv)

lemma disk_runI: "(\<And>d x d'. m d = (x, d') \<Longrightarrow> (disk_step sha)\<^sup>*\<^sup>* d d') \<Longrightarrow> disk_run sha m"
  unfolding disk_run_def by (metis prod.collapse)

section \<open>How a run ends\<close>

text \<open>The ways a claimed round ends: an exception that is passed on, or a result that is recorded.\<close>

lemma conclude_roundE:
  assumes "conclude_round env resolved (res, r) = (x, d)"
  obtains (passed) e h q where "res = Inl e" "handle_failure env resolved e r = (Inl h, q)" "x = Inl h" "d = rd_disk q"
  | (published) p where "res = Inr p" "record_outcome env (rl_ticket resolved) (Published p (rd_telemetry r)) (rd_disk r) = (x, d)"
  | (failed) e f tel q where "res = Inl e" "handle_failure env resolved e r = (Inr (f, tel), q)"
      "record_outcome env (rl_ticket resolved) (PublishedFailed f tel) (rd_disk q) = (x, d)"
  using assms unfolding conclude_round_def by (auto split: sum.splits prod.splits)

text \<open>A run that returns a result has claimed its ticket, tried the round and concluded it.\<close>

definition start_state :: "engine_env \<Rightarrow> work_ticket \<Rightarrow> boundary_ledger \<Rightarrow> disk \<Rightarrow> round_state" where
  "start_state env t ledger d =
     \<lparr>rd_telemetry = init_telemetry (wt_ticket_id t) (wt_domain_id t), rd_ledger = ledger, rd_wall_time_ms = None,
      rd_disk = en_others env ''AFTER_CLAIM'' d\<rparr>"

lemma run_claimedE:
  assumes "run_claimed env ops resolved d = (x, d')"
  obtains (refused) e where "x = Inl e" "d' = d"
  | (tried) ledger res r where
      "init_boundary_ledger (dr_start (wt_data_range (rl_ticket resolved))) (dr_end (wt_data_range (rl_ticket resolved))) = Inr ledger"
      "round_body env ops resolved (start_state env (rl_ticket resolved) ledger d) = (res, r)"
      "conclude_round env resolved (res, r) = (x, d')"
  using assms unfolding run_claimed_def start_state_def Let_def
  by (auto split: sum.splits) (metis surj_pair)

lemma runE:
  assumes "run env ops resolved d = (x, d')"
  obtains (refused) e where "x = Inl e" "fst (claim (en_sha env) (en_loads env) (en_recover_incomplete env) (rl_ticket resolved) d) = Inl e"
  | (replayed) outcome where "x = Inr (Replayed outcome)"
      "claim (en_sha env) (en_loads env) (en_recover_incomplete env) (rl_ticket resolved) d = (Inr (REPLAY outcome), d')"
  | (claimed) d1 where
      "claim (en_sha env) (en_loads env) (en_recover_incomplete env) (rl_ticket resolved) d = (Inr CLAIMED, d1)"
      "run_claimed env ops resolved d1 = (x, d')"
  using assms unfolding run_def bindD_def pureD_def by (auto split: prod.splits sum.splits claim_decision.splits)

section \<open>What a run guarantees\<close>

text \<open>
  A preorder on disks that contains the operations of a round and the steps of other processes relates the disk
  before a run to the disk after it, whichever way the run ends.
\<close>

definition round_run :: "(disk \<Rightarrow> disk \<Rightarrow> bool) \<Rightarrow> 'a round_action \<Rightarrow> bool" where
  "round_run R m \<longleftrightarrow> (\<forall>r. R (rd_disk r) (rd_disk (snd (m r))))"

lemma round_runD: "round_run R m \<Longrightarrow> m r = (x, r') \<Longrightarrow> R (rd_disk r) (rd_disk r')"
  unfolding round_run_def by (metis snd_conv)

lemma round_runI: "(\<And>r x r'. m r = (x, r') \<Longrightarrow> R (rd_disk r) (rd_disk r')) \<Longrightarrow> round_run R m"
  unfolding round_run_def by (metis prod.collapse)

lemma round_run_apply: "(\<And>r. round_run R (m r)) \<Longrightarrow> round_run R (\<lambda>r. m r r)"
  unfolding round_run_def by blast

lemma round_run_on_disk: "(\<And>d. R d (snd (f d))) \<Longrightarrow> round_run R (on_disk f)"
  unfolding round_run_def on_disk_def by (auto split: prod.splits) (metis snd_conv)

named_theorems round_runs \<open>actions of a round within a guarantee\<close>

locale round_guarantee =
  fixes env :: engine_env and ops :: "('m, 't) tensor_ops" and R :: "disk \<Rightarrow> disk \<Rightarrow> bool"
  assumes R_refl: "R d d"
    and R_trans: "R d1 d2 \<Longrightarrow> R d2 d3 \<Longrightarrow> R d1 d3"
    and R_others: "R d (en_others env stage d)"
    and R_claim: "R d (snd (claim (en_sha env) (en_loads env) (en_recover_incomplete env) t d))"
    and R_success: "R d (snd (publish_success env ops t schema limits a delta normalized wall d))"
    and R_failure: "R d (snd (publish_failure env t schema a status reason code wall d))"
    and R_complete: "R d (snd (complete t outcome d))"
begin

lemma run_bindR [round_runs]: "round_run R m \<Longrightarrow> (\<And>x. round_run R (f x)) \<Longrightarrow> round_run R (bindR m f)"
  unfolding round_run_def bindR_def by (auto split: prod.splits sum.splits) (metis R_trans snd_conv)+

lemma run_same [round_runs]:
  "round_run R (pureR x)" "round_run R (\<lambda>r. (f r, r))" "round_run R (\<lambda>r. (y, r\<lparr>rd_wall_time_ms := w\<rparr>))"
  "round_run R (on_telemetry h)" "round_run R (on_disk (\<lambda>d. (k d, d)))"
  by (simp_all add: round_run_def pureR_def on_telemetry_def on_disk_def R_refl split: sum.splits)

lemma run_operations [round_runs]:
  "round_run R (on_disk (publish_success env ops t schema limits a delta normalized wall))"
  "round_run R (on_disk (publish_failure env t schema a status reason code wall))"
  "round_run R (on_disk (\<lambda>d. (x, en_others env stage d)))"
  by (rule round_run_on_disk, simp add: R_success R_failure R_others)+

lemma run_steps_guaranteed [round_runs]: "round_run R (run_steps env ops resolved n st)"
proof (induction n arbitrary: st)
  case (Suc n)
  have *: "round_run R (bindR (on_telemetry f) (\<lambda>_. bindR (pureR x) (\<lambda>_. run_steps env ops resolved n st')))" for f x st'
    by (intro round_runs Suc.IH)
  show ?case
  proof (rule round_runI)
    fix r x r'
    assume "run_steps env ops resolved (Suc n) st r = (x, r')"
    then show "R (rd_disk r) (rd_disk r')"
      by (auto split: prod.splits sum.splits simp: R_refl dest!: round_runD [OF *])
  qed
qed (simp add: round_run_def R_refl)

lemma body_guaranteed: "round_run R (round_body env ops resolved)"
  unfolding round_body_def train_round_def publish_round_def Let_def case_prod_beta by (intro round_runs)

lemma failure_guaranteed:
  "round_run R (\<lambda>r. bindR (on_disk (publish_failure env t schema a status reason code (w r)))
     (\<lambda>failed r'. (Inr (failed, rd_telemetry r'), r')) r)"
  by (rule round_run_apply [of _ "\<lambda>r. bindR (on_disk (publish_failure env t schema a status reason code (w r)))
     (\<lambda>failed r'. (Inr (failed, rd_telemetry r'), r'))"]) (intro round_runs)

lemma handle_guaranteed: "round_run R (handle_failure env resolved e)"
proof (cases "e = ProcessExit")
  case False
  have "round_run R (bindR (on_telemetry (move_to s)) (\<lambda>_. bindR (\<lambda>r. (accounting_snapshot (rd_ledger r), r))
      (\<lambda>a r. bindR (on_disk (publish_failure env t schema a status reason code (w r)))
         (\<lambda>failed r'. (Inr (failed, rd_telemetry r'), r')) r)))" for s t schema status reason code w
    by (intro round_runs failure_guaranteed)
  with False show ?thesis
    unfolding handle_failure_def by (simp add: case_prod_beta run_bindR run_same)
qed (simp add: handle_failure_def run_same)

lemma outcome_guaranteed: "record_outcome env t result d = (x, d') \<Longrightarrow> R d d'"
  using R_complete [of "en_others env ''BEFORE_OUTCOME'' d" t "engine_result_to_dict result"] R_others [of d "''BEFORE_OUTCOME''"]
  unfolding record_outcome_def bindD_def pureD_def by (auto split: prod.splits sum.splits intro: R_trans)

lemma conclude_guaranteed:
  assumes "conclude_round env resolved (res, r) = (x, d)"
  shows "R (rd_disk r) d"
  using assms
proof (cases rule: conclude_roundE)
  case (passed e h q)
  then show ?thesis using round_runD [OF handle_guaranteed] by metis
next
  case (failed e f tel q)
  then show ?thesis using round_runD [OF handle_guaranteed] outcome_guaranteed by (metis R_trans)
qed (rule outcome_guaranteed)

lemma claimed_guaranteed:
  assumes "run_claimed env ops resolved d = (x, d')"
  shows "R d d'"
  using assms
proof (cases rule: run_claimedE)
  case (tried ledger res r)
  have "R d (rd_disk (start_state env (rl_ticket resolved) ledger d))" by (simp add: start_state_def R_others)
  then show ?thesis
    using round_runD [OF body_guaranteed tried(2)] conclude_guaranteed [OF tried(3)] by (metis R_trans)
qed (simp add: R_refl)

lemma run_guaranteed: "R d (snd (run env ops resolved d))"
  using R_claim [of d "rl_ticket resolved"] claimed_guaranteed unfolding run_def bindD_def pureD_def
  by (auto split: prod.splits sum.splits claim_decision.splits) (metis R_trans snd_conv prod.collapse)

end

text \<open>The steps of the disk are such a preorder.\<close>

interpretation steps: round_guarantee env ops "\<lambda>d d'. others_ok env \<longrightarrow> (disk_step (en_sha env))\<^sup>*\<^sup>* d d'"
  by unfold_locales (auto intro: others_okD disk_run_snd disk_runs)

lemma run_claimed_steps: "others_ok env \<Longrightarrow> run_claimed env ops resolved d = (x, d') \<Longrightarrow> (disk_step (en_sha env))\<^sup>*\<^sup>* d d'"
  using steps.claimed_guaranteed by blast

lemma conclude_steps:
  "others_ok env \<Longrightarrow> conclude_round env resolved (res, r) = (x, d) \<Longrightarrow> (disk_step (en_sha env))\<^sup>*\<^sup>* (rd_disk r) d"
  using steps.conclude_guaranteed by blast

lemma outcome_steps: "others_ok env \<Longrightarrow> record_outcome env t result d = (x, d') \<Longrightarrow> (disk_step (en_sha env))\<^sup>*\<^sup>* d d'"
  using steps.outcome_guaranteed by blast

lemma run_steps_of_disk: "others_ok env \<Longrightarrow> run env ops resolved d = (x, d') \<Longrightarrow> (disk_step (en_sha env))\<^sup>*\<^sup>* d d'"
  using steps.run_guaranteed [of env d ops resolved] by simp

section \<open>Replay\<close>

lemma complete_Inr:
  assumes "complete t outcome d = (Inr u, d')"
  shows "\<exists>bytes. canonical_json_bytes (JObj outcome) = Inr bytes \<and> disk_content d' (Outcome (wt_ticket_id t)) = Some bytes"
  using assms unfolding complete_def create_once_def
  by (auto simp: map_add_def split: if_splits sum.splits option.splits)

lemma record_outcome_Inr:
  assumes "record_outcome env t result d = (Inr x, d')"
  shows "x = result \<and> (\<exists>bytes. canonical_json_bytes (JObj (engine_result_to_dict result)) = Inr bytes \<and>
    disk_content d' (Outcome (wt_ticket_id t)) = Some bytes)"
  using assms complete_Inr unfolding record_outcome_def bindD_def pureD_def
  by (fastforce split: prod.splits sum.splits)

definition claim_bytes :: "(string \<Rightarrow> string) \<Rightarrow> work_ticket \<Rightarrow> string lresult" where
  "claim_bytes sha t = bindE (ticket_fingerprint sha t) (\<lambda>fp. canonical_json_bytes (claim_document fp t))"

lemma claim_CLAIMED:
  assumes "claim sha loads recover t d = (Inr CLAIMED, d')"
  shows "\<exists>bytes. claim_bytes sha t = Inr bytes \<and> disk_content d' (Claim (wt_ticket_id t)) = Some bytes"
  using assms unfolding claim_def create_once_def claim_bytes_def
  by (auto simp: map_add_def bindE_eq_Inr split: if_splits sum.splits option.splits)

lemma claim_replays:
  assumes "claim_bytes sha t = Inr bytes" and "disk_content d (Claim (wt_ticket_id t)) = Some bytes"
    and "disk_content d (Outcome (wt_ticket_id t)) = Some encoded" and "loads encoded = Some (JObj outcome)"
  shows "claim sha loads recover t d = (Inr (REPLAY outcome), d)"
  using assms unfolding claim_def claim_bytes_def create_once_def read_outcome_def by simp

lemma run_recorded:
  assumes "others_ok env" and "run env ops resolved d = (Inr result, d')" and "\<nexists>outcome. result = Replayed outcome"
  shows "\<exists>claimed encoded. claim_bytes (en_sha env) (rl_ticket resolved) = Inr claimed \<and>
    disk_content d' (Claim (wt_ticket_id (rl_ticket resolved))) = Some claimed \<and>
    canonical_json_bytes (JObj (engine_result_to_dict result)) = Inr encoded \<and>
    disk_content d' (Outcome (wt_ticket_id (rl_ticket resolved))) = Some encoded"
  using assms(2)
proof (cases rule: runE)
  case (claimed d1)
  obtain bytes where bytes: "claim_bytes (en_sha env) (rl_ticket resolved) = Inr bytes"
      "disk_content d1 (Claim (wt_ticket_id (rl_ticket resolved))) = Some bytes"
    using claim_CLAIMED [OF claimed(1)] by blast
  have "(disk_step (en_sha env))\<^sup>*\<^sup>* d1 d'"
    using run_claimed_steps [OF assms(1) claimed(2)] .
  note kept = disk_steps_content [OF this bytes(2)]
  from claimed(2) show ?thesis
  proof (cases rule: run_claimedE)
    case (tried ledger res r)
    from tried(3) show ?thesis
    proof (cases rule: conclude_roundE)
      case (published p)
      then show ?thesis using record_outcome_Inr [OF published(2)] bytes(1) kept by blast
    next
      case (failed e f tel q)
      then show ?thesis using record_outcome_Inr [OF failed(3)] bytes(1) kept by blast
    qed simp
  qed simp
qed (use assms(3) in auto)

section \<open>A trained round\<close>

lemma bindR_eq_Inr: "bindR m f r = (Inr y, r') \<longleftrightarrow> (\<exists>x r1. m r = (Inr x, r1) \<and> f x r1 = (Inr y, r'))"
  unfolding bindR_def by (auto split: prod.splits sum.splits)

lemma bindR_eq_Inl:
  "bindR m f r = (Inl e, r') \<longleftrightarrow> m r = (Inl e, r') \<or> (\<exists>x r1. m r = (Inr x, r1) \<and> f x r1 = (Inl e, r'))"
  unfolding bindR_def by (auto split: prod.splits sum.splits)

lemma bindD_eq_Inr: "bindD m f d = (Inr y, d') \<longleftrightarrow> (\<exists>x d1. m d = (Inr x, d1) \<and> f x d1 = (Inr y, d'))"
  unfolding bindD_def by (auto split: prod.splits sum.splits)

lemma pure_eq [simp]: "pureR x r = (y, r') \<longleftrightarrow> x = y \<and> r = r'" "pureD x d = (y, d') \<longleftrightarrow> x = y \<and> d = d'"
  by (auto simp: pureR_def pureD_def)

lemma on_telemetry_eq [simp]:
  "on_telemetry f r = (Inr u, r') \<longleftrightarrow> (\<exists>t. f (rd_telemetry r) = Inr t \<and> r' = r\<lparr>rd_telemetry := t\<rparr>)"
  "on_telemetry f r = (Inl e, r') \<longleftrightarrow> f (rd_telemetry r) = Inl e \<and> r' = r"
  unfolding on_telemetry_def by (auto split: sum.splits)

lemma on_disk_eq [simp]: "on_disk f r = (x, r') \<longleftrightarrow> (\<exists>d. f (rd_disk r) = (x, d) \<and> r' = r\<lparr>rd_disk := d\<rparr>)"
  unfolding on_disk_def by (auto split: prod.splits)

definition event_states :: "telemetry \<Rightarrow> local_round_state list" where
  "event_states t = map le_state (te_events t)"

lemma move_to_Inr:
  "move_to target t = Inr t' \<Longrightarrow> te_state t' = target \<and> target \<in> set (TRANSITIONS (te_state t)) \<and>
     event_states t' = event_states t @ [target] \<and> te_metrics t' = te_metrics t \<and> te_ticket_id t' = te_ticket_id t"
  by (auto simp: move_to_def transition_def append_event_def event_states_def bindE_eq_Inr split: if_splits)

lemma init_telemetry_states [simp]:
  "te_state (init_telemetry a b) = RECEIVED" "event_states (init_telemetry a b) = [RECEIVED]"
  "te_metrics (init_telemetry a b) = []" "te_ticket_id (init_telemetry a b) = a"
  by (simp_all add: init_telemetry_def append_event_def event_states_def)

text \<open>
  The state of a round in the course of its steps: the counters agree with some training state and at most as many
  steps are committed as the ticket allows.
\<close>

definition round_counted :: "'t resolved_round \<Rightarrow> int \<Rightarrow> 'm training_state \<Rightarrow> round_state \<Rightarrow> bool" where
  "round_counted resolved steps st r \<longleftrightarrow> counted (rl_config resolved) st (rd_ledger r) \<and>
     bl_effective_steps (rd_ledger r) = steps \<and>
     bl_range_start (rd_ledger r) = dr_start (wt_data_range (rl_ticket resolved)) \<and>
     bl_range_end (rd_ledger r) = dr_end (wt_data_range (rl_ticket resolved))"

definition round_ledger :: "'t resolved_round \<Rightarrow> int \<Rightarrow> round_state \<Rightarrow> bool" where
  "round_ledger resolved steps r \<longleftrightarrow> ledger_ok (rd_ledger r) \<and> bl_effective_steps (rd_ledger r) = steps \<and>
     bl_range_start (rd_ledger r) = dr_start (wt_data_range (rl_ticket resolved)) \<and>
     bl_range_end (rd_ledger r) = dr_end (wt_data_range (rl_ticket resolved))"

lemma round_counted_ledger: "round_counted resolved steps st r \<Longrightarrow> round_ledger resolved steps r"
  by (auto simp: round_counted_def round_ledger_def intro: counted_ledger_ok)

lemma round_counted_undone:
  "round_counted resolved steps st r \<Longrightarrow> undone (rd_ledger r) l \<Longrightarrow> counted (rl_config resolved) st' l \<Longrightarrow>
     round_counted resolved steps st' (r\<lparr>rd_ledger := l\<rparr>)"
  by (simp add: round_counted_def undone_fields)

lemma run_steps_counted:
  assumes "round_counted resolved steps st r" and "te_state (rd_telemetry r) = RUNNING"
    and "run_steps env ops resolved n st r = (res, r')" and "res \<noteq> Inl ProcessExit"
  shows "te_state (rd_telemetry r') = RUNNING \<and> event_states (rd_telemetry r') = event_states (rd_telemetry r) \<and>
    rd_wall_time_ms r' = rd_wall_time_ms r \<and>
    (case res of
       Inr st' \<Rightarrow> round_counted resolved (steps + int n) st' r' \<and>
         length (te_metrics (rd_telemetry r')) = length (te_metrics (rd_telemetry r)) + n
     | Inl e \<Rightarrow> (\<exists>k. steps \<le> k \<and> k \<le> steps + int n \<and> round_ledger resolved k r'))"
  using assms
proof (induction n arbitrary: steps st r)
  case (Suc n)
  obtain step st1 l where step: "train_one_optimizer_step (en_sha env) (to_trainer ops (rl_config resolved))
      (check_boundary env (rl_ticket resolved)) (rl_config resolved) (rl_samples resolved) st (rd_ledger r) = (step, st1, l)"
    by (metis prod_cases3)
  have c: "counted (rl_config resolved) st (rd_ledger r)" using Suc.prems(1) by (simp add: round_counted_def)
  show ?case
  proof (cases step)
    case (Inl e)
    with step Suc.prems(3) have r': "res = Inl e" "r' = r\<lparr>rd_ledger := l\<rparr>" by simp_all
    with train_step_counted [OF c step] Inl Suc.prems(4) have "undone (rd_ledger r) l" "counted (rl_config resolved) st1 l"
      by auto
    with round_counted_undone [OF Suc.prems(1)] have "round_counted resolved steps st1 r'" by (simp add: r')
    with round_counted_ledger have "round_ledger resolved steps r'" by blast
    with r' Suc.prems(2) show ?thesis by (auto intro!: exI [of _ steps])
  next
    case (Inr metric)
    have next_c: "counted (rl_config resolved) st1 l" "bl_effective_steps l = bl_effective_steps (rd_ledger r) + 1"
        "bl_range_start l = bl_range_start (rd_ledger r)" "bl_range_end l = bl_range_end (rd_ledger r)"
      using train_step_counted [OF c step] Inr by auto
    define t1 where "t1 = (rd_telemetry r)\<lparr>te_metrics := te_metrics (rd_telemetry r) @
      [\<lparr>lm_optimizer_step = tm_optimizer_step metric, lm_micro_step = tm_step metric,
        lm_processed_tokens = tm_processed_tokens metric, lm_loss_fp64_bits = to_fp64_bits ops (tm_loss metric),
        lm_learning_rate_nanos = bc_learning_rate_nanos (rl_config resolved)\<rparr>]\<rparr>"
    define r1 where "r1 = r\<lparr>rd_ledger := l, rd_telemetry := t1\<rparr>"
    have rest: "bindR (pureR (en_inject env ''AFTER_OPTIMIZER_STEP'' (nat (ts_optimizer_step st1))))
        (\<lambda>_. run_steps env ops resolved n st1) r1 = (res, r')"
      using Suc.prems(2,3) step Inr
      by (simp add: bindR_def on_telemetry_def record_optimizer_step_def r1_def t1_def)
    have r1: "round_counted resolved (steps + 1) st1 r1" "te_state (rd_telemetry r1) = RUNNING"
        "event_states (rd_telemetry r1) = event_states (rd_telemetry r)" "rd_wall_time_ms r1 = rd_wall_time_ms r"
        "length (te_metrics (rd_telemetry r1)) = Suc (length (te_metrics (rd_telemetry r)))"
      using Suc.prems(1,2) next_c by (simp_all add: round_counted_def r1_def t1_def event_states_def)
    show ?thesis
    proof (cases "en_inject env ''AFTER_OPTIMIZER_STEP'' (nat (ts_optimizer_step st1))")
      case (Inl e)
      with rest have "res = Inl e" "r' = r1" by (simp_all add: bindR_def pureR_def)
      with r1 round_counted_ledger [OF r1(1)] show ?thesis by (auto intro!: exI [of _ "steps + 1"])
    next
      case (Inr u)
      with rest have "run_steps env ops resolved n st1 r1 = (res, r')" by (simp add: bindR_def pureR_def)
      note IH = Suc.IH [OF r1(1,2) this Suc.prems(4)]
      show ?thesis
      proof (cases res)
        case (Inl e)
        with IH obtain k where "steps + 1 \<le> k" "k \<le> steps + 1 + int n" "round_ledger resolved k r'" by auto
        then have "\<exists>k. steps \<le> k \<and> k \<le> steps + int (Suc n) \<and> round_ledger resolved k r'" by (intro exI [of _ k]) auto
        with IH Inl r1(3-5) show ?thesis by simp
      next
        case (Inr st')
        with IH r1(3-5) show ?thesis by (simp add: add.assoc)
      qed
    qed
  qed
qed auto

lemma start_training_counted:
  assumes "start_training env ops resolved = Inr st"
    and "init_boundary_ledger (dr_start (wt_data_range (rl_ticket resolved))) (dr_end (wt_data_range (rl_ticket resolved)))
      = Inr (rd_ledger r)"
    and "0 < bc_gradient_accumulation_steps (rl_config resolved)" and "0 < bc_batch_size (rl_config resolved)"
  shows "round_counted resolved 0 st r"
proof -
  define span where "span = wt_data_range (rl_ticket resolved)"
  have l: "bl_effective_steps (rd_ledger r) = 0" "bl_committed_micro_steps (rd_ledger r) = 0" "bl_observed_micro_steps (rd_ledger r) = 0"
      "bl_processed_tokens (rd_ledger r) = 0" "bl_pending_tokens (rd_ledger r) = 0" "bl_pending_cursor_end (rd_ledger r) = None"
      "bl_pending_micro_steps (rd_ledger r) = 0" "bl_range_start (rd_ledger r) = dr_start span" "bl_range_end (rd_ledger r) = dr_end span"
      "bl_cursor_end (rd_ledger r) = dr_start span" "0 \<le> dr_start span" "dr_start span < dr_end span"
    using assms(2) unfolding init_boundary_ledger_def bindE_eq_Inr span_def [symmetric]
    by (auto dest!: sym [of _ "rd_ledger r"])
  obtain s where s: "init_sampler (int (length (rl_samples resolved))) (wt_deterministic_seed (rl_ticket resolved)) (dr_start span)
      = Inr s" and st: "ts_sampler st = s" "ts_micro_step st = 0" "ts_optimizer_step st = 0" "ts_processed_tokens st = 0"
    using assms(1) unfolding start_training_def Let_def bindE_eq_Inr span_def by auto
  have "int (sp_cursor s) = dr_start span" using s l(11) by (auto simp: init_sampler_def split: if_splits)
  with st l assms(3,4) show ?thesis by (simp add: round_counted_def counted_def span_def)
qed

lemma init_ledger_round:
  "init_boundary_ledger (dr_start (wt_data_range (rl_ticket resolved))) (dr_end (wt_data_range (rl_ticket resolved)))
     = Inr (rd_ledger r) \<Longrightarrow> round_ledger resolved 0 r"
  by (auto simp: init_boundary_ledger_def bindE_eq_Inr round_ledger_def ledger_ok_def dest!: sym [of _ "rd_ledger r"])

section \<open>The whole round\<close>

lemma init_counts_nonneg: "round_ledger resolved k r \<Longrightarrow> 0 \<le> k"
  by (auto simp: round_ledger_def ledger_ok_def)

definition in_progress :: "round_state \<Rightarrow> bool" where
  "in_progress r \<longleftrightarrow> te_state (rd_telemetry r) \<in> {RECEIVED, ACCEPTED, RUNNING}"

lemma train_round_counted:
  assumes "train_round env ops resolved r = (res, r')" and "res \<noteq> Inl ProcessExit"
    and "init_boundary_ledger (dr_start (wt_data_range (rl_ticket resolved))) (dr_end (wt_data_range (rl_ticket resolved)))
      = Inr (rd_ledger r)"
    and "rd_telemetry r = init_telemetry a b" and "0 < wt_step_budget (rl_ticket resolved)"
    and "0 < bc_gradient_accumulation_steps (rl_config resolved)" and "0 < bc_batch_size (rl_config resolved)"
  shows "(\<exists>k. k \<le> wt_step_budget (rl_ticket resolved) \<and> round_ledger resolved k r') \<and> in_progress r' \<and>
    (\<forall>model acc. res = Inr (model, acc) \<longrightarrow> round_ledger resolved (wt_step_budget (rl_ticket resolved)) r' \<and>
       accounting_snapshot (rd_ledger r') = Inr acc \<and> ta_cursor_end acc = dr_end (wt_data_range (rl_ticket resolved)) \<and>
       te_state (rd_telemetry r') = RUNNING \<and> event_states (rd_telemetry r') = [RECEIVED, ACCEPTED, RUNNING] \<and>
       length (te_metrics (rd_telemetry r')) = nat (wt_step_budget (rl_ticket resolved)))"
proof -
  define budget where "budget = wt_step_budget (rl_ticket resolved)"
  have start: "round_ledger resolved 0 r" using init_ledger_round [OF assms(3)] .
  have pos: "0 < budget" using assms(5) by (simp add: budget_def)
  have early: ?thesis if "r' = r\<lparr>rd_telemetry := t\<rparr>" "te_state t \<in> {RECEIVED, ACCEPTED, RUNNING}" "isl res" for t
    using that start pos by (auto simp: round_ledger_def in_progress_def budget_def intro!: exI [of _ 0])
  have r_same: "r = r\<lparr>rd_telemetry := init_telemetry a b\<rparr>" using assms(4) by simp
  show ?thesis
  proof (cases "en_inject env ''AFTER_CLAIM'' 0")
    case (Inl e)
    then have "r' = r" "res = Inl e" using assms(1) by (auto simp: train_round_def bindR_def pureR_def)
    then show ?thesis using early [of "init_telemetry a b"] r_same by simp
  next
    case (Inr u)
    obtain t1 where t1: "move_to ACCEPTED (init_telemetry a b) = Inr t1"
      by (auto simp: move_to_def transition_def)
    obtain t2 where t2: "move_to RUNNING t1 = Inr t2"
      using move_to_Inr [OF t1] by (auto simp: move_to_def transition_def)
    have s1: "te_state t1 = ACCEPTED" "event_states t1 = [RECEIVED, ACCEPTED]" "te_metrics t1 = []"
      using move_to_Inr [OF t1] by simp_all
    have s2: "te_state t2 = RUNNING" "event_states t2 = [RECEIVED, ACCEPTED, RUNNING]" "te_metrics t2 = []"
      using move_to_Inr [OF t2] s1 by simp_all
    show ?thesis
    proof (cases "start_training env ops resolved")
      case (Inl e)
      then have "r' = r\<lparr>rd_telemetry := t1\<rparr>" "res = Inl e"
        using assms(1,4) Inr t1 by (auto simp: train_round_def bindR_def pureR_def on_telemetry_def)
      then show ?thesis using early [of t1] s1 by simp
    next
      case (Inr st)
      define r2 where "r2 = r\<lparr>rd_telemetry := t2\<rparr>"
      obtain loop r3 where loop: "run_steps env ops resolved (nat budget) st r2 = (loop, r3)" by (metis surj_pair)
      have c: "round_counted resolved 0 st r2"
        using start_training_counted [OF Inr, of r2] assms(3,6,7) by (simp add: r2_def)
      show ?thesis
      proof (cases loop)
        case (Inl e)
        then have r': "r' = r3" "res = Inl e"
          using assms(1,4) \<open>en_inject env ''AFTER_CLAIM'' 0 = Inr u\<close> t1 t2 Inr loop
          by (auto simp: train_round_def bindR_def pureR_def on_telemetry_def r2_def budget_def)
        with run_steps_counted [OF c _ loop] assms(2) Inl s2 pos
        have "te_state (rd_telemetry r3) = RUNNING" "\<exists>k. k \<le> budget \<and> round_ledger resolved k r3"
          by (auto simp: r2_def)
        then show ?thesis using r' by (simp add: in_progress_def budget_def)
      next
        case (Inr st')
        have facts: "te_state (rd_telemetry r3) = RUNNING" "event_states (rd_telemetry r3) = [RECEIVED, ACCEPTED, RUNNING]"
            "round_counted resolved budget st' r3" "length (te_metrics (rd_telemetry r3)) = nat budget"
          using run_steps_counted [OF c _ loop] Inr s2 pos by (auto simp: r2_def)
        note ledger = round_counted_ledger [OF facts(3)]
        obtain acc where acc: "accounting_snapshot (rd_ledger r3) = Inr acc"
          using ledger accounting_snapshot_ok by (auto simp: round_ledger_def)
        have r': "r' = r3" "\<forall>m a. res = Inr (m, a) \<longrightarrow> a = acc \<and> ta_cursor_end acc = dr_end (wt_data_range (rl_ticket resolved))"
          using assms(1,4) \<open>en_inject env ''AFTER_CLAIM'' 0 = Inr u\<close> t1 t2 \<open>start_training env ops resolved = Inr st\<close> loop Inr acc
          by (auto simp: train_round_def bindR_def pureR_def on_telemetry_def r2_def budget_def ensure_def split: if_splits)
        with facts ledger acc show ?thesis by (auto simp: in_progress_def budget_def)
      qed
    qed
  qed
qed

lemma publish_round_frame:
  "publish_round env ops resolved model a r = (res, r') \<Longrightarrow> rd_telemetry r' = rd_telemetry r \<and> rd_ledger r' = rd_ledger r"
  unfolding publish_round_def Let_def bindR_def pureR_def on_disk_def by (auto split: prod.splits sum.splits)

lemma round_body_counted:
  assumes "round_body env ops resolved r = (res, r')" and "res \<noteq> Inl ProcessExit"
    and "init_boundary_ledger (dr_start (wt_data_range (rl_ticket resolved))) (dr_end (wt_data_range (rl_ticket resolved)))
      = Inr (rd_ledger r)"
    and "rd_telemetry r = init_telemetry a b" and "0 < wt_step_budget (rl_ticket resolved)"
    and "0 < bc_gradient_accumulation_steps (rl_config resolved)" and "0 < bc_batch_size (rl_config resolved)"
  shows "\<exists>k. k \<le> wt_step_budget (rl_ticket resolved) \<and> round_ledger resolved k r'"
    and "\<And>e. res = Inl e \<Longrightarrow> in_progress r'"
    and "\<And>p. res = Inr p \<Longrightarrow> event_states (rd_telemetry r') = [RECEIVED, ACCEPTED, RUNNING, COMPLETED] \<and>
      length (te_metrics (rd_telemetry r')) = nat (wt_step_budget (rl_ticket resolved)) \<and>
      (\<exists>model acc r1 r2. accounting_snapshot (rd_ledger r1) = Inr acc \<and>
         round_ledger resolved (wt_step_budget (rl_ticket resolved)) r1 \<and>
         ta_cursor_end acc = dr_end (wt_data_range (rl_ticket resolved)) \<and>
         publish_round env ops resolved model acc r1 = (Inr p, r2) \<and> rd_disk r' = rd_disk r2)"
proof -
  obtain trained r1 where t: "train_round env ops resolved r = (trained, r1)" by (metis surj_pair)
  have "(\<exists>k. k \<le> wt_step_budget (rl_ticket resolved) \<and> round_ledger resolved k r') \<and>
    (\<forall>e. res = Inl e \<longrightarrow> in_progress r') \<and>
    (\<forall>p. res = Inr p \<longrightarrow> event_states (rd_telemetry r') = [RECEIVED, ACCEPTED, RUNNING, COMPLETED] \<and>
      length (te_metrics (rd_telemetry r')) = nat (wt_step_budget (rl_ticket resolved)) \<and>
      (\<exists>model acc r1 r2. accounting_snapshot (rd_ledger r1) = Inr acc \<and>
         round_ledger resolved (wt_step_budget (rl_ticket resolved)) r1 \<and>
         ta_cursor_end acc = dr_end (wt_data_range (rl_ticket resolved)) \<and>
         publish_round env ops resolved model acc r1 = (Inr p, r2) \<and> rd_disk r' = rd_disk r2))"
  proof (cases trained)
    case (Inl e)
    then have "res = Inl e" "r' = r1" using assms(1) t by (simp_all add: round_body_def bindR_def)
    with train_round_counted [OF t _ assms(3-7)] Inl assms(2) show ?thesis by auto
  next
    case (Inr x)
    obtain model acc where x: "x = (model, acc)" by (cases x)
    have facts: "round_ledger resolved (wt_step_budget (rl_ticket resolved)) r1" "accounting_snapshot (rd_ledger r1) = Inr acc"
        "ta_cursor_end acc = dr_end (wt_data_range (rl_ticket resolved))" "te_state (rd_telemetry r1) = RUNNING"
        "event_states (rd_telemetry r1) = [RECEIVED, ACCEPTED, RUNNING]"
        "length (te_metrics (rd_telemetry r1)) = nat (wt_step_budget (rl_ticket resolved))"
      using train_round_counted [OF t _ assms(3-7)] Inr x by simp_all
    obtain q r2 where q: "publish_round env ops resolved model acc r1 = (q, r2)" by (metis surj_pair)
    note frame = publish_round_frame [OF q]
    have ledger: "round_ledger resolved (wt_step_budget (rl_ticket resolved)) r2" using facts(1) frame by (simp add: round_ledger_def)
    show ?thesis
    proof (cases q)
      case (Inl e)
      then have "res = Inl e" "r' = r2" using assms(1) t Inr x q by (simp_all add: round_body_def bindR_def)
      with ledger facts frame show ?thesis by (auto simp: in_progress_def)
    next
      case (Inr published)
      obtain t2 where t2: "move_to COMPLETED (rd_telemetry r2) = Inr t2" using facts frame by (auto simp: move_to_def transition_def)
      have "res = Inr published" "r' = r2\<lparr>rd_telemetry := t2\<rparr>"
        using assms(1) t \<open>trained = Inr x\<close> x q Inr t2 by (simp_all add: round_body_def bindR_def on_telemetry_def pureR_def)
      with ledger facts frame move_to_Inr [OF t2] q Inr show ?thesis by (auto simp: round_ledger_def)
    qed
  qed
  then show "\<exists>k. k \<le> wt_step_budget (rl_ticket resolved) \<and> round_ledger resolved k r'"
    "\<And>e. res = Inl e \<Longrightarrow> in_progress r'"
    "\<And>p. res = Inr p \<Longrightarrow> event_states (rd_telemetry r') = [RECEIVED, ACCEPTED, RUNNING, COMPLETED] \<and>
      length (te_metrics (rd_telemetry r')) = nat (wt_step_budget (rl_ticket resolved)) \<and>
      (\<exists>model acc r1 r2. accounting_snapshot (rd_ledger r1) = Inr acc \<and>
         round_ledger resolved (wt_step_budget (rl_ticket resolved)) r1 \<and>
         ta_cursor_end acc = dr_end (wt_data_range (rl_ticket resolved)) \<and>
         publish_round env ops resolved model acc r1 = (Inr p, r2) \<and> rd_disk r' = rd_disk r2)"
    by blast+
qed

end
