(* ===== verification/Local_Publication.thy ===== *)
theory Local_Publication
  imports Local_Engine_Props
begin

text \<open>
  What a run publishes: the completion and the candidate of a round that completed, the completion of one that
  failed, the order in which they appear on the disk, and that they stay there.
\<close>

section \<open>Published documents\<close>

lemma publish_document_Inr:
  assumes "publish_document sha locator document media_type schema_id d = (Inr r, d')"
  shows "ar_locator r = locator" "\<exists>bytes. canonical_json_bytes (JObj document) = Inr bytes \<and> store_read sha d' r = Inr bytes"
  using assms publish_at_Inr unfolding publish_document_def bindD_eq_Inr by fastforce+

lemma publish_success_Inr:
  assumes "publish_success env ops t schema limits a delta normalized wall d = (Inr p, d')"
  obtains fp delta_ref summary cid d1 d2 where "ticket_fingerprint (en_sha env) t = Inr fp"
    "success_completion t fp (en_worker_id env) a delta_ref (included_tensor_names schema) summary wall = Inr (pl_completion p)"
    "publish_document (en_sha env) (completion_locator t) (completion_to_dict (pl_completion p)) COMPLETION_MEDIA_TYPE
       ''SCHEMA-LOCAL-ROUND-COMPLETION-V1'' d1 = (Inr (pl_completion_ref p), d2)"
    "round_candidate t fp cid a (pl_normalized_delta_ref p) (included_tensor_names schema) = Inr (pl_candidate p)"
    "ta_effective_steps a = wt_step_budget t"
  using assms unfolding publish_success_def bindD_eq_Inr pure_eq by force

lemma completion_arguments_get:
  "obj_get (completion_arguments t fp w a eligible code) ''worker_id'' = JStr w"
  "obj_get (completion_arguments t fp w a eligible code) ''candidate_eligible'' = JBool eligible"
  "obj_get (completion_arguments t fp w a eligible code) ''effective_steps'' = JInt (ta_effective_steps a)"
  "obj_get (completion_arguments t fp w a eligible code) ''step_budget'' = JInt (wt_step_budget t)"
  "obj_get (completion_arguments t fp w a eligible code) ''cursor_start'' = JInt (ta_cursor_start a)"
  "obj_get (completion_arguments t fp w a eligible code) ''cursor_end'' = JInt (ta_cursor_end a)"
  "obj_get (completion_arguments t fp w a eligible code) ''processed_tokens'' = JInt (ta_processed_tokens a)"
  "obj_get (completion_arguments t fp w a eligible code) ''ticket_id'' = JStr (wt_ticket_id t)"
  "obj_get (completion_arguments t fp w a eligible code) ''ticket_fingerprint'' = JStr fp"
  "obj_get (completion_arguments t fp w a eligible code) ''failure_code'' = text_or_null code"
  unfolding completion_arguments_def by simp_all

text \<open>What both kinds of completion take over from the ticket and the counters.\<close>

definition completion_of :: "work_ticket \<Rightarrow> string \<Rightarrow> string \<Rightarrow> token_accounting \<Rightarrow> completion \<Rightarrow> bool" where
  "completion_of t fp w a c \<longleftrightarrow> ci_worker_id (cp_ids c) = w \<and> ci_ticket_id (cp_ids c) = wt_ticket_id t \<and>
     ci_ticket_fingerprint (cp_ids c) = fp \<and> cc_effective_steps (cp_counts c) = ta_effective_steps a \<and>
     cc_step_budget (cp_counts c) = wt_step_budget t \<and> cc_cursor_start (cp_counts c) = ta_cursor_start a \<and>
     cc_cursor_end (cp_counts c) = ta_cursor_end a \<and> cc_processed_tokens (cp_counts c) = ta_processed_tokens a"

lemma init_completion_of:
  assumes "init_completion (completion_arguments t fp w a eligible code) status reason delta numerical resource = Inr c"
  shows "completion_of t fp w a c" "cp_candidate_eligible c = eligible" "completion_complete c = eligible"
    "cp_status c = status" "cp_reason c = reason" "reason \<in> set (allowed_reasons status)" "\<not> eligible \<Longrightarrow> cp_local_delta c = None"
proof -
  note facts = assms [unfolded init_completion_Inr init_completion_ids_Inr init_completion_counts_Inr completion_arguments_get]
  show "completion_of t fp w a c" using facts by (auto simp: completion_of_def)
  show "cp_candidate_eligible c = eligible" "completion_complete c = eligible" "cp_status c = status" "cp_reason c = reason"
    "reason \<in> set (allowed_reasons status)" "\<not> eligible \<Longrightarrow> cp_local_delta c = None"
    using facts by auto
qed

lemma success_completion_of:
  assumes "success_completion t fp w a delta_ref order summary wall = Inr c"
  shows "completion_of t fp w a c" "completion_complete c" "cp_candidate_eligible c"
proof -
  obtain delta numerical resource where "init_completion (completion_arguments t fp w a True None)
      STATUS_COMPLETED EXACT_H (Some delta) numerical resource = Inr c"
    using assms unfolding success_completion_def bindE_eq_Inr by blast
  from init_completion_of [OF this] show "completion_of t fp w a c" "completion_complete c" "cp_candidate_eligible c"
    by simp_all
qed

lemma failure_completion_of:
  assumes "failure_completion t fp w a status reason code wall = Inr c"
  shows "completion_of t fp w a c" "\<not> completion_complete c" "\<not> cp_candidate_eligible c" "cp_local_delta c = None"
    "cp_status c = status" "cp_reason c = reason" "reason \<in> set (allowed_reasons status)"
proof -
  obtain numerical resource where "init_completion (completion_arguments t fp w a False (Some code))
      status reason None numerical resource = Inr c"
    using assms unfolding failure_completion_def bindE_eq_Inr by blast
  from init_completion_of [OF this] show "completion_of t fp w a c" "\<not> completion_complete c" "\<not> cp_candidate_eligible c"
    "cp_local_delta c = None" "cp_status c = status" "cp_reason c = reason" "reason \<in> set (allowed_reasons status)"
    by simp_all
qed

lemma publish_failure_Inr:
  assumes "publish_failure env t schema a status reason code wall d = (Inr f, d')"
  obtains fp bytes where "ticket_fingerprint (en_sha env) t = Inr fp"
    "failure_completion t fp (en_worker_id env) a status reason code wall = Inr (pf_completion f)"
    "canonical_json_bytes (JObj (completion_to_dict (pf_completion f))) = Inr bytes"
    "store_read (en_sha env) d' (pf_completion_ref f) = Inr bytes" "ar_locator (pf_completion_ref f) = completion_locator t"
proof -
  from assms obtain fp d1 where "ticket_fingerprint (en_sha env) t = Inr fp"
    "failure_completion t fp (en_worker_id env) a status reason code wall = Inr (pf_completion f)"
    and doc: "publish_document (en_sha env) (completion_locator t) (completion_to_dict (pf_completion f)) COMPLETION_MEDIA_TYPE
       ''SCHEMA-LOCAL-ROUND-COMPLETION-V1'' d1 = (Inr (pf_completion_ref f), d')"
    unfolding publish_failure_def bindD_eq_Inr pure_eq by force
  with publish_document_Inr [OF doc] show ?thesis using that by blast
qed

section \<open>Verification\<close>

lemma load_tensor_steps:
  assumes "(disk_step sha)\<^sup>*\<^sup>* d d'" and "load_canonical_tensor_artifact sha ops d r schema = Inr x"
  shows "load_canonical_tensor_artifact sha ops d' r schema = Inr x"
proof -
  obtain bytes where "store_read sha d r = Inr bytes"
    using assms(2) unfolding load_canonical_tensor_artifact_def by (auto simp: bindE_eq_Inr mapErr_def split: sum.splits)
  moreover from store_read_steps [OF assms(1) this] have "store_read sha d' r = Inr bytes" .
  ultimately show ?thesis using assms(2) unfolding load_canonical_tensor_artifact_def by simp
qed

lemma verify_success_Inr:
  "verify_success sha ops t schema limits p d = Inr u \<longleftrightarrow>
     (\<exists>fp cid. ticket_fingerprint sha t = Inr fp \<and> completion_fingerprint sha (pl_completion p) = Inr cid \<and>
        round_lineage_matches fp cid t p) \<and>
     (\<exists>b. store_read sha d (pl_parameter_schema_ref p) = Inr b \<and> canonical_json_bytes (JObj (parameter_schema_to_dict schema)) = Inr b) \<and>
     (\<exists>b. store_read sha d (pl_completion_ref p) = Inr b \<and> canonical_json_bytes (JObj (completion_to_dict (pl_completion p))) = Inr b) \<and>
     (\<exists>b. store_read sha d (pl_candidate_ref p) = Inr b \<and> canonical_json_bytes (JObj (candidate_to_dict (pl_candidate p))) = Inr b) \<and>
     (\<exists>delta normalized expected summary. load_canonical_tensor_artifact sha ops d (pl_local_delta_ref p) schema = Inr delta \<and>
        load_canonical_tensor_artifact sha ops d (pl_normalized_delta_ref p) schema = Inr normalized \<and>
        to_validate ops schema (Some limits) normalized = Inr summary \<and>
        normalize_local_delta ops schema limits (cd_effective_steps (pl_candidate p)) (cd_step_budget (pl_candidate p)) delta
          = Inr expected \<and> to_equal ops normalized expected)"
  unfolding verify_success_def bindE_eq_Inr ensure_eq_Inr by blast

lemma verify_success_steps:
  assumes "(disk_step sha)\<^sup>*\<^sup>* d d'" and "verify_success sha ops t schema limits p d = Inr ()"
  shows "verify_success sha ops t schema limits p d' = Inr ()"
  using assms(2) store_read_steps [OF assms(1)] load_tensor_steps [OF assms(1)] unfolding verify_success_Inr by meson

lemma publish_round_Inr:
  assumes "others_ok env" and "publish_round env ops resolved model a r = (Inr p, r')"
  obtains delta normalized d d' where
    "publish_success env ops (rl_ticket resolved) (rl_parameter_schema resolved) (rl_limits resolved) a delta normalized (wall_time env) d
      = (Inr p, d')"
    "verify_success (en_sha env) ops (rl_ticket resolved) (rl_parameter_schema resolved) (rl_limits resolved) p (rd_disk r') = Inr ()"
    "(disk_step (en_sha env))\<^sup>*\<^sup>* d' (rd_disk r')"
proof -
  obtain delta normalized d d' where
    "publish_success env ops (rl_ticket resolved) (rl_parameter_schema resolved) (rl_limits resolved) a delta normalized (wall_time env) d
      = (Inr p, d')"
    "verify_success (en_sha env) ops (rl_ticket resolved) (rl_parameter_schema resolved) (rl_limits resolved) p (rd_disk r') = Inr ()"
    "rd_disk r' = en_others env ''BEFORE_VERIFICATION'' d'"
    using assms(2) unfolding publish_round_def Let_def bindR_eq_Inr pure_eq on_disk_eq by force
  with assms(1) show ?thesis using that by (metis others_ok_def)
qed

lemma handle_failure_Inr:
  assumes "handle_failure env resolved e r = (Inr (f, tel), q)"
  obtains status reason code a wall where "e \<noteq> ProcessExit" "classify_failure e = Inr (status, reason, code)"
    "accounting_snapshot (rd_ledger r) = Inr a"
    "publish_failure env (rl_ticket resolved) (rl_parameter_schema resolved) a status reason code wall (rd_disk r) = (Inr f, rd_disk q)"
    "event_states tel = event_states (rd_telemetry r) @ [if status = STATUS_CANCELLED then CANCELLED else FAILED]"
proof -
  have "e \<noteq> ProcessExit" using assms by (auto simp: handle_failure_def)
  moreover obtain status reason code where "classify_failure e = Inr (status, reason, code)"
    using assms calculation by (auto simp: handle_failure_def bindR_eq_Inr)
  ultimately show ?thesis
    using assms that by (auto simp: handle_failure_def bindR_eq_Inr dest!: move_to_Inr)
qed

section \<open>The candidate appears last\<close>

text \<open>
  A candidate on the disk comes with a completion of the same ticket that says \<open>COMPLETED\<close>. The path of a
  candidate is never the path of another file.
\<close>

definition candidate_path :: "string \<Rightarrow> string" where
  "candidate_path ticket_id = ''local-round/'' @ ticket_id @ ''/candidate.json''"

definition completion_path :: "string \<Rightarrow> string" where
  "completion_path ticket_id = ''local-round/'' @ ticket_id @ ''/completion.json''"

definition completed_on :: "disk \<Rightarrow> string \<Rightarrow> bool" where
  "completed_on d ticket_id \<longleftrightarrow> (\<exists>c bytes. completion_complete c \<and> canonical_json_bytes (JObj (completion_to_dict c)) = Inr bytes \<and>
     disk_content d (Artifact (completion_path ticket_id)) = Some bytes)"

definition candidates_last :: "disk \<Rightarrow> bool" where
  "candidates_last d \<longleftrightarrow> (\<forall>ticket_id. disk_content d (Artifact (candidate_path ticket_id)) \<noteq> None \<longrightarrow> completed_on d ticket_id)"

lemma candidate_path_neq:
  "candidate_path i \<noteq> completion_path j" "candidate_path i \<noteq> ''objects/sha256/'' @ s"
  "candidate_path i = candidate_path j \<longleftrightarrow> i = j"
proof -
  show "candidate_path i \<noteq> completion_path j"
  proof
    assume "candidate_path i = completion_path j"
    then have "rev (candidate_path i) = rev (completion_path j)" by simp
    then show False by (simp add: candidate_path_def completion_path_def)
  qed
qed (simp_all add: candidate_path_def)

lemma completed_on_steps: "(disk_step sha)\<^sup>*\<^sup>* d d' \<Longrightarrow> completed_on d i \<Longrightarrow> completed_on d' i"
  unfolding completed_on_def using disk_steps_content by blast

lemma completed_on_publish: "publish_at sha l v mt s d = (res, d') \<Longrightarrow> completed_on d i \<Longrightarrow> completed_on d' i"
  using completed_on_steps disk_step.publishing by blast

lemma candidates_last_publish:
  assumes "candidates_last d" and "publish_at sha locator v mt s d = (res, d')"
    and "\<And>i. locator = candidate_path i \<Longrightarrow> completed_on d i"
  shows "candidates_last d'"
proof (cases "d' = d")
  case False
  then have d': "dk_artifacts d' = dk_artifacts d @ [(locator, v)]"
    using publish_at_disk [OF assms(2)] link_artifact_Inr(5) by blast
  show ?thesis unfolding candidates_last_def
  proof (intro allI impI)
    fix i
    assume "disk_content d' (Artifact (candidate_path i)) \<noteq> None"
    then have "disk_content d (Artifact (candidate_path i)) \<noteq> None \<or> locator = candidate_path i"
      by (auto simp: d' map_add_def split: option.splits if_splits)
    then have "completed_on d i" using assms(1,3) by (auto simp: candidates_last_def)
    then show "completed_on d' i" using completed_on_publish [OF assms(2)] by blast
  qed
qed (use assms(1) in simp)

lemma candidates_last_cong: "dk_artifacts d' = dk_artifacts d \<Longrightarrow> candidates_last d \<Longrightarrow> candidates_last d'"
  by (simp add: candidates_last_def completed_on_def)

lemma candidates_last_claim: "candidates_last d \<Longrightarrow> claim sha loads recover t d = (x, d') \<Longrightarrow> candidates_last d'"
  using claim_disk [of sha loads recover t d x d'] by (auto elim: candidates_last_cong [rotated])

lemma candidates_last_complete: "candidates_last d \<Longrightarrow> complete t outcome d = (x, d') \<Longrightarrow> candidates_last d'"
  using complete_disk [of t outcome d x d'] by (auto elim: candidates_last_cong [rotated])

text \<open>Actions that keep a property of the disk.\<close>

definition keepsD :: "(disk \<Rightarrow> bool) \<Rightarrow> 'a disk_action \<Rightarrow> bool" where
  "keepsD P m \<longleftrightarrow> (\<forall>d. P d \<longrightarrow> P (snd (m d)))"

named_theorems keeps \<open>actions that keep the candidates last\<close>

lemma keepsD_bindD [keeps]: "keepsD P m \<Longrightarrow> (\<And>x. keepsD P (f x)) \<Longrightarrow> keepsD P (bindD m f)"
  unfolding keepsD_def bindD_def by (auto split: prod.splits sum.splits)

lemma keepsD_pureD [keeps]: "keepsD P (pureD x)"
  by (simp add: keepsD_def pureD_def)

lemma keepsD_bind_pure: "(\<And>x. v = Inr x \<Longrightarrow> keepsD P (f x)) \<Longrightarrow> keepsD P (bindD (pureD v) f)"
  by (cases v) (simp_all add: keepsD_def bindD_def pureD_def)

text \<open>From an action on, more is known of the disk.\<close>

lemma keepsD_gain:
  assumes "keepsD P m" and "\<And>x d d'. m d = (Inr x, d') \<Longrightarrow> Q d'" and "\<And>x. keepsD (\<lambda>d. P d \<and> Q d) (f x)"
  shows "keepsD P (bindD m f)"
proof -
  have "P (snd (bindD m f d))" if "P d" for d
  proof (cases "m d")
    case (Pair y d')
    have "P d'" using assms(1) that Pair unfolding keepsD_def by (metis snd_conv)
    then show ?thesis using assms(2) [of d] assms(3) Pair by (cases y) (auto simp: bindD_def keepsD_def)
  qed
  then show ?thesis by (simp add: keepsD_def)
qed

lemma keepsD_completed:
  "keepsD candidates_last m \<Longrightarrow> disk_run sha m \<Longrightarrow> keepsD (\<lambda>d. candidates_last d \<and> completed_on d i) m"
  unfolding keepsD_def disk_run_def using completed_on_steps by blast

lemma keepsD_publish_at:
  assumes "\<And>i. locator \<noteq> candidate_path i"
  shows "keepsD candidates_last (publish_at sha locator content media_type schema_id)"
  using candidates_last_publish assms unfolding keepsD_def by (metis prod.collapse)

lemma keepsD_publish_bytes [keeps]: "keepsD candidates_last (publish_bytes sha content media_type schema_id)"
proof -
  have "publish_bytes sha content media_type schema_id
      = publish_at sha (''objects/sha256/'' @ take 2 (drop 7 (sha256_content_id sha content)) @ ''/'' @
          drop 7 (sha256_content_id sha content)) content media_type schema_id"
    by (rule ext) (simp add: publish_bytes_def Let_def)
  then show ?thesis using keepsD_publish_at candidate_path_neq(2) by metis
qed

lemma keepsD_publish_json [keeps]: "keepsD candidates_last (publish_json sha document media_type schema_id)"
  using keepsD_publish_bytes unfolding keepsD_def publish_json_def by (auto split: sum.splits)

lemma keepsD_publish_tensors [keeps]: "keepsD candidates_last (publish_tensors sha ops tensors)"
  unfolding publish_tensors_def by (rule keepsD_publish_bytes)

lemma keepsD_publish_completion [keeps]:
  "keepsD candidates_last (publish_document sha (completion_locator t) document media_type schema_id)"
  unfolding publish_document_def
  by (intro keeps keepsD_publish_at) (metis candidate_path_neq(1) completion_locator_def completion_path_def)

lemma keepsD_publish_candidate:
  "keepsD (\<lambda>d. candidates_last d \<and> completed_on d (wt_ticket_id t))
     (publish_document sha (candidate_locator t) document media_type schema_id)"
proof -
  have "keepsD (\<lambda>d. candidates_last d \<and> completed_on d (wt_ticket_id t)) (publish_at sha (candidate_locator t) bytes media_type schema_id)"
    for bytes
    using candidates_last_publish completed_on_publish candidate_path_neq(3)
    unfolding keepsD_def candidate_locator_def candidate_path_def [symmetric] by (metis prod.collapse)
  then show ?thesis unfolding publish_document_def by (intro keeps)
qed

lemma completion_published:
  assumes "publish_document sha (completion_locator t) (completion_to_dict c) media_type schema_id d = (Inr r, d')"
    and "completion_complete c"
  shows "completed_on d' (wt_ticket_id t)"
  using publish_document_Inr [OF assms(1)] assms(2)
  by (auto simp: completed_on_def store_read_Inr completion_locator_def completion_path_def)

definition others_last :: "engine_env \<Rightarrow> bool" where
  "others_last env \<longleftrightarrow> others_ok env \<and> (\<forall>stage d. candidates_last d \<longrightarrow> candidates_last (en_others env stage d))"

lemma keepsD_after_stage [keeps]: "others_last env \<Longrightarrow> keepsD candidates_last (after_stage env stage)"
  by (simp add: keepsD_def after_stage_def others_last_def)

lemma keepsD_publish_success:
  assumes "others_last env"
  shows "keepsD candidates_last (publish_success env ops t schema limits a delta normalized wall)"
proof -
  have ok: "others_ok env" using assms by (simp add: others_last_def)
  have tail: "keepsD (\<lambda>d. candidates_last d \<and> completed_on d (wt_ticket_id t))
      (bindD (pureD u) (\<lambda>cid. bindD (pureD (v cid)) (\<lambda>_. bindD (after_stage env stage) (\<lambda>_.
         bindD (pureD (w cid)) (\<lambda>c. bindD (publish_document (en_sha env) (candidate_locator t) (doc c) media_type schema_id)
           (\<lambda>r. pureD (z c r)))))))" for u v w doc z stage media_type schema_id
    by (intro keepsD_bindD keepsD_pureD keepsD_publish_candidate
        keepsD_completed [OF keepsD_after_stage [OF assms] disk_run_after_stage [OF ok]])
  show ?thesis
    unfolding publish_success_def
    by (intro keepsD_bindD keeps assms keepsD_bind_pure keepsD_gain [OF keepsD_publish_completion _ tail])
      (blast intro: completion_published success_completion_of(2))
qed

lemma keepsD_publish_failure: "keepsD candidates_last (publish_failure env t schema a status reason code wall)"
  unfolding publish_failure_def by (intro keeps)

text \<open>So a run keeps the candidates last, if the other processes do.\<close>

interpretation last: round_guarantee env ops "\<lambda>d d'. others_last env \<longrightarrow> candidates_last d \<longrightarrow> candidates_last d'"
proof
  fix d t schema limits a delta normalized wall
  show "others_last env \<longrightarrow> candidates_last d \<longrightarrow>
      candidates_last (snd (publish_success env ops t schema limits a delta normalized wall d))"
    using keepsD_publish_success [of env ops t schema limits a delta normalized wall] by (simp add: keepsD_def)
next
  fix d t schema a status reason code wall
  show "others_last env \<longrightarrow> candidates_last d \<longrightarrow> candidates_last (snd (publish_failure env t schema a status reason code wall d))"
    using keepsD_publish_failure unfolding keepsD_def by blast
next
  fix d t
  show "others_last env \<longrightarrow> candidates_last d \<longrightarrow>
      candidates_last (snd (claim (en_sha env) (en_loads env) (en_recover_incomplete env) t d))"
    using candidates_last_claim by (metis prod.collapse)
next
  fix d t outcome
  show "others_last env \<longrightarrow> candidates_last d \<longrightarrow> candidates_last (snd (complete t outcome d))"
    using candidates_last_complete by (metis prod.collapse)
qed (auto simp: others_last_def)

end
