(* ===== verification/Local_Outcomes.thy ===== *)
theory Local_Outcomes
  imports Local_Publication
begin

text \<open>
  The results of a run, put together from its parts: what a published round, a recorded failure and a completion
  of another worker mean for the disk and the counters.
\<close>

definition positive_round :: "'t resolved_round \<Rightarrow> bool" where
  "positive_round resolved \<longleftrightarrow> 0 < wt_step_budget (rl_ticket resolved) \<and>
     0 < bc_gradient_accumulation_steps (rl_config resolved) \<and> 0 < bc_batch_size (rl_config resolved)"

definition verified :: "engine_env \<Rightarrow> ('m, 't) tensor_ops \<Rightarrow> 't resolved_round \<Rightarrow> published_round \<Rightarrow> disk \<Rightarrow> bool" where
  "verified env ops resolved p d \<longleftrightarrow>
     verify_success (en_sha env) ops (rl_ticket resolved) (rl_parameter_schema resolved) (rl_limits resolved) p d = Inr ()"

text \<open>A result is returned only by a run that claimed the ticket, tried the round and recorded the outcome.\<close>

lemma run_recordedE:
  assumes "run env ops resolved d = (Inr result, d')" and "\<nexists>outcome. result = Replayed outcome"
  obtains ledger res r d1 where
    "init_boundary_ledger (dr_start (wt_data_range (rl_ticket resolved))) (dr_end (wt_data_range (rl_ticket resolved))) = Inr ledger"
    "claim (en_sha env) (en_loads env) (en_recover_incomplete env) (rl_ticket resolved) d = (Inr CLAIMED, d1)"
    "round_body env ops resolved (start_state env (rl_ticket resolved) ledger d1) = (res, r)"
    "conclude_round env resolved (res, r) = (Inr result, d')"
  using assms(1)
proof (cases rule: runE)
  case (claimed d1)
  from claimed(2) show ?thesis
  proof (cases rule: run_claimedE)
    case (tried ledger res r)
    then show ?thesis using that claimed(1) by blast
  qed simp
qed (use assms(2) in auto)

lemma start_state_parts:
  "rd_ledger (start_state env t ledger d) = ledger"
  "rd_telemetry (start_state env t ledger d) = init_telemetry (wt_ticket_id t) (wt_domain_id t)"
  by (simp_all add: start_state_def)

lemma run_published:
  assumes "others_ok env" and "positive_round resolved" and "run env ops resolved d = (Inr (Published p tel), d')"
  obtains fp a where "ticket_fingerprint (en_sha env) (rl_ticket resolved) = Inr fp"
    "completion_of (rl_ticket resolved) fp (en_worker_id env) a (pl_completion p)" "completion_complete (pl_completion p)"
    "ta_effective_steps a = wt_step_budget (rl_ticket resolved)" "ta_cursor_end a = dr_end (wt_data_range (rl_ticket resolved))"
    "ar_locator (pl_completion_ref p) = completion_locator (rl_ticket resolved)" "verified env ops resolved p d'"
    "event_states tel = [RECEIVED, ACCEPTED, RUNNING, COMPLETED]"
    "length (te_metrics tel) = nat (wt_step_budget (rl_ticket resolved))"
proof -
  from assms(3) obtain ledger res r d1 where
    ledger: "init_boundary_ledger (dr_start (wt_data_range (rl_ticket resolved))) (dr_end (wt_data_range (rl_ticket resolved))) = Inr ledger"
    and body: "round_body env ops resolved (start_state env (rl_ticket resolved) ledger d1) = (res, r)"
    and conclude: "conclude_round env resolved (res, r) = (Inr (Published p tel), d')"
    by (rule run_recordedE) simp
  have "res = Inr p \<and> tel = rd_telemetry r"
    using conclude by (cases rule: conclude_roundE) (auto dest!: record_outcome_Inr)
  then have res: "res = Inr p" and tel: "tel = rd_telemetry r" by simp_all
  note pos = assms(2) [unfolded positive_round_def, THEN conjunct1] assms(2) [unfolded positive_round_def, THEN conjunct2, THEN conjunct1]
    assms(2) [unfolded positive_round_def, THEN conjunct2, THEN conjunct2]
  have "event_states (rd_telemetry r) = [RECEIVED, ACCEPTED, RUNNING, COMPLETED] \<and>
      length (te_metrics (rd_telemetry r)) = nat (wt_step_budget (rl_ticket resolved)) \<and>
      (\<exists>model a r1 r2. accounting_snapshot (rd_ledger r1) = Inr a \<and>
         round_ledger resolved (wt_step_budget (rl_ticket resolved)) r1 \<and>
         ta_cursor_end a = dr_end (wt_data_range (rl_ticket resolved)) \<and>
         publish_round env ops resolved model a r1 = (Inr p, r2) \<and> rd_disk r = rd_disk r2)"
    using round_body_counted(3) [OF body _ _ _ pos] ledger res by (simp add: start_state_parts)
  then obtain model a r1 r2 where states: "event_states (rd_telemetry r) = [RECEIVED, ACCEPTED, RUNNING, COMPLETED]"
      "length (te_metrics (rd_telemetry r)) = nat (wt_step_budget (rl_ticket resolved))"
      "ta_cursor_end a = dr_end (wt_data_range (rl_ticket resolved))"
    and publish: "publish_round env ops resolved model a r1 = (Inr p, r2)" and disk: "rd_disk r = rd_disk r2" by blast
  obtain delta normalized d2 d3 where success: "publish_success env ops (rl_ticket resolved) (rl_parameter_schema resolved)
        (rl_limits resolved) a delta normalized (wall_time env) d2 = (Inr p, d3)"
    and verified: "verify_success (en_sha env) ops (rl_ticket resolved) (rl_parameter_schema resolved) (rl_limits resolved) p (rd_disk r2)
        = Inr ()" and "(disk_step (en_sha env))\<^sup>*\<^sup>* d3 (rd_disk r2)"
    by (rule publish_round_Inr [OF assms(1) publish])
  have now: "verified env ops resolved p d'"
    using verify_success_steps [OF conclude_steps [OF assms(1) conclude]] verified by (simp add: verified_def disk)
  obtain fp delta_ref summary cid d4 d5 where fp: "ticket_fingerprint (en_sha env) (rl_ticket resolved) = Inr fp"
    and completion: "success_completion (rl_ticket resolved) fp (en_worker_id env) a delta_ref (included_tensor_names (rl_parameter_schema resolved))
       summary (wall_time env) = Inr (pl_completion p)"
    and document: "publish_document (en_sha env) (completion_locator (rl_ticket resolved)) (completion_to_dict (pl_completion p))
       COMPLETION_MEDIA_TYPE ''SCHEMA-LOCAL-ROUND-COMPLETION-V1'' d4 = (Inr (pl_completion_ref p), d5)"
    and "round_candidate (rl_ticket resolved) fp cid a (pl_normalized_delta_ref p)
      (included_tensor_names (rl_parameter_schema resolved)) = Inr (pl_candidate p)"
    and steps: "ta_effective_steps a = wt_step_budget (rl_ticket resolved)"
    by (rule publish_success_Inr [OF success])
  show ?thesis
    by (rule that [OF fp success_completion_of(1,2) [OF completion] steps states(3) publish_document_Inr(1) [OF document] now])
      (simp_all add: states tel)
qed

lemma classify_status:
  "classify_failure e = Inr (status, reason, code) \<Longrightarrow> status = STATUS_CANCELLED \<or> status = STATUS_FAILED"
  by (auto simp: classify_failure_def split: local_exn.splits if_splits)

lemma run_failed:
  assumes "others_ok env" and "positive_round resolved" and "run env ops resolved d = (Inr (PublishedFailed f tel), d')"
  obtains fp a bytes before where "ticket_fingerprint (en_sha env) (rl_ticket resolved) = Inr fp"
    "completion_of (rl_ticket resolved) fp (en_worker_id env) a (pf_completion f)" "\<not> completion_complete (pf_completion f)"
    "\<not> cp_candidate_eligible (pf_completion f)" "cp_local_delta (pf_completion f) = None"
    "cp_status (pf_completion f) = STATUS_CANCELLED \<or> cp_status (pf_completion f) = STATUS_FAILED"
    "0 \<le> ta_effective_steps a" "ta_effective_steps a \<le> wt_step_budget (rl_ticket resolved)"
    "canonical_json_bytes (JObj (completion_to_dict (pf_completion f))) = Inr bytes"
    "store_read (en_sha env) d' (pf_completion_ref f) = Inr bytes"
    "ar_locator (pf_completion_ref f) = completion_locator (rl_ticket resolved)"
    "event_states tel = before @ [if cp_status (pf_completion f) = STATUS_CANCELLED then CANCELLED else FAILED]"
proof -
  from assms(3) obtain ledger res r d1 where
    ledger: "init_boundary_ledger (dr_start (wt_data_range (rl_ticket resolved))) (dr_end (wt_data_range (rl_ticket resolved))) = Inr ledger"
    and body: "round_body env ops resolved (start_state env (rl_ticket resolved) ledger d1) = (res, r)"
    and conclude: "conclude_round env resolved (res, r) = (Inr (PublishedFailed f tel), d')"
    by (rule run_recordedE) simp
  obtain e q where res: "res = Inl e" and handled: "handle_failure env resolved e r = (Inr (f, tel), q)"
    and recorded: "record_outcome env (rl_ticket resolved) (PublishedFailed f tel) (rd_disk q) = (Inr (PublishedFailed f tel), d')"
    using conclude by (cases rule: conclude_roundE) (auto dest: record_outcome_Inr)
  obtain status reason code a wall where h: "e \<noteq> ProcessExit" "classify_failure e = Inr (status, reason, code)"
      "accounting_snapshot (rd_ledger r) = Inr a"
    and publish: "publish_failure env (rl_ticket resolved) (rl_parameter_schema resolved) a status reason code wall (rd_disk r) = (Inr f, rd_disk q)"
    and states: "event_states tel = event_states (rd_telemetry r) @ [if status = STATUS_CANCELLED then CANCELLED else FAILED]"
    using handle_failure_Inr [OF handled] by blast
  note pos = assms(2) [unfolded positive_round_def]
  have "\<exists>k. k \<le> wt_step_budget (rl_ticket resolved) \<and> round_ledger resolved k r"
    using round_body_counted(1) [OF body] ledger res h(1) pos by (simp add: start_state_parts)
  then have bounds: "0 \<le> ta_effective_steps a" "ta_effective_steps a \<le> wt_step_budget (rl_ticket resolved)"
    using h(3) accounting_snapshot_ok init_counts_nonneg by (fastforce simp: round_ledger_def)+
  obtain fp bytes where fp: "ticket_fingerprint (en_sha env) (rl_ticket resolved) = Inr fp"
    and completion: "failure_completion (rl_ticket resolved) fp (en_worker_id env) a status reason code wall = Inr (pf_completion f)"
    and bytes: "canonical_json_bytes (JObj (completion_to_dict (pf_completion f))) = Inr bytes"
    and read: "store_read (en_sha env) (rd_disk q) (pf_completion_ref f) = Inr bytes"
    and locator: "ar_locator (pf_completion_ref f) = completion_locator (rl_ticket resolved)"
    by (rule publish_failure_Inr [OF publish])
  have read': "store_read (en_sha env) d' (pf_completion_ref f) = Inr bytes"
    using store_read_steps [OF outcome_steps [OF assms(1) recorded] read] .
  note c = failure_completion_of [OF completion]
  show ?thesis
    by (rule that [OF fp c(1-4) _ bounds bytes read' locator]) (use c(5) classify_status [OF h(2)] states in simp_all)
qed

section \<open>Completions of other runs\<close>

lemma same_completion_bytes:
  assumes "canonical_json_bytes (JObj (completion_to_dict c)) = Inr bytes" and "canonical_json_bytes (JObj (completion_to_dict c')) = Inr bytes"
  shows "ci_worker_id (cp_ids c) = ci_worker_id (cp_ids c')" "cp_status c = cp_status c'"
proof -
  have d: "distinct (map fst (completion_to_dict x))" for x by (simp add: completion_to_dict_def Let_def)
  note same = sort_keys_get [OF canonical_json_bytes_inj [OF assms] d d]
  show "ci_worker_id (cp_ids c) = ci_worker_id (cp_ids c')" using same [of "''worker_id''"] by (simp add: completion_rest)
  show "cp_status c = cp_status c'"
    using same [of "''status''"] by (cases "cp_status c"; cases "cp_status c'") (simp_all add: completion_rest)
qed

lemma claim_REPLAY:
  "claim sha loads recover t d = (Inr (REPLAY outcome), d') \<Longrightarrow> d' = d \<and> disk_content d (Outcome (wt_ticket_id t)) \<noteq> None"
  unfolding claim_def create_once_def read_outcome_def
  by (auto simp: bindE_eq_Inr split: sum.splits option.splits if_splits)

lemma recorded_completion:
  assumes "others_ok env" and "positive_round resolved" and "run env ops resolved d = (Inr result, d')"
    and "\<nexists>outcome. result = Replayed outcome"
  obtains c bytes where "canonical_json_bytes (JObj (completion_to_dict c)) = Inr bytes" "ci_worker_id (cp_ids c) = en_worker_id env"
    "disk_content d' (Artifact (completion_locator (rl_ticket resolved))) = Some bytes"
proof (cases result)
  case (Published p tel)
  with assms obtain fp a where "completion_of (rl_ticket resolved) fp (en_worker_id env) a (pl_completion p)"
    "ar_locator (pl_completion_ref p) = completion_locator (rl_ticket resolved)" "verified env ops resolved p d'"
    by (metis run_published)
  moreover from this(3) obtain bytes where "store_read (en_sha env) d' (pl_completion_ref p) = Inr bytes"
    "canonical_json_bytes (JObj (completion_to_dict (pl_completion p))) = Inr bytes"
    unfolding verified_def verify_success_Inr by blast
  ultimately show ?thesis using that [of "pl_completion p" bytes] by (simp add: completion_of_def store_read_Inr)
next
  case (PublishedFailed f tel)
  with assms obtain fp a bytes where "completion_of (rl_ticket resolved) fp (en_worker_id env) a (pf_completion f)"
    "canonical_json_bytes (JObj (completion_to_dict (pf_completion f))) = Inr bytes"
    "store_read (en_sha env) d' (pf_completion_ref f) = Inr bytes"
    "ar_locator (pf_completion_ref f) = completion_locator (rl_ticket resolved)"
    by (metis run_failed)
  then show ?thesis using that [of "pf_completion f" bytes] by (simp add: completion_of_def store_read_Inr)
qed (use assms(4) in simp)

lemma failed_not_completed:
  assumes "candidates_last d" and "disk_content d (Artifact (completion_locator t)) = Some bytes"
    and "canonical_json_bytes (JObj (completion_to_dict c)) = Inr bytes" and "cp_status c \<noteq> STATUS_COMPLETED"
  shows "disk_content d (Artifact (candidate_locator t)) = None"
proof (rule ccontr)
  assume "disk_content d (Artifact (candidate_locator t)) \<noteq> None"
  then have "completed_on d (wt_ticket_id t)"
    using assms(1) by (simp add: candidates_last_def candidate_locator_def candidate_path_def)
  then obtain c' where "completion_complete c'" "canonical_json_bytes (JObj (completion_to_dict c')) = Inr bytes"
    using assms(2) by (auto simp: completed_on_def completion_path_def completion_locator_def)
  with same_completion_bytes(2) [OF assms(3)] assms(4) show False by (auto simp: completion_complete_def)
qed

end
