(* ===== verification/Local_Samples.thy ===== *)
theory Local_Samples
  imports Local_Outcomes
begin

text \<open>
  A small round for the examples: one parameter, one optimizer step on one sample, a disk without files, a hash that
  is the same for all texts, and tensors that are stored as the text of the parameter schema.
\<close>

definition round_digest :: string where
  "round_digest = ''aaaaaaaaaaaaaaaaaaaaaaaaaaaaaaaaaaaaaaaaaaaaaaaaaaaaaaaaaaaaaaaa''"

definition round_id :: string where
  "round_id = ''sha256:'' @ round_digest"

definition round_ref :: artifact_ref where
  "round_ref = \<lparr>ar_content_id = round_id, ar_media_type = JStr ''application/vnd.safetensors'',
     ar_schema_id = ''SCHEMA-SAFETENSORS-V1'', ar_schema_version = ''1.0.0'', ar_byte_length = 1, ar_locator = ''parent''\<rparr>"

definition round_ticket :: work_ticket where
  "round_ticket = \<lparr>wt_ticket_id = ''t1'', wt_domain_id = ''d1'', wt_data = round_ref,
     wt_data_range = \<lparr>dr_start = 0, dr_end = 1\<rparr>, wt_batch_budget = 1, wt_step_budget = 1, wt_parent_model = round_ref,
     wt_parameter_schema_id = round_id, wt_optimizer_profile_id = round_id, wt_arithmetic_profile_id = round_id,
     wt_deterministic_seed = 0, wt_logical_deadline_ms = 10\<rparr>"

definition round_config :: baseline_config where
  "round_config = \<lparr>bc_run_id = JStr ''r1'', bc_corpus_path = JStr ''c'', bc_tokenizer_path = JStr ''t'', bc_output_dir = JStr ''o'',
     bc_seed = 0, bc_sequence_length = 1, bc_batch_size = 1, bc_gradient_accumulation_steps = 1, bc_optimizer_steps = 1,
     bc_checkpoint_every_optimizer_steps = 1, bc_vocab_size = 2, bc_hidden_size = 1, bc_learning_rate_nanos = 1,
     bc_weight_decay_ppm = 0, bc_beta1_ppm = 0, bc_beta2_ppm = 1, bc_epsilon_nanos = 1\<rparr>"

definition round_schema :: parameter_schema where
  "round_schema = \<lparr>sc_parameters = [\<lparr>ps_name = ''w'', ps_shape = [1], ps_logical_dtype = FLOAT32, ps_trainable = True\<rparr>],
     sc_tied_aliases = [], sc_frozen_omission_policy = OMIT_FROZEN\<rparr>"

definition schema_text :: string where
  "schema_text = dumps_sorted (JObj (parameter_schema_to_dict round_schema))"

definition round_ops :: "(unit, string) tensor_ops" where
  "round_ops = \<lparr>to_create = \<lambda>_ _ _. Inr (),
     to_trainer = \<lambda>_. \<lparr>tr_forward = \<lambda>m _. Inr (''0.5'', m), tr_step = Inr, tr_zero_grad = \<lambda>m. m, tr_mean_loss = hd\<rparr>,
     to_delta = \<lambda>_ _ _. Inr schema_text, to_validate = \<lambda>_ _ _. Inr (''00000000'', ''0000000000000000''),
     to_divide = \<lambda>t _. t, to_restrict = \<lambda>_ t. t, to_names = \<lambda>_. [''w''], to_equal = (=), to_save = \<lambda>t. t, to_load = Some,
     to_fp64_bits = \<lambda>_. ''3fe0000000000000''\<rparr>"

definition round_resolved :: "string resolved_round" where
  "round_resolved = \<lparr>rl_ticket = round_ticket, rl_config = round_config, rl_parameter_schema = round_schema,
     rl_tokenizer_ref = round_ref, rl_tokenizer = \<lparr>tk_vocabulary = [(''p'', 0), (''u'', 1)], tk_pad_token = ''p'', tk_unknown_token = ''u''\<rparr>,
     rl_samples = [\<lparr>sm_inputs = [1], sm_targets = [1]\<rparr>], rl_parent_parameters = schema_text,
     rl_limits = \<lparr>lim_per_tensor_norm_ceiling_microunits = 1, lim_global_norm_ceiling_microunits = 1\<rparr>\<rparr>"

text \<open>An engine that is alone on the disk; \<open>cancelled\<close> is what its callback answers.\<close>

definition round_env :: "string \<Rightarrow> bool \<Rightarrow> (string \<Rightarrow> json option) \<Rightarrow> engine_env" where
  "round_env worker cancelled loads = \<lparr>en_sha = \<lambda>_. round_digest, en_loads = loads, en_inject = \<lambda>_ _. Inr (),
     en_others = \<lambda>_ d. d, en_cancellation_requested = \<lambda>_. cancelled, en_logical_clock_ms = \<lambda>_. 0, en_logical_started = 0,
     en_clock_started = 0, en_clock_ended = 0, en_worker_id = worker, en_recover_incomplete = False\<rparr>"

lemma round_env_alone: "others_ok (round_env worker cancelled loads)" "others_last (round_env worker cancelled loads)"
  by (simp_all add: others_ok_def others_last_def round_env_def)

lemma round_positive: "positive_round round_resolved"
  by (simp add: positive_round_def round_resolved_def round_ticket_def round_config_def)

lemma round_texts:
  "IDENTIFIER ''t1''" "IDENTIFIER ''d1''" "IDENTIFIER ''w1''" "IDENTIFIER ''w2''" "CONTENT_ID round_id" "PARAMETER_NAME ''w''"
  "PRODUCER_VERSION ''deltatorrent-worker-0.1.0''" "ERROR_CODE ''WORKER_CANCELLED''"
  "SCHEMA_ID ''SCHEMA-SAFETENSORS-V1''" "SCHEMA_ID ''SCHEMA-PARAMETER-SCHEMA-V1''" "SCHEMA_ID ''SCHEMA-LOCAL-ROUND-COMPLETION-V1''"
  "SCHEMA_ID ''SCHEMA-NORMALIZED-CONTRIBUTION-CANDIDATE-V1''"
  by code_simp+

lemma round_media_types:
  "require_media_type (JStr ''application/vnd.safetensors'') = Inr ()" "require_media_type SCHEMA_MEDIA_TYPE = Inr ()"
  "require_media_type COMPLETION_MEDIA_TYPE = Inr ()" "require_media_type CANDIDATE_MEDIA_TYPE = Inr ()"
  by code_simp+

definition objects_locator :: string where
  "objects_locator = ''objects/sha256/'' @ take 2 round_digest @ ''/'' @ round_digest"

lemma round_locators:
  "\<not> locator_refused objects_locator" "\<not> locator_refused (completion_locator round_ticket)"
  "\<not> locator_refused (candidate_locator round_ticket)" "\<not> locator_refused ''parent''"
  by code_simp+

lemma round_paths:
  "objects_locator \<noteq> ''.''" "completion_locator round_ticket \<noteq> ''.''" "candidate_locator round_ticket \<noteq> ''.''"
  "list_all (\<lambda>a. list_all (\<lambda>b. \<not> path_below a b) [objects_locator, completion_locator round_ticket, candidate_locator round_ticket])
     [objects_locator, completion_locator round_ticket, candidate_locator round_ticket]"
  by code_simp+

section \<open>Publishing on the sample disk\<close>

definition published_ref :: "string \<Rightarrow> string \<Rightarrow> json \<Rightarrow> string \<Rightarrow> artifact_ref" where
  "published_ref locator content media_type schema_id = \<lparr>ar_content_id = round_id, ar_media_type = media_type, ar_schema_id = schema_id,
     ar_schema_version = ''1.0.0'', ar_byte_length = int (length content), ar_locator = locator\<rparr>"

definition stored :: "string \<Rightarrow> string \<Rightarrow> disk \<Rightarrow> disk" where
  "stored locator content d =
     (if map_of (dk_artifacts d) locator = Some content then d else d\<lparr>dk_artifacts := dk_artifacts d @ [(locator, content)]\<rparr>)"

lemma publish_at_stored:
  assumes "\<not> locator_refused locator" and "\<not> not_a_file d locator"
    and "map_of (dk_artifacts d) locator = None \<or> map_of (dk_artifacts d) locator = Some content"
    and "require_media_type media_type = Inr ()" and "SCHEMA_ID schema_id"
  shows "publish_at (\<lambda>_. round_digest) locator content media_type schema_id d =
    (Inr (published_ref locator content media_type schema_id), stored locator content d)"
proof -
  have link: "link_artifact locator content d = Inr (stored locator content d)"
    using assms(2,3) by (auto simp: link_artifact_def stored_def split: option.splits)
  have init: "init_artifact_ref
      [(''byte_length'', JInt (int (length content))), (''content_id'', JStr (sha256_content_id (\<lambda>_. round_digest) content)),
       (''locator'', JStr locator), (''media_type'', media_type), (''schema_id'', JStr schema_id), (''schema_version'', JStr ''1.0.0'')]
      = Inr (published_ref locator content media_type schema_id)"
    using assms(1,4,5) round_texts(5) unfolding init_artifact_ref_Inr
    by (simp add: published_ref_def sha256_content_id_def round_id_def)
  have "\<not> path_below locator locator" by (simp add: path_below_def startswith_def)
  then have "\<not> not_a_file (stored locator content d) locator" using assms(2) by (auto simp: not_a_file_def stored_def)
  then have "store_read (\<lambda>_. round_digest) (stored locator content d) (published_ref locator content media_type schema_id) = Inr content"
    using assms(1) link_artifact_Inr(2) [OF link] by (simp add: store_read_Inr published_ref_def sha256_content_id_def round_id_def)
  then show ?thesis using assms(1) link init by (simp add: publish_at_def resolve_locator_def)
qed

lemma publish_bytes_stored:
  assumes "\<not> not_a_file d objects_locator"
    and "map_of (dk_artifacts d) objects_locator = None \<or> map_of (dk_artifacts d) objects_locator = Some content"
    and "require_media_type media_type = Inr ()" and "SCHEMA_ID schema_id"
  shows "publish_bytes (\<lambda>_. round_digest) content media_type schema_id d =
    (Inr (published_ref objects_locator content media_type schema_id), stored objects_locator content d)"
  using publish_at_stored [OF round_locators(1) assms]
  by (simp add: publish_bytes_def sha256_content_id_def objects_locator_def)

text \<open>The disks of the sample round; a disk holds the claim and the artifacts given by a list.\<close>

definition round_claim :: string where
  "round_claim = dumps_sorted (claim_document round_id round_ticket)"

definition round_disk :: "(string \<times> string) list \<Rightarrow> disk" where
  "round_disk artifacts = \<lparr>dk_artifacts = artifacts, dk_claims = [(''t1'', round_claim)], dk_outcomes = []\<rparr>"

lemma round_bytes:
  "canonical_json_bytes (JObj (ticket_to_dict round_ticket)) = Inr (dumps_sorted (JObj (ticket_to_dict round_ticket)))"
  "canonical_json_bytes (JObj (parameter_schema_to_dict round_schema)) = Inr schema_text"
  by (simp_all add: canonical_json_bytes_def ticket_to_dict_def round_ticket_def artifact_ref_to_dict_def round_ref_def
      data_range_to_dict_def parameter_schema_to_dict_def round_schema_def parameter_spec_to_dict_def schema_text_def)

lemma round_fingerprint [simp]: "ticket_fingerprint (\<lambda>_. round_digest) round_ticket = Inr round_id"
  by (simp add: ticket_fingerprint_def document_fingerprint_def round_bytes sha256_content_id_def round_id_def)

lemma round_claimed:
  "claim (\<lambda>_. round_digest) loads recover round_ticket empty_disk = (Inr CLAIMED, round_disk [])"
  by (simp add: claim_def create_once_def empty_disk_def canonical_json_bytes_def claim_document_def round_disk_def round_claim_def,
      simp add: round_ticket_def)

lemma round_readable:
  assumes "set (map fst artifacts) \<subseteq> {objects_locator, completion_locator round_ticket, candidate_locator round_ticket}"
    and "locator \<in> {objects_locator, completion_locator round_ticket, candidate_locator round_ticket}"
  shows "\<not> not_a_file (round_disk artifacts) locator"
proof -
  have "\<not> path_below a b" if "a \<in> {objects_locator, completion_locator round_ticket, candidate_locator round_ticket}"
    "b \<in> {objects_locator, completion_locator round_ticket, candidate_locator round_ticket}" for a b
    using round_paths(4) that by auto
  then have "\<not> path_below locator k \<and> \<not> path_below k locator" if "(k, v) \<in> set artifacts" for k v
    using that assms by (metis fst_conv image_eqI image_set subsetD)
  moreover have "locator \<noteq> ''.''" using assms(2) round_paths(1-3) by auto
  ultimately show ?thesis unfolding not_a_file_def round_disk_def by (auto simp: list_ex_iff)
qed

section \<open>A completed round\<close>

definition round_accounting :: token_accounting where
  "round_accounting = \<lparr>ta_effective_steps = 1, ta_observed_micro_steps = 1, ta_committed_micro_steps = 1, ta_processed_tokens = 1,
     ta_cursor_start = 0, ta_cursor_end = 1, ta_pending_micro_steps = 0\<rparr>"

definition fresh_ledger :: boundary_ledger where
  "fresh_ledger = \<lparr>bl_range_start = 0, bl_range_end = 1, bl_effective_steps = 0, bl_observed_micro_steps = 0, bl_committed_micro_steps = 0,
     bl_processed_tokens = 0, bl_cursor_end = 0, bl_pending_tokens = 0, bl_pending_cursor_end = None, bl_pending_micro_steps = 0\<rparr>"

lemma fresh_ledger_init: "init_boundary_ledger 0 1 = Inr fresh_ledger"
  by (simp add: init_boundary_ledger_def fresh_ledger_def)

lemma round_draw: "index_at sha \<lparr>sp_sample_count = Suc 0, sp_seed = 0, sp_cursor = c\<rparr> 0 = 0"
  by (simp add: index_at_def epoch_order_def)

lemmas round_evaluation = round_resolved_def round_config_def round_ops_def round_env_def start_state_def fresh_ledger_def

lemma round_step:
  "\<exists>st. train_one_optimizer_step (\<lambda>_. round_digest) (to_trainer round_ops round_config) (check_boundary (round_env worker False loads) round_ticket)
     round_config [\<lparr>sm_inputs = [1], sm_targets = [1]\<rparr>]
     \<lparr>ts_model = (), ts_sampler = \<lparr>sp_sample_count = Suc 0, sp_seed = 0, sp_cursor = 0\<rparr>, ts_micro_step = 0, ts_optimizer_step = 0,
      ts_processed_tokens = 0\<rparr> fresh_ledger
   = (Inr \<lparr>tm_step = 1, tm_optimizer_step = 1, tm_processed_tokens = 1, tm_loss = ''0.5''\<rparr>, st,
      fresh_ledger\<lparr>bl_effective_steps := 1, bl_observed_micro_steps := 1, bl_committed_micro_steps := 1, bl_processed_tokens := 1,
        bl_cursor_end := 1\<rparr>)"
  by (simp add: train_one_optimizer_step_def train_microbatch_def check_boundary_def sampler_take_def round_draw stage_microbatch_def
      expected_start_def commit_optimizer_step_def accounting_snapshot_def check_token_accounting_def non_padding_def clear_pending_def
      float_finite_def non_finite_texts_def Let_def round_evaluation round_ticket_def ensure_def)

lemma round_trained:
  "\<exists>r. train_round (round_env worker False loads) round_ops round_resolved (start_state (round_env worker False loads) round_ticket fresh_ledger d)
     = (Inr ((), round_accounting), r) \<and> rd_disk r = d \<and> te_state (rd_telemetry r) = RUNNING"
proof -
  let ?env = "round_env worker False loads"
  obtain t1 where t1: "move_to ACCEPTED (init_telemetry ''t1'' ''d1'') = Inr t1" by (auto simp: move_to_def transition_def)
  obtain t2 where t2: "move_to RUNNING t1 = Inr t2" using move_to_Inr [OF t1] by (auto simp: move_to_def transition_def)
  obtain st where step: "train_one_optimizer_step (en_sha ?env) (to_trainer round_ops round_config) (check_boundary ?env round_ticket)
     round_config [\<lparr>sm_inputs = [1], sm_targets = [1]\<rparr>]
     \<lparr>ts_model = (), ts_sampler = \<lparr>sp_sample_count = Suc 0, sp_seed = 0, sp_cursor = 0\<rparr>, ts_micro_step = 0, ts_optimizer_step = 0,
      ts_processed_tokens = 0\<rparr> fresh_ledger
   = (Inr \<lparr>tm_step = 1, tm_optimizer_step = 1, tm_processed_tokens = 1, tm_loss = ''0.5''\<rparr>, st,
      fresh_ledger\<lparr>bl_effective_steps := 1, bl_observed_micro_steps := 1, bl_committed_micro_steps := 1, bl_processed_tokens := 1,
        bl_cursor_end := 1\<rparr>)"
    using round_step by (fastforce simp: round_env_def)
  have parts: "rl_ticket round_resolved = round_ticket" "rl_config round_resolved = round_config"
    "rl_samples round_resolved = [\<lparr>sm_inputs = [1], sm_targets = [1]\<rparr>]" "wt_step_budget round_ticket = 1"
    "wt_data_range round_ticket = \<lparr>dr_start = 0, dr_end = 1\<rparr>" "wt_ticket_id round_ticket = ''t1''" "wt_domain_id round_ticket = ''d1''"
    "en_inject ?env = (\<lambda>_ _. Inr ())"
    by (simp_all add: round_resolved_def round_ticket_def round_env_def)
  have start: "start_training ?env round_ops round_resolved = Inr \<lparr>ts_model = (),
      ts_sampler = \<lparr>sp_sample_count = Suc 0, sp_seed = 0, sp_cursor = 0\<rparr>, ts_micro_step = 0, ts_optimizer_step = 0, ts_processed_tokens = 0\<rparr>"
    by (simp add: start_training_def Let_def init_sampler_def round_resolved_def round_ticket_def round_ops_def)
  have snap: "accounting_snapshot (fresh_ledger\<lparr>bl_effective_steps := 1, bl_observed_micro_steps := 1, bl_committed_micro_steps := 1,
      bl_processed_tokens := 1, bl_cursor_end := 1\<rparr>) = Inr round_accounting"
    by (simp add: accounting_snapshot_def check_token_accounting_def fresh_ledger_def round_accounting_def)
  have run: "te_state t2 = RUNNING" using move_to_Inr [OF t2] by simp
  have "ta_cursor_end round_accounting = 1" by (simp add: round_accounting_def)
  with run show ?thesis
    by (simp add: train_round_def bindR_def pureR_def on_telemetry_def start_state_parts parts t1 t2 start step snap
        record_optimizer_step_def, simp add: start_state_def round_env_def)
qed


definition tensors_ref :: artifact_ref where
  "tensors_ref = published_ref objects_locator schema_text (JStr ''application/vnd.safetensors'') ''SCHEMA-SAFETENSORS-V1''"

lemma tensors_ref_parts: "is_tensor_artifact tensors_ref" "float_free (JObj (artifact_ref_to_dict tensors_ref))"
  by (simp_all add: is_tensor_artifact_def tensors_ref_def published_ref_def artifact_ref_to_dict_def)

lemma round_names: "included_tensor_names round_schema = [''w'']" "tensor_order_of factory [JStr ''w''] = Inr [''w'']"
  by (simp_all add: included_tensor_names_def round_schema_def tensor_order_of_Inr round_texts)

definition round_ids :: "string \<Rightarrow> completion_ids" where
  "round_ids worker = \<lparr>ci_ticket_id = ''t1'', ci_domain_id = ''d1'', ci_worker_id = worker, ci_ticket_fingerprint = round_id,
     ci_data_id = round_id, ci_parent_model_id = round_id, ci_parameter_schema_id = round_id, ci_optimizer_profile_id = round_id,
     ci_arithmetic_profile_id = round_id\<rparr>"

definition round_counts :: "token_accounting \<Rightarrow> completion_counts" where
  "round_counts a = \<lparr>cc_batch_budget = 1, cc_step_budget = 1, cc_deterministic_seed = 0, cc_logical_deadline_ms = 10,
     cc_data_range_start = 0, cc_data_range_end = 1, cc_effective_steps = ta_effective_steps a, cc_micro_steps = ta_observed_micro_steps a,
     cc_processed_tokens = ta_processed_tokens a, cc_cursor_start = ta_cursor_start a, cc_cursor_end = ta_cursor_end a\<rparr>"

definition round_delta :: local_delta where
  "round_delta = \<lparr>ld_ticket_id = ''t1'', ld_ticket_fingerprint = round_id, ld_parent_model_id = round_id,
     ld_parameter_schema_id = round_id, ld_artifact = tensors_ref, ld_tensor_order = [''w'']\<rparr>"

definition round_completion :: "string \<Rightarrow> completion" where
  "round_completion worker = \<lparr>cp_ids = round_ids worker, cp_counts = round_counts round_accounting, cp_status = STATUS_COMPLETED,
     cp_reason = EXACT_H, cp_candidate_eligible = True, cp_local_delta = Some round_delta, cp_failure_code = None,
     cp_numerical_summary = \<lparr>ns_all_finite = True, ns_max_abs_fp32_bits = Some ''00000000'', ns_global_l2_norm_fp64_bits = Some ''0000000000000000''\<rparr>,
     cp_resource_summary = \<lparr>rs_peak_memory_bytes = 0, rs_wall_time_ms = 0\<rparr>, cp_producer_version = ''deltatorrent-worker-0.1.0''\<rparr>"

lemma round_bits: "fullmatch_hex 8 ''00000000''" "fullmatch_hex 16 ''0000000000000000''"
  by code_simp+

lemma round_arguments:
  assumes "IDENTIFIER worker"
  shows "init_completion_ids (completion_arguments round_ticket round_id worker a eligible code) = Inr (round_ids worker)"
    and "0 \<le> ta_effective_steps a \<and> ta_effective_steps a \<le> 1 \<and> 0 \<le> ta_observed_micro_steps a \<and> 0 \<le> ta_processed_tokens a \<and>
      ta_cursor_start a = 0 \<and> 0 \<le> ta_cursor_end a \<and> ta_cursor_end a \<le> 1 \<Longrightarrow>
      init_completion_counts (completion_arguments round_ticket round_id worker a eligible code) = Inr (round_counts a)"
  unfolding init_completion_ids_Inr init_completion_counts_Inr completion_arguments_def
  using assms by (simp_all add: round_ids_def round_counts_def round_texts round_ticket_def round_ref_def)

lemma round_completed:
  assumes "IDENTIFIER worker"
  shows "success_completion round_ticket round_id worker round_accounting tensors_ref [''w''] (''00000000'', ''0000000000000000'') 0
    = Inr (round_completion worker)"
proof -
  have delta: "init_local_delta
      [(''ticket_id'', JStr (wt_ticket_id round_ticket)), (''ticket_fingerprint'', JStr round_id),
       (''parent_model_id'', JStr (ar_content_id (wt_parent_model round_ticket))),
       (''parameter_schema_id'', JStr (wt_parameter_schema_id round_ticket)),
       (''sign_convention'', JStr ''PARENT_MINUS_FINAL''), (''storage_dtype'', JStr ''float32'')]
      tensors_ref [JStr ''w''] = Inr round_delta"
    unfolding init_local_delta_def bindE_eq_Inr
    by (simp add: round_ticket_def round_ref_def round_texts tensors_ref_parts round_names round_delta_def)
  have "init_completion (completion_arguments round_ticket round_id worker round_accounting True None) STATUS_COMPLETED EXACT_H
      (Some round_delta) (cp_numerical_summary (round_completion worker)) (cp_resource_summary (round_completion worker))
      = Inr (round_completion worker)"
    unfolding init_completion_Inr
    using round_arguments [OF assms, of round_accounting True None]
    by (simp add: round_completion_def round_accounting_def completion_arguments_def completion_complete_def check_complete_def round_counts_def
        round_ids_def round_delta_def text_or_null_def round_texts)
  then show ?thesis
    unfolding success_completion_def using delta
    by (simp add: init_numerical_summary_def init_resource_summary_def bits_or_none_def round_bits round_completion_def
        counter_def non_negative_int_def)
qed

definition round_contribution :: candidate where
  "round_contribution = \<lparr>cd_ticket_id = ''t1'', cd_domain_id = ''d1'', cd_ticket_fingerprint = round_id, cd_completion_id = round_id,
     cd_parent_model_id = round_id, cd_parameter_schema_id = round_id, cd_optimizer_profile_id = round_id,
     cd_arithmetic_profile_id = round_id, cd_effective_steps = 1, cd_step_budget = 1, cd_normalization_denominator = 1,
     cd_normalized_delta = tensors_ref, cd_tensor_order = [''w'']\<rparr>"

lemma round_contributed:
  "round_candidate round_ticket round_id round_id round_accounting tensors_ref [''w''] = Inr round_contribution"
  unfolding round_candidate_def init_candidate_Inr candidate_counters_Inr
  by (simp add: round_contribution_def round_ticket_def round_ref_def round_accounting_def round_texts tensors_ref_parts round_names)

definition completion_text :: "string \<Rightarrow> string" where
  "completion_text worker = dumps_sorted (JObj (completion_to_dict (round_completion worker)))"

definition contribution_text :: string where
  "contribution_text = dumps_sorted (JObj (candidate_to_dict round_contribution))"

lemma round_document_bytes:
  "canonical_json_bytes (JObj (completion_to_dict (round_completion worker))) = Inr (completion_text worker)"
  "canonical_json_bytes (JObj (candidate_to_dict round_contribution)) = Inr contribution_text"
  using tensors_ref_parts(2)
  by (simp_all add: canonical_json_bytes_def completion_text_def contribution_text_def completion_to_dict_def candidate_to_dict_def Let_def
      round_completion_def round_contribution_def local_delta_to_dict_def round_delta_def numerical_summary_to_dict_def
      resource_summary_to_dict_def text_or_null_def)

definition schema_ref :: artifact_ref where
  "schema_ref = published_ref objects_locator schema_text SCHEMA_MEDIA_TYPE ''SCHEMA-PARAMETER-SCHEMA-V1''"

definition completion_ref :: "string \<Rightarrow> artifact_ref" where
  "completion_ref worker = published_ref (completion_locator round_ticket) (completion_text worker) COMPLETION_MEDIA_TYPE
     ''SCHEMA-LOCAL-ROUND-COMPLETION-V1''"

definition candidate_ref :: artifact_ref where
  "candidate_ref = published_ref (candidate_locator round_ticket) contribution_text CANDIDATE_MEDIA_TYPE
     ''SCHEMA-NORMALIZED-CONTRIBUTION-CANDIDATE-V1''"

definition round_published :: "string \<Rightarrow> published_round" where
  "round_published worker = \<lparr>pl_parameter_schema_ref = schema_ref, pl_local_delta_ref = tensors_ref, pl_completion_ref = completion_ref worker,
     pl_normalized_delta_ref = tensors_ref, pl_candidate_ref = candidate_ref, pl_completion = round_completion worker,
     pl_candidate = round_contribution\<rparr>"

lemma distinct_locators: "objects_locator \<noteq> completion_locator round_ticket" "objects_locator \<noteq> candidate_locator round_ticket"
  "completion_locator round_ticket \<noteq> candidate_locator round_ticket"
  by code_simp+

lemmas round_stored = publish_bytes_stored publish_at_stored round_readable round_media_types round_texts round_locators distinct_locators distinct_locators [symmetric]

definition finished_disk :: "string \<Rightarrow> disk" where
  "finished_disk worker = round_disk [(objects_locator, schema_text), (completion_locator round_ticket, completion_text worker),
     (candidate_locator round_ticket, contribution_text)]"

lemma stored_round_disk:
  "stored locator content (round_disk artifacts) =
     round_disk (if map_of artifacts locator = Some content then artifacts else artifacts @ [(locator, content)])"
  by (simp add: stored_def round_disk_def)

lemma round_disk_artifacts [simp]: "dk_artifacts (round_disk artifacts) = artifacts"
  by (simp add: round_disk_def)

lemma round_publications:
  "publish_json (\<lambda>_. round_digest) (JObj (parameter_schema_to_dict round_schema)) SCHEMA_MEDIA_TYPE ''SCHEMA-PARAMETER-SCHEMA-V1'' (round_disk [])
     = (Inr schema_ref, round_disk [(objects_locator, schema_text)])"
  "publish_tensors (\<lambda>_. round_digest) round_ops schema_text (round_disk [(objects_locator, schema_text)])
     = (Inr tensors_ref, round_disk [(objects_locator, schema_text)])"
  "publish_document (\<lambda>_. round_digest) (completion_locator round_ticket) (completion_to_dict (round_completion worker)) COMPLETION_MEDIA_TYPE
     ''SCHEMA-LOCAL-ROUND-COMPLETION-V1'' (round_disk [(objects_locator, schema_text)])
     = (Inr (completion_ref worker), round_disk [(objects_locator, schema_text), (completion_locator round_ticket, completion_text worker)])"
  "publish_document (\<lambda>_. round_digest) (candidate_locator round_ticket) (candidate_to_dict round_contribution) CANDIDATE_MEDIA_TYPE
     ''SCHEMA-NORMALIZED-CONTRIBUTION-CANDIDATE-V1''
     (round_disk [(objects_locator, schema_text), (completion_locator round_ticket, completion_text worker)])
     = (Inr candidate_ref, finished_disk worker)"
  by (simp_all add: publish_json_def publish_tensors_def publish_document_def bindD_def pureD_def round_bytes round_document_bytes
      round_stored stored_round_disk schema_ref_def tensors_ref_def completion_ref_def candidate_ref_def finished_disk_def round_ops_def)

lemma round_success:
  assumes "IDENTIFIER worker"
  shows "publish_success (round_env worker cancelled loads) round_ops round_ticket round_schema limits round_accounting schema_text schema_text 0
    (round_disk []) = (Inr (round_published worker), finished_disk worker)"
proof -
  have fp: "completion_fingerprint (\<lambda>_. round_digest) (round_completion worker) = Inr round_id"
    by (simp add: completion_fingerprint_def document_fingerprint_def round_document_bytes sha256_content_id_def round_id_def)
  have parts: "en_sha (round_env worker cancelled loads) = (\<lambda>_. round_digest)" "en_worker_id (round_env worker cancelled loads) = worker"
    "after_stage (round_env worker cancelled loads) stage d = (Inr (), d)"
    "to_validate round_ops round_schema l x = Inr (''00000000'', ''0000000000000000'')"
    "ta_effective_steps round_accounting = 1" "ta_pending_micro_steps round_accounting = 0" "wt_step_budget round_ticket = 1"
    "ar_content_id schema_ref = round_id" "wt_parameter_schema_id round_ticket = round_id" "ar_content_id (completion_ref worker) = round_id"
    for stage d l x
    by (simp_all add: round_env_def after_stage_def round_ops_def round_accounting_def round_ticket_def schema_ref_def completion_ref_def
        published_ref_def)
  show ?thesis
    by (simp add: publish_success_def bindD_def pureD_def parts round_publications round_completed [OF assms] fp round_contributed round_names
        round_published_def)
qed

lemma finished_reads:
  "store_read (\<lambda>_. round_digest) (finished_disk worker) schema_ref = Inr schema_text"
  "store_read (\<lambda>_. round_digest) (finished_disk worker) tensors_ref = Inr schema_text"
  "store_read (\<lambda>_. round_digest) (finished_disk worker) (completion_ref worker) = Inr (completion_text worker)"
  "store_read (\<lambda>_. round_digest) (finished_disk worker) candidate_ref = Inr contribution_text"
  unfolding store_read_Inr
  by (simp_all add: finished_disk_def schema_ref_def tensors_ref_def completion_ref_def candidate_ref_def published_ref_def round_stored
      sha256_content_id_def round_id_def)

lemma round_verified:
  "verify_success (\<lambda>_. round_digest) round_ops round_ticket round_schema limits (round_published worker) (finished_disk worker) = Inr ()"
proof -
  have load: "load_canonical_tensor_artifact (\<lambda>_. round_digest) round_ops (finished_disk worker) tensors_ref round_schema = Inr schema_text"
    by (simp add: load_canonical_tensor_artifact_def tensors_ref_parts finished_reads round_ops_def round_names mapErr_def)
  have fp: "completion_fingerprint (\<lambda>_. round_digest) (round_completion worker) = Inr round_id"
    by (simp add: completion_fingerprint_def document_fingerprint_def round_document_bytes sha256_content_id_def round_id_def)
  have lineage: "round_lineage_matches round_id round_id round_ticket (round_published worker)"
    by (simp add: round_lineage_matches_def Let_def round_published_def round_completion_def round_contribution_def round_ids_def round_delta_def
        round_ticket_def round_ref_def schema_ref_def published_ref_def)
  have normal: "normalize_local_delta round_ops round_schema limits 1 1 schema_text = Inr schema_text"
    by (simp add: normalize_local_delta_def require_complete_steps_def round_ops_def)
  have steps: "cd_effective_steps round_contribution = 1" "cd_step_budget round_contribution = 1" "to_equal round_ops schema_text schema_text"
    "to_validate round_ops round_schema l x = Inr (''00000000'', ''0000000000000000'')" for l x
    by (simp_all add: round_contribution_def round_ops_def)
  have parts: "pl_parameter_schema_ref (round_published worker) = schema_ref" "pl_local_delta_ref (round_published worker) = tensors_ref"
    "pl_completion_ref (round_published worker) = completion_ref worker" "pl_normalized_delta_ref (round_published worker) = tensors_ref"
    "pl_candidate_ref (round_published worker) = candidate_ref" "pl_completion (round_published worker) = round_completion worker"
    "pl_candidate (round_published worker) = round_contribution"
    by (simp_all add: round_published_def)
  show ?thesis
    unfolding verify_success_Inr using lineage
    by (simp add: parts finished_reads round_bytes round_document_bytes load steps fp normal)
qed

lemma round_done:
  assumes "IDENTIFIER worker"
  shows "\<exists>r. round_body (round_env worker False loads) round_ops round_resolved
      (start_state (round_env worker False loads) round_ticket fresh_ledger (round_disk []))
    = (Inr (round_published worker), r) \<and> rd_disk r = finished_disk worker"
proof -
  let ?env = "round_env worker False loads"
  obtain r where r: "train_round ?env round_ops round_resolved (start_state ?env round_ticket fresh_ledger (round_disk []))
      = (Inr ((), round_accounting), r)" "rd_disk r = round_disk []" "te_state (rd_telemetry r) = RUNNING"
    using round_trained by blast
  obtain t where t: "move_to COMPLETED (rd_telemetry r) = Inr t" using r(3) by (auto simp: move_to_def transition_def)
  have parts: "rl_ticket round_resolved = round_ticket" "rl_parameter_schema round_resolved = round_schema"
    "to_delta round_ops = (\<lambda>_ _ _. Inr schema_text)" "en_inject ?env = (\<lambda>_ _. Inr ())" "wall_time ?env = 0"
    "ta_effective_steps round_accounting = 1" "wt_step_budget round_ticket = 1" "en_others ?env = (\<lambda>_ d. d)" "en_sha ?env = (\<lambda>_. round_digest)"
    by (simp_all add: round_resolved_def round_ops_def round_env_def wall_time_def round_accounting_def round_ticket_def)
  have normal: "normalize_local_delta round_ops round_schema (rl_limits round_resolved) 1 1 schema_text = Inr schema_text"
    by (simp add: normalize_local_delta_def require_complete_steps_def round_ops_def)
  have "\<exists>r2. publish_round ?env round_ops round_resolved () round_accounting r = (Inr (round_published worker), r2) \<and>
      rd_disk r2 = finished_disk worker \<and> rd_telemetry r2 = rd_telemetry r"
    by (simp add: publish_round_def Let_def bindR_def pureR_def on_disk_def parts normal round_success [OF assms] round_verified r(2))
  then show ?thesis using r(1) t by (auto simp: round_body_def bindR_def pureR_def on_telemetry_def)
qed

lemma float_free_telemetry: "float_free (telemetry_to_dict tel)"
  by (simp add: telemetry_to_dict_def event_to_dict_def metric_to_dict_def list_all_iff)

lemma round_outcome:
  assumes "float_free (JObj (engine_result_to_dict result))" and "dk_claims d = [(''t1'', round_claim)]" and "dk_outcomes d = []"
  shows "\<exists>d'. record_outcome (round_env worker cancelled loads) round_ticket result d = (Inr result, d')"
proof -
  have bytes: "canonical_json_bytes (JObj (engine_result_to_dict result)) = Inr (dumps_sorted (JObj (engine_result_to_dict result)))"
    using assms(1) unfolding canonical_json_bytes_def by presburger
  have "en_others (round_env worker cancelled loads) = (\<lambda>_ d. d)" "wt_ticket_id round_ticket = ''t1''"
    by (simp_all add: round_env_def round_ticket_def)
  then show ?thesis
    by (simp add: record_outcome_def complete_def bindD_def pureD_def create_once_def assms(2,3) bytes)
qed

lemma round_claims: "dk_claims (round_disk artifacts) = [(''t1'', round_claim)]" "dk_outcomes (round_disk artifacts) = []"
  by (simp_all add: round_disk_def)

lemma float_free_published: "float_free (JObj (engine_result_to_dict (Published (round_published worker) tel)))"
  using float_free_telemetry [of tel]
  by (simp add: published_round_to_dict_def round_published_def artifact_ref_to_dict_def schema_ref_def tensors_ref_def completion_ref_def
      candidate_ref_def published_ref_def SCHEMA_MEDIA_TYPE_def COMPLETION_MEDIA_TYPE_def CANDIDATE_MEDIA_TYPE_def)

lemma run_on_empty:
  assumes "round_body (round_env worker cancelled loads) round_ops round_resolved
      (start_state (round_env worker cancelled loads) round_ticket fresh_ledger (round_disk [])) = (res, r)"
  shows "run (round_env worker cancelled loads) round_ops round_resolved empty_disk
    = conclude_round (round_env worker cancelled loads) round_resolved (res, r)"
proof -
  have parts: "rl_ticket round_resolved = round_ticket" "wt_data_range round_ticket = \<lparr>dr_start = 0, dr_end = 1\<rparr>"
    by (simp_all add: round_resolved_def round_ticket_def)
  have "claim (en_sha (round_env worker cancelled loads)) (en_loads (round_env worker cancelled loads))
      (en_recover_incomplete (round_env worker cancelled loads)) round_ticket empty_disk = (Inr CLAIMED, round_disk [])"
    using round_claimed by (simp add: round_env_def)
  then show ?thesis
    using assms unfolding run_def bindD_def run_claimed_def Let_def parts start_state_def [symmetric]
    by (simp add: fresh_ledger_init)
qed

lemma round_returns:
  assumes "IDENTIFIER worker"
  shows "\<exists>tel d. run (round_env worker False loads) round_ops round_resolved empty_disk = (Inr (Published (round_published worker) tel), d)"
proof -
  obtain r where r: "round_body (round_env worker False loads) round_ops round_resolved
      (start_state (round_env worker False loads) round_ticket fresh_ledger (round_disk [])) = (Inr (round_published worker), r)"
    "rd_disk r = finished_disk worker"
    using round_done [OF assms] by blast
  have "rl_ticket round_resolved = round_ticket" by (simp add: round_resolved_def)
  then show ?thesis
    using round_outcome [OF float_free_published, of "finished_disk worker" worker False loads worker "rd_telemetry r"] r(2)
    by (auto simp: run_on_empty [OF r(1)] conclude_round_def finished_disk_def round_claims)
qed

section \<open>A cancelled round\<close>

definition no_accounting :: token_accounting where
  "no_accounting = \<lparr>ta_effective_steps = 0, ta_observed_micro_steps = 0, ta_committed_micro_steps = 0, ta_processed_tokens = 0,
     ta_cursor_start = 0, ta_cursor_end = 0, ta_pending_micro_steps = 0\<rparr>"

definition round_cancelled :: "string \<Rightarrow> completion" where
  "round_cancelled worker = \<lparr>cp_ids = round_ids worker, cp_counts = round_counts no_accounting, cp_status = STATUS_CANCELLED,
     cp_reason = REASON_CANCELLED, cp_candidate_eligible = False, cp_local_delta = None, cp_failure_code = Some ''WORKER_CANCELLED'',
     cp_numerical_summary = \<lparr>ns_all_finite = False, ns_max_abs_fp32_bits = None, ns_global_l2_norm_fp64_bits = None\<rparr>,
     cp_resource_summary = \<lparr>rs_peak_memory_bytes = 0, rs_wall_time_ms = 0\<rparr>, cp_producer_version = ''deltatorrent-worker-0.1.0''\<rparr>"

lemma round_cancelled_completion:
  assumes "IDENTIFIER worker"
  shows "failure_completion round_ticket round_id worker no_accounting STATUS_CANCELLED REASON_CANCELLED ''WORKER_CANCELLED'' 0
    = Inr (round_cancelled worker)"
proof -
  have "init_completion (completion_arguments round_ticket round_id worker no_accounting False (Some ''WORKER_CANCELLED''))
      STATUS_CANCELLED REASON_CANCELLED None (cp_numerical_summary (round_cancelled worker)) (cp_resource_summary (round_cancelled worker))
      = Inr (round_cancelled worker)"
    unfolding init_completion_Inr
    using round_arguments [OF assms, of no_accounting False "Some ''WORKER_CANCELLED''"]
    by (simp add: round_cancelled_def no_accounting_def completion_arguments_def completion_complete_def text_or_null_def round_texts)
  then show ?thesis
    unfolding failure_completion_def
    by (simp add: init_numerical_summary_def init_resource_summary_def bits_or_none_def round_cancelled_def counter_def non_negative_int_def)
qed

definition cancelled_text :: "string \<Rightarrow> string" where
  "cancelled_text worker = dumps_sorted (JObj (completion_to_dict (round_cancelled worker)))"

definition cancelled_failure :: "string \<Rightarrow> published_failure" where
  "cancelled_failure worker = \<lparr>pf_parameter_schema_ref = schema_ref,
     pf_completion_ref = published_ref (completion_locator round_ticket) (cancelled_text worker) COMPLETION_MEDIA_TYPE
       ''SCHEMA-LOCAL-ROUND-COMPLETION-V1'',
     pf_completion = round_cancelled worker\<rparr>"

definition cancelled_disk :: "string \<Rightarrow> disk" where
  "cancelled_disk worker = round_disk [(objects_locator, schema_text), (completion_locator round_ticket, cancelled_text worker)]"

lemma cancelled_bytes:
  "canonical_json_bytes (JObj (completion_to_dict (round_cancelled worker))) = Inr (cancelled_text worker)"
  by (simp add: canonical_json_bytes_def cancelled_text_def completion_to_dict_def Let_def round_cancelled_def
      numerical_summary_to_dict_def resource_summary_to_dict_def text_or_null_def)

lemma cancelled_failure_published:
  assumes "IDENTIFIER worker"
  shows "publish_failure (round_env worker cancelled loads) round_ticket round_schema no_accounting STATUS_CANCELLED REASON_CANCELLED
    ''WORKER_CANCELLED'' 0 (round_disk []) = (Inr (cancelled_failure worker), cancelled_disk worker)"
proof -
  have "en_sha (round_env worker cancelled loads) = (\<lambda>_. round_digest)" "en_worker_id (round_env worker cancelled loads) = worker"
    by (simp_all add: round_env_def)
  moreover have "publish_document (\<lambda>_. round_digest) (completion_locator round_ticket) (completion_to_dict (round_cancelled worker))
      COMPLETION_MEDIA_TYPE ''SCHEMA-LOCAL-ROUND-COMPLETION-V1'' (round_disk [(objects_locator, schema_text)])
    = (Inr (pf_completion_ref (cancelled_failure worker)), cancelled_disk worker)"
    by (simp add: publish_document_def bindD_def pureD_def cancelled_bytes round_stored stored_round_disk cancelled_failure_def cancelled_disk_def)
  ultimately show ?thesis
    by (simp add: publish_failure_def bindD_def pureD_def round_publications round_cancelled_completion [OF assms], simp add: cancelled_failure_def)
qed

lemma round_stopped:
  "\<exists>r. round_body (round_env worker True loads) round_ops round_resolved
      (start_state (round_env worker True loads) round_ticket fresh_ledger (round_disk []))
    = (Inl WorkerCancellationRequested, r) \<and> rd_disk r = round_disk [] \<and> te_state (rd_telemetry r) = RUNNING \<and>
      rd_ledger r = fresh_ledger \<and> rd_wall_time_ms r = None"
proof -
  let ?env = "round_env worker True loads"
  obtain t1 where t1: "move_to ACCEPTED (init_telemetry ''t1'' ''d1'') = Inr t1" by (auto simp: move_to_def transition_def)
  obtain t2 where t2: "move_to RUNNING t1 = Inr t2" using move_to_Inr [OF t1] by (auto simp: move_to_def transition_def)
  have step: "\<exists>st'. train_one_optimizer_step (en_sha ?env) (to_trainer round_ops round_config) (check_boundary ?env round_ticket)
     round_config samples st fresh_ledger = (Inl WorkerCancellationRequested, st', fresh_ledger)"
    if "ts_optimizer_step st = 0" "ts_micro_step st = 0" for samples st
    using that by (simp add: train_one_optimizer_step_def train_microbatch_def check_boundary_def roll_back_def discard_partial_accumulation_def
      accounting_snapshot_def check_token_accounting_def clear_pending_def Let_def round_evaluation ensure_def)
  have parts: "rl_ticket round_resolved = round_ticket" "rl_config round_resolved = round_config" "wt_step_budget round_ticket = 1"
    "wt_ticket_id round_ticket = ''t1''" "wt_domain_id round_ticket = ''d1''" "en_inject ?env = (\<lambda>_ _. Inr ())"
    by (simp_all add: round_resolved_def round_ticket_def round_env_def)
  obtain st where st: "start_training ?env round_ops round_resolved = Inr st" "ts_optimizer_step st = 0" "ts_micro_step st = 0"
    by (simp add: start_training_def Let_def init_sampler_def round_resolved_def round_ticket_def round_ops_def)
  obtain st' where step': "train_one_optimizer_step (en_sha ?env) (to_trainer round_ops round_config) (check_boundary ?env round_ticket)
     round_config (rl_samples round_resolved) st fresh_ledger = (Inl WorkerCancellationRequested, st', fresh_ledger)"
    using step [OF st(2,3)] by blast
  have "te_state t2 = RUNNING" using move_to_Inr [OF t2] by simp
  then show ?thesis
    by (simp add: round_body_def train_round_def bindR_def pureR_def on_telemetry_def start_state_parts parts t1 t2 st(1) step',
        simp add: start_state_def round_env_def)
qed

lemma round_cancels:
  assumes "IDENTIFIER worker"
  shows "\<exists>tel d. run (round_env worker True loads) round_ops round_resolved empty_disk
    = (Inr (PublishedFailed (cancelled_failure worker) tel), d)"
proof -
  let ?env = "round_env worker True loads"
  obtain r where r: "round_body ?env round_ops round_resolved (start_state ?env round_ticket fresh_ledger (round_disk []))
      = (Inl WorkerCancellationRequested, r)" "rd_disk r = round_disk []" "te_state (rd_telemetry r) = RUNNING"
      "rd_ledger r = fresh_ledger" "rd_wall_time_ms r = None"
    using round_stopped by blast
  obtain t where t: "move_to CANCELLED (rd_telemetry r) = Inr t" using r(3) by (auto simp: move_to_def transition_def)
  have parts: "rl_ticket round_resolved = round_ticket" "rl_parameter_schema round_resolved = round_schema" "wall_time ?env = 0"
    by (simp_all add: round_resolved_def round_env_def wall_time_def)
  have snap: "accounting_snapshot fresh_ledger = Inr no_accounting"
    by (simp add: accounting_snapshot_def check_token_accounting_def fresh_ledger_def no_accounting_def)
  have handled: "handle_failure ?env round_resolved WorkerCancellationRequested r
      = (Inr (cancelled_failure worker, t), r\<lparr>rd_telemetry := t, rd_disk := cancelled_disk worker\<rparr>)"
    by (simp add: handle_failure_def classify_failure_def bindR_def pureR_def on_telemetry_def on_disk_def r t snap parts
        cancelled_failure_published [OF assms])
  have "float_free (JObj (engine_result_to_dict (PublishedFailed (cancelled_failure worker) t)))"
    using float_free_telemetry [of t]
    by (simp add: published_failure_to_dict_def cancelled_failure_def artifact_ref_to_dict_def schema_ref_def published_ref_def
        SCHEMA_MEDIA_TYPE_def COMPLETION_MEDIA_TYPE_def)
  from round_outcome [OF this, of "cancelled_disk worker" worker True loads] show ?thesis
    by (auto simp: run_on_empty [OF r(1)] conclude_round_def handled parts cancelled_disk_def round_claims)
qed

section \<open>The documents of the round\<close>

lemma sample_references:
  "artifact_ref_from_dict (artifact_ref_to_dict round_ref) = Inr round_ref"
  "init_artifact_ref (artifact_ref_to_dict tensors_ref) = Inr tensors_ref"
proof -
  have "init_artifact_ref (artifact_ref_to_dict round_ref) = Inr round_ref" "init_artifact_ref (artifact_ref_to_dict tensors_ref) = Inr tensors_ref"
    unfolding init_artifact_ref_Inr
    by (simp_all add: artifact_ref_to_dict_def round_ref_def tensors_ref_def published_ref_def round_texts round_media_types round_locators)
  then show "artifact_ref_from_dict (artifact_ref_to_dict round_ref) = Inr round_ref"
    "init_artifact_ref (artifact_ref_to_dict tensors_ref) = Inr tensors_ref"
    using artifact_ref_round_trip by blast+
qed

lemma sample_documents:
  "ticket_from_dict (ticket_to_dict round_ticket) = Inr round_ticket"
  "parameter_schema_from_dict (parameter_schema_to_dict round_schema) = Inr round_schema"
  "completion_from_dict (completion_to_dict (round_completion ''w1'')) = Inr (round_completion ''w1'')"
  "candidate_from_dict (candidate_to_dict round_contribution) = Inr round_contribution"
proof -
  have "ticket_ok round_ticket" using sample_references(1) by (simp add: ticket_ok_def round_ticket_def round_texts)
  then show "ticket_from_dict (ticket_to_dict round_ticket) = Inr round_ticket" by (rule ticket_dict_round_trip)
  have "schema_ok round_schema" by (simp add: schema_ok_def spec_ok_def round_schema_def round_texts)
  then show "parameter_schema_from_dict (parameter_schema_to_dict round_schema) = Inr round_schema" by (rule parameter_schema_round_trip)
  obtain kw1 delta kw2 numerical kw3 resource kw4 where "init_local_delta kw1 tensors_ref [JStr ''w''] = Inr delta"
    "init_numerical_summary kw2 = Inr numerical" "init_resource_summary kw3 = Inr resource"
    "init_completion kw4 STATUS_COMPLETED EXACT_H (Some delta) numerical resource = Inr (round_completion ''w1'')"
    using round_completed [OF round_texts(3)] unfolding success_completion_def by (auto simp: bindE_eq_Inr)
  then have "completion_ok (round_completion ''w1'')"
    using completion_okI init_local_delta_ok [OF _ sample_references(2)] by simp
  then show "completion_from_dict (completion_to_dict (round_completion ''w1'')) = Inr (round_completion ''w1'')"
    by (rule completion_dict_round_trip)
  show "candidate_from_dict (candidate_to_dict round_contribution) = Inr round_contribution"
    using round_contributed candidate_dict_round_trip [OF _ sample_references(2)] unfolding round_candidate_def by blast
qed

end
