(* ===== verification/Local_Theorems.thy ===== *)
theory Local_Theorems
  imports Local_Samples
begin

text \<open>The properties of an offline round, from the sampler to the recorded outcome.\<close>

text \<open>
  C11: A round that is published as completed has taken exactly the optimizer steps of its ticket, consumed its
  data range to the end and gone through the states \<open>RECEIVED\<close>, \<open>ACCEPTED\<close>, \<open>RUNNING\<close>,
  \<open>COMPLETED\<close> with one metric per step; and its documents and tensors pass \<open>verify_success\<close> not only when
  the run ends but on every later state of the disk, whatever other processes do.
\<close>

theorem published_round_verified:
  assumes "others_ok env" and "positive_round resolved" and "run env ops resolved d = (Inr (Published p tel), d')"
    and "(disk_step (en_sha env))\<^sup>*\<^sup>* d' later"
  shows "verify_success (en_sha env) ops (rl_ticket resolved) (rl_parameter_schema resolved) (rl_limits resolved) p later = Inr () \<and>
    cp_status (pl_completion p) = STATUS_COMPLETED \<and>
    cc_effective_steps (cp_counts (pl_completion p)) = wt_step_budget (rl_ticket resolved) \<and>
    cc_cursor_end (cp_counts (pl_completion p)) = dr_end (wt_data_range (rl_ticket resolved)) \<and>
    ci_worker_id (cp_ids (pl_completion p)) = en_worker_id env \<and>
    map le_state (te_events tel) = [RECEIVED, ACCEPTED, RUNNING, COMPLETED] \<and>
    int (length (te_metrics tel)) = wt_step_budget (rl_ticket resolved)"
proof -
  from assms(1-3) obtain fp a where "completion_of (rl_ticket resolved) fp (en_worker_id env) a (pl_completion p)"
    "completion_complete (pl_completion p)" "ta_effective_steps a = wt_step_budget (rl_ticket resolved)"
    "ta_cursor_end a = dr_end (wt_data_range (rl_ticket resolved))" "verified env ops resolved p d'"
    "event_states tel = [RECEIVED, ACCEPTED, RUNNING, COMPLETED]"
    "length (te_metrics tel) = nat (wt_step_budget (rl_ticket resolved))"
    by (rule run_published)
  then show ?thesis
    using verify_success_steps [OF assms(4)] assms(2)
    by (simp add: verified_def completion_of_def completion_complete_def event_states_def positive_round_def)
qed

theorem published_round_verified_witness:
  "\<exists>p tel d'. run (round_env ''w1'' False (\<lambda>_. None)) round_ops round_resolved empty_disk = (Inr (Published p tel), d') \<and>
     verify_success (en_sha (round_env ''w1'' False (\<lambda>_. None))) round_ops (rl_ticket round_resolved) (rl_parameter_schema round_resolved)
       (rl_limits round_resolved) p d' = Inr () \<and>
     cc_effective_steps (cp_counts (pl_completion p)) = wt_step_budget (rl_ticket round_resolved)"
proof -
  obtain tel d' where r: "run (round_env ''w1'' False (\<lambda>_. None)) round_ops round_resolved empty_disk
      = (Inr (Published (round_published ''w1'') tel), d')"
    using round_returns [OF round_texts(3)] by blast
  from published_round_verified [OF round_env_alone(1) round_positive r rtranclp.rtrancl_refl] r show ?thesis by blast
qed

text \<open>
  C12: A round that ends in a recorded failure publishes a completion that is not eligible, carries no delta and
  counts at most the steps of the ticket; its telemetry ends in the state of the completion, and the disk has no
  candidate for the ticket, if every candidate that was there before had a completed round and other processes
  keep it that way.
\<close>

theorem failed_round_has_no_candidate:
  assumes "others_last env" and "candidates_last d" and "positive_round resolved"
    and "run env ops resolved d = (Inr (PublishedFailed f tel), d')"
  shows "disk_content d' (Artifact (candidate_locator (rl_ticket resolved))) = None \<and> candidates_last d' \<and>
    \<not> cp_candidate_eligible (pf_completion f) \<and> cp_local_delta (pf_completion f) = None \<and>
    0 \<le> cc_effective_steps (cp_counts (pf_completion f)) \<and>
    cc_effective_steps (cp_counts (pf_completion f)) \<le> wt_step_budget (rl_ticket resolved) \<and>
    le_state (last (te_events tel)) = (if cp_status (pf_completion f) = STATUS_CANCELLED then CANCELLED else FAILED)"
proof -
  have ok: "others_ok env" using assms(1) by (simp add: others_last_def)
  from ok assms(3,4) obtain fp a bytes before where "completion_of (rl_ticket resolved) fp (en_worker_id env) a (pf_completion f)"
    "\<not> completion_complete (pf_completion f)" "\<not> cp_candidate_eligible (pf_completion f)" "cp_local_delta (pf_completion f) = None"
    and status: "cp_status (pf_completion f) = STATUS_CANCELLED \<or> cp_status (pf_completion f) = STATUS_FAILED"
    and "0 \<le> ta_effective_steps a" "ta_effective_steps a \<le> wt_step_budget (rl_ticket resolved)"
    and bytes: "canonical_json_bytes (JObj (completion_to_dict (pf_completion f))) = Inr bytes"
    and read: "store_read (en_sha env) d' (pf_completion_ref f) = Inr bytes"
      "ar_locator (pf_completion_ref f) = completion_locator (rl_ticket resolved)"
    and states: "event_states tel = before @ [if cp_status (pf_completion f) = STATUS_CANCELLED then CANCELLED else FAILED]"
    by (rule run_failed)
  moreover have "candidates_last d'"
    using last.run_guaranteed [of env d ops resolved] assms(1,2,4) by simp
  moreover have "le_state (last (te_events tel)) = (if cp_status (pf_completion f) = STATUS_CANCELLED then CANCELLED else FAILED)"
  proof -
    have "te_events tel \<noteq> []" using states by (auto simp: event_states_def)
    then have "le_state (last (te_events tel)) = last (event_states tel)" by (simp add: event_states_def last_map)
    then show ?thesis by (simp add: states)
  qed
  moreover have "disk_content d' (Artifact (candidate_locator (rl_ticket resolved))) = None"
    using failed_not_completed [OF _ _ bytes] calculation read status by (auto simp: store_read_Inr)
  ultimately show ?thesis by (simp add: completion_of_def)
qed

theorem failed_round_has_no_candidate_witness:
  "\<exists>f tel d'. run (round_env ''w1'' True (\<lambda>_. None)) round_ops round_resolved empty_disk = (Inr (PublishedFailed f tel), d') \<and>
     disk_content d' (Artifact (candidate_locator (rl_ticket round_resolved))) = None \<and> \<not> cp_candidate_eligible (pf_completion f)"
proof -
  obtain tel d' where r: "run (round_env ''w1'' True (\<lambda>_. None)) round_ops round_resolved empty_disk
      = (Inr (PublishedFailed (cancelled_failure ''w1'') tel), d')"
    using round_cancels [OF round_texts(3)] by blast
  have "candidates_last empty_disk" by (simp add: candidates_last_def empty_disk_def)
  from failed_round_has_no_candidate [OF round_env_alone(2) this round_positive r] r show ?thesis by blast
qed

text \<open>
  C14: Every run, whichever way it ends, is a sequence of atomic steps of the shared disk: no file that was there
  before is changed or removed, and the invariant of the disk is kept.
\<close>

theorem run_refines_disk:
  assumes "others_ok env" and "run env ops resolved d = (res, d')"
  shows "(disk_step (en_sha env))\<^sup>*\<^sup>* d d' \<and> (disk_inv d \<longrightarrow> disk_inv d') \<and>
    (\<forall>f content. disk_content d f = Some content \<longrightarrow> disk_content d' f = Some content)"
proof -
  have steps: "(disk_step (en_sha env))\<^sup>*\<^sup>* d d'" using run_steps_of_disk [OF assms] .
  then have "disk_inv d \<longrightarrow> disk_inv d'"
    by (induction rule: rtranclp_induct) (auto intro: disk_step_inv)
  with steps show ?thesis using disk_steps_content by blast
qed

theorem run_refines_disk_witness:
  "\<exists>p tel d'. run (round_env ''w1'' False (\<lambda>_. None)) round_ops round_resolved empty_disk = (Inr (Published p tel), d') \<and>
     (disk_step (en_sha (round_env ''w1'' False (\<lambda>_. None))))\<^sup>*\<^sup>* empty_disk d' \<and> disk_inv d'"
proof -
  obtain tel d' where r: "run (round_env ''w1'' False (\<lambda>_. None)) round_ops round_resolved empty_disk
      = (Inr (Published (round_published ''w1'') tel), d')"
    using round_returns [OF round_texts(3)] by blast
  from run_refines_disk [OF round_env_alone(1) r] r disk_inv_empty show ?thesis by blast
qed

text \<open>
  C13: Once a run has returned a result of its own, every later run on the same ticket, by any worker with any
  environment and any resolution, answers with the recorded document and does not touch the disk, if \<open>json.loads\<close>
  reads back what was recorded.
\<close>

theorem replay_returns_recorded:
  assumes "others_ok env" and "run env ops resolved d = (Inr result, d')" and "\<nexists>outcome. result = Replayed outcome"
    and "(disk_step (en_sha env))\<^sup>*\<^sup>* d' later" and "en_sha env' = en_sha env" and "rl_ticket resolved' = rl_ticket resolved"
    and "en_loads env' (dumps_sorted (JObj (engine_result_to_dict result))) = Some (sort_keys (JObj (engine_result_to_dict result)))"
  shows "\<exists>outcome. JObj outcome = sort_keys (JObj (engine_result_to_dict result)) \<and>
    run env' ops' resolved' later = (Inr (Replayed outcome), later)"
proof -
  obtain claimed encoded where c: "claim_bytes (en_sha env) (rl_ticket resolved) = Inr claimed"
      "disk_content d' (Claim (wt_ticket_id (rl_ticket resolved))) = Some claimed"
    and o: "canonical_json_bytes (JObj (engine_result_to_dict result)) = Inr encoded"
      "disk_content d' (Outcome (wt_ticket_id (rl_ticket resolved))) = Some encoded"
    using run_recorded [OF assms(1-3)] by blast
  obtain outcome where outcome: "sort_keys (JObj (engine_result_to_dict result)) = JObj outcome" by simp
  have "en_loads env' encoded = Some (JObj outcome)"
    using o(1) assms(7) outcome by (simp add: canonical_json_bytes_def split: if_splits)
  then have "claim (en_sha env') (en_loads env') (en_recover_incomplete env') (rl_ticket resolved') later = (Inr (REPLAY outcome), later)"
    using claim_replays [OF c(1) disk_steps_content [OF assms(4) c(2)] disk_steps_content [OF assms(4) o(2)]] assms(5,6) by simp
  then have "run env' ops' resolved' later = (Inr (Replayed outcome), later)" by (simp add: run_def bindD_def pureD_def)
  then show ?thesis using outcome by auto
qed

theorem replay_returns_recorded_witness:
  "\<exists>result d' outcome. run (round_env ''w1'' False (\<lambda>_. None)) round_ops round_resolved empty_disk = (Inr result, d') \<and>
     run (round_env ''w2'' True (\<lambda>_. Some (sort_keys (JObj (engine_result_to_dict result))))) round_ops round_resolved d'
       = (Inr (Replayed outcome), d')"
proof -
  obtain tel d' where r: "run (round_env ''w1'' False (\<lambda>_. None)) round_ops round_resolved empty_disk
      = (Inr (Published (round_published ''w1'') tel), d')"
    using round_returns [OF round_texts(3)] by blast
  let ?result = "Published (round_published ''w1'') tel"
  let ?env = "round_env ''w2'' True (\<lambda>_. Some (sort_keys (JObj (engine_result_to_dict ?result))))"
  have env: "en_sha ?env = en_sha (round_env ''w1'' False (\<lambda>_. None))"
    "en_loads ?env (dumps_sorted (JObj (engine_result_to_dict ?result))) = Some (sort_keys (JObj (engine_result_to_dict ?result)))"
    by (simp_all add: round_env_def)
  from replay_returns_recorded [OF round_env_alone(1) r _ rtranclp.rtrancl_refl env(1) refl env(2), of round_ops] r
  show ?thesis by blast
qed

text \<open>
  C25: A ticket is claimed once: after a claim has succeeded, no later claim of the same ticket identifier without
  \<open>recover_incomplete\<close> succeeds, whatever happened to the disk in between.
\<close>

theorem ticket_claimed_once:
  assumes "claim sha loads recover t d = (Inr CLAIMED, d')" and "(disk_step sha)\<^sup>*\<^sup>* d' later" and "wt_ticket_id t' = wt_ticket_id t"
  shows "fst (claim sha loads' False t' later) \<noteq> Inr CLAIMED"
proof -
  obtain bytes where "disk_content d' (Claim (wt_ticket_id t)) = Some bytes" using claim_CLAIMED [OF assms(1)] by blast
  then have "map_of (dk_claims later) (wt_ticket_id t') = Some bytes"
    using disk_steps_content [OF assms(2)] assms(3) by fastforce
  then show ?thesis
    unfolding claim_def create_once_def by (auto simp: bindE_eq_Inr split: sum.splits option.splits if_splits)
qed

theorem ticket_claimed_once_witness:
  "fst (claim (\<lambda>_. round_digest) (\<lambda>_. None) False round_ticket (round_disk [])) \<noteq> Inr CLAIMED"
  using ticket_claimed_once [OF round_claimed rtranclp.rtrancl_refl refl] .

text \<open>
  C26: A ticket can be stranded. If the disk holds a completion of the ticket by another worker and no outcome, as
  after a crash between the two manifests, then every run by this worker raises, with or without
  \<open>recover_incomplete\<close>: both \<open>publish_success\<close> and \<open>publish_failure\<close> write the same immutable path, and the
  completion names the worker.
\<close>

theorem stranded_ticket:
  assumes "others_ok env" and "positive_round resolved"
    and "disk_content d (Artifact (completion_locator (rl_ticket resolved))) = Some bytes"
    and "canonical_json_bytes (JObj (completion_to_dict c)) = Inr bytes" and "ci_worker_id (cp_ids c) \<noteq> en_worker_id env"
    and "disk_content d (Outcome (wt_ticket_id (rl_ticket resolved))) = None"
  shows "\<exists>e. fst (run env ops resolved d) = Inl e"
proof (rule ccontr)
  assume "\<nexists>e. fst (run env ops resolved d) = Inl e"
  then obtain result d' where r: "run env ops resolved d = (Inr result, d')"
    by (metis old.sum.exhaust prod.collapse)
  have "\<nexists>outcome. result = Replayed outcome"
  proof
    assume "\<exists>outcome. result = Replayed outcome"
    then obtain outcome where "run env ops resolved d = (Inr (Replayed outcome), d')" using r by blast
    then show False
    proof (cases rule: runE)
      case (claimed d1)
      from claimed(2) show False
        by (cases rule: run_claimedE) (auto elim!: conclude_roundE dest: record_outcome_Inr)
    qed (use assms(6) in \<open>auto dest: claim_REPLAY\<close>)
  qed
  then obtain c' bytes' where "canonical_json_bytes (JObj (completion_to_dict c')) = Inr bytes'" "ci_worker_id (cp_ids c') = en_worker_id env"
    "disk_content d' (Artifact (completion_locator (rl_ticket resolved))) = Some bytes'"
    by (rule recorded_completion [OF assms(1,2) r])
  moreover have "disk_content d' (Artifact (completion_locator (rl_ticket resolved))) = Some bytes"
    using disk_steps_content [OF run_steps_of_disk [OF assms(1) r] assms(3)] .
  ultimately show False using same_completion_bytes(1) [OF assms(4)] assms(5) by auto
qed

theorem stranded_ticket_witness:
  "\<exists>e. fst (run ((round_env ''w1'' False (\<lambda>_. None))\<lparr>en_recover_incomplete := True\<rparr>) round_ops round_resolved
     (round_disk [(objects_locator, schema_text), (completion_locator round_ticket, completion_text ''w2'')])) = Inl e"
proof -
  let ?env = "(round_env ''w1'' False (\<lambda>_. None))\<lparr>en_recover_incomplete := True\<rparr>"
  let ?d = "round_disk [(objects_locator, schema_text), (completion_locator round_ticket, completion_text ''w2'')]"
  have t: "rl_ticket round_resolved = round_ticket" by (simp add: round_resolved_def)
  have "others_ok ?env" by (simp add: others_ok_def round_env_def)
  moreover have "disk_content ?d (Artifact (completion_locator (rl_ticket round_resolved))) = Some (completion_text ''w2'')"
    by (simp add: t distinct_locators [symmetric])
  moreover have "ci_worker_id (cp_ids (round_completion ''w2'')) \<noteq> en_worker_id ?env"
    by (simp add: round_completion_def round_ids_def round_env_def)
  moreover have "disk_content ?d (Outcome (wt_ticket_id (rl_ticket round_resolved))) = None" by (simp add: round_claims)
  ultimately show ?thesis using stranded_ticket [OF _ round_positive _ round_document_bytes(1)] by blast
qed

text \<open>
  C27: One optimizer step commits its counters as a whole or not at all: the ledger agrees with the training state
  before and after; a step that succeeds advances the ledger by one step and its micro-batches, and any
  exception leaves the sampler where it was and the ledger unchanged but for the number of micro-batches seen.
\<close>

theorem optimizer_step_atomic:
  assumes "counted config st l" and "train_one_optimizer_step sha tr before config samples st l = (res, st', l')"
    and "res \<noteq> Inl ProcessExit"
  shows "counted config st' l' \<and>
    (case res of
       Inl e \<Rightarrow> (\<exists>seen. bl_observed_micro_steps l \<le> seen \<and> l' = l\<lparr>bl_observed_micro_steps := seen\<rparr>) \<and> ts_sampler st' = ts_sampler st
     | Inr metric \<Rightarrow> bl_effective_steps l' = bl_effective_steps l + 1 \<and>
         bl_committed_micro_steps l' = bl_committed_micro_steps l + bc_gradient_accumulation_steps config \<and>
         bl_cursor_end l' = bl_cursor_end l + bc_gradient_accumulation_steps config * bc_batch_size config \<and>
         tm_processed_tokens metric = bl_processed_tokens l')"
proof -
  note facts = train_step_counted [OF assms]
  then have after: "counted config st' l'" by blast
  show ?thesis
  proof (cases res)
    case (Inl e)
    with facts show ?thesis unfolding undone_def by auto
  next
    case (Inr metric)
    with facts have step: "bl_effective_steps l' = bl_effective_steps l + 1" "bl_range_start l' = bl_range_start l"
      "tm_processed_tokens metric = bl_processed_tokens l'" by auto
    then have "bl_committed_micro_steps l' = bl_committed_micro_steps l + bc_gradient_accumulation_steps config"
      using assms(1) after by (simp add: counted_def algebra_simps)
    moreover have "bl_cursor_end l = bl_range_start l + bl_committed_micro_steps l * bc_batch_size config"
      "bl_cursor_end l' = bl_range_start l' + bl_committed_micro_steps l' * bc_batch_size config"
      using assms(1) after unfolding counted_def by blast+
    ultimately have "bl_cursor_end l' = bl_cursor_end l + bc_gradient_accumulation_steps config * bc_batch_size config"
      using step(2) by (simp add: algebra_simps)
    moreover note \<open>bl_committed_micro_steps l' = _\<close>
    ultimately show ?thesis using Inr step after by simp
  qed
qed

theorem optimizer_step_atomic_witness:
  "\<exists>metric st' l'. train_one_optimizer_step (\<lambda>_. round_digest) (to_trainer round_ops round_config)
      (check_boundary (round_env ''w1'' False (\<lambda>_. None)) round_ticket) round_config [\<lparr>sm_inputs = [1], sm_targets = [1]\<rparr>]
      \<lparr>ts_model = (), ts_sampler = \<lparr>sp_sample_count = Suc 0, sp_seed = 0, sp_cursor = 0\<rparr>, ts_micro_step = 0, ts_optimizer_step = 0,
       ts_processed_tokens = 0\<rparr> fresh_ledger = (Inr metric, st', l') \<and>
     counted round_config st' l' \<and> bl_effective_steps l' = bl_effective_steps fresh_ledger + 1"
proof -
  have start: "counted round_config \<lparr>ts_model = (), ts_sampler = \<lparr>sp_sample_count = Suc 0, sp_seed = 0, sp_cursor = 0\<rparr>, ts_micro_step = 0,
      ts_optimizer_step = 0, ts_processed_tokens = 0\<rparr> fresh_ledger"
    by (simp add: counted_def round_config_def fresh_ledger_def)
  obtain metric st l where "train_one_optimizer_step (\<lambda>_. round_digest) (to_trainer round_ops round_config)
      (check_boundary (round_env ''w1'' False (\<lambda>_. None)) round_ticket) round_config [\<lparr>sm_inputs = [1], sm_targets = [1]\<rparr>]
      \<lparr>ts_model = (), ts_sampler = \<lparr>sp_sample_count = Suc 0, sp_seed = 0, sp_cursor = 0\<rparr>, ts_micro_step = 0, ts_optimizer_step = 0,
       ts_processed_tokens = 0\<rparr> fresh_ledger = (Inr metric, st, l)"
    using round_step by blast
  with optimizer_step_atomic [OF start this] show ?thesis by auto
qed

text \<open>
  The sampler is deterministic and complete: drawing twice is drawing once as many, and the draws of a whole
  epoch are a permutation of all samples, whatever the hash function.
\<close>

theorem sampler_draws_epochs:
  assumes "0 < sp_sample_count s" and "sampler_take sha a s = Inr (xs, s1)" and "sampler_take sha b s1 = Inr (ys, s2)"
  shows "sampler_take sha (a + b) s = Inr (xs @ ys, s2) \<and>
    (sp_cursor s mod sp_sample_count s = 0 \<and> a = int (sp_sample_count s) \<longrightarrow> mset xs = mset [0..<sp_sample_count s])"
proof
  have a: "0 < a" "xs = map (index_at sha s) [sp_cursor s..<sp_cursor s + nat a]" "s1 = s\<lparr>sp_cursor := sp_cursor s + nat a\<rparr>"
    using assms(2) unfolding sampler_take_Inr by blast+
  have b: "0 < b" "ys = map (index_at sha s) [sp_cursor s1..<sp_cursor s1 + nat b]" "s2 = s1\<lparr>sp_cursor := sp_cursor s1 + nat b\<rparr>"
    using assms(3) a(3) unfolding sampler_take_Inr by simp_all
  have "[sp_cursor s..<sp_cursor s + nat (a + b)] = [sp_cursor s..<sp_cursor s + nat a] @ [sp_cursor s + nat a..<sp_cursor s + nat a + nat b]"
    using upt_add_eq_append [of "sp_cursor s" "sp_cursor s + nat a" "nat b"] a(1) b(1) by (simp add: nat_add_distrib add.assoc)
  then show "sampler_take sha (a + b) s = Inr (xs @ ys, s2)"
    unfolding sampler_take_Inr using a b by (simp add: nat_add_distrib)
  show "sp_cursor s mod sp_sample_count s = 0 \<and> a = int (sp_sample_count s) \<longrightarrow> mset xs = mset [0..<sp_sample_count s]"
  proof
    assume start: "sp_cursor s mod sp_sample_count s = 0 \<and> a = int (sp_sample_count s)"
    then obtain epoch where "sp_cursor s = epoch * sp_sample_count s" by (metis mod_0_imp_dvd dvdE mult.commute)
    with start a(2) have "xs = epoch_order sha s epoch"
      using epoch_draws [OF assms(1), of sha epoch] by (simp add: algebra_simps)
    then show "mset xs = mset [0..<sp_sample_count s]" using epoch_order_perm by simp
  qed
qed

theorem sampler_draws_epochs_witness:
  "\<exists>s2. sampler_take (\<lambda>_. round_digest) (2 + 1) \<lparr>sp_sample_count = 2, sp_seed = 7, sp_cursor = 4\<rparr> = Inr ([0, 1] @ [0], s2) \<and>
     mset [0, 1] = mset [0..<2 :: nat]"
proof -
  let ?s = "\<lparr>sp_sample_count = 2, sp_seed = 7, sp_cursor = 4\<rparr>"
  have draws: "index_at (\<lambda>_. round_digest) \<lparr>sp_sample_count = 2, sp_seed = 7, sp_cursor = c\<rparr> k = k mod 2" for c k
    by (cases "k mod 2 = 0") (simp_all add: index_at_def epoch_order_def upt_rec)
  have one: "sampler_take (\<lambda>_. round_digest) 2 ?s = Inr ([0, 1], ?s\<lparr>sp_cursor := 6\<rparr>)"
    by (simp add: sampler_take_def draws upt_rec)
  have two: "sampler_take (\<lambda>_. round_digest) 1 (?s\<lparr>sp_cursor := 6\<rparr>) = Inr ([0], ?s\<lparr>sp_cursor := 7\<rparr>)"
    by (simp add: sampler_take_def draws)
  from sampler_draws_epochs [OF _ one two] show ?thesis by simp
qed

text \<open>
  C28: The documents of a round can be read back: what \<open>to_dict\<close> writes of a ticket, a parameter schema, a
  completion or a candidate that \<open>from_dict\<close> accepted is accepted again and gives the same object.
\<close>

theorem local_documents_round_trip:
  assumes "ticket_from_dict v1 = Inr t" and "parameter_schema_from_dict v2 = Inr s" and "completion_from_dict v3 = Inr c"
    and "candidate_from_dict v4 = Inr n"
  shows "ticket_from_dict (ticket_to_dict t) = Inr t \<and> parameter_schema_from_dict (parameter_schema_to_dict s) = Inr s \<and>
    completion_from_dict (completion_to_dict c) = Inr c \<and> candidate_from_dict (candidate_to_dict n) = Inr n"
proof -
  obtain kw r order kw' where "init_candidate kw r order = Inr n" "init_artifact_ref kw' = Inr r"
    using assms(4) unfolding candidate_from_dict_def
    by (auto simp: bindE_eq_Inr split: json.splits dest!: artifact_ref_from_dict_Inr)
  then show ?thesis
    using ticket_dict_round_trip [OF ticket_from_dict_ok [OF assms(1)]]
      parameter_schema_round_trip [OF parameter_schema_from_dict_ok [OF assms(2)]]
      completion_dict_round_trip [OF completion_from_dict_ok [OF assms(3)]] candidate_dict_round_trip by blast
qed

theorem local_documents_round_trip_witness:
  "ticket_from_dict (ticket_to_dict round_ticket) = Inr round_ticket \<and>
   parameter_schema_from_dict (parameter_schema_to_dict round_schema) = Inr round_schema \<and>
   completion_from_dict (completion_to_dict (round_completion ''w1'')) = Inr (round_completion ''w1'') \<and>
   candidate_from_dict (candidate_to_dict round_contribution) = Inr round_contribution"
  using local_documents_round_trip [OF sample_documents] .

end
