(* ===== verification/Run_Manifests.thy ===== *)
theory Run_Manifests
  imports Local_Documents Local_Store
begin

text \<open>
  The manifests of a baseline run (\<open>domain/manifests.py\<close>) and the reader of the formal registry
  (\<open>domain/formal_compat.py\<close>).
\<close>

section \<open>Checkpoint manifests\<close>

definition manifest_error :: "string \<Rightarrow> local_exn" where
  "manifest_error message = DeltaError INVALID_MANIFEST message"

definition require_identifier :: "json \<Rightarrow> string lresult" where
  "require_identifier v =
     (case v of JStr s \<Rightarrow> if IDENTIFIER s then Inr s else Inl (manifest_error ''invalid identifier'') | _ \<Rightarrow> Inl LocalTypeError)"

definition strict_mapping :: "(string \<times> json) list \<Rightarrow> string list \<Rightarrow> unit lresult" where
  "strict_mapping value expected =
     ensure (set (map fst value) = set expected) (manifest_error ''fields do not match the schema'')"

record checkpoint_manifest =
  cm_run_id :: string
  cm_checkpoint_id :: string
  cm_step :: int
  cm_optimizer_step :: int
  cm_processed_tokens :: int
  cm_sampler_cursor :: int
  cm_artifacts :: "artifact_ref list"

definition manifest_counter :: "string \<Rightarrow> json \<Rightarrow> int lresult" where
  "manifest_counter message v = raise_none (manifest_error message) (non_negative_int v)"

text \<open>\<open>formal_semantics_id\<close>, \<open>schema_version\<close> and \<open>boundary\<close> have one accepted value each; the record leaves them out.\<close>

definition init_checkpoint_manifest :: "(string \<times> json) list \<Rightarrow> artifact_ref list \<Rightarrow> checkpoint_manifest lresult" where
  "init_checkpoint_manifest kw artifacts =
     bindE (require_identifier (obj_get kw ''run_id'')) (\<lambda>run_id.
     bindE (require_identifier (obj_get kw ''checkpoint_id'')) (\<lambda>checkpoint_id.
     bindE (ensure (obj_get kw ''formal_semantics_id'' = JStr LOCAL_SEMANTICS_ID)
              (DeltaError FORMAL_SEMANTICS_MISMATCH ''checkpoint semantics mismatch'')) (\<lambda>_.
     bindE (ensure (obj_get kw ''schema_version'' = JStr ''1.0.0'') (manifest_error ''unsupported checkpoint schema_version'')) (\<lambda>_.
     bindE (manifest_counter ''checkpoint counters must be non-negative integers'' (obj_get kw ''step'')) (\<lambda>step.
     bindE (manifest_counter ''checkpoint counters must be non-negative integers'' (obj_get kw ''optimizer_step'')) (\<lambda>optimizer_step.
     bindE (manifest_counter ''checkpoint counters must be non-negative integers'' (obj_get kw ''processed_tokens'')) (\<lambda>tokens.
     bindE (manifest_counter ''checkpoint counters must be non-negative integers'' (obj_get kw ''sampler_cursor'')) (\<lambda>cursor.
     bindE (ensure (obj_get kw ''boundary'' = JStr ''OPTIMIZER_STEP'') (manifest_error ''checkpoint boundary must be OPTIMIZER_STEP'')) (\<lambda>_.
     bindE (ensure (artifacts \<noteq> [] \<and> distinct (map ar_content_id artifacts))
              (manifest_error ''checkpoint artifacts must be non-empty and unique'')) (\<lambda>_.
     Inr \<lparr>cm_run_id = run_id, cm_checkpoint_id = checkpoint_id, cm_step = step, cm_optimizer_step = optimizer_step,
          cm_processed_tokens = tokens, cm_sampler_cursor = cursor, cm_artifacts = artifacts\<rparr>))))))))))"

definition checkpoint_manifest_to_dict :: "checkpoint_manifest \<Rightarrow> (string \<times> json) list" where
  "checkpoint_manifest_to_dict c =
     [(''artifacts'', JArr (map (\<lambda>r. JObj (artifact_ref_to_dict r)) (cm_artifacts c))), (''boundary'', JStr ''OPTIMIZER_STEP''),
      (''checkpoint_id'', JStr (cm_checkpoint_id c)), (''formal_semantics_id'', JStr LOCAL_SEMANTICS_ID),
      (''optimizer_step'', JInt (cm_optimizer_step c)), (''processed_tokens'', JInt (cm_processed_tokens c)),
      (''run_id'', JStr (cm_run_id c)), (''sampler_cursor'', JInt (cm_sampler_cursor c)), (''schema_version'', JStr ''1.0.0''),
      (''step'', JInt (cm_step c))]"

definition CHECKPOINT_FIELDS :: "string list" where
  "CHECKPOINT_FIELDS =
     [''artifacts'', ''boundary'', ''checkpoint_id'', ''formal_semantics_id'', ''optimizer_step'', ''processed_tokens'', ''run_id'',
      ''sampler_cursor'', ''schema_version'', ''step'']"

text \<open>An array of objects, read as references.\<close>

definition object_array :: "string \<Rightarrow> json \<Rightarrow> (string \<times> json) list list lresult" where
  "object_array message v =
     (case v of JArr items \<Rightarrow> if list_all is_obj items then Inr (map obj_fields items) else Inl (manifest_error message)
      | _ \<Rightarrow> Inl (manifest_error message))"

definition checkpoint_manifest_from_dict :: "(string \<times> json) list \<Rightarrow> checkpoint_manifest lresult" where
  "checkpoint_manifest_from_dict value =
     bindE (strict_mapping value CHECKPOINT_FIELDS) (\<lambda>_.
     bindE (object_array ''checkpoint artifacts must be an array of objects'' (obj_get value ''artifacts'')) (\<lambda>items.
     on_type_or_value_error (manifest_error ''CheckpointManifest field type is invalid'')
       (bindE (mapE artifact_ref_from_dict items) (\<lambda>artifacts. init_checkpoint_manifest value artifacts))))"

section \<open>Run manifests\<close>

datatype run_status = RUN_RUNNING | RUN_COMPLETED | RUN_FAILED

fun run_status_value :: "run_status \<Rightarrow> string" where
  "run_status_value RUN_RUNNING = ''RUNNING''"
| "run_status_value RUN_COMPLETED = ''COMPLETED''"
| "run_status_value RUN_FAILED = ''FAILED''"

text \<open>\<open>code_revision\<close> and \<open>failure_code\<close> are checked for their truth value and length only.\<close>

record run_manifest =
  rm_run_id :: string
  rm_status :: run_status
  rm_config_id :: string
  rm_code_revision :: json
  rm_dependency_lock_id :: string
  rm_dataset_id :: string
  rm_model_id :: string
  rm_tokenizer_id :: string
  rm_processed_tokens :: int
  rm_platform :: "(string \<times> string) list"
  rm_seeds :: "(string \<times> int) list"
  rm_artifacts :: "artifact_ref list"
  rm_checkpoint_refs :: "artifact_ref list"
  rm_failure_code :: json

definition freeze_string_mapping :: "(string \<times> json) list \<Rightarrow> (string \<times> string) list lresult" where
  "freeze_string_mapping kvs =
     (if kvs = [] \<or> \<not> list_all (\<lambda>(_, v). is_str v) kvs then Inl (manifest_error ''must be a non-empty string mapping'')
      else Inr (sort_key (\<lambda>kv. name_key (fst kv)) (map (\<lambda>(k, v). (k, case v of JStr s \<Rightarrow> s | _ \<Rightarrow> [])) kvs)))"

definition freeze_seed_mapping :: "(string \<times> json) list \<Rightarrow> (string \<times> int) list lresult" where
  "freeze_seed_mapping kvs =
     (if kvs = [] \<or> \<not> list_all (\<lambda>(_, v). non_negative_int v \<noteq> None) kvs
      then Inl (manifest_error ''seeds must be a non-empty mapping of non-negative integers'')
      else Inr (sort_key (\<lambda>kv. name_key (fst kv)) (map (\<lambda>(k, v). (k, case v of JInt i \<Rightarrow> i | _ \<Rightarrow> 0)) kvs)))"

definition check_code_revision :: "json \<Rightarrow> unit lresult" where
  "check_code_revision v =
     (if \<not> truthy v then Inl (manifest_error ''invalid code_revision'')
      else (case py_len v of None \<Rightarrow> Inl LocalTypeError | Some n \<Rightarrow> ensure (\<not> n > 128) (manifest_error ''invalid code_revision'')))"

definition init_run_manifest ::
  "(string \<times> json) list \<Rightarrow> run_status \<Rightarrow> (string \<times> json) list \<Rightarrow> (string \<times> json) list \<Rightarrow> artifact_ref list \<Rightarrow> artifact_ref list \<Rightarrow>
   run_manifest lresult" where
  "init_run_manifest kw status platform seeds artifacts checkpoint_refs =
     bindE (require_identifier (obj_get kw ''run_id'')) (\<lambda>run_id.
     bindE (require_content_id (obj_get kw ''config_id'')) (\<lambda>config_id.
     bindE (require_content_id (obj_get kw ''dependency_lock_id'')) (\<lambda>lock_id.
     bindE (require_content_id (obj_get kw ''dataset_id'')) (\<lambda>dataset_id.
     bindE (require_content_id (obj_get kw ''model_id'')) (\<lambda>model_id.
     bindE (require_content_id (obj_get kw ''tokenizer_id'')) (\<lambda>tokenizer_id.
     bindE (ensure (obj_get kw ''formal_semantics_id'' = JStr LOCAL_SEMANTICS_ID)
              (DeltaError FORMAL_SEMANTICS_MISMATCH ''run semantics mismatch'')) (\<lambda>_.
     bindE (ensure (obj_get kw ''schema_version'' = JStr ''1.0.0'') (manifest_error ''unsupported run schema_version'')) (\<lambda>_.
     bindE (check_code_revision (obj_get kw ''code_revision'')) (\<lambda>_.
     bindE (manifest_counter ''processed_tokens must be non-negative'' (obj_get kw ''processed_tokens'')) (\<lambda>tokens.
     bindE (ensure (\<not> (status = RUN_COMPLETED \<and> obj_get kw ''failure_code'' \<noteq> JNull))
              (manifest_error ''completed run cannot have failure_code'')) (\<lambda>_.
     bindE (ensure (\<not> (status = RUN_FAILED \<and> \<not> truthy (obj_get kw ''failure_code'')))
              (manifest_error ''failed run requires failure_code'')) (\<lambda>_.
     bindE (freeze_string_mapping platform) (\<lambda>frozen_platform.
     bindE (freeze_seed_mapping seeds) (\<lambda>frozen_seeds.
     bindE (ensure (distinct (map ar_content_id (artifacts @ checkpoint_refs)))
              (manifest_error ''run artifact references must be unique'')) (\<lambda>_.
     Inr \<lparr>rm_run_id = run_id, rm_status = status, rm_config_id = config_id, rm_code_revision = obj_get kw ''code_revision'',
          rm_dependency_lock_id = lock_id, rm_dataset_id = dataset_id, rm_model_id = model_id, rm_tokenizer_id = tokenizer_id,
          rm_processed_tokens = tokens, rm_platform = frozen_platform, rm_seeds = frozen_seeds, rm_artifacts = artifacts,
          rm_checkpoint_refs = checkpoint_refs, rm_failure_code = obj_get kw ''failure_code''\<rparr>)))))))))))))))"

definition run_manifest_to_dict :: "run_manifest \<Rightarrow> (string \<times> json) list" where
  "run_manifest_to_dict r =
     [(''artifacts'', JArr (map (\<lambda>x. JObj (artifact_ref_to_dict x)) (rm_artifacts r))),
      (''checkpoint_refs'', JArr (map (\<lambda>x. JObj (artifact_ref_to_dict x)) (rm_checkpoint_refs r))),
      (''code_revision'', rm_code_revision r), (''config_id'', JStr (rm_config_id r)), (''dataset_id'', JStr (rm_dataset_id r)),
      (''dependency_lock_id'', JStr (rm_dependency_lock_id r)), (''failure_code'', rm_failure_code r),
      (''formal_semantics_id'', JStr LOCAL_SEMANTICS_ID), (''model_id'', JStr (rm_model_id r)),
      (''platform'', JObj (map (\<lambda>(k, s). (k, JStr s)) (rm_platform r))), (''processed_tokens'', JInt (rm_processed_tokens r)),
      (''run_id'', JStr (rm_run_id r)), (''schema_version'', JStr ''1.0.0''),
      (''seeds'', JObj (map (\<lambda>(k, i). (k, JInt i)) (rm_seeds r))), (''status'', JStr (run_status_value (rm_status r))),
      (''tokenizer_id'', JStr (rm_tokenizer_id r))]"

definition RUN_FIELDS :: "string list" where
  "RUN_FIELDS =
     [''artifacts'', ''checkpoint_refs'', ''code_revision'', ''config_id'', ''dataset_id'', ''dependency_lock_id'', ''failure_code'',
      ''formal_semantics_id'', ''model_id'', ''platform'', ''processed_tokens'', ''run_id'', ''schema_version'', ''seeds'', ''status'',
      ''tokenizer_id'']"

definition run_manifest_from_dict :: "(string \<times> json) list \<Rightarrow> run_manifest lresult" where
  "run_manifest_from_dict value =
     bindE (strict_mapping value RUN_FIELDS) (\<lambda>_.
     bindE (object_array ''run artifacts must be an array of objects'' (obj_get value ''artifacts'')) (\<lambda>items.
     bindE (object_array ''checkpoint_refs must be an array of objects'' (obj_get value ''checkpoint_refs'')) (\<lambda>checkpoint_items.
     (case (obj_opt (obj_get value ''platform''), obj_opt (obj_get value ''seeds'')) of
        (Some platform, Some seeds) \<Rightarrow>
          on_type_or_value_error (manifest_error ''RunManifest field type is invalid'')
            (bindE (mapE artifact_ref_from_dict items) (\<lambda>artifacts.
             bindE (mapE artifact_ref_from_dict checkpoint_items) (\<lambda>checkpoint_refs.
             bindE (enum_of run_status_value [RUN_RUNNING, RUN_COMPLETED, RUN_FAILED] (obj_get value ''status'')) (\<lambda>status.
             init_run_manifest value status platform seeds artifacts checkpoint_refs))))
      | _ \<Rightarrow> Inl (manifest_error ''platform and seeds must be objects'')))))"

section \<open>The formal registry\<close>

definition ARTIFACT_ACTION_IDS :: "string list" where
  "ARTIFACT_ACTION_IDS = [''ACT-ARTIFACT-CORRUPT'', ''ACT-ARTIFACT-LOSE'', ''ACT-ARTIFACT-REPAIR'', ''ACT-PUBLISH'']"

definition FORMAL_OUTCOMES :: "string list" where
  "FORMAL_OUTCOMES = [''ACCEPTED'', ''BLOCKED'', ''FAULT'', ''FINALIZED'', ''NO_OP'', ''REJECTED'', ''STUTTER'']"

record formal_compatibility =
  fc_action_ids :: "string list"
  fc_outcomes :: "string list"
  fc_error_codes :: "string list"

definition string_set :: "json \<Rightarrow> string list lresult" where
  "string_set v =
     (case v of
        JArr items \<Rightarrow>
          if items = [] \<or> \<not> list_all is_str items then Inl LocalValueError
          else (let texts = map (\<lambda>v. case v of JStr s \<Rightarrow> s | _ \<Rightarrow> []) items in if distinct texts then Inr texts else Inl LocalValueError)
      | _ \<Rightarrow> Inl LocalValueError)"

definition formal_from_mapping :: "(string \<times> json) list \<Rightarrow> formal_compatibility lresult" where
  "formal_from_mapping value =
     bindE (ensure (set (map fst value) = {''actions'', ''error_codes'', ''formal_semantics_id'', ''outcomes'', ''schema_version''})
              LocalValueError) (\<lambda>_.
     bindE (ensure (obj_get value ''schema_version'' = JStr ''1.0.0'') LocalValueError) (\<lambda>_.
     bindE (ensure (obj_get value ''formal_semantics_id'' = JStr LOCAL_SEMANTICS_ID) LocalValueError) (\<lambda>_.
     bindE (string_set (obj_get value ''actions'')) (\<lambda>action_ids.
     bindE (string_set (obj_get value ''outcomes'')) (\<lambda>outcomes.
     bindE (string_set (obj_get value ''error_codes'')) (\<lambda>error_codes.
     bindE (ensure (set action_ids = set ARTIFACT_ACTION_IDS) LocalValueError) (\<lambda>_.
     bindE (ensure (set outcomes = set FORMAL_OUTCOMES) LocalValueError) (\<lambda>_.
     Inr \<lparr>fc_action_ids = action_ids, fc_outcomes = outcomes, fc_error_codes = error_codes\<rparr>))))))))"

definition load_formal_compatibility :: "(string \<Rightarrow> json option) \<Rightarrow> string option \<Rightarrow> formal_compatibility lresult" where
  "load_formal_compatibility loads content =
     (case content of
        None \<Rightarrow> Inl LocalValueError
      | Some bytes \<Rightarrow> (case loads bytes of Some (JObj value) \<Rightarrow> formal_from_mapping value | _ \<Rightarrow> Inl LocalValueError))"

end
