(* ===== verification/Bundle_Verifier.thy ===== *)
theory Bundle_Verifier
  imports Run_Manifests
begin

text \<open>
  The verifier of a run bundle (\<open>artifacts/verifier.py\<close>): the registry of media types, and the objects reachable from
  one run manifest. A path outside the store is given by what reading it does (\<open>file_read\<close>); \<open>other\<close> is \<open>str\<close>
  of a list or dict, \<open>loads\<close> is \<open>json.loads\<close> of decoded bytes, \<open>None\<close> where either raises.
\<close>

datatype file_read = Escapes | Missing | Bytes string

definition decode_object :: "(string \<Rightarrow> json option) \<Rightarrow> string \<Rightarrow> string \<Rightarrow> (string \<times> json) list lresult" where
  "decode_object loads bytes error = (case loads bytes of Some (JObj value) \<Rightarrow> Inr value | _ \<Rightarrow> Inl (manifest_error error))"

section \<open>The registry\<close>

fun json_str :: "(json \<Rightarrow> string) \<Rightarrow> json \<Rightarrow> string" where
  "json_str other (JStr s) = s"
| "json_str other JNull = ''None''"
| "json_str other (JBool b) = (if b then ''True'' else ''False'')"
| "json_str other (JInt i) = int_text i"
| "json_str other (JFloat t) = t"
| "json_str other v = other v"

definition registry_schema ::
  "(string \<Rightarrow> string) \<Rightarrow> (json \<Rightarrow> string) \<Rightarrow> (string \<Rightarrow> file_read) \<Rightarrow> json \<Rightarrow> string lresult" where
  "registry_schema sha other read_schema v =
     (case v of
        JObj record \<Rightarrow>
          bindE (ensure (set (map fst record) = {''id'', ''path'', ''sha256''}) (manifest_error ''REGISTRY_SCHEMA_INVALID'')) (\<lambda>_.
          (case read_schema (json_str other (obj_get record ''path'')) of
             Escapes \<Rightarrow> Inl (manifest_error ''REGISTRY_SCHEMA_PATH_INVALID'')
           | Missing \<Rightarrow> Inl (manifest_error ''REGISTRY_SCHEMA_MISSING'')
           | Bytes bytes \<Rightarrow>
               bindE (ensure (obj_get record ''sha256'' = JStr (sha bytes))
                        (DeltaError ARTIFACT_HASH_MISMATCH ''registry schema hash mismatch'')) (\<lambda>_.
               Inr (json_str other (obj_get record ''id'')))))
      | _ \<Rightarrow> Inl (manifest_error ''REGISTRY_SCHEMA_INVALID''))"

text \<open>A media type that is registered twice selects no schema.\<close>

type_synonym media_schemas = "(string, string option) dict"

definition register_media_type :: "(json \<Rightarrow> string) \<Rightarrow> string list \<Rightarrow> json \<Rightarrow> media_schemas \<Rightarrow> media_schemas lresult" where
  "register_media_type other schema_ids v known =
     (case v of
        JObj record \<Rightarrow>
          bindE (ensure (set (map fst record) = {''id'', ''schema_id'', ''value''}) (manifest_error ''REGISTRY_MEDIA_TYPE_INVALID'')) (\<lambda>_.
          (let schema_id = json_str other (obj_get record ''schema_id''); media_type = json_str other (obj_get record ''value'') in
           bindE (ensure (schema_id \<in> set schema_ids) (manifest_error ''REGISTRY_MEDIA_TYPE_INVALID'')) (\<lambda>_.
           Inr (AList.update media_type (if map_of known media_type = None then Some schema_id else None) known))))
      | _ \<Rightarrow> Inl (manifest_error ''REGISTRY_MEDIA_TYPE_INVALID''))"

fun register_media_types :: "(json \<Rightarrow> string) \<Rightarrow> string list \<Rightarrow> json list \<Rightarrow> media_schemas \<Rightarrow> media_schemas lresult" where
  "register_media_types other schema_ids [] known = Inr known"
| "register_media_types other schema_ids (v # vs) known =
     bindE (register_media_type other schema_ids v known) (register_media_types other schema_ids vs)"

definition load_registry ::
  "(string \<Rightarrow> string) \<Rightarrow> (string \<Rightarrow> json option) \<Rightarrow> (json \<Rightarrow> string) \<Rightarrow> (string \<Rightarrow> file_read) \<Rightarrow> string option \<Rightarrow> media_schemas lresult" where
  "load_registry sha loads other read_schema registry =
     bindE (raise_none (DeltaError ARTIFACT_NOT_FOUND ''protocol registry does not exist'') registry) (\<lambda>bytes.
     bindE (decode_object loads bytes ''REGISTRY_JSON_INVALID'') (\<lambda>value.
     bindE (ensure (obj_get value ''formal_semantics_id'' = JStr LOCAL_SEMANTICS_ID)
              (DeltaError FORMAL_SEMANTICS_MISMATCH ''registry semantics mismatch'')) (\<lambda>_.
     (case (obj_get value ''schemas'', obj_get value ''media_types'') of
        (JArr schemas, JArr media_types) \<Rightarrow>
          bindE (mapE (registry_schema sha other read_schema) schemas) (\<lambda>schema_ids.
          register_media_types other schema_ids media_types [])
      | _ \<Rightarrow> Inl (manifest_error ''REGISTRY_FIELDS_INVALID'')))))"

section \<open>References\<close>

text \<open>\<open>media_type in self._media_schemas\<close>: a list or dict cannot be hashed.\<close>

definition media_schema :: "media_schemas \<Rightarrow> json \<Rightarrow> string option option lresult" where
  "media_schema media v =
     (case v of JStr s \<Rightarrow> Inr (map_of media s) | JArr _ \<Rightarrow> Inl LocalTypeError | JObj _ \<Rightarrow> Inl LocalTypeError | _ \<Rightarrow> Inr None)"

type_synonym verified_objects = "(string \<times> string) list"

definition verify_reference ::
  "(string \<Rightarrow> string) \<Rightarrow> media_schemas \<Rightarrow> disk \<Rightarrow> artifact_ref \<Rightarrow> verified_objects \<Rightarrow> (string \<times> verified_objects) lresult" where
  "verify_reference sha media d r verified =
     bindE (media_schema media (ar_media_type r)) (\<lambda>known.
     (case known of
        None \<Rightarrow> Inl (DeltaError UNKNOWN_MEDIA_TYPE ''artifact media type is not registered'')
      | Some None \<Rightarrow> Inl (DeltaError INVALID_SCHEMA_ID ''shared denylisted media type cannot select an artifact schema'')
      | Some (Some schema_id) \<Rightarrow>
          bindE (ensure (schema_id = ar_schema_id r) (DeltaError INVALID_SCHEMA_ID ''artifact media type and schema do not match'')) (\<lambda>_.
          bindE (store_read sha d r) (\<lambda>bytes.
          Inr (bytes, List.insert (ar_content_id r, ar_locator r) verified)))))"

fun verify_references ::
  "(string \<Rightarrow> string) \<Rightarrow> media_schemas \<Rightarrow> disk \<Rightarrow> artifact_ref list \<Rightarrow> verified_objects \<Rightarrow> verified_objects lresult" where
  "verify_references sha media d [] verified = Inr verified"
| "verify_references sha media d (r # rs) verified =
     bindE (verify_reference sha media d r verified) (\<lambda>(_, verified'). verify_references sha media d rs verified')"

definition index_by_schema :: "string \<Rightarrow> artifact_ref list \<Rightarrow> (string, artifact_ref) dict lresult" where
  "index_by_schema error references =
     (if distinct (map ar_schema_id references) then Inr (map (\<lambda>r. (ar_schema_id r, r)) references)
      else Inl (manifest_error error))"

definition require_single :: "(string, artifact_ref) dict \<Rightarrow> string \<Rightarrow> artifact_ref lresult" where
  "require_single references schema_id = raise_none (manifest_error ''RUN_ARTIFACT_MISSING'') (map_of references schema_id)"

definition require_identity :: "(string, artifact_ref) dict \<Rightarrow> string \<Rightarrow> string \<Rightarrow> unit lresult" where
  "require_identity references schema_id content_id =
     bindE (require_single references schema_id) (\<lambda>r.
     ensure (ar_content_id r = content_id) (manifest_error ''RUN_ARTIFACT_IDENTITY_MISMATCH''))"

section \<open>Checkpoints\<close>

definition STATE_FIELDS :: "string list" where
  "STATE_FIELDS =
     [''checkpoint_id'', ''formal_semantics_id'', ''model_schema_id'', ''optimizer'', ''rng'', ''run_id'', ''sampler'', ''scaler'',
      ''scheduler'', ''schema_version'']"

definition verify_checkpoint_state :: "checkpoint_manifest \<Rightarrow> (string \<times> json) list \<Rightarrow> unit lresult" where
  "verify_checkpoint_state c state =
     bindE (ensure (set (map fst state) = set STATE_FIELDS) (manifest_error ''CHECKPOINT_STATE_FIELDS_INVALID'')) (\<lambda>_.
     ensure (obj_get state ''formal_semantics_id'' = JStr LOCAL_SEMANTICS_ID \<and> obj_get state ''schema_version'' = JStr ''1.0.0'' \<and>
             obj_get state ''run_id'' = JStr (cm_run_id c) \<and> obj_get state ''checkpoint_id'' = JStr (cm_checkpoint_id c) \<and>
             (case obj_opt (obj_get state ''optimizer'') of
                None \<Rightarrow> False
              | Some optimizer \<Rightarrow> set (map fst optimizer) = {''kind'', ''step''} \<and> obj_get optimizer ''kind'' = JStr ''CANONICAL_ADAMW_V1'' \<and>
                  py_eq (obj_get optimizer ''step'') (JInt (cm_optimizer_step c))) \<and>
             (case obj_opt (obj_get state ''sampler'') of
                None \<Rightarrow> False
              | Some sampler \<Rightarrow> set (map fst sampler) = {''cursor'', ''sample_count'', ''seed''} \<and>
                  py_eq (obj_get sampler ''cursor'') (JInt (cm_sampler_cursor c))))
       (manifest_error ''CHECKPOINT_STATE_MISMATCH''))"

text \<open>\<open>artifacts["SCHEMA-TRAINING-STATE-V1"]\<close>, read and decoded; a missing key is a \<open>KeyError\<close>.\<close>

definition training_state_of ::
  "(string \<Rightarrow> string) \<Rightarrow> (string \<Rightarrow> json option) \<Rightarrow> disk \<Rightarrow> (string, artifact_ref) dict \<Rightarrow> (string \<times> json) list lresult" where
  "training_state_of sha loads d artifacts =
     bindE (raise_none (OtherException ''KeyError'') (map_of artifacts ''SCHEMA-TRAINING-STATE-V1'')) (\<lambda>r.
     bindE (store_read sha d r) (\<lambda>bytes. decode_object loads bytes ''CHECKPOINT_STATE_JSON_INVALID''))"

definition verify_checkpoint ::
  "(string \<Rightarrow> string) \<Rightarrow> (string \<Rightarrow> json option) \<Rightarrow> media_schemas \<Rightarrow> disk \<Rightarrow> string \<Rightarrow> artifact_ref \<Rightarrow> verified_objects \<Rightarrow>
   (checkpoint_manifest \<times> verified_objects) lresult" where
  "verify_checkpoint sha loads media d run_id r verified =
     bindE (ensure (ar_schema_id r = ''SCHEMA-CHECKPOINT-MANIFEST-V1'')
              (DeltaError INVALID_SCHEMA_ID ''checkpoint reference has the wrong schema'')) (\<lambda>_.
     bindE (verify_reference sha media d r verified) (\<lambda>(bytes, verified1).
     bindE (decode_object loads bytes ''CHECKPOINT_MANIFEST_JSON_INVALID'') (\<lambda>value.
     bindE (checkpoint_manifest_from_dict value) (\<lambda>c.
     bindE (ensure (cm_run_id c = run_id) (manifest_error ''CHECKPOINT_RUN_ID_MISMATCH'')) (\<lambda>_.
     bindE (index_by_schema ''CHECKPOINT_ARTIFACT_SET_INVALID'' (cm_artifacts c)) (\<lambda>artifacts.
     bindE (ensure (set (map fst artifacts) = {''SCHEMA-SAFETENSORS-V1'', ''SCHEMA-TRAINING-STATE-V1''})
              (manifest_error ''CHECKPOINT_ARTIFACT_SET_INVALID'')) (\<lambda>_.
     bindE (verify_references sha media d (cm_artifacts c) verified1) (\<lambda>verified2.
     bindE (training_state_of sha loads d artifacts) (\<lambda>state.
     bindE (verify_checkpoint_state c state) (\<lambda>_.
     Inr (c, verified2)))))))))))"

fun verify_checkpoints ::
  "(string \<Rightarrow> string) \<Rightarrow> (string \<Rightarrow> json option) \<Rightarrow> media_schemas \<Rightarrow> disk \<Rightarrow> string \<Rightarrow> artifact_ref list \<Rightarrow> verified_objects \<Rightarrow>
   (checkpoint_manifest list \<times> verified_objects) lresult" where
  "verify_checkpoints sha loads media d run_id [] verified = Inr ([], verified)"
| "verify_checkpoints sha loads media d run_id (r # rs) verified =
     bindE (verify_checkpoint sha loads media d run_id r verified) (\<lambda>(c, verified1).
     bindE (verify_checkpoints sha loads media d run_id rs verified1) (\<lambda>(cs, verified2).
     Inr (c # cs, verified2)))"

definition verify_model_identity ::
  "(string \<Rightarrow> string) \<Rightarrow> (string \<Rightarrow> json option) \<Rightarrow> disk \<Rightarrow> checkpoint_manifest \<Rightarrow> string \<Rightarrow> unit lresult" where
  "verify_model_identity sha loads d c model_id =
     bindE (index_by_schema ''CHECKPOINT_ARTIFACT_SET_INVALID'' (cm_artifacts c)) (\<lambda>artifacts.
     bindE (training_state_of sha loads d artifacts) (\<lambda>state.
     ensure (obj_get state ''model_schema_id'' = JStr model_id) (manifest_error ''RUN_MODEL_ID_MISMATCH'')))"

text \<open>\<open>max\<close> keeps the first of several maximal checkpoints.\<close>

definition later_checkpoint :: "checkpoint_manifest \<Rightarrow> checkpoint_manifest \<Rightarrow> checkpoint_manifest" where
  "later_checkpoint best c =
     (if cm_optimizer_step best < cm_optimizer_step c \<or> cm_optimizer_step best = cm_optimizer_step c \<and> cm_step best < cm_step c
      then c else best)"

definition check_final :: "(string \<Rightarrow> string) \<Rightarrow> (string \<Rightarrow> json option) \<Rightarrow> disk \<Rightarrow> run_manifest \<Rightarrow> checkpoint_manifest list \<Rightarrow> unit lresult" where
  "check_final sha loads d m cs =
     (case cs of
        [] \<Rightarrow> Inr ()
      | c # rest \<Rightarrow>
          (let final = foldl later_checkpoint c rest in
           bindE (ensure (cm_processed_tokens final = rm_processed_tokens m) (manifest_error ''RUN_CHECKPOINT_TOKEN_COUNT_MISMATCH'')) (\<lambda>_.
           verify_model_identity sha loads d final (rm_model_id m))))"

section \<open>The bundle\<close>

text \<open>\<open>verified\<close> is the set of objects a verifier has seen in earlier calls, empty in a new one; it is never cleared.\<close>

record bundle_verification_result =
  br_run_id :: string
  br_run_manifest_id :: string
  br_verified_objects :: nat

definition bundle_result_to_dict :: "bundle_verification_result \<Rightarrow> (string \<times> json) list" where
  "bundle_result_to_dict r =
     [(''run_id'', JStr (br_run_id r)), (''run_manifest_id'', JStr (br_run_manifest_id r)), (''schema_version'', JStr ''1.0.0''),
      (''status'', JStr ''PASS''), (''verified_objects'', JInt (int (br_verified_objects r)))]"

definition read_trust_root :: "file_read \<Rightarrow> string lresult" where
  "read_trust_root f =
     (case f of
        Escapes \<Rightarrow> Inl (DeltaError INVALID_ARTIFACT_LOCATOR ''run manifest escaped store root'')
      | Missing \<Rightarrow> Inl (DeltaError ARTIFACT_NOT_FOUND ''run manifest does not exist'')
      | Bytes bytes \<Rightarrow> Inr bytes)"

definition load_run_manifest :: "(string \<Rightarrow> json option) \<Rightarrow> string \<Rightarrow> run_manifest lresult" where
  "load_run_manifest loads bytes =
     bindE (decode_object loads bytes ''RUN_MANIFEST_JSON_INVALID'') (\<lambda>value.
     bindE (run_manifest_from_dict value) (\<lambda>m.
     bindE (canonical_json_bytes (JObj (run_manifest_to_dict m))) (\<lambda>canonical.
     bindE (ensure (canonical = bytes) (manifest_error ''RUN_MANIFEST_NOT_CANONICAL'')) (\<lambda>_.
     Inr m))))"

definition check_run_artifacts :: "run_manifest \<Rightarrow> (string, artifact_ref) dict lresult" where
  "check_run_artifacts m =
     bindE (index_by_schema ''RUN_ARTIFACT_SET_INVALID'' (rm_artifacts m)) (\<lambda>direct.
     bindE (require_identity direct ''SCHEMA-BASELINE-CONFIG-V1'' (rm_config_id m)) (\<lambda>_.
     bindE (require_identity direct ''SCHEMA-CORPUS-TEXT-V1'' (rm_dataset_id m)) (\<lambda>_.
     bindE (require_identity direct ''SCHEMA-TOKENIZER-V1'' (rm_tokenizer_id m)) (\<lambda>_.
     bindE (require_identity direct ''SCHEMA-UV-LOCK-V1'' (rm_dependency_lock_id m)) (\<lambda>_.
     bindE (if rm_status m = RUN_COMPLETED then bindE (require_single direct ''SCHEMA-METRICS-JSONL-V1'') (\<lambda>_. Inr ()) else Inr ()) (\<lambda>_.
     Inr direct))))))"

definition check_run_config ::
  "(string \<Rightarrow> string) \<Rightarrow> (string \<Rightarrow> json option) \<Rightarrow> disk \<Rightarrow> run_manifest \<Rightarrow> (string, artifact_ref) dict \<Rightarrow> unit lresult" where
  "check_run_config sha loads d m direct =
     bindE (require_single direct ''SCHEMA-BASELINE-CONFIG-V1'') (\<lambda>r.
     bindE (store_read sha d r) (\<lambda>bytes.
     bindE (decode_object loads bytes ''BASELINE_CONFIG_JSON_INVALID'') (\<lambda>config.
     ensure (obj_get config ''run_id'' = JStr (rm_run_id m)) (manifest_error ''RUN_CONFIG_IDENTITY_MISMATCH''))))"

definition bundle_verify ::
  "(string \<Rightarrow> string) \<Rightarrow> (string \<Rightarrow> json option) \<Rightarrow> media_schemas \<Rightarrow> disk \<Rightarrow> verified_objects \<Rightarrow> file_read \<Rightarrow>
   bundle_verification_result lresult" where
  "bundle_verify sha loads media d verified run_manifest_file =
     bindE (read_trust_root run_manifest_file) (\<lambda>bytes.
     bindE (load_run_manifest loads bytes) (\<lambda>m.
     bindE (check_run_artifacts m) (\<lambda>direct.
     bindE (verify_references sha media d (rm_artifacts m) verified) (\<lambda>verified1.
     bindE (ensure (\<not> (rm_status m = RUN_COMPLETED \<and> rm_checkpoint_refs m = [])) (manifest_error ''COMPLETED_RUN_HAS_NO_CHECKPOINT'')) (\<lambda>_.
     bindE (verify_checkpoints sha loads media d (rm_run_id m) (rm_checkpoint_refs m) verified1) (\<lambda>(cs, verified2).
     bindE (check_final sha loads d m cs) (\<lambda>_.
     bindE (check_run_config sha loads d m direct) (\<lambda>_.
     Inr \<lparr>br_run_id = rm_run_id m, br_run_manifest_id = sha256_content_id sha bytes, br_verified_objects = length verified2\<rparr>))))))))"

text \<open>The components of a resolved path below \<open>/\<close>; \<open>parents\<close> has one entry for each of them.\<close>

definition infer_store_root :: "string list \<Rightarrow> string list lresult" where
  "infer_store_root resolved =
     (if resolved = [] \<or> last resolved \<noteq> ''run-manifest.json'' \<or> length resolved < 3 \<or> resolved ! (length resolved - 3) \<noteq> ''runs''
      then Inl (DeltaError INVALID_ARTIFACT_LOCATOR ''cannot infer artifact store root from run manifest path'')
      else Inr (take (length resolved - 3) resolved))"

end
