(* ===== verification/Bundle_Sample.thy ===== *)
theory Bundle_Sample
  imports Bundle_Verifier
begin

text \<open>
  A small bundle: a completed run with one checkpoint and seven objects, whose hash is the length of the bytes, so that
  no two objects share an identity.
\<close>

definition hex_of :: "nat \<Rightarrow> char" where
  "hex_of n = ''0123456789abcdef'' ! (n mod 16)"

definition length_sha :: "string \<Rightarrow> string" where
  "length_sha s = replicate 64 (hex_of (length s))"

definition length_id :: "nat \<Rightarrow> string" where
  "length_id n = ''sha256:'' @ replicate 64 (hex_of n)"

definition bundle_ref :: "string \<Rightarrow> string \<Rightarrow> string \<Rightarrow> string \<Rightarrow> artifact_ref" where
  "bundle_ref bytes media_type schema_id locator =
     \<lparr>ar_content_id = length_id (length bytes), ar_media_type = JStr media_type, ar_schema_id = schema_id,
      ar_schema_version = ''1.0.0'', ar_byte_length = int (length bytes), ar_locator = locator\<rparr>"

definition bundle_checkpoint :: checkpoint_manifest where
  "bundle_checkpoint = \<lparr>cm_run_id = ''r1'', cm_checkpoint_id = ''c1'', cm_step = 4, cm_optimizer_step = 2, cm_processed_tokens = 8,
     cm_sampler_cursor = 4, cm_artifacts = [bundle_ref ''WW'' ''a/tensors'' ''SCHEMA-SAFETENSORS-V1'' ''w'',
       bundle_ref ''SSS'' ''a/state'' ''SCHEMA-TRAINING-STATE-V1'' ''s'']\<rparr>"

definition bundle_state :: "(string \<times> json) list" where
  "bundle_state = [(''checkpoint_id'', JStr ''c1''), (''formal_semantics_id'', JStr LOCAL_SEMANTICS_ID),
     (''model_schema_id'', JStr (length_id 1)), (''optimizer'', JObj [(''kind'', JStr ''CANONICAL_ADAMW_V1''), (''step'', JInt 2)]),
     (''rng'', JNull), (''run_id'', JStr ''r1''), (''sampler'', JObj [(''cursor'', JInt 4), (''sample_count'', JInt 4), (''seed'', JInt 0)]),
     (''scaler'', JNull), (''scheduler'', JNull), (''schema_version'', JStr ''1.0.0'')]"

definition bundle_run :: run_manifest where
  "bundle_run = \<lparr>rm_run_id = ''r1'', rm_status = RUN_COMPLETED, rm_config_id = length_id 4, rm_code_revision = JStr ''rev'',
     rm_dependency_lock_id = length_id 7, rm_dataset_id = length_id 5, rm_model_id = length_id 1, rm_tokenizer_id = length_id 6,
     rm_processed_tokens = 8, rm_platform = [(''os'', ''linux'')], rm_seeds = [(''data'', 0)],
     rm_artifacts = [bundle_ref ''KKKK'' ''a/config'' ''SCHEMA-BASELINE-CONFIG-V1'' ''k'',
       bundle_ref ''DDDDD'' ''a/corpus'' ''SCHEMA-CORPUS-TEXT-V1'' ''d'', bundle_ref ''TTTTTT'' ''a/tokenizer'' ''SCHEMA-TOKENIZER-V1'' ''t'',
       bundle_ref ''UUUUUUU'' ''a/lock'' ''SCHEMA-UV-LOCK-V1'' ''u'', bundle_ref ''MMMMMMMM'' ''a/metrics'' ''SCHEMA-METRICS-JSONL-V1'' ''m''],
     rm_checkpoint_refs = [bundle_ref ''CCCCCCCCC'' ''a/checkpoint'' ''SCHEMA-CHECKPOINT-MANIFEST-V1'' ''c''], rm_failure_code = JNull\<rparr>"

definition bundle_bytes :: string where
  "bundle_bytes = dumps_sorted (JObj (run_manifest_to_dict bundle_run))"

definition bundle_disk :: disk where
  "bundle_disk = empty_disk\<lparr>dk_artifacts := [(''w'', ''WW''), (''s'', ''SSS''), (''k'', ''KKKK''), (''d'', ''DDDDD''), (''t'', ''TTTTTT''),
     (''u'', ''UUUUUUU''), (''m'', ''MMMMMMMM''), (''c'', ''CCCCCCCCC'')]\<rparr>"

definition bundle_media_types :: "(string \<times> string) list" where
  "bundle_media_types =
     [(''a/tensors'', ''SCHEMA-SAFETENSORS-V1''), (''a/state'', ''SCHEMA-TRAINING-STATE-V1''), (''a/config'', ''SCHEMA-BASELINE-CONFIG-V1''),
      (''a/corpus'', ''SCHEMA-CORPUS-TEXT-V1''), (''a/tokenizer'', ''SCHEMA-TOKENIZER-V1''), (''a/lock'', ''SCHEMA-UV-LOCK-V1''),
      (''a/metrics'', ''SCHEMA-METRICS-JSONL-V1''), (''a/checkpoint'', ''SCHEMA-CHECKPOINT-MANIFEST-V1'')]"

definition bundle_media :: media_schemas where
  "bundle_media = map (\<lambda>(m, s). (m, Some s)) bundle_media_types"

definition bundle_registry_fields :: "(string \<times> json) list" where
  "bundle_registry_fields = [(''formal_semantics_id'', JStr LOCAL_SEMANTICS_ID),
     (''media_types'', JArr (map (\<lambda>(m, s). JObj [(''id'', JStr m), (''schema_id'', JStr s), (''value'', JStr m)]) bundle_media_types)),
     (''schemas'', JArr (map (\<lambda>(m, s). JObj [(''id'', JStr s), (''path'', JStr m), (''sha256'', JStr (length_sha m))]) bundle_media_types))]"

definition bundle_loads :: "string \<Rightarrow> json option" where
  "bundle_loads bytes =
     (if bytes = ''SSS'' then Some (JObj bundle_state)
      else if bytes = ''KKKK'' then Some (JObj [(''run_id'', JStr ''r1'')])
      else if bytes = ''CCCCCCCCC'' then Some (JObj (checkpoint_manifest_to_dict bundle_checkpoint))
      else if bytes = ''R'' then Some (JObj bundle_registry_fields)
      else if bytes = bundle_bytes then Some (JObj (run_manifest_to_dict bundle_run))
      else None)"

lemma bundle_registry: "load_registry length_sha bundle_loads (\<lambda>_. []) Bytes (Some ''R'') = Inr bundle_media"
  by code_simp

lemma bundle_checkpoint_read: "checkpoint_manifest_from_dict (checkpoint_manifest_to_dict bundle_checkpoint) = Inr bundle_checkpoint"
  by code_simp

lemma bundle_run_read: "run_manifest_from_dict (run_manifest_to_dict bundle_run) = Inr bundle_run"
  by code_simp

lemma bundle_float_free: "float_free (JObj (run_manifest_to_dict bundle_run))"
  by code_simp


lemma bundle_load_run: "load_run_manifest bundle_loads bundle_bytes = Inr bundle_run"
proof -
  have "bundle_bytes \<noteq> c # cs" if "c \<noteq> CHR ''{''" for c cs using that by (simp add: bundle_bytes_def dumps_sorted_def)
  then have "bundle_loads bundle_bytes = Some (JObj (run_manifest_to_dict bundle_run))" by (simp add: bundle_loads_def)
  then show ?thesis using bundle_run_read bundle_float_free
    by (simp add: load_run_manifest_def decode_object_def canonical_json_bytes_def bundle_bytes_def)
qed

lemma bundle_run_artifacts:
  "check_run_artifacts bundle_run = Inr (map (\<lambda>r. (ar_schema_id r, r)) (rm_artifacts bundle_run))"
  by code_simp

definition bundle_keys :: "artifact_ref list \<Rightarrow> verified_objects" where
  "bundle_keys rs = rev (map (\<lambda>r. (ar_content_id r, ar_locator r)) rs)"

lemma bundle_references:
  "verify_references length_sha bundle_media bundle_disk (rm_artifacts bundle_run) [] = Inr (bundle_keys (rm_artifacts bundle_run))"
  by code_simp

lemma bundle_checkpoints:
  "verify_checkpoints length_sha bundle_loads bundle_media bundle_disk ''r1'' (rm_checkpoint_refs bundle_run) (bundle_keys (rm_artifacts bundle_run))
     = Inr ([bundle_checkpoint], bundle_keys (rm_artifacts bundle_run @ rm_checkpoint_refs bundle_run @ cm_artifacts bundle_checkpoint))"
  by code_simp

lemma bundle_final: "check_final length_sha bundle_loads bundle_disk bundle_run [bundle_checkpoint] = Inr ()"
  by code_simp

lemma bundle_config:
  "check_run_config length_sha bundle_loads bundle_disk bundle_run (map (\<lambda>r. (ar_schema_id r, r)) (rm_artifacts bundle_run)) = Inr ()"
  by code_simp

lemma bundle_verified:
  "bundle_verify length_sha bundle_loads bundle_media bundle_disk [] (Bytes bundle_bytes)
     = Inr \<lparr>br_run_id = ''r1'', br_run_manifest_id = sha256_content_id length_sha bundle_bytes, br_verified_objects = 8\<rparr>"
proof -
  have run: "rm_run_id bundle_run = ''r1''" "rm_checkpoint_refs bundle_run \<noteq> []"
    "length (bundle_keys (rm_artifacts bundle_run @ rm_checkpoint_refs bundle_run @ cm_artifacts bundle_checkpoint)) = 8"
    by (simp_all add: bundle_run_def bundle_checkpoint_def bundle_keys_def)
  then show ?thesis
    by (simp add: bundle_verify_def read_trust_root_def bundle_load_run bundle_run_artifacts bundle_references bundle_checkpoints
        bundle_final bundle_config)
qed

end
