(* ===== verification/Manifest_Round_Trip.thy ===== *)
theory Manifest_Round_Trip
  imports Run_Manifests
begin

text \<open>What \<open>to_dict\<close> writes of a manifest that was read is read again as the same manifest.\<close>

lemma require_identifier_Inr [simp]: "require_identifier v = Inr s \<longleftrightarrow> v = JStr s \<and> IDENTIFIER s"
  by (auto simp: require_identifier_def split: json.splits)

lemma manifest_counter_Inr [simp]: "manifest_counter e v = Inr i \<longleftrightarrow> v = JInt i \<and> 0 \<le> i"
  by (simp add: manifest_counter_def)

definition refs_array :: "artifact_ref list \<Rightarrow> json" where
  "refs_array rs = JArr (map (\<lambda>r. JObj (artifact_ref_to_dict r)) rs)"

lemma object_array_refs: "object_array e (refs_array rs) = Inr (map artifact_ref_to_dict rs)"
  by (simp add: object_array_def refs_array_def list_all_iff comp_def)

lemma refs_read_again:
  assumes "mapE artifact_ref_from_dict items = Inr rs"
  shows "mapE artifact_ref_from_dict (map artifact_ref_to_dict rs) = Inr rs"
  using assms artifact_ref_from_dict_Inr artifact_ref_round_trip
  by (fastforce simp: mapE_eq_Inr_iff list_all2_conv_all_nth)

lemma init_checkpoint_manifest_Inr:
  "init_checkpoint_manifest kw artifacts = Inr c \<longleftrightarrow>
     obj_get kw ''run_id'' = JStr (cm_run_id c) \<and> IDENTIFIER (cm_run_id c) \<and>
     obj_get kw ''checkpoint_id'' = JStr (cm_checkpoint_id c) \<and> IDENTIFIER (cm_checkpoint_id c) \<and>
     obj_get kw ''formal_semantics_id'' = JStr LOCAL_SEMANTICS_ID \<and> obj_get kw ''schema_version'' = JStr ''1.0.0'' \<and>
     obj_get kw ''step'' = JInt (cm_step c) \<and> 0 \<le> cm_step c \<and>
     obj_get kw ''optimizer_step'' = JInt (cm_optimizer_step c) \<and> 0 \<le> cm_optimizer_step c \<and>
     obj_get kw ''processed_tokens'' = JInt (cm_processed_tokens c) \<and> 0 \<le> cm_processed_tokens c \<and>
     obj_get kw ''sampler_cursor'' = JInt (cm_sampler_cursor c) \<and> 0 \<le> cm_sampler_cursor c \<and>
     obj_get kw ''boundary'' = JStr ''OPTIMIZER_STEP'' \<and>
     artifacts \<noteq> [] \<and> distinct (map ar_content_id artifacts) \<and> cm_artifacts c = artifacts"
  unfolding init_checkpoint_manifest_def by (cases c) (auto simp: bindE_eq_Inr)

lemma checkpoint_to_dict_get:
  "set (map fst (checkpoint_manifest_to_dict c)) = set CHECKPOINT_FIELDS"
  "obj_get (checkpoint_manifest_to_dict c) ''artifacts'' = refs_array (cm_artifacts c)"
  by (simp_all add: checkpoint_manifest_to_dict_def CHECKPOINT_FIELDS_def refs_array_def)

lemma checkpoint_manifest_round_trip:
  assumes "checkpoint_manifest_from_dict v = Inr c"
  shows "checkpoint_manifest_from_dict (checkpoint_manifest_to_dict c) = Inr c"
proof -
  from assms obtain items where items: "mapE artifact_ref_from_dict items = Inr (cm_artifacts c)"
    and init: "init_checkpoint_manifest v (cm_artifacts c) = Inr c"
    unfolding checkpoint_manifest_from_dict_def by (auto simp: bindE_eq_Inr init_checkpoint_manifest_Inr)
  from init have "init_checkpoint_manifest (checkpoint_manifest_to_dict c) (cm_artifacts c) = Inr c"
    unfolding init_checkpoint_manifest_Inr by (simp add: checkpoint_manifest_to_dict_def)
  then show ?thesis
    by (simp add: checkpoint_manifest_from_dict_def strict_mapping_def checkpoint_to_dict_get object_array_refs
        refs_read_again [OF items] del: set_map)
qed

section \<open>Run manifests\<close>

lemma sorted_names:
  assumes "xs \<noteq> []" and "ys = sort_key (\<lambda>kv. name_key (fst kv)) xs"
  shows "ys \<noteq> [] \<and> sort_key (\<lambda>kv. name_key (fst kv)) ys = ys \<and> set ys = set xs"
  unfolding assms(2) using assms(1) by (metis set_empty set_sort sort_key_id_if_sorted sorted_sort_key)

lemma freeze_string_mapping_again:
  assumes "freeze_string_mapping kvs = Inr platform"
  shows "freeze_string_mapping (map (\<lambda>(k, s). (k, JStr s)) platform) = Inr platform"
proof -
  from assms have "kvs \<noteq> []" and p: "platform = sort_key (\<lambda>kv. name_key (fst kv)) (map (\<lambda>(k, v). (k, case v of JStr s \<Rightarrow> s | _ \<Rightarrow> [])) kvs)"
    unfolding freeze_string_mapping_def by (simp_all split: if_split_asm)
  then have "platform \<noteq> [] \<and> sort_key (\<lambda>kv. name_key (fst kv)) platform = platform"
    using sorted_names [OF _ p] by simp
  then show ?thesis by (simp add: freeze_string_mapping_def list_all_iff case_prod_beta comp_def)
qed

lemma freeze_seed_mapping_again:
  assumes "freeze_seed_mapping kvs = Inr seeds"
  shows "freeze_seed_mapping (map (\<lambda>(k, i). (k, JInt i)) seeds) = Inr seeds"
proof -
  let ?f = "\<lambda>(k :: string, v). (k, case v of JInt i \<Rightarrow> i | _ \<Rightarrow> 0)"
  from assms have "kvs \<noteq> []" and s: "seeds = sort_key (\<lambda>kv. name_key (fst kv)) (map ?f kvs)"
    and ok: "list_all (\<lambda>(_, v). non_negative_int v \<noteq> None) kvs"
    unfolding freeze_seed_mapping_def by (simp_all split: if_split_asm)
  then have seeds: "seeds \<noteq> []" "sort_key (\<lambda>kv. name_key (fst kv)) seeds = seeds" "set seeds = ?f ` set kvs"
    using sorted_names [OF _ s] by simp_all
  have "0 \<le> snd (?f kv)" if "kv \<in> set kvs" for kv
    using that ok by (cases "snd kv") (auto simp: list_all_iff case_prod_beta)
  then have "\<forall>kv\<in>set seeds. 0 \<le> snd kv" unfolding seeds(3) by blast
  with seeds(1,2) show ?thesis by (simp add: freeze_seed_mapping_def list_all_iff case_prod_beta comp_def)
qed

lemma run_status_again:
  "enum_of run_status_value [RUN_RUNNING, RUN_COMPLETED, RUN_FAILED] (JStr (run_status_value status)) = Inr status"
  by (cases status) (simp_all add: enum_of_def)

definition run_fields_ok :: "(string \<times> json) list \<Rightarrow> run_manifest \<Rightarrow> bool" where
  "run_fields_ok kw r \<longleftrightarrow>
     obj_get kw ''run_id'' = JStr (rm_run_id r) \<and> IDENTIFIER (rm_run_id r) \<and>
     obj_get kw ''config_id'' = JStr (rm_config_id r) \<and> CONTENT_ID (rm_config_id r) \<and>
     obj_get kw ''dependency_lock_id'' = JStr (rm_dependency_lock_id r) \<and> CONTENT_ID (rm_dependency_lock_id r) \<and>
     obj_get kw ''dataset_id'' = JStr (rm_dataset_id r) \<and> CONTENT_ID (rm_dataset_id r) \<and>
     obj_get kw ''model_id'' = JStr (rm_model_id r) \<and> CONTENT_ID (rm_model_id r) \<and>
     obj_get kw ''tokenizer_id'' = JStr (rm_tokenizer_id r) \<and> CONTENT_ID (rm_tokenizer_id r) \<and>
     obj_get kw ''formal_semantics_id'' = JStr LOCAL_SEMANTICS_ID \<and> obj_get kw ''schema_version'' = JStr ''1.0.0'' \<and>
     obj_get kw ''code_revision'' = rm_code_revision r \<and> check_code_revision (rm_code_revision r) = Inr () \<and>
     obj_get kw ''processed_tokens'' = JInt (rm_processed_tokens r) \<and> 0 \<le> rm_processed_tokens r \<and>
     obj_get kw ''failure_code'' = rm_failure_code r \<and>
     (rm_status r = RUN_COMPLETED \<longrightarrow> rm_failure_code r = JNull) \<and> (rm_status r = RUN_FAILED \<longrightarrow> truthy (rm_failure_code r)) \<and>
     distinct (map ar_content_id (rm_artifacts r @ rm_checkpoint_refs r))"

lemma init_run_manifest_Inr:
  "init_run_manifest kw status platform seeds artifacts checkpoint_refs = Inr r \<longleftrightarrow>
     run_fields_ok kw r \<and> rm_status r = status \<and> rm_artifacts r = artifacts \<and> rm_checkpoint_refs r = checkpoint_refs \<and>
     freeze_string_mapping platform = Inr (rm_platform r) \<and> freeze_seed_mapping seeds = Inr (rm_seeds r)"
  unfolding init_run_manifest_def run_fields_ok_def by (cases r) (auto simp: bindE_eq_Inr)

lemma run_to_dict_get:
  "set (map fst (run_manifest_to_dict r)) = set RUN_FIELDS"
  "obj_get (run_manifest_to_dict r) ''artifacts'' = refs_array (rm_artifacts r)"
  "obj_get (run_manifest_to_dict r) ''checkpoint_refs'' = refs_array (rm_checkpoint_refs r)"
  "obj_get (run_manifest_to_dict r) ''platform'' = JObj (map (\<lambda>(k, s). (k, JStr s)) (rm_platform r))"
  "obj_get (run_manifest_to_dict r) ''seeds'' = JObj (map (\<lambda>(k, i). (k, JInt i)) (rm_seeds r))"
  "obj_get (run_manifest_to_dict r) ''status'' = JStr (run_status_value (rm_status r))"
  by (simp_all add: run_manifest_to_dict_def RUN_FIELDS_def refs_array_def)

lemma run_fields_again: "run_fields_ok kw r \<Longrightarrow> run_fields_ok (run_manifest_to_dict r) r"
  by (simp add: run_fields_ok_def run_manifest_to_dict_def)

lemma run_manifest_round_trip:
  assumes "run_manifest_from_dict v = Inr r"
  shows "run_manifest_from_dict (run_manifest_to_dict r) = Inr r"
proof -
  from assms obtain items items' platform seeds where items: "mapE artifact_ref_from_dict items = Inr (rm_artifacts r)"
      "mapE artifact_ref_from_dict items' = Inr (rm_checkpoint_refs r)"
    and init: "init_run_manifest v (rm_status r) platform seeds (rm_artifacts r) (rm_checkpoint_refs r) = Inr r"
    unfolding run_manifest_from_dict_def
    by (cases "obj_opt (obj_get v ''platform'')"; cases "obj_opt (obj_get v ''seeds'')") (auto simp: bindE_eq_Inr init_run_manifest_Inr)
  from init have "init_run_manifest (run_manifest_to_dict r) (rm_status r) (map (\<lambda>(k, s). (k, JStr s)) (rm_platform r))
      (map (\<lambda>(k, i). (k, JInt i)) (rm_seeds r)) (rm_artifacts r) (rm_checkpoint_refs r) = Inr r"
    unfolding init_run_manifest_Inr using run_fields_again freeze_string_mapping_again freeze_seed_mapping_again by blast
  then show ?thesis
    by (simp add: run_manifest_from_dict_def strict_mapping_def run_to_dict_get object_array_refs refs_read_again [OF items(1)]
        refs_read_again [OF items(2)] run_status_again del: set_map)
qed

section \<open>The formal registry\<close>

lemma string_set_Inr: "string_set v = Inr texts \<Longrightarrow> texts \<noteq> [] \<and> distinct texts"
  by (auto simp: string_set_def Let_def split: json.splits if_splits)

lemma formal_registry_closed:
  assumes "load_formal_compatibility loads content = Inr c"
  shows "mset (fc_action_ids c) = mset ARTIFACT_ACTION_IDS \<and> mset (fc_outcomes c) = mset FORMAL_OUTCOMES \<and> distinct (fc_error_codes c)"
proof -
  from assms obtain v where "formal_from_mapping v = Inr c"
    by (auto simp: load_formal_compatibility_def split: option.splits json.splits)
  then obtain a b e where "string_set a = Inr (fc_action_ids c)" "string_set b = Inr (fc_outcomes c)" "string_set e = Inr (fc_error_codes c)"
    "set (fc_action_ids c) = set ARTIFACT_ACTION_IDS" "set (fc_outcomes c) = set FORMAL_OUTCOMES"
    unfolding formal_from_mapping_def by (auto simp: bindE_eq_Inr)
  moreover have "distinct ARTIFACT_ACTION_IDS" "distinct FORMAL_OUTCOMES" by code_simp+
  ultimately show ?thesis by (simp add: string_set_Inr set_eq_iff_mset_eq_distinct)
qed

end
