(* ===== verification/Bundle_Theorems.thy ===== *)
theory Bundle_Theorems
  imports Bundle_Sample Manifest_Round_Trip
begin

text \<open>What it means that a run bundle passes the verifier, and that it stays so.\<close>

section \<open>The registry\<close>

lemma decode_object_Inr: "decode_object loads bytes e = Inr v \<longleftrightarrow> loads bytes = Some (JObj v)"
  by (simp add: decode_object_def split: option.splits json.splits)

text \<open>The record of a media type in the registry file.\<close>

definition names_media_type :: "(json \<Rightarrow> string) \<Rightarrow> string \<Rightarrow> json \<Rightarrow> bool" where
  "names_media_type other s v \<longleftrightarrow> (case v of JObj record \<Rightarrow> json_str other (obj_get record ''value'') = s | _ \<Rightarrow> False)"

definition media_record_schema :: "(json \<Rightarrow> string) \<Rightarrow> json \<Rightarrow> string" where
  "media_record_schema other v = (case v of JObj record \<Rightarrow> json_str other (obj_get record ''schema_id'') | _ \<Rightarrow> [])"

lemma register_media_type_Inr:
  assumes "register_media_type other ids v known = Inr known'"
  shows "media_record_schema other v \<in> set ids \<and> (\<forall>s. map_of known' s =
    (if names_media_type other s v then Some (if map_of known s = None then Some (media_record_schema other v) else None)
     else map_of known s))"
proof (cases v)
  case (JObj fields)
  with assms have "json_str other (obj_get fields ''schema_id'') \<in> set ids"
    and "known' = AList.update (json_str other (obj_get fields ''value''))
      (if map_of known (json_str other (obj_get fields ''value'')) = None then Some (json_str other (obj_get fields ''schema_id'')) else None) known"
    unfolding register_media_type_def by (auto simp: bindE_eq_Inr Let_def)
  then show ?thesis by (simp add: JObj names_media_type_def media_record_schema_def update_conv')
qed (use assms in \<open>simp_all add: register_media_type_def\<close>)

text \<open>A media type that is known already, or named by two records, selects no schema.\<close>

lemma register_media_types_Inr:
  assumes "register_media_types other ids vs known = Inr media" and "map_of media s = Some (Some schema_id)"
  shows "map_of known s = Some (Some schema_id) \<and> filter (names_media_type other s) vs = [] \<or>
    map_of known s = None \<and> schema_id \<in> set ids \<and>
    (\<exists>v. filter (names_media_type other s) vs = [v] \<and> media_record_schema other v = schema_id)"
  using assms(1)
proof (induction vs arbitrary: known)
  case (Cons v vs)
  then obtain known' where v: "register_media_type other ids v known = Inr known'"
    and rest: "register_media_types other ids vs known' = Inr media"
    by (auto simp: bindE_eq_Inr)
  from Cons.IH [OF rest] register_media_type_Inr [OF v] show ?case by (auto split: if_splits)
qed (use assms(2) in simp)

definition registered_once :: "(json \<Rightarrow> string) \<Rightarrow> json list \<Rightarrow> string \<Rightarrow> string \<Rightarrow> bool" where
  "registered_once other media_types s schema_id \<longleftrightarrow>
     (\<exists>v. filter (names_media_type other s) media_types = [v] \<and> media_record_schema other v = schema_id)"

lemma load_registry_Inr:
  assumes "load_registry sha loads other read_schema registry = Inr media"
  obtains bytes fields media_types where "registry = Some bytes" "loads bytes = Some (JObj fields)"
    "obj_get fields ''media_types'' = JArr media_types"
    "\<forall>s schema_id. map_of media s = Some (Some schema_id) \<longrightarrow> registered_once other media_types s schema_id"
proof -
  from assms obtain bytes fields where 1: "registry = Some bytes" "loads bytes = Some (JObj fields)"
    and entries: "(case (obj_get fields ''schemas'', obj_get fields ''media_types'') of
        (JArr schemas, JArr media_types) \<Rightarrow>
          bindE (mapE (registry_schema sha other read_schema) schemas) (\<lambda>ids. register_media_types other ids media_types [])
      | _ \<Rightarrow> Inl (manifest_error ''REGISTRY_FIELDS_INVALID'')) = Inr media"
    unfolding load_registry_def by (auto simp: bindE_eq_Inr decode_object_Inr)
  from entries obtain media_types ids where 2: "obj_get fields ''media_types'' = JArr media_types"
    "register_media_types other ids media_types [] = Inr media"
    by (cases "obj_get fields ''schemas''"; cases "obj_get fields ''media_types''") (auto simp: bindE_eq_Inr)
  show thesis using that [OF 1 2(1)] register_media_types_Inr [OF 2(2)] by (auto simp: registered_once_def)
qed

section \<open>References\<close>

definition reference_ok :: "(string \<Rightarrow> string) \<Rightarrow> media_schemas \<Rightarrow> disk \<Rightarrow> artifact_ref \<Rightarrow> bool" where
  "reference_ok sha media d r \<longleftrightarrow> (\<exists>s. ar_media_type r = JStr s \<and> map_of media s = Some (Some (ar_schema_id r))) \<and>
     (\<exists>bytes. store_read sha d r = Inr bytes)"

definition reference_key :: "artifact_ref \<Rightarrow> string \<times> string" where
  "reference_key r = (ar_content_id r, ar_locator r)"

lemma verify_reference_Inr:
  assumes "verify_reference sha media d r verified = Inr (bytes, verified')"
  shows "reference_ok sha media d r" "store_read sha d r = Inr bytes" "verified' = List.insert (reference_key r) verified"
  using assms unfolding verify_reference_def media_schema_def reference_ok_def reference_key_def
  by (auto simp: bindE_eq_Inr split: json.splits option.splits)

lemma verify_references_Inr:
  assumes "verify_references sha media d rs verified = Inr verified'"
  shows "(\<forall>r\<in>set rs. reference_ok sha media d r) \<and> set verified' = set verified \<union> reference_key ` set rs \<and>
    (distinct verified \<longrightarrow> distinct verified')"
  using assms
proof (induction rs arbitrary: verified)
  case (Cons r rs)
  then obtain bytes verified1 where "verify_reference sha media d r verified = Inr (bytes, verified1)"
    "verify_references sha media d rs verified1 = Inr verified'"
    by (auto simp: bindE_eq_Inr)
  with verify_reference_Inr [OF this(1)] Cons.IH [OF this(2)] show ?case by auto
qed simp

text \<open>The references of a bundle: those of the manifest and those of its checkpoints.\<close>

definition checkpoint_references :: "checkpoint_manifest list \<Rightarrow> artifact_ref list" where
  "checkpoint_references cs = concat (map cm_artifacts cs)"

definition checkpoint_at ::
  "(string \<Rightarrow> string) \<Rightarrow> (string \<Rightarrow> json option) \<Rightarrow> disk \<Rightarrow> string \<Rightarrow> artifact_ref \<Rightarrow> checkpoint_manifest \<Rightarrow> bool" where
  "checkpoint_at sha loads d run_id r c \<longleftrightarrow> cm_run_id c = run_id \<and>
     (\<exists>bytes fields. store_read sha d r = Inr bytes \<and> loads bytes = Some (JObj fields) \<and> checkpoint_manifest_from_dict fields = Inr c)"

lemma verify_checkpoint_Inr:
  assumes "verify_checkpoint sha loads media d run_id r verified = Inr (c, verified')"
  shows "(\<forall>x\<in>set (r # cm_artifacts c). reference_ok sha media d x) \<and> checkpoint_at sha loads d run_id r c \<and>
    set verified' = set verified \<union> reference_key ` set (r # cm_artifacts c) \<and> (distinct verified \<longrightarrow> distinct verified')"
proof -
  from assms obtain bytes verified1 fields where "verify_reference sha media d r verified = Inr (bytes, verified1)"
    "verify_references sha media d (cm_artifacts c) verified1 = Inr verified'" "cm_run_id c = run_id"
    "loads bytes = Some (JObj fields)" "checkpoint_manifest_from_dict fields = Inr c"
    unfolding verify_checkpoint_def by (auto simp: bindE_eq_Inr decode_object_Inr)
  with verify_reference_Inr [OF this(1)] verify_references_Inr [OF this(2)] show ?thesis by (auto simp: checkpoint_at_def)
qed

lemma verify_checkpoints_Inr:
  assumes "verify_checkpoints sha loads media d run_id rs verified = Inr (cs, verified')"
  shows "(\<forall>x\<in>set (rs @ checkpoint_references cs). reference_ok sha media d x) \<and>
    list_all2 (checkpoint_at sha loads d run_id) rs cs \<and> set verified' = set verified \<union> reference_key ` set (rs @ checkpoint_references cs) \<and>
    (distinct verified \<longrightarrow> distinct verified')"
  using assms
proof (induction rs arbitrary: verified cs)
  case (Cons r rs)
  then obtain c verified1 cs1 where c: "verify_checkpoint sha loads media d run_id r verified = Inr (c, verified1)"
    and rest: "verify_checkpoints sha loads media d run_id rs verified1 = Inr (cs1, verified')" and "cs = c # cs1"
    by (auto simp: bindE_eq_Inr)
  with verify_checkpoint_Inr [OF c] Cons.IH [OF rest] show ?case by (auto simp: checkpoint_references_def)
qed (simp add: checkpoint_references_def)

section \<open>The last checkpoint\<close>

definition no_later :: "checkpoint_manifest \<Rightarrow> checkpoint_manifest \<Rightarrow> bool" where
  "no_later c best \<longleftrightarrow> cm_optimizer_step c < cm_optimizer_step best \<or>
     cm_optimizer_step c = cm_optimizer_step best \<and> cm_step c \<le> cm_step best"

lemma later_checkpoint_bounds:
  "no_later best (later_checkpoint best c)" "no_later c (later_checkpoint best c)" "later_checkpoint best c \<in> {best, c}"
  by (auto simp: later_checkpoint_def no_later_def)

lemma no_later_trans: "no_later a b \<Longrightarrow> no_later b c \<Longrightarrow> no_later a c"
  by (auto simp: no_later_def)

lemma last_checkpoint:
  "foldl later_checkpoint c cs \<in> set (c # cs) \<and> (\<forall>x\<in>set (c # cs). no_later x (foldl later_checkpoint c cs))"
proof (induction cs arbitrary: c)
  case (Cons x cs)
  let ?b = "later_checkpoint c x" and ?f = "foldl later_checkpoint (later_checkpoint c x) cs"
  from Cons.IH [of ?b] have f: "?f \<in> set (?b # cs)" "no_later ?b ?f" "\<forall>y\<in>set cs. no_later y ?f" by simp_all
  from f(2) have "no_later c ?f" "no_later x ?f"
    using later_checkpoint_bounds(1,2) [where best = c and c = x] no_later_trans by blast+
  with f later_checkpoint_bounds(3) [of c x] show ?case by auto
qed (simp add: no_later_def)

lemma check_final_Inr:
  assumes "check_final sha loads d m cs = Inr u" and "cs \<noteq> []"
  shows "\<exists>final\<in>set cs. (\<forall>c\<in>set cs. no_later c final) \<and> cm_processed_tokens final = rm_processed_tokens m \<and>
    verify_model_identity sha loads d final (rm_model_id m) = Inr ()"
proof (cases cs)
  case (Cons c rest)
  with assms(1) have "cm_processed_tokens (foldl later_checkpoint c rest) = rm_processed_tokens m"
    "verify_model_identity sha loads d (foldl later_checkpoint c rest) (rm_model_id m) = Inr ()"
    by (auto simp: check_final_def Let_def bindE_eq_Inr)
  then show ?thesis using last_checkpoint [of c rest] Cons by metis
qed (use assms(2) in simp)

section \<open>Later disks\<close>

lemma verify_reference_eq_Inr:
  "verify_reference sha media d r verified = Inr x \<longleftrightarrow>
     (\<exists>s. ar_media_type r = JStr s \<and> map_of media s = Some (Some (ar_schema_id r))) \<and> store_read sha d r = Inr (fst x) \<and>
     snd x = List.insert (reference_key r) verified"
  unfolding verify_reference_def media_schema_def reference_key_def
  by (cases x) (auto simp: bindE_eq_Inr split: json.splits option.splits)

lemma verify_reference_steps:
  "(disk_step sha)\<^sup>*\<^sup>* d d' \<Longrightarrow> verify_reference sha media d r verified = Inr x \<Longrightarrow> verify_reference sha media d' r verified = Inr x"
  unfolding verify_reference_eq_Inr using store_read_steps by blast

lemma verify_references_steps:
  assumes "(disk_step sha)\<^sup>*\<^sup>* d d'" and "verify_references sha media d rs verified = Inr x"
  shows "verify_references sha media d' rs verified = Inr x"
  using assms(2)
proof (induction rs arbitrary: verified)
  case (Cons r rs)
  then obtain y where y: "verify_reference sha media d r verified = Inr y" "verify_references sha media d rs (snd y) = Inr x"
    by (auto simp: bindE_eq_Inr)
  with verify_reference_steps [OF assms(1) y(1)] Cons.IH [OF y(2)] show ?case by (simp add: case_prod_beta)
qed simp

lemma training_state_of_steps:
  "(disk_step sha)\<^sup>*\<^sup>* d d' \<Longrightarrow> training_state_of sha loads d artifacts = Inr state \<Longrightarrow> training_state_of sha loads d' artifacts = Inr state"
  unfolding training_state_of_def bindE_eq_Inr using store_read_steps by blast

lemma verify_checkpoint_steps:
  assumes "(disk_step sha)\<^sup>*\<^sup>* d d'" and "verify_checkpoint sha loads media d run_id r verified = Inr x"
  shows "verify_checkpoint sha loads media d' run_id r verified = Inr x"
proof -
  from assms(2) obtain y v c artifacts verified' state where schema: "ar_schema_id r = ''SCHEMA-CHECKPOINT-MANIFEST-V1''"
    and y: "verify_reference sha media d r verified = Inr y"
    and steps: "decode_object loads (fst y) ''CHECKPOINT_MANIFEST_JSON_INVALID'' = Inr v" "checkpoint_manifest_from_dict v = Inr c"
      "cm_run_id c = run_id" "index_by_schema ''CHECKPOINT_ARTIFACT_SET_INVALID'' (cm_artifacts c) = Inr artifacts"
      "set (map fst artifacts) = {''SCHEMA-SAFETENSORS-V1'', ''SCHEMA-TRAINING-STATE-V1''}"
    and refs: "verify_references sha media d (cm_artifacts c) (snd y) = Inr verified'"
    and state: "training_state_of sha loads d artifacts = Inr state" and ok: "verify_checkpoint_state c state = Inr ()" "x = (c, verified')"
    unfolding verify_checkpoint_def by (auto simp: bindE_eq_Inr)
  show ?thesis
    by (simp add: verify_checkpoint_def schema verify_reference_steps [OF assms(1) y] case_prod_beta steps
        verify_references_steps [OF assms(1) refs] training_state_of_steps [OF assms(1) state] ok del: set_map)
qed

lemma verify_checkpoints_steps:
  assumes "(disk_step sha)\<^sup>*\<^sup>* d d'" and "verify_checkpoints sha loads media d run_id rs verified = Inr x"
  shows "verify_checkpoints sha loads media d' run_id rs verified = Inr x"
  using assms(2)
proof (induction rs arbitrary: verified x)
  case (Cons r rs)
  then obtain y z where y: "verify_checkpoint sha loads media d run_id r verified = Inr y"
      "verify_checkpoints sha loads media d run_id rs (snd y) = Inr z" "x = (fst y # fst z, snd z)"
    by (auto simp: bindE_eq_Inr)
  with verify_checkpoint_steps [OF assms(1) y(1)] Cons.IH [OF y(2)] show ?case by (simp add: case_prod_beta)
qed simp

lemma check_final_steps:
  "(disk_step sha)\<^sup>*\<^sup>* d d' \<Longrightarrow> check_final sha loads d m cs = Inr u \<Longrightarrow> check_final sha loads d' m cs = Inr u"
  using training_state_of_steps unfolding check_final_def verify_model_identity_def Let_def bindE_eq_Inr
  by (cases cs) (simp_all add: bindE_eq_Inr, meson)

lemma check_run_config_steps:
  "(disk_step sha)\<^sup>*\<^sup>* d d' \<Longrightarrow> check_run_config sha loads d m direct = Inr u \<Longrightarrow> check_run_config sha loads d' m direct = Inr u"
  unfolding check_run_config_def bindE_eq_Inr using store_read_steps by blast

section \<open>The store root\<close>

lemma infer_store_root_Inr:
  "infer_store_root resolved = Inr root \<longleftrightarrow> (\<exists>run. resolved = root @ [''runs'', run, ''run-manifest.json''])"
proof
  assume inferred: "infer_store_root resolved = Inr root"
  then have "\<not> length resolved < 3" by (auto simp: infer_store_root_def split: if_splits)
  then obtain front a b c where "resolved = front @ [a, b, c]"
    by (metis append_assoc append_Cons append_Nil length_0_conv length_append_singleton less_Suc_eq_0_disj numeral_3_eq_3 rev_exhaust)
  with inferred show "\<exists>run. resolved = root @ [''runs'', run, ''run-manifest.json'']"
    by (auto simp: infer_store_root_def nth_append split: if_splits)
qed (auto simp: infer_store_root_def nth_append)

section \<open>The bundle\<close>

definition bundle_references :: "run_manifest \<Rightarrow> checkpoint_manifest list \<Rightarrow> artifact_ref list" where
  "bundle_references m cs = rm_artifacts m @ rm_checkpoint_refs m @ checkpoint_references cs"

lemma bundle_verify_Inr:
  assumes "bundle_verify sha loads media d [] f = Inr result" and "(disk_step sha)\<^sup>*\<^sup>* d later"
  obtains bytes fields m cs where "bundle_verify sha loads media later [] f = Inr result"
      "f = Bytes bytes" "loads bytes = Some (JObj fields)" "run_manifest_from_dict fields = Inr m"
      "canonical_json_bytes (JObj (run_manifest_to_dict m)) = Inr bytes"
      "br_run_manifest_id result = sha256_content_id sha bytes" "br_run_id result = rm_run_id m"
      "list_all2 (checkpoint_at sha loads later (rm_run_id m)) (rm_checkpoint_refs m) cs"
      "\<forall>r\<in>set (bundle_references m cs). reference_ok sha media later r"
      "br_verified_objects result = card (reference_key ` set (bundle_references m cs))"
      "check_final sha loads later m cs = Inr ()"
proof -
  from assms(1) obtain bytes m direct verified1 cs verified2 where f: "read_trust_root f = Inr bytes"
    and m: "load_run_manifest loads bytes = Inr m" and direct: "check_run_artifacts m = Inr direct"
    and refs: "verify_references sha media d (rm_artifacts m) [] = Inr verified1"
    and status: "\<not> (rm_status m = RUN_COMPLETED \<and> rm_checkpoint_refs m = [])"
    and checkpoints: "verify_checkpoints sha loads media d (rm_run_id m) (rm_checkpoint_refs m) verified1 = Inr (cs, verified2)"
    and final: "check_final sha loads d m cs = Inr ()" and config: "check_run_config sha loads d m direct = Inr ()"
    and result: "result = \<lparr>br_run_id = rm_run_id m, br_run_manifest_id = sha256_content_id sha bytes, br_verified_objects = length verified2\<rparr>"
    unfolding bundle_verify_def by (auto simp: bindE_eq_Inr)
  note refs' = verify_references_steps [OF assms(2) refs] and checkpoints' = verify_checkpoints_steps [OF assms(2) checkpoints]
    and final' = check_final_steps [OF assms(2) final]
  have again: "bundle_verify sha loads media later [] f = Inr result"
    using status by (simp add: bundle_verify_def f m direct refs' checkpoints' final' check_run_config_steps [OF assms(2) config] result)
  have bytes: "f = Bytes bytes" using f by (cases f) (simp_all add: read_trust_root_def)
  obtain fields where fields: "loads bytes = Some (JObj fields)" "run_manifest_from_dict fields = Inr m"
    "canonical_json_bytes (JObj (run_manifest_to_dict m)) = Inr bytes"
    using m by (auto simp: load_run_manifest_def bindE_eq_Inr decode_object_Inr)
  have seen: "distinct verified2 \<and> set verified2 = reference_key ` set (bundle_references m cs)"
      "\<forall>r\<in>set (bundle_references m cs). reference_ok sha media later r"
    using verify_references_Inr [OF refs'] verify_checkpoints_Inr [OF checkpoints'] by (auto simp: bundle_references_def)
  show thesis
    by (rule that [OF again bytes fields _ _ conjunct1 [OF conjunct2 [OF verify_checkpoints_Inr [OF checkpoints']]] seen(2) _ final'])
      (use seen(1) in \<open>simp_all add: result flip: distinct_card\<close>)
qed

text \<open>
  C29: A bundle that passes the verifier is complete. The run manifest is in canonical form and identified by its
  hash; every object it refers to, directly or through a checkpoint, has a media type that the registry file lists
  exactly once, for the schema of the reference, and is in the store with the bytes of its hash; the count is the
  number of these objects; every checkpoint belongs to the run, and the last one agrees with the tokens and the
  model of the manifest. It passes with the same result on every later state of the disk.
\<close>

theorem verified_bundle_complete:
  assumes "load_registry sha loads other read_schema registry = Inr media"
    and "bundle_verify sha loads media d [] f = Inr result" and "(disk_step sha)\<^sup>*\<^sup>* d later"
  shows "bundle_verify sha loads media later [] f = Inr result \<and>
    (\<exists>listing entries media_types bytes fields m cs. registry = Some listing \<and> loads listing = Some (JObj entries) \<and>
       obj_get entries ''media_types'' = JArr media_types \<and>
       f = Bytes bytes \<and> loads bytes = Some (JObj fields) \<and> run_manifest_from_dict fields = Inr m \<and>
       canonical_json_bytes (JObj (run_manifest_to_dict m)) = Inr bytes \<and>
       br_run_manifest_id result = sha256_content_id sha bytes \<and> br_run_id result = rm_run_id m \<and>
       list_all2 (checkpoint_at sha loads later (rm_run_id m)) (rm_checkpoint_refs m) cs \<and>
       (\<forall>r\<in>set (bundle_references m cs). \<exists>s content. ar_media_type r = JStr s \<and>
          registered_once other media_types s (ar_schema_id r) \<and> store_read sha later r = Inr content) \<and>
       br_verified_objects result = card (reference_key ` set (bundle_references m cs)) \<and>
       (cs \<noteq> [] \<longrightarrow> (\<exists>final\<in>set cs. (\<forall>c\<in>set cs. no_later c final) \<and> cm_processed_tokens final = rm_processed_tokens m \<and>
         verify_model_identity sha loads later final (rm_model_id m) = Inr ())))"
proof -
  obtain listing entries media_types where registry: "registry = Some listing" "loads listing = Some (JObj entries)"
      "obj_get entries ''media_types'' = JArr media_types"
    and once: "\<forall>s schema_id. map_of media s = Some (Some schema_id) \<longrightarrow> registered_once other media_types s schema_id"
    by (rule load_registry_Inr [OF assms(1)])
  obtain bytes fields m cs where passed: "bundle_verify sha loads media later [] f = Inr result"
      "f = Bytes bytes" "loads bytes = Some (JObj fields)" "run_manifest_from_dict fields = Inr m"
      "canonical_json_bytes (JObj (run_manifest_to_dict m)) = Inr bytes"
      "br_run_manifest_id result = sha256_content_id sha bytes" "br_run_id result = rm_run_id m"
      "list_all2 (checkpoint_at sha loads later (rm_run_id m)) (rm_checkpoint_refs m) cs"
    and refs: "\<forall>r\<in>set (bundle_references m cs). reference_ok sha media later r"
    and count: "br_verified_objects result = card (reference_key ` set (bundle_references m cs))"
    and final: "check_final sha loads later m cs = Inr ()"
    by (rule bundle_verify_Inr [OF assms(2,3)])
  have "\<exists>s content. ar_media_type r = JStr s \<and> registered_once other media_types s (ar_schema_id r) \<and> store_read sha later r = Inr content"
    if "r \<in> set (bundle_references m cs)" for r
    using refs that once unfolding reference_ok_def by blast
  with registry passed count check_final_Inr [OF final] show ?thesis by (intro conjI exI) auto
qed

theorem verified_bundle_complete_witness:
  "bundle_verify length_sha bundle_loads bundle_media bundle_disk [] (Bytes bundle_bytes)
     = Inr \<lparr>br_run_id = ''r1'', br_run_manifest_id = sha256_content_id length_sha bundle_bytes, br_verified_objects = 8\<rparr> \<and>
   (\<exists>m. canonical_json_bytes (JObj (run_manifest_to_dict m)) = Inr bundle_bytes \<and> rm_run_id m = ''r1'')"
  using verified_bundle_complete [OF bundle_registry bundle_verified rtranclp.rtrancl_refl] by auto

end
