(* ===== verification/Netem.thy ===== *)
theory Netem
  imports Local_Documents "HOL-Library.Product_Lexorder"
begin

text \<open>
  Network profiles (\<open>domain/network.py\<close>), the simulated faulty stream (\<open>adapters/netem/simulated.py\<close>) and the adapter for
  \<open>tc\<close> (\<open>adapters/netem/linux_tc.py\<close>).
\<close>

section \<open>Profiles\<close>

definition network_error :: "string \<Rightarrow> local_exn" where
  "network_error message = DeltaError INVALID_NETWORK_PROFILE message"

datatype fault_kind = FAULT_DELAY | FAULT_DELIVER | FAULT_DISCONNECT | FAULT_DROP | FAULT_REORDER | FAULT_TIMEOUT

fun fault_value :: "fault_kind \<Rightarrow> string" where
  "fault_value FAULT_DELAY = ''DELAY''"
| "fault_value FAULT_DELIVER = ''DELIVER''"
| "fault_value FAULT_DISCONNECT = ''DISCONNECT''"
| "fault_value FAULT_DROP = ''DROP''"
| "fault_value FAULT_REORDER = ''REORDER''"
| "fault_value FAULT_TIMEOUT = ''TIMEOUT''"

record disconnect_window =
  dw_start_ms :: int
  dw_end_ms :: int

definition init_disconnect_window :: "json \<Rightarrow> json \<Rightarrow> disconnect_window lresult" where
  "init_disconnect_window start_ms end_ms =
     (case (start_ms, end_ms) of
        (JInt s, JInt e) \<Rightarrow>
          if s < 0 \<or> e \<le> s then Inl (network_error ''disconnect window is invalid'') else Inr \<lparr>dw_start_ms = s, dw_end_ms = e\<rparr>
      | _ \<Rightarrow> Inl (network_error ''disconnect window is invalid''))"

definition disconnect_window_to_dict :: "disconnect_window \<Rightarrow> (string \<times> json) list" where
  "disconnect_window_to_dict w = [(''end_ms'', JInt (dw_end_ms w)), (''start_ms'', JInt (dw_start_ms w))]"

text \<open>\<open>profile_id\<close> is checked for its truth value and length only; \<open>schema_version\<close> has one accepted value.\<close>

record network_profile =
  np_profile_id :: json
  np_latency_ms :: int
  np_jitter_ms :: int
  np_bandwidth_bytes_per_second :: int
  np_loss_ppm :: int
  np_reorder_ppm :: int
  np_disconnect_windows :: "disconnect_window list"
  np_operation_deadline_ms :: int
  np_seed :: int

definition check_profile_identity :: "json \<Rightarrow> json \<Rightarrow> unit lresult" where
  "check_profile_identity version profile_id =
     (if version \<noteq> JStr ''1.0.0'' \<or> \<not> truthy profile_id then Inl (network_error ''network profile identity is invalid'')
      else (case py_len profile_id of
              None \<Rightarrow> Inl LocalTypeError
            | Some n \<Rightarrow> ensure (\<not> n > 128) (network_error ''network profile identity is invalid'')))"

definition profile_count :: "string \<Rightarrow> json \<Rightarrow> int lresult" where
  "profile_count name v = raise_none (network_error (name @ '' is invalid'')) (non_negative_int v)"

definition window_key :: "disconnect_window \<Rightarrow> int \<times> int" where
  "window_key w = (dw_start_ms w, dw_end_ms w)"

definition init_network_profile :: "(string \<times> json) list \<Rightarrow> disconnect_window list \<Rightarrow> network_profile lresult" where
  "init_network_profile kw windows =
     bindE (check_profile_identity (obj_get kw ''schema_version'') (obj_get kw ''profile_id'')) (\<lambda>_.
     bindE (profile_count ''jitter_ms'' (obj_get kw ''jitter_ms'')) (\<lambda>jitter.
     bindE (profile_count ''latency_ms'' (obj_get kw ''latency_ms'')) (\<lambda>latency.
     bindE (profile_count ''loss_ppm'' (obj_get kw ''loss_ppm'')) (\<lambda>loss.
     bindE (profile_count ''reorder_ppm'' (obj_get kw ''reorder_ppm'')) (\<lambda>reorder.
     bindE (profile_count ''seed'' (obj_get kw ''seed'')) (\<lambda>seed.
     bindE (raise_none (network_error ''network bounds are invalid'') (positive_int (obj_get kw ''bandwidth_bytes_per_second''))) (\<lambda>bandwidth.
     bindE (raise_none (network_error ''network bounds are invalid'') (positive_int (obj_get kw ''operation_deadline_ms''))) (\<lambda>deadline.
     bindE (ensure (\<not> loss > 1000000 \<and> \<not> reorder > 1000000) (network_error ''network bounds are invalid'')) (\<lambda>_.
     bindE (ensure (sort_key window_key windows = windows) (network_error ''disconnect windows are not sorted'')) (\<lambda>_.
     bindE (ensure (list_all (\<lambda>(prior, current). \<not> dw_start_ms current < dw_end_ms prior) (zip windows (tl windows)))
              (network_error ''disconnect windows overlap'')) (\<lambda>_.
     Inr \<lparr>np_profile_id = obj_get kw ''profile_id'', np_latency_ms = latency, np_jitter_ms = jitter,
          np_bandwidth_bytes_per_second = bandwidth, np_loss_ppm = loss, np_reorder_ppm = reorder, np_disconnect_windows = windows,
          np_operation_deadline_ms = deadline, np_seed = seed\<rparr>)))))))))))"

definition network_profile_to_dict :: "network_profile \<Rightarrow> (string \<times> json) list" where
  "network_profile_to_dict p =
     [(''bandwidth_bytes_per_second'', JInt (np_bandwidth_bytes_per_second p)),
      (''disconnect_windows'', JArr (map (\<lambda>w. JObj (disconnect_window_to_dict w)) (np_disconnect_windows p))),
      (''jitter_ms'', JInt (np_jitter_ms p)), (''latency_ms'', JInt (np_latency_ms p)), (''loss_ppm'', JInt (np_loss_ppm p)),
      (''operation_deadline_ms'', JInt (np_operation_deadline_ms p)), (''profile_id'', np_profile_id p),
      (''reorder_ppm'', JInt (np_reorder_ppm p)), (''schema_version'', JStr ''1.0.0''), (''seed'', JInt (np_seed p))]"

definition PROFILE_FIELDS :: "string list" where
  "PROFILE_FIELDS =
     [''bandwidth_bytes_per_second'', ''disconnect_windows'', ''jitter_ms'', ''latency_ms'', ''loss_ppm'', ''operation_deadline_ms'',
      ''profile_id'', ''reorder_ppm'', ''schema_version'', ''seed'']"

definition window_items :: "json \<Rightarrow> (string \<times> json) list list lresult" where
  "window_items v =
     (case v of
        JArr items \<Rightarrow>
          if list_all (\<lambda>item. is_obj item \<and> set (map fst (obj_fields item)) = {''end_ms'', ''start_ms''}) items
          then Inr (map obj_fields items) else Inl (network_error ''DISCONNECT_WINDOWS_INVALID'')
      | _ \<Rightarrow> Inl (network_error ''DISCONNECT_WINDOWS_INVALID''))"

definition network_profile_from_mapping :: "(string \<times> json) list \<Rightarrow> network_profile lresult" where
  "network_profile_from_mapping value =
     bindE (ensure (set (map fst value) = set PROFILE_FIELDS) (network_error ''NETWORK_PROFILE_FIELDS_INVALID'')) (\<lambda>_.
     bindE (window_items (obj_get value ''disconnect_windows'')) (\<lambda>items.
     on_type_error (network_error ''NETWORK_PROFILE_TYPE_INVALID'')
       (bindE (mapE (\<lambda>item. init_disconnect_window (obj_get item ''start_ms'') (obj_get item ''end_ms'')) items) (\<lambda>windows.
        init_network_profile value windows))))"

definition network_profile_from_json_file :: "(string \<Rightarrow> json option) \<Rightarrow> string option \<Rightarrow> network_profile lresult" where
  "network_profile_from_json_file loads content =
     (case content of
        None \<Rightarrow> Inl (network_error ''NETWORK_PROFILE_JSON_INVALID'')
      | Some bytes \<Rightarrow>
          (case loads bytes of
             None \<Rightarrow> Inl (network_error ''NETWORK_PROFILE_JSON_INVALID'')
           | Some (JObj value) \<Rightarrow> network_profile_from_mapping value
           | Some _ \<Rightarrow> Inl (network_error ''NETWORK_PROFILE_ROOT_INVALID'')))"

section \<open>The simulated stream\<close>

text \<open>\<open>digest\<close> is the binary SHA-256 of a byte string. \<open>int.to_bytes(8, "big")\<close> raises on an integer that does not fit.\<close>

fun big_endian :: "nat \<Rightarrow> nat \<Rightarrow> string" where
  "big_endian 0 n = []"
| "big_endian (Suc k) n = big_endian k (n div 256) @ [char_of (n mod 256)]"

definition to_bytes_8 :: "int \<Rightarrow> string lresult" where
  "to_bytes_8 i = (if 0 \<le> i \<and> i < 2 ^ 64 then Inr (big_endian 8 (nat i)) else Inl (OtherException ''OverflowError''))"

definition from_bytes_big :: "string \<Rightarrow> int" where
  "from_bytes_big bytes = foldl (\<lambda>acc c. acc * 256 + int (of_char c)) 0 bytes"

record delivery =
  dl_sequence :: int
  dl_sent_at_ms :: int
  dl_delivered_at_ms :: "int option"
  dl_payload :: "string option"
  dl_events :: "fault_kind list"

definition delivery_to_dict :: "(string \<Rightarrow> string) \<Rightarrow> delivery \<Rightarrow> (string \<times> json) list" where
  "delivery_to_dict sha x =
     [(''delivered_at_ms'', case dl_delivered_at_ms x of None \<Rightarrow> JNull | Some t \<Rightarrow> JInt t),
      (''events'', JArr (map (\<lambda>e. JStr (fault_value e)) (dl_events x))),
      (''payload_sha256'', case dl_payload x of None \<Rightarrow> JNull | Some bytes \<Rightarrow> JStr (sha bytes)),
      (''sent_at_ms'', JInt (dl_sent_at_ms x)), (''sequence'', JInt (dl_sequence x))]"

definition STREAM_DOMAIN :: string where
  "STREAM_DOMAIN = ''deltareduce.netem.v1'' @ [CHR 0x00]"

definition serialization_ms :: "network_profile \<Rightarrow> string \<Rightarrow> int" where
  "serialization_ms p payload =
     max 1 ((int (length payload) * 1000 + np_bandwidth_bytes_per_second p - 1) div np_bandwidth_bytes_per_second p)"

definition roll :: "string \<Rightarrow> nat \<Rightarrow> int" where
  "roll bytes i = from_bytes_big (take 4 (drop i bytes))"

definition jitter_of :: "network_profile \<Rightarrow> string \<Rightarrow> int" where
  "jitter_of p bytes = roll bytes 0 mod (2 * np_jitter_ms p + 1) - np_jitter_ms p"

definition lost :: "int \<Rightarrow> int \<Rightarrow> fault_kind list \<Rightarrow> delivery" where
  "lost sequence sent_at events =
     \<lparr>dl_sequence = sequence, dl_sent_at_ms = sent_at, dl_delivered_at_ms = None, dl_payload = None, dl_events = events\<rparr>"

text \<open>What happens to a frame that would arrive at \<open>arrival\<close>.\<close>

definition deliver :: "network_profile \<Rightarrow> string \<Rightarrow> string \<Rightarrow> int \<Rightarrow> int \<Rightarrow> int \<Rightarrow> delivery" where
  "deliver p bytes payload sequence sent_at arrival =
     (if list_ex (\<lambda>w. dw_start_ms w < arrival \<and> sent_at < dw_end_ms w) (np_disconnect_windows p)
      then lost sequence sent_at [FAULT_DISCONNECT]
      else if roll bytes 4 mod 1000000 < np_loss_ppm p then lost sequence sent_at [FAULT_DROP]
      else (let reordered = roll bytes 8 mod 1000000 < np_reorder_ppm p;
                arrival' = (if reordered then arrival + (np_latency_ms p + np_jitter_ms p + 1) else arrival);
                events = (if reordered then [FAULT_DELAY, FAULT_REORDER] else [FAULT_DELAY])
            in if arrival' - sent_at > np_operation_deadline_ms p then lost sequence sent_at (events @ [FAULT_TIMEOUT])
               else \<lparr>dl_sequence = sequence, dl_sent_at_ms = sent_at, dl_delivered_at_ms = Some arrival', dl_payload = Some payload,
                     dl_events = events @ [FAULT_DELIVER]\<rparr>))"

text \<open>The state of the stream is the time at which the link is free again.\<close>

definition transmit :: "(string \<Rightarrow> string) \<Rightarrow> network_profile \<Rightarrow> string \<Rightarrow> int \<Rightarrow> int \<Rightarrow> int \<Rightarrow> (delivery \<times> int) lresult" where
  "transmit digest p payload sequence sent_at available =
     bindE (ensure (\<not> (sequence < 0 \<or> sent_at < 0)) LocalValueError) (\<lambda>_.
     bindE (to_bytes_8 (np_seed p)) (\<lambda>seed_bytes.
     bindE (to_bytes_8 sequence) (\<lambda>sequence_bytes.
     (let bytes = digest (STREAM_DOMAIN @ seed_bytes @ sequence_bytes @ payload);
          start = max sent_at available;
          arrival = start + max 0 (np_latency_ms p + jitter_of p bytes) + serialization_ms p payload
      in Inr (deliver p bytes payload sequence sent_at arrival, start + serialization_ms p payload)))))"

fun transmit_frames :: "(string \<Rightarrow> string) \<Rightarrow> network_profile \<Rightarrow> int \<Rightarrow> (int \<times> string) list \<Rightarrow> int \<Rightarrow> (delivery list \<times> int) lresult" where
  "transmit_frames digest p sequence [] available = Inr ([], available)"
| "transmit_frames digest p sequence ((sent_at, payload) # frames) available =
     bindE (transmit digest p payload sequence sent_at available) (\<lambda>(x, available1).
     bindE (transmit_frames digest p (sequence + 1) frames available1) (\<lambda>(xs, available2).
     Inr (x # xs, available2)))"

definition delivery_key :: "delivery \<Rightarrow> bool \<times> int \<times> int" where
  "delivery_key x =
     (dl_delivered_at_ms x = None, case dl_delivered_at_ms x of None \<Rightarrow> 0 | Some t \<Rightarrow> t, dl_sequence x)"

definition transmit_stream :: "(string \<Rightarrow> string) \<Rightarrow> network_profile \<Rightarrow> (int \<times> string) list \<Rightarrow> int \<Rightarrow> (delivery list \<times> int) lresult" where
  "transmit_stream digest p frames available =
     bindE (transmit_frames digest p 0 frames available) (\<lambda>(xs, available'). Inr (sort_key delivery_key xs, available'))"

section \<open>The smoke command\<close>

definition smoke_frames :: "(int \<times> string) list" where
  "smoke_frames = map (\<lambda>index. (int index * 7, ''frame-'' @ nat_text index)) [0..<8]"

text \<open>The document that \<open>netem smoke\<close> prints; \<open>sha\<close> is the hexadecimal and \<open>digest\<close> the binary hash.\<close>

definition netem_smoke ::
  "(string \<Rightarrow> string) \<Rightarrow> (string \<Rightarrow> string) \<Rightarrow> (string \<Rightarrow> json option) \<Rightarrow> string option \<Rightarrow> (string \<times> json) list lresult" where
  "netem_smoke sha digest loads content =
     bindE (network_profile_from_json_file loads content) (\<lambda>p.
     bindE (transmit_stream digest p smoke_frames 0) (\<lambda>(schedule, _).
     (let items = map (\<lambda>x. JObj (delivery_to_dict sha x)) schedule
      in Inr [(''delivered'', JInt (int (length (filter (\<lambda>x. dl_payload x \<noteq> None) schedule)))), (''profile_id'', np_profile_id p),
              (''schedule'', JArr items), (''schedule_id'', JStr (''sha256:'' @ sha (dumps_sorted (JArr items)))),
              (''schema_version'', JStr ''1.0.0''), (''status'', JStr ''PASS'')])))"

section \<open>The adapter for tc\<close>

record tc_netem =
  tc_interface :: string
  tc_profile :: network_profile
  tc_active :: bool

definition interface_ok :: "string \<Rightarrow> bool" where
  "interface_ok s \<longleftrightarrow> 1 \<le> length s \<and> length s \<le> 32 \<and>
     list_all (\<lambda>c. c \<in> set ''ABCDEFGHIJKLMNOPQRSTUVWXYZabcdefghijklmnopqrstuvwxyz0123456789_.-'') s"

definition init_tc :: "string \<Rightarrow> network_profile \<Rightarrow> tc_netem lresult" where
  "init_tc interface p =
     (if interface_ok interface then Inr \<lparr>tc_interface = interface, tc_profile = p, tc_active = False\<rparr> else Inl LocalValueError)"

text \<open>\<open>ppm / 10000\<close> with four decimals.\<close>

definition percent_text :: "int \<Rightarrow> string" where
  "percent_text ppm =
     (let fraction = int_text (ppm mod 10000)
      in int_text (ppm div 10000) @ ''.'' @ replicate (4 - length fraction) (CHR ''0'') @ fraction @ ''%'')"

definition replace_command :: "tc_netem \<Rightarrow> string list" where
  "replace_command t =
     [''tc'', ''qdisc'', ''replace'', ''dev'', tc_interface t, ''root'', ''netem'', ''delay'', int_text (np_latency_ms (tc_profile t)) @ ''ms'',
      int_text (np_jitter_ms (tc_profile t)) @ ''ms'', ''loss'', percent_text (np_loss_ppm (tc_profile t)), ''rate'',
      int_text (np_bandwidth_bytes_per_second (tc_profile t) * 8) @ ''bit'']"

definition delete_command :: "tc_netem \<Rightarrow> string list" where
  "delete_command t = [''tc'', ''qdisc'', ''del'', ''dev'', tc_interface t, ''root'']"

text \<open>The platform and the runner of commands; a call of the runner returns a code or raises. The second result is the list of commands run.\<close>

record tc_host =
  th_system :: string
  th_tc_found :: bool
  th_root :: bool
  th_runner :: "string list \<Rightarrow> int lresult"

definition tc_enter :: "tc_host \<Rightarrow> tc_netem \<Rightarrow> unit lresult \<times> tc_netem \<times> string list list" where
  "tc_enter h t =
     (if th_system h \<noteq> ''Linux'' then (Inl (DeltaError NETEM_PLATFORM_UNSUPPORTED ''tc/netem requires Linux''), t, [])
      else if \<not> th_tc_found h then (Inl (DeltaError NETEM_TC_UNAVAILABLE ''tc executable not found''), t, [])
      else if \<not> th_root h then (Inl (DeltaError NETEM_PRIVILEGE_REQUIRED ''tc/netem requires root''), t, [])
      else (case th_runner h (replace_command t) of
              Inl e \<Rightarrow> (Inl e, t, [replace_command t])
            | Inr code \<Rightarrow>
                if code \<noteq> 0 then (Inl (OtherException ''RuntimeError''), t, [replace_command t])
                else (Inr (), t\<lparr>tc_active := True\<rparr>, [replace_command t])))"

definition tc_exit :: "tc_host \<Rightarrow> tc_netem \<Rightarrow> unit lresult \<times> tc_netem \<times> string list list" where
  "tc_exit h t =
     (if tc_active t
      then (case th_runner h (delete_command t) of
              Inl e \<Rightarrow> (Inl e, t, [delete_command t])
            | Inr _ \<Rightarrow> (Inr (), t\<lparr>tc_active := False\<rparr>, [delete_command t]))
      else (Inr (), t, []))"

end
