(* ===== verification/Netem_Theorems.thy ===== *)
theory Netem_Theorems
  imports Netem
begin

text \<open>What a network profile guarantees, and what the simulated stream does with frames.\<close>

section \<open>Profiles\<close>

definition windows_ok :: "disconnect_window list \<Rightarrow> bool" where
  "windows_ok ws \<longleftrightarrow> (\<forall>w\<in>set ws. 0 \<le> dw_start_ms w \<and> dw_start_ms w < dw_end_ms w) \<and>
     sorted_wrt (\<lambda>a b. dw_end_ms a \<le> dw_start_ms b) ws"

definition profile_ok :: "network_profile \<Rightarrow> bool" where
  "profile_ok p \<longleftrightarrow> 0 \<le> np_latency_ms p \<and> 0 \<le> np_jitter_ms p \<and> 0 < np_bandwidth_bytes_per_second p \<and>
     0 \<le> np_loss_ppm p \<and> np_loss_ppm p \<le> 1000000 \<and> 0 \<le> np_reorder_ppm p \<and> np_reorder_ppm p \<le> 1000000 \<and>
     0 < np_operation_deadline_ms p \<and> 0 \<le> np_seed p \<and> windows_ok (np_disconnect_windows p)"

lemma init_disconnect_window_Inr:
  "init_disconnect_window a b = Inr w \<longleftrightarrow> a = JInt (dw_start_ms w) \<and> b = JInt (dw_end_ms w) \<and> 0 \<le> dw_start_ms w \<and> dw_start_ms w < dw_end_ms w"
  unfolding init_disconnect_window_def by (cases w) (auto split: json.splits)

lemma profile_count_Inr [simp]: "profile_count name v = Inr i \<longleftrightarrow> v = JInt i \<and> 0 \<le> i"
  by (simp add: profile_count_def)

text \<open>Neighbours that do not overlap, each with a positive length, are all apart.\<close>

lemma windows_apart:
  assumes "\<forall>w\<in>set ws. dw_start_ms w < dw_end_ms w"
    and "list_all (\<lambda>(a, b). \<not> dw_start_ms b < dw_end_ms a) (zip ws (tl ws))"
  shows "sorted_wrt (\<lambda>a b. dw_end_ms a \<le> dw_start_ms b) ws"
  using assms
proof (induction ws)
  case (Cons a ws)
  show ?case
  proof (cases ws)
    case (Cons b rest)
    with Cons.prems Cons.IH have sorted: "sorted_wrt (\<lambda>a b. dw_end_ms a \<le> dw_start_ms b) ws"
      and ab: "dw_end_ms a \<le> dw_start_ms b" "dw_start_ms b < dw_end_ms b"
      by auto
    then show ?thesis using Cons by force
  qed simp
qed simp

lemma init_network_profile_Inr:
  "init_network_profile kw ws = Inr p \<longleftrightarrow>
     check_profile_identity (obj_get kw ''schema_version'') (np_profile_id p) = Inr () \<and> obj_get kw ''profile_id'' = np_profile_id p \<and>
     obj_get kw ''jitter_ms'' = JInt (np_jitter_ms p) \<and> 0 \<le> np_jitter_ms p \<and>
     obj_get kw ''latency_ms'' = JInt (np_latency_ms p) \<and> 0 \<le> np_latency_ms p \<and>
     obj_get kw ''loss_ppm'' = JInt (np_loss_ppm p) \<and> 0 \<le> np_loss_ppm p \<and> np_loss_ppm p \<le> 1000000 \<and>
     obj_get kw ''reorder_ppm'' = JInt (np_reorder_ppm p) \<and> 0 \<le> np_reorder_ppm p \<and> np_reorder_ppm p \<le> 1000000 \<and>
     obj_get kw ''seed'' = JInt (np_seed p) \<and> 0 \<le> np_seed p \<and>
     obj_get kw ''bandwidth_bytes_per_second'' = JInt (np_bandwidth_bytes_per_second p) \<and> 0 < np_bandwidth_bytes_per_second p \<and>
     obj_get kw ''operation_deadline_ms'' = JInt (np_operation_deadline_ms p) \<and> 0 < np_operation_deadline_ms p \<and>
     sort_key window_key ws = ws \<and> list_all (\<lambda>(a, b). \<not> dw_start_ms b < dw_end_ms a) (zip ws (tl ws)) \<and> np_disconnect_windows p = ws"
  unfolding init_network_profile_def by (cases p) (auto simp: bindE_eq_Inr not_less)

lemma network_profile_from_mapping_Inr:
  assumes "network_profile_from_mapping v = Inr p"
  shows "profile_ok p" and "network_profile_from_mapping (network_profile_to_dict p) = Inr p"
proof -
  from assms obtain items where
    windows: "mapE (\<lambda>item. init_disconnect_window (obj_get item ''start_ms'') (obj_get item ''end_ms'')) items = Inr (np_disconnect_windows p)"
    and init: "init_network_profile v (np_disconnect_windows p) = Inr p"
    unfolding network_profile_from_mapping_def by (auto simp: bindE_eq_Inr init_network_profile_Inr)
  have each: "\<forall>w\<in>set (np_disconnect_windows p). 0 \<le> dw_start_ms w \<and> dw_start_ms w < dw_end_ms w"
    using windows by (auto simp: mapE_eq_Inr_iff list_all2_conv_all_nth in_set_conv_nth init_disconnect_window_Inr)
  with init show "profile_ok p"
    using windows_apart [of "np_disconnect_windows p"] by (simp add: profile_ok_def windows_ok_def init_network_profile_Inr)
  have "obj_get v ''schema_version'' = JStr ''1.0.0''"
    using init by (auto simp: init_network_profile_Inr check_profile_identity_def split: if_splits)
  with init have again: "init_network_profile (network_profile_to_dict p) (np_disconnect_windows p) = Inr p"
    unfolding init_network_profile_Inr by (simp add: network_profile_to_dict_def)
  have "mapE (\<lambda>item. init_disconnect_window (obj_get item ''start_ms'') (obj_get item ''end_ms''))
      (map disconnect_window_to_dict (np_disconnect_windows p)) = Inr (np_disconnect_windows p)"
    using each by (auto simp: mapE_eq_Inr_iff list_all2_conv_all_nth init_disconnect_window_Inr disconnect_window_to_dict_def)
  moreover have "set (map fst (network_profile_to_dict p)) = set PROFILE_FIELDS"
    by (simp add: network_profile_to_dict_def PROFILE_FIELDS_def)
  moreover have "window_items (obj_get (network_profile_to_dict p) ''disconnect_windows'') = Inr (map disconnect_window_to_dict (np_disconnect_windows p))"
    by (simp add: network_profile_to_dict_def window_items_def list_all_iff disconnect_window_to_dict_def comp_def)
  ultimately show "network_profile_from_mapping (network_profile_to_dict p) = Inr p"
    using again by (simp add: network_profile_from_mapping_def del: set_map)
qed

section \<open>One frame\<close>

definition delivery_ok :: "network_profile \<Rightarrow> int \<times> string \<Rightarrow> int \<Rightarrow> delivery \<Rightarrow> bool" where
  "delivery_ok p frame sequence x \<longleftrightarrow> dl_sequence x = sequence \<and> dl_sent_at_ms x = fst frame \<and>
     (case dl_delivered_at_ms x of
        None \<Rightarrow> dl_payload x = None \<and> last (dl_events x) \<in> {FAULT_DISCONNECT, FAULT_DROP, FAULT_TIMEOUT}
      | Some t \<Rightarrow> dl_payload x = Some (snd frame) \<and> last (dl_events x) = FAULT_DELIVER \<and>
          fst frame + serialization_ms p (snd frame) \<le> t \<and> t \<le> fst frame + np_operation_deadline_ms p \<and>
          (FAULT_REORDER \<notin> set (dl_events x) \<longrightarrow>
             (\<forall>w\<in>set (np_disconnect_windows p). t \<le> dw_start_ms w \<or> dw_end_ms w \<le> fst frame)))"

lemma deliver_ok:
  assumes "profile_ok p" and "sent_at + serialization_ms p payload \<le> arrival"
  shows "delivery_ok p (sent_at, payload) sequence (deliver p bytes payload sequence sent_at arrival)"
proof (cases "list_ex (\<lambda>w. dw_start_ms w < arrival \<and> sent_at < dw_end_ms w) (np_disconnect_windows p)")
  case True
  then show ?thesis by (simp add: deliver_def delivery_ok_def lost_def)
next
  case False
  then have "\<forall>w\<in>set (np_disconnect_windows p). arrival \<le> dw_start_ms w \<or> dw_end_ms w \<le> sent_at"
    by (auto simp: list_ex_iff not_less)
  with False assms show ?thesis by (simp add: deliver_def delivery_ok_def lost_def Let_def profile_ok_def)
qed

lemma serialization_positive: "1 \<le> serialization_ms p payload"
  by (simp add: serialization_ms_def)

lemma transmit_total:
  assumes "profile_ok p" and "np_seed p < 2 ^ 64" and "0 \<le> sequence" and "sequence < 2 ^ 64" and "0 \<le> sent_at"
  obtains x where "transmit digest p payload sequence sent_at available = Inr (x, max sent_at available + serialization_ms p payload)"
    and "delivery_ok p (sent_at, payload) sequence x"
  using assms deliver_ok [OF assms(1)] unfolding transmit_def profile_ok_def to_bytes_8_def Let_def by force

text \<open>A profile may have a seed that does not fit into eight bytes; then no frame can be sent.\<close>

lemma transmit_wide_seed:
  "2 ^ 64 \<le> np_seed p \<Longrightarrow> \<exists>e. transmit digest p payload sequence sent_at available = Inl e"
  by (cases "sequence < 0 \<or> sent_at < 0") (simp_all add: transmit_def to_bytes_8_def)

section \<open>A stream of frames\<close>

lemma transmit_frames_total:
  assumes "profile_ok p" and "np_seed p < 2 ^ 64" and "0 \<le> sequence" and "sequence + int (length frames) \<le> 2 ^ 64"
    and "\<forall>frame\<in>set frames. 0 \<le> fst frame"
  shows "\<exists>xs available'. transmit_frames digest p sequence frames available = Inr (xs, available') \<and>
    length xs = length frames \<and> (\<forall>i<length frames. delivery_ok p (frames ! i) (sequence + int i) (xs ! i)) \<and>
    available + (\<Sum>frame\<leftarrow>frames. serialization_ms p (snd frame)) \<le> available'"
  using assms(3-)
proof (induction frames arbitrary: sequence available)
  case (Cons frame frames)
  obtain sent_at payload where frame: "frame = (sent_at, payload)" by (cases frame)
  from Cons.prems frame obtain x where x: "transmit digest p payload sequence sent_at available
      = Inr (x, max sent_at available + serialization_ms p payload)" "delivery_ok p (sent_at, payload) sequence x"
    using transmit_total [OF assms(1,2), of sequence sent_at digest payload available] by auto
  from Cons.IH [of "sequence + 1" "max sent_at available + serialization_ms p payload"] Cons.prems
  obtain xs available' where "transmit_frames digest p (sequence + 1) frames (max sent_at available + serialization_ms p payload) = Inr (xs, available')"
    "length xs = length frames" "\<forall>i<length frames. delivery_ok p (frames ! i) (sequence + 1 + int i) (xs ! i)"
    "max sent_at available + serialization_ms p payload + (\<Sum>frame\<leftarrow>frames. serialization_ms p (snd frame)) \<le> available'"
    by auto
  with x frame show ?case by (auto simp: less_Suc_eq_0_disj ac_simps)
qed simp

lemma transmit_stream_total:
  assumes "profile_ok p" and "np_seed p < 2 ^ 64" and "int (length frames) \<le> 2 ^ 64" and "\<forall>frame\<in>set frames. 0 \<le> fst frame"
  obtains xs available' where "transmit_stream digest p frames available = Inr (xs, available')" "sorted (map delivery_key xs)"
    "mset (map dl_sequence xs) = mset (map int [0..<length frames])"
    "\<forall>x\<in>set xs. \<exists>i<length frames. delivery_ok p (frames ! i) (int i) x"
    "available + (\<Sum>frame\<leftarrow>frames. serialization_ms p (snd frame)) \<le> available'"
proof -
  obtain ys available' where ys: "transmit_frames digest p 0 frames available = Inr (ys, available')" "length ys = length frames"
    "\<forall>i<length frames. delivery_ok p (frames ! i) (int i) (ys ! i)"
    "available + (\<Sum>frame\<leftarrow>frames. serialization_ms p (snd frame)) \<le> available'"
    using transmit_frames_total [OF assms(1,2), of 0 frames digest available] assms(3,4) by auto
  then have "map dl_sequence ys = map int [0..<length frames]" by (intro nth_equalityI) (simp_all add: delivery_ok_def)
  then have "mset (map dl_sequence (sort_key delivery_key ys)) = mset (map int [0..<length frames])" by (metis mset_map mset_sort)
  moreover have "\<forall>x\<in>set (sort_key delivery_key ys). \<exists>i<length frames. delivery_ok p (frames ! i) (int i) x"
  proof
    fix x
    assume "x \<in> set (sort_key delivery_key ys)"
    then obtain i where "i < length ys" "x = ys ! i" by (auto simp: in_set_conv_nth)
    then show "\<exists>i<length frames. delivery_ok p (frames ! i) (int i) x" using ys(2,3) by (intro exI [of _ i]) simp
  qed
  ultimately show thesis using ys(1,4) by (intro that [of "sort_key delivery_key ys"]) (simp_all add: transmit_stream_def)
qed

lemma netem_smoke_total:
  assumes "network_profile_from_json_file loads content = Inr p" and "np_seed p < 2 ^ 64"
  shows "\<exists>doc. netem_smoke sha digest loads content = Inr doc"
proof -
  from assms(1) obtain v where "network_profile_from_mapping v = Inr p"
    by (auto simp: network_profile_from_json_file_def split: option.splits json.splits)
  then have "profile_ok p" by (rule network_profile_from_mapping_Inr(1))
  moreover have "\<forall>frame\<in>set smoke_frames. 0 \<le> fst frame" "int (length smoke_frames) \<le> 2 ^ 64" by (simp_all add: smoke_frames_def)
  ultimately obtain xs available' where "transmit_stream digest p smoke_frames 0 = Inr (xs, available')"
    using transmit_stream_total [OF _ assms(2), of smoke_frames digest 0] by blast
  with assms(1) show ?thesis by (simp add: netem_smoke_def Let_def)
qed

section \<open>An example\<close>

text \<open>
  A hash of zeros, a link of one byte per millisecond, every frame reordered, no losses, and one window in which the link is
  down. Without jitter a frame sent at 0 arrives at 11 and is delayed to 22, inside the window.
\<close>

definition sample_profile :: network_profile where
  "sample_profile = \<lparr>np_profile_id = JStr ''p'', np_latency_ms = 10, np_jitter_ms = 0, np_bandwidth_bytes_per_second = 1000,
     np_loss_ppm = 0, np_reorder_ppm = 1000000, np_disconnect_windows = [\<lparr>dw_start_ms = 20, dw_end_ms = 30\<rparr>],
     np_operation_deadline_ms = 100, np_seed = 7\<rparr>"

definition zero_digest :: "string \<Rightarrow> string" where
  "zero_digest _ = replicate 32 (CHR 0x00)"

lemma sample_profile_read: "network_profile_from_mapping (network_profile_to_dict sample_profile) = Inr sample_profile"
  by code_simp

lemma reordered_into_window:
  "transmit zero_digest sample_profile ''a'' 0 0 0
     = Inr (\<lparr>dl_sequence = 0, dl_sent_at_ms = 0, dl_delivered_at_ms = Some 22, dl_payload = Some ''a'',
             dl_events = [FAULT_DELAY, FAULT_REORDER, FAULT_DELIVER]\<rparr>, 1) \<and>
   list_ex (\<lambda>w. dw_start_ms w < 22 \<and> 22 < dw_end_ms w) (np_disconnect_windows sample_profile)"
  by code_simp

section \<open>The adapter for tc\<close>

text \<open>A queueing discipline is installed only as the last step of a successful entry, and an exit removes it.\<close>

lemma tc_enter_active:
  assumes "tc_enter h t = (r, t', commands)" and "\<not> tc_active t"
  shows "tc_active t' \<longleftrightarrow> r = Inr ()" and "tc_interface t' = tc_interface t" and "set commands \<subseteq> {replace_command t}"
  using assms by (auto simp: tc_enter_def split: if_splits sum.splits)

lemma tc_round_trip:
  assumes "tc_enter h t = (Inr (), t1, commands)" and "tc_exit h t1 = (Inr (), t2, commands')"
  shows "commands = [replace_command t] \<and> commands' = [delete_command t] \<and> t2 = t\<lparr>tc_active := False\<rparr>"
  using assms by (auto simp: tc_enter_def tc_exit_def delete_command_def split: if_splits sum.splits)

section \<open>The stream\<close>

text \<open>
  C40: On a profile that was read from a document, with a seed of eight bytes, a stream of frames with nonnegative times
  is always transmitted. The schedule has one entry per frame, ordered by arrival with the lost frames at the
  end; a frame that arrives has its own payload, arrives after its serialization and within the deadline, and, unless it
  was reordered, was not under way in a disconnect window; a lost one names its fault. The link is busy for the
  sum of the serialization times.
\<close>

theorem stream_schedule_sound:
  assumes "network_profile_from_mapping v = Inr p" and "np_seed p < 2 ^ 64" and "int (length frames) \<le> 2 ^ 64"
    and "\<forall>frame\<in>set frames. 0 \<le> fst frame"
  shows "\<exists>xs available'. transmit_stream digest p frames available = Inr (xs, available') \<and> sorted (map delivery_key xs) \<and>
    mset (map dl_sequence xs) = mset (map int [0..<length frames]) \<and>
    (\<forall>x\<in>set xs. \<exists>i<length frames. delivery_ok p (frames ! i) (int i) x) \<and>
    available + (\<Sum>frame\<leftarrow>frames. serialization_ms p (snd frame)) \<le> available'"
  by (rule transmit_stream_total [OF network_profile_from_mapping_Inr(1) [OF assms(1)] assms(2-4)]) blast

theorem stream_schedule_sound_witness:
  "\<exists>xs available'. transmit_stream zero_digest sample_profile [(0, ''a''), (0, ''bc''), (25, ''d'')] 0 = Inr (xs, available') \<and>
    mset (map dl_sequence xs) = {#0, 1, 2#} \<and> 4 \<le> available'"
proof -
  have "\<forall>frame\<in>set [(0, ''a''), (0, ''bc''), (25 :: int, ''d'')]. 0 \<le> fst frame" "np_seed sample_profile < 2 ^ 64"
    by (simp_all add: sample_profile_def)
  from stream_schedule_sound [OF sample_profile_read this(2) _ this(1), of zero_digest 0]
  show ?thesis by (auto simp: serialization_ms_def sample_profile_def upt_rec)
qed

end
