(* ===== verification/Spec2Isabelle.thy ===== *)
theory Spec2Isabelle
  imports Ledger_Theorems Queue_Theorems Boundary_Theorems Gate_Theorems Worker_Theorems End_To_End
    Host_Theorems Wire_Theorems Local_Theorems Bundle_Theorems Netem_Theorems
begin

text \<open>
  Verification of DeltaTorrent: the live execution path, that is the controller
  (\<open>src/delta-controller-python/src/deltacontroller\<close>) and the live worker
  (\<open>src/delta-worker-python/src/deltatorrent\<close>), and the offline training round of the worker.

  \<^bold>\<open>The program.\<close>  An operator submits an \<^emph>\<open>intent\<close>, a JSON document that names a model, a dataset, a
  scope and the resources it asks for.  The gate (\<open>gate.py\<close>) parses it (\<open>ingress.py\<close>), authenticates the
  caller and evaluates roles (\<open>auth.py\<close>, \<open>runtime_config.py\<close>), checks it against the frozen catalog
  (\<open>catalog.py\<close>) and the quota (\<open>quota.py\<close>), reserves the intent in the ledger and a slot of the
  dispatch port, writes and signs an \<^emph>\<open>admission\<close>, commits it durably (\<open>idempotency.py\<close>) and only then
  dispatches the bundle of intent and admission (\<open>dispatch.py\<close>).  The port runs the worker in process,
  or queues the bundle for a worker process.  The worker trusts nothing: it checks digests, signature,
  times, scope and grants with code of its own (\<open>live_execution/crypto.py\<close>, \<open>preflight.py\<close>), runs one
  workload through a closed dispatch table (\<open>live_execution/dispatch.py\<close>, \<open>process.py\<close>,
  \<open>model_plugins/runner.py\<close>) and returns a result with a receipt.  The controller validates the result
  and moves the execution to a terminal status in the ledger.  Every event is written to a redacted
  audit log (\<open>audit.py\<close>).  All of this runs behind an HTTP host (\<open>http_host.py\<close>) that offers the
  operations of the application (\<open>application.py\<close>) to a browser or a script; the process is built from a
  deployment descriptor (\<open>runtime_config.py\<close>) by \<open>host.py\<close>, which also stops it.

  Beside the live path the worker runs an \<^emph>\<open>offline round\<close> for a ticket (\<open>domain/tickets.py\<close>): it resolves the
  ticket against the artifact store (\<open>worker/validation.py\<close>), claims it (\<open>worker/repository.py\<close>), trains for the
  number of optimizer steps of the ticket (\<open>training/local_round.py\<close>), publishes tensors, a completion and a
  candidate as immutable artifacts (\<open>worker/update_writer.py\<close>, \<open>artifacts/filesystem.py\<close>), verifies what it
  published and records the outcome, which any later run on the ticket returns (\<open>worker/engine.py\<close>).  The bundle
  of a baseline run, a run manifest with its checkpoints and artifacts in the same store, is checked by a verifier
  (\<open>artifacts/verifier.py\<close>) against the registry of media types.  A network with faults is emulated by a seeded
  stream (\<open>adapters/netem/simulated.py\<close>) or by \<open>tc\<close> (\<open>linux_tc.py\<close>), both after a profile (\<open>domain/network.py\<close>).

  \<^bold>\<open>Theories.\<close>
  \<^item> \<open>Prelude\<close>: the exception monad \<open>bindE\<close>, \<open>ensure\<close>, \<open>forE\<close>, \<open>mapE\<close>, Python dicts as association lists.
    \<open>Transition_System\<close>: the locales \<open>invariant_system\<close>, \<open>growing_system\<close>, \<open>replayed_system\<close>.
  \<^item> \<open>Errors\<close> (both \<open>errors.py\<close>): the exception types with their codes, categories and retry flags.
  \<^item> \<open>Json\<close>: the values of Python's \<open>json\<close> module, \<open>dict\<close> access and Python's \<open>==\<close>.
    \<open>Canonical\<close> (\<open>canonical.py\<close>): canonical text, digests, signing payloads.  \<open>Schema\<close> (\<open>schema.py\<close>).
  \<^item> \<open>Ledger\<close>, \<open>Ledger_Ops\<close> (\<open>idempotency.py\<close>): \<open>LedgerRecord\<close> and \<open>IdempotencyLedger\<close> as records, one
    definition per method (\<open>acquire_pass\<close> and \<open>acquire_or_check\<close>, \<open>commit_admission\<close>,
    \<open>transition_execution\<close>, \<open>update_execution\<close>, \<open>release_reservation\<close>, \<open>active_count\<close>, \<open>init_ledger\<close>).
    \<open>Ledger_Inv\<close>, \<open>Ledger_Steps\<close>, \<open>Ledger_Quota\<close>, \<open>Ledger_Replay\<close>: the ledger as a transition system,
    its invariant, its history, the concurrency limit, and that a restart reads back what was committed.
  \<^item> \<open>Auth\<close> (\<open>auth.py\<close>, the token authenticator of \<open>runtime_config.py\<close>), \<open>Catalog_Quota\<close>
    (\<open>catalog.py\<close>, \<open>quota.py\<close>), \<open>Ingress\<close> (\<open>ingress.py\<close>, \<open>status.py\<close>), \<open>Audit_Log\<close> (\<open>audit.py\<close>).
  \<^item> \<open>Gate\<close> (\<open>gate.py\<close>): \<open>admit_and_dispatch\<close> as the sequence of its critical sections over the shared
    \<open>world\<close>; \<open>get_status\<close>, \<open>get_receipt\<close>.  \<open>Gate_Props\<close>: the locale \<open>dispatch_port_contract\<close>, what the
    gate relies on in a port.  \<open>Gate_Steps\<close>: every effect of the gate is a run of ledger operations.
    \<open>Gate_Outcomes\<close>: what one undisturbed call leaves behind.
  \<^item> \<open>Dispatch_Queue\<close> (\<open>dispatch.py\<close>): the recording port, the process runner and the bounded queue.
    \<open>Queue_Inv\<close>: the queue under interleaving.  \<open>Queue_Progress\<close>: that executions end.
    \<open>Integrated_Port\<close> (\<open>dispatch.py\<close>): the port that runs the worker in process.
  \<^item> \<open>Worker_Crypto\<close>, \<open>Ed25519\<close> (\<open>live_execution/crypto.py\<close>), \<open>Worker_Preflight\<close>
    (\<open>live_execution/preflight.py\<close>), \<open>Model_Registry\<close> (\<open>model_plugins/base.py\<close>, \<open>registry.py\<close>,
    \<open>data/base.py\<close>, \<open>registry.py\<close>), \<open>Model_Runner\<close> (\<open>model_plugins/runner.py\<close>), \<open>Worker_Dispatch\<close>
    (\<open>live_execution/dispatch.py\<close>, \<open>process.py\<close>).
  \<^item> \<open>Url_Split\<close>: what the source uses of \<open>urllib.parse\<close>.  \<open>Runtime_Config\<close> (\<open>runtime_config.py\<close>): the
    descriptor, the signing identity with the worker's trust roots, the lease of the data directory.
    \<open>Application\<close> (\<open>application.py\<close>).  \<open>Http_Host\<close> (\<open>http_host.py\<close>, the request handler): one
    definition per method, \<open>serve\<close> is a whole request.  \<open>Http_Server\<close> (\<open>http_host.py\<close>, the server): request slots and
    deadlines, with the step relation \<open>server_step\<close> of its threads.  \<open>Host\<close> (\<open>host.py\<close>): the start from the
    command line to the constructed parts, and the order of the shutdown.  \<open>Http_Props\<close>, \<open>Host_Props\<close>: what
    requests can cause, what responses carry, what a loaded descriptor and a constructed application guarantee.
  \<^item> \<open>Codec\<close>: JSON text with sorted keys, hexadecimal and decimal text.  \<open>Fixed_Point\<close>
    (\<open>reference/fixedpoint_encoder.py\<close>): rationals, quantisation, payloads, envelopes and the Merkle root.
    \<open>Fixed_Point_Props\<close>: the locale \<open>fixed_width_format\<close> for the fields of \<open>struct.pack\<close> with its three
    interpretations, rounding to even, and the binding of each level of the tree.
  \<^item> \<open>Local_Domain\<close> (\<open>domain/errors.py\<close>, \<open>manifests.py\<close>, \<open>planes.py\<close>, \<open>tickets.py\<close>, \<open>worker_state.py\<close>,
    \<open>protocol/canonical.py\<close>), \<open>Local_Updates\<close> (\<open>domain/parameters.py\<close>, \<open>updates.py\<close>): the documents of a round,
    each with its constructor (\<open>init_\<dots>\<close>), \<open>to_dict\<close> and \<open>from_dict\<close>.  \<open>Local_Documents\<close>: that they can be read back.
  \<^item> \<open>Local_Store\<close> (\<open>artifacts/filesystem.py\<close>, \<open>worker/repository.py\<close>): artifacts, claims and outcomes as one
    \<open>disk\<close>, with \<open>disk_step\<close> for what any process does to it.  \<open>Local_Training\<close> (\<open>training/config.py\<close>, \<open>data.py\<close>,
    \<open>token_accounting.py\<close>, \<open>local_round.py\<close>, \<open>worker/telemetry.py\<close>): configuration, tokenizer, sampler, ledger of
    optimizer steps, one step with its roll back.  \<open>Local_Training_Props\<close>: that the counters agree.
  \<^item> \<open>Local_Engine\<close> (\<open>worker/validation.py\<close>, \<open>update_writer.py\<close>, \<open>engine.py\<close>, \<open>delta/normalization.py\<close>): resolution,
    publication, verification and \<open>run\<close>.  \<open>Local_Engine_Props\<close>: the locale \<open>round_guarantee\<close>, what holds of every
    operation holds of a run, with the steps of the disk as its first interpretation.  \<open>Local_Publication\<close>: what
    is published and that candidates appear last, the second interpretation.  \<open>Local_Outcomes\<close>: what the
    results of a run mean.  \<open>Local_Samples\<close>: a completed and a cancelled round, evaluated.
  \<^item> \<open>Run_Manifests\<close> (\<open>domain/manifests.py\<close>, \<open>formal_compat.py\<close>): checkpoint and run manifests, the formal registry.
    \<open>Manifest_Round_Trip\<close>: that manifests can be read back.  \<open>Bundle_Verifier\<close> (\<open>artifacts/verifier.py\<close>): the
    registry of media types, references, checkpoints, and \<open>bundle_verify\<close> for \<open>BundleVerifier.verify\<close>.
    \<open>Bundle_Sample\<close>: a completed run with one checkpoint, evaluated.
  \<^item> \<open>Netem\<close> (\<open>domain/network.py\<close>, \<open>adapters/netem/simulated.py\<close>, \<open>linux_tc.py\<close>, \<open>cli/netem.py\<close>): profiles, the
    simulated stream with the time its link is free again as its state, the adapter for \<open>tc\<close>.
  \<^item> The properties are in \<open>Ledger_Theorems\<close>, \<open>Queue_Theorems\<close>, \<open>Boundary_Theorems\<close>, \<open>Gate_Theorems\<close>,
    \<open>Worker_Theorems\<close>, \<open>Host_Theorems\<close>, \<open>Wire_Theorems\<close>, \<open>Local_Theorems\<close>, \<open>Bundle_Theorems\<close>,
    \<open>Netem_Theorems\<close> and, for the two programs together, \<open>End_To_End\<close>; \<open>Samples\<close> and \<open>Gate_Samples\<close> hold the concrete runs they are applied to.

  \<^bold>\<open>How effects are modelled.\<close>  Exceptions are values (\<open>Inl\<close>).  State is passed explicitly: a
  critical section under a lock is one definition that returns its result and the new state, and a call
  with several critical sections takes what the other threads do between them as an argument
  (\<open>ge_others\<close>, \<open>qe_others\<close>, \<open>en_others\<close>, the schedule of \<open>acquire_or_check\<close>); the step relations \<open>ledger_step\<close>,
  \<open>gated_step\<close>, \<open>queue_step\<close>, \<open>server_step\<close> and \<open>disk_step\<close> range over all interleavings.  Clock readings, fresh identifiers,
  outcomes of appends to the ledger file and observations of a worker process are arguments too.  A
  loop that waits is a recursion over the list of what each turn observes; an exhausted list gives
  \<open>None\<close>, and the termination theorems state that a list that shows the deadline passed gives a
  result.  No other fuel is used: every other function is total.

  \<^bold>\<open>Parameters.\<close>  SHA-256, SHA-512, the signing key's signature, the JSON schema validator
  (\<open>jsonschema\<close>), \<open>json.loads\<close>, the date parser and printer, the regular expressions of the audit log
  and the numerical work of plugins and dataset providers are arguments; so are, in \<open>tensor_ops\<close> and
  \<open>trainer\<close>, what an offline round asks of torch and safetensors.  What a theorem needs of them is one
  of its hypotheses: that a date reads back as it was written, that signing and verifying
  agree, that a schema demands the fields the code reads.  No theorem assumes that a hash has no
  collisions.

  \<^bold>\<open>What is shown.\<close>
  \<^item> The ledger: one execution per intent identity and per digest; committed executions survive a
    restart; identities are fixed; statuses follow the legal transitions and terminal records are immutable; the
    concurrency limit holds although check and commit are separate; a failed append poisons the ledger
    and every operation then fails closed; a crash during a commit loses or keeps the whole record.
  \<^item> The gate: a refused call leaves no trace; the bundle reaches the port only after the durable
    commit; a resubmission changes nothing; only the owner reads; the prepared admission always commits.
  \<^item> The queue: slots are conserved under every interleaving; every started job ends in a terminal
    status; the recovery leaves no orphan; only bound results are accepted; supervision ends.
  \<^item> The boundary: the canonical text determines the document; both sides compute the same digests
    without floats (and different ones with floats); what ingress, roles, catalog and grants accept.
  \<^item> The worker: what passes the preflight is authorised; signatures are not malleable by the group
    order; cache keys stay below the root.
  \<^item> Both together: every bundle the gate prepares passes the worker's preflight, and every result the
    worker gives for it passes the validation of the queue.
  \<^item> The host: a request has an effect only after every check, responses are sound, static files stay below
    their directory, request slots are conserved, a confirmed cancellation is durable, a loaded
    descriptor is within its bounds, and the parts the start builds satisfy what the other theorems assume of
    a deployment.
  \<^item> The wire format: quantisation rounds to nearest with ties to even, payloads, envelopes and rationals can be
    read back, and the Merkle root binds the shard table up to collisions of the hash.
  \<^item> The offline round: an optimizer step is counted as a whole or not at all; the sampler draws every sample once an
    epoch; a published round took exactly its steps, consumed its data and stays verifiable; a failed round
    leaves no candidate; every run is a sequence of steps of the disk that change no file; a ticket is claimed once
    and replayed afterwards; the documents can be read back.  A completion left by another worker strands its
    ticket.
  \<^item> The bundle: what passes the verifier is complete, its objects are registered exactly once and counted once, its
    last checkpoint agrees with the manifest, and it passes again on every later state of the disk.
  \<^item> The network: windows of an accepted profile are apart; the simulated stream returns for every frame one entry in
    the order of arrival, within deadline and, unless reordered, outside the windows in which the link is down.

  \<^bold>\<open>Not modelled.\<close>  Sockets, the parsing of HTTP messages by \<open>http.server\<close>, the TLS handshake, logging; arithmetic on
  tensors, the models and their optimizer, checkpoints of the standalone baseline, dataset files and their
  decoding (numpy, torch); the QLoRA profile and the WAN benchmark, which measure hardware and recorded evidence; the
  command lines of the worker; build and evidence scripts; free-form texts of error
  messages.
\<close>

end
